(* ===== verification/MP_Prelude.thy ===== *)
theory MP_Prelude
  imports Main "HOL-Library.Word" "HOL-Library.Sublist" "HOL-Library.Monad_Syntax"
begin

text \<open>
  Shared ground of the development: the theorem collections the component proofs draw on,
  C++ integer conventions (truncating division, narrowing of a 64-bit \<open>Odr_int\<close> to
  \<open>int\<close>), splitting of strings at a separator, and generic facts about lists and
  options that several components use.
\<close>

named_theorems mp_defs \<open>definitions of small operations that component proofs unfold\<close>
named_theorems mp_frame \<open>fields an operation leaves unchanged\<close>

subsection \<open>C++ integers\<close>

text \<open>
  \<open>Odr_int\<close> (64 bit) and \<open>int\<close> (32 bit) values are mathematical integers where the
  code only compares, adds or multiplies values in range; signed overflow is undefined
  behaviour in C++ and has no meaning to model. Where a 64-bit value is stored in an
  \<open>int\<close> the narrowing is written out with \<open>to_int32\<close>.
\<close>

definition to_int32 :: "int \<Rightarrow> int" where
  "to_int32 x = (x + 2 ^ 31) mod 2 ^ 32 - 2 ^ 31"

lemma to_int32_id [simp]:
  assumes "- (2 ^ 31) \<le> x" and "x < 2 ^ 31"
  shows "to_int32 x = x"
  using assms by (simp add: to_int32_def)

lemma to_int32_range: "- (2 ^ 31) \<le> to_int32 x \<and> to_int32 x < 2 ^ 31"
proof -
  have "0 \<le> (x + 2 ^ 31) mod 2 ^ 32" and "(x + 2 ^ 31) mod 2 ^ 32 < (2 ^ 32 :: int)"
    by simp_all
  then show ?thesis by (simp add: to_int32_def)
qed

text \<open>C++ integer division truncates towards zero.\<close>

definition c_div :: "int \<Rightarrow> int \<Rightarrow> int" where
  "c_div a b = (let q = \<bar>a\<bar> div \<bar>b\<bar> in if (a < 0) = (b < 0) then q else - q)"

lemma c_div_nonneg [simp]: "0 \<le> a \<Longrightarrow> 0 < b \<Longrightarrow> c_div a b = a div b"
  by (simp add: c_div_def)

lemma c_div_lower: "0 \<le> a \<Longrightarrow> 0 < b \<Longrightarrow> 0 \<le> c_div a b"
  by (simp add: pos_imp_zdiv_nonneg_iff)

lemma mult_div_le_int:
  fixes a b :: int
  assumes "0 < b"
  shows "b * (a div b) \<le> a"
  using pos_mod_sign [OF assms, of a] mult_div_mod_eq [of b a] by linarith

subsection \<open>Lists and strings\<close>

text \<open>
  Splitting at a separator: the loop of \<open>strchr\<close> calls in the sources, and
  \<open>boost::split\<close> with a single separator. The empty string gives one empty item.
\<close>

fun split_at :: "'a \<Rightarrow> 'a list \<Rightarrow> 'a list list" where
  "split_at c [] = [[]]"
| "split_at c (x # xs) =
     (if x = c then [] # split_at c xs
      else (case split_at c xs of [] \<Rightarrow> [[x]] | y # ys \<Rightarrow> (x # y) # ys))"

fun join_with :: "'a \<Rightarrow> 'a list list \<Rightarrow> 'a list" where
  "join_with c [] = []"
| "join_with c [x] = x"
| "join_with c (x # y # ys) = x @ c # join_with c (y # ys)"

lemma split_at_not_Nil [simp]: "split_at c xs \<noteq> []"
  by (cases xs) (auto split: list.splits)

lemma join_with_head_cons: "join_with c ((x # y) # ys) = x # join_with c (y # ys)"
  by (cases ys) simp_all

lemma join_with_Nil_head: "ys \<noteq> [] \<Longrightarrow> join_with c ([] # ys) = c # join_with c ys"
  by (cases ys) simp_all

lemma join_split [simp]: "join_with c (split_at c xs) = xs"
  by (induction xs) (auto simp: join_with_head_cons join_with_Nil_head split: list.splits)

lemma split_at_items: "\<forall>item \<in> set (split_at c xs). c \<notin> set item"
  by (induction xs) (auto split: list.splits)

lemma length_split_at: "length (split_at c xs) = Suc (length (filter ((=) c) xs))"
proof (induction xs)
  case (Cons x xs)
  then show ?case by (cases "split_at c xs") auto
qed simp

lemma split_at_join:
  "xs \<noteq> [] \<Longrightarrow> \<forall>x \<in> set xs. c \<notin> set x \<Longrightarrow> split_at c (join_with c xs) = xs"
proof (induction xs)
  case (Cons x xs)
  have one: "split_at c (y @ zs) = (y @ hd (split_at c zs)) # tl (split_at c zs)" if "c \<notin> set y" for y zs
    using that by (induction y) (auto simp: neq_Nil_conv split: list.split)
  show ?case
  proof (cases xs)
    case Nil
    with Cons.prems one [of x "[]"] show ?thesis by simp
  next
    case (Cons y ys)
    with Cons.IH Cons.prems one [of x "c # join_with c xs"] show ?thesis by simp
  qed
qed simp

text \<open>The characters of a C string.\<close>

abbreviation is_c_char :: "char \<Rightarrow> bool" where "is_c_char c \<equiv> c \<noteq> CHR 0x00"

text \<open>\<open>strchr\<close> as the code uses it: the text before and after the first occurrence.\<close>

definition strchr_split :: "char \<Rightarrow> string \<Rightarrow> (string \<times> string) option" where
  "strchr_split c s =
     (if c \<in> set s then Some (takeWhile (\<lambda>x. x \<noteq> c) s, tl (dropWhile (\<lambda>x. x \<noteq> c) s)) else None)"

lemma strchr_split_length: "strchr_split c s = Some (a, b) \<Longrightarrow> length b < length s"
proof -
  assume *: "strchr_split c s = Some (a, b)"
  then have "dropWhile (\<lambda>x. x \<noteq> c) s \<noteq> []" by (auto simp: strchr_split_def split: if_splits)
  then have "length (tl (dropWhile (\<lambda>x. x \<noteq> c) s)) < length (dropWhile (\<lambda>x. x \<noteq> c) s)" by simp
  also have "\<dots> \<le> length s" by (rule length_dropWhile_le)
  finally show ?thesis using * by (auto simp: strchr_split_def split: if_splits)
qed

lemma strchr_split_append:
  "c \<notin> set a \<Longrightarrow> strchr_split c (a @ c # b) = Some (a, b)"
  by (simp add: strchr_split_def takeWhile_append dropWhile_append)

lemma filter_take_Suc:
  assumes "i < length xs"
  shows "filter P (take (Suc i) xs) = filter P (take i xs) @ (if P (xs ! i) then [xs ! i] else [])"
  using assms by (simp add: take_Suc_conv_app_nth)

lemma map_option_SomeD: "map_option f x = Some y \<Longrightarrow> \<exists>z. x = Some z \<and> y = f z"
  by (cases x) auto

lemma find_NoneI: "(\<And>x. x \<in> set xs \<Longrightarrow> \<not> P x) \<Longrightarrow> find P xs = None"
  by (induction xs) auto

lemma find_SomeD: "find P xs = Some x \<Longrightarrow> x \<in> set xs \<and> P x"
  by (induction xs) (auto split: if_splits)

text \<open>The position of the first element that has a property.\<close>

fun find_pos :: "('a \<Rightarrow> bool) \<Rightarrow> 'a list \<Rightarrow> nat option" where
  "find_pos P [] = None"
| "find_pos P (x # xs) = (if P x then Some 0 else map_option Suc (find_pos P xs))"

lemma find_pos_Some: "find_pos P xs = Some k \<Longrightarrow> k < length xs \<and> P (xs ! k) \<and> (\<forall>j < k. \<not> P (xs ! j))"
  by (induction xs arbitrary: k) (auto split: if_splits simp: less_Suc_eq_0_disj)

lemma find_pos_None: "find_pos P xs = None \<longleftrightarrow> (\<forall>x \<in> set xs. \<not> P x)"
  by (induction xs) auto

text \<open>Erasing the element at an iterator.\<close>

definition erase_at :: "nat \<Rightarrow> 'a list \<Rightarrow> 'a list" where
  "erase_at k xs = take k xs @ drop (Suc k) xs"

lemma set_erase_at: "set (erase_at k xs) \<subseteq> set xs"
  unfolding erase_at_def using set_take_subset set_drop_subset by fastforce

lemma map_erase_at: "map f (erase_at k xs) = erase_at k (map f xs)"
  by (simp add: erase_at_def take_map drop_map)

lemma distinct_erase_at:
  assumes "distinct xs" and "k < length xs"
  shows "distinct (erase_at k xs) \<and> xs ! k \<notin> set (erase_at k xs)"
proof -
  have "xs = take k xs @ xs ! k # drop (Suc k) xs" using assms(2) by (rule id_take_nth_drop)
  then have "distinct (take k xs @ xs ! k # drop (Suc k) xs)" using assms(1) by metis
  then show ?thesis by (simp add: erase_at_def)
qed

text \<open>Decimal numbers, as \<open>boost::format\<close> and the stream operators write them.\<close>

fun show_nat :: "nat \<Rightarrow> string" where
  "show_nat n = (if n < 10 then [char_of (48 + n)] else show_nat (n div 10) @ [char_of (48 + n mod 10)])"

declare show_nat.simps [simp del]

definition show_int :: "int \<Rightarrow> string" where
  "show_int i = (if i < 0 then CHR ''-'' # show_nat (nat (- i)) else show_nat (nat i))"

fun read_nat :: "nat \<Rightarrow> string \<Rightarrow> nat" where
  "read_nat acc [] = acc"
| "read_nat acc (c # cs) = read_nat (acc * 10 + (of_char c - 48)) cs"

lemma read_nat_append: "read_nat acc (xs @ ys) = read_nat (read_nat acc xs) ys"
  by (induction xs arbitrary: acc) auto

lemma read_show_nat [simp]: "read_nat 0 (show_nat n) = n"
proof (induction n rule: show_nat.induct)
  case (1 n)
  have "(of_char (char_of (48 + m) :: char) :: nat) = 48 + m" if "m < 10" for m
    using that by simp
  with 1 show ?case by (subst show_nat.simps) (simp add: read_nat_append)
qed

lemma show_nat_inject [simp]: "show_nat m = show_nat n \<longleftrightarrow> m = n"
  by (metis read_show_nat)

lemma show_nat_digits: "c \<in> set (show_nat n) \<Longrightarrow> 48 \<le> (of_char c :: nat) \<and> (of_char c :: nat) \<le> 57"
proof (induction n rule: show_nat.induct)
  case (1 n)
  then show ?case by (subst (asm) show_nat.simps) (auto split: if_splits)
qed

end
