(* ===== verification/MP_Protocol.thy ===== *)
theory MP_Protocol
  imports MP_Prelude
begin

text \<open>
  The protocol data units the filters exchange, with the fields the modelled code reads or
  writes. The C structs are declared by the YAZ toolkit, outside this repository: their
  defaults and the functions that work on them are the fields of the parameter record
  \<open>yaz\<close>, never definitions of this development. A pointer that may be null is an
  \<open>option\<close>; a pointer the protocol makes mandatory is its value; an ODR bit mask is the
  set of its bits; data no modelled line looks into is kept as an octet string.
\<close>

type_synonym octets = string
type_synonym odr_mask = "nat set"

datatype yaz_oid = oid_userinfo_proxy | oid_userinfo_client_ip | oid_other string

record Z_OtherInfoUnit =
  oiu_oid :: yaz_oid
  oiu_category :: int
  oiu_string :: string

type_synonym Z_OtherInformation = "Z_OtherInfoUnit list"

subsection \<open>Diagnostics and records\<close>

datatype Z_Addinfo = v2Addinfo string | v3Addinfo string

record Z_DefaultDiagFormat =
  diag_condition :: int
  diag_addinfo :: Z_Addinfo

datatype Z_DiagnosticFormat_s =
    DiagnosticFormat_s_defaultDiagRec Z_DefaultDiagFormat
  | DiagnosticFormat_s_other octets

datatype Z_External =
    External_octet octets octets
  | External_sutrs octets
  | External_diag1 "Z_DiagnosticFormat_s list"
  | External_userInfo1 "Z_OtherInfoValue list"
  | External_other octets
and Z_OtherInfoValue =
    OtherInfo_externallyDefinedInfo "Z_External option"
  | OtherInfo_other octets

datatype Z_DiagRec = DiagRec_defaultFormat Z_DefaultDiagFormat | DiagRec_external octets

text \<open>\<open>External_octet\<close> has the direct reference, an object identifier in dotted form, and the octets.\<close>

datatype Z_NPRecord =
    NPR_databaseRecord Z_External
  | NPR_surrogateDiagnostic Z_DiagRec
  | NPR_other octets

text \<open>Holdings of an OPAC record, with the fields the code sets to a value.\<close>

record Z_CircRecord =
  circ_availableNow :: bool
  circ_itemId :: string
  circ_renewable :: bool
  circ_onHold :: bool

record Z_HoldingsAndCircData =
  hc_typeOfRecord :: string
  hc_encodingLevel :: string
  hc_receiptAcqStatus :: string
  hc_dateOfReport :: string
  hc_nucCode :: string
  hc_localLocation :: string
  hc_callNumber :: string
  hc_shelvingData :: string
  hc_copyNumber :: string
  hc_circulationData :: "Z_CircRecord list"

record Z_OPACRecord =
  opac_bibliographicRecord :: Z_External
  opac_holdingsData :: "Z_HoldingsAndCircData list"

record Z_NamePlusRecord =
  npr_databaseName :: "string option"
  npr_record :: Z_NPRecord

datatype Z_Records =
    Records_DBOSD "Z_NamePlusRecord list"
  | Records_NSD Z_DefaultDiagFormat
  | Records_multipleNSD "Z_DiagRec list"

datatype Z_ElementSetNames = ESN_generic string | ESN_databaseSpecific octets

datatype Z_ElementSpec = ElementSpec_elementSetName string | ElementSpec_external octets

record Z_CompSpec =
  comp_generic :: "Z_ElementSpec option option"
  comp_other :: octets

datatype Z_RecordComposition =
    RecordComp_simple Z_ElementSetNames
  | RecordComp_complex Z_CompSpec

subsection \<open>Queries\<close>

datatype Z_Operand = Operand_attributesPlusTerm octets | Operand_resultSetId string

datatype Z_RPNStructure =
    RPN_simple Z_Operand
  | RPN_complex octets Z_RPNStructure Z_RPNStructure

datatype Z_Query =
    Query_type_1 Z_RPNStructure
  | Query_type_101 Z_RPNStructure
  | Query_other octets

subsection \<open>APDUs\<close>

text \<open>\<open>idPass\<close> has the group, the user and the password.\<close>

datatype Z_IdAuthentication =
    IdAuthentication_open string
  | IdAuthentication_idPass "string option" "string option" "string option"
  | IdAuthentication_other octets

record Z_InitRequest =
  irq_referenceId :: "octets option"
  irq_protocolVersion :: odr_mask
  irq_options :: odr_mask
  irq_preferredMessageSize :: int
  irq_maximumRecordSize :: int
  irq_idAuthentication :: "Z_IdAuthentication option"
  irq_implementationId :: "string option"
  irq_implementationName :: "string option"
  irq_implementationVersion :: "string option"
  irq_otherInfo :: Z_OtherInformation

record Z_InitResponse =
  irs_referenceId :: "octets option"
  irs_protocolVersion :: odr_mask
  irs_options :: odr_mask
  irs_preferredMessageSize :: int
  irs_maximumRecordSize :: int
  irs_result :: bool
  irs_implementationId :: "string option"
  irs_implementationName :: "string option"
  irs_implementationVersion :: "string option"
  irs_userInformationField :: "Z_External option"

record Z_SearchRequest =
  srq_referenceId :: "octets option"
  srq_smallSetUpperBound :: int
  srq_largeSetLowerBound :: int
  srq_mediumSetPresentNumber :: int
  srq_replaceIndicator :: bool
  srq_resultSetName :: string
  srq_databaseNames :: "string list"
  srq_smallSetElementSetNames :: "Z_ElementSetNames option"
  srq_mediumSetElementSetNames :: "Z_ElementSetNames option"
  srq_preferredRecordSyntax :: "octets option"
  srq_query :: Z_Query
  srq_additionalSearchInfo :: "Z_OtherInformation option"

record Z_SearchResponse =
  srs_referenceId :: "octets option"
  srs_resultCount :: int
  srs_numberOfRecordsReturned :: int
  srs_nextResultSetPosition :: int
  srs_searchStatus :: bool
  srs_records :: "Z_Records option"
  srs_additionalSearchInfo :: "Z_OtherInformation option"

record Z_PresentRequest =
  prq_referenceId :: "octets option"
  prq_resultSetId :: string
  prq_resultSetStartPoint :: int
  prq_numberOfRecordsRequested :: int
  prq_recordComposition :: "Z_RecordComposition option"
  prq_preferredRecordSyntax :: "octets option"

record Z_PresentResponse =
  prs_referenceId :: "octets option"
  prs_numberOfRecordsReturned :: int
  prs_nextResultSetPosition :: int
  prs_presentStatus :: int
  prs_records :: "Z_Records option"
  prs_otherInfo :: "Z_OtherInformation option"

datatype Z_Term = Term_general octets | Term_other octets

record Z_TermInfo =
  ti_term :: Z_Term
  ti_globalOccurrences :: "int option"

datatype Z_Entry = Entry_termInfo Z_TermInfo | Entry_surrogateDiagnostic Z_DiagRec

record Z_ListEntries =
  le_entries :: "Z_Entry list option"
  le_nonsurrogateDiagnostics :: "Z_DiagRec list option"

record Z_ScanRequest =
  scq_referenceId :: "octets option"
  scq_databaseNames :: "string list"
  scq_attributeSet :: "octets option"
  scq_termListAndStartPoint :: octets
  scq_stepSize :: "int option"
  scq_numberOfTermsRequested :: int
  scq_preferredPositionInResponse :: "int option"

record Z_ScanResponse =
  scs_referenceId :: "octets option"
  scs_stepSize :: "int option"
  scs_scanStatus :: int
  scs_numberOfEntriesReturned :: int
  scs_positionOfTerm :: "int option"
  scs_entries :: "Z_ListEntries option"

record Z_Close =
  close_referenceId :: "octets option"
  close_closeReason :: int
  close_diagnosticInformation :: "string option"

text \<open>
  The remaining APDU kinds the code names, of which it reads the reference identifier only,
  and the kinds it does not name.
\<close>

datatype apdu_kind =
    deleteResultSetRequest | deleteResultSetResponse
  | accessControlRequest | accessControlResponse
  | resourceControlRequest | resourceControlResponse
  | triggerResourceControlRequest
  | resourceReportRequest | resourceReportResponse
  | sortRequest | sortResponse
  | segmentRequest
  | extendedServicesRequest | extendedServicesResponse

datatype Z_APDU =
    APDU_initRequest Z_InitRequest
  | APDU_initResponse Z_InitResponse
  | APDU_searchRequest Z_SearchRequest
  | APDU_searchResponse Z_SearchResponse
  | APDU_presentRequest Z_PresentRequest
  | APDU_presentResponse Z_PresentResponse
  | APDU_scanRequest Z_ScanRequest
  | APDU_scanResponse Z_ScanResponse
  | APDU_close Z_Close
  | APDU_kind apdu_kind "octets option" octets
  | APDU_unknown octets

subsection \<open>HTTP and the general data unit\<close>

record Z_HTTP_Header =
  hdr_name :: "string option"
  hdr_value :: "string option"

record Z_HTTP_Request =
  hrq_method :: string
  hrq_version :: string
  hrq_path :: string
  hrq_headers :: "Z_HTTP_Header list"
  hrq_content :: octets

record Z_HTTP_Response =
  hrs_code :: int
  hrs_version :: string
  hrs_headers :: "Z_HTTP_Header list"
  hrs_content :: octets

datatype Z_GDU =
    GDU_Z3950 Z_APDU
  | GDU_HTTP_Request Z_HTTP_Request
  | GDU_HTTP_Response Z_HTTP_Response

subsection \<open>Protocol constants\<close>

text \<open>Constants of the Z39.50 standard and of the Bib-1 diagnostic set the sources name.\<close>

abbreviation (input) Z_Options_search :: nat where "Z_Options_search \<equiv> 0"
abbreviation (input) Z_Options_present :: nat where "Z_Options_present \<equiv> 1"
abbreviation (input) Z_Options_scan :: nat where "Z_Options_scan \<equiv> 7"
abbreviation (input) Z_Options_namedResultSets :: nat where "Z_Options_namedResultSets \<equiv> 14"
abbreviation (input) Z_Options_stringSchema :: nat where "Z_Options_stringSchema \<equiv> 21"
abbreviation (input) Z_ProtocolVersion_1 :: nat where "Z_ProtocolVersion_1 \<equiv> 0"
abbreviation (input) Z_ProtocolVersion_2 :: nat where "Z_ProtocolVersion_2 \<equiv> 1"
abbreviation (input) Z_ProtocolVersion_3 :: nat where "Z_ProtocolVersion_3 \<equiv> 2"
abbreviation (input) Z_PresentStatus_failure :: int where "Z_PresentStatus_failure \<equiv> 5"
abbreviation (input) Z_Scan_failure :: int where "Z_Scan_failure \<equiv> 6"
abbreviation (input) Z_Close_finished :: int where "Z_Close_finished \<equiv> 0"
abbreviation (input) Z_Close_lackOfActivity :: int where "Z_Close_lackOfActivity \<equiv> 7"
abbreviation (input) Z_Close_peerAbort :: int where "Z_Close_peerAbort \<equiv> 8"
abbreviation (input) Z_Close_systemProblem :: int where "Z_Close_systemProblem \<equiv> 2"
abbreviation (input) Z_Close_protocolError :: int where "Z_Close_protocolError \<equiv> 6"
abbreviation (input) BIB1_TEMPORARY_SYSTEM_ERROR :: int where "BIB1_TEMPORARY_SYSTEM_ERROR \<equiv> 2"
abbreviation (input) BIB1_PRESENT_REQUEST_OUT_OF_RANGE :: int where
  "BIB1_PRESENT_REQUEST_OUT_OF_RANGE \<equiv> 13"
abbreviation (input) BIB1_RESULT_SET_EXISTS_AND_REPLACE_INDICATOR_OFF :: int where
  "BIB1_RESULT_SET_EXISTS_AND_REPLACE_INDICATOR_OFF \<equiv> 21"
abbreviation (input) BIB1_COMBI_OF_SPECIFIED_DATABASES_UNSUPP :: int where
  "BIB1_COMBI_OF_SPECIFIED_DATABASES_UNSUPP \<equiv> 23"
abbreviation (input) BIB1_SPECIFIED_RESULT_SET_DOES_NOT_EXIST :: int where
  "BIB1_SPECIFIED_RESULT_SET_DOES_NOT_EXIST \<equiv> 30"
abbreviation (input) BIB1_DATABASE_DOES_NOT_EXIST :: int where "BIB1_DATABASE_DOES_NOT_EXIST \<equiv> 235"
abbreviation (input) BIB1_ACCESS_TO_SPECIFIED_DATABASE_DENIED :: int where
  "BIB1_ACCESS_TO_SPECIFIED_DATABASE_DENIED \<equiv> 236"

abbreviation (input) BIB1_RECORD_SYNTAX_UNSUPP :: int where "BIB1_RECORD_SYNTAX_UNSUPP \<equiv> 239"
abbreviation (input) BIB1_RESULT_SET_NAMING_UNSUPP :: int where "BIB1_RESULT_SET_NAMING_UNSUPP \<equiv> 22"
abbreviation (input) BIB1_SPECIFIED_ELEMENT_SET_NAME_NOT_VALID_FOR_SPECIFIED :: int where
  "BIB1_SPECIFIED_ELEMENT_SET_NAME_NOT_VALID_FOR_SPECIFIED \<equiv> 25"
abbreviation (input) BIB1_INIT_AC_AUTHENTICATION_SYSTEM_ERROR :: int where
  "BIB1_INIT_AC_AUTHENTICATION_SYSTEM_ERROR \<equiv> 1014"
abbreviation (input) recsyn_usmarc :: octets where "recsyn_usmarc \<equiv> ''1.2.840.10003.5.10''"
abbreviation (input) recsyn_opac :: octets where "recsyn_opac \<equiv> ''1.2.840.10003.5.102''"
abbreviation (input) recsyn_xml :: octets where "recsyn_xml \<equiv> ''1.2.840.10003.5.109.10''"

text \<open>A plain text record.\<close>

abbreviation text_record :: "octets \<Rightarrow> Z_NPRecord" where
  "text_record s \<equiv> NPR_databaseRecord (External_sutrs s)"

subsection \<open>The YAZ toolkit as a parameter\<close>

text \<open>
  Every YAZ function a modelled line calls is a field of this record. \<open>cs_get_host_args\<close>
  gives the index of the separator in front of the arguments of a target URL (the C function
  returns the pointer behind it). \<open>yaz_oi_get_string_oid\<close> returns the string and the
  information left (the delete flag of the C function removes the unit).
\<close>

record yaz =
  yaz_match_glob :: "string \<Rightarrow> string \<Rightarrow> bool"
  cs_get_host_args :: "string \<Rightarrow> nat option"
  yaz_oi_get_string_oid ::
    "Z_OtherInformation \<Rightarrow> yaz_oid \<Rightarrow> int \<Rightarrow> bool \<Rightarrow> string option \<times> Z_OtherInformation"
  yaz_oi_set_string_oid :: "Z_OtherInformation \<Rightarrow> yaz_oid \<Rightarrow> int \<Rightarrow> string \<Rightarrow> Z_OtherInformation"
  zget_initRequest :: Z_InitRequest
  zget_initResponse :: Z_InitResponse
  zget_searchRequest :: Z_SearchRequest
  zget_searchResponse :: Z_SearchResponse
  zget_presentRequest :: Z_PresentRequest
  zget_presentResponse :: Z_PresentResponse
  zget_scanResponse :: Z_ScanResponse
  zget_close :: Z_Close
  zget_DefaultDiagFormat :: "int \<Rightarrow> string option \<Rightarrow> Z_DefaultDiagFormat"
  zget_DiagRec :: "int \<Rightarrow> string option \<Rightarrow> Z_DiagRec"
  zget_init_diagnostics :: "int \<Rightarrow> string option \<Rightarrow> Z_External"
  yaz_decode_init_diag :: "Z_InitResponse \<Rightarrow> Z_DefaultDiagFormat option"
  diagbib1_str :: "int \<Rightarrow> string"
  zget_surrogateDiagRec :: "string option \<Rightarrow> int \<Rightarrow> string option \<Rightarrow> Z_NamePlusRecord"
  z_ext_record_usmarc :: "octets \<Rightarrow> Z_External"
  z_ext_record_xml :: "octets \<Rightarrow> Z_External"
  z_ext_record_sutrs :: "octets \<Rightarrow> Z_External"
  z_ext_record_opac :: "Z_OPACRecord \<Rightarrow> Z_External"
  BIB1_ONLY_A_SINGLE_ELEMENT_SET_NAME_SUPPORTED :: int
  odr_prepend :: "string \<Rightarrow> string option \<Rightarrow> string option"
  yaz_rpnquery_to_wrbuf :: "Z_RPNStructure \<Rightarrow> string"
  yaz_pqf_parse :: "string \<Rightarrow> Z_RPNStructure option"
  z_HTTP_header_lookup :: "Z_HTTP_Header list \<Rightarrow> string \<Rightarrow> string option"
  z_HTTP_header_add :: "Z_HTTP_Header list \<Rightarrow> string \<Rightarrow> string \<Rightarrow> Z_HTTP_Header list"
  z_get_HTTP_Response_server :: "int \<Rightarrow> string option \<Rightarrow> Z_HTTP_Response"

end
