(* ===== verification/MP_Core.thy ===== *)
theory MP_Core
  imports MP_Protocol
begin

text \<open>
  The backbone of the proxy: sessions and their identifiers (\<open>include/metaproxy/session.hpp\<close>),
  the origin of a package (\<open>src/origin.cpp\<close>), packages (\<open>src/package.cpp\<close>) and the
  chain of filters a package travels (\<open>src/router_chain.cpp\<close>).
\<close>

section \<open>Sessions\<close>

record session =
  m_id :: "64 word"
  m_close :: bool

text \<open>
  The process-wide state filters share. It is an extensible record: a downstream part of the
  filter chain may keep more in it.
\<close>

record world =
  m_global_id :: "64 word"

definition Session_new :: "'w world_scheme \<Rightarrow> session \<times> 'w world_scheme" where
  "Session_new w =
     (let g = m_global_id w + 1
      in (\<lparr>m_id = g, m_close = False\<rparr>, w\<lparr>m_global_id := g\<rparr>))"

definition Session_less :: "session \<Rightarrow> session \<Rightarrow> bool" where
  "Session_less s t = (if m_id s < m_id t then True else False)"

definition Session_close :: "session \<Rightarrow> session" where
  "Session_close s = s\<lparr>m_close := True\<rparr>"

definition Session_eq :: "session \<Rightarrow> session \<Rightarrow> bool" where
  "Session_eq s t = (m_id t = m_id s)"


text \<open>
  \<open>session_map\<close> and every \<open>std::map<Session, T>\<close> of the filters order their keys
  by \<open>Session_less\<close>, so a key is the identifier of the session.
\<close>

type_synonym 'v session_map = "64 word \<rightharpoonup> 'v"

definition session_map_create :: "'v session_map \<Rightarrow> 'v \<Rightarrow> session \<Rightarrow> 'v session_map" where
  "session_map_create m t s = m(m_id s \<mapsto> t)"

definition session_map_release :: "'v session_map \<Rightarrow> session \<Rightarrow> 'v session_map" where
  "session_map_release m s = m(m_id s := None)"

definition session_map_exist :: "'v session_map \<Rightarrow> session \<Rightarrow> bool" where
  "session_map_exist m s = (case m (m_id s) of None \<Rightarrow> False | Some _ \<Rightarrow> True)"

text \<open>A run of constructor calls: the sessions created one after the other.\<close>

fun Session_new_n :: "nat \<Rightarrow> 'w world_scheme \<Rightarrow> session list \<times> 'w world_scheme" where
  "Session_new_n 0 w = ([], w)"
| "Session_new_n (Suc n) w =
     (let (s, w') = Session_new w; (ss, w'') = Session_new_n n w' in (s # ss, w''))"

section \<open>Origin of a package\<close>

record origin =
  m_address :: string
  m_origin_id :: "32 word"
  m_max_sockets :: int
  m_custom_session :: string

definition Origin_new :: origin where
  "Origin_new = \<lparr>m_address = [], m_origin_id = 0, m_max_sockets = 0, m_custom_session = []\<rparr>"

definition Origin_set_max_sockets :: "origin \<Rightarrow> int \<Rightarrow> origin" where
  "Origin_set_max_sockets ori n = ori\<lparr>m_max_sockets := n\<rparr>"

definition Origin_set_custom_session :: "origin \<Rightarrow> string \<Rightarrow> origin" where
  "Origin_set_custom_session ori s = ori\<lparr>m_custom_session := s\<rparr>"

text \<open>\<open>None\<close> is the failed assertion that the first address names peer and bind address.\<close>

definition Origin_set_tcpip_address :: "origin \<Rightarrow> string \<Rightarrow> 64 word \<Rightarrow> origin option" where
  "Origin_set_tcpip_address ori addr s =
     (let tmp = m_address ori in
      if length tmp \<noteq> 0
      then Some (ori\<lparr>m_address := addr @ '' '' @ tmp, m_origin_id := ucast s\<rparr>)
      else if CHR '' '' \<in> set addr
      then Some (ori\<lparr>m_address := addr, m_origin_id := ucast s\<rparr>)
      else None)"

text \<open>\<open>std::string::rfind\<close>: index of the last occurrence.\<close>

fun rfind_char :: "char \<Rightarrow> string \<Rightarrow> nat option" where
  "rfind_char c [] = None"
| "rfind_char c (x # xs) =
     (case rfind_char c xs of
        Some i \<Rightarrow> Some (Suc i)
      | None \<Rightarrow> if x = c then Some 0 else None)"

definition Origin_get_forward_address :: "origin \<Rightarrow> string" where
  "Origin_get_forward_address ori = takeWhile (\<lambda>c. c \<noteq> CHR '' '') (m_address ori)"

definition Origin_get_address :: "origin \<Rightarrow> string" where
  "Origin_get_address ori =
     (let a = m_address ori in
      case rfind_char (CHR '' '') a of
        None \<Rightarrow> a
      | Some pos2 \<Rightarrow>
          if pos2 > 0
          then (case rfind_char (CHR '' '') (take pos2 a) of
                  Some pos1 \<Rightarrow> take (pos2 - pos1 - 1) (drop (pos1 + 1) a)
                | None \<Rightarrow> take pos2 a)
          else a)"

definition Origin_get_bind_address :: "origin \<Rightarrow> string" where
  "Origin_get_bind_address ori =
     (let a = m_address ori in
      case rfind_char (CHR '' '') a of
        None \<Rightarrow> a
      | Some pos2 \<Rightarrow> if pos2 > 0 then drop (pos2 + 1) a else a)"

section \<open>Packages and filters\<close>

text \<open>
  A package carries its own copy of the session (closing it does not close the session of the
  package it was made from), the origin, the request and the response. The route position is
  not a field: moving a package on is the continuation a filter is given.
\<close>

record package =
  pkg_session :: session
  pkg_origin :: origin
  pkg_request :: "Z_GDU option"
  pkg_response :: "Z_GDU option"

definition Package_new :: "session \<Rightarrow> origin \<Rightarrow> package" where
  "Package_new s ori =
     \<lparr>pkg_session = s, pkg_origin = ori, pkg_request = None, pkg_response = None\<rparr>"

abbreviation is_closed :: "package \<Rightarrow> bool" where
  "is_closed p \<equiv> m_close (pkg_session p)"

definition close_session :: "package \<Rightarrow> package" where
  "close_session p = p\<lparr>pkg_session := Session_close (pkg_session p)\<rparr>"

text \<open>
  \<open>'w move_fn\<close> is \<open>Package::move(route)\<close>: the processing of a package by everything
  behind the current route position, which may change the shared world. The empty route
  name is the default. A filter is the function \<open>filter::Base::process\<close>, given the rest
  of the chain.
\<close>

type_synonym 'w move_fn = "string \<Rightarrow> package \<Rightarrow> 'w world_scheme \<Rightarrow> package \<times> 'w world_scheme"
type_synonym 'w filter_fn = "'w move_fn \<Rightarrow> package \<Rightarrow> 'w world_scheme \<Rightarrow> package \<times> 'w world_scheme"

section \<open>The chain router\<close>

text \<open>
  A position is a list iterator: the index of the next filter, or \<open>None\<close> for
  \<open>end()\<close>. An iterator that reached the end stays there when filters are appended later.
\<close>

type_synonym chain_pos = "nat option"

definition RouterChain_append :: "'f list \<Rightarrow> 'f \<Rightarrow> 'f list" where
  "RouterChain_append fs f = fs @ [f]"

definition RouterChain_createpos :: "'f list \<Rightarrow> chain_pos" where
  "RouterChain_createpos fs = (if fs = [] then None else Some 0)"

definition Pos_move :: "'f list \<Rightarrow> string \<Rightarrow> chain_pos \<Rightarrow> 'f option \<times> chain_pos" where
  "Pos_move fs route it =
     (case it of
        None \<Rightarrow> (None, None)
      | Some i \<Rightarrow> (Some (fs ! i), if Suc i < length fs then Some (Suc i) else None))"

definition Pos_clone :: "chain_pos \<Rightarrow> chain_pos" where
  "Pos_clone it = it"

text \<open>\<open>start()\<close> and \<open>stop(signo)\<close> visit every filter of the list in order.\<close>

fun RouterChain_foreach :: "('f \<Rightarrow> 's \<Rightarrow> 's) \<Rightarrow> 'f list \<Rightarrow> 's \<Rightarrow> 's" where
  "RouterChain_foreach act [] s = s"
| "RouterChain_foreach act (f # fs) s = RouterChain_foreach act fs (act f s)"

text \<open>
  \<open>Package::move\<close> over a position: take the next filter and run it on the package with
  the rest of the chain as its continuation; at the end of the chain nothing happens.
\<close>

function Package_move :: "'w filter_fn list \<Rightarrow> chain_pos \<Rightarrow> 'w move_fn" where
  "Package_move fs it route p w =
     (case Pos_move fs route it of
        (None, _) \<Rightarrow> (p, w)
      | (Some f, it') \<Rightarrow> f (\<lambda>r p w. Package_move fs it' r p w) p w)"
  by pat_completeness auto
termination
proof (relation "measure (\<lambda>(fs, it, _). case it of None \<Rightarrow> 0 | Some i \<Rightarrow> Suc (length fs - i))")
qed (auto simp: Pos_move_def split: option.splits if_splits)



declare Package_move.simps [simp del]

section \<open>Properties of sessions\<close>

lemma m_global_id_Session_new [mp_frame]:
  "m_global_id (snd (Session_new w)) = m_global_id w + 1"
  by (simp add: Session_new_def Let_def)

lemma m_id_Session_new: "m_id (fst (Session_new w)) = m_global_id w + 1"
  by (simp add: Session_new_def Let_def)

lemma Session_new_open [simp]: "\<not> m_close (fst (Session_new w))"
  by (simp add: Session_new_def Let_def)

lemma Session_close_simps [simp]:
  "m_id (Session_close s) = m_id s" "m_close (Session_close s)"
  by (simp_all add: Session_close_def)

lemma Session_new_n_ids:
  "map m_id (fst (Session_new_n n w)) = map (\<lambda>i. m_global_id w + of_nat (Suc i)) [0..<n]"
proof (induction n arbitrary: w)
  case (Suc n)
  obtain s w' where sw: "Session_new w = (s, w')" by fastforce
  have g: "m_global_id w' = m_global_id w + 1" "m_id s = m_global_id w + 1"
    using m_global_id_Session_new [of w] m_id_Session_new [of w] sw by simp_all
  have "map m_id (fst (Session_new_n (Suc n) w)) = m_id s # map m_id (fst (Session_new_n n w'))"
    by (simp add: sw split: prod.splits)
  also have "\<dots> = (m_global_id w + of_nat (Suc 0))
      # map (\<lambda>i. m_global_id w + of_nat (Suc i)) (map Suc [0..<n])"
    using Suc.IH [of w'] g by (simp add: comp_def add.assoc)
  also have "\<dots> = map (\<lambda>i. m_global_id w + of_nat (Suc i)) [0..<Suc n]"
    by (simp only: map_Suc_upt list.map(2) upt_conv_Cons zero_less_Suc)
  finally show ?case .
qed simp

lemma inj_on_of_nat_word64: "inj_on (of_nat :: nat \<Rightarrow> 64 word) {..<2 ^ 64}"
proof (rule inj_onI)
  fix i j :: nat
  assume ij: "i \<in> {..<2 ^ 64}" "j \<in> {..<2 ^ 64}" and eq: "(of_nat i :: 64 word) = of_nat j"
  have "unat (of_nat i :: 64 word) = unat (of_nat j :: 64 word)" using eq by simp
  with ij show "i = j" by (simp add: unat_of_nat)
qed

lemma distinct_word64_run:
  assumes "n \<le> 2 ^ 64"
  shows "distinct (map (\<lambda>i. (g :: 64 word) + of_nat (Suc i)) [0..<n])"
proof -
  have "inj_on (\<lambda>i. g + (of_nat (Suc i) :: 64 word)) {0..<n}"
  proof (rule inj_onI)
    fix i j
    assume "i \<in> {0..<n}" "j \<in> {0..<n}" "g + (of_nat (Suc i) :: 64 word) = g + of_nat (Suc j)"
    then have "(of_nat i :: 64 word) = of_nat j" "i < 2 ^ 64" "j < 2 ^ 64"
      using assms by auto
    then show "i = j" using inj_on_of_nat_word64 by (auto dest: inj_onD)
  qed
  then show ?thesis by (simp add: distinct_map)
qed

section \<open>Tables keyed by sessions\<close>

locale session_table =
  fixes create :: "'m \<Rightarrow> 'v \<Rightarrow> session \<Rightarrow> 'm"
    and release :: "'m \<Rightarrow> session \<Rightarrow> 'm"
    and exist :: "'m \<Rightarrow> session \<Rightarrow> bool"
  assumes exist_create: "exist (create m t s) s' \<longleftrightarrow> m_id s = m_id s' \<or> exist m s'"
    and exist_release: "exist (release m s) s' \<longleftrightarrow> m_id s \<noteq> m_id s' \<and> exist m s'"
begin

lemma release_create_other:
  "m_id s \<noteq> m_id s' \<Longrightarrow> exist (release (create m t s) s') u = exist (create (release m s') t s) u"
  by (auto simp: exist_create exist_release)

lemma release_after_create: "\<not> exist (release (create m t s) s) s"
  by (simp add: exist_release)

end

interpretation smap: session_table session_map_create session_map_release session_map_exist
  by unfold_locales
     (auto simp: session_map_create_def session_map_release_def session_map_exist_def
           split: option.splits)

section \<open>Properties of origins\<close>

lemma rfind_char_None: "c \<notin> set xs \<Longrightarrow> rfind_char c xs = None"
  by (induction xs) auto

lemma rfind_char_last: "c \<notin> set ys \<Longrightarrow> rfind_char c (xs @ c # ys) = Some (length xs)"
  by (induction xs) (simp_all add: rfind_char_None)

lemma Origin_addresses:
  assumes "CHR '' '' \<notin> set peer" and "CHR '' '' \<notin> set bnd" and "peer \<noteq> []"
    and "m_address ori = pre @ peer @ '' '' @ bnd" and "pre = [] \<or> last pre = CHR '' ''"
  shows "Origin_get_address ori = peer \<and> Origin_get_bind_address ori = bnd"
proof -
  have a: "m_address ori = (pre @ peer) @ CHR '' '' # bnd" using assms(4) by simp
  have r2: "rfind_char (CHR '' '') (m_address ori) = Some (length (pre @ peer))"
    unfolding a using assms(2) by (rule rfind_char_last)
  have t: "take (length (pre @ peer)) (m_address ori) = pre @ peer" unfolding a by simp
  show ?thesis
  proof (cases "pre = []")
    case True
    then show ?thesis
      using r2 t assms(1,3) a
      by (simp add: Origin_get_address_def Origin_get_bind_address_def rfind_char_None)
  next
    case False
    then obtain q where q: "pre = q @ [CHR '' '']"
      using assms(5) by (metis append_butlast_last_id)
    have "rfind_char (CHR '' '') (pre @ peer) = Some (length q)"
      using rfind_char_last [OF assms(1), of q] by (simp add: q)
    then show ?thesis
      using r2 t a q
      by (simp add: Origin_get_address_def Origin_get_bind_address_def)
  qed
qed

section \<open>Routing\<close>

text \<open>
  The contract of a route position: \<open>remaining\<close> is the list of filters a package still
  has to visit, and \<open>move\<close> hands them out one by one.
\<close>

locale route_position =
  fixes move :: "'pos \<Rightarrow> 'f option \<times> 'pos"
    and remaining :: "'pos \<Rightarrow> 'f list"
    and valid :: "'pos \<Rightarrow> bool"
  assumes move_end: "valid p \<Longrightarrow> remaining p = [] \<Longrightarrow> move p = (None, p)"
    and move_next: "valid p \<Longrightarrow> remaining p = f # fs \<Longrightarrow> fst (move p) = Some f"
    and remaining_move: "valid p \<Longrightarrow> remaining (snd (move p)) = tl (remaining p)"
    and valid_move: "valid p \<Longrightarrow> valid (snd (move p))"

fun nth_move :: "('pos \<Rightarrow> 'f option \<times> 'pos) \<Rightarrow> nat \<Rightarrow> 'pos \<Rightarrow> 'f option" where
  "nth_move mv 0 p = fst (mv p)"
| "nth_move mv (Suc n) p = nth_move mv n (snd (mv p))"

context route_position
begin

lemma nth_move_remaining:
  assumes "valid p"
  shows "nth_move move n p = (if n < length (remaining p) then Some (remaining p ! n) else None)"
  using assms
proof (induction n arbitrary: p)
  case 0
  then show ?case by (cases "remaining p") (auto simp: move_end move_next)
next
  case (Suc n)
  have "nth_move move (Suc n) p = nth_move move n (snd (move p))" by simp
  also have "\<dots> = (if n < length (tl (remaining p)) then Some (tl (remaining p) ! n) else None)"
    using Suc valid_move remaining_move by simp
  also have "\<dots> = (if Suc n < length (remaining p) then Some (remaining p ! Suc n) else None)"
    by (cases "remaining p") auto
  finally show ?case .
qed

end

definition Pos_remaining :: "'f list \<Rightarrow> chain_pos \<Rightarrow> 'f list" where
  "Pos_remaining fs it = (case it of None \<Rightarrow> [] | Some i \<Rightarrow> drop i fs)"

definition Pos_valid :: "'f list \<Rightarrow> chain_pos \<Rightarrow> bool" where
  "Pos_valid fs it = (case it of None \<Rightarrow> True | Some i \<Rightarrow> i < length fs)"

interpretation chain: route_position "Pos_move fs route" "Pos_remaining fs" "Pos_valid fs"
  for fs :: "'f list" and route :: string
proof unfold_locales
  fix p :: chain_pos and f :: 'f and gs :: "'f list"
  assume v: "Pos_valid fs p"
  show "Pos_remaining fs p = [] \<Longrightarrow> Pos_move fs route p = (None, p)"
    using v by (auto simp: Pos_valid_def Pos_remaining_def Pos_move_def split: option.splits)
  show "Pos_remaining fs p = f # gs \<Longrightarrow> fst (Pos_move fs route p) = Some f"
    using v by (auto simp: Pos_valid_def Pos_remaining_def Pos_move_def Cons_nth_drop_Suc
        split: option.splits dest: arg_cong [where f = hd] simp: hd_drop_conv_nth)
  show "Pos_remaining fs (snd (Pos_move fs route p)) = tl (Pos_remaining fs p)"
    using v by (auto simp: Pos_valid_def Pos_remaining_def Pos_move_def tl_drop drop_Suc
        split: option.splits)
  show "Pos_valid fs (snd (Pos_move fs route p))"
    using v by (auto simp: Pos_valid_def Pos_move_def split: option.splits)
qed

lemma createpos_valid: "Pos_valid fs (RouterChain_createpos fs)"
  by (simp add: Pos_valid_def RouterChain_createpos_def)

lemma createpos_remaining: "Pos_remaining fs (RouterChain_createpos fs) = fs"
  by (simp add: Pos_remaining_def RouterChain_createpos_def)

text \<open>The processing of a package by a list of filters, without positions.\<close>

fun chain_process :: "'w filter_fn list \<Rightarrow> 'w move_fn" where
  "chain_process [] r p w = (p, w)"
| "chain_process (f # fs) r p w = f (chain_process fs) p w"

lemma Package_move_remaining:
  assumes "Pos_valid fs it"
  shows "Package_move fs it r p w = chain_process (Pos_remaining fs it) r p w"
  using assms
proof (induction fs it r p w rule: Package_move.induct)
  case (1 fs it r p w)
  show ?case
  proof (cases it)
    case None
    then show ?thesis
      by (subst Package_move.simps) (simp add: Pos_move_def Pos_remaining_def)
  next
    case (Some i)
    define it' where "it' = (if Suc i < length fs then Some (Suc i) else None)"
    have mv: "Pos_move fs r it = (Some (fs ! i), it')"
      by (simp add: Some Pos_move_def it'_def)
    have i: "i < length fs" using 1(2) Some by (simp add: Pos_valid_def)
    have v: "Pos_valid fs it'" by (simp add: it'_def Pos_valid_def)
    have rem: "Pos_remaining fs it = fs ! i # Pos_remaining fs it'"
      using i Some
      by (auto simp: Pos_remaining_def it'_def Cons_nth_drop_Suc [symmetric, of i fs])
    have "(\<lambda>r p w. Package_move fs it' r p w) = chain_process (Pos_remaining fs it')"
      using "1.IH" [OF mv [symmetric] refl] v by (intro ext) simp
    then show ?thesis
      by (simp add: Package_move.simps [of fs it] mv rem)
  qed
qed

section \<open>Session identifiers, addresses and routes\<close>

text \<open>
  The sessions of a run of constructor calls have pairwise different identifiers exactly as
  long as there are at most 2^64 of them: then the 64-bit counter wraps around.\<close>
theorem Session_ids_distinct:
  "distinct (map m_id (fst (Session_new_n n w))) \<longleftrightarrow> n \<le> 2 ^ 64"
proof
  assume d: "distinct (map m_id (fst (Session_new_n n w)))"
  have "card (set (map m_id (fst (Session_new_n n w)))) \<le> card (UNIV :: 64 word set)"
    by (rule card_mono) simp_all
  then show "n \<le> 2 ^ 64"
    unfolding distinct_card [OF d] by (simp add: Session_new_n_ids card_word)
next
  assume "n \<le> 2 ^ 64"
  then show "distinct (map m_id (fst (Session_new_n n w)))"
    by (simp only: Session_new_n_ids distinct_word64_run)
qed

text \<open>
  A forwarded address put in front of the addresses of a connection, whatever it contains,
  does not change the peer and bind address filters see; it is what they see as the forward
  address as far as its first blank.\<close>
theorem Origin_forwarded_address:
  assumes "CHR '' '' \<notin> set peer" and "CHR '' '' \<notin> set bnd" and "peer \<noteq> []"
    and "m_address ori = pre @ peer @ '' '' @ bnd" and "pre = [] \<or> last pre = CHR '' ''"
  shows "\<exists>ori'. Origin_set_tcpip_address ori fwd s = Some ori' \<and> m_origin_id ori' = ucast s \<and>
     Origin_get_address ori' = peer \<and> Origin_get_bind_address ori' = bnd \<and>
     Origin_get_forward_address ori' = takeWhile (\<lambda>c. c \<noteq> CHR '' '') fwd"
proof -
  let ?ori' = "ori\<lparr>m_address := fwd @ '' '' @ m_address ori, m_origin_id := ucast s\<rparr>"
  have a: "m_address ?ori' = (fwd @ '' '' @ pre) @ peer @ '' '' @ bnd" using assms(4) by simp
  have "Origin_set_tcpip_address ori fwd s = Some ?ori'"
    using assms(3,4) by (simp add: Origin_set_tcpip_address_def)
  moreover have "Origin_get_address ?ori' = peer \<and> Origin_get_bind_address ?ori' = bnd"
    using assms(5) by (intro Origin_addresses [OF assms(1-3) a]) auto
  moreover have "Origin_get_forward_address ?ori' = takeWhile (\<lambda>c. c \<noteq> CHR '' '') fwd"
    by (simp add: Origin_get_forward_address_def takeWhile_append takeWhile_eq_all_conv [THEN iffD2, symmetric])
  ultimately show ?thesis by auto
qed

theorem Origin_forwarded_address_witness:
  "\<exists>ori'. Origin_set_tcpip_address (Origin_new\<lparr>m_address := ''10.0.0.1 0.0.0.0''\<rparr>) ''evil 1.2.3.4'' 7 = Some ori' \<and>
     Origin_get_address ori' = ''10.0.0.1''"
  using Origin_forwarded_address [of "''10.0.0.1''" "''0.0.0.0''" "Origin_new\<lparr>m_address := ''10.0.0.1 0.0.0.0''\<rparr>" "[]" "''evil 1.2.3.4''" 7]
  by auto

text \<open>
  A package that starts at the first position of a chain meets its filters in the order they
  were appended, and each of them exactly when the one before moves the package on.\<close>
theorem chain_in_order:
  fixes fs :: "'w filter_fn list"
  shows "nth_move (Pos_move fs route) n (RouterChain_createpos fs) = (if n < length fs then Some (fs ! n) else None)
    \<and> Package_move fs (RouterChain_createpos fs) route p w = chain_process fs route p w"
  using chain.nth_move_remaining [OF createpos_valid, of fs route n]
    Package_move_remaining [OF createpos_valid, of fs route p w]
  by (simp add: createpos_remaining)

end
