(* ===== verification/MP_Util.thy ===== *)
theory MP_Util
  imports MP_Core
begin

text \<open>
  The utility functions of \<open>src/util.cpp\<close>: comparison of buffers and database lists,
  the piggyback rule, target URLs, virtual hosts in the other-information of an APDU,
  construction of response APDUs, and IP matching.
\<close>

section \<open>Records, headers and buffers\<close>

definition record_composition_to_esn :: "Z_RecordComposition option \<Rightarrow> string option" where
  "record_composition_to_esn rcomp =
     (case rcomp of
        Some (RecordComp_complex c) \<Rightarrow>
          (case comp_generic c of
             Some (Some (ElementSpec_elementSetName n)) \<Rightarrow> Some n
           | _ \<Rightarrow> None)
      | Some (RecordComp_simple (ESN_generic n)) \<Rightarrow> Some n
      | _ \<Rightarrow> None)"

fun http_header_value :: "Z_HTTP_Header list \<Rightarrow> string \<Rightarrow> string" where
  "http_header_value [] name = []"
| "http_header_value (h # hs) name =
     (case hdr_name h of
        None \<Rightarrow> []
      | Some n \<Rightarrow>
          if n \<noteq> name then http_header_value hs name
          else (case hdr_value h of None \<Rightarrow> [] | Some v \<Rightarrow> v))"

text \<open>\<open>memcmp\<close> of the C library on the first \<open>n\<close> bytes of both buffers.\<close>

fun memcmp :: "octets \<Rightarrow> octets \<Rightarrow> nat \<Rightarrow> int" where
  "memcmp (x # xs) (y # ys) (Suc n) =
     (if (of_char x :: nat) < of_char y then -1
      else if (of_char y :: nat) < of_char x then 1
      else memcmp xs ys n)"
| "memcmp _ _ _ = 0"

definition memcmp2 :: "octets \<Rightarrow> octets \<Rightarrow> int" where
  "memcmp2 buf1 buf2 =
     (let d = int (length buf1) - int (length buf2);
          c = memcmp buf1 buf2 (if d > 0 then length buf2 else length buf1)
      in if c > 0 then 1
         else if c < 0 then -1
         else if d > 0 then 1
         else if d < 0 then -1
         else 0)"

definition lower_char :: "char \<Rightarrow> char" where
  "lower_char ch =
     (if 65 \<le> (of_char ch :: nat) \<and> (of_char ch :: nat) \<le> 90
      then char_of ((of_char ch :: nat) + 97 - 65) else ch)"

definition database_name_normalize :: "string \<Rightarrow> string" where
  "database_name_normalize s = map lower_char s"

fun match :: "string list \<Rightarrow> string list \<Rightarrow> bool" where
  "match (d1 # db1) (d2 # db2) =
     (if database_name_normalize d1 \<noteq> database_name_normalize d2 then False
      else match db1 db2)"
| "match db1 db2 = (db1 = [] \<and> db2 = [])"

section \<open>The piggyback rule\<close>

text \<open>
  Result: the number of records to present and the element set name left in the reference
  argument, whose old value is \<open>esn\<close>.
\<close>

definition piggyback :: "int \<Rightarrow> int \<Rightarrow> int \<Rightarrow> string option \<Rightarrow> string option \<Rightarrow> int \<Rightarrow> string option
    \<Rightarrow> int \<times> string option" where
  "piggyback smallSetUpperBound largeSetLowerBound mediumSetPresentNumber
       smallSetElementSetNames mediumSetElementSetNames result_set_size esn =
     (if result_set_size < smallSetUpperBound
      then (result_set_size,
            case smallSetElementSetNames of Some n \<Rightarrow> Some n | None \<Rightarrow> esn)
      else if result_set_size > largeSetLowerBound
      then (0, None)
      else (if mediumSetPresentNumber > result_set_size then result_set_size
            else mediumSetPresentNumber,
            case mediumSetElementSetNames of Some n \<Rightarrow> Some n | None \<Rightarrow> esn))"

definition piggyback_int :: "int \<Rightarrow> int \<Rightarrow> int \<Rightarrow> int \<Rightarrow> int" where
  "piggyback_int smallSetUpperBound largeSetLowerBound mediumSetPresentNumber result_set_size =
     to_int32 (fst (piggyback smallSetUpperBound largeSetLowerBound mediumSetPresentNumber
       None None result_set_size None))"

fun esn_generic :: "Z_ElementSetNames option \<Rightarrow> string option" where
  "esn_generic (Some (ESN_generic n)) = Some n"
| "esn_generic _ = None"

definition piggyback_sr :: "Z_SearchRequest \<Rightarrow> int \<Rightarrow> string option \<Rightarrow> int \<times> string option" where
  "piggyback_sr sreq result_set_size esn =
     piggyback (srq_smallSetUpperBound sreq) (srq_largeSetLowerBound sreq)
       (srq_mediumSetPresentNumber sreq)
       (esn_generic (srq_smallSetElementSetNames sreq))
       (esn_generic (srq_mediumSetElementSetNames sreq)) result_set_size esn"

definition piggyback_to_RecordComposition :: "int \<Rightarrow> Z_SearchRequest \<Rightarrow> Z_RecordComposition option" where
  "piggyback_to_RecordComposition result_set_size sreq =
     (case snd (piggyback_sr sreq result_set_size None) of
        Some n \<Rightarrow> Some (RecordComp_simple (ESN_generic n))
      | None \<Rightarrow> None)"

section \<open>Queries and diagnostics\<close>

definition pqf :: "yaz \<Rightarrow> Z_SearchRequest \<Rightarrow> string \<Rightarrow> bool \<times> Z_SearchRequest" where
  "pqf Y sreq q =
     (case yaz_pqf_parse Y q of
        None \<Rightarrow> (False, sreq)
      | Some rpn \<Rightarrow> (True, sreq\<lparr>srq_query := Query_type_1 rpn\<rparr>))"

definition zQueryToString :: "yaz \<Rightarrow> Z_Query option \<Rightarrow> string" where
  "zQueryToString Y query =
     (case query of Some (Query_type_1 rpn) \<Rightarrow> yaz_rpnquery_to_wrbuf Y rpn | _ \<Rightarrow> [])"

definition get_default_diag :: "Z_DefaultDiagFormat \<Rightarrow> int \<times> string" where
  "get_default_diag r =
     (diag_condition r, case diag_addinfo r of v2Addinfo s \<Rightarrow> s | v3Addinfo s \<Rightarrow> s)"

definition get_init_diagnostics :: "yaz \<Rightarrow> Z_InitResponse \<Rightarrow> int \<times> string \<Rightarrow> int \<times> string" where
  "get_init_diagnostics Y initrs old =
     (case yaz_decode_init_diag Y initrs of Some df \<Rightarrow> get_default_diag df | None \<Rightarrow> old)"

section \<open>Virtual hosts\<close>

text \<open>
  The loop over categories 1, 2, \<dots> ends at the first category without a virtual host.
  \<open>None\<close> is a loop that never ends.
\<close>

partial_function (option) vhost_loop :: "yaz \<Rightarrow> bool \<Rightarrow> int \<Rightarrow> Z_OtherInformation \<Rightarrow> string list
    \<Rightarrow> (int \<times> string list \<times> Z_OtherInformation) option" where
  "vhost_loop Y remove_flag cat oi vhosts =
     (case yaz_oi_get_string_oid Y oi oid_userinfo_proxy cat remove_flag of
        (None, oi') \<Rightarrow> Some (cat - 1, vhosts, oi')
      | (Some vhost, oi') \<Rightarrow> vhost_loop Y remove_flag (cat + 1) oi' (vhosts @ [vhost]))"

definition get_or_remove_vhost_otherinfo :: "yaz \<Rightarrow> bool \<Rightarrow> Z_OtherInformation \<Rightarrow> string list
    \<Rightarrow> (int \<times> string list \<times> Z_OtherInformation) option" where
  "get_or_remove_vhost_otherinfo Y remove_flag oi vhosts = vhost_loop Y remove_flag 1 oi vhosts"

definition get_vhost_otherinfo :: "yaz \<Rightarrow> Z_OtherInformation \<Rightarrow> string list option" where
  "get_vhost_otherinfo Y oi =
     map_option (\<lambda>(_, vhosts, _). vhosts) (get_or_remove_vhost_otherinfo Y False oi [])"

definition remove_vhost_otherinfo :: "yaz \<Rightarrow> Z_OtherInformation
    \<Rightarrow> (int \<times> string list \<times> Z_OtherInformation) option" where
  "remove_vhost_otherinfo Y oi = get_or_remove_vhost_otherinfo Y True oi []"

fun set_vhosts_from :: "yaz \<Rightarrow> int \<Rightarrow> Z_OtherInformation \<Rightarrow> string list \<Rightarrow> Z_OtherInformation" where
  "set_vhosts_from Y cat oi [] = oi"
| "set_vhosts_from Y cat oi (v # vs) =
     set_vhosts_from Y (cat + 1) (yaz_oi_set_string_oid Y oi oid_userinfo_proxy cat v) vs"

definition set_vhost_otherinfo :: "yaz \<Rightarrow> Z_OtherInformation \<Rightarrow> string list \<Rightarrow> Z_OtherInformation" where
  "set_vhost_otherinfo Y oi vhosts = set_vhosts_from Y 1 oi vhosts"

definition set_vhost_otherinfo_cat :: "yaz \<Rightarrow> Z_OtherInformation \<Rightarrow> string \<Rightarrow> int \<Rightarrow> Z_OtherInformation" where
  "set_vhost_otherinfo_cat Y oi vhost cat = yaz_oi_set_string_oid Y oi oid_userinfo_proxy cat vhost"

section \<open>Target URLs\<close>

definition split_zurl :: "yaz \<Rightarrow> string \<Rightarrow> string \<times> string list" where
  "split_zurl Y zurl =
     (case cs_get_host_args Y zurl of
        Some sep \<Rightarrow>
          (let args = drop (sep + 1) zurl in
           if args \<noteq> [] then (take sep zurl, split_at (CHR ''+'') args) else (zurl, []))
      | None \<Rightarrow> (zurl, []))"

text \<open>\<open>None\<close>: the function returns false and leaves the database list alone.\<close>

definition set_databases_from_zurl :: "yaz \<Rightarrow> string \<Rightarrow> string list option" where
  "set_databases_from_zurl Y zurl =
     (let dblist = snd (split_zurl Y zurl) in if length dblist = 0 then None else Some dblist)"

section \<open>Reference identifiers\<close>

text \<open>\<open>None\<close> is the null \<open>Z_ReferenceId **\<close> of an APDU kind the function does not name.\<close>

fun get_referenceId :: "Z_APDU \<Rightarrow> octets option option" where
  "get_referenceId (APDU_initRequest r) = Some (irq_referenceId r)"
| "get_referenceId (APDU_initResponse r) = Some (irs_referenceId r)"
| "get_referenceId (APDU_searchRequest r) = Some (srq_referenceId r)"
| "get_referenceId (APDU_searchResponse r) = Some (srs_referenceId r)"
| "get_referenceId (APDU_presentRequest r) = Some (prq_referenceId r)"
| "get_referenceId (APDU_presentResponse r) = Some (prs_referenceId r)"
| "get_referenceId (APDU_scanRequest r) = Some (scq_referenceId r)"
| "get_referenceId (APDU_scanResponse r) = Some (scs_referenceId r)"
| "get_referenceId (APDU_close r) = Some (close_referenceId r)"
| "get_referenceId (APDU_kind k i c) = Some i"
| "get_referenceId (APDU_unknown c) = None"

fun put_referenceId :: "octets option \<Rightarrow> Z_APDU \<Rightarrow> Z_APDU" where
  "put_referenceId i (APDU_initRequest r) = APDU_initRequest (r\<lparr>irq_referenceId := i\<rparr>)"
| "put_referenceId i (APDU_initResponse r) = APDU_initResponse (r\<lparr>irs_referenceId := i\<rparr>)"
| "put_referenceId i (APDU_searchRequest r) = APDU_searchRequest (r\<lparr>srq_referenceId := i\<rparr>)"
| "put_referenceId i (APDU_searchResponse r) = APDU_searchResponse (r\<lparr>srs_referenceId := i\<rparr>)"
| "put_referenceId i (APDU_presentRequest r) = APDU_presentRequest (r\<lparr>prq_referenceId := i\<rparr>)"
| "put_referenceId i (APDU_presentResponse r) = APDU_presentResponse (r\<lparr>prs_referenceId := i\<rparr>)"
| "put_referenceId i (APDU_scanRequest r) = APDU_scanRequest (r\<lparr>scq_referenceId := i\<rparr>)"
| "put_referenceId i (APDU_scanResponse r) = APDU_scanResponse (r\<lparr>scs_referenceId := i\<rparr>)"
| "put_referenceId i (APDU_close r) = APDU_close (r\<lparr>close_referenceId := i\<rparr>)"
| "put_referenceId i (APDU_kind k j c) = APDU_kind k i c"
| "put_referenceId i (APDU_unknown c) = APDU_unknown c"

text \<open>What a request hands to its response.\<close>

definition source_referenceId :: "Z_APDU option \<Rightarrow> octets option" where
  "source_referenceId src =
     (case src of
        None \<Rightarrow> None
      | Some a \<Rightarrow> (case get_referenceId a of Some (Some i) \<Rightarrow> Some i | _ \<Rightarrow> None))"

text \<open>\<open>None\<close> is the write through the null pointer when \<open>dst\<close> has no identifier.\<close>

definition transfer_referenceId :: "Z_APDU option \<Rightarrow> Z_APDU \<Rightarrow> Z_APDU option" where
  "transfer_referenceId src dst =
     (case get_referenceId dst of
        None \<Rightarrow> None
      | Some _ \<Rightarrow> Some (put_referenceId (source_referenceId src) dst))"

section \<open>Response APDUs\<close>

definition create_close :: "yaz \<Rightarrow> Z_APDU option \<Rightarrow> int \<Rightarrow> string option \<Rightarrow> Z_APDU" where
  "create_close Y in_apdu reason addinfo =
     (let c = (zget_close Y)\<lparr>close_referenceId := source_referenceId in_apdu,
                             close_closeReason := reason\<rparr>
      in APDU_close (case addinfo of None \<Rightarrow> c
           | Some a \<Rightarrow> c\<lparr>close_diagnosticInformation := Some a\<rparr>))"

definition create_initResponse :: "yaz \<Rightarrow> string \<Rightarrow> Z_APDU option \<Rightarrow> int \<Rightarrow> string option \<Rightarrow> Z_InitResponse" where
  "create_initResponse Y version in_apdu err addinfo =
     (let r = (zget_initResponse Y)\<lparr>irs_referenceId := source_referenceId in_apdu\<rparr>;
          r = (if err \<noteq> 0
               then r\<lparr>irs_userInformationField := Some (zget_init_diagnostics Y err addinfo),
                      irs_result := False\<rparr>
               else r)
      in r\<lparr>irs_implementationName := odr_prepend Y ''Metaproxy'' (irs_implementationName r),
           irs_implementationVersion := odr_prepend Y version (irs_implementationVersion r)\<rparr>)"

definition create_searchResponse :: "yaz \<Rightarrow> Z_APDU option \<Rightarrow> int \<Rightarrow> string option \<Rightarrow> Z_SearchResponse" where
  "create_searchResponse Y in_apdu err addinfo =
     (let r = (zget_searchResponse Y)\<lparr>srs_referenceId := source_referenceId in_apdu\<rparr>
      in if err \<noteq> 0
         then r\<lparr>srs_searchStatus := False,
                srs_records := Some (Records_NSD (zget_DefaultDiagFormat Y err addinfo))\<rparr>
         else r)"

definition create_presentResponse :: "yaz \<Rightarrow> Z_APDU option \<Rightarrow> int \<Rightarrow> string option \<Rightarrow> Z_PresentResponse" where
  "create_presentResponse Y in_apdu err addinfo =
     (let r = (zget_presentResponse Y)\<lparr>prs_referenceId := source_referenceId in_apdu\<rparr>
      in if err \<noteq> 0
         then r\<lparr>prs_records := Some (Records_NSD (zget_DefaultDiagFormat Y err addinfo)),
                prs_presentStatus := Z_PresentStatus_failure\<rparr>
         else r)"

definition create_scanResponse :: "yaz \<Rightarrow> Z_APDU option \<Rightarrow> int \<Rightarrow> string option \<Rightarrow> Z_ScanResponse" where
  "create_scanResponse Y in_apdu err addinfo =
     (let r = (zget_scanResponse Y)\<lparr>scs_referenceId := source_referenceId in_apdu\<rparr>
      in if err \<noteq> 0
         then r\<lparr>scs_scanStatus := Z_Scan_failure,
                scs_entries := Some \<lparr>le_entries = None,
                  le_nonsurrogateDiagnostics = Some [zget_DiagRec Y err addinfo]\<rparr>\<rparr>
         else r\<lparr>scs_entries := Some \<lparr>le_entries = None, le_nonsurrogateDiagnostics = None\<rparr>\<rparr>)"

text \<open>
  An HTTP response keeps the connection open or closes the session, depending on the version
  and the \<open>Connection\<close> header of the request.
\<close>

definition create_HTTP_Response_details :: "yaz \<Rightarrow> session \<Rightarrow> Z_HTTP_Request \<Rightarrow> int \<Rightarrow> string option
    \<Rightarrow> session \<times> Z_HTTP_Response" where
  "create_HTTP_Response_details Y ses hreq code details =
     (let v = z_HTTP_header_lookup Y (hrq_headers hreq) ''Connection'';
          (keepalive, ses', response_version) =
            (if hrq_version hreq = ''1.0''
             then (if v = Some ''Keep-Alive'' then (True, ses, ''1.0'')
                   else (False, Session_close ses, ''1.0''))
             else (if v = Some ''close'' then (False, Session_close ses, ''1.1'')
                   else (True, ses, ''1.1'')));
          hres = (z_get_HTTP_Response_server Y code details)\<lparr>hrs_version := response_version\<rparr>
      in (ses', if keepalive
                then hres\<lparr>hrs_headers := z_HTTP_header_add Y (hrs_headers hres) ''Connection'' ''Keep-Alive''\<rparr>
                else hres))"

definition create_HTTP_Response :: "yaz \<Rightarrow> session \<Rightarrow> Z_HTTP_Request \<Rightarrow> int \<Rightarrow> session \<times> Z_HTTP_Response" where
  "create_HTTP_Response Y ses hreq code = create_HTTP_Response_details Y ses hreq code None"

text \<open>\<open>strncpy\<close>: bytes up to the first NUL, padded with NULs to the given length.\<close>

definition strncpy :: "octets \<Rightarrow> nat \<Rightarrow> octets" where
  "strncpy s n = (let t = take n (takeWhile (\<lambda>c. c \<noteq> CHR 0x00) s) in t @ replicate (n - length t) (CHR 0x00))"

text \<open>\<open>None\<close>: the request is not HTTP, where the C++ code reads the wrong union member.\<close>

definition http_response :: "yaz \<Rightarrow> package \<Rightarrow> string \<Rightarrow> int \<Rightarrow> package option" where
  "http_response Y p content http_code =
     (case pkg_request p of
        Some (GDU_HTTP_Request hreq) \<Rightarrow>
          (let (ses, hres) = create_HTTP_Response Y (pkg_session p) hreq http_code
           in Some (p\<lparr>pkg_session := ses,
                      pkg_response := Some (GDU_HTTP_Response
                        (hres\<lparr>hrs_content := strncpy content (length content)\<rparr>))\<rparr>))
      | _ \<Rightarrow> None)"

section \<open>IP matching\<close>

definition ipv4_mapped :: "string \<Rightarrow> bool" where
  "ipv4_mapped v \<longleftrightarrow> length v > 7 \<and> take 7 v = ''::ffff:''"

fun match_ip_items :: "yaz \<Rightarrow> string \<Rightarrow> string list \<Rightarrow> bool \<Rightarrow> bool" where
  "match_ip_items Y val [] ret_value = ret_value"
| "match_ip_items Y val (it # items) ret_value =
     (if it \<noteq> []
      then (if yaz_match_glob Y it val then True
            else if CHR '':'' \<notin> set it \<and> ipv4_mapped val \<and> yaz_match_glob Y it (drop 7 val) then True
            else match_ip_items Y val items False)
      else match_ip_items Y val items ret_value)"

definition match_ip :: "yaz \<Rightarrow> string \<Rightarrow> string \<Rightarrow> bool" where
  "match_ip Y pattern val = match_ip_items Y val (split_at (CHR '' '') pattern) True"


section \<open>Documented behaviour of YAZ the virtual-host functions rely on\<close>

abbreviation vhost_at :: "yaz \<Rightarrow> Z_OtherInformation \<Rightarrow> int \<Rightarrow> string option" where
  "vhost_at Y oi cat \<equiv> fst (yaz_oi_get_string_oid Y oi oid_userinfo_proxy cat False)"

text \<open>
  Reading without the delete flag changes nothing; a string set for a key is read back and
  other keys are not affected, nor by a deletion; a deleting read returns what a plain read
  would; the units of an object are finitely many.
\<close>

definition oi_laws :: "yaz \<Rightarrow> bool" where
  "oi_laws Y \<longleftrightarrow>
     (\<forall>oi oid cat. snd (yaz_oi_get_string_oid Y oi oid cat False) = oi) \<and>
     (\<forall>oi oid cat v. fst (yaz_oi_get_string_oid Y (yaz_oi_set_string_oid Y oi oid cat v) oid cat False) = Some v) \<and>
     (\<forall>oi oid cat v oid' cat'. (oid, cat) \<noteq> (oid', cat') \<longrightarrow>
        fst (yaz_oi_get_string_oid Y (yaz_oi_set_string_oid Y oi oid cat v) oid' cat' False)
        = fst (yaz_oi_get_string_oid Y oi oid' cat' False)) \<and>
     (\<forall>oi oid cat. fst (yaz_oi_get_string_oid Y oi oid cat True) = fst (yaz_oi_get_string_oid Y oi oid cat False)) \<and>
     (\<forall>oi oid cat oid' cat'. (oid, cat) \<noteq> (oid', cat') \<longrightarrow>
        fst (yaz_oi_get_string_oid Y (snd (yaz_oi_get_string_oid Y oi oid cat True)) oid' cat' False)
        = fst (yaz_oi_get_string_oid Y oi oid' cat' False)) \<and>
     (\<forall>oi oid. \<exists>n. \<forall>cat > n. fst (yaz_oi_get_string_oid Y oi oid cat False) = None)"

lemma oi_lawsD:
  assumes "oi_laws Y"
  shows "snd (yaz_oi_get_string_oid Y oi oid cat False) = oi"
    and "fst (yaz_oi_get_string_oid Y (yaz_oi_set_string_oid Y oi oid cat v) oid cat False) = Some v"
    and "(oid, cat) \<noteq> (oid', cat') \<Longrightarrow>
        fst (yaz_oi_get_string_oid Y (yaz_oi_set_string_oid Y oi oid cat v) oid' cat' False)
        = fst (yaz_oi_get_string_oid Y oi oid' cat' False)"
    and "fst (yaz_oi_get_string_oid Y oi oid cat True) = fst (yaz_oi_get_string_oid Y oi oid cat False)"
    and "(oid, cat) \<noteq> (oid', cat') \<Longrightarrow>
        fst (yaz_oi_get_string_oid Y (snd (yaz_oi_get_string_oid Y oi oid cat True)) oid' cat' False)
        = fst (yaz_oi_get_string_oid Y oi oid' cat' False)"
    and "\<exists>n. \<forall>cat > n. fst (yaz_oi_get_string_oid Y oi oid cat False) = None"
  using assms unfolding oi_laws_def by auto

section \<open>Lemmas\<close>

lemma memcmp2_Nil [simp]: "memcmp2 [] [] = 0" "memcmp2 [] (y # ys) = -1" "memcmp2 (x # xs) [] = 1"
  by (simp_all add: memcmp2_def Let_def)

lemma memcmp2_Cons [simp]:
  "memcmp2 (x # xs) (y # ys) =
     (if (of_char x :: nat) < of_char y then -1
      else if (of_char y :: nat) < of_char x then 1
      else memcmp2 xs ys)"
  by (simp add: memcmp2_def Let_def)

lemma memcmp2_lexord:
  "memcmp2 a b =
     (if (map of_char a, map of_char b) \<in> lexord {(x, y). (x :: nat) < y} then -1
      else if a = b then 0 else 1)"
proof (induction a arbitrary: b)
  case Nil
  then show ?case by (cases b) simp_all
next
  case (Cons x xs)
  show ?case
  proof (cases b)
    case (Cons y ys)
    with Cons.IH [of ys] show ?thesis by (auto simp: not_less_iff_gr_or_eq)
  qed simp
qed

lemma of_char_lower_char:
  "(of_char (lower_char c) :: nat) =
     (if 65 \<le> (of_char c :: nat) \<and> (of_char c :: nat) \<le> 90 then of_char c + 32 else of_char c)"
  by (simp add: lower_char_def)

lemma lower_char_idem [simp]: "lower_char (lower_char c) = lower_char c"
  by (subst lower_char_def) (auto simp: of_char_lower_char)

lemma database_name_normalize_idem [simp]:
  "database_name_normalize (database_name_normalize s) = database_name_normalize s"
  by (simp add: database_name_normalize_def)

lemma match_iff: "match db1 db2 \<longleftrightarrow> map database_name_normalize db1 = map database_name_normalize db2"
  by (induction db1 db2 rule: match.induct) auto

lemma match_refl [simp]: "match db db"
  by (simp add: match_iff)

lemma match_sym: "match db1 db2 \<Longrightarrow> match db2 db1"
  by (simp add: match_iff)

lemma match_trans: "match db1 db2 \<Longrightarrow> match db2 db3 \<Longrightarrow> match db1 db3"
  by (simp add: match_iff)

lemma piggyback_bounds:
  assumes "0 \<le> rss" and "0 \<le> medium"
  shows "0 \<le> fst (piggyback small large medium se me rss esn)
       \<and> fst (piggyback small large medium se me rss esn) \<le> rss"
  using assms by (simp add: piggyback_def)

lemma split_zurl_cases:
  assumes "\<And>sep. cs_get_host_args Y zurl = Some sep \<Longrightarrow> sep < length zurl"
  shows "split_zurl Y zurl = (zurl, []) \<or>
     (\<exists>sep dbs. split_zurl Y zurl = (take sep zurl, dbs) \<and> dbs \<noteq> [] \<and>
        zurl = take sep zurl @ zurl ! sep # join_with (CHR ''+'') dbs \<and>
        (\<forall>db \<in> set dbs. CHR ''+'' \<notin> set db))"
proof (cases "cs_get_host_args Y zurl")
  case (Some sep)
  show ?thesis
  proof (cases "drop (sep + 1) zurl = []")
    case False
    then have "sep < length zurl" using assms Some by simp
    then have "zurl = take sep zurl @ zurl ! sep # drop (Suc sep) zurl"
      by (simp add: Cons_nth_drop_Suc)
    with False Some show ?thesis
      by (intro disjI2 exI [of _ sep] exI [of _ "split_at (CHR ''+'') (drop (sep + 1) zurl)"])
         (simp add: split_zurl_def split_at_items)
  qed (simp add: split_zurl_def Some)
qed (simp add: split_zurl_def)

subsection \<open>Virtual hosts\<close>

lemma vhost_loop_get:
  assumes "oi_laws Y"
    and "\<And>i. i < length vs \<Longrightarrow> vhost_at Y oi (cat + int i) = Some (vs ! i)"
    and "vhost_at Y oi (cat + int (length vs)) = None"
  shows "vhost_loop Y False cat oi acc = Some (cat + int (length vs) - 1, acc @ vs, oi)"
  using assms(2,3)
proof (induction vs arbitrary: cat acc)
  case Nil
  then show ?case
    using oi_lawsD(1) [OF assms(1), of oi oid_userinfo_proxy cat]
    by (subst vhost_loop.simps) (auto split: prod.splits option.splits)
next
  case (Cons v vs)
  have v: "vhost_at Y oi cat = Some v" using Cons.prems(1) [of 0] by simp
  have "vhost_loop Y False (cat + 1) oi (acc @ [v])
      = Some (cat + 1 + int (length vs) - 1, (acc @ [v]) @ vs, oi)"
    using Cons.prems(1) [of "Suc i" for i] Cons.prems(2)
    by (intro Cons.IH) (simp_all add: add.assoc add.left_commute)
  with v oi_lawsD(1) [OF assms(1), of oi oid_userinfo_proxy cat] show ?case
    by (subst vhost_loop.simps) (auto split: prod.splits option.splits simp: algebra_simps)
qed

lemma vhost_loop_remove:
  assumes "oi_laws Y"
    and "\<And>i. i < length vs \<Longrightarrow> vhost_at Y oi (cat + int i) = Some (vs ! i)"
    and "vhost_at Y oi (cat + int (length vs)) = None"
  shows "\<exists>oi'. vhost_loop Y True cat oi acc = Some (cat + int (length vs) - 1, acc @ vs, oi')"
  using assms(2,3)
proof (induction vs arbitrary: cat acc oi)
  case Nil
  then show ?case
    using oi_lawsD(4) [OF assms(1), of oi oid_userinfo_proxy cat]
    by (subst vhost_loop.simps) (auto split: prod.splits option.splits)
next
  case (Cons v vs)
  obtain oi1 where get: "yaz_oi_get_string_oid Y oi oid_userinfo_proxy cat True = (Some v, oi1)"
    using Cons.prems(1) [of 0] oi_lawsD(4) [OF assms(1), of oi oid_userinfo_proxy cat]
    by (cases "yaz_oi_get_string_oid Y oi oid_userinfo_proxy cat True") simp
  have rest: "vhost_at Y oi1 c = vhost_at Y oi c" if "c \<noteq> cat" for c
    using oi_lawsD(5) [OF assms(1), of oid_userinfo_proxy cat oid_userinfo_proxy c oi] get that by simp
  have "\<exists>oi'. vhost_loop Y True (cat + 1) oi1 (acc @ [v])
      = Some (cat + 1 + int (length vs) - 1, (acc @ [v]) @ vs, oi')"
    using Cons.prems(1) [of "Suc i" for i] Cons.prems(2)
    by (intro Cons.IH) (simp_all add: rest add.assoc add.left_commute)
  with get show ?case by (subst vhost_loop.simps) (auto simp: algebra_simps)
qed

lemma vhosts_exist:
  assumes "oi_laws Y"
  shows "\<exists>vs. (\<forall>i < length vs. vhost_at Y oi (cat + int i) = Some (vs ! i)) \<and>
              vhost_at Y oi (cat + int (length vs)) = None"
proof -
  obtain n where n: "\<forall>c > n. vhost_at Y oi c = None" using oi_lawsD(6) [OF assms] by blast
  let ?P = "\<lambda>k. vhost_at Y oi (cat + int k) = None"
  have "cat + int (nat (n + 1 - cat)) > n" by simp
  with n have "?P (nat (n + 1 - cat))" by blast
  then have P: "?P (Least ?P)" by (rule LeastI)
  have "\<forall>i < Least ?P. vhost_at Y oi (cat + int i) = Some (the (vhost_at Y oi (cat + int i)))"
    using not_less_Least [of _ ?P] by auto
  with P show ?thesis
    by (intro exI [of _ "map (\<lambda>i. the (vhost_at Y oi (cat + int i))) [0..<Least ?P]"]) simp
qed

lemma vhost_at_set_from:
  assumes "oi_laws Y"
  shows "vhost_at Y (set_vhosts_from Y cat oi vs) c =
     (if cat \<le> c \<and> c < cat + int (length vs) then Some (vs ! nat (c - cat)) else vhost_at Y oi c)"
proof (induction vs arbitrary: cat oi)
  case (Cons v vs)
  let ?oi1 = "yaz_oi_set_string_oid Y oi oid_userinfo_proxy cat v"
  have oi1: "vhost_at Y ?oi1 c = (if c = cat then Some v else vhost_at Y oi c)"
    using oi_lawsD(2,3) [OF assms] by auto
  have *: "(v # vs) ! nat (c - cat) = vs ! nat (c - (cat + 1))" if "cat + 1 \<le> c"
  proof -
    have "nat (c - cat) = Suc (nat (c - (cat + 1)))" using that by arith
    then show ?thesis by simp
  qed
  show ?case using Cons.IH [of "cat + 1" ?oi1] oi1 * by auto
qed auto

lemma get_set_vhost:
  assumes "oi_laws Y" and "vhost_at Y oi (int (length vhosts) + 1) = None"
  shows "get_vhost_otherinfo Y (set_vhost_otherinfo Y oi vhosts) = Some vhosts"
  using assms(2) vhost_loop_get [OF assms(1), of vhosts "set_vhosts_from Y 1 oi vhosts" 1 "[]"]
  by (simp add: get_vhost_otherinfo_def get_or_remove_vhost_otherinfo_def set_vhost_otherinfo_def
      vhost_at_set_from [OF assms(1)] add.commute)

lemma get_vhost_total: "oi_laws Y \<Longrightarrow> \<exists>vs. get_vhost_otherinfo Y oi = Some vs"
  using vhosts_exist [of Y oi 1] vhost_loop_get [of Y _ oi 1 "[]"]
  by (fastforce simp: get_vhost_otherinfo_def get_or_remove_vhost_otherinfo_def)

lemma remove_vhost_total:
  assumes "oi_laws Y"
  shows "\<exists>vs oi'. remove_vhost_otherinfo Y oi = Some (int (length vs), vs, oi')
            \<and> get_vhost_otherinfo Y oi = Some vs"
proof -
  obtain vs where "\<And>i. i < length vs \<Longrightarrow> vhost_at Y oi (1 + int i) = Some (vs ! i)"
    and "vhost_at Y oi (1 + int (length vs)) = None"
    using vhosts_exist [OF assms, of oi 1] by blast
  then show ?thesis
    using vhost_loop_get [OF assms, of vs oi 1 "[]"] vhost_loop_remove [OF assms, of vs oi 1 "[]"]
    by (auto simp: get_vhost_otherinfo_def remove_vhost_otherinfo_def
        get_or_remove_vhost_otherinfo_def)
qed

subsection \<open>Responses\<close>

lemma get_put_referenceId:
  "get_referenceId dst \<noteq> None \<Longrightarrow> get_referenceId (put_referenceId i dst) = Some i"
  by (cases dst) auto

lemma responses_referenceId [simp]:
  "get_referenceId (create_close Y req reason ai) = Some (source_referenceId req)"
  "irs_referenceId (create_initResponse Y ver req err ai) = source_referenceId req"
  "srs_referenceId (create_searchResponse Y req err ai) = source_referenceId req"
  "prs_referenceId (create_presentResponse Y req err ai) = source_referenceId req"
  "scs_referenceId (create_scanResponse Y req err ai) = source_referenceId req"
  by (simp_all add: create_close_def create_initResponse_def create_searchResponse_def
      create_presentResponse_def create_scanResponse_def Let_def split: option.splits)

lemma match_ip_items_iff:
  "match_ip_items Y val items ret \<longleftrightarrow>
     (\<exists>it \<in> set items. it \<noteq> [] \<and> (yaz_match_glob Y it val
        \<or> CHR '':'' \<notin> set it \<and> ipv4_mapped val \<and> yaz_match_glob Y it (drop 7 val)))
     \<or> (ret \<and> (\<forall>it \<in> set items. it = []))"
  by (induction items arbitrary: ret) auto

end
