(* ===== verification/MP_Yaz_Ref.thy ===== *)
theory MP_Yaz_Ref
  imports MP_Util
begin

text \<open>
  A concrete value of the parameter record \<open>yaz\<close>. It shows that the hypotheses on YAZ
  that theorems state can hold together and is what their concrete instances are evaluated
  with. It makes no claim about the C implementation of YAZ.
\<close>

fun oi_find :: "yaz_oid \<Rightarrow> int \<Rightarrow> Z_OtherInformation \<Rightarrow> string option" where
  "oi_find oid cat [] = None"
| "oi_find oid cat (u # us) =
     (if oiu_oid u = oid \<and> oiu_category u = cat then Some (oiu_string u) else oi_find oid cat us)"

fun oi_delete :: "yaz_oid \<Rightarrow> int \<Rightarrow> Z_OtherInformation \<Rightarrow> Z_OtherInformation" where
  "oi_delete oid cat [] = []"
| "oi_delete oid cat (u # us) =
     (if oiu_oid u = oid \<and> oiu_category u = cat then us else u # oi_delete oid cat us)"

fun oi_put :: "yaz_oid \<Rightarrow> int \<Rightarrow> string \<Rightarrow> Z_OtherInformation \<Rightarrow> Z_OtherInformation" where
  "oi_put oid cat v [] = [\<lparr>oiu_oid = oid, oiu_category = cat, oiu_string = v\<rparr>]"
| "oi_put oid cat v (u # us) =
     (if oiu_oid u = oid \<and> oiu_category u = cat then u\<lparr>oiu_string := v\<rparr> # us
      else u # oi_put oid cat v us)"

definition first_slash :: "string \<Rightarrow> nat option" where
  "first_slash s = (if CHR ''/'' \<in> set s then Some (length (takeWhile (\<lambda>c. c \<noteq> CHR ''/'') s)) else None)"

definition header_lookup_ref :: "Z_HTTP_Header list \<Rightarrow> string \<Rightarrow> string option" where
  "header_lookup_ref hs n = (case find (\<lambda>h. hdr_name h = Some n) hs of None \<Rightarrow> None | Some h \<Rightarrow> hdr_value h)"

definition yaz_ref :: yaz where
  "yaz_ref = \<lparr>
     yaz_match_glob = (\<lambda>p v. p = ''*'' \<or> p = v),
     cs_get_host_args = first_slash,
     yaz_oi_get_string_oid =
       (\<lambda>oi oid cat del. (oi_find oid cat oi, if del then oi_delete oid cat oi else oi)),
     yaz_oi_set_string_oid = (\<lambda>oi oid cat v. oi_put oid cat v oi),
     zget_initRequest = \<lparr>irq_referenceId = None, irq_protocolVersion = {}, irq_options = {},
       irq_preferredMessageSize = 1048576, irq_maximumRecordSize = 1048576,
       irq_idAuthentication = None, irq_implementationId = None, irq_implementationName = None,
       irq_implementationVersion = None, irq_otherInfo = []\<rparr>,
     zget_initResponse = \<lparr>irs_referenceId = None, irs_protocolVersion = {}, irs_options = {},
       irs_preferredMessageSize = 1048576, irs_maximumRecordSize = 1048576, irs_result = True,
       irs_implementationId = None, irs_implementationName = None, irs_implementationVersion = None,
       irs_userInformationField = None\<rparr>,
     zget_searchRequest = \<lparr>srq_referenceId = None, srq_smallSetUpperBound = 0, srq_largeSetLowerBound = 1,
       srq_mediumSetPresentNumber = 0, srq_replaceIndicator = True, srq_resultSetName = ''default'',
       srq_databaseNames = [], srq_smallSetElementSetNames = None, srq_mediumSetElementSetNames = None,
       srq_preferredRecordSyntax = None, srq_query = Query_other [], srq_additionalSearchInfo = None\<rparr>,
     zget_searchResponse = \<lparr>srs_referenceId = None, srs_resultCount = 0,
       srs_numberOfRecordsReturned = 0, srs_nextResultSetPosition = 0, srs_searchStatus = True,
       srs_records = None, srs_additionalSearchInfo = None\<rparr>,
     zget_presentRequest = \<lparr>prq_referenceId = None, prq_resultSetId = ''default'',
       prq_resultSetStartPoint = 1, prq_numberOfRecordsRequested = 1,
       prq_recordComposition = None, prq_preferredRecordSyntax = None\<rparr>,
     zget_presentResponse = \<lparr>prs_referenceId = None, prs_numberOfRecordsReturned = 0,
       prs_nextResultSetPosition = 0, prs_presentStatus = 0, prs_records = None,
       prs_otherInfo = None\<rparr>,
     zget_scanResponse = \<lparr>scs_referenceId = None, scs_stepSize = None, scs_scanStatus = 0,
       scs_numberOfEntriesReturned = 0, scs_positionOfTerm = None, scs_entries = None\<rparr>,
     zget_close = \<lparr>close_referenceId = None, close_closeReason = 0,
       close_diagnosticInformation = None\<rparr>,
     zget_DefaultDiagFormat = (\<lambda>e a. \<lparr>diag_condition = e,
       diag_addinfo = v2Addinfo (case a of None \<Rightarrow> [] | Some s \<Rightarrow> s)\<rparr>),
     zget_DiagRec = (\<lambda>e a. DiagRec_defaultFormat \<lparr>diag_condition = e,
       diag_addinfo = v2Addinfo (case a of None \<Rightarrow> [] | Some s \<Rightarrow> s)\<rparr>),
     zget_init_diagnostics = (\<lambda>e a. External_other (case a of None \<Rightarrow> [] | Some s \<Rightarrow> s)),
     yaz_decode_init_diag = (\<lambda>r. map_option (\<lambda>u. \<lparr>diag_condition = 2, diag_addinfo =
       v2Addinfo (case u of External_other s \<Rightarrow> s | _ \<Rightarrow> [])\<rparr>) (irs_userInformationField r)),
     diagbib1_str = (\<lambda>c. ''diagnostic''),
     zget_surrogateDiagRec = (\<lambda>db e a. \<lparr>npr_databaseName = db, npr_record = NPR_surrogateDiagnostic
       (DiagRec_defaultFormat \<lparr>diag_condition = e, diag_addinfo = v2Addinfo (case a of None \<Rightarrow> [] | Some s \<Rightarrow> s)\<rparr>)\<rparr>),
     z_ext_record_usmarc = External_octet recsyn_usmarc, z_ext_record_xml = External_octet recsyn_xml,
     z_ext_record_sutrs = External_sutrs,
     z_ext_record_opac = (\<lambda>r. External_other (case opac_bibliographicRecord r of External_octet _ b \<Rightarrow> b | _ \<Rightarrow> [])),
     BIB1_ONLY_A_SINGLE_ELEMENT_SET_NAME_SUPPORTED = 26,
     odr_prepend = (\<lambda>p s. Some (case s of None \<Rightarrow> p | Some t \<Rightarrow> p @ ''/'' @ t)),
     yaz_rpnquery_to_wrbuf = (\<lambda>_. []),
     yaz_pqf_parse = (\<lambda>q. if q = [] then None else Some (RPN_simple (Operand_attributesPlusTerm q))),
     z_HTTP_header_lookup = header_lookup_ref,
     z_HTTP_header_add = (\<lambda>hs n v. hs @ [\<lparr>hdr_name = Some n, hdr_value = Some v\<rparr>]),
     z_get_HTTP_Response_server = (\<lambda>code d. \<lparr>hrs_code = code, hrs_version = ''1.1'',
       hrs_headers = [], hrs_content = []\<rparr>)\<rparr>"

lemma oi_find_put_same [simp]: "oi_find oid cat (oi_put oid cat v oi) = Some v"
  by (induction oi) auto

lemma oi_find_put_other:
  "(oid, cat) \<noteq> (oid', cat') \<Longrightarrow> oi_find oid' cat' (oi_put oid cat v oi) = oi_find oid' cat' oi"
  by (induction oi) auto

lemma oi_find_delete_other:
  "(oid, cat) \<noteq> (oid', cat') \<Longrightarrow> oi_find oid' cat' (oi_delete oid cat oi) = oi_find oid' cat' oi"
  by (induction oi) auto

lemma oi_find_finite: "\<exists>n. \<forall>cat > n. oi_find oid cat oi = None"
proof (induction oi)
  case (Cons u us)
  then obtain n where "\<forall>cat > n. oi_find oid cat us = None" by blast
  then show ?case by (intro exI [of _ "max n (oiu_category u)"]) auto
qed simp

lemma yaz_ref_oi_laws: "oi_laws yaz_ref"
  unfolding oi_laws_def yaz_ref_def
  using oi_find_put_other oi_find_delete_other oi_find_finite by simp

end
