(* ===== verification/MP_Html_Parser.thy ===== *)
theory MP_Html_Parser
  imports MP_Prelude
begin

text \<open>
  The HTML scanner of \<open>src/html_parser.cpp\<close>. A \<open>const char *\<close> is the rest of the
  string it points into, its end being the terminating NUL. The calls of the
  \<open>HTMLParserEvent\<close> interface are the list of events. \<open>yaz_strncasecmp\<close> of YAZ is a
  parameter: \<open>sc s t\<close> says that it finds the two strings equal.
\<close>

section \<open>Events and character classes\<close>

text \<open>
  The separator of an attribute event is the quote in front of the value or the empty
  string. An attribute without a value is reported with a null value pointer, and then
  length and separator are not initialised.
\<close>

datatype html_event =
    ev_openTagStart string
  | ev_anyTagEnd string bool
  | ev_attribute string string "(string \<times> string) option"
  | ev_closeTag string
  | ev_text string

definition html_isspace :: "char \<Rightarrow> bool" where
  "html_isspace c \<longleftrightarrow> c \<in> {CHR '' '', CHR 0x09, CHR 0x0D, CHR 0x0A, CHR 0x0C}"

definition isAlpha :: "char \<Rightarrow> bool" where
  "isAlpha c \<longleftrightarrow> (let n = (of_char c :: nat) in (97 \<le> n \<and> n \<le> 122) \<or> (65 \<le> n \<and> n \<le> 90))"

definition skipSpace :: "string \<Rightarrow> nat" where
  "skipSpace cp = length (takeWhile html_isspace cp)"

definition name_char :: "char \<Rightarrow> bool" where
  "name_char c \<longleftrightarrow> \<not> (html_isspace c \<or> c \<in> {CHR ''/'', CHR ''>'', CHR ''<'', CHR ''=''})"

definition skipName :: "string \<Rightarrow> nat" where
  "skipName cp = length (takeWhile name_char cp)"

abbreviation starts :: "char \<Rightarrow> string \<Rightarrow> bool" where
  "starts c s \<equiv> s \<noteq> [] \<and> hd s = c"

abbreviation tag_break :: "char \<Rightarrow> bool" where
  "tag_break c \<equiv> c = CHR ''/'' \<or> c = CHR ''>'' \<or> c = CHR ''<''"

section \<open>Attributes and tag ends\<close>

text \<open>Result: attribute name, value with separator, and what is left behind the attribute.\<close>

definition attr_value :: "string \<Rightarrow> string \<times> string \<times> string" where
  "attr_value r =
     (if starts (CHR 0x22) r \<or> starts (CHR 0x27) r
      then (takeWhile (\<lambda>c. c \<noteq> hd r) (tl r), [hd r], tl (dropWhile (\<lambda>c. c \<noteq> hd r) (tl r)))
      else (takeWhile (\<lambda>c. \<not> (html_isspace c \<or> c = CHR ''>'')) r, [],
            dropWhile (\<lambda>c. \<not> (html_isspace c \<or> c = CHR ''>'')) r))"

definition skipAttribute :: "string \<Rightarrow> string \<times> (string \<times> string) option \<times> string" where
  "skipAttribute cp =
     (let i = skipName cp in
      if i = 0 then ([], None, drop (skipSpace cp) cp)
      else (let r = drop i cp; r = drop (skipSpace r) r in
        if starts (CHR ''='') r
        then (let r = tl r; (v, sep, r) = attr_value (drop (skipSpace r) r)
              in (take i cp, Some (v, sep), drop (skipSpace r) r))
        else (take i cp, None, r)))"

function tagAttrs_loop :: "string \<Rightarrow> string \<Rightarrow> html_event list \<times> string" where
  "tagAttrs_loop tag cp =
     (if cp = [] \<or> tag_break (hd cp) then ([], cp)
      else (let (name, val, rest) = skipAttribute cp in
            if length rest \<ge> length cp then ([], cp)
            else (let (es, r) = tagAttrs_loop tag rest in (ev_attribute tag name val # es, r))))"
  by pat_completeness auto
termination
  by (relation "measure (\<lambda>(tag, cp). length cp)") auto

declare tagAttrs_loop.simps [simp del]

definition tagAttrs :: "string \<Rightarrow> string \<Rightarrow> html_event list \<times> string" where
  "tagAttrs tag cp = tagAttrs_loop tag (drop (skipSpace cp) cp)"

definition tagEnd :: "string \<Rightarrow> string \<Rightarrow> html_event list \<times> string" where
  "tagEnd tag cp =
     (let t = takeWhile (\<lambda>c. \<not> tag_break c) cp;
          r = dropWhile (\<lambda>c. \<not> tag_break c) cp;
          es = (if t \<noteq> [] then [ev_text t] else []);
          (close_it, r) = (if starts (CHR ''/'') r then (True, tl r) else (False, r))
      in if starts (CHR ''>'') r then (es @ [ev_anyTagEnd tag close_it], tl r) else (es, r))"

definition tagText :: "string \<Rightarrow> html_event list" where
  "tagText t = (if t \<noteq> [] then [ev_text t] else [])"

section \<open>The scanner\<close>

text \<open>Index of the first \<open>-->\<close>.\<close>

fun find_comment_end :: "string \<Rightarrow> nat option" where
  "find_comment_end [] = None"
| "find_comment_end (c # cs) =
     (if take 3 (c # cs) = ''-->'' then Some 0 else map_option Suc (find_comment_end cs))"

text \<open>
  Declarations and comments: \<open>cp\<close> starts with the exclamation mark. Result: events, the
  tag text and the rest; an unterminated comment gives no open-tag event and eats the rest
  of the input.
\<close>

definition scan_declaration :: "string \<Rightarrow> html_event list \<times> string" where
  "scan_declaration cp =
     (let (open_ev, i) =
            (if take 2 (drop 1 cp) = ''--''
             then (case find_comment_end (drop 3 cp) of
                     Some j \<Rightarrow> ([ev_openTagStart (take (3 + j + 2) cp)], 3 + j + 2)
                   | None \<Rightarrow> ([], length cp))
             else (let i = 1 + length (takeWhile (\<lambda>c. c \<noteq> CHR ''>'') (drop 1 cp))
                   in ([ev_openTagStart (take i cp)], i)));
          (es, r) = tagEnd (take i cp) (drop i cp)
      in (open_ev @ es, r))"

definition scan_pi :: "string \<Rightarrow> html_event list \<times> string" where
  "scan_pi cp =
     (let i = 1 + length (takeWhile (\<lambda>c. c \<noteq> CHR ''>'') (drop 1 cp));
          (es, r) = tagEnd (take i cp) (drop i cp)
      in (ev_openTagStart (take i cp) # es, r))"

definition scan_close :: "string \<Rightarrow> html_event list \<times> string" where
  "scan_close cp =
     (let i = skipName cp;
          (es, r) = tagEnd (take i cp) (drop i cp)
      in (ev_closeTag (take i cp) # es, r))"

definition scan_open :: "string \<Rightarrow> html_event list \<times> string" where
  "scan_open cp =
     (let i = skipName cp;
          (es1, r1) = tagAttrs (take i cp) (drop i cp);
          (es2, r2) = tagEnd (take i cp) r1
      in (ev_openTagStart (take i cp) # es1 @ es2, r2))"

definition is_script :: "(string \<Rightarrow> string \<Rightarrow> bool) \<Rightarrow> string \<Rightarrow> bool" where
  "is_script sc cp \<longleftrightarrow> skipName cp = 6 \<and> sc (take 6 cp) ''script''"

text \<open>The tag that really ends a script: \<open>cp\<close> points at its name.\<close>

definition ends_script :: "(string \<Rightarrow> string \<Rightarrow> bool) \<Rightarrow> string \<Rightarrow> bool" where
  "ends_script sc cp \<longleftrightarrow> is_script sc cp \<and>
     starts (CHR ''>'') (drop (skipSpace (drop 6 cp)) (drop 6 cp))"

section \<open>Nothing is invented: the text of the events comes from the input, in order\<close>

fun payload :: "html_event \<Rightarrow> string" where
  "payload (ev_openTagStart s) = s"
| "payload (ev_anyTagEnd _ _) = []"
| "payload (ev_attribute _ n None) = n"
| "payload (ev_attribute _ n (Some (v, _))) = n @ v"
| "payload (ev_closeTag s) = s"
| "payload (ev_text s) = s"

abbreviation payloads :: "html_event list \<Rightarrow> string" where
  "payloads es \<equiv> concat (map payload es)"

lemma subseq_dropWhile: "subseq (dropWhile P xs) xs"
  by (metis list_emb_append2 subseq_order.order_refl takeWhile_dropWhile_id)

lemma subseq_drop: "subseq (drop n xs) xs"
  by (metis append_take_drop_id list_emb_append2 subseq_order.order_refl)

lemma subseq_tl: "subseq (tl xs) xs"
  by (cases xs) auto

lemma takeWhile_split: "subseq r (dropWhile P xs) \<Longrightarrow> subseq (takeWhile P xs @ r) xs"
  by (metis list_emb_append_mono subseq_order.order_refl takeWhile_dropWhile_id)

lemma take_split: "subseq r (drop n xs) \<Longrightarrow> subseq (take n xs @ r) xs"
  by (metis append_take_drop_id list_emb_append_mono subseq_order.order_refl)

lemma subseq_tagEnd: "subseq (payloads (fst (tagEnd tag cp)) @ snd (tagEnd tag cp)) cp"
proof -
  let ?t = "takeWhile (\<lambda>c. \<not> tag_break c) cp" and ?r = "dropWhile (\<lambda>c. \<not> tag_break c) cp"
  have "subseq (tl (tl ?r)) ?r" using subseq_tl subseq_order.order_trans by blast
  moreover have "snd (tagEnd tag cp) \<in> {?r, tl ?r, tl (tl ?r)}" by (simp add: tagEnd_def Let_def)
  ultimately have "subseq (snd (tagEnd tag cp)) ?r" using subseq_tl [of ?r] by auto
  moreover have "payloads (fst (tagEnd tag cp)) = ?t" by (simp add: tagEnd_def Let_def)
  ultimately show ?thesis using takeWhile_split by simp
qed

lemma subseq_attr_value:
  "attr_value r = (v, sep, r') \<Longrightarrow> subseq (v @ r') r"
proof (cases r)
  case (Cons q t)
  assume eq: "attr_value r = (v, sep, r')"
  show ?thesis
  proof (cases "q = CHR 0x22 \<or> q = CHR 0x27")
    case True
    then have "v = takeWhile (\<lambda>c. c \<noteq> q) t" "r' = tl (dropWhile (\<lambda>c. c \<noteq> q) t)"
      using eq Cons by (auto simp: attr_value_def)
    then have "subseq (v @ r') t" using takeWhile_split subseq_tl by metis
    then show ?thesis using Cons by (simp add: list_emb_Cons)
  next
    case False
    then show ?thesis using eq Cons by (auto simp: attr_value_def)
  qed
qed (auto simp: attr_value_def)

lemma subseq_skipAttribute:
  assumes "skipAttribute cp = (name, val, rest)"
  shows "subseq (payload (ev_attribute tag name val) @ rest) cp"
proof -
  define i r r1 where "i = skipName cp" and "r = drop i cp" and "r1 = drop (skipSpace r) r"
  obtain v sep r3 where av: "attr_value (drop (skipSpace (tl r1)) (tl r1)) = (v, sep, r3)"
    using prod_cases3 by blast
  have eq: "(name, val, rest) =
      (if i = 0 then ([], None, drop (skipSpace cp) cp)
       else if starts (CHR ''='') r1 then (take i cp, Some (v, sep), drop (skipSpace r3) r3)
       else (take i cp, None, r1))"
    unfolding assms [symmetric] skipAttribute_def Let_def
    by (simp only: i_def [symmetric] r_def [symmetric] r1_def [symmetric] av prod.case)
  have r1: "subseq r1 r" unfolding r1_def by (rule subseq_drop)
  have "subseq (v @ drop (skipSpace r3) r3) (v @ r3)"
    by (rule list_emb_append_mono [OF subseq_order.order_refl subseq_drop])
  also have "subseq (v @ r3) (drop (skipSpace (tl r1)) (tl r1))" using av by (rule subseq_attr_value)
  also have "subseq \<dots> (tl r1)" by (rule subseq_drop)
  also have "subseq (tl r1) r1" by (rule subseq_tl)
  also note r1
  finally have valued: "subseq (take i cp @ v @ drop (skipSpace r3) r3) cp"
    unfolding r_def by (rule take_split)
  have plain: "subseq (take i cp @ r1) cp" using r1 unfolding r_def by (rule take_split)
  consider "i = 0" | "i \<noteq> 0" "starts (CHR ''='') r1" | "i \<noteq> 0" "\<not> starts (CHR ''='') r1" by blast
  then show ?thesis
  proof cases
    case 1
    then show ?thesis using eq subseq_drop by simp
  next
    case 2
    then have "(name, val, rest) = (take i cp, Some (v, sep), drop (skipSpace r3) r3)"
      using eq by (simp only: if_False if_True simp_thms)
    then show ?thesis using valued by simp
  next
    case 3
    then have "(name, val, rest) = (take i cp, None, r1)"
      using eq by (simp only: if_False if_True simp_thms)
    then show ?thesis using plain by simp
  qed
qed

lemma length_tagEnd: "length (snd (tagEnd tag cp)) \<le> length cp"
  using list_emb_length [OF subseq_tagEnd [of tag cp]] by simp

lemma subseq_tagAttrs_loop:
  "subseq (payloads (fst (tagAttrs_loop tag cp)) @ snd (tagAttrs_loop tag cp)) cp"
proof (induction tag cp rule: tagAttrs_loop.induct)
  case (1 tag cp)
  obtain name val rest where sk: "skipAttribute cp = (name, val, rest)" using prod_cases3 by blast
  obtain es r where l: "tagAttrs_loop tag rest = (es, r)" by fastforce
  show ?case
  proof (cases "cp = [] \<or> tag_break (hd cp) \<or> length rest \<ge> length cp")
    case True
    then show ?thesis by (subst (1 2) tagAttrs_loop.simps) (auto simp: sk)
  next
    case False
    then have "subseq (payloads es @ r) rest" using 1 sk l by auto
    then have "subseq (payload (ev_attribute tag name val) @ payloads es @ r) cp"
      using subseq_skipAttribute [OF sk, of tag]
      by (meson list_emb_append_mono subseq_order.order_refl subseq_order.order_trans)
    then show ?thesis
      using False sk l by (subst (1 2) tagAttrs_loop.simps) simp
  qed
qed

lemma subseq_tagAttrs: "subseq (payloads (fst (tagAttrs tag cp)) @ snd (tagAttrs tag cp)) cp"
  unfolding tagAttrs_def using subseq_tagAttrs_loop subseq_drop by (rule subseq_order.order_trans)

lemma subseq_trans_append:
  "subseq (a @ r) xs \<Longrightarrow> subseq (b @ r') r \<Longrightarrow> subseq (a @ b @ r') xs"
  by (meson list_emb_append_mono subseq_order.order_refl subseq_order.order_trans)

lemma subseq_take_tagEnd:
  "subseq (take i cp @ payloads (fst (tagEnd t (drop i cp))) @ snd (tagEnd t (drop i cp))) cp"
  using subseq_tagEnd by (rule take_split)

lemma subseq_drop_tagEnd:
  "subseq (payloads (fst (tagEnd t (drop i cp))) @ snd (tagEnd t (drop i cp))) cp"
  using subseq_tagEnd subseq_drop by (rule subseq_order.order_trans)

lemma subseq_scan_pi: "subseq (payloads (fst (scan_pi cp)) @ snd (scan_pi cp)) cp"
  using subseq_take_tagEnd by (simp add: scan_pi_def case_prod_beta Let_def)

lemma subseq_scan_close: "subseq (payloads (fst (scan_close cp)) @ snd (scan_close cp)) cp"
  using subseq_take_tagEnd by (simp add: scan_close_def case_prod_beta Let_def)

lemma subseq_scan_open: "subseq (payloads (fst (scan_open cp)) @ snd (scan_open cp)) cp"
proof -
  define i where "i = skipName cp"
  obtain es1 r1 where a: "tagAttrs (take i cp) (drop i cp) = (es1, r1)" by fastforce
  obtain es2 r2 where e: "tagEnd (take i cp) r1 = (es2, r2)" by fastforce
  have "subseq (payloads es1 @ r1) (drop i cp)" using subseq_tagAttrs [of "take i cp" "drop i cp"] a by simp
  moreover have "subseq (payloads es2 @ r2) r1" using subseq_tagEnd [of "take i cp" r1] e by simp
  ultimately have "subseq (payloads es1 @ payloads es2 @ r2) (drop i cp)" by (rule subseq_trans_append)
  then show ?thesis using a e take_split by (simp add: scan_open_def i_def Let_def)
qed

lemma subseq_scan_declaration:
  "subseq (payloads (fst (scan_declaration cp)) @ snd (scan_declaration cp)) cp"
proof (cases "take 2 (drop 1 cp) = ''--''")
  case True
  then show ?thesis
    using subseq_take_tagEnd subseq_drop_tagEnd [of _ "length cp" cp]
    by (simp add: scan_declaration_def case_prod_beta Let_def del: drop_all split: option.split)
next
  case False
  then show ?thesis
    using subseq_take_tagEnd by (simp add: scan_declaration_def case_prod_beta Let_def)
qed

lemma subseq_shrinks: "subseq (xs @ r) cp \<Longrightarrow> length r \<le> length cp"
  by (drule list_emb_length) simp

lemmas length_scans = subseq_shrinks [OF subseq_scan_pi] subseq_shrinks [OF subseq_scan_close]
  subseq_shrinks [OF subseq_scan_open] subseq_shrinks [OF subseq_scan_declaration]

lemma scan_result_length:
  "(es, r) = scan_pi cp \<Longrightarrow> length r \<le> length cp"
  "(es, r) = scan_close cp \<Longrightarrow> length r \<le> length cp"
  "(es, r) = scan_close (tl cp) \<Longrightarrow> length r \<le> length cp"
  "(es, r) = scan_open cp \<Longrightarrow> length r \<le> length cp"
  "(es, r) = scan_declaration cp \<Longrightarrow> length r \<le> length cp"
  using length_scans(1,3,4) [of cp] length_scans(2) [of cp] length_scans(2) [of "tl cp"]
  by (metis snd_conv, metis snd_conv, metis snd_conv diff_le_self le_trans length_tl,
      metis snd_conv, metis snd_conv)

section \<open>The whole document\<close>

text \<open>
  \<open>acc\<close> is the text between \<open>text_start\<close> and the current position, \<open>nest\<close> the member of
  that name: it is false inside a script element. Result: the events and the final \<open>nest\<close>,
  which the parser object keeps for the next document.
\<close>

function parse_str ::
  "(string \<Rightarrow> string \<Rightarrow> bool) \<Rightarrow> bool \<Rightarrow> string \<Rightarrow> string \<Rightarrow> html_event list \<times> bool" where
  "parse_str sc nest acc [] = (tagText acc, nest)"
| "parse_str sc nest acc (c # cp) =
     (if c \<noteq> CHR ''<'' then parse_str sc nest (acc @ [c]) cp
      else if nest \<and> starts (CHR ''!'') cp
      then (let (es, r) = scan_declaration cp; (es', n) = parse_str sc nest [] r
            in (tagText acc @ es @ es', n))
      else if nest \<and> starts (CHR ''?'') cp
      then (let (es, r) = scan_pi cp; (es', n) = parse_str sc nest [] r
            in (tagText acc @ es @ es', n))
      else if starts (CHR ''/'') cp \<and> tl cp \<noteq> [] \<and> isAlpha (hd (tl cp))
      then (if nest \<or> ends_script sc (tl cp)
            then (let (es, r) = scan_close (tl cp); (es', n) = parse_str sc True [] r
                  in (tagText acc @ es @ es', n))
            else parse_str sc nest (acc @ ''</'') (tl cp))
      else if nest \<and> cp \<noteq> [] \<and> isAlpha (hd cp)
      then (let (es, r) = scan_open cp; (es', n) = parse_str sc (\<not> is_script sc cp) [] r
            in (tagText acc @ es @ es', n))
      else parse_str sc nest (acc @ [c]) cp)"
  by pat_completeness auto
termination
  by (relation "measure (\<lambda>(sc, nest, acc, cp). length cp)")
     (auto simp: less_Suc_eq_le dest: scan_result_length)

declare parse_str.simps [simp del]

lemma payloads_tagText [simp]: "payloads (tagText t) = t"
  by (simp add: tagText_def)

text \<open>The step all the branches share that report the pending text and scan a tag.\<close>

lemma subseq_flush:
  assumes "subseq (payloads es @ r) cp" "subseq (payloads es') r"
  shows "subseq (payloads (tagText acc @ es @ es')) (acc @ c # cp)"
proof -
  have "subseq (payloads es @ payloads es') cp"
    using assms by (meson list_emb_append_mono subseq_order.order_refl subseq_order.order_trans)
  then show ?thesis by (simp add: list_emb_append_mono list_emb_Cons)
qed


section \<open>Script elements and comments are not scanned for tags\<close>

text \<open>The places of \<open>s\<close> where a tag that really closes a script begins.\<close>

abbreviation script_end :: "(string \<Rightarrow> string \<Rightarrow> bool) \<Rightarrow> string \<Rightarrow> bool" where
  "script_end sc s \<equiv> take 2 s = ''</'' \<and> ends_script sc (drop 2 s)"

lemma parse_in_script:
  "(\<And>i. i < length body \<Longrightarrow> \<not> script_end sc (drop i (body @ r))) \<Longrightarrow>
   (body = [] \<or> r = [] \<or> hd r = CHR ''<'') \<Longrightarrow>
   parse_str sc False acc (body @ r) = parse_str sc False (acc @ body) r"
proof (induction "length body" arbitrary: acc body rule: less_induct)
  case less
  show ?case
  proof (cases body)
    case (Cons c t)
    have later: "\<not> script_end sc (drop i (t @ r))" if "i < length t" for i
      using less.prems(1) [of "Suc i"] that Cons by simp
    have ih: "parse_str sc False a (t @ r) = parse_str sc False (a @ t) r" for a
      using less later Cons by auto
    have first: "\<not> script_end sc (c # t @ r)" using less.prems(1) [of 0] Cons by simp
    show ?thesis
    proof (cases "c = CHR ''<'' \<and> t \<noteq> [] \<and> hd t = CHR ''/''")
      case True
      then obtain u where t: "t = CHR ''/'' # u" by (cases t) auto
      have "\<not> script_end sc (drop i (u @ r))" if "i < length u" for i
        using later [of "Suc i"] that t by simp
      then have "parse_str sc False a (u @ r) = parse_str sc False (a @ u) r" for a
        using less Cons t by auto
      then show ?thesis using ih first True Cons t by (auto simp: parse_str.simps(2))
    next
      case False
      then show ?thesis using ih Cons less.prems(2) by (cases t) (auto simp: parse_str.simps(2))
    qed
  qed simp
qed

text \<open>
  The content of a script element is reported verbatim as one text, whatever tags,
  comments or other markup it seems to have, up to the first tag that really closes the
  script; scanning of markup resumes behind that tag.\<close>
theorem parse_str_script:
  assumes "sc ''script'' ''script''"
    and "\<forall>i < length body. \<not> script_end sc (drop i (body @ ''</script>'' @ rest))"
  shows "parse_str sc False [] (body @ ''</script>'' @ rest) =
    (tagText body @ [ev_closeTag ''script'', ev_anyTagEnd ''script'' False] @
       fst (parse_str sc True [] rest), snd (parse_str sc True [] rest))"
proof -
  have n: "skipName (''script>'' @ rest) = 6" by (simp add: skipName_def name_char_def html_isspace_def)
  then have "ends_script sc (''script>'' @ rest)"
    using assms(1) by (simp add: ends_script_def is_script_def skipSpace_def html_isspace_def)
  moreover have "scan_close (''script>'' @ rest) =
      ([ev_closeTag ''script'', ev_anyTagEnd ''script'' False], rest)"
    using n by (simp add: scan_close_def tagEnd_def)
  ultimately have "parse_str sc False body (''</script>'' @ rest) =
      (tagText body @ [ev_closeTag ''script'', ev_anyTagEnd ''script'' False] @
         fst (parse_str sc True [] rest), snd (parse_str sc True [] rest))"
    by (simp add: parse_str.simps(2) [of sc False] isAlpha_def case_prod_beta)
  then show ?thesis using parse_in_script [where body = body and acc = "[]" and r = "''</script>'' @ rest"] assms(2)
    by simp
qed

text \<open>A script that has a comment and a tag in a string, closed by a tag with the name in
  lower case.\<close>
theorem parse_str_script_witness:
  "parse_str (=) False [] (''a<b>c</p>'' @ ''</script>'' @ ''x'') =
    ([ev_text ''a<b>c</p>'', ev_closeTag ''script'', ev_anyTagEnd ''script'' False, ev_text ''x''], True)"
proof -
  have "\<forall>i < length ''a<b>c</p>''. \<not> script_end (=) (drop i (''a<b>c</p>'' @ ''</script>'' @ ''x''))"
    by code_simp
  from parse_str_script [OF refl this] show ?thesis by (simp add: parse_str.simps tagText_def)
qed

lemma find_comment_end_at: "find_comment_end s = Some j \<Longrightarrow> drop (j + 2) s = CHR ''>'' # drop (j + 3) s"
proof (induction s arbitrary: j)
  case (Cons c cs)
  show ?case
  proof (cases "take 3 (c # cs) = ''-->''")
    case True
    then obtain u where "c # cs = ''-->'' @ u" by (metis append_take_drop_id)
    then show ?thesis using Cons.prems True by simp
  next
    case False
    then show ?thesis using Cons by (auto simp: eval_nat_numeral)
  qed
qed simp

text \<open>
  A comment is one open-tag event up to its first terminator, with no event for
  markup inside it. A comment that is never terminated makes the scanner drop the rest of the
  document without any event.\<close>
theorem parse_str_comment:
  "parse_str sc True acc (''<!--'' @ s) =
     (case find_comment_end s of
        Some j \<Rightarrow> (tagText acc @ [ev_openTagStart (''!--'' @ take (j + 2) s),
                     ev_anyTagEnd (''!--'' @ take (j + 2) s) False] @
                     fst (parse_str sc True [] (drop (j + 3) s)),
                   snd (parse_str sc True [] (drop (j + 3) s)))
      | None \<Rightarrow> (tagText acc, True))"
proof (cases "find_comment_end s")
  case None
  have "scan_declaration (''!--'' @ s) = ([], [])"
    using None by (simp add: scan_declaration_def tagEnd_def)
  then show ?thesis using None by (simp add: parse_str.simps tagText_def [of "[]"])
next
  case (Some j)
  have "drop (5 + j) (''!--'' @ s) = CHR ''>'' # drop (j + 3) s"
    "take (5 + j) (''!--'' @ s) = ''!--'' @ take (j + 2) s"
    using find_comment_end_at [OF Some] by (simp_all add: eval_nat_numeral)
  note split = this [simplified]
  have "scan_declaration (''!--'' @ s) = ([ev_openTagStart (''!--'' @ take (j + 2) s),
      ev_anyTagEnd (''!--'' @ take (j + 2) s) False], drop (j + 3) s)"
    using Some by (simp add: scan_declaration_def tagEnd_def Let_def split)
  then show ?thesis using Some by (simp add: parse_str.simps(2) [of sc True acc] case_prod_beta)
qed

end
