(* ===== verification/MP_Xml.thy ===== *)
theory MP_Xml
  imports MP_Prelude
begin

text \<open>
  The helpers of \<open>src/xmlutil.cpp\<close> that every filter's \<open>configure\<close> uses. A
  \<open>const xmlNode *\<close> is a list: the node it points to followed by its later siblings
  (\<open>ptr->next\<close>), the empty list being the null pointer. Exceptions are values.
\<close>

section \<open>XML trees and exceptions\<close>

datatype xml_type = XML_ELEMENT_NODE | XML_TEXT_NODE | XML_other_node

datatype xml_node =
    Xml_Element (element_name: string) (element_ns: "string option")
      (element_attrs: "xml_attr list") (element_children: "xml_node list")
  | Xml_Text string
  | Xml_Other string "xml_node list"
and xml_attr = Xml_Attr (attr_name: string) (attr_ns: "string option") (attr_children: "xml_node list")

datatype mp_exception = XMLError string | FilterException string | NotFound string

fun node_type :: "xml_node \<Rightarrow> xml_type" where
  "node_type (Xml_Element _ _ _ _) = XML_ELEMENT_NODE"
| "node_type (Xml_Text _) = XML_TEXT_NODE"
| "node_type (Xml_Other _ _) = XML_other_node"

fun node_children :: "xml_node \<Rightarrow> xml_node list" where
  "node_children (Xml_Element _ _ _ cs) = cs"
| "node_children (Xml_Text _) = []"
| "node_children (Xml_Other _ cs) = cs"

fun node_attrs :: "xml_node \<Rightarrow> xml_attr list" where
  "node_attrs (Xml_Element _ _ ats _) = ats"
| "node_attrs _ = []"

text \<open>libxml2 names every text node \<open>text\<close>.\<close>

fun node_name :: "xml_node \<Rightarrow> string" where
  "node_name (Xml_Element nm _ _ _) = nm"
| "node_name (Xml_Text _) = ''text''"
| "node_name (Xml_Other nm _) = nm"

fun text_content :: "xml_node \<Rightarrow> string" where
  "text_content (Xml_Text s) = s"
| "text_content _ = []"

definition metaproxy_ns :: string where
  "metaproxy_ns = ''http://indexdata.com/metaproxy''"

section \<open>Text, booleans and integers\<close>

text \<open>The common first step: a pointer to a non-text node is replaced by its children.\<close>

definition text_nodes :: "xml_node list \<Rightarrow> xml_node list" where
  "text_nodes ptr =
     (case ptr of [] \<Rightarrow> []
      | n # _ \<Rightarrow> if node_type n \<noteq> XML_TEXT_NODE then node_children n else ptr)"

definition get_text :: "xml_node list \<Rightarrow> string" where
  "get_text ptr =
     concat (map (\<lambda>n. if node_type n = XML_TEXT_NODE then text_content n else [])
       (text_nodes ptr))"

definition get_text_attr :: "xml_attr \<Rightarrow> string" where
  "get_text_attr a = get_text (attr_children a)"

definition get_bool :: "xml_node list \<Rightarrow> bool \<Rightarrow> bool" where
  "get_bool ptr default_value =
     (case text_nodes ptr of
        Xml_Text c # _ \<Rightarrow> if c = ''true'' \<or> c = ''1'' then True else False
      | _ \<Rightarrow> default_value)"

text \<open>
  \<open>atoi\<close> of the C library: leading white space, an optional sign, decimal digits up to
  the first other character. Values that do not fit an \<open>int\<close> are undefined in C.
\<close>

definition c_isspace :: "char \<Rightarrow> bool" where
  "c_isspace c \<longleftrightarrow> (let n = (of_char c :: nat) in n = 32 \<or> (9 \<le> n \<and> n \<le> 13))"

definition c_isdigit :: "char \<Rightarrow> bool" where
  "c_isdigit c \<longleftrightarrow> (let n = (of_char c :: nat) in 48 \<le> n \<and> n \<le> 57)"

fun digits_value :: "int \<Rightarrow> string \<Rightarrow> int" where
  "digits_value acc [] = acc"
| "digits_value acc (c # cs) =
     (if c_isdigit c then digits_value (acc * 10 + (of_char c - 48)) cs else acc)"

definition atoi :: "string \<Rightarrow> int" where
  "atoi s =
     (case dropWhile c_isspace s of
        [] \<Rightarrow> 0
      | c # cs \<Rightarrow>
          if c = CHR ''-'' then - digits_value 0 cs
          else if c = CHR ''+'' then digits_value 0 cs
          else digits_value 0 (c # cs))"

definition get_int :: "xml_node list \<Rightarrow> int \<Rightarrow> int" where
  "get_int ptr default_value =
     (case text_nodes ptr of
        Xml_Text c # _ \<Rightarrow> atoi c
      | _ \<Rightarrow> default_value)"

section \<open>Elements and attributes\<close>

definition is_attribute :: "xml_attr \<Rightarrow> string \<Rightarrow> string \<Rightarrow> bool" where
  "is_attribute a ns name =
     (if name \<noteq> attr_name a then False
      else if length ns \<noteq> 0 \<and> attr_ns a \<noteq> Some ns then False
      else True)"

definition check_attribute :: "xml_attr \<Rightarrow> string \<Rightarrow> string \<Rightarrow> mp_exception + bool" where
  "check_attribute a ns name =
     (if \<not> is_attribute a ns name
      then Inl (XMLError (''Expected XML attribute '' @ [CHR 0x27] @ name @ '' '' @ ns @ [CHR 0x27]
             @ '', not '' @ [CHR 0x27] @ attr_name a
             @ (if length ns \<noteq> 0 then (case attr_ns a of None \<Rightarrow> [] | Some h \<Rightarrow> '' '' @ h) else [])
             @ [CHR 0x27]))
      else Inr True)"

fun is_element :: "xml_node list \<Rightarrow> string \<Rightarrow> string \<Rightarrow> bool" where
  "is_element (Xml_Element nm nns _ _ # _) ns name = (nns = Some ns \<and> name = nm)"
| "is_element _ ns name = False"

definition is_element_mp :: "xml_node list \<Rightarrow> string \<Rightarrow> bool" where
  "is_element_mp ptr name = is_element ptr metaproxy_ns name"

text \<open>
  The name and namespace of the node found instead, for the error message (libxml2 names a
  text node \<open>text\<close>).
\<close>

fun got_element :: "xml_node list \<Rightarrow> string" where
  "got_element (Xml_Element nm nns _ _ # _) =
     ''<'' @ nm
     @ (case nns of None \<Rightarrow> [] | Some h \<Rightarrow> '' xmlns='' @ [CHR 0x22] @ h @ [CHR 0x22]) @ ''>''"
| "got_element (Xml_Text _ # _) = ''<text>''"
| "got_element (Xml_Other nm _ # _) = ''<'' @ nm @ ''>''"
| "got_element [] = ''<>''"

definition check_element_mp :: "xml_node list \<Rightarrow> string \<Rightarrow> mp_exception + bool" where
  "check_element_mp ptr name =
     (if \<not> is_element_mp ptr name
      then Inl (XMLError (''Expected XML element <'' @ name @ '' xmlns='' @ [CHR 0x22]
             @ metaproxy_ns @ [CHR 0x22] @ ''>'' @ '', not '' @ got_element ptr))
      else Inr True)"

text \<open>
  \<open>parse_attr\<close>: \<open>names\<close> is the null-terminated array of accepted attributes, the
  result their values in the same order. The value of an attribute is the content of its first
  child if that is text.
\<close>

definition attr_first_text :: "xml_attr \<Rightarrow> string" where
  "attr_first_text a = (case attr_children a of Xml_Text c # _ \<Rightarrow> c | _ \<Rightarrow> [])"

fun name_index :: "string list \<Rightarrow> string \<Rightarrow> nat option" where
  "name_index [] n = None"
| "name_index (x # xs) n = (if n = x then Some 0 else map_option Suc (name_index xs n))"

fun parse_attrs :: "string \<Rightarrow> string list \<Rightarrow> xml_attr list \<Rightarrow> string list
    \<Rightarrow> mp_exception + string list" where
  "parse_attrs elem names [] vals = Inr vals"
| "parse_attrs elem names (a # ats) vals =
     (case name_index names (attr_name a) of
        Some i \<Rightarrow> parse_attrs elem names ats (vals[i := attr_first_text a])
      | None \<Rightarrow> Inl (XMLError (''Unsupported attribute: '' @ [CHR 0x27] @ attr_name a @ [CHR 0x27]
                  @ '' in element '' @ [CHR 0x27] @ elem @ [CHR 0x27])))"

definition parse_attr :: "xml_node list \<Rightarrow> string list \<Rightarrow> mp_exception + string list" where
  "parse_attr node names =
     (case node of
        Xml_Element nm _ ats _ # _ \<Rightarrow> parse_attrs nm names ats (replicate (length names) [])
      | _ \<Rightarrow> Inr (replicate (length names) []))"

definition get_route_auth :: "xml_node list \<Rightarrow> mp_exception + string \<times> string" where
  "get_route_auth node =
     (case parse_attr node [''route'', ''auth''] of
        Inl e \<Rightarrow> Inl e
      | Inr vals \<Rightarrow> Inr (vals ! 0, vals ! 1))"

definition get_route :: "xml_node list \<Rightarrow> mp_exception + string" where
  "get_route node =
     (case parse_attr node [''route''] of
        Inl e \<Rightarrow> Inl e
      | Inr vals \<Rightarrow> Inr (vals ! 0))"

section \<open>Walking siblings\<close>

fun jump_to :: "xml_node list \<Rightarrow> xml_type \<Rightarrow> xml_node list" where
  "jump_to [] t = []"
| "jump_to (n # ns) t = (if node_type n \<noteq> t then jump_to ns t else n # ns)"

text \<open>\<open>None\<close> is the dereference of a null pointer.\<close>

definition jump_to_next :: "xml_node list \<Rightarrow> xml_type \<Rightarrow> xml_node list option" where
  "jump_to_next node t = (case node of [] \<Rightarrow> None | _ # rest \<Rightarrow> Some (jump_to rest t))"

definition jump_to_children :: "xml_node list \<Rightarrow> xml_type \<Rightarrow> xml_node list option" where
  "jump_to_children node t =
     (case node of [] \<Rightarrow> None | n # _ \<Rightarrow> Some (jump_to (node_children n) t))"

definition check_empty :: "xml_node list \<Rightarrow> mp_exception + unit" where
  "check_empty node =
     (case node of
        [] \<Rightarrow> Inr ()
      | n # _ \<Rightarrow>
          (let extra = foldl (\<lambda>acc a. if attr_name a = ''type''
                                     then '' of type '' @ get_text_attr a else acc) [] (node_attrs n)
           in if \<exists>c \<in> set (node_children n). node_type c = XML_ELEMENT_NODE
              then Inl (XMLError (''No child elements allowed inside element ''
                     @ node_name n @ extra))
              else Inr ()))"

text \<open>
  The loop of every \<open>configure\<close>: visit the children in order, skip everything that is
  not an element, stop at the first exception.
\<close>

fun for_elements :: "(xml_node list \<Rightarrow> 'c \<Rightarrow> mp_exception + 'c) \<Rightarrow> xml_node list \<Rightarrow> 'c
    \<Rightarrow> mp_exception + 'c" where
  "for_elements step [] c = Inr c"
| "for_elements step (n # ns) c =
     (if node_type n \<noteq> XML_ELEMENT_NODE then for_elements step ns c
      else (case step (n # ns) c of Inl e \<Rightarrow> Inl e | Inr c' \<Rightarrow> for_elements step ns c'))"

section \<open>Properties\<close>

lemma name_index_Some: "name_index names n = Some i \<Longrightarrow> i < length names \<and> names ! i = n"
  by (induction names arbitrary: i) (auto split: if_splits)

lemma name_index_None: "name_index names n = None \<longleftrightarrow> n \<notin> set names"
  by (induction names) (auto split: if_splits)

lemma name_index_nth: "distinct names \<Longrightarrow> i < length names \<Longrightarrow> name_index names (names ! i) = Some i"
  by (induction names arbitrary: i) (auto simp: nth_Cons' less_Suc_eq_0_disj)

text \<open>The last attribute of a given name determines its value.\<close>

definition last_attr_value :: "xml_attr list \<Rightarrow> string \<Rightarrow> string \<Rightarrow> string" where
  "last_attr_value ats n d =
     (case find (\<lambda>a. attr_name a = n) (rev ats) of None \<Rightarrow> d | Some a \<Rightarrow> attr_first_text a)"

lemma last_attr_value_Cons:
  "last_attr_value (a # ats) n d =
     last_attr_value ats n (if attr_name a = n then attr_first_text a else d)"
proof -
  have "find P (xs @ [x]) = (case find P xs of None \<Rightarrow> if P x then Some x else None | Some y \<Rightarrow> Some y)"
    for P and x :: xml_attr and xs
    by (induction xs) auto
  then show ?thesis by (auto simp: last_attr_value_def split: option.splits)
qed

lemma parse_attrs_ok:
  assumes "distinct names" and "length vals = length names"
    and "\<forall>a \<in> set ats. attr_name a \<in> set names"
  shows "\<exists>res. parse_attrs elem names ats vals = Inr res \<and> length res = length names \<and>
     (\<forall>i < length names. res ! i = last_attr_value ats (names ! i) (vals ! i))"
  using assms(2,3)
proof (induction ats arbitrary: vals)
  case Nil
  then show ?case by (simp add: last_attr_value_def)
next
  case (Cons a ats)
  then obtain i where i: "name_index names (attr_name a) = Some i"
    using name_index_None [of names "attr_name a"] by auto
  note ni = name_index_Some [OF i]
  have upd: "(vals[i := attr_first_text a]) ! j =
      (if attr_name a = names ! j then attr_first_text a else vals ! j)" if "j < length names" for j
    using ni that Cons.prems(1) assms(1) by (auto simp: nth_list_update nth_eq_iff_index_eq)
  from Cons.IH [of "vals[i := attr_first_text a]"] Cons.prems
  obtain res where "parse_attrs elem names ats (vals[i := attr_first_text a]) = Inr res"
    "length res = length names"
    "\<forall>j < length names. res ! j = last_attr_value ats (names ! j) ((vals[i := attr_first_text a]) ! j)"
    by auto
  then show ?case by (simp add: i upd last_attr_value_Cons)
qed

lemma parse_attrs_error:
  assumes "\<exists>a \<in> set ats. attr_name a \<notin> set names"
  shows "\<exists>msg. parse_attrs elem names ats vals = Inl (XMLError msg)"
  using assms
proof (induction ats arbitrary: vals)
  case (Cons a ats)
  show ?case
  proof (cases "name_index names (attr_name a)")
    case (Some i)
    then have "attr_name a \<in> set names" using name_index_None [of names "attr_name a"] by auto
    with Some Cons show ?thesis by auto
  qed simp
qed simp

lemma jump_to_result:
  "jump_to ns t = [] \<and> (\<forall>n \<in> set ns. node_type n \<noteq> t)
   \<or> (\<exists>skipped n rest. ns = skipped @ n # rest \<and> jump_to ns t = n # rest
        \<and> node_type n = t \<and> (\<forall>m \<in> set skipped. node_type m \<noteq> t))"
proof (induction ns)
  case (Cons m ns)
  show ?case
  proof (cases "node_type m = t")
    case True
    then show ?thesis by (intro disjI2 exI [of _ "[]"]) simp
  next
    case False
    from Cons.IH show ?thesis
    proof
      assume "\<exists>skipped n rest. ns = skipped @ n # rest \<and> jump_to ns t = n # rest
        \<and> node_type n = t \<and> (\<forall>m \<in> set skipped. node_type m \<noteq> t)"
      then obtain sk n rest where "ns = sk @ n # rest" "jump_to ns t = n # rest"
        "node_type n = t" "\<forall>m \<in> set sk. node_type m \<noteq> t" by blast
      with False show ?thesis by (intro disjI2 exI [of _ "m # sk"]) auto
    qed (use False in simp)
  qed
qed simp

lemma for_elements_append:
  "for_elements (\<lambda>ns. step (hd ns)) (xs @ ys) c =
     (case for_elements (\<lambda>ns. step (hd ns)) xs c of Inl e \<Rightarrow> Inl e
      | Inr c' \<Rightarrow> for_elements (\<lambda>ns. step (hd ns)) ys c')"
  by (induction xs arbitrary: c) (auto split: sum.splits)

lemma for_elements_inv:
  assumes "\<And>ns c c'. I c \<Longrightarrow> step ns c = Inr c' \<Longrightarrow> I c'"
    and "I c" and "for_elements step ns c = Inr c'"
  shows "I c'"
  using assms(2,3)
  by (induction ns arbitrary: c) (auto split: if_splits sum.splits intro: assms(1))

text \<open>
  Attributes of an element are checked against the list of names: when all of them are listed,
  the result gives for each name the value of its last occurrence (the empty string when it does
  not occur); when one is not listed, an XML error is raised.\<close>
theorem parse_attr_values:
  assumes "distinct names"
  shows "case parse_attr (Xml_Element nm ns ats cs # sibs) names of
      Inr res \<Rightarrow> attr_name ` set ats \<subseteq> set names \<and>
        res = map (\<lambda>n. last_attr_value ats n []) names
    | Inl e \<Rightarrow> \<not> attr_name ` set ats \<subseteq> set names \<and> (\<exists>msg. e = XMLError msg)"
proof (cases "attr_name ` set ats \<subseteq> set names")
  case True
  then obtain res where "parse_attrs nm names ats (replicate (length names) []) = Inr res" "length res = length names"
    "\<forall>i < length names. res ! i = last_attr_value ats (names ! i) []"
    using parse_attrs_ok [OF assms, of "replicate (length names) []" ats nm] by auto
  moreover from this have "res = map (\<lambda>n. last_attr_value ats n []) names" by (intro nth_equalityI) auto
  ultimately show ?thesis using True by (simp add: parse_attr_def)
next
  case False
  then have "\<exists>a \<in> set ats. attr_name a \<notin> set names" by blast
  then obtain msg where "parse_attrs nm names ats (replicate (length names) []) = Inl (XMLError msg)"
    using parse_attrs_error by blast
  with False show ?thesis by (simp add: parse_attr_def)
qed

theorem parse_attr_values_witness:
  "parse_attr [Xml_Element ''target'' None [Xml_Attr ''auth'' None [Xml_Text ''me''], Xml_Attr ''route'' None [Xml_Text ''r1'']] []]
     [''route'', ''auth''] = Inr [''r1'', ''me'']"
  using parse_attr_values [where names = "[''route'', ''auth'']" and nm = "''target''" and ns = None
      and ats = "[Xml_Attr ''auth'' None [Xml_Text ''me''], Xml_Attr ''route'' None [Xml_Text ''r1'']]" and cs = "[]" and sibs = "[]"]
  by (auto simp: last_attr_value_def attr_first_text_def parse_attr_def split: sum.splits)

end
