(* ===== verification/MP_Limit.thy ===== *)
theory MP_Limit
  imports MP_Core MP_Xml
begin

text \<open>
  The resource limit filter (\<open>src/filter_limit.cpp\<close>). The statistics class
  \<open>TimeStat\<close> of YAZ++ and the size of an encoded data unit are parameters. The two
  critical sections of \<open>process\<close>, before and after the package moves on, are separate
  operations, so that packages of several sessions can interleave between them.
\<close>

section \<open>State and configuration\<close>

text \<open>
  \<open>TimeStat\<close>: a statistic of the last seconds. Both member functions read the clock, which
  is their first argument here.
\<close>

record 't timestat =
  TimeStat_new :: "int \<Rightarrow> 't"
  TimeStat_add_bytes :: "int \<Rightarrow> int \<Rightarrow> 't \<Rightarrow> 't"
  TimeStat_get_total :: "int \<Rightarrow> 't \<Rightarrow> int"

record 't Limit_Ses =
  bw_stat :: 't
  pdu_stat :: 't
  search_stat :: 't

definition Limit_Ses_new :: "'t timestat \<Rightarrow> 't Limit_Ses" where
  "Limit_Ses_new T = \<lparr>bw_stat = TimeStat_new T 60, pdu_stat = TimeStat_new T 60,
     search_stat = TimeStat_new T 60\<rparr>"

record 't Limit =
  lim_sessions :: "'t Limit_Ses session_map"
  m_bw_max :: int
  m_pdu_max :: int
  m_search_max :: int
  m_max_record_retrieve :: int

definition Limit_new :: "'t Limit" where
  "Limit_new = \<lparr>lim_sessions = Map.empty, m_bw_max = 0, m_pdu_max = 0, m_search_max = 0,
     m_max_record_retrieve = 0\<rparr>"

fun Limit_attrs :: "xml_attr list \<Rightarrow> 't Limit \<Rightarrow> mp_exception + 't Limit" where
  "Limit_attrs [] st = Inr st"
| "Limit_attrs (a # as') st =
     (let v = get_int (attr_children a) 0 in
      if attr_name a = ''bandwidth'' then Limit_attrs as' (st\<lparr>m_bw_max := v\<rparr>)
      else if attr_name a = ''pdu'' then Limit_attrs as' (st\<lparr>m_pdu_max := v\<rparr>)
      else if attr_name a = ''search'' then Limit_attrs as' (st\<lparr>m_search_max := v\<rparr>)
      else if attr_name a = ''retrieve'' then Limit_attrs as' (st\<lparr>m_max_record_retrieve := v\<rparr>)
      else Inl (FilterException (''Bad attribute '' @ attr_name a)))"

fun Limit_element :: "xml_node list \<Rightarrow> 't Limit \<Rightarrow> mp_exception + 't Limit" where
  "Limit_element (Xml_Element nm _ attrs _ # _) st =
     (if nm = ''limit'' then Limit_attrs attrs st
      else Inl (FilterException (''Bad element '' @ nm)))"
| "Limit_element _ st = Inr st"

definition Limit_configure :: "xml_node \<Rightarrow> 't Limit \<Rightarrow> mp_exception + 't Limit" where
  "Limit_configure ptr st = for_elements Limit_element (node_children ptr) st"

section \<open>Processing\<close>

definition Limit_find_ses :: "'t timestat \<Rightarrow> 't Limit \<Rightarrow> package \<Rightarrow> 't Limit_Ses" where
  "Limit_find_ses T st p =
     (case lim_sessions st (m_id (pkg_session p)) of Some ses \<Rightarrow> ses | None \<Rightarrow> Limit_Ses_new T)"

definition Limit_put_ses :: "'t Limit \<Rightarrow> package \<Rightarrow> 't Limit_Ses \<Rightarrow> 't Limit" where
  "Limit_put_ses st p ses = st\<lparr>lim_sessions := session_map_create (lim_sessions st) ses (pkg_session p)\<rparr>"

text \<open>The request with the number of records of a present request cut down.\<close>

fun Limit_request :: "int \<Rightarrow> Z_GDU option \<Rightarrow> Z_GDU option" where
  "Limit_request mx (Some (GDU_Z3950 (APDU_presentRequest pr))) =
     Some (GDU_Z3950 (APDU_presentRequest
       (if mx \<noteq> 0 \<and> prq_numberOfRecordsRequested pr > mx
        then pr\<lparr>prq_numberOfRecordsRequested := mx\<rparr> else pr)))"
| "Limit_request mx gdu = gdu"

text \<open>First critical section: result are the state, the package and the size counted so far.\<close>

definition Limit_enter :: "'t timestat \<Rightarrow> (Z_GDU option \<Rightarrow> int) \<Rightarrow> int \<Rightarrow> package \<Rightarrow> 't Limit
    \<Rightarrow> 't Limit \<times> package \<times> int" where
  "Limit_enter T gsize now p st =
     (let ses = Limit_find_ses T st p;
          sz = (case pkg_request p of Some (GDU_Z3950 _) \<Rightarrow> gsize (pkg_request p) | _ \<Rightarrow> 0);
          ses = (case pkg_request p of
                   Some (GDU_Z3950 (APDU_searchRequest _)) \<Rightarrow>
                     ses\<lparr>search_stat := TimeStat_add_bytes T now 1 (search_stat ses)\<rparr>
                 | _ \<Rightarrow> ses)
      in (Limit_put_ses st p ses,
          p\<lparr>pkg_request := Limit_request (m_max_record_retrieve st) (pkg_request p)\<rparr>, sz))"

definition Limit_reduce :: "'t Limit \<Rightarrow> int \<Rightarrow> int \<Rightarrow> int \<Rightarrow> int" where
  "Limit_reduce st bw_total pdu_total search_total =
     (let reduce = 0;
          reduce = (if m_search_max st \<noteq> 0 then reduce + c_div search_total (m_search_max st) else reduce);
          reduce = (if m_bw_max st \<noteq> 0 then reduce + c_div bw_total (m_bw_max st) else reduce)
      in if m_pdu_max st \<noteq> 0 \<and> pdu_total > m_pdu_max st
         then (let nreduce = (if m_pdu_max st \<ge> 60 then 1 else c_div 60 (m_pdu_max st))
               in if reduce > nreduce then reduce else nreduce)
         else reduce)"

text \<open>Second critical section: result are the state and the seconds to sleep.\<close>

definition Limit_leave :: "'t timestat \<Rightarrow> (Z_GDU option \<Rightarrow> int) \<Rightarrow> int \<Rightarrow> package \<Rightarrow> int \<Rightarrow> 't Limit
    \<Rightarrow> 't Limit \<times> int" where
  "Limit_leave T gsize now p sz st =
     (let ses = Limit_find_ses T st p;
          sz = sz + gsize (pkg_response p);
          ses = ses\<lparr>bw_stat := TimeStat_add_bytes T now sz (bw_stat ses),
                    pdu_stat := TimeStat_add_bytes T now 1 (pdu_stat ses)\<rparr>;
          reduce = Limit_reduce st (TimeStat_get_total T now (bw_stat ses))
                     (TimeStat_get_total T now (pdu_stat ses))
                     (TimeStat_get_total T now (search_stat ses));
          st = Limit_put_ses st p ses
      in (if is_closed p
          then st\<lparr>lim_sessions := session_map_release (lim_sessions st) (pkg_session p)\<rparr>
          else st, reduce))"

text \<open>
  The whole handler, with nothing of other sessions in between. The pause is part of the
  result; logging of it is not modelled.
\<close>

definition Limit_process :: "'t timestat \<Rightarrow> (Z_GDU option \<Rightarrow> int) \<Rightarrow> int \<Rightarrow> int \<Rightarrow> 'w move_fn \<Rightarrow> 't Limit
    \<Rightarrow> package \<Rightarrow> 'w world_scheme \<Rightarrow> (package \<times> 't Limit \<times> int) \<times> 'w world_scheme" where
  "Limit_process T gsize now now' mv st p w =
     (let (st, p, sz) = Limit_enter T gsize now p st;
          (p, w) = mv [] p w;
          (st, reduce) = Limit_leave T gsize now' p sz st
      in ((p, st, reduce), w))"

section \<open>Interleaved sessions\<close>

text \<open>
  What the packages of all sessions do to the filter, in the order in which they hold the
  mutex.
\<close>

datatype limit_event = Limit_Enters int package | Limit_Leaves int package int

fun limit_step :: "'t timestat \<Rightarrow> (Z_GDU option \<Rightarrow> int) \<Rightarrow> limit_event \<Rightarrow> 't Limit \<Rightarrow> 't Limit" where
  "limit_step T gsize (Limit_Enters now p) st = fst (Limit_enter T gsize now p st)"
| "limit_step T gsize (Limit_Leaves now p sz) st = fst (Limit_leave T gsize now p sz st)"

definition limit_run :: "'t timestat \<Rightarrow> (Z_GDU option \<Rightarrow> int) \<Rightarrow> limit_event list \<Rightarrow> 't Limit \<Rightarrow> 't Limit" where
  "limit_run T gsize evs st = fold (limit_step T gsize) evs st"

fun event_package :: "limit_event \<Rightarrow> package" where
  "event_package (Limit_Enters now p) = p"
| "event_package (Limit_Leaves now p sz) = p"

fun event_closes :: "limit_event \<Rightarrow> bool" where
  "event_closes (Limit_Enters now p) = False"
| "event_closes (Limit_Leaves now p sz) = is_closed p"

abbreviation event_of :: "64 word \<Rightarrow> limit_event \<Rightarrow> bool" where
  "event_of i e \<equiv> m_id (pkg_session (event_package e)) = i"

section \<open>Properties\<close>

lemma c_div_eq_0_iff: "0 \<le> a \<Longrightarrow> 0 < b \<Longrightarrow> c_div a b = 0 \<longleftrightarrow> a < b"
  by (auto simp: zdiv_eq_0_iff)

lemma limit_step_sessions:
  "lim_sessions (limit_step T gsize e st) i \<noteq> None \<longleftrightarrow>
     (if event_of i e then \<not> event_closes e else lim_sessions st i \<noteq> None)"
  by (cases e) (auto simp: Limit_enter_def Limit_leave_def Limit_put_ses_def Let_def
      session_map_create_def session_map_release_def split: option.splits)

lemma limit_step_limits:
  "m_max_record_retrieve (limit_step T gsize e st) = m_max_record_retrieve st"
  "m_bw_max (limit_step T gsize e st) = m_bw_max st"
  "m_pdu_max (limit_step T gsize e st) = m_pdu_max st"
  "m_search_max (limit_step T gsize e st) = m_search_max st"
  by (cases e; simp add: Limit_enter_def Limit_leave_def Limit_put_ses_def Let_def)+

text \<open>
  In every interleaving of the packages of any number of sessions, the filter holds
  statistics for a session exactly when that session was seen and its last action was not
  to leave the filter closed: nothing is kept for closed sessions, and no session loses its
  statistics because of another one.\<close>
theorem limit_sessions_tracked:
  "lim_sessions (limit_run T gsize evs Limit_new) i \<noteq> None \<longleftrightarrow>
     filter (event_of i) evs \<noteq> [] \<and> \<not> event_closes (last (filter (event_of i) evs))"
proof (induction evs rule: rev_induct)
  case Nil
  then show ?case by (simp add: limit_run_def Limit_new_def)
next
  case (snoc e evs)
  have "limit_run T gsize (evs @ [e]) Limit_new = limit_step T gsize e (limit_run T gsize evs Limit_new)"
    by (simp add: limit_run_def)
  then show ?case using snoc by (simp only: limit_step_sessions) auto
qed

text \<open>
  With nonnegative limits (0 is no limit) and totals, the filter does not delay a package
  exactly when the session did fewer searches and moved fewer bytes in the last minute than
  the limits, and no more PDUs than the limit.\<close>
theorem limit_reduce_zero_iff:
  assumes "0 \<le> m_search_max st" and "0 \<le> m_bw_max st" and "0 \<le> m_pdu_max st"
    and "0 \<le> bw_total" and "0 \<le> pdu_total" and "0 \<le> search_total"
  shows "Limit_reduce st bw_total pdu_total search_total = 0 \<longleftrightarrow>
     (m_search_max st = 0 \<or> search_total < m_search_max st) \<and>
     (m_bw_max st = 0 \<or> bw_total < m_bw_max st) \<and>
     (m_pdu_max st = 0 \<or> pdu_total \<le> m_pdu_max st)"
proof -
  define s where "s = (if m_search_max st \<noteq> 0 then c_div search_total (m_search_max st) else 0)"
  define b where "b = (if m_bw_max st \<noteq> 0 then c_div bw_total (m_bw_max st) else 0)"
  define n where "n = (if m_pdu_max st \<ge> 60 then 1 else c_div 60 (m_pdu_max st))"
  have s: "0 \<le> s" "s = 0 \<longleftrightarrow> m_search_max st = 0 \<or> search_total < m_search_max st"
    using assms c_div_eq_0_iff [of search_total "m_search_max st"] c_div_lower [of search_total "m_search_max st"]
    by (auto simp: s_def simp del: c_div_nonneg)
  have b: "0 \<le> b" "b = 0 \<longleftrightarrow> m_bw_max st = 0 \<or> bw_total < m_bw_max st"
    using assms c_div_eq_0_iff [of bw_total "m_bw_max st"] c_div_lower [of bw_total "m_bw_max st"]
    by (auto simp: b_def simp del: c_div_nonneg)
  have n: "0 < n" if "m_pdu_max st \<noteq> 0"
    using that assms(3) by (auto simp: n_def pos_imp_zdiv_pos_iff)
  have "Limit_reduce st bw_total pdu_total search_total =
     (if m_pdu_max st \<noteq> 0 \<and> pdu_total > m_pdu_max st then max (s + b) n else s + b)"
    by (auto simp: Limit_reduce_def s_def b_def n_def Let_def)
  then show ?thesis using s b n by auto
qed

theorem limit_reduce_zero_iff_witness:
  "Limit_reduce (Limit_new\<lparr>m_search_max := 5, m_bw_max := 50000, m_pdu_max := 100\<rparr> :: unit Limit) 49999 100 5 \<noteq> 0
   \<and> Limit_reduce (Limit_new\<lparr>m_search_max := 5, m_bw_max := 50000, m_pdu_max := 100\<rparr> :: unit Limit) 49999 100 4 = 0"
  using limit_reduce_zero_iff [of "Limit_new\<lparr>m_search_max := 5, m_bw_max := 50000, m_pdu_max := 100\<rparr> :: unit Limit" 49999 100 5]
    limit_reduce_zero_iff [of "Limit_new\<lparr>m_search_max := 5, m_bw_max := 50000, m_pdu_max := 100\<rparr> :: unit Limit" 49999 100 4]
  by (simp add: Limit_new_def)

text \<open>What the filters behind this one may be asked for.\<close>

fun retrieve_capped :: "int \<Rightarrow> Z_GDU option \<Rightarrow> bool" where
  "retrieve_capped mx (Some (GDU_Z3950 (APDU_presentRequest pr))) = (prq_numberOfRecordsRequested pr \<le> mx)"
| "retrieve_capped mx _ = True"

lemma Limit_request_capped: "mx \<noteq> 0 \<Longrightarrow> retrieve_capped mx (Limit_request mx gdu)"
  by (induction mx gdu rule: Limit_request.induct) auto

lemma Limit_enter_request:
  "pkg_request (fst (snd (Limit_enter T gsize now p st))) = Limit_request (m_max_record_retrieve st) (pkg_request p)"
  by (simp add: Limit_enter_def Let_def)

text \<open>
  With a retrieve limit configured, the filters behind this one never see a present
  request for more records: two continuations that agree on all requests within the limit
  give the same result, whatever they do on larger ones.\<close>
theorem limit_process_capped:
  assumes "m_max_record_retrieve st \<noteq> 0"
    and "\<And>q w. retrieve_capped (m_max_record_retrieve st) (pkg_request q) \<Longrightarrow> mv [] q w = mv' [] q w"
  shows "Limit_process T gsize now now' mv st p w = Limit_process T gsize now now' mv' st p w"
proof -
  obtain st' q sz where e: "Limit_enter T gsize now p st = (st', q, sz)" using prod_cases3 by blast
  have "pkg_request q = Limit_request (m_max_record_retrieve st) (pkg_request p)"
    using Limit_enter_request [of T gsize now p st] e by simp
  then have "mv [] q w = mv' [] q w" using assms Limit_request_capped by simp
  then show ?thesis by (simp add: Limit_process_def e)
qed

text \<open>A continuation that closes the session on large requests cannot be told apart from one
  that never does, here on a request for 80 records with a limit of 50.\<close>

abbreviation counter_stat :: "int timestat" where
  "counter_stat \<equiv> \<lparr>TimeStat_new = (\<lambda>_. 0), TimeStat_add_bytes = (\<lambda>_ n t. t + n),
     TimeStat_get_total = (\<lambda>_ t. t)\<rparr>"

abbreviation present_80 :: package where
  "present_80 \<equiv> (Package_new \<lparr>m_id = 7, m_close = False\<rparr> Origin_new)\<lparr>pkg_request :=
     Some (GDU_Z3950 (APDU_presentRequest \<lparr>prq_referenceId = None, prq_resultSetId = ''default'',
       prq_resultSetStartPoint = 1, prq_numberOfRecordsRequested = 80,
       prq_recordComposition = None, prq_preferredRecordSyntax = None\<rparr>))\<rparr>"

theorem limit_process_capped_witness:
  "Limit_process counter_stat (\<lambda>_. 10) 0 1
       (\<lambda>r q w. (if retrieve_capped 50 (pkg_request q) then q else close_session q, w))
       (Limit_new\<lparr>m_max_record_retrieve := 50\<rparr>) present_80 \<lparr>m_global_id = 7\<rparr>
   = Limit_process counter_stat (\<lambda>_. 10) 0 1 (\<lambda>r q w. (q, w))
       (Limit_new\<lparr>m_max_record_retrieve := 50\<rparr>) present_80 \<lparr>m_global_id = 7\<rparr>"
  by (rule limit_process_capped) simp_all

end
