(* ===== verification/MP_Present_Chunk.thy ===== *)
theory MP_Present_Chunk
  imports MP_Core MP_Xml MP_Yaz_Ref
begin

text \<open>
  The filter that splits a present request into chunks (\<open>src/filter_present_chunk.cpp\<close>).
  The loop of \<open>chunk_it\<close> ends only if the target makes progress, so it is a partial
  function: \<open>None\<close> is a loop that never ends.
\<close>

section \<open>Configuration\<close>

fun PresentChunk_element :: "xml_node list \<Rightarrow> int \<Rightarrow> mp_exception + int" where
  "PresentChunk_element (Xml_Element nm ns attrs ch # rest) chunk_number =
     (if nm = ''chunk'' then Inr (get_int (Xml_Element nm ns attrs ch # rest) 0)
      else Inl (FilterException (''Bad element '' @ nm)))"
| "PresentChunk_element _ chunk_number = Inr chunk_number"

definition PresentChunk_configure :: "xml_node \<Rightarrow> int \<Rightarrow> mp_exception + int" where
  "PresentChunk_configure ptr chunk_number =
     for_elements PresentChunk_element (node_children ptr) chunk_number"

section \<open>Chunking\<close>

text \<open>
  What a run of the loop ends in: the session was closed by the target, a reply that is
  passed on as it is, all records, or a write behind the end of the record array.
\<close>

datatype chunk_out =
    Chunk_Closed
  | Chunk_Reply "Z_GDU option"
  | Chunk_Records "Z_NamePlusRecord list"
  | Chunk_Overflow

definition chunk_request :: "int \<Rightarrow> Z_PresentRequest \<Rightarrow> int \<Rightarrow> int \<Rightarrow> int \<Rightarrow> Z_GDU" where
  "chunk_request chunk_number pr tot start offset =
     (let left = tot - offset in
      GDU_Z3950 (APDU_presentRequest
        (pr\<lparr>prq_numberOfRecordsRequested := (if left > chunk_number then chunk_number else left),
            prq_resultSetStartPoint := start + offset\<rparr>)))"

text \<open>The reply to one chunk: an end of the loop, or records to append.\<close>

definition chunk_reply :: "int \<Rightarrow> int \<Rightarrow> package \<Rightarrow> chunk_out + Z_NamePlusRecord list" where
  "chunk_reply tot offset pp =
     (if is_closed pp then Inl Chunk_Closed
      else (case pkg_response pp of
          Some (GDU_Z3950 (APDU_presentResponse pres)) \<Rightarrow>
            (case prs_records pres of
               Some (Records_DBOSD rs) \<Rightarrow>
                 if offset + int (length rs) > tot then Inl Chunk_Overflow else Inr rs
             | _ \<Rightarrow> Inl (Chunk_Reply (pkg_response pp)))
        | _ \<Rightarrow> Inl (Chunk_Reply (pkg_response pp))))"

text \<open>
  \<open>req\<close> is the request of the outer package, which the loop overwrites with each chunk;
  \<open>recs\<close> holds the first \<open>offset\<close> entries of the record array.
\<close>

partial_function (option) chunk_loop :: "int \<Rightarrow> 'w move_fn \<Rightarrow> package \<Rightarrow> Z_PresentRequest \<Rightarrow> int \<Rightarrow> int
    \<Rightarrow> Z_GDU option \<Rightarrow> Z_NamePlusRecord list \<Rightarrow> 'w world_scheme
    \<Rightarrow> (chunk_out \<times> Z_GDU option \<times> 'w world_scheme) option" where
  "chunk_loop chunk_number mv p pr tot start req recs w =
     (let offset = int (length recs) in
      if \<not> offset < tot then Some (Chunk_Records recs, req, w)
      else
       (let gdu = chunk_request chunk_number pr tot start offset;
            (pp, w) = mv [] ((Package_new (pkg_session p) (pkg_origin p))\<lparr>pkg_request := Some gdu\<rparr>) w
        in case chunk_reply tot offset pp of
             Inl res \<Rightarrow> Some (res, Some gdu, w)
           | Inr rs \<Rightarrow> chunk_loop chunk_number mv p pr tot start (Some gdu) (recs @ rs) w))"

text \<open>
  The two ways out of the defined behaviour of C++: a negative number of records makes the size
  of the array wrap around, and a target that sends more records than requested is written
  past its end.
\<close>

datatype chunk_error = Chunk_bad_size | Chunk_out_of_bounds

definition chunk_it :: "yaz \<Rightarrow> int \<Rightarrow> 'w move_fn \<Rightarrow> package \<Rightarrow> Z_PresentRequest \<Rightarrow> 'w world_scheme
    \<Rightarrow> ((chunk_error + package) \<times> 'w world_scheme) option" where
  "chunk_it Y chunk_number mv p pr w =
     (let tot = prq_numberOfRecordsRequested pr; start = prq_resultSetStartPoint pr in
      if tot < 0 then Some (Inl Chunk_bad_size, w)
      else (case chunk_loop chunk_number mv p pr tot start (pkg_request p) [] w of
          None \<Rightarrow> None
        | Some (res, req, w) \<Rightarrow>
            Some (case res of
                Chunk_Closed \<Rightarrow> Inr (close_session (p\<lparr>pkg_request := req\<rparr>))
              | Chunk_Reply r \<Rightarrow> Inr (p\<lparr>pkg_request := req, pkg_response := r\<rparr>)
              | Chunk_Overflow \<Rightarrow> Inl Chunk_out_of_bounds
              | Chunk_Records recs \<Rightarrow>
                  Inr (p\<lparr>pkg_request := req, pkg_response := Some (GDU_Z3950 (APDU_presentResponse
                    ((zget_presentResponse Y)\<lparr>prs_records := Some (Records_DBOSD recs),
                       prs_numberOfRecordsReturned := int (length recs)\<rparr>)))\<rparr>), w)))"

definition PresentChunk_process :: "yaz \<Rightarrow> int \<Rightarrow> 'w move_fn \<Rightarrow> package \<Rightarrow> 'w world_scheme
    \<Rightarrow> ((chunk_error + package) \<times> 'w world_scheme) option" where
  "PresentChunk_process Y chunk_number mv p w =
     (case pkg_request p of
        Some (GDU_Z3950 (APDU_presentRequest pr)) \<Rightarrow>
          if chunk_number > 0 then chunk_it Y chunk_number mv p pr w
          else (let (p, w) = mv [] p w in Some (Inr p, w))
      | _ \<Rightarrow> (let (p, w) = mv [] p w in Some (Inr p, w)))"

section \<open>A target that serves a result set\<close>

text \<open>
  The requests the loop may issue, and a target that answers each of them with at least one
  and at most the requested number of the next records of its result set \<open>R\<close>, as long as
  the world is in a state \<open>I\<close> that its answers keep.
\<close>

fun chunk_within :: "int \<Rightarrow> Z_GDU option \<Rightarrow> bool" where
  "chunk_within mx (Some (GDU_Z3950 (APDU_presentRequest pr))) = (prq_numberOfRecordsRequested pr \<le> mx)"
| "chunk_within mx _ = False"

definition same_request :: "Z_PresentRequest \<Rightarrow> Z_PresentRequest \<Rightarrow> bool" where
  "same_request pr pr' \<longleftrightarrow>
     pr\<lparr>prq_numberOfRecordsRequested := 0, prq_resultSetStartPoint := 0\<rparr> =
     pr'\<lparr>prq_numberOfRecordsRequested := 0, prq_resultSetStartPoint := 0\<rparr>"

definition serves :: "('w world_scheme \<Rightarrow> bool) \<Rightarrow> session \<Rightarrow> Z_PresentRequest \<Rightarrow> Z_NamePlusRecord list \<Rightarrow> 'w move_fn \<Rightarrow> bool" where
  "serves I ses pr0 R mv \<longleftrightarrow>
     (\<forall>q w pr. I w \<longrightarrow> pkg_session q = ses \<longrightarrow> pkg_request q = Some (GDU_Z3950 (APDU_presentRequest pr)) \<longrightarrow> same_request pr pr0 \<longrightarrow>
        1 \<le> prq_resultSetStartPoint pr \<longrightarrow> 1 \<le> prq_numberOfRecordsRequested pr \<longrightarrow>
        prq_resultSetStartPoint pr + prq_numberOfRecordsRequested pr - 1 \<le> int (length R) \<longrightarrow>
        (\<exists>k w' pres. I w' \<and> 1 \<le> k \<and> int k \<le> prq_numberOfRecordsRequested pr \<and>
           prs_records pres = Some (Records_DBOSD (take k (drop (nat (prq_resultSetStartPoint pr - 1)) R))) \<and>
           mv [] q w = (q\<lparr>pkg_response := Some (GDU_Z3950 (APDU_presentResponse pres))\<rparr>, w')))"

lemma servesD:
  assumes "serves I (pkg_session q) pr0 R mv" and "I w" and "pkg_request q = Some (GDU_Z3950 (APDU_presentRequest pr))"
    and "same_request pr pr0"
    and "prq_resultSetStartPoint pr = int s + 1" and "1 \<le> prq_numberOfRecordsRequested pr"
    and "int s + prq_numberOfRecordsRequested pr \<le> int (length R)"
  obtains k w' pres where "I w'" "1 \<le> k" "int k \<le> prq_numberOfRecordsRequested pr"
    "prs_records pres = Some (Records_DBOSD (take k (drop s R)))"
    "mv [] q w = (q\<lparr>pkg_response := Some (GDU_Z3950 (APDU_presentResponse pres))\<rparr>, w')"
proof -
  have "\<exists>k w' pres. I w' \<and> 1 \<le> k \<and> int k \<le> prq_numberOfRecordsRequested pr \<and>
     prs_records pres = Some (Records_DBOSD (take k (drop s R))) \<and>
     mv [] q w = (q\<lparr>pkg_response := Some (GDU_Z3950 (APDU_presentResponse pres))\<rparr>, w')"
    using assms(1) [unfolded serves_def, rule_format, OF assms(2) refl assms(3,4)] assms(5-7) by simp
  then show ?thesis using that by blast
qed

lemma chunk_request_fields:
  "\<exists>pr'. chunk_request chunk_number pr tot start offset = GDU_Z3950 (APDU_presentRequest pr') \<and> same_request pr' pr \<and>
     prq_resultSetStartPoint pr' = start + offset \<and>
     prq_numberOfRecordsRequested pr' = min chunk_number (tot - offset)"
  by (simp add: chunk_request_def Let_def min_def same_request_def)

lemma chunk_loop_records:
  assumes "serves I (pkg_session p) pr R mv" and "0 < chunk_number" and "\<not> m_close (pkg_session p)"
    and "a + tot \<le> length R"
  shows "n \<le> tot \<Longrightarrow> I w \<Longrightarrow> \<exists>req' w'. I w' \<and> chunk_loop chunk_number mv p pr (int tot) (int a + 1) req (take n (drop a R)) w =
            Some (Chunk_Records (take tot (drop a R)), req', w')"
proof (induction "tot - n" arbitrary: n req w rule: less_induct)
  case less
  let ?recs = "take n (drop a R)"
  have len: "length ?recs = n" using less.prems assms(4) by simp
  show ?case
  proof (cases "n < tot")
    case False
    then have "n = tot" using less.prems by simp
    then show ?thesis using len less.prems(2) by (subst chunk_loop.simps) simp
  next
    case True
    define gdu where "gdu = chunk_request chunk_number pr (int tot) (int a + 1) (int n)"
    define q where "q = (Package_new (pkg_session p) (pkg_origin p))\<lparr>pkg_request := Some gdu\<rparr>"
    obtain pr' where pr': "gdu = GDU_Z3950 (APDU_presentRequest pr')" and same: "same_request pr' pr" and pr'':
      "prq_resultSetStartPoint pr' = int (a + n) + 1"
      "prq_numberOfRecordsRequested pr' = min chunk_number (int tot - int n)"
      using chunk_request_fields [of chunk_number pr "int tot" "int a + 1" "int n"] unfolding gdu_def
      by (auto simp: algebra_simps)
    note pr' = pr' pr''
    have q: "pkg_request q = Some (GDU_Z3950 (APDU_presentRequest pr'))" "pkg_session q = pkg_session p"
      by (simp_all add: q_def pr' Package_new_def)
    have bounds: "1 \<le> prq_numberOfRecordsRequested pr'"
      "int (a + n) + prq_numberOfRecordsRequested pr' \<le> int (length R)"
      using True assms(2,4) pr'(3) by auto
    obtain k w' pres where I: "I w'" and k: "1 \<le> k" "int k \<le> prq_numberOfRecordsRequested pr'"
      "prs_records pres = Some (Records_DBOSD (take k (drop (a + n) R)))"
      "mv [] q w = (q\<lparr>pkg_response := Some (GDU_Z3950 (APDU_presentResponse pres))\<rparr>, w')"
      by (rule servesD [OF assms(1) [folded q(2)] less.prems(2) q(1) same pr'(2) bounds])
    have kb: "int k \<le> int tot - int n" using k(2) pr'(3) by simp
    have lk: "length (take k (drop (a + n) R)) = k" "take n (drop a R) @ take k (drop (a + n) R) = take (n + k) (drop a R)"
      using kb assms(4) by (simp_all add: take_add add.commute [of n a])
    obtain req' w'' where "I w''" and "chunk_loop chunk_number mv p pr (int tot) (int a + 1) (Some gdu)
        (take (n + k) (drop a R)) w' = Some (Chunk_Records (take tot (drop a R)), req', w'')"
      using less.hyps [of "n + k" w' "Some gdu"] k(1) kb True I by fastforce
    then show ?thesis
      using True kb k(3,4) lk len assms(3)
      by (subst chunk_loop.simps)
         (simp add: gdu_def [symmetric] q_def [symmetric] Let_def, simp add: q_def Package_new_def chunk_reply_def)
  qed
qed

lemma PresentChunk_process_records:
  assumes "serves I (pkg_session p) pr R mv" and "0 < chunk_number" and "\<not> is_closed p"
    and "pkg_request p = Some (GDU_Z3950 (APDU_presentRequest pr))"
    and "prq_resultSetStartPoint pr = int a + 1"
    and "prq_numberOfRecordsRequested pr = int n" and "a + n \<le> length R" and "I w"
  shows "\<exists>q w'. PresentChunk_process Y chunk_number mv p w = Some (Inr q, w') \<and> I w' \<and>
     pkg_session q = pkg_session p \<and>
     pkg_response q = Some (GDU_Z3950 (APDU_presentResponse
       ((zget_presentResponse Y)\<lparr>prs_records := Some (Records_DBOSD (take n (drop a R))),
          prs_numberOfRecordsReturned := int n\<rparr>)))"
proof -
  have "length (take n (drop a R)) = n" using assms(7) by simp
  moreover obtain req' w' where
    "chunk_loop chunk_number mv p pr (int n) (int a + 1) (pkg_request p) [] w =
       Some (Chunk_Records (take n (drop a R)), req', w')" "I w'"
    using chunk_loop_records [OF assms(1-3,7), of 0 w "pkg_request p"] assms(8) by auto
  ultimately show ?thesis
    using assms(2,4-6) by (simp add: PresentChunk_process_def chunk_it_def)
qed

section \<open>Properties\<close>

text \<open>
  C33. If the target answers every present request within its result set with at least one
  and at most the requested records, then a chunked present request ends and its response
  has all the requested records in order. The response is otherwise the default of YAZ: it
  does not carry the reference identifier of the request.\<close>
theorem present_chunk_complete:
  assumes "serves I (pkg_session p) pr R mv" and "0 < chunk_number" and "\<not> is_closed p"
    and "pkg_request p = Some (GDU_Z3950 (APDU_presentRequest pr))"
    and "prq_resultSetStartPoint pr = int a + 1"
    and "prq_numberOfRecordsRequested pr = int n" and "a + n \<le> length R" and "I w"
  shows "\<exists>q w'. PresentChunk_process Y chunk_number mv p w = Some (Inr q, w') \<and> I w' \<and>
     pkg_session q = pkg_session p \<and>
     pkg_response q = Some (GDU_Z3950 (APDU_presentResponse
       ((zget_presentResponse Y)\<lparr>prs_records := Some (Records_DBOSD (take n (drop a R))),
          prs_numberOfRecordsReturned := int n\<rparr>)))"
  using assms by (rule PresentChunk_process_records)

abbreviation demo_record :: "char \<Rightarrow> Z_NamePlusRecord" where
  "demo_record c \<equiv> \<lparr>npr_databaseName = None, npr_record = text_record [c]\<rparr>"

abbreviation demo_present :: "int \<Rightarrow> int \<Rightarrow> Z_PresentRequest" where
  "demo_present start n \<equiv> (zget_presentRequest yaz_ref)\<lparr>prq_referenceId := Some ''r1'',
     prq_resultSetStartPoint := start, prq_numberOfRecordsRequested := n\<rparr>"

abbreviation demo_package :: "int \<Rightarrow> int \<Rightarrow> package" where
  "demo_package start n \<equiv> (Package_new \<lparr>m_id = 1, m_close = False\<rparr> Origin_new)\<lparr>pkg_request :=
     Some (GDU_Z3950 (APDU_presentRequest (demo_present start n)))\<rparr>"

text \<open>A target over a result set that never returns more than two records at a time.\<close>

definition demo_target :: "Z_NamePlusRecord list \<Rightarrow> 'w move_fn" where
  "demo_target R r q w = (case pkg_request q of
     Some (GDU_Z3950 (APDU_presentRequest pr)) \<Rightarrow>
       (q\<lparr>pkg_response := Some (GDU_Z3950 (APDU_presentResponse
          ((zget_presentResponse yaz_ref)\<lparr>prs_records := Some (Records_DBOSD
             (take (min 2 (nat (prq_numberOfRecordsRequested pr)))
                (drop (nat (prq_resultSetStartPoint pr - 1)) R)))\<rparr>)))\<rparr>, w)
   | _ \<Rightarrow> (q, w))"

lemma demo_target_serves: "serves (\<lambda>w. True) ses pr0 R (demo_target R :: 'w move_fn)"
  unfolding serves_def
proof (intro allI impI)
  fix q :: package and w :: "'w world_scheme" and pr
  assume req: "pkg_request q = Some (GDU_Z3950 (APDU_presentRequest pr))"
    "1 \<le> prq_numberOfRecordsRequested pr"
  let ?k = "min 2 (nat (prq_numberOfRecordsRequested pr))"
  have "1 \<le> ?k" "int ?k \<le> prq_numberOfRecordsRequested pr" using req(2) by auto
  moreover note req(1)
  ultimately show "\<exists>k w' pres. True \<and> 1 \<le> k \<and> int k \<le> prq_numberOfRecordsRequested pr \<and>
     prs_records pres = Some (Records_DBOSD (take k (drop (nat (prq_resultSetStartPoint pr - 1)) R))) \<and>
     demo_target R [] q w = (q\<lparr>pkg_response := Some (GDU_Z3950 (APDU_presentResponse pres))\<rparr>, w')"
    by (intro exI [of _ ?k] exI conjI) (auto simp: demo_target_def)
qed

theorem present_chunk_complete_witness:
  "\<exists>q w'. PresentChunk_process yaz_ref 3 (demo_target (map demo_record ''abcdefgh'')) (demo_package 2 5)
        \<lparr>m_global_id = 1\<rparr> = Some (Inr q, w') \<and>
     pkg_session q = \<lparr>m_id = 1, m_close = False\<rparr> \<and>
     pkg_response q = Some (GDU_Z3950 (APDU_presentResponse
       ((zget_presentResponse yaz_ref)\<lparr>prs_records := Some (Records_DBOSD (map demo_record ''bcdef'')),
          prs_numberOfRecordsReturned := 5\<rparr>)))"
  using present_chunk_complete [OF demo_target_serves, of 3 "demo_package 2 5" "demo_present 2 5" 1 5
      "map demo_record ''abcdefgh''" yaz_ref "\<lparr>m_global_id = 1\<rparr>"]
  by (simp add: Package_new_def)

text \<open>The loop asks for no more than the chunk size, so it depends on nothing else.\<close>

lemma chunk_within_request: "chunk_within mx (Some (chunk_request mx pr tot start offset))"
  by (simp add: chunk_request_def Let_def)

lemma chunk_loop_agree:
  assumes "chunk_loop c mv p pr tot start req recs w = Some r"
    and "\<And>q w. chunk_within c (pkg_request q) \<Longrightarrow> mv [] q w = mv' [] q w"
  shows "chunk_loop c mv' p pr tot start req recs w = Some r"
proof -
  have agree: "mv [] (q\<lparr>pkg_request := Some (chunk_request c pr tot start k)\<rparr>) w =
      mv' [] (q\<lparr>pkg_request := Some (chunk_request c pr tot start k)\<rparr>) w" for q pr tot start k w
    using assms(2) chunk_within_request by simp
  have "c = c \<and> mv = mv \<longrightarrow> chunk_loop c mv' p pr tot start req recs w = Some r"
    using assms(1)
    by (rule chunk_loop.raw_induct [where P = "\<lambda>c' m p pr tot start req recs w r.
        c' = c \<and> m = mv \<longrightarrow> chunk_loop c mv' p pr tot start req recs w = Some r", rotated])
       (subst chunk_loop.simps, auto simp: Let_def agree split: if_splits prod.splits sum.splits)
  then show ?thesis by simp
qed

lemma chunk_loop_cong:
  assumes "\<And>q w. chunk_within c (pkg_request q) \<Longrightarrow> mv [] q w = mv' [] q w"
  shows "chunk_loop c mv p pr tot start req recs w = chunk_loop c mv' p pr tot start req recs w"
proof (rule option.expand)
  show "(chunk_loop c mv p pr tot start req recs w = None) = (chunk_loop c mv' p pr tot start req recs w = None)"
    using chunk_loop_agree [of c mv p pr tot start req recs w _ mv']
      chunk_loop_agree [of c mv' p pr tot start req recs w _ mv] assms by (metis not_None_eq)
  show "the (chunk_loop c mv p pr tot start req recs w) = the (chunk_loop c mv' p pr tot start req recs w)"
    if "chunk_loop c mv p pr tot start req recs w \<noteq> None" "chunk_loop c mv' p pr tot start req recs w \<noteq> None"
    using chunk_loop_agree [of c mv p pr tot start req recs w _ mv'] that assms by (metis option.collapse)
qed

text \<open>
  With a chunk size configured, the filters behind this one never see a present request
  for more records than the chunk size: two continuations that agree on present requests
  within it give the same result.\<close>
theorem present_chunk_bounded:
  assumes "0 < c" and "pkg_request p = Some (GDU_Z3950 (APDU_presentRequest pr))"
    and "\<And>q w. chunk_within c (pkg_request q) \<Longrightarrow> mv [] q w = mv' [] q w"
  shows "PresentChunk_process Y c mv p w = PresentChunk_process Y c mv' p w"
proof -
  have "chunk_loop c mv = chunk_loop c mv'" using chunk_loop_cong [of c mv mv', OF assms(3)] by (intro ext)
  then show ?thesis using assms(1,2) by (simp add: PresentChunk_process_def chunk_it_def Let_def)
qed

theorem present_chunk_bounded_witness:
  "PresentChunk_process yaz_ref 3 (demo_target (map demo_record ''abcdefgh'')) (demo_package 2 5) \<lparr>m_global_id = 1\<rparr>
   = PresentChunk_process yaz_ref 3 (\<lambda>r q w. if chunk_within 3 (pkg_request q)
       then demo_target (map demo_record ''abcdefgh'') r q w else (close_session q, w))
       (demo_package 2 5) \<lparr>m_global_id = 1\<rparr>"
  by (rule present_chunk_bounded [where pr = "demo_present 2 5"]) simp_all

text \<open>
  A target that answers present requests with an empty list of records makes the filter
  ask again forever: \<open>process\<close> does not return for any request of one record or more.\<close>
theorem present_chunk_empty_reply_diverges:
  assumes "0 < c" and "\<not> is_closed p"
    and "pkg_request p = Some (GDU_Z3950 (APDU_presentRequest pr))"
    and "0 < prq_numberOfRecordsRequested pr"
    and "\<And>q w. mv [] q w = (q\<lparr>pkg_response := Some (GDU_Z3950 (APDU_presentResponse pres))\<rparr>, w)"
    and "prs_records pres = Some (Records_DBOSD [])"
  shows "PresentChunk_process Y c mv p w = None"
proof -
  have False if "chunk_loop c mv p pr (prq_numberOfRecordsRequested pr) start req [] w = Some r" for start req w r
  proof -
    have "\<not> (m = mv \<and> p' = p \<and> 0 < tot \<and> recs = [])"
      if "chunk_loop c' m p' pr' tot start req recs w = Some r" for c' m p' pr' tot start req recs w r
      using that
      by (rule chunk_loop.raw_induct [where P = "\<lambda>c' m p' pr' tot start req recs w r.
          \<not> (m = mv \<and> p' = p \<and> 0 < tot \<and> recs = [])", rotated])
         (use assms(2,5,6) in \<open>auto simp: Let_def chunk_reply_def Package_new_def split: if_splits, blast\<close>)
    then show False using that assms(4) by blast
  qed
  then show ?thesis
    using assms(1,3,4) by (auto simp: PresentChunk_process_def chunk_it_def Let_def split: option.splits)
qed

theorem present_chunk_empty_reply_diverges_witness:
  "PresentChunk_process yaz_ref 3 (\<lambda>r q w. (q\<lparr>pkg_response := Some (GDU_Z3950 (APDU_presentResponse
      ((zget_presentResponse yaz_ref)\<lparr>prs_records := Some (Records_DBOSD [])\<rparr>)))\<rparr>, w))
    (demo_package 1 1) \<lparr>m_global_id = 1\<rparr> = None"
  by (rule present_chunk_empty_reply_diverges [where pr = "demo_present 1 1"
        and pres = "(zget_presentResponse yaz_ref)\<lparr>prs_records := Some (Records_DBOSD [])\<rparr>"])
     (simp_all add: Package_new_def)

text \<open>
  A target that answers with more records than the whole request asked for makes the
  filter write behind the end of the record array.\<close>
theorem present_chunk_overflow:
  assumes "0 < c" and "\<not> is_closed p"
    and "pkg_request p = Some (GDU_Z3950 (APDU_presentRequest pr))"
    and "0 < prq_numberOfRecordsRequested pr"
    and "\<And>q w. mv [] q w = (q\<lparr>pkg_response := Some (GDU_Z3950 (APDU_presentResponse pres))\<rparr>, w)"
    and "prs_records pres = Some (Records_DBOSD rs)" and "prq_numberOfRecordsRequested pr < int (length rs)"
  shows "PresentChunk_process Y c mv p w = Some (Inl Chunk_out_of_bounds, w)"
  using assms
  by (simp add: PresentChunk_process_def chunk_it_def chunk_loop.simps [of c] chunk_reply_def Package_new_def)

theorem present_chunk_overflow_witness:
  "PresentChunk_process yaz_ref 3 (\<lambda>r q w. (q\<lparr>pkg_response := Some (GDU_Z3950 (APDU_presentResponse
      ((zget_presentResponse yaz_ref)\<lparr>prs_records := Some (Records_DBOSD (map demo_record ''ab''))\<rparr>)))\<rparr>, w))
    (demo_package 1 1) \<lparr>m_global_id = 1\<rparr> = Some (Inl Chunk_out_of_bounds, \<lparr>m_global_id = 1\<rparr>)"
  by (rule present_chunk_overflow [where pr = "demo_present 1 1" and rs = "map demo_record ''ab''"
        and pres = "(zget_presentResponse yaz_ref)\<lparr>prs_records := Some (Records_DBOSD (map demo_record ''ab''))\<rparr>"])
     (simp_all add: Package_new_def)

end
