(* ===== verification/MP_Load_Balance.thy ===== *)
theory MP_Load_Balance
  imports MP_Util MP_Yaz_Ref
begin

text \<open>
  The load balancing filter (\<open>src/filter_load_balance.cpp\<close>): statistics per target,
  the target each session was given, and the choice of the cheapest target for an
  initialisation request. The counters are the 32-bit \<open>unsigned int\<close> of the code. Log
  messages are not modelled.
\<close>

section \<open>Statistics\<close>

record TargetStat =
  ts_sessions :: "32 word"
  ts_packages :: "32 word"
  ts_deads :: "32 word"

definition TargetStat_cost :: "TargetStat \<Rightarrow> 32 word" where
  "TargetStat_cost t = ts_sessions t + ts_packages t + ts_deads t"

record LoadBalance =
  m_target_stat :: "string \<rightharpoonup> TargetStat"
  m_session_target :: "64 word \<rightharpoonup> string"

definition LoadBalance_new :: LoadBalance where
  "LoadBalance_new = \<lparr>m_target_stat = Map.empty, m_session_target = Map.empty\<rparr>"

text \<open>\<open>std::numeric_limits<unsigned int>::max()\<close>\<close>

abbreviation uint_max :: "32 word" where
  "uint_max \<equiv> 0xFFFFFFFF"

definition find_session_target :: "LoadBalance \<Rightarrow> 64 word \<Rightarrow> string" where
  "find_session_target st session_id =
     (case m_session_target st session_id of Some target \<Rightarrow> target | None \<Rightarrow> [])"

text \<open>The statistics of the target of a session are found and replaced, or left alone.\<close>

definition update_stat :: "(TargetStat \<Rightarrow> TargetStat) \<Rightarrow> 64 word \<Rightarrow> LoadBalance \<Rightarrow> LoadBalance" where
  "update_stat f session_id st =
     (let target = find_session_target st session_id in
      if length target \<noteq> 0
      then (case m_target_stat st target of
              Some stat \<Rightarrow> st\<lparr>m_target_stat := (m_target_stat st)(target \<mapsto> f stat)\<rparr>
            | None \<Rightarrow> st)
      else st)"

definition add_dead :: "64 word \<Rightarrow> LoadBalance \<Rightarrow> LoadBalance" where
  "add_dead = update_stat (\<lambda>s. if ts_deads s < uint_max then s\<lparr>ts_deads := ts_deads s + 1\<rparr> else s)"

definition add_package :: "64 word \<Rightarrow> LoadBalance \<Rightarrow> LoadBalance" where
  "add_package = update_stat (\<lambda>s. if ts_packages s < uint_max then s\<lparr>ts_packages := ts_packages s + 1\<rparr> else s)"

definition remove_package :: "64 word \<Rightarrow> LoadBalance \<Rightarrow> LoadBalance" where
  "remove_package = update_stat (\<lambda>s. if ts_packages s > 0 then s\<lparr>ts_packages := ts_packages s - 1\<rparr> else s)"

definition add_session :: "package \<Rightarrow> string \<Rightarrow> LoadBalance \<Rightarrow> LoadBalance" where
  "add_session p target st =
     (let session_id = m_id (pkg_session p);
          st = (case m_session_target st session_id of
                  None \<Rightarrow> st\<lparr>m_session_target := (m_session_target st)(session_id \<mapsto> target)\<rparr>
                | Some _ \<Rightarrow> st)
      in (case m_target_stat st target of
            None \<Rightarrow> st\<lparr>m_target_stat := (m_target_stat st)(target \<mapsto>
                        \<lparr>ts_sessions = 1, ts_packages = 0, ts_deads = 0\<rparr>)\<rparr>
          | Some s \<Rightarrow>
              if ts_sessions s < uint_max
              then st\<lparr>m_target_stat := (m_target_stat st)(target \<mapsto> s\<lparr>ts_sessions := ts_sessions s + 1\<rparr>)\<rparr>
              else st))"

definition remove_session :: "package \<Rightarrow> LoadBalance \<Rightarrow> LoadBalance" where
  "remove_session p st =
     (let session_id = m_id (pkg_session p) in
      case m_session_target st session_id of
        None \<Rightarrow> st
      | Some target \<Rightarrow>
          (let st = st\<lparr>m_session_target := (m_session_target st)(session_id := None)\<rparr> in
           case m_target_stat st target of
             None \<Rightarrow> st
           | Some s \<Rightarrow>
               (let s = (if ts_sessions s > 0 then s\<lparr>ts_sessions := ts_sessions s - 1\<rparr> else s) in
                if ts_sessions s = 0 \<or> ts_deads s = 0
                then st\<lparr>m_target_stat := (m_target_stat st)(target := None)\<rparr>
                else st\<lparr>m_target_stat := (m_target_stat st)(target \<mapsto> s)\<rparr>)))"

definition cost :: "LoadBalance \<Rightarrow> string \<Rightarrow> 32 word" where
  "cost st target =
     (if length target \<noteq> 0
      then (case m_target_stat st target of Some s \<Rightarrow> TargetStat_cost s | None \<Rightarrow> 0)
      else 0)"

definition dead :: "LoadBalance \<Rightarrow> string \<Rightarrow> 32 word" where
  "dead st target =
     (if length target \<noteq> 0
      then (case m_target_stat st target of Some s \<Rightarrow> ts_deads s | None \<Rightarrow> 0)
      else 0)"

section \<open>Choice of a target\<close>

text \<open>
  The loop over the virtual hosts: \<open>i\<close> is the position, \<open>pick\<close> the best position so far
  and \<open>cost_i\<close> its cost.
\<close>

fun lb_pick :: "LoadBalance \<Rightarrow> string list \<Rightarrow> nat \<Rightarrow> nat option \<Rightarrow> 32 word \<Rightarrow> nat option" where
  "lb_pick st [] i pick cost_i = pick"
| "lb_pick st (v # vs) i pick cost_i =
     (if length v \<noteq> 0 \<and> cost_i > cost st v
      then lb_pick st vs (Suc i) (Some i) (cost st v)
      else lb_pick st vs (Suc i) pick cost_i)"

lemma lb_pick_bound:
  "lb_pick st vs i pick c = Some k \<Longrightarrow> pick = Some k \<or> i \<le> k \<and> k < i + length vs"
  by (induction vs arbitrary: i pick c) (fastforce split: if_splits)+

definition lb_init_package :: "yaz \<Rightarrow> package \<Rightarrow> Z_InitRequest \<Rightarrow> string \<Rightarrow> package" where
  "lb_init_package Y p org_init target =
     (Package_new (pkg_session p) (pkg_origin p))\<lparr>pkg_request := Some (GDU_Z3950 (APDU_initRequest
        (org_init\<lparr>irq_otherInfo := set_vhost_otherinfo_cat Y (irq_otherInfo org_init) target 1\<rparr>)))\<rparr>"

text \<open>
  Virtual hosts are tried and removed until one does not close the session. Result: the target
  that was found and its response.
\<close>

function lb_init_loop :: "yaz \<Rightarrow> 'w move_fn \<Rightarrow> LoadBalance \<Rightarrow> package \<Rightarrow> Z_InitRequest \<Rightarrow> string list
    \<Rightarrow> 'w world_scheme \<Rightarrow> (string \<times> Z_GDU option) option \<times> 'w world_scheme" where
  "lb_init_loop Y mv st p org_init vhosts w =
     (case lb_pick st vhosts 0 None uint_max of
        None \<Rightarrow> (None, w)
      | Some i \<Rightarrow>
          (let target = vhosts ! i;
               (pp, w) = mv [] (lb_init_package Y p org_init target) w
           in if \<not> is_closed pp then (Some (target, pkg_response pp), w)
              else lb_init_loop Y mv st p org_init (take i vhosts @ drop (Suc i) vhosts) w))"
  by pat_completeness auto
termination
  by (relation "measure (\<lambda>(Y, mv, st, p, org_init, vhosts, w). length vhosts)")
     (auto dest: lb_pick_bound)

declare lb_init_loop.simps [simp del]

section \<open>Processing\<close>

definition lb_init :: "yaz \<Rightarrow> string \<Rightarrow> 'w move_fn \<Rightarrow> LoadBalance \<Rightarrow> package \<Rightarrow> Z_InitRequest
    \<Rightarrow> 'w world_scheme \<Rightarrow> ((package \<times> LoadBalance) \<times> 'w world_scheme) option" where
  "lb_init Y version mv st p org_init w =
     (case remove_vhost_otherinfo Y (irq_otherInfo org_init) of
        None \<Rightarrow> None
      | Some (_, vhosts, oi) \<Rightarrow>
          (case lb_init_loop Y mv st p (org_init\<lparr>irq_otherInfo := oi\<rparr>) vhosts w of
             (Some (target, resp), w) \<Rightarrow>
               Some ((p\<lparr>pkg_response := resp\<rparr>, add_session p target st), w)
           | (None, w) \<Rightarrow>
               Some ((close_session (p\<lparr>pkg_response := Some (GDU_Z3950 (APDU_initResponse
                  (create_initResponse Y version (Some (APDU_initRequest org_init))
                     BIB1_TEMPORARY_SYSTEM_ERROR (Some ''load_balance: no available targets''))))\<rparr>), st), w)))"

text \<open>What happens after a package came back: \<open>front\<close> says that the client closed.\<close>

definition lb_finish :: "bool \<Rightarrow> package \<Rightarrow> LoadBalance \<Rightarrow> package \<times> LoadBalance" where
  "lb_finish is_closed_front p st =
     (let is_closed_back = is_closed p;
          sid = m_id (pkg_session p);
          (is_closed_back, st) =
            (case pkg_response p of
               Some (GDU_Z3950 (APDU_close _)) \<Rightarrow> (True, remove_package sid st)
             | Some (GDU_Z3950 _) \<Rightarrow> (is_closed_back, remove_package sid st)
             | _ \<Rightarrow> (is_closed_back, st))
      in if is_closed_back \<or> is_closed_front
         then (let st = (if is_closed_front = False then add_dead sid st else st)
               in (close_session p, remove_session p st))
         else (p, st))"

definition LoadBalance_process :: "yaz \<Rightarrow> string \<Rightarrow> 'w move_fn \<Rightarrow> LoadBalance \<Rightarrow> package
    \<Rightarrow> 'w world_scheme \<Rightarrow> ((package \<times> LoadBalance) \<times> 'w world_scheme) option" where
  "LoadBalance_process Y version mv st p w =
     (let is_closed_front = is_closed p;
          sid = m_id (pkg_session p);
          relay = (\<lambda>front st. let (p, w) = mv [] p w in Some (lb_finish front p st, w))
      in case pkg_request p of
           Some (GDU_Z3950 (APDU_initRequest org_init)) \<Rightarrow> lb_init Y version mv st p org_init w
         | Some (GDU_Z3950 (APDU_close _)) \<Rightarrow> relay True (add_package sid st)
         | Some (GDU_Z3950 _) \<Rightarrow> relay is_closed_front (add_package sid st)
         | _ \<Rightarrow> relay is_closed_front st)"

section \<open>The cheapest target\<close>

lemma lb_pick_cases:
  "(lb_pick st vs i pick c = pick \<and> (\<forall>v \<in> set vs. v \<noteq> [] \<longrightarrow> c \<le> cost st v)) \<or>
   (\<exists>j < length vs. lb_pick st vs i pick c = Some (i + j) \<and> vs ! j \<noteq> [] \<and> cost st (vs ! j) < c \<and>
      (\<forall>v \<in> set vs. v \<noteq> [] \<longrightarrow> cost st (vs ! j) \<le> cost st v) \<and>
      (\<forall>j' < j. vs ! j' \<noteq> [] \<longrightarrow> cost st (vs ! j) < cost st (vs ! j')))"
proof (induction vs arbitrary: i pick c)
  case (Cons v vs)
  define better where "better \<longleftrightarrow> v \<noteq> [] \<and> cost st v < c"
  define c' where "c' = (if better then cost st v else c)"
  have rec: "lb_pick st (v # vs) i pick c = lb_pick st vs (Suc i) (if better then Some i else pick) c'"
    by (simp add: better_def c'_def)
  show ?case using Cons.IH [of "Suc i" "if better then Some i else pick" c']
  proof (elim disjE exE conjE)
    assume "lb_pick st vs (Suc i) (if better then Some i else pick) c' = (if better then Some i else pick)"
      and "\<forall>v \<in> set vs. v \<noteq> [] \<longrightarrow> c' \<le> cost st v"
    then show ?thesis
      using rec
      by (cases better) (force simp: better_def c'_def intro!: disjI2 exI [of _ 0],
          auto simp: better_def c'_def intro!: disjI1)
  next
    fix j
    assume j: "j < length vs" "lb_pick st vs (Suc i) (if better then Some i else pick) c' = Some (Suc i + j)"
      "vs ! j \<noteq> []" "cost st (vs ! j) < c'"
      "\<forall>v \<in> set vs. v \<noteq> [] \<longrightarrow> cost st (vs ! j) \<le> cost st v"
      "\<forall>j' < j. vs ! j' \<noteq> [] \<longrightarrow> cost st (vs ! j) < cost st (vs ! j')"
    have v: "cost st (vs ! j) < cost st v" if "v \<noteq> []" using j(4) that by (auto simp: c'_def better_def split: if_splits)
    have c: "cost st (vs ! j) < c" using j(4) by (auto simp: c'_def better_def split: if_splits)
    have "\<forall>j' < Suc j. (v # vs) ! j' \<noteq> [] \<longrightarrow> cost st (vs ! j) < cost st ((v # vs) ! j')"
      using v j(6) by (auto simp: less_Suc_eq_0_disj)
    then show ?thesis
      using rec j v c by (intro disjI2 exI [of _ "Suc j"]) (auto intro: less_imp_le)
  qed
qed simp

lemma uint_max_le_iff: "uint_max \<le> c \<longleftrightarrow> c = uint_max"
proof -
  have "uint_max = (- 1 :: 32 word)" by simp
  then show ?thesis using word_order.extremum_unique [of c] by metis
qed

lemma lb_pick_None: "lb_pick st vhosts 0 None uint_max = None \<Longrightarrow> v \<in> set vhosts \<Longrightarrow> v \<noteq> [] \<Longrightarrow> cost st v = uint_max"
  using lb_pick_cases [of st vhosts 0 None uint_max] by (auto simp: uint_max_le_iff)

lemma lb_pick_Some:
  assumes "lb_pick st vhosts 0 None uint_max = Some k"
  shows "k < length vhosts" "vhosts ! k \<noteq> []"
    "v \<in> set vhosts \<Longrightarrow> v \<noteq> [] \<Longrightarrow> cost st (vhosts ! k) \<le> cost st v"
    "j < k \<Longrightarrow> vhosts ! j \<noteq> [] \<Longrightarrow> cost st (vhosts ! k) < cost st (vhosts ! j)"
  using lb_pick_cases [of st vhosts 0 None uint_max] assms by auto

text \<open>
  The target picked for an initialisation request is the first of the cheapest virtual
  hosts that are not empty; none is picked only if each of them has the maximal cost.\<close>
theorem lb_pick_cheapest:
  "case lb_pick st vhosts 0 None uint_max of
     Some k \<Rightarrow> k < length vhosts \<and> vhosts ! k \<noteq> [] \<and>
       (\<forall>v \<in> set vhosts. v \<noteq> [] \<longrightarrow> cost st (vhosts ! k) \<le> cost st v) \<and>
       (\<forall>j < k. vhosts ! j \<noteq> [] \<longrightarrow> cost st (vhosts ! k) < cost st (vhosts ! j))
   | None \<Rightarrow> \<forall>v \<in> set vhosts. v \<noteq> [] \<longrightarrow> cost st v = uint_max"
  using lb_pick_Some [of st vhosts] lb_pick_None [of st vhosts] by (simp split: option.splits)

theorem lb_pick_cheapest_witness:
  "lb_pick LoadBalance_new [[], ''h1'', ''h2''] 0 None uint_max = Some 1 \<and>
   cost LoadBalance_new ''h1'' \<le> cost LoadBalance_new ''h2''"
  using lb_pick_cheapest [where st = LoadBalance_new and vhosts = "[[], ''h1'', ''h2'']"]
  by (simp add: cost_def LoadBalance_new_def)

section \<open>Initialisation\<close>

text \<open>
  The outcome of the loop: a target that kept the session open, or the failure of all targets
  that can be picked. \<open>fails v\<close> says that the target \<open>v\<close> was tried and closed.
\<close>

abbreviation lb_fails :: "yaz \<Rightarrow> 'w move_fn \<Rightarrow> package \<Rightarrow> Z_InitRequest \<Rightarrow> string \<Rightarrow> bool" where
  "lb_fails Y mv p org_init v \<equiv> \<exists>w. is_closed (fst (mv [] (lb_init_package Y p org_init v) w))"

lemma lb_init_loop_outcome:
  "case lb_init_loop Y mv st p org_init vhosts w of
     (Some (target, resp), w') \<Rightarrow> target \<in> set vhosts \<and> target \<noteq> [] \<and>
       (\<exists>w1 pp. mv [] (lb_init_package Y p org_init target) w1 = (pp, w') \<and> \<not> is_closed pp \<and> resp = pkg_response pp) \<and>
       (\<forall>v \<in> set vhosts. v \<noteq> [] \<and> cost st v < cost st target \<longrightarrow> lb_fails Y mv p org_init v)
   | (None, w') \<Rightarrow> \<forall>v \<in> set vhosts. v \<noteq> [] \<and> cost st v \<noteq> uint_max \<longrightarrow> lb_fails Y mv p org_init v"
proof (induction Y mv st p org_init vhosts w rule: lb_init_loop.induct)
  case (1 Y mv st p org_init vhosts w)
  show ?case
  proof (cases "lb_pick st vhosts 0 None uint_max")
    case None
    then show ?thesis
      using lb_pick_None [OF None] by (auto simp: lb_init_loop.simps)
  next
    case (Some i)
    note i = lb_pick_Some [OF Some]
    obtain pp w1 where mv: "mv [] (lb_init_package Y p org_init (vhosts ! i)) w = (pp, w1)" by fastforce
    let ?rest = "take i vhosts @ drop (Suc i) vhosts"
    have set: "set vhosts = insert (vhosts ! i) (set ?rest)"
      using arg_cong [where f = set, OF id_take_nth_drop [OF i(1)]] by simp
    show ?thesis
    proof (cases "is_closed pp")
      case False
      then have "lb_init_loop Y mv st p org_init vhosts w = (Some (vhosts ! i, pkg_response pp), w1)"
        by (simp add: lb_init_loop.simps Some mv)
      then show ?thesis using i mv False by (auto simp: leD intro: nth_mem)
    next
      case True
      then have "lb_init_loop Y mv st p org_init vhosts w = lb_init_loop Y mv st p org_init ?rest w1"
        by (subst lb_init_loop.simps) (simp add: Some mv)
      moreover have "lb_fails Y mv p org_init (vhosts ! i)" using True mv by (metis fst_conv)
      moreover note "1.IH" [OF Some refl mv [symmetric] refl]
      ultimately show ?thesis using True unfolding set by (auto split: prod.splits option.splits)
    qed
  qed
qed


abbreviation lb_demo_package :: package where
  "lb_demo_package \<equiv> (Package_new \<lparr>m_id = 1, m_close = False\<rparr> Origin_new)\<lparr>pkg_request :=
     Some (GDU_Z3950 (APDU_initRequest ((zget_initRequest yaz_ref)\<lparr>irq_otherInfo :=
       set_vhost_otherinfo yaz_ref [] [''h1'', ''h2'']\<rparr>)))\<rparr>"


section \<open>Sessions and statistics\<close>

lemma session_target_frame [simp]:
  "m_session_target (update_stat f sid st) = m_session_target st"
  "m_session_target (add_dead sid st) = m_session_target st"
  "m_session_target (add_package sid st) = m_session_target st"
  "m_session_target (remove_package sid st) = m_session_target st"
  by (simp_all add: update_stat_def add_dead_def add_package_def remove_package_def Let_def split: option.splits)

lemma session_target_remove [simp]:
  "m_session_target (remove_session p st) = (m_session_target st)(m_id (pkg_session p) := None)"
  by (auto simp: remove_session_def Let_def split: option.splits)

lemma lb_finish_sessions:
  assumes "lb_finish front p st = (p', st')"
  shows "m_session_target st' = (if is_closed p' then (m_session_target st)(m_id (pkg_session p) := None)
            else m_session_target st)"
  using assms
  by (auto simp: lb_finish_def Let_def close_session_def split: option.splits Z_GDU.splits Z_APDU.splits if_splits)

text \<open>
  When a package that is no initialisation request comes back with its session closed, the
  session no longer has a target; when it comes back open, every session has the target it
  had before. Other sessions are not affected in either case.\<close>
theorem lb_process_sessions:
  assumes "LoadBalance_process Y version mv st p w = Some ((p', st'), w')"
    and "\<nexists>req. pkg_request p = Some (GDU_Z3950 (APDU_initRequest req))"
    and "\<And>q w. m_id (pkg_session (fst (mv [] q w))) = m_id (pkg_session q)"
  shows "m_session_target st' = (if is_closed p' then (m_session_target st)(m_id (pkg_session p) := None)
            else m_session_target st)"
proof -
  obtain q w1 where mv: "mv [] p w = (q, w1)" by fastforce
  have sid: "m_id (pkg_session q) = m_id (pkg_session p)" using assms(3) [of p w] mv by simp
  obtain front st1 where "lb_finish front q st1 = (p', st')" "m_session_target st1 = m_session_target st"
    using assms(1,2) mv
    by (auto simp: LoadBalance_process_def Let_def split: option.splits Z_GDU.splits Z_APDU.splits)
  then show ?thesis using lb_finish_sessions sid by metis
qed

abbreviation lb_bound :: LoadBalance where
  "lb_bound \<equiv> add_session (Package_new \<lparr>m_id = 1, m_close = False\<rparr> Origin_new) ''h1'' LoadBalance_new"

theorem lb_process_sessions_witness:
  "m_session_target (snd (fst (the (LoadBalance_process yaz_ref ''1'' (\<lambda>r q w. (q, w)) lb_bound
      (Package_new \<lparr>m_id = 1, m_close = True\<rparr> Origin_new) \<lparr>m_global_id = 1\<rparr>)))) 1 = None"
proof -
  let ?p = "Package_new \<lparr>m_id = 1, m_close = True\<rparr> Origin_new"
  obtain p' st' w' where r: "LoadBalance_process yaz_ref ''1'' (\<lambda>r q w. (q, w)) lb_bound ?p \<lparr>m_global_id = 1\<rparr>
     = Some ((p', st'), w')" "is_closed p'"
    by (simp add: LoadBalance_process_def Package_new_def lb_finish_def close_session_def)
  then show ?thesis using lb_process_sessions [OF r(1)] by (simp add: Package_new_def)
qed

lemma remove_add_package:
  assumes "\<And>s. m_target_stat st (find_session_target st sid) = Some s \<Longrightarrow> ts_packages s < uint_max"
  shows "remove_package sid (add_package sid st) = st"
proof -
  have pos: "0 < x + 1" if "x < uint_max" for x :: "32 word"
  proof -
    have "x \<noteq> - 1" using that by auto
    then show ?thesis by (simp add: word_gt_0 eq_neg_iff_add_eq_0)
  qed
  show ?thesis
    using assms pos
    by (cases "m_target_stat st (find_session_target st sid)")
       (auto simp: remove_package_def add_package_def update_stat_def find_session_target_def Let_def
         fun_upd_idem split: option.splits)
qed

text \<open>
  A request that the target answers while the session stays open leaves no trace in
  the statistics: the package is counted while it is under way and no longer.\<close>
theorem lb_package_balance:
  assumes "mv [] p w = (q, w')" and "m_id (pkg_session q) = m_id (pkg_session p)"
    and "\<not> is_closed p" and "\<not> is_closed q"
    and "pkg_request p = Some (GDU_Z3950 a)" and "\<nexists>r. a = APDU_initRequest r" and "\<nexists>c. a = APDU_close c"
    and "pkg_response q = Some (GDU_Z3950 b)" and "\<nexists>c. b = APDU_close c"
    and "\<And>s. m_target_stat st (find_session_target st (m_id (pkg_session p))) = Some s \<Longrightarrow> ts_packages s < uint_max"
  shows "LoadBalance_process Y version mv st p w = Some ((q, st), w')"
proof -
  have "lb_finish False q (add_package (m_id (pkg_session p)) st) = (q, st)"
    using assms(2,4,8-10) remove_add_package by (cases b) (auto simp: lb_finish_def Let_def)
  then show ?thesis
    using assms(1,3,5-7) by (cases a) (auto simp: LoadBalance_process_def Let_def)
qed

text \<open>
  Removing one session from a target that never failed erases the statistics of the
  target, however many other sessions it still has: its cost drops to 0, below
  targets that serve fewer sessions, while the other sessions keep the target.\<close>
theorem lb_remove_session_forgets:
  assumes "m_session_target st (m_id (pkg_session p)) = Some t" and "m_target_stat st t = Some s"
    and "ts_deads s = 0" and "i \<noteq> m_id (pkg_session p)" and "m_session_target st i = Some t"
  shows "cost (remove_session p st) t = 0 \<and> m_session_target (remove_session p st) i = Some t"
  using assms by (simp add: cost_def remove_session_def Let_def)

text \<open>Three sessions on \<open>h1\<close> and one on \<open>h2\<close>: after one of the three is closed, the next
  session is given to \<open>h1\<close> although it has two sessions.\<close>
abbreviation lb_session :: "64 word \<Rightarrow> package" where
  "lb_session i \<equiv> Package_new \<lparr>m_id = i, m_close = False\<rparr> Origin_new"

abbreviation lb_four :: LoadBalance where
  "lb_four \<equiv> add_session (lb_session 4) ''h2'' (add_session (lb_session 3) ''h1''
     (add_session (lb_session 2) ''h1'' (add_session (lb_session 1) ''h1'' LoadBalance_new)))"

theorem lb_remove_session_forgets_witness:
  "cost lb_four ''h1'' = 3 \<and> cost lb_four ''h2'' = 1 \<and> cost (remove_session (lb_session 1) lb_four) ''h1'' = 0 \<and>
   m_session_target (remove_session (lb_session 1) lb_four) 2 = Some ''h1''"
  using lb_remove_session_forgets [of lb_four "lb_session 1" "''h1''" "\<lparr>ts_sessions = 3, ts_packages = 0, ts_deads = 0\<rparr>" 2]
  by (simp add: add_session_def LoadBalance_new_def Package_new_def cost_def TargetStat_cost_def)

theorem lb_package_balance_witness:
  "LoadBalance_process yaz_ref ''1'' (\<lambda>r q w. (q\<lparr>pkg_response := Some (GDU_Z3950
       (APDU_searchResponse (zget_searchResponse yaz_ref)))\<rparr>, w)) lb_bound
     ((lb_session 1)\<lparr>pkg_request := Some (GDU_Z3950 (APDU_presentRequest (zget_presentRequest yaz_ref)))\<rparr>)
     \<lparr>m_global_id = 1\<rparr>
   = Some (((lb_session 1)\<lparr>pkg_request := Some (GDU_Z3950 (APDU_presentRequest (zget_presentRequest yaz_ref))),
       pkg_response := Some (GDU_Z3950 (APDU_searchResponse (zget_searchResponse yaz_ref)))\<rparr>, lb_bound),
     \<lparr>m_global_id = 1\<rparr>)"
  by (rule lb_package_balance [where a = "APDU_presentRequest (zget_presentRequest yaz_ref)"
        and b = "APDU_searchResponse (zget_searchResponse yaz_ref)"])
     (auto simp: Package_new_def add_session_def LoadBalance_new_def find_session_target_def)

end
