(* ===== verification/MP_Frontends.thy ===== *)
theory MP_Frontends
  imports MP_Core
begin

text \<open>
  The contract that the pairs \<open>get_frontend\<close> / \<open>release_frontend\<close> of the filters keep:
  a frontend serves one package of its session at a time. \<open>get\<close> gives \<open>None\<close> when the
  caller has to wait for the condition variable. The filters that have such a pair interpret
  the locale in their own theories.
\<close>

datatype pool_event = Pool_Get session | Pool_Release session

fun pool_session :: "pool_event \<Rightarrow> session" where
  "pool_session (Pool_Get s) = s"
| "pool_session (Pool_Release s) = s"

fun pool_run :: "(session \<Rightarrow> 'st \<Rightarrow> 'st option) \<Rightarrow> (session \<Rightarrow> 'st \<Rightarrow> 'st) \<Rightarrow> pool_event list
    \<Rightarrow> 'st \<Rightarrow> 'st option" where
  "pool_run get release [] st = Some st"
| "pool_run get release (Pool_Get s # es) st =
     (case get s st of None \<Rightarrow> None | Some st' \<Rightarrow> pool_run get release es st')"
| "pool_run get release (Pool_Release s # es) st = pool_run get release es (release s st)"

lemma pool_run_append:
  "pool_run get release (xs @ ys) st = Option.bind (pool_run get release xs st) (pool_run get release ys)"
proof (induction xs arbitrary: st)
  case (Cons e xs)
  then show ?case by (cases e) (auto split: option.splits)
qed simp

locale frontend_pool =
  fixes busy :: "'st \<Rightarrow> 64 word \<Rightarrow> bool"
    and get :: "session \<Rightarrow> 'st \<Rightarrow> 'st option"
    and release :: "session \<Rightarrow> 'st \<Rightarrow> 'st"
  assumes get_waits: "get s st = None \<longleftrightarrow> busy st (m_id s)"
    and get_marks: "get s st = Some st' \<Longrightarrow> busy st' i \<longleftrightarrow> i = m_id s \<or> busy st i"
    and release_frees: "busy (release s st) i \<longleftrightarrow> i \<noteq> m_id s \<and> busy st i"
begin

lemma busy_until_release:
  "pool_run get release es st = Some st' \<Longrightarrow> busy st i \<Longrightarrow>
   (\<And>s. Pool_Release s \<in> set es \<Longrightarrow> m_id s \<noteq> i) \<Longrightarrow> busy st' i"
proof (induction es arbitrary: st)
  case (Cons e es)
  show ?case
  proof (cases e)
    case (Pool_Get s)
    then show ?thesis using Cons get_marks by (auto split: option.splits)
  next
    case (Pool_Release s)
    then have "m_id s \<noteq> i" using Cons.prems(3) by simp
    then have "busy (release s st) i" using Cons.prems(2) release_frees by auto
    moreover have "pool_run get release es (release s st) = Some st'"
      using Cons.prems(1) Pool_Release by simp
    ultimately show ?thesis using Cons.IH Cons.prems(3) by simp
  qed
qed simp

lemma exclusive:
  assumes "pool_run get release (xs @ Pool_Get s # ys @ Pool_Get s' # zs) st = Some st'"
    and "m_id s = m_id s'"
  shows "\<exists>r. Pool_Release r \<in> set ys \<and> m_id r = m_id s"
proof (rule ccontr)
  assume none: "\<nexists>r. Pool_Release r \<in> set ys \<and> m_id r = m_id s"
  obtain st1 st2 st3 where run: "pool_run get release xs st = Some st1" "get s st1 = Some st2"
      "pool_run get release ys st2 = Some st3" "get s' st3 \<noteq> None"
    using assms(1) by (auto simp: pool_run_append bind_eq_Some_conv split: option.splits)
  have "busy st2 (m_id s)" using get_marks [OF run(2)] by simp
  then have "busy st3 (m_id s)" using busy_until_release [OF run(3)] none by blast
  then show False using run(4) get_waits assms(2) by simp
qed

lemma busy_iff_last:
  "pool_run get release es st = Some st' \<Longrightarrow>
   busy st' i \<longleftrightarrow>
     (case filter (\<lambda>e. m_id (pool_session e) = i) es of
        [] \<Rightarrow> busy st i
      | e # es' \<Rightarrow> \<exists>s. last (e # es') = Pool_Get s)"
proof (induction es arbitrary: st)
  case (Cons e es)
  show ?case
  proof (cases e)
    case (Pool_Get s)
    then obtain st1 where "get s st = Some st1" "pool_run get release es st1 = Some st'"
      using Cons.prems by (auto split: option.splits)
    then show ?thesis using Cons.IH [of st1] Pool_Get get_marks by (auto split: list.splits)
  next
    case (Pool_Release s)
    then show ?thesis using Cons.IH [of "release s st"] Cons.prems release_frees
      by (auto split: list.splits)
  qed
qed simp

end

end
