(* ===== verification/MP_Virt_Db.thy ===== *)
theory MP_Virt_Db
  imports MP_Util MP_Xml MP_Yaz_Ref MP_Frontends
begin

text \<open>
  The virtual database filter (\<open>src/filter_virt_db.cpp\<close>). A client session has a frontend
  with its result sets; each result set lives on a backend session, which the filter opens
  when a database is first used and reuses later.

  A \<open>Backend\<close> is shared by pointer between the backend list and the result sets, but it
  never changes between its initialisation and the end of its frontend, and its session
  identifier is its identity: it is a value here. Not returning, by reading a null
  \<open>m_init_gdu\<close> or by an endless loop of virtual hosts, is \<open>None\<close>.
\<close>

section \<open>State\<close>

record VDB_Map =
  m_dbpattern :: string
  m_map_targets :: "string list"
  m_map_route :: string

record VDB_Backend =
  m_backend_session :: session
  m_frontend_databases :: "string list"
  m_targets :: "string list"
  m_route :: string
  m_named_result_sets :: bool

record VDB_Set =
  m_backend :: VDB_Backend
  m_setname :: string

record VDB_Frontend =
  m_is_virtual :: bool
  m_in_use :: bool
  m_init_gdu :: "Z_InitRequest option"
  m_backend_list :: "VDB_Backend list"
  m_sets :: "string \<rightharpoonup> VDB_Set"

record VDB_Rep =
  m_maps :: "VDB_Map list"
  m_clients :: "VDB_Frontend session_map"
  pass_vhosts :: bool

definition VDB_new :: VDB_Rep where
  "VDB_new = \<lparr>m_maps = [], m_clients = Map.empty, pass_vhosts = False\<rparr>"

section \<open>Database maps\<close>

definition VDB_Map_match :: "yaz \<Rightarrow> VDB_Map \<Rightarrow> string \<Rightarrow> bool" where
  "VDB_Map_match Y m db = (if yaz_match_glob Y (m_dbpattern m) (database_name_normalize db) then True else False)"

definition VDB_find_map :: "yaz \<Rightarrow> VDB_Map list \<Rightarrow> string \<Rightarrow> VDB_Map option" where
  "VDB_find_map Y maps db = find (\<lambda>m. VDB_Map_match Y m db) maps"

definition VDB_add_map_db2targets :: "string \<Rightarrow> string list \<Rightarrow> string \<Rightarrow> VDB_Rep \<Rightarrow> VDB_Rep" where
  "VDB_add_map_db2targets db targets route st =
     st\<lparr>m_maps := m_maps st @ [\<lparr>m_dbpattern = database_name_normalize db, m_map_targets = targets,
        m_map_route = route\<rparr>]\<rparr>"

definition VDB_add_map_db2target :: "string \<Rightarrow> string \<Rightarrow> string \<Rightarrow> VDB_Rep \<Rightarrow> VDB_Rep" where
  "VDB_add_map_db2target db target route st =
     st\<lparr>m_maps := m_maps st @ [\<lparr>m_dbpattern = database_name_normalize db, m_map_targets = [target],
        m_map_route = route\<rparr>]\<rparr>"

section \<open>Backends\<close>

text \<open>\<open>dedup\<close> is the map \<open>targets_dedup\<close>, whose missing entries read as false.\<close>

fun VDB_push_targets :: "string list \<Rightarrow> (string \<Rightarrow> bool) \<Rightarrow> string list \<Rightarrow> (string \<Rightarrow> bool) \<times> string list" where
  "VDB_push_targets [] dedup targets = (dedup, targets)"
| "VDB_push_targets (t # ts) dedup targets =
     (if \<not> dedup t then VDB_push_targets ts (dedup(t := True)) (targets @ [t])
      else VDB_push_targets ts dedup targets)"

fun VDB_databases_loop :: "yaz \<Rightarrow> VDB_Map list \<Rightarrow> string list \<Rightarrow> bool \<Rightarrow> (string \<Rightarrow> bool) \<Rightarrow> VDB_Backend
    \<Rightarrow> int \<times> string + VDB_Backend" where
  "VDB_databases_loop Y maps [] first_route dedup b = Inr b"
| "VDB_databases_loop Y maps (db # dbs) first_route dedup b =
     (case VDB_find_map Y maps db of
        None \<Rightarrow> Inl (BIB1_DATABASE_DOES_NOT_EXIST, db)
      | Some m \<Rightarrow>
          (let (dedup, ts) = VDB_push_targets (m_map_targets m) dedup (m_targets b) in
           if \<not> first_route \<and> m_route b \<noteq> m_map_route m
           then Inl (BIB1_COMBI_OF_SPECIFIED_DATABASES_UNSUPP, [])
           else VDB_databases_loop Y maps dbs False dedup (b\<lparr>m_targets := ts, m_route := m_map_route m\<rparr>)))"

text \<open>
  The new backend draws a session identifier, also when an error is returned. Errors are the
  diagnostic code and the additional information.
\<close>

definition create_backend_from_databases :: "yaz \<Rightarrow> VDB_Map list \<Rightarrow> string list \<Rightarrow> 'w world_scheme
    \<Rightarrow> (int \<times> string + VDB_Backend) \<times> 'w world_scheme" where
  "create_backend_from_databases Y maps databases w =
     (let (s, w) = Session_new w
      in (VDB_databases_loop Y maps databases True (\<lambda>_. False)
            \<lparr>m_backend_session = s, m_frontend_databases = databases, m_targets = [], m_route = [],
             m_named_result_sets = False\<rparr>, w))"

definition VDB_init_request :: "yaz \<Rightarrow> VDB_Backend \<Rightarrow> Z_InitRequest \<Rightarrow> Z_InitRequest" where
  "VDB_init_request Y b org_init =
     (let req = zget_initRequest Y;
          oi = set_vhost_otherinfo Y (irq_otherInfo req) (m_targets b);
          oi = (case fst (yaz_oi_get_string_oid Y (irq_otherInfo org_init) oid_userinfo_client_ip 1 False) of
                  Some peer_name \<Rightarrow> yaz_oi_set_string_oid Y oi oid_userinfo_client_ip 1 peer_name
                | None \<Rightarrow> oi)
      in req\<lparr>irq_otherInfo := oi,
             irq_idAuthentication := irq_idAuthentication org_init,
             irq_implementationId := irq_implementationId org_init,
             irq_implementationName := irq_implementationName org_init,
             irq_implementationVersion := irq_implementationVersion org_init,
             irq_preferredMessageSize := irq_preferredMessageSize org_init,
             irq_maximumRecordSize := irq_maximumRecordSize org_init,
             irq_options := irq_options req \<union>
               {Z_Options_search, Z_Options_present, Z_Options_namedResultSets, Z_Options_scan},
             irq_protocolVersion := irq_protocolVersion req \<union>
               {Z_ProtocolVersion_1, Z_ProtocolVersion_2, Z_ProtocolVersion_3}\<rparr>)"

abbreviation backend_package :: "VDB_Backend \<Rightarrow> package \<Rightarrow> package" where
  "backend_package b p \<equiv> Package_new (m_backend_session b) (pkg_origin p)"

definition VDB_init_backend :: "yaz \<Rightarrow> 'w move_fn \<Rightarrow> VDB_Map list \<Rightarrow> string list \<Rightarrow> package \<Rightarrow> VDB_Frontend
    \<Rightarrow> 'w world_scheme \<Rightarrow> ((int \<times> string + VDB_Backend) \<times> VDB_Frontend \<times> 'w world_scheme) option" where
  "VDB_init_backend Y mv maps databases p f w =
     (case create_backend_from_databases Y maps databases w of
        (Inl e, w) \<Rightarrow> Some (Inl e, f, w)
      | (Inr b, w) \<Rightarrow>
         (case m_init_gdu f of
            None \<Rightarrow> None
          | Some org_init \<Rightarrow>
             (let (ip, w) = mv (m_route b) ((backend_package b p)\<lparr>pkg_request :=
                     Some (GDU_Z3950 (APDU_initRequest (VDB_init_request Y b org_init)))\<rparr>) w;
                  fail = (\<lambda>error_code addinfo.
                    let (error_code, addinfo) =
                          (if error_code = 0
                           then (BIB1_ACCESS_TO_SPECIFIED_DATABASE_DENIED,
                                 case databases of [] \<Rightarrow> addinfo | db # _ \<Rightarrow> db)
                           else (error_code, addinfo));
                        w = (if \<not> is_closed ip
                             then snd (mv (m_route b) (close_session (backend_package b p)) w) else w)
                    in Some (Inl (error_code, addinfo), f, w))
              in case pkg_response ip of
                   Some (GDU_Z3950 (APDU_initResponse res)) \<Rightarrow>
                     (let b = (if Z_Options_namedResultSets \<in> irs_options res
                               then b\<lparr>m_named_result_sets := True\<rparr> else b)
                      in if irs_result res \<and> \<not> is_closed ip
                         then Some (Inr b, f\<lparr>m_backend_list := m_backend_list f @ [b]\<rparr>, w)
                         else (case get_init_diagnostics Y res (0, []) of (ec, ai) \<Rightarrow> fail ec ai))
                 | _ \<Rightarrow> fail 0 [])))"

section \<open>Database names in records\<close>

fun VDB_fixup_name :: "yaz \<Rightarrow> VDB_Map list \<Rightarrow> string \<Rightarrow> string list \<Rightarrow> string option" where
  "VDB_fixup_name Y maps b_database [] = None"
| "VDB_fixup_name Y maps b_database (db # dbs) =
     (case VDB_find_map Y maps db of
        Some m \<Rightarrow> if b_database \<in> set (m_map_targets m) then Some db
                  else VDB_fixup_name Y maps b_database dbs
      | None \<Rightarrow> VDB_fixup_name Y maps b_database dbs)"

definition fixup_npr_record :: "yaz \<Rightarrow> VDB_Map list \<Rightarrow> VDB_Backend \<Rightarrow> Z_NamePlusRecord \<Rightarrow> Z_NamePlusRecord" where
  "fixup_npr_record Y maps b npr =
     (case npr_databaseName npr of
        None \<Rightarrow> npr
      | Some b_database \<Rightarrow>
          (case VDB_fixup_name Y maps b_database (m_frontend_databases b) of
             Some db \<Rightarrow> npr\<lparr>npr_databaseName := Some db\<rparr>
           | None \<Rightarrow>
               (case m_frontend_databases b of
                  [] \<Rightarrow> npr
                | db # _ \<Rightarrow> npr\<lparr>npr_databaseName := Some db\<rparr>)))"

fun fixup_npr_records :: "yaz \<Rightarrow> VDB_Map list \<Rightarrow> VDB_Backend \<Rightarrow> Z_Records option \<Rightarrow> Z_Records option" where
  "fixup_npr_records Y maps b (Some (Records_DBOSD rs)) = Some (Records_DBOSD (map (fixup_npr_record Y maps b) rs))"
| "fixup_npr_records Y maps b r = r"

definition fixup_package :: "yaz \<Rightarrow> VDB_Map list \<Rightarrow> VDB_Backend \<Rightarrow> package \<Rightarrow> package" where
  "fixup_package Y maps b p =
     (case pkg_response p of
        Some (GDU_Z3950 (APDU_presentResponse r)) \<Rightarrow>
          p\<lparr>pkg_response := Some (GDU_Z3950 (APDU_presentResponse
             (r\<lparr>prs_records := fixup_npr_records Y maps b (prs_records r)\<rparr>)))\<rparr>
      | Some (GDU_Z3950 (APDU_searchResponse r)) \<Rightarrow>
          p\<lparr>pkg_response := Some (GDU_Z3950 (APDU_searchResponse
             (r\<lparr>srs_records := fixup_npr_records Y maps b (srs_records r)\<rparr>)))\<rparr>
      | _ \<Rightarrow> p)"

section \<open>Requests of a client\<close>

definition VDB_reusable :: "VDB_Frontend \<Rightarrow> string list \<Rightarrow> bool \<Rightarrow> VDB_Backend option" where
  "VDB_reusable f databases override_set =
     find (\<lambda>b. match (m_frontend_databases b) databases \<and> (m_named_result_sets b \<or> override_set))
       (m_backend_list f)"

text \<open>The search request a backend gets.\<close>

definition VDB_search_request :: "yaz \<Rightarrow> VDB_Backend \<Rightarrow> string \<Rightarrow> Z_SearchRequest \<Rightarrow> Z_SearchRequest" where
  "VDB_search_request Y b backend_setname req =
     (let req = (if m_named_result_sets b then req else req\<lparr>srq_resultSetName := backend_setname\<rparr>);
          req = (case m_targets b of
                   [] \<Rightarrow> req
                 | t # _ \<Rightarrow> (case set_databases_from_zurl Y t of
                       None \<Rightarrow> req | Some dbs \<Rightarrow> req\<lparr>srq_databaseNames := dbs\<rparr>))
      in req\<lparr>srq_replaceIndicator := True\<rparr>)"

text \<open>A search response without records or with database records: the result set exists.\<close>

fun VDB_search_accepted :: "Z_GDU option \<Rightarrow> bool" where
  "VDB_search_accepted (Some (GDU_Z3950 (APDU_searchResponse b_resp))) =
     (case srs_records b_resp of None \<Rightarrow> True | Some (Records_DBOSD _) \<Rightarrow> True | _ \<Rightarrow> False)"
| "VDB_search_accepted _ = False"

text \<open>From \<open>m_sets.erase\<close> on: the search is sent to the backend that was found or created.\<close>

definition VDB_search_backend :: "yaz \<Rightarrow> 'w move_fn \<Rightarrow> VDB_Map list \<Rightarrow> Z_SearchRequest \<Rightarrow> VDB_Backend
    \<Rightarrow> package \<Rightarrow> VDB_Frontend \<Rightarrow> 'w world_scheme \<Rightarrow> package \<times> VDB_Frontend \<times> 'w world_scheme" where
  "VDB_search_backend Y mv maps req b p f w =
     (let resultSetId = srq_resultSetName req;
          f = f\<lparr>m_sets := (m_sets f)(resultSetId := None)\<rparr>;
          backend_setname = (if m_named_result_sets b then resultSetId else ''default'');
          (sp, w) = mv (m_route b) ((backend_package b p)\<lparr>pkg_request :=
             Some (GDU_Z3950 (APDU_searchRequest (VDB_search_request Y b backend_setname req)))\<rparr>) w
      in if is_closed sp
         then (close_session (p\<lparr>pkg_response := pkg_response sp\<rparr>), f, w)
         else if VDB_search_accepted (pkg_response sp)
         then (p\<lparr>pkg_response := pkg_response (fixup_package Y maps b sp)\<rparr>,
               f\<lparr>m_sets := (m_sets f)(resultSetId \<mapsto> \<lparr>m_backend = b, m_setname = backend_setname\<rparr>)\<rparr>, w)
         else (p\<lparr>pkg_response := pkg_response sp\<rparr>, f, w))"

definition VDB_search :: "yaz \<Rightarrow> 'w move_fn \<Rightarrow> VDB_Map list \<Rightarrow> Z_SearchRequest \<Rightarrow> package
    \<Rightarrow> VDB_Frontend \<Rightarrow> 'w world_scheme \<Rightarrow> (package \<times> VDB_Frontend \<times> 'w world_scheme) option" where
  "VDB_search Y mv maps req p f w =
     (let databases = srq_databaseNames req;
          override_set = (m_sets f (srq_resultSetName req) \<noteq> None)
      in if override_set \<and> \<not> srq_replaceIndicator req
         then Some (p\<lparr>pkg_response := Some (GDU_Z3950 (APDU_searchResponse
                (create_searchResponse Y (Some (APDU_searchRequest req))
                   BIB1_RESULT_SET_EXISTS_AND_REPLACE_INDICATOR_OFF None)))\<rparr>, f, w)
         else (case VDB_reusable f databases override_set of
             Some b \<Rightarrow> Some (VDB_search_backend Y mv maps req b p f w)
           | None \<Rightarrow>
               (case VDB_init_backend Y mv maps databases p f w of
                  None \<Rightarrow> None
                | Some (Inl (error_code, addinfo), f, w) \<Rightarrow>
                    Some (p\<lparr>pkg_response := Some (GDU_Z3950 (APDU_searchResponse
                       (create_searchResponse Y (Some (APDU_searchRequest req)) error_code (Some addinfo))))\<rparr>, f, w)
                | Some (Inr b, f, w) \<Rightarrow> Some (VDB_search_backend Y mv maps req b p f w))))"

definition VDB_present :: "yaz \<Rightarrow> 'w move_fn \<Rightarrow> VDB_Map list \<Rightarrow> Z_PresentRequest \<Rightarrow> package
    \<Rightarrow> VDB_Frontend \<Rightarrow> 'w world_scheme \<Rightarrow> package \<times> 'w world_scheme" where
  "VDB_present Y mv maps req p f w =
     (let resultSetId = prq_resultSetId req in
      case m_sets f resultSetId of
        None \<Rightarrow> (p\<lparr>pkg_response := Some (GDU_Z3950 (APDU_presentResponse
               (create_presentResponse Y (Some (APDU_presentRequest req))
                  BIB1_SPECIFIED_RESULT_SET_DOES_NOT_EXIST (Some resultSetId))))\<rparr>, w)
      | Some s \<Rightarrow>
          (let b = m_backend s;
               (pp, w) = mv (m_route b) ((backend_package b p)\<lparr>pkg_request :=
                  Some (GDU_Z3950 (APDU_presentRequest (req\<lparr>prq_resultSetId := m_setname s\<rparr>)))\<rparr>) w;
               pp = fixup_package Y maps b pp
           in if is_closed pp
              then (close_session (p\<lparr>pkg_response := pkg_response pp\<rparr>), w)
              else (p\<lparr>pkg_response := pkg_response pp\<rparr>, w)))"

text \<open>Result: the package with the response of the last backend, and the number of backends.\<close>

fun VDB_relay_loop :: "'w move_fn \<Rightarrow> Z_APDU \<Rightarrow> VDB_Backend list \<Rightarrow> package \<Rightarrow> int \<Rightarrow> 'w world_scheme
    \<Rightarrow> package \<times> int \<times> 'w world_scheme" where
  "VDB_relay_loop mv apdu_req [] p no w = (p, no, w)"
| "VDB_relay_loop mv apdu_req (b # bs) p no w =
     (let (rp, w) = mv (m_route b) ((backend_package b p)\<lparr>pkg_request := Some (GDU_Z3950 apdu_req)\<rparr>) w
      in VDB_relay_loop mv apdu_req bs (p\<lparr>pkg_response := pkg_response rp\<rparr>) (no + 1) w)"

definition VDB_relay_apdu :: "'w move_fn \<Rightarrow> Z_APDU \<Rightarrow> package \<Rightarrow> VDB_Frontend \<Rightarrow> 'w world_scheme
    \<Rightarrow> package \<times> int \<times> 'w world_scheme" where
  "VDB_relay_apdu mv apdu_req p f w = VDB_relay_loop mv apdu_req (m_backend_list f) p 0 w"

definition VDB_scan_backend :: "yaz \<Rightarrow> 'w move_fn \<Rightarrow> Z_ScanRequest \<Rightarrow> VDB_Backend
    \<Rightarrow> package \<Rightarrow> 'w world_scheme \<Rightarrow> package \<times> 'w world_scheme" where
  "VDB_scan_backend Y mv req b p w =
     (let req = (case m_targets b of
                   [] \<Rightarrow> req
                 | t # _ \<Rightarrow> (case set_databases_from_zurl Y t of
                       None \<Rightarrow> req | Some dbs \<Rightarrow> req\<lparr>scq_databaseNames := dbs\<rparr>));
          (sp, w) = mv (m_route b) ((backend_package b p)\<lparr>pkg_request :=
             Some (GDU_Z3950 (APDU_scanRequest req))\<rparr>) w;
          p = p\<lparr>pkg_response := pkg_response sp\<rparr>
      in (if is_closed sp then close_session p else p, w))"

definition VDB_scan :: "yaz \<Rightarrow> 'w move_fn \<Rightarrow> VDB_Map list \<Rightarrow> Z_ScanRequest \<Rightarrow> package
    \<Rightarrow> VDB_Frontend \<Rightarrow> 'w world_scheme \<Rightarrow> (package \<times> VDB_Frontend \<times> 'w world_scheme) option" where
  "VDB_scan Y mv maps req p f w =
     (case find (\<lambda>b. match (m_frontend_databases b) (scq_databaseNames req)) (m_backend_list f) of
        Some b \<Rightarrow> (let (p, w) = VDB_scan_backend Y mv req b p w in Some (p, f, w))
      | None \<Rightarrow>
          (case VDB_init_backend Y mv maps (scq_databaseNames req) p f w of
             None \<Rightarrow> None
           | Some (Inl (error_code, addinfo), f, w) \<Rightarrow>
               Some (p\<lparr>pkg_response := Some (GDU_Z3950 (APDU_scanResponse
                  (create_scanResponse Y (Some (APDU_scanRequest req)) error_code (Some addinfo))))\<rparr>, f, w)
           | Some (Inr b, f, w) \<Rightarrow>
               (let (p, w) = VDB_scan_backend Y mv req b p w in Some (p, f, w))))"

section \<open>Frontends\<close>

text \<open>The constructor of a frontend draws an identifier for its unused member \<open>m_session\<close>.\<close>

definition VDB_Frontend_new :: "'w world_scheme \<Rightarrow> VDB_Frontend \<times> 'w world_scheme" where
  "VDB_Frontend_new w = (\<lparr>m_is_virtual = False, m_in_use = True, m_init_gdu = None, m_backend_list = [],
     m_sets = Map.empty\<rparr>, snd (Session_new w))"

fun VDB_close_loop :: "'w move_fn \<Rightarrow> package \<Rightarrow> VDB_Backend list \<Rightarrow> 'w world_scheme \<Rightarrow> 'w world_scheme" where
  "VDB_close_loop mv p [] w = w"
| "VDB_close_loop mv p (b # bs) w =
     VDB_close_loop mv p bs (snd (mv (m_route b) (close_session (backend_package b p)) w))"

definition VDB_close :: "'w move_fn \<Rightarrow> package \<Rightarrow> VDB_Frontend \<Rightarrow> 'w world_scheme \<Rightarrow> VDB_Frontend \<times> 'w world_scheme" where
  "VDB_close mv p f w = (f\<lparr>m_backend_list := []\<rparr>, VDB_close_loop mv p (m_backend_list f) w)"

text \<open>\<open>None\<close>: the frontend is in use and the caller waits on the condition variable.\<close>

definition VDB_get_frontend :: "package \<Rightarrow> VDB_Rep \<Rightarrow> 'w world_scheme
    \<Rightarrow> (VDB_Frontend \<times> VDB_Rep \<times> 'w world_scheme) option" where
  "VDB_get_frontend p st w =
     (case m_clients st (m_id (pkg_session p)) of
        Some f \<Rightarrow>
          if \<not> m_in_use f
          then (let f = f\<lparr>m_in_use := True\<rparr>
                in Some (f, st\<lparr>m_clients := session_map_create (m_clients st) f (pkg_session p)\<rparr>, w))
          else None
      | None \<Rightarrow>
          (let (f, w) = VDB_Frontend_new w
           in Some (f, st\<lparr>m_clients := session_map_create (m_clients st) f (pkg_session p)\<rparr>, w)))"

definition VDB_release_frontend :: "'w move_fn \<Rightarrow> package \<Rightarrow> VDB_Rep \<Rightarrow> 'w world_scheme
    \<Rightarrow> VDB_Rep \<times> 'w world_scheme" where
  "VDB_release_frontend mv p st w =
     (case m_clients st (m_id (pkg_session p)) of
        None \<Rightarrow> (st, w)
      | Some f \<Rightarrow>
          if is_closed p
          then (st\<lparr>m_clients := session_map_release (m_clients st) (pkg_session p)\<rparr>, snd (VDB_close mv p f w))
          else (st\<lparr>m_clients := session_map_create (m_clients st) (f\<lparr>m_in_use := False\<rparr>) (pkg_session p)\<rparr>, w))"

section \<open>Processing\<close>

text \<open>The response to the first init request: versions only up to the first one missing.\<close>

definition VDB_init_response :: "yaz \<Rightarrow> string \<Rightarrow> Z_InitRequest \<Rightarrow> Z_InitResponse" where
  "VDB_init_response Y version req =
     (let resp = create_initResponse Y version (Some (APDU_initRequest req)) 0 None
      in resp\<lparr>irs_options := irs_options resp \<union> (irq_options req \<inter>
               {Z_Options_search, Z_Options_present, Z_Options_namedResultSets, Z_Options_scan}),
             irs_protocolVersion := irs_protocolVersion resp \<union>
               set (takeWhile (\<lambda>v. v \<in> irq_protocolVersion req)
                 [Z_ProtocolVersion_1, Z_ProtocolVersion_2, Z_ProtocolVersion_3]),
             irs_preferredMessageSize := irq_preferredMessageSize req,
             irs_maximumRecordSize := irq_maximumRecordSize req\<rparr>)"

definition VDB_refuse :: "yaz \<Rightarrow> Z_APDU \<Rightarrow> int \<Rightarrow> string \<Rightarrow> package \<Rightarrow> package" where
  "VDB_refuse Y apdu reason addinfo p =
     close_session (p\<lparr>pkg_response := Some (GDU_Z3950 (create_close Y (Some apdu) reason (Some addinfo)))\<rparr>)"

text \<open>\<open>process\<close> between \<open>get_frontend\<close> and \<open>release_frontend\<close>.\<close>

definition VDB_handle :: "yaz \<Rightarrow> string \<Rightarrow> 'w move_fn \<Rightarrow> VDB_Rep \<Rightarrow> package \<Rightarrow> VDB_Frontend \<Rightarrow> 'w world_scheme
    \<Rightarrow> (package \<times> VDB_Frontend \<times> 'w world_scheme) option" where
  "VDB_handle Y version mv st p f w =
     (let move = (\<lambda>_::unit. let (p, w) = mv [] p w in Some (p, f, w)) in
      if \<not> m_is_virtual f
      then (case pkg_request p of
          Some (GDU_Z3950 (APDU_initRequest req)) \<Rightarrow>
            (case get_vhost_otherinfo Y (irq_otherInfo req) of
               None \<Rightarrow> None
             | Some vhosts \<Rightarrow>
                 if length vhosts > 0 \<and> pass_vhosts st then move ()
                 else Some (p\<lparr>pkg_response := Some (GDU_Z3950 (APDU_initResponse (VDB_init_response Y version req)))\<rparr>,
                        f\<lparr>m_init_gdu := Some req, m_is_virtual := True\<rparr>, w))
        | _ \<Rightarrow> move ())
      else (case pkg_request p of
          Some (GDU_Z3950 apdu) \<Rightarrow>
            (case apdu of
               APDU_initRequest _ \<Rightarrow> Some (VDB_refuse Y apdu Z_Close_protocolError ''double init'' p, f, w)
             | APDU_searchRequest req \<Rightarrow> VDB_search Y mv (m_maps st) req p f w
             | APDU_presentRequest req \<Rightarrow>
                 (let (p, w) = VDB_present Y mv (m_maps st) req p f w in Some (p, f, w))
             | APDU_scanRequest req \<Rightarrow> VDB_scan Y mv (m_maps st) req p f w
             | APDU_close _ \<Rightarrow>
                 (case VDB_relay_apdu mv apdu p f w of
                    (p, no, w) \<Rightarrow>
                      if no = 0 then Some (VDB_refuse Y apdu Z_Close_finished ''virt_db'' p, f, w)
                      else Some (p, f, w))
             | _ \<Rightarrow> Some (VDB_refuse Y apdu Z_Close_protocolError ''unsupported APDU in filter_virt_db'' p, f, w))
        | _ \<Rightarrow> Some (p, f, w)))"

definition VDB_process :: "yaz \<Rightarrow> string \<Rightarrow> 'w move_fn \<Rightarrow> VDB_Rep \<Rightarrow> package \<Rightarrow> 'w world_scheme
    \<Rightarrow> ((package \<times> VDB_Rep) \<times> 'w world_scheme) option" where
  "VDB_process Y version mv st p w =
     (case VDB_get_frontend p st w of
        None \<Rightarrow> None
      | Some (f, st, w) \<Rightarrow>
          (case VDB_handle Y version mv st p f w of
             None \<Rightarrow> None
           | Some (p', f, w) \<Rightarrow>
               (let st = st\<lparr>m_clients := session_map_create (m_clients st) f (pkg_session p)\<rparr>;
                    (st, w) = VDB_release_frontend mv p' st w
                in Some ((p', st), w))))"

section \<open>Configuration\<close>

fun VDB_virtual_children :: "xml_node list \<Rightarrow> string \<times> string list \<Rightarrow> mp_exception + string \<times> string list" where
  "VDB_virtual_children (n # ns) (database, targets) =
     (if is_element_mp (n # ns) ''database'' then Inr (get_text (n # ns), targets)
      else if is_element_mp (n # ns) ''target'' then Inr (database, targets @ [get_text (n # ns)])
      else Inl (FilterException (''Bad element '' @ node_name n @ '' in virtual section'')))"
| "VDB_virtual_children [] c = Inr c"

fun VDB_element :: "xml_node list \<Rightarrow> VDB_Rep \<Rightarrow> mp_exception + VDB_Rep" where
  "VDB_element (n # ns) st =
     (if node_name n = ''pass-vhosts'' then Inr (st\<lparr>pass_vhosts := get_bool (n # ns) False\<rparr>)
      else if node_name n = ''virtual''
      then (case for_elements VDB_virtual_children (node_children n) ([], []) of
              Inl e \<Rightarrow> Inl e
            | Inr (database, targets) \<Rightarrow>
                (case get_route (n # ns) of
                   Inl e \<Rightarrow> Inl e
                 | Inr route \<Rightarrow> Inr (VDB_add_map_db2targets database targets route st)))
      else Inl (FilterException (''Bad element '' @ node_name n @ '' in virt_db filter'')))"
| "VDB_element [] st = Inr st"

definition VDB_configure :: "xml_node \<Rightarrow> VDB_Rep \<Rightarrow> mp_exception + VDB_Rep" where
  "VDB_configure ptr st = for_elements VDB_element (node_children ptr) st"

section \<open>One package of a session at a time\<close>

definition VDB_busy :: "VDB_Rep \<times> 'w world_scheme \<Rightarrow> 64 word \<Rightarrow> bool" where
  "VDB_busy sw i = (case m_clients (fst sw) i of Some f \<Rightarrow> m_in_use f | None \<Rightarrow> False)"

definition VDB_get :: "origin \<Rightarrow> session \<Rightarrow> VDB_Rep \<times> 'w world_scheme \<Rightarrow> (VDB_Rep \<times> 'w world_scheme) option" where
  "VDB_get ori s sw = map_option snd (VDB_get_frontend (Package_new s ori) (fst sw) (snd sw))"

definition VDB_release :: "'w move_fn \<Rightarrow> origin \<Rightarrow> session \<Rightarrow> VDB_Rep \<times> 'w world_scheme \<Rightarrow> VDB_Rep \<times> 'w world_scheme" where
  "VDB_release mv ori s sw = VDB_release_frontend mv (Package_new s ori) (fst sw) (snd sw)"

interpretation vdb_pool: frontend_pool VDB_busy "VDB_get ori" "VDB_release mv ori"
  for ori :: origin and mv :: "'w move_fn"
proof unfold_locales
  fix s :: session and sw sw' :: "VDB_Rep \<times> 'w world_scheme" and i
  show "VDB_get ori s sw = None \<longleftrightarrow> VDB_busy sw (m_id s)"
    by (auto simp: VDB_get_def VDB_get_frontend_def VDB_busy_def Package_new_def Let_def
        split: option.splits prod.splits)
  show "VDB_get ori s sw = Some sw' \<Longrightarrow> VDB_busy sw' i \<longleftrightarrow> i = m_id s \<or> VDB_busy sw i"
    by (auto simp: VDB_get_def VDB_get_frontend_def VDB_busy_def Package_new_def VDB_Frontend_new_def
        session_map_create_def Let_def split: option.splits if_splits)
  show "VDB_busy (VDB_release mv ori s sw) i \<longleftrightarrow> i \<noteq> m_id s \<and> VDB_busy sw i"
    by (auto simp: VDB_release_def VDB_release_frontend_def VDB_busy_def Package_new_def
        session_map_create_def session_map_release_def split: option.splits)
qed

text \<open>
  However the packages of all sessions interleave, between two packages of the same
  session that get hold of its frontend the first one has released it.\<close>
theorem VDB_frontend_exclusive:
  assumes "pool_run (VDB_get ori) (VDB_release mv ori) (xs @ Pool_Get s # ys @ Pool_Get s' # zs) (st, w) = Some sw"
    and "m_id s = m_id s'"
  shows "\<exists>r. Pool_Release r \<in> set ys \<and> m_id r = m_id s"
  using assms by (rule vdb_pool.exclusive)

theorem VDB_frontend_exclusive_witness:
  "\<exists>r. Pool_Release r \<in> set [Pool_Get \<lparr>m_id = 2, m_close = False\<rparr>, Pool_Release \<lparr>m_id = 1, m_close = False\<rparr>]
     \<and> m_id r = 1"
proof -
  have "\<exists>sw. pool_run (VDB_get Origin_new) (VDB_release (\<lambda>r p w. (p, w)) Origin_new)
     ([] @ Pool_Get \<lparr>m_id = 1, m_close = False\<rparr> # [Pool_Get \<lparr>m_id = 2, m_close = False\<rparr>,
        Pool_Release \<lparr>m_id = 1, m_close = False\<rparr>] @ Pool_Get \<lparr>m_id = 1, m_close = False\<rparr> # [])
     (VDB_new, \<lparr>m_global_id = 2\<rparr>) = Some sw"
    by (simp add: VDB_get_def VDB_get_frontend_def VDB_release_def VDB_release_frontend_def VDB_new_def
        Package_new_def VDB_Frontend_new_def Session_new_def session_map_create_def Let_def)
  then obtain sw where "pool_run (VDB_get Origin_new) (VDB_release (\<lambda>r p w. (p, w)) Origin_new)
     ([] @ Pool_Get \<lparr>m_id = 1, m_close = False\<rparr> # [Pool_Get \<lparr>m_id = 2, m_close = False\<rparr>,
        Pool_Release \<lparr>m_id = 1, m_close = False\<rparr>] @ Pool_Get \<lparr>m_id = 1, m_close = False\<rparr> # [])
     (VDB_new, \<lparr>m_global_id = 2\<rparr>) = Some sw" ..
  from VDB_frontend_exclusive [OF this] show ?thesis by simp
qed

section \<open>Backends for a list of databases\<close>

lemma VDB_push_targets_spec:
  assumes "distinct acc"
  shows "\<exists>acc'. VDB_push_targets ts (\<lambda>t. t \<in> set acc) acc = (\<lambda>t. t \<in> set acc', acc') \<and>
     distinct acc' \<and> set acc' = set acc \<union> set ts"
  using assms
proof (induction ts arbitrary: acc)
  case (Cons t ts)
  have upd: "(\<lambda>u. u \<in> set acc)(t := True) = (\<lambda>u. u \<in> set (acc @ [t]))" by (simp add: fun_eq_iff)
  show ?case
  proof (cases "t \<in> set acc")
    case True
    then show ?thesis using Cons.IH [OF Cons.prems] by auto
  next
    case False
    then show ?thesis using Cons.IH [of "acc @ [t]"] Cons.prems upd by auto
  qed
qed simp

text \<open>The databases all have a map and the maps agree on the route.\<close>

definition VDB_databases_ok :: "yaz \<Rightarrow> VDB_Map list \<Rightarrow> string list \<Rightarrow> bool" where
  "VDB_databases_ok Y maps dbs \<longleftrightarrow>
     (\<forall>db \<in> set dbs. VDB_find_map Y maps db \<noteq> None) \<and>
     (\<forall>db \<in> set dbs. \<forall>db' \<in> set dbs. map_option m_map_route (VDB_find_map Y maps db)
        = map_option m_map_route (VDB_find_map Y maps db'))"

text \<open>What the loop makes of a backend: \<open>b'\<close> extends \<open>b\<close> by the databases.\<close>

abbreviation VDB_targets_of :: "yaz \<Rightarrow> VDB_Map list \<Rightarrow> string \<Rightarrow> string set" where
  "VDB_targets_of Y maps db \<equiv> set (case VDB_find_map Y maps db of None \<Rightarrow> [] | Some m \<Rightarrow> m_map_targets m)"

definition VDB_extends :: "yaz \<Rightarrow> VDB_Map list \<Rightarrow> string list \<Rightarrow> VDB_Backend \<Rightarrow> VDB_Backend \<Rightarrow> bool" where
  "VDB_extends Y maps dbs b b' \<longleftrightarrow>
     distinct (m_targets b') \<and>
     set (m_targets b') = set (m_targets b) \<union> (\<Union>db \<in> set dbs. VDB_targets_of Y maps db) \<and>
     (\<forall>db \<in> set dbs. map_option m_map_route (VDB_find_map Y maps db) = Some (m_route b')) \<and>
     (dbs = [] \<longrightarrow> m_route b' = m_route b) \<and>
     m_backend_session b' = m_backend_session b \<and> m_frontend_databases b' = m_frontend_databases b \<and>
     m_named_result_sets b' = m_named_result_sets b"

lemma VDB_databases_loop_ok:
  assumes "distinct (m_targets b)"
    and "\<And>db. db \<in> set dbs \<Longrightarrow> \<exists>m. VDB_find_map Y maps db = Some m \<and> (first \<or> m_map_route m = m_route b)"
    and "VDB_databases_ok Y maps dbs"
  shows "\<exists>b'. VDB_databases_loop Y maps dbs first (\<lambda>t. t \<in> set (m_targets b)) b = Inr b' \<and>
     VDB_extends Y maps dbs b b'"
  using assms
proof (induction dbs arbitrary: first b)
  case (Cons db dbs)
  obtain m where m: "VDB_find_map Y maps db = Some m" "first \<or> m_map_route m = m_route b"
    using Cons.prems(2) by force
  obtain ts where ts: "VDB_push_targets (m_map_targets m) (\<lambda>t. t \<in> set (m_targets b)) (m_targets b) = (\<lambda>t. t \<in> set ts, ts)"
    "distinct ts" "set ts = set (m_targets b) \<union> set (m_map_targets m)"
    using VDB_push_targets_spec [OF Cons.prems(1)] by blast
  define b1 where "b1 = b\<lparr>m_targets := ts, m_route := m_map_route m\<rparr>"
  have b1: "m_targets b1 = ts" "m_route b1 = m_map_route m" "m_backend_session b1 = m_backend_session b"
    "m_frontend_databases b1 = m_frontend_databases b" "m_named_result_sets b1 = m_named_result_sets b"
    by (simp_all add: b1_def)
  have step: "VDB_databases_loop Y maps (db # dbs) first (\<lambda>t. t \<in> set (m_targets b)) b =
      VDB_databases_loop Y maps dbs False (\<lambda>t. t \<in> set (m_targets b1)) b1"
    using m ts(1) unfolding b1(1) by (auto simp: b1_def)
  have agree: "map_option m_map_route (VDB_find_map Y maps db') = Some (m_map_route m)" if "db' \<in> set dbs" for db'
    using Cons.prems(3) that m(1) unfolding VDB_databases_ok_def by (metis list.set_intros option.map(2))
  have ok: "VDB_databases_ok Y maps dbs"
    using Cons.prems(3) unfolding VDB_databases_ok_def by (meson list.set_intros(2))
  have "\<exists>m'. VDB_find_map Y maps db' = Some m' \<and> (False \<or> m_map_route m' = m_route b1)" if "db' \<in> set dbs" for db'
    using map_option_SomeD [OF agree [OF that]] b1(2) by auto
  note ih = Cons.IH [of b1 False, OF _ this ok, unfolded b1(1), OF ts(2)]
  from ih obtain b' where b': "VDB_databases_loop Y maps dbs False (\<lambda>t. t \<in> set (m_targets b1)) b1 = Inr b'"
    "VDB_extends Y maps dbs b1 b'" unfolding b1(1) by blast
  have "m_route b' = m_map_route m"
    using b'(2) agree b1(2) unfolding VDB_extends_def by (cases dbs) auto
  then have "VDB_extends Y maps (db # dbs) b b'"
    using b'(2) m(1) ts(3) b1 by (auto simp: VDB_extends_def)
  then show ?case using b'(1) step by simp
qed (simp add: VDB_extends_def)

lemma VDB_databases_loop_error:
  assumes "VDB_databases_loop Y maps dbs first dedup b = Inl (code, info)"
  shows "(code = BIB1_DATABASE_DOES_NOT_EXIST \<and> info \<in> set dbs \<and> VDB_find_map Y maps info = None) \<or>
     (code = BIB1_COMBI_OF_SPECIFIED_DATABASES_UNSUPP \<and> info = [] \<and>
      (\<exists>db \<in> set dbs. \<exists>m. VDB_find_map Y maps db = Some m \<and>
         ((\<not> first \<and> m_map_route m \<noteq> m_route b) \<or>
          (\<exists>db' \<in> set dbs. \<exists>m'. VDB_find_map Y maps db' = Some m' \<and> m_map_route m' \<noteq> m_map_route m))))"
  using assms
proof (induction dbs arbitrary: first dedup b)
  case (Cons db dbs)
  show ?case
  proof (cases "VDB_find_map Y maps db")
    case None
    then show ?thesis using Cons.prems by auto
  next
    case (Some m)
    obtain dedup' ts where ts: "VDB_push_targets (m_map_targets m) dedup (m_targets b) = (dedup', ts)" by fastforce
    show ?thesis
    proof (cases "\<not> first \<and> m_route b \<noteq> m_map_route m")
      case True
      then show ?thesis using Cons.prems Some ts by auto
    next
      case False
      let ?b = "b\<lparr>m_targets := ts, m_route := m_map_route m\<rparr>"
      have "VDB_databases_loop Y maps dbs False dedup' ?b = Inl (code, info)"
        using Cons.prems Some ts False by (simp split: if_splits)
      from Cons.IH [OF this] show ?thesis
      proof (elim disjE conjE bexE exE)
        fix db' m'
        assume "code = BIB1_COMBI_OF_SPECIFIED_DATABASES_UNSUPP" "info = []" "db' \<in> set dbs"
          "VDB_find_map Y maps db' = Some m'" "m_map_route m' \<noteq> m_route ?b"
        then show ?thesis using Some by (intro disjI2 conjI bexI [of _ db]) auto
      next
        fix db1 m1 db2 m2
        assume "code = BIB1_COMBI_OF_SPECIFIED_DATABASES_UNSUPP" "info = []" "db1 \<in> set dbs"
          "VDB_find_map Y maps db1 = Some m1" "db2 \<in> set dbs" "VDB_find_map Y maps db2 = Some m2"
          "m_map_route m2 \<noteq> m_map_route m1"
        then show ?thesis by (intro disjI2 conjI bexI [of _ db1]) auto
      qed simp
    qed
  qed
qed simp

lemma VDB_databases_loop_Inr:
  assumes "VDB_databases_loop Y maps dbs first dedup b = Inr b'"
  shows "VDB_databases_ok Y maps dbs \<and>
     (\<forall>db \<in> set dbs. \<exists>m. VDB_find_map Y maps db = Some m \<and> m_map_route m = m_route b')
     \<and> (first \<or> m_route b' = m_route b) \<and> (dbs = [] \<longrightarrow> b' = b)"
  using assms
proof (induction dbs arbitrary: first dedup b)
  case Nil
  then show ?case by (simp add: VDB_databases_ok_def)
next
  case (Cons db dbs)
  obtain m where m: "VDB_find_map Y maps db = Some m" using Cons.prems by (auto split: option.splits)
  obtain dedup' ts where ts: "VDB_push_targets (m_map_targets m) dedup (m_targets b) = (dedup', ts)" by fastforce
  let ?b = "b\<lparr>m_targets := ts, m_route := m_map_route m\<rparr>"
  have step: "VDB_databases_loop Y maps dbs False dedup' ?b = Inr b'" "first \<or> m_route b = m_map_route m"
    using Cons.prems m ts by (auto split: if_splits)
  note ih = Cons.IH [OF step(1)]
  have r: "m_route b' = m_map_route m" using ih by simp
  have all: "\<forall>db' \<in> set (db # dbs). \<exists>m. VDB_find_map Y maps db' = Some m \<and> m_map_route m = m_route b'"
    using ih m r by auto
  then have "VDB_databases_ok Y maps (db # dbs)"
    unfolding VDB_databases_ok_def by (metis option.distinct(1) option.map(2))
  then show ?case using all step(2) r by auto
qed

text \<open>
  C30. A backend for a list of databases is made exactly when each database has a map and all
  the maps agree on the route. Its targets are those of the maps, each once, and its route is
  theirs. Otherwise the diagnostic is that a database does not exist, naming one without a map,
  or that the combination of databases is not supported, and then two maps differ in
  their routes.\<close>
theorem VDB_create_backend:
  "case fst (create_backend_from_databases Y maps dbs w) of
     Inr b \<Rightarrow> VDB_databases_ok Y maps dbs \<and> distinct (m_targets b) \<and>
       set (m_targets b) = (\<Union>db \<in> set dbs. VDB_targets_of Y maps db) \<and>
       (\<forall>db \<in> set dbs. map_option m_map_route (VDB_find_map Y maps db) = Some (m_route b)) \<and>
       m_frontend_databases b = dbs
   | Inl (code, info) \<Rightarrow> \<not> VDB_databases_ok Y maps dbs \<and>
       ((code = BIB1_DATABASE_DOES_NOT_EXIST \<and> info \<in> set dbs \<and> VDB_find_map Y maps info = None) \<or>
        (code = BIB1_COMBI_OF_SPECIFIED_DATABASES_UNSUPP \<and> info = [] \<and>
          (\<exists>db \<in> set dbs. \<exists>db' \<in> set dbs. \<exists>m m'. VDB_find_map Y maps db = Some m \<and>
             VDB_find_map Y maps db' = Some m' \<and> m_map_route m' \<noteq> m_map_route m)))"
proof -
  define b0 where "b0 = \<lparr>m_backend_session = fst (Session_new w), m_frontend_databases = dbs, m_targets = [],
     m_route = [], m_named_result_sets = False\<rparr>"
  have loop: "fst (create_backend_from_databases Y maps dbs w) = VDB_databases_loop Y maps dbs True (\<lambda>_. False) b0"
    by (simp add: create_backend_from_databases_def b0_def split: prod.splits)
  have good: "\<exists>b'. VDB_databases_loop Y maps dbs True (\<lambda>_. False) b0 = Inr b' \<and> VDB_extends Y maps dbs b0 b'"
    if ok: "VDB_databases_ok Y maps dbs"
  proof -
    have "\<exists>m. VDB_find_map Y maps db = Some m \<and> (True \<or> m_map_route m = m_route b0)" if "db \<in> set dbs" for db
      using ok that unfolding VDB_databases_ok_def by (metis not_None_eq)
    from VDB_databases_loop_ok [OF _ this ok] show ?thesis by (simp add: b0_def)
  qed
  show ?thesis
  proof (cases "VDB_databases_loop Y maps dbs True (\<lambda>_. False) b0")
    case (Inl e)
    obtain code info where e: "e = (code, info)" by fastforce
    have "\<not> VDB_databases_ok Y maps dbs" using good Inl by auto
    then show ?thesis using VDB_databases_loop_error [OF Inl [unfolded e]] loop Inl e by auto
  next
    case (Inr b)
    have "VDB_databases_ok Y maps dbs"
      using VDB_databases_loop_Inr [OF Inr] by (simp add: b0_def)
    moreover from this have "VDB_extends Y maps dbs b0 b" using good Inr by auto
    ultimately show ?thesis using loop Inr by (simp add: VDB_extends_def b0_def)
  qed
qed

abbreviation demo_maps :: "VDB_Map list" where
  "demo_maps \<equiv> [\<lparr>m_dbpattern = ''a'', m_map_targets = [''t1'', ''t2''], m_map_route = ''r''\<rparr>,
     \<lparr>m_dbpattern = ''b'', m_map_targets = [''t2'', ''t3''], m_map_route = ''r''\<rparr>]"

lemmas demo_eval = VDB_find_map_def VDB_Map_match_def yaz_ref_def database_name_normalize_def lower_char_def

theorem VDB_create_backend_witness:
  "\<exists>b. fst (create_backend_from_databases yaz_ref demo_maps [''a'', ''b''] \<lparr>m_global_id = 3\<rparr>) = Inr b \<and>
     distinct (m_targets b) \<and> set (m_targets b) = {''t1'', ''t2'', ''t3''}"
proof -
  have find: "VDB_find_map yaz_ref demo_maps ''a'' = Some (demo_maps ! 0)"
    "VDB_find_map yaz_ref demo_maps ''b'' = Some (demo_maps ! 1)"
    by (simp_all add: demo_eval)
  then have "\<exists>b. fst (create_backend_from_databases yaz_ref demo_maps [''a'', ''b''] \<lparr>m_global_id = 3\<rparr>) = Inr b"
    by (simp add: create_backend_from_databases_def Session_new_def)
  then show ?thesis
    using VDB_create_backend [of yaz_ref demo_maps "[''a'', ''b'']" "\<lparr>m_global_id = 3\<rparr>"] find by auto
qed

section \<open>The invariant of a frontend\<close>

text \<open>
  Every result set lives on a backend of the frontend, under the name of the client if that
  backend has named result sets and under \<open>default\<close> otherwise; and a frontend that went
  virtual has the init request that new backends are opened with.
\<close>

definition VDB_inv :: "VDB_Frontend \<Rightarrow> bool" where
  "VDB_inv f \<longleftrightarrow>
     (\<forall>i s. m_sets f i = Some s \<longrightarrow> m_backend s \<in> set (m_backend_list f) \<and>
        m_setname s = (if m_named_result_sets (m_backend s) then i else ''default'')) \<and>
     (m_is_virtual f \<longrightarrow> m_init_gdu f \<noteq> None)"

definition VDB_ok :: "VDB_Rep \<Rightarrow> bool" where
  "VDB_ok st \<longleftrightarrow> (\<forall>i f. m_clients st i = Some f \<longrightarrow> VDB_inv f \<and> \<not> m_in_use f)"

lemma VDB_inv_add_backend: "VDB_inv f \<Longrightarrow> VDB_inv (f\<lparr>m_backend_list := m_backend_list f @ [b]\<rparr>)"
  by (auto simp: VDB_inv_def)

lemma VDB_inv_in_use [simp]: "VDB_inv (f\<lparr>m_in_use := u\<rparr>) = VDB_inv f"
  by (simp add: VDB_inv_def)

lemma VDB_init_backend_cases:
  assumes "m_init_gdu f \<noteq> None"
  shows "(\<exists>e w'. VDB_init_backend Y mv maps dbs p f w = Some (Inl e, f, w')) \<or>
     (\<exists>b w'. VDB_init_backend Y mv maps dbs p f w =
        Some (Inr b, f\<lparr>m_backend_list := m_backend_list f @ [b]\<rparr>, w'))"
proof -
  obtain org where org: "m_init_gdu f = Some org" using assms by auto
  obtain r0 w0 where c: "create_backend_from_databases Y maps dbs w = (r0, w0)" by fastforce
  show ?thesis
  proof (cases r0)
    case (Inl e)
    then show ?thesis using c by (simp add: VDB_init_backend_def)
  next
    case (Inr b)
    then show ?thesis
      using c org
      by (simp add: VDB_init_backend_def Let_def split: prod.split option.split Z_GDU.split Z_APDU.split)
  qed
qed

lemma VDB_init_backend_inv:
  assumes "VDB_inv f" and "m_init_gdu f \<noteq> None"
  shows "\<exists>r f' w'. VDB_init_backend Y mv maps dbs p f w = Some (r, f', w') \<and> VDB_inv f' \<and>
    (\<forall>b. r = Inr b \<longrightarrow> b \<in> set (m_backend_list f'))"
  using VDB_init_backend_cases [OF assms(2), of Y mv maps dbs p w]
proof (elim disjE exE)
  fix e w'
  assume "VDB_init_backend Y mv maps dbs p f w = Some (Inl e, f, w')"
  then show ?thesis using assms(1) by simp
next
  fix b w'
  assume "VDB_init_backend Y mv maps dbs p f w = Some (Inr b, f\<lparr>m_backend_list := m_backend_list f @ [b]\<rparr>, w')"
  then show ?thesis using VDB_inv_add_backend [OF assms(1)] by simp
qed

abbreviation VDB_set_on :: "VDB_Backend \<Rightarrow> string \<Rightarrow> VDB_Set" where
  "VDB_set_on b i \<equiv> \<lparr>m_backend = b, m_setname = (if m_named_result_sets b then i else ''default'')\<rparr>"

lemma VDB_search_backend_sets:
  "fst (snd (VDB_search_backend Y mv maps req b p f w)) \<in>
     {f\<lparr>m_sets := (m_sets f)(srq_resultSetName req := None)\<rparr>,
      f\<lparr>m_sets := (m_sets f)(srq_resultSetName req \<mapsto> VDB_set_on b (srq_resultSetName req))\<rparr>}"
  by (simp add: VDB_search_backend_def case_prod_beta Let_def)

lemma VDB_inv_set_on:
  assumes "VDB_inv f"
  shows "VDB_inv (f\<lparr>m_sets := (m_sets f)(i := None)\<rparr>)"
    and "b \<in> set (m_backend_list f) \<Longrightarrow> VDB_inv (f\<lparr>m_sets := (m_sets f)(i \<mapsto> VDB_set_on b i)\<rparr>)"
  using assms by (simp_all add: VDB_inv_def)

lemma VDB_search_backend_inv:
  assumes "VDB_inv f" and "b \<in> set (m_backend_list f)"
  shows "VDB_inv (fst (snd (VDB_search_backend Y mv maps req b p f w)))"
  using VDB_search_backend_sets [of Y mv maps req b p f w] VDB_inv_set_on [OF assms(1)] assms(2)
  by (elim insertE) (simp_all only: singleton_iff empty_iff)

lemma VDB_search_backend_result:
  assumes "VDB_inv f" and "b \<in> set (m_backend_list f)"
  shows "\<exists>p' f' w'. VDB_search_backend Y mv maps req b p f w = (p', f', w') \<and> VDB_inv f'"
  using VDB_search_backend_inv [OF assms, of Y mv maps req p w]
  by (cases "VDB_search_backend Y mv maps req b p f w") auto

lemma VDB_search_inv:
  assumes "VDB_inv f" and "m_init_gdu f \<noteq> None"
  shows "\<exists>p' f' w'. VDB_search Y mv maps req p f w = Some (p', f', w') \<and> VDB_inv f'"
proof -
  define o' where "o' \<longleftrightarrow> m_sets f (srq_resultSetName req) \<noteq> None"
  note def = VDB_search_def [of Y mv maps req p f w, unfolded Let_def, folded o'_def]
  show ?thesis
  proof (cases "o' \<and> \<not> srq_replaceIndicator req")
    case True
    then show ?thesis using assms(1) unfolding def by (simp only: if_True simp_thms) blast
  next
    case False
    show ?thesis
    proof (cases "VDB_reusable f (srq_databaseNames req) o'")
      case (Some b)
      then have "b \<in> set (m_backend_list f)" using find_SomeD unfolding VDB_reusable_def by fastforce
      from VDB_search_backend_result [OF assms(1) this] show ?thesis
        unfolding def using False Some by (simp only: if_False option.case) blast
    next
      case None
      obtain r f' w' where i: "VDB_init_backend Y mv maps (srq_databaseNames req) p f w = Some (r, f', w')"
        "VDB_inv f'" "\<And>b. r = Inr b \<Longrightarrow> b \<in> set (m_backend_list f')"
        using VDB_init_backend_inv [OF assms, of Y mv maps "srq_databaseNames req" p w] by blast
      show ?thesis
      proof (cases r)
        case (Inl e)
        then show ?thesis unfolding def using False None i
          by (cases e) (simp only: if_False option.case prod.case sum.case, blast)
      next
        case (Inr b)
        from VDB_search_backend_result [OF i(2) i(3) [OF this]] show ?thesis
          unfolding def using False None i(1) Inr
          by (simp only: if_False option.case prod.case sum.case) blast
      qed
    qed
  qed
qed

lemma VDB_scan_inv:
  assumes "VDB_inv f" and "m_init_gdu f \<noteq> None"
  shows "\<exists>p' f' w'. VDB_scan Y mv maps req p f w = Some (p', f', w') \<and> VDB_inv f'"
proof (cases "find (\<lambda>b. match (m_frontend_databases b) (scq_databaseNames req)) (m_backend_list f)")
  case (Some b)
  then show ?thesis using assms(1) by (simp add: VDB_scan_def split: prod.splits)
next
  case None
  obtain r f' w' where i: "VDB_init_backend Y mv maps (scq_databaseNames req) p f w = Some (r, f', w')" "VDB_inv f'"
    using VDB_init_backend_inv [OF assms, of Y mv maps "scq_databaseNames req" p w] by blast
  then show ?thesis using None by (cases r) (auto simp: VDB_scan_def split: prod.splits)
qed

lemma VDB_handle_inv:
  assumes "oi_laws Y" and "VDB_inv f"
  shows "\<exists>p' f' w'. VDB_handle Y version mv st p f w = Some (p', f', w') \<and> VDB_inv f'"
proof (cases "m_is_virtual f")
  case False
  obtain p1 w1 where mv: "mv [] p w = (p1, w1)" by fastforce
  have virt: "VDB_inv (f\<lparr>m_init_gdu := Some req, m_is_virtual := True\<rparr>)" for req
    using assms(2) by (simp add: VDB_inv_def)
  show ?thesis
  proof (cases "\<exists>req. pkg_request p = Some (GDU_Z3950 (APDU_initRequest req))")
    case True
    then obtain req vs where "pkg_request p = Some (GDU_Z3950 (APDU_initRequest req))"
      "get_vhost_otherinfo Y (irq_otherInfo req) = Some vs"
      using get_vhost_total [OF assms(1)] by blast
    then show ?thesis using False mv virt assms(2) by (simp add: VDB_handle_def)
  next
    case other: False
    then show ?thesis using False mv assms(2)
      by (auto simp: VDB_handle_def Let_def split: option.splits Z_GDU.splits Z_APDU.splits)
  qed
next
  case True
  then have init: "m_init_gdu f \<noteq> None" using assms(2) by (simp add: VDB_inv_def)
  show ?thesis
    using True assms(2) VDB_search_inv [OF assms(2) init] VDB_scan_inv [OF assms(2) init]
    by (simp add: VDB_handle_def Let_def split: option.split Z_GDU.split Z_APDU.split prod.split) blast
qed

section \<open>A whole request\<close>

text \<open>Moving a package on does not change which session it belongs to.\<close>

definition keeps_session :: "'w move_fn \<Rightarrow> bool" where
  "keeps_session mv \<longleftrightarrow> (\<forall>r q w. m_id (pkg_session (fst (mv r q w))) = m_id (pkg_session q))"

lemma m_id_close_session [simp]: "m_id (pkg_session (close_session p)) = m_id (pkg_session p)"
  by (simp add: close_session_def)

lemma VDB_search_backend_id:
  "m_id (pkg_session (fst (VDB_search_backend Y mv maps req b p f w))) = m_id (pkg_session p)"
  by (simp add: VDB_search_backend_def case_prod_beta Let_def)

lemma VDB_search_id:
  assumes "VDB_search Y mv maps req p f w = Some (p', f', w')"
  shows "m_id (pkg_session p') = m_id (pkg_session p)"
  using assms VDB_search_backend_id [of Y mv maps req _ p]
  by (auto simp: VDB_search_def Let_def split: if_splits option.splits sum.splits) (metis fst_conv)+

lemma VDB_scan_id:
  assumes "VDB_scan Y mv maps req p f w = Some (p', f', w')"
  shows "m_id (pkg_session p') = m_id (pkg_session p)"
  using assms
  by (auto simp: VDB_scan_def VDB_scan_backend_def case_prod_beta Let_def split: if_splits option.splits sum.splits)

lemma VDB_present_id: "m_id (pkg_session (fst (VDB_present Y mv maps req p f w))) = m_id (pkg_session p)"
  by (simp add: VDB_present_def case_prod_beta Let_def split: option.split)

lemma VDB_relay_id: "m_id (pkg_session (fst (VDB_relay_loop mv a bs p no w))) = m_id (pkg_session p)"
  by (induction bs arbitrary: p no w) (simp_all add: case_prod_beta)

lemma VDB_handle_id:
  assumes "keeps_session mv" and "VDB_handle Y version mv st p f w = Some (p', f', w')"
  shows "m_id (pkg_session p') = m_id (pkg_session p)"
proof (cases "m_is_virtual f")
  case False
  then show ?thesis
    using assms unfolding keeps_session_def
    by (auto simp: VDB_handle_def case_prod_beta Let_def
        split: option.splits Z_GDU.splits Z_APDU.splits if_splits)
next
  case True
  then show ?thesis
    using assms VDB_present_id [of Y mv "m_maps st" _ p f w] VDB_relay_id [of mv _ "m_backend_list f" p 0 w]
    by (auto simp: VDB_handle_def VDB_refuse_def VDB_relay_apdu_def case_prod_beta
        split: option.splits Z_GDU.splits Z_APDU.splits if_splits dest: VDB_search_id VDB_scan_id)
qed



section \<open>Where a search puts its result set\<close>

lemma VDB_databases_loop_frame:
  assumes "VDB_databases_loop Y maps dbs first dedup b = Inr b'"
  shows "m_frontend_databases b' = m_frontend_databases b"
  using assms
  by (induction dbs arbitrary: first dedup b) (auto simp: case_prod_beta Let_def split: option.splits if_splits)

lemma VDB_init_backend_databases:
  assumes "VDB_init_backend Y mv maps dbs p f w = Some (Inr b, f', w')"
  shows "m_frontend_databases b = dbs"
proof -
  obtain b0 w0 where c: "create_backend_from_databases Y maps dbs w = (Inr b0, w0)"
    using assms by (auto simp: VDB_init_backend_def split: prod.splits sum.splits)
  have "m_frontend_databases b0 = dbs"
    using c VDB_databases_loop_frame by (fastforce simp: create_backend_from_databases_def split: prod.splits)
  moreover have "m_frontend_databases b = m_frontend_databases b0"
    using assms c
    by (auto simp: VDB_init_backend_def Let_def case_prod_beta
        split: option.splits Z_GDU.splits Z_APDU.splits if_splits)
  ultimately show ?thesis by simp
qed

lemma VDB_init_backend_Inr:
  assumes "VDB_init_backend Y mv maps dbs p f w = Some (Inr b, f', w')"
  shows "f' = f\<lparr>m_backend_list := m_backend_list f @ [b]\<rparr>"
  using assms
  by (auto simp: VDB_init_backend_def Let_def case_prod_beta
      split: option.splits Z_GDU.splits Z_APDU.splits if_splits sum.splits prod.splits)

lemma VDB_databases_loop_code:
  "VDB_databases_loop Y maps dbs first dedup b = Inl (code, info) \<Longrightarrow> code \<noteq> 0"
  using VDB_databases_loop_error [of Y maps dbs first dedup b code info] by auto

lemma VDB_init_backend_code:
  assumes "VDB_init_backend Y mv maps dbs p f w = Some (Inl (code, info), f', w')"
  shows "code \<noteq> 0"
  using assms
  by (auto simp: VDB_init_backend_def create_backend_from_databases_def Let_def case_prod_beta
      split: option.splits Z_GDU.splits Z_APDU.splits if_splits sum.splits prod.splits
      dest: VDB_databases_loop_code)

lemma accepted_fixup [simp]:
  "VDB_search_accepted (pkg_response (fixup_package Y maps b sp)) = VDB_search_accepted (pkg_response sp)"
proof (cases "\<exists>r. pkg_response sp = Some (GDU_Z3950 (APDU_searchResponse r))")
  case True
  then obtain r where r: "pkg_response sp = Some (GDU_Z3950 (APDU_searchResponse r))" ..
  show ?thesis
  proof (cases "srs_records r")
    case None
    then show ?thesis using r by (simp add: fixup_package_def)
  next
    case (Some x)
    then show ?thesis using r by (cases x) (simp_all add: fixup_package_def)
  qed
next
  case False
  then show ?thesis
    by (auto simp: fixup_package_def split: option.splits Z_GDU.splits Z_APDU.splits)
qed

lemma VDB_search_backend_accepted:
  assumes "VDB_search_backend Y mv maps req b p f w = (p', f', w')" and "\<not> is_closed p'"
    and "VDB_search_accepted (pkg_response p')"
  shows "m_sets f' = (m_sets f)(srq_resultSetName req \<mapsto> VDB_set_on b (srq_resultSetName req)) \<and>
    m_backend_list f' = m_backend_list f"
  using assms
  by (auto simp: VDB_search_backend_def case_prod_beta Let_def close_session_def split: if_splits)

text \<open>
  After a search that was answered without a diagnostic while the session stays open, the
  named result set lives on a backend of the frontend whose databases are the requested ones up to the
  case of their names, and all other result sets are where they were.\<close>
theorem VDB_search_stores_set:
  assumes "VDB_search Y mv maps req p f w = Some (p', f', w')" and "\<not> is_closed p'"
    and "VDB_search_accepted (pkg_response p')"
  shows "\<exists>b \<in> set (m_backend_list f'). match (m_frontend_databases b) (srq_databaseNames req) \<and>
     m_sets f' = (m_sets f)(srq_resultSetName req \<mapsto> VDB_set_on b (srq_resultSetName req))"
proof -
  define o' where "o' \<longleftrightarrow> m_sets f (srq_resultSetName req) \<noteq> None"
  have def: "VDB_search Y mv maps req p f w = Some (p', f', w')" using assms(1) .
  have diag: "\<not> VDB_search_accepted (Some (GDU_Z3950 (APDU_searchResponse (create_searchResponse Y a e i))))"
    if "e \<noteq> 0" for a e i using that by (simp add: create_searchResponse_def Let_def)
  show ?thesis
  proof (cases "VDB_reusable f (srq_databaseNames req) o'")
    case (Some b)
    have b: "b \<in> set (m_backend_list f)" "match (m_frontend_databases b) (srq_databaseNames req)"
      using find_SomeD [OF Some [unfolded VDB_reusable_def]] by auto
    have "VDB_search_backend Y mv maps req b p f w = (p', f', w')"
      using def Some assms(3) diag unfolding o'_def by (auto simp: VDB_search_def Let_def split: if_splits)
    from VDB_search_backend_accepted [OF this assms(2,3)] b show ?thesis by auto
  next
    case None
    obtain r f1 w1 where i: "VDB_init_backend Y mv maps (srq_databaseNames req) p f w = Some (r, f1, w1)"
      using def None assms(3) diag unfolding o'_def
      by (auto simp: VDB_search_def Let_def split: if_splits option.splits)
    show ?thesis
    proof (cases r)
      case (Inl e)
      obtain ec ai where e: "e = (ec, ai)" by fastforce
      have "pkg_response p' = Some (GDU_Z3950 (APDU_searchResponse (create_searchResponse Y
          (Some (APDU_searchRequest req)) ec (Some ai)))) \<or> o' \<and> \<not> srq_replaceIndicator req"
        using def None i Inl e unfolding o'_def by (auto simp: VDB_search_def Let_def split: if_splits)
      moreover have "ec \<noteq> 0" using VDB_init_backend_code i Inl e by blast
      moreover have "\<not> (o' \<and> \<not> srq_replaceIndicator req)"
        using def assms(3) diag unfolding o'_def by (auto simp: VDB_search_def Let_def split: if_splits)
      ultimately show ?thesis using assms(3) diag by auto
    next
      case (Inr b)
      have f1: "f1 = f\<lparr>m_backend_list := m_backend_list f @ [b]\<rparr>" "m_frontend_databases b = srq_databaseNames req"
        using VDB_init_backend_Inr VDB_init_backend_databases i Inr by blast+
      have "VDB_search_backend Y mv maps req b p f1 w1 = (p', f', w')"
        using def None i Inr assms(3) diag unfolding o'_def by (auto simp: VDB_search_def Let_def split: if_splits)
      from VDB_search_backend_accepted [OF this assms(2,3)] f1 show ?thesis by auto
    qed
  qed
qed

section \<open>Database names seen by the client\<close>

lemma VDB_fixup_name_Some: "VDB_fixup_name Y maps d dbs = Some db \<Longrightarrow> db \<in> set dbs"
  by (induction dbs) (auto split: option.splits if_splits)

text \<open>
  The records of a present response that reach the client name only databases that the
  client searched, never a database of a target; nothing else of the records changes.\<close>
theorem VDB_fixup_present:
  assumes "pkg_response p = Some (GDU_Z3950 (APDU_presentResponse r))"
    and "prs_records r = Some (Records_DBOSD rs)" and "m_frontend_databases b \<noteq> []"
  shows "\<exists>rs'. pkg_response (fixup_package Y maps b p) =
        Some (GDU_Z3950 (APDU_presentResponse (r\<lparr>prs_records := Some (Records_DBOSD rs')\<rparr>))) \<and>
     map npr_record rs' = map npr_record rs \<and>
     (\<forall>x \<in> set rs'. \<forall>d. npr_databaseName x = Some d \<longrightarrow> d \<in> set (m_frontend_databases b))"
proof -
  have one: "npr_record (fixup_npr_record Y maps b x) = npr_record x"
    "npr_databaseName (fixup_npr_record Y maps b x) = Some d \<Longrightarrow> d \<in> set (m_frontend_databases b)" for x d
    using assms(3) VDB_fixup_name_Some
    by (auto simp: fixup_npr_record_def split: option.splits list.splits)
  show ?thesis
    using assms(1,2) one
    by (intro exI [of _ "map (fixup_npr_record Y maps b) rs"]) (auto simp: fixup_package_def)
qed

section \<open>Two result sets on one unnamed set\<close>

text \<open>
  When a result set is replaced, the first backend for the databases is taken even if it has
  no named result sets and already holds another result set of the client. Then both
  names stand for the same result set of the target, the one of the last search: a present
  on the other name returns its records.\<close>
theorem VDB_replaced_set_shared:
  assumes "VDB_reusable f (srq_databaseNames req) True = Some b" and "\<not> m_named_result_sets b"
    and "m_sets f other = Some (VDB_set_on b other)" and "other \<noteq> srq_resultSetName req"
    and "m_sets f (srq_resultSetName req) \<noteq> None" and "srq_replaceIndicator req"
    and "VDB_search Y mv maps req p f w = Some (p', f', w')" and "\<not> is_closed p'"
    and "VDB_search_accepted (pkg_response p')"
  shows "m_sets f' other = m_sets f' (srq_resultSetName req)"
proof -
  have "VDB_search_backend Y mv maps req b p f w = (p', f', w')"
    using assms(1,5-7) by (auto simp: VDB_search_def Let_def)
  from VDB_search_backend_accepted [OF this assms(8,9)] show ?thesis using assms(2-4) by simp
qed

text \<open>A target without named result sets that accepts everything, and the searches of a client
  on one database: for set A, for set B, and once more for set B.\<close>

definition unnamed_target :: "'w move_fn" where
  "unnamed_target r q w = (case pkg_request q of
     Some (GDU_Z3950 (APDU_initRequest _)) \<Rightarrow>
       (q\<lparr>pkg_response := Some (GDU_Z3950 (APDU_initResponse (zget_initResponse yaz_ref)))\<rparr>, w)
   | Some (GDU_Z3950 (APDU_searchRequest _)) \<Rightarrow>
       (q\<lparr>pkg_response := Some (GDU_Z3950 (APDU_searchResponse (zget_searchResponse yaz_ref)))\<rparr>, w)
   | _ \<Rightarrow> (q, w))"

abbreviation search_set :: "string \<Rightarrow> Z_SearchRequest" where
  "search_set i \<equiv> \<lparr>srq_referenceId = None, srq_smallSetUpperBound = 0, srq_largeSetLowerBound = 1,
     srq_mediumSetPresentNumber = 0, srq_replaceIndicator = True, srq_resultSetName = i,
     srq_databaseNames = [''a''], srq_smallSetElementSetNames = None, srq_mediumSetElementSetNames = None,
     srq_preferredRecordSyntax = None, srq_query = Query_other [], srq_additionalSearchInfo = None\<rparr>"

abbreviation client_package :: package where
  "client_package \<equiv> Package_new \<lparr>m_id = 1, m_close = False\<rparr> Origin_new"

abbreviation demo_frontend :: VDB_Frontend where
  "demo_frontend \<equiv> \<lparr>m_is_virtual = True, m_in_use = True, m_init_gdu = Some (zget_initRequest yaz_ref),
     m_backend_list = [], m_sets = Map.empty\<rparr>"

abbreviation demo_backend :: "64 word \<Rightarrow> VDB_Backend" where
  "demo_backend i \<equiv> \<lparr>m_backend_session = \<lparr>m_id = i, m_close = False\<rparr>, m_frontend_databases = [''a''],
     m_targets = [''t1'', ''t2''], m_route = ''r'', m_named_result_sets = False\<rparr>"

abbreviation demo_two_sets :: VDB_Frontend where
  "demo_two_sets \<equiv> demo_frontend\<lparr>m_backend_list := [demo_backend 2, demo_backend 3],
     m_sets := [''A'' \<mapsto> VDB_set_on (demo_backend 2) ''A'', ''B'' \<mapsto> VDB_set_on (demo_backend 3) ''B'']\<rparr>"

lemmas demo_search_simps = VDB_search_def VDB_search_backend_def VDB_reusable_def VDB_init_backend_def
  create_backend_from_databases_def Session_new_def unnamed_target_def fixup_package_def Package_new_def demo_eval

lemma demo_search_A:
  "map_option snd (VDB_search yaz_ref unnamed_target demo_maps (search_set ''A'') client_package
     demo_frontend \<lparr>m_global_id = 1\<rparr>) =
   Some (demo_frontend\<lparr>m_backend_list := [demo_backend 2],
      m_sets := [''A'' \<mapsto> VDB_set_on (demo_backend 2) ''A'']\<rparr>, \<lparr>m_global_id = 2\<rparr>)"
  by (simp add: demo_search_simps Let_def)

lemma demo_search_B:
  "map_option snd (VDB_search yaz_ref unnamed_target demo_maps (search_set ''B'') client_package
     (demo_frontend\<lparr>m_backend_list := [demo_backend 2],
      m_sets := [''A'' \<mapsto> VDB_set_on (demo_backend 2) ''A'']\<rparr>) \<lparr>m_global_id = 2\<rparr>) =
   Some (demo_two_sets, \<lparr>m_global_id = 3\<rparr>)"
  by (simp add: demo_search_simps Let_def)

lemma demo_search_B_again:
  "\<exists>p' f'. VDB_search yaz_ref unnamed_target demo_maps (search_set ''B'') client_package demo_two_sets
      \<lparr>m_global_id = 3\<rparr> = Some (p', f', \<lparr>m_global_id = 3\<rparr>) \<and> \<not> is_closed p' \<and>
    VDB_search_accepted (pkg_response p')"
  by (simp add: demo_search_simps Let_def)

theorem VDB_replaced_set_shared_witness:
  "\<exists>p' f'. VDB_search yaz_ref unnamed_target demo_maps (search_set ''B'') client_package demo_two_sets
      \<lparr>m_global_id = 3\<rparr> = Some (p', f', \<lparr>m_global_id = 3\<rparr>) \<and> m_sets f' ''A'' = m_sets f' ''B''"
proof -
  obtain p' f' where r: "VDB_search yaz_ref unnamed_target demo_maps (search_set ''B'') client_package demo_two_sets
      \<lparr>m_global_id = 3\<rparr> = Some (p', f', \<lparr>m_global_id = 3\<rparr>)" "\<not> is_closed p'" "VDB_search_accepted (pkg_response p')"
    using demo_search_B_again by blast
  have "VDB_reusable demo_two_sets (srq_databaseNames (search_set ''B'')) True = Some (demo_backend 2)"
    by (simp add: VDB_reusable_def)
  from VDB_replaced_set_shared [OF this _ _ _ _ _ r, of "''A''"] show ?thesis using r(1) by simp
qed

theorem VDB_search_stores_set_witness:
  "\<exists>p' f'. VDB_search yaz_ref unnamed_target demo_maps (search_set ''B'') client_package demo_two_sets
      \<lparr>m_global_id = 3\<rparr> = Some (p', f', \<lparr>m_global_id = 3\<rparr>) \<and>
    (\<exists>b \<in> set (m_backend_list f'). match (m_frontend_databases b) [''a''] \<and>
       m_sets f' ''B'' = Some (VDB_set_on b ''B''))"
proof -
  obtain p' f' where r: "VDB_search yaz_ref unnamed_target demo_maps (search_set ''B'') client_package demo_two_sets
      \<lparr>m_global_id = 3\<rparr> = Some (p', f', \<lparr>m_global_id = 3\<rparr>)" "\<not> is_closed p'" "VDB_search_accepted (pkg_response p')"
    using demo_search_B_again by blast
  from VDB_search_stores_set [OF r] show ?thesis using r(1) by fastforce
qed

theorem VDB_fixup_present_witness:
  "\<exists>rs'. pkg_response (fixup_package yaz_ref demo_maps (demo_backend 2)
       (client_package\<lparr>pkg_response := Some (GDU_Z3950 (APDU_presentResponse ((zget_presentResponse yaz_ref)\<lparr>
          prs_records := Some (Records_DBOSD [\<lparr>npr_databaseName = Some ''secret'', npr_record = text_record ''x''\<rparr>])\<rparr>)))\<rparr>)) =
     Some (GDU_Z3950 (APDU_presentResponse ((zget_presentResponse yaz_ref)\<lparr>prs_records := Some (Records_DBOSD rs')\<rparr>)))
     \<and> map npr_record rs' = [text_record ''x'']"
proof -
  let ?r = "(zget_presentResponse yaz_ref)\<lparr>prs_records :=
     Some (Records_DBOSD [\<lparr>npr_databaseName = Some ''secret'', npr_record = text_record ''x''\<rparr>])\<rparr>"
  have "\<exists>rs'. pkg_response (fixup_package yaz_ref demo_maps (demo_backend 2)
       (client_package\<lparr>pkg_response := Some (GDU_Z3950 (APDU_presentResponse ?r))\<rparr>)) =
        Some (GDU_Z3950 (APDU_presentResponse (?r\<lparr>prs_records := Some (Records_DBOSD rs')\<rparr>))) \<and>
     map npr_record rs' = map npr_record [\<lparr>npr_databaseName = Some ''secret'', npr_record = text_record ''x''\<rparr>] \<and>
     (\<forall>x \<in> set rs'. \<forall>d. npr_databaseName x = Some d \<longrightarrow> d \<in> set (m_frontend_databases (demo_backend 2)))"
    by (rule VDB_fixup_present) simp_all
  then show ?thesis by auto
qed

section \<open>Requests that never reach a target\<close>

text \<open>
  A second init request, a search for a result set that exists without the replace
  indicator and a present on an unknown result set are answered by the filter itself, with
  the reference identifier of the request; no target sees them, and the frontend keeps its
  result sets and backends.\<close>
theorem VDB_refusals:
  assumes "m_is_virtual f" and "pkg_request p = Some (GDU_Z3950 a)"
    and "(\<exists>r. a = APDU_initRequest r) \<or>
         (\<exists>r. a = APDU_searchRequest r \<and> m_sets f (srq_resultSetName r) \<noteq> None \<and> \<not> srq_replaceIndicator r) \<or>
         (\<exists>r. a = APDU_presentRequest r \<and> m_sets f (prq_resultSetId r) = None)"
  shows "\<exists>p' b. VDB_handle Y version mv st p f w = Some (p', f, w) \<and>
     pkg_response p' = Some (GDU_Z3950 b) \<and> get_referenceId b = Some (source_referenceId (Some a)) \<and>
     (is_closed p' \<longleftrightarrow> is_closed p \<or> (\<exists>r. a = APDU_initRequest r)) \<and>
     (case b of
        APDU_close c \<Rightarrow> (\<exists>r. a = APDU_initRequest r) \<and> close_closeReason c = Z_Close_protocolError
      | APDU_searchResponse r \<Rightarrow> srs_records r =
          Some (Records_NSD (zget_DefaultDiagFormat Y BIB1_RESULT_SET_EXISTS_AND_REPLACE_INDICATOR_OFF None))
      | APDU_presentResponse r \<Rightarrow> \<exists>q. a = APDU_presentRequest q \<and> prs_records r =
          Some (Records_NSD (zget_DefaultDiagFormat Y BIB1_SPECIFIED_RESULT_SET_DOES_NOT_EXIST (Some (prq_resultSetId q))))
      | _ \<Rightarrow> False)"
  using assms
  by (auto simp: VDB_handle_def VDB_refuse_def VDB_search_def VDB_present_def close_session_def
      create_close_def create_searchResponse_def create_presentResponse_def Let_def)

theorem VDB_refusals_witness:
  "\<exists>p' b. VDB_handle yaz_ref ''1'' unnamed_target VDB_new (client_package\<lparr>pkg_request :=
        Some (GDU_Z3950 (APDU_presentRequest (zget_presentRequest yaz_ref)))\<rparr>) demo_two_sets \<lparr>m_global_id = 3\<rparr>
      = Some (p', demo_two_sets, \<lparr>m_global_id = 3\<rparr>) \<and> pkg_response p' = Some (GDU_Z3950 b)"
proof -
  let ?p = "client_package\<lparr>pkg_request := Some (GDU_Z3950 (APDU_presentRequest (zget_presentRequest yaz_ref)))\<rparr>"
  have "m_sets demo_two_sets (prq_resultSetId (zget_presentRequest yaz_ref)) = None" by (simp add: yaz_ref_def)
  then show ?thesis
    using VDB_refusals [of demo_two_sets ?p "APDU_presentRequest (zget_presentRequest yaz_ref)" yaz_ref "''1''"
        unnamed_target VDB_new "\<lparr>m_global_id = 3\<rparr>"] by fastforce
qed

end
