(* ===== verification/MP_Multi_Merge.thy ===== *)
theory MP_Multi_Merge
  imports MP_Prelude "HOL-Library.Multiset"
begin

text \<open>
  The merge orders of the multi filter (\<open>Multi::FrontendSet\<close> in
  \<open>src/filter_multi.cpp\<close>): which record of which backend answers which position of the
  merged result set. \<open>'b\<close> stands for \<open>BackendPtr\<close>.
\<close>

section \<open>Data\<close>

record 'b BackendSet =
  bs_backend :: 'b
  bs_count :: int

record 'b PresentJob =
  job_backend :: 'b
  job_pos :: int
  job_start :: int

definition PresentJob_new :: "'b \<Rightarrow> int \<Rightarrow> 'b PresentJob" where
  "PresentJob_new b pos = \<lparr>job_backend = b, job_pos = pos, job_start = 0\<rparr>"

section \<open>Serve order\<close>

text \<open>The inner loop: the backend whose range of virtual offsets holds \<open>offset\<close>.\<close>

fun serve_find :: "int \<Rightarrow> int \<Rightarrow> 'b BackendSet list \<Rightarrow> 'b PresentJob option" where
  "serve_find offset voffset [] = None"
| "serve_find offset voffset (b # bs) =
     (if offset \<ge> voffset \<and> offset < voffset + bs_count b
      then Some (PresentJob_new (bs_backend b) (offset - voffset + 1))
      else serve_find offset (voffset + bs_count b) bs)"

definition serve_order :: "'b BackendSet list \<Rightarrow> int \<Rightarrow> int \<Rightarrow> 'b PresentJob list" where
  "serve_order sets start number =
     List.map_filter (\<lambda>i. serve_find (start + i - 1) 0 sets) [0..number - 1]"

section \<open>Round robin\<close>

text \<open>The least count greater than \<open>omin\<close>, and how many sets have such a count.\<close>

definition rr_class :: "int \<Rightarrow> 'b BackendSet list \<Rightarrow> int \<times> int" where
  "rr_class omin sets =
     foldl (\<lambda>(mn, no_left) b.
              if bs_count b > omin
              then (if no_left = 0 \<or> bs_count b < mn then bs_count b else mn, no_left + 1)
              else (mn, no_left)) (0, 0) sets"

lemma rr_class_step:
  "rr_class omin (sets @ [b]) =
     (let (mn, no_left) = rr_class omin sets in
      if bs_count b > omin
      then (if no_left = 0 \<or> bs_count b < mn then bs_count b else mn, no_left + 1)
      else (mn, no_left))"
  by (simp add: rr_class_def split: prod.splits)

lemma rr_class_spec:
  assumes "rr_class omin sets = (mn, no_left)"
  shows "no_left = int (length (filter (\<lambda>b. bs_count b > omin) sets))"
    and "no_left \<noteq> 0 \<Longrightarrow> mn \<in> bs_count ` set sets \<and> mn > omin
           \<and> (\<forall>b \<in> set sets. bs_count b > omin \<longrightarrow> mn \<le> bs_count b)"
proof -
  have "no_left = int (length (filter (\<lambda>b. bs_count b > omin) sets)) \<and>
     (no_left \<noteq> 0 \<longrightarrow> mn \<in> bs_count ` set sets \<and> mn > omin
           \<and> (\<forall>b \<in> set sets. bs_count b > omin \<longrightarrow> mn \<le> bs_count b))"
    using assms
  proof (induction sets arbitrary: mn no_left rule: rev_induct)
    case Nil
    then show ?case by (simp add: rr_class_def)
  next
    case (snoc b sets)
    obtain mn0 nl0 where c: "rr_class omin sets = (mn0, nl0)" by fastforce
    note IH = snoc.IH [OF c]
    show ?case
    proof (cases "nl0 = 0")
      case True
      then have "filter (\<lambda>b. bs_count b > omin) sets = []" using IH by simp
      then have "\<forall>b \<in> set sets. \<not> bs_count b > omin" by (simp add: filter_empty_conv)
      with True IH snoc.prems c show ?thesis by (auto simp: rr_class_step split: if_splits)
    next
      case False
      with IH snoc.prems c show ?thesis by (auto simp: rr_class_step split: if_splits)
    qed
  qed
  then show "no_left = int (length (filter (\<lambda>b. bs_count b > omin) sets))"
    and "no_left \<noteq> 0 \<Longrightarrow> mn \<in> bs_count ` set sets \<and> mn > omin
           \<and> (\<forall>b \<in> set sets. bs_count b > omin \<longrightarrow> mn \<le> bs_count b)"
    by auto
qed

text \<open>
  The optimisation step: skip whole classes of rounds before the present range, then whole
  rounds of the class the range starts in. All positions advance together.
\<close>

function rr_skip :: "'b BackendSet list \<Rightarrow> int \<Rightarrow> int \<Rightarrow> int \<Rightarrow> int list \<Rightarrow> int \<times> int list" where
  "rr_skip sets start omin p pos =
     (let (mn, no_left) = rr_class omin sets in
      if no_left = 0 then (p, pos)
      else (let skip = no_left * mn in
            if p + skip > start
            then (let mn' = c_div (start - p) no_left in
                  (p + no_left * mn', map (\<lambda>q. q + mn') pos))
            else rr_skip sets start mn (p + skip) (map (\<lambda>q. q + mn) pos)))"
  by pat_completeness auto
termination
proof (relation "measure (\<lambda>(sets, start, omin, p, pos). length (filter (\<lambda>b. bs_count b > omin) sets))")
  fix sets :: "'b BackendSet list" and start omin p :: int and pos x mn no_left skip
  assume c: "x = rr_class omin sets" "(mn, no_left) = x" and nz: "no_left \<noteq> 0"
  have eq: "rr_class omin sets = (mn, no_left)" using c by simp
  note mn = rr_class_spec(2) [OF eq nz]
  then obtain b where b: "b \<in> set sets" "bs_count b = mn" by blast
  have f: "filter (\<lambda>b. bs_count b > mn) sets
      = filter (\<lambda>b. bs_count b > mn) (filter (\<lambda>b. bs_count b > omin) sets)"
    using mn by (auto intro!: filter_cong)
  have "b \<in> set (filter (\<lambda>b. bs_count b > omin) sets)" "\<not> bs_count b > mn"
    using b mn by auto
  then have "length (filter (\<lambda>b. bs_count b > mn) sets) < length (filter (\<lambda>b. bs_count b > omin) sets)"
    by (subst f) (rule length_filter_less)
  then show "((sets, start, mn, p + skip, map (\<lambda>q. q + mn) pos), sets, start, omin, p, pos)
      \<in> measure (\<lambda>(sets, start, omin, p, pos). length (filter (\<lambda>b. bs_count b > omin) sets))"
    by simp
qed simp

text \<open>
  One pass over the sets: state \<open>(pos, fetched, p, jobs, goon)\<close>. The check of
  \<open>fetched\<close> comes before every set, and breaking out resets \<open>more\<close> (here \<open>goon\<close>).
\<close>

fun rr_pass :: "int \<Rightarrow> int \<Rightarrow> 'b BackendSet list \<Rightarrow> int list \<Rightarrow> int \<Rightarrow> int \<Rightarrow> 'b PresentJob list \<Rightarrow> bool
    \<Rightarrow> int list \<times> int \<times> int \<times> 'b PresentJob list \<times> bool" where
  "rr_pass start number (b # bs) (q # qs) fetched p jobs goon =
     (if fetched \<ge> number then (q # qs, fetched, p, jobs, False)
      else if q \<le> bs_count b
      then (let (jobs', fetched') =
                  (if p \<ge> start then (jobs @ [PresentJob_new (bs_backend b) q], fetched + 1)
                   else (jobs, fetched));
                (qs', r) = rr_pass start number bs qs fetched' (p + 1) jobs' True
            in ((q + 1) # qs', r))
      else (let (qs', r) = rr_pass start number bs qs fetched p jobs goon in (q # qs', r)))"
| "rr_pass start number bs qs fetched p jobs goon = (qs, fetched, p, jobs, goon)"

text \<open>How many further records the positions allow, the termination measure of the outer loop.\<close>

definition rr_left :: "'b BackendSet list \<Rightarrow> int list \<Rightarrow> nat" where
  "rr_left sets pos = sum_list (map2 (\<lambda>b q. nat (bs_count b + 1 - q)) sets pos)"

lemma rr_pass_left:
  assumes "rr_pass start number sets pos fetched p jobs goon = (pos', fetched', p', jobs', goon')"
  shows "rr_left sets pos' \<le> rr_left sets pos \<and>
         (goon' \<longrightarrow> goon \<or> rr_left sets pos' < rr_left sets pos)"
  using assms
proof (induction start number sets pos fetched p jobs goon arbitrary: pos' fetched' p' jobs' goon'
    rule: rr_pass.induct)
  case (1 start number b bs q qs fetched p jobs goon)
  show ?case
  proof (cases "fetched \<ge> number")
    case True
    with "1.prems" show ?thesis by simp
  next
    case nf: False
    show ?thesis
    proof (cases "q \<le> bs_count b")
      case True
      define js where "js = (if p \<ge> start then (jobs @ [PresentJob_new (bs_backend b) q], fetched + 1)
                   else (jobs, fetched))"
      obtain qs' f' p'' j' m' where
        r: "rr_pass start number bs qs (snd js) (p + 1) (fst js) True = (qs', f', p'', j', m')"
        using prod_cases5 by blast
      have "rr_left bs qs' \<le> rr_left bs qs"
        using "1.IH"(1) [OF nf True, of js "fst js" "snd js"] r by (auto simp: js_def)
      moreover have "pos' = (q + 1) # qs'"
        using "1.prems" nf True r by (simp add: js_def split: prod.splits if_splits)
      ultimately show ?thesis using True by (auto simp: rr_left_def)
    next
      case False
      with "1.prems" nf "1.IH"(2) show ?thesis by (fastforce simp: rr_left_def split: prod.splits)
    qed
  qed
qed auto

function rr_loop :: "'b BackendSet list \<Rightarrow> int \<Rightarrow> int \<Rightarrow> int list \<Rightarrow> int \<Rightarrow> int \<Rightarrow> 'b PresentJob list
    \<Rightarrow> 'b PresentJob list" where
  "rr_loop sets start number pos fetched p jobs =
     (let (pos', fetched', p', jobs', goon) = rr_pass start number sets pos fetched p jobs False
      in if goon then rr_loop sets start number pos' fetched' p' jobs' else jobs')"
  by pat_completeness auto
termination
  by (relation "measure (\<lambda>(sets, start, number, pos, _). rr_left sets pos)")
     (auto dest!: sym [where t = "rr_pass _ _ _ _ _ _ _ _"] rr_pass_left)

definition round_robin :: "'b BackendSet list \<Rightarrow> int \<Rightarrow> int \<Rightarrow> 'b PresentJob list" where
  "round_robin sets start number =
     (let (p, pos) = rr_skip sets start 0 1 (map (\<lambda>_. 1) sets)
      in rr_loop sets start number pos 0 p [])"

declare rr_skip.simps [simp del] rr_loop.simps [simp del]

section \<open>Reference orders\<close>

text \<open>
  The merged sequences the two orders stand for: round \<open>k\<close> of the round robin takes the
  \<open>k\<close>-th record of every set that has one; serve order exhausts one set after the other.
\<close>

abbreviation job_item :: "'b PresentJob \<Rightarrow> 'b \<times> int" where
  "job_item j \<equiv> (job_backend j, job_pos j)"

definition rr_round :: "'b BackendSet list \<Rightarrow> int \<Rightarrow> ('b \<times> int) list" where
  "rr_round sets k = map (\<lambda>b. (bs_backend b, k)) (filter (\<lambda>b. k \<le> bs_count b) sets)"

definition max_count :: "'b BackendSet list \<Rightarrow> int" where
  "max_count sets = foldr (\<lambda>b m. max (bs_count b) m) sets 0"

definition rr_rounds :: "'b BackendSet list \<Rightarrow> int \<Rightarrow> int \<Rightarrow> ('b \<times> int) list" where
  "rr_rounds sets i j = concat (map (rr_round sets) [i..j])"

abbreviation rr_from :: "'b BackendSet list \<Rightarrow> int \<Rightarrow> ('b \<times> int) list" where
  "rr_from sets k \<equiv> rr_rounds sets k (max_count sets)"

definition rr_sequence :: "'b BackendSet list \<Rightarrow> ('b \<times> int) list" where
  "rr_sequence sets = rr_from sets 1"

definition serve_sequence :: "'b BackendSet list \<Rightarrow> ('b \<times> int) list" where
  "serve_sequence sets = concat (map (\<lambda>b. map (\<lambda>j. (bs_backend b, j)) [1..bs_count b]) sets)"

text \<open>The window of a merged sequence a present request asks for.\<close>

definition window :: "'a list \<Rightarrow> int \<Rightarrow> int \<Rightarrow> 'a list" where
  "window xs start number = take (nat number) (drop (nat (start - 1)) xs)"

text \<open>Handing out a sequence item by item, as the loops do: skip before \<open>start\<close>, stop at \<open>number\<close>.\<close>

fun deliver :: "int \<Rightarrow> int \<Rightarrow> 'a list \<Rightarrow> int \<times> int \<times> 'a list \<Rightarrow> int \<times> int \<times> 'a list" where
  "deliver start number [] st = st"
| "deliver start number (x # xs) (fetched, p, acc) =
     (if fetched \<ge> number then (fetched, p, acc)
      else if p \<ge> start then deliver start number xs (fetched + 1, p + 1, acc @ [x])
      else deliver start number xs (fetched, p + 1, acc))"

lemma deliver_done: "fetched \<ge> number \<Longrightarrow> deliver start number xs (fetched, p, acc) = (fetched, p, acc)"
  by (cases xs) auto

lemma deliver_append: "deliver start number (xs @ ys) st = deliver start number ys (deliver start number xs st)"
proof (induction start number xs st rule: deliver.induct)
  case (2 start number x xs fetched p acc)
  then show ?case by (simp add: deliver_done)
qed simp

lemma deliver_acc:
  "snd (snd (deliver start number xs (fetched, p, acc))) =
     acc @ take (nat (number - fetched)) (drop (nat (start - p)) xs)"
proof (induction xs arbitrary: fetched p acc)
  case (Cons x xs)
  have s: "nat (start - p) = Suc (nat (start - (p + 1)))" if "p < start" using that by arith
  have n: "nat (number - fetched) = Suc (nat (number - (fetched + 1)))" if "fetched < number"
    using that by arith
  show ?case using Cons.IH [of "fetched + 1" "p + 1" "acc @ [x]"] Cons.IH [of fetched "p + 1" acc] s n
    by auto
qed simp

lemma max_count_ge: "b \<in> set sets \<Longrightarrow> bs_count b \<le> max_count sets"
  by (induction sets) (auto simp: max_count_def)

lemma rr_round_beyond: "max_count sets < k \<Longrightarrow> rr_round sets k = []"
  using max_count_ge by (fastforce simp: rr_round_def filter_empty_conv)

lemma rr_round_Nil_later: "rr_round sets k = [] \<Longrightarrow> k \<le> j \<Longrightarrow> rr_round sets j = []"
  by (fastforce simp: rr_round_def filter_empty_conv)

lemma rr_from_Cons: "rr_from sets k = rr_round sets k @ rr_from sets (k + 1)"
proof (cases "k \<le> max_count sets")
  case True
  then have "[k..max_count sets] = k # [k + 1..max_count sets]" by (rule upto_rec1)
  then show ?thesis by (simp add: rr_rounds_def)
qed (simp add: rr_rounds_def rr_round_beyond)

lemma rr_from_Nil: "rr_round sets k = [] \<Longrightarrow> rr_from sets k = []"
  by (auto simp: rr_rounds_def dest: rr_round_Nil_later)

lemma rr_from_split:
  assumes "i \<le> k"
  shows "rr_from sets i = rr_rounds sets i (k - 1) @ rr_from sets k"
  using assms
proof (induction "nat (k - i)" arbitrary: i)
  case 0
  then show ?case by (simp add: rr_rounds_def)
next
  case (Suc n)
  then have "rr_from sets (i + 1) = rr_rounds sets (i + 1) (k - 1) @ rr_from sets k" by force
  moreover have "rr_rounds sets i (k - 1) = rr_round sets i @ rr_rounds sets (i + 1) (k - 1)"
    using Suc.hyps(2) by (simp add: rr_rounds_def upto_rec1)
  ultimately show ?case by (simp add: rr_from_Cons [of sets i])
qed

lemma length_rr_rounds:
  assumes "\<And>j. i \<le> j \<Longrightarrow> j \<le> k \<Longrightarrow> int (length (rr_round sets j)) = n" and "i \<le> k + 1"
  shows "int (length (rr_rounds sets i k)) = n * (k + 1 - i)"
  using assms
proof (induction "nat (k + 1 - i)" arbitrary: i)
  case 0
  then show ?case by (simp add: rr_rounds_def)
next
  case (Suc m)
  have "int (length (rr_rounds sets (i + 1) k)) = n * (k + 1 - (i + 1))"
    using Suc.hyps Suc.prems by (intro Suc.hyps(1)) auto
  moreover have "rr_rounds sets i k = rr_round sets i @ rr_rounds sets (i + 1) k"
    using Suc.hyps(2) by (simp add: rr_rounds_def upto_rec1)
  moreover have "int (length (rr_round sets i)) = n" using Suc.hyps(2) Suc.prems(1) by simp
  ultimately show ?case by (simp add: algebra_simps)
qed

lemma rr_rounds_append:
  assumes "i \<le> j + 1" and "j \<le> k"
  shows "rr_rounds sets i k = rr_rounds sets i j @ rr_rounds sets (j + 1) k"
proof -
  have "[i..k] = [i..j] @ [j + 1..k]"
  proof (cases "i \<le> j")
    case True
    then show ?thesis using assms(2) by (rule upto_split2)
  next
    case False
    then have "i = j + 1" using assms(1) by simp
    then show ?thesis by simp
  qed
  then show ?thesis by (simp add: rr_rounds_def)
qed

section \<open>The round robin loop\<close>

definition aligned :: "int \<Rightarrow> int list \<Rightarrow> 'b BackendSet list \<Rightarrow> bool" where
  "aligned k pos sets \<longleftrightarrow>
     list_all2 (\<lambda>q b. q = k \<or> bs_count b < q \<and> bs_count b < k) pos sets"

lemma rr_pass_deliver:
  assumes "aligned k pos sets"
    and "rr_pass start number sets pos fetched p jobs goon = (pos', fetched', p', jobs', goon')"
  shows "deliver start number (rr_round sets k) (fetched, p, map job_item jobs)
           = (fetched', p', map job_item jobs')"
    and "goon' \<Longrightarrow> aligned (k + 1) pos' sets"
    and "\<not> goon' \<Longrightarrow> fetched' \<ge> number \<or> rr_round sets k = []"
proof -
  have "deliver start number (rr_round sets k) (fetched, p, map job_item jobs)
           = (fetched', p', map job_item jobs') \<and>
     (goon' \<longrightarrow> aligned (k + 1) pos' sets) \<and>
     (\<not> goon' \<longrightarrow> fetched' \<ge> number \<or> rr_round sets k = [] \<and> \<not> goon)"
    using assms
  proof (induction start number sets pos fetched p jobs goon
      arbitrary: pos' fetched' p' jobs' goon' rule: rr_pass.induct)
    case (1 start number b bs q qs fetched p jobs goon)
    have al: "aligned k qs bs" and q: "q = k \<or> bs_count b < q \<and> bs_count b < k"
      using "1.prems"(1) by (simp_all add: aligned_def)
    show ?case
    proof (cases "fetched \<ge> number")
      case True
      with "1.prems"(2) show ?thesis by (auto simp: deliver_done)
    next
      case nf: False
      show ?thesis
      proof (cases "q \<le> bs_count b")
        case True
        then have qk: "q = k" using q by auto
        define js where "js = (if p \<ge> start then (jobs @ [PresentJob_new (bs_backend b) q], fetched + 1)
                     else (jobs, fetched))"
        obtain qs' f' p'' j' g' where
          r: "rr_pass start number bs qs (snd js) (p + 1) (fst js) True = (qs', f', p'', j', g')"
          using prod_cases5 by blast
        have eq: "pos' = (q + 1) # qs'" "fetched' = f'" "p' = p''" "jobs' = j'" "goon' = g'"
          using "1.prems"(2) nf True r by (simp_all add: js_def split: prod.splits if_splits)
        note IH = "1.IH"(1) [OF nf True, of js "fst js" "snd js", OF _ _ al r]
        have "rr_round (b # bs) k = (bs_backend b, k) # rr_round bs k"
          using True qk by (simp add: rr_round_def)
        moreover have "aligned (k + 1) ((q + 1) # qs') (b # bs) = aligned (k + 1) qs' bs"
          using qk by (simp add: aligned_def)
        ultimately show ?thesis
          using IH eq nf qk by (auto simp: js_def PresentJob_new_def)
      next
        case False
        obtain qs' f' p'' j' g' where
          r: "rr_pass start number bs qs fetched p jobs goon = (qs', f', p'', j', g')"
          using prod_cases5 by blast
        have eq: "pos' = q # qs'" "fetched' = f'" "p' = p''" "jobs' = j'" "goon' = g'"
          using "1.prems"(2) nf False r by simp_all
        note IH = "1.IH"(2) [OF nf False al r]
        have "rr_round (b # bs) k = rr_round bs k" using False q by (auto simp: rr_round_def)
        moreover have "aligned (k + 1) (q # qs') (b # bs) = aligned (k + 1) qs' bs"
          using False q by (auto simp: aligned_def)
        ultimately show ?thesis using IH eq by auto
      qed
    qed
  qed (auto simp: aligned_def rr_round_def)
  then show "deliver start number (rr_round sets k) (fetched, p, map job_item jobs)
           = (fetched', p', map job_item jobs')"
    and "goon' \<Longrightarrow> aligned (k + 1) pos' sets"
    and "\<not> goon' \<Longrightarrow> fetched' \<ge> number \<or> rr_round sets k = []"
    by auto
qed

lemma rr_loop_deliver:
  assumes "aligned k pos sets"
  shows "map job_item (rr_loop sets start number pos fetched p jobs) =
    snd (snd (deliver start number (rr_from sets k) (fetched, p, map job_item jobs)))"
  using assms
proof (induction sets start number pos fetched p jobs arbitrary: k rule: rr_loop.induct)
  case (1 sets start number pos fetched p jobs)
  obtain pos' f' p' j' g' where
    r: "rr_pass start number sets pos fetched p jobs False = (pos', f', p', j', g')"
    using prod_cases5 by blast
  note spec = rr_pass_deliver [OF "1.prems" r]
  show ?case
  proof (cases g')
    case True
    have "map job_item (rr_loop sets start number pos' f' p' j') =
      snd (snd (deliver start number (rr_from sets (k + 1)) (f', p', map job_item j')))"
      by (rule "1.IH" [OF r [symmetric] refl refl refl refl True spec(2) [OF True]])
    then show ?thesis
      using r True spec(1) rr_loop.simps [of sets start number pos fetched p jobs]
      by (simp add: rr_from_Cons [of sets k] deliver_append)
  next
    case False
    have "snd (snd (deliver start number (rr_from sets k) (fetched, p, map job_item jobs)))
        = map job_item j'"
      using spec(3) [OF False]
    proof
      assume "f' \<ge> number"
      then show ?thesis by (simp add: rr_from_Cons [of sets k] deliver_append spec(1) deliver_done)
    next
      assume "rr_round sets k = []"
      then show ?thesis using spec(1) by (simp add: rr_from_Nil)
    qed
    then show ?thesis
      using r False rr_loop.simps [of sets start number pos fetched p jobs] by simp
  qed
qed

section \<open>The optimisation step\<close>

text \<open>
  A starting point \<open>(p, k)\<close> of the loop is right when position \<open>p\<close> is the first of
  round \<open>k\<close>, or when nothing is left at round \<open>k\<close> and the request is beyond the end.
\<close>

definition good_start :: "'b BackendSet list \<Rightarrow> int \<Rightarrow> int \<Rightarrow> int \<Rightarrow> bool" where
  "good_start sets start p k \<longleftrightarrow> 1 \<le> k \<and> p \<le> start \<and>
     (int (length (rr_rounds sets 1 (k - 1))) = p - 1 \<or>
      rr_from sets k = [] \<and> int (length (rr_sequence sets)) \<le> start - 1)"

lemma good_start_loop:
  assumes "good_start sets start p k" and "1 \<le> start"
  shows "map job_item (rr_loop sets start number (map (\<lambda>_. k) sets) 0 p []) =
           window (rr_sequence sets) start number"
proof -
  have "aligned k (map (\<lambda>_. k) sets) sets" by (induction sets) (auto simp: aligned_def)
  then have "map job_item (rr_loop sets start number (map (\<lambda>_. k) sets) 0 p []) =
      take (nat number) (drop (nat (start - p)) (rr_from sets k))"
    by (simp add: rr_loop_deliver deliver_acc)
  also have "\<dots> = take (nat number) (drop (nat (start - 1)) (rr_sequence sets))"
  proof (cases "int (length (rr_rounds sets 1 (k - 1))) = p - 1")
    case True
    have "rr_sequence sets = rr_rounds sets 1 (k - 1) @ rr_from sets k"
      using assms(1) by (simp add: rr_sequence_def good_start_def rr_from_split)
    moreover have "nat (start - 1) = length (rr_rounds sets 1 (k - 1)) + nat (start - p)"
      using True assms by (auto simp: good_start_def)
    ultimately show ?thesis by simp
  next
    case False
    then have "rr_from sets k = []" "length (rr_sequence sets) \<le> nat (start - 1)"
      using assms by (auto simp: good_start_def)
    then show ?thesis by simp
  qed
  finally show ?thesis by (simp add: window_def)
qed

text \<open>Between two neighbouring counts every round has the same number of records.\<close>

lemma length_rr_round_class:
  assumes "rr_class omin sets = (mn, no_left)" and "omin < j" and "j \<le> mn" and "no_left \<noteq> 0"
  shows "int (length (rr_round sets j)) = no_left"
proof -
  have "filter (\<lambda>b. j \<le> bs_count b) sets = filter (\<lambda>b. bs_count b > omin) sets"
    using rr_class_spec(2) [OF assms(1,4)] assms(2,3) by (fastforce intro!: filter_cong)
  then show ?thesis using rr_class_spec(1) [OF assms(1)] by (simp add: rr_round_def)
qed

lemma rr_class_0_beyond:
  assumes "rr_class omin sets = (mn, 0)" and "omin < k"
  shows "rr_round sets k = []"
  using rr_class_spec(1) [OF assms(1)] assms(2)
  by (fastforce simp: rr_round_def filter_empty_conv)

text \<open>At most two different positive counts: a condition on the result set counts.\<close>

definition two_counts :: "'b BackendSet list \<Rightarrow> bool" where
  "two_counts sets \<longleftrightarrow> card {c \<in> bs_count ` set sets. 0 < c} \<le> 2"

lemma two_counts_third_class:
  assumes "two_counts sets" and "rr_class 0 sets = (m1, n1)" "n1 \<noteq> 0"
    and "rr_class m1 sets = (m2, n2)" "n2 \<noteq> 0" and "rr_class m2 sets = (m3, n3)"
  shows "n3 = 0"
proof (rule ccontr)
  assume n3: "n3 \<noteq> 0"
  note c = rr_class_spec(2) [OF assms(2,3)] rr_class_spec(2) [OF assms(4,5)]
    rr_class_spec(2) [OF assms(6) n3]
  have "{m1, m2, m3} \<subseteq> {c \<in> bs_count ` set sets. 0 < c}" using c by auto
  then have "card {m1, m2, m3} \<le> 2"
    using assms(1) card_mono [of "{c \<in> bs_count ` set sets. 0 < c}" "{m1, m2, m3}"]
    by (simp add: two_counts_def)
  moreover have "card {m1, m2, m3} = 3" using c by simp
  ultimately show False by simp
qed

lemma good_start_class1:
  assumes c1: "rr_class 0 sets = (m1, n1)" "n1 \<noteq> 0" and "1 \<le> start" and "0 \<le> m" and "m \<le> m1"
    and "n1 * m \<le> start - 1"
  shows "good_start sets start (1 + n1 * m) (1 + m)"
proof -
  have "int (length (rr_rounds sets 1 m)) = n1 * (m + 1 - 1)"
    using assms(4,5) length_rr_round_class [OF c1(1) _ _ c1(2)] by (intro length_rr_rounds) auto
  then show ?thesis using assms by (simp add: good_start_def)
qed

lemma length_two_classes:
  assumes c1: "rr_class 0 sets = (m1, n1)" "n1 \<noteq> 0" and c2: "rr_class m1 sets = (m2, n2)" "n2 \<noteq> 0"
    and "0 \<le> m" and "m1 + m \<le> m2"
  shows "int (length (rr_rounds sets 1 (m1 + m))) = n1 * m1 + n2 * m"
proof -
  have m1: "0 < m1" using rr_class_spec(2) [OF c1] by simp
  have "int (length (rr_rounds sets 1 m1)) = n1 * (m1 + 1 - 1)"
    using m1 length_rr_round_class [OF c1(1) _ _ c1(2)] by (intro length_rr_rounds) auto
  moreover have "int (length (rr_rounds sets (m1 + 1) (m1 + m))) = n2 * (m1 + m + 1 - (m1 + 1))"
    using assms(5,6) length_rr_round_class [OF c2(1) _ _ c2(2)] by (intro length_rr_rounds) auto
  moreover have "rr_rounds sets 1 (m1 + m) = rr_rounds sets 1 m1 @ rr_rounds sets (m1 + 1) (m1 + m)"
    using m1 assms(5) by (intro rr_rounds_append) auto
  ultimately show ?thesis by simp
qed

lemma good_start_class2:
  assumes c1: "rr_class 0 sets = (m1, n1)" "n1 \<noteq> 0" and c2: "rr_class m1 sets = (m2, n2)" "n2 \<noteq> 0"
    and c3: "rr_class m2 sets = (m3, 0)"
    and m: "0 \<le> m" "n1 * m1 + n2 * m \<le> start - 1"
  shows "good_start sets start (1 + n1 * m1 + n2 * m) (1 + m1 + m)"
proof (cases "m1 + m \<le> m2")
  case True
  then show ?thesis
    using length_two_classes [OF c1 c2 m(1)] m rr_class_spec(2) [OF c1]
    by (simp add: good_start_def algebra_simps)
next
  case False
  have m12: "0 < m1" "m1 < m2" using rr_class_spec(2) [OF c1] rr_class_spec(2) [OF c2] by auto
  have n2: "0 < n2" using rr_class_spec(1) [OF c2(1)] c2(2) by simp
  have e: "rr_from sets (m2 + 1) = []" "rr_from sets (1 + m1 + m) = []"
    using False rr_class_0_beyond [OF c3] by (simp_all add: rr_from_Nil)
  then have "int (length (rr_sequence sets)) = n1 * m1 + n2 * (m2 - m1)"
    using length_two_classes [OF c1 c2, of "m2 - m1"] m12
      rr_from_split [of 1 "m2 + 1" sets] by (simp add: rr_sequence_def)
  also have "\<dots> \<le> n1 * m1 + n2 * m" using False n2 by simp
  finally show ?thesis using e m m12 by (simp add: good_start_def)
qed

lemma rr_skip_good:
  assumes "two_counts sets" and "1 \<le> start"
  shows "\<exists>p k. rr_skip sets start 0 1 (map (\<lambda>_. 1) sets) = (p, map (\<lambda>_. k) sets)
             \<and> good_start sets start p k"
proof -
  obtain m1 n1 where c1: "rr_class 0 sets = (m1, n1)" by fastforce
  obtain m2 n2 where c2: "rr_class m1 sets = (m2, n2)" by fastforce
  obtain m3 n3 where c3: "rr_class m2 sets = (m3, n3)" by fastforce
  have nn: "0 \<le> n1" "0 \<le> n2" using rr_class_spec(1) [OF c1] rr_class_spec(1) [OF c2] by auto
  note skip = rr_skip.simps [of sets start]
  consider (none) "n1 = 0" | (part1) "n1 \<noteq> 0" "1 + n1 * m1 > start"
    | (one) "n1 \<noteq> 0" "1 + n1 * m1 \<le> start" "n2 = 0"
    | (part2) "n1 \<noteq> 0" "1 + n1 * m1 \<le> start" "n2 \<noteq> 0" "1 + n1 * m1 + n2 * m2 > start"
    | (two) "n1 \<noteq> 0" "1 + n1 * m1 \<le> start" "n2 \<noteq> 0" "1 + n1 * m1 + n2 * m2 \<le> start"
    by linarith
  then show ?thesis
  proof cases
    case none
    then show ?thesis using assms(2) c1
      by (intro exI [of _ 1]) (simp add: skip [of 0] good_start_def rr_rounds_def)
  next
    case part1
    let ?m = "(start - 1) div n1"
    have n1: "0 < n1" using part1 nn by simp
    have le: "n1 * ?m \<le> start - 1"
      by (rule mult_div_le_int [OF n1])
    then have "n1 * ?m < n1 * m1" using part1(2) by linarith
    then have "?m < m1" using n1 by (simp only: mult_less_cancel_left_pos)
    moreover have "0 \<le> ?m" using assms(2) n1 by (simp add: pos_imp_zdiv_nonneg_iff)
    ultimately have "good_start sets start (1 + n1 * ?m) (1 + ?m)"
      using good_start_class1 [OF c1 part1(1) assms(2)] le by simp
    moreover have "rr_skip sets start 0 1 (map (\<lambda>_. 1) sets) = (1 + n1 * ?m, map (\<lambda>_. 1 + ?m) sets)"
      using c1 part1 n1 assms(2) by (simp add: skip [of 0] comp_def Let_def add.assoc)
    ultimately show ?thesis by blast
  next
    case one
    have "good_start sets start (1 + n1 * m1) (1 + m1)"
      using good_start_class1 [OF c1 one(1) assms(2), of m1] one rr_class_spec(2) [OF c1 one(1)] by simp
    moreover have "rr_skip sets start 0 1 (map (\<lambda>_. 1) sets) = (1 + n1 * m1, map (\<lambda>_. 1 + m1) sets)"
      using c1 c2 one by (simp add: skip [of 0] skip [of m1] comp_def Let_def add.assoc)
    ultimately show ?thesis by blast
  next
    case part2
    let ?m = "(start - (1 + n1 * m1)) div n2"
    have n2: "0 < n2" using part2 nn by simp
    have "0 \<le> ?m" using part2(2) n2 by (simp add: pos_imp_zdiv_nonneg_iff)
    moreover have "n2 * ?m \<le> start - (1 + n1 * m1)"
      by (rule mult_div_le_int [OF n2])
    ultimately have "good_start sets start (1 + n1 * m1 + n2 * ?m) (1 + m1 + ?m)"
      using good_start_class2 [OF c1 part2(1) c2 part2(3)] c3
        two_counts_third_class [OF assms(1) c1 part2(1) c2 part2(3) c3] by simp
    moreover have "rr_skip sets start 0 1 (map (\<lambda>_. 1) sets) = (1 + n1 * m1 + n2 * ?m, map (\<lambda>_. 1 + m1 + ?m) sets)"
      using c1 c2 part2 n2 by (simp add: skip [of 0] skip [of m1] comp_def Let_def add.assoc)
    ultimately show ?thesis by blast
  next
    case two
    have n3: "n3 = 0" by (rule two_counts_third_class [OF assms(1) c1 two(1) c2 two(3) c3])
    have "good_start sets start (1 + n1 * m1 + n2 * m2) (1 + m1 + m2)"
      using good_start_class2 [OF c1 two(1) c2 two(3), of m3 m2 start] c3 n3 two
        rr_class_spec(2) [OF c1 two(1)] rr_class_spec(2) [OF c2 two(3)] by simp
    moreover have "rr_skip sets start 0 1 (map (\<lambda>_. 1) sets) = (1 + n1 * m1 + n2 * m2, map (\<lambda>_. 1 + m1 + m2) sets)"
      using c1 c2 c3 n3 two by (simp add: skip [of 0] skip [of m1] skip [of m2] comp_def Let_def add.assoc)
    ultimately show ?thesis by blast
  qed
qed

lemma round_robin_window:
  assumes "two_counts sets" and "1 \<le> start"
  shows "map job_item (round_robin sets start number) = window (rr_sequence sets) start number"
proof -
  obtain p k where "rr_skip sets start 0 1 (map (\<lambda>_. 1) sets) = (p, map (\<lambda>_. k) sets)"
    and "good_start sets start p k"
    using rr_skip_good [OF assms] by blast
  then show ?thesis using good_start_loop assms(2) by (simp add: round_robin_def)
qed

text \<open>Without the optimisation step the loop is right for any counts.\<close>

lemma rr_loop_window:
  assumes "1 \<le> start"
  shows "map job_item (rr_loop sets start number (map (\<lambda>_. 1) sets) 0 1 []) =
           window (rr_sequence sets) start number"
  by (rule good_start_loop) (use assms in \<open>simp_all add: good_start_def rr_rounds_def\<close>)

section \<open>Serve order is concatenation\<close>

abbreviation counts_ok :: "'b BackendSet list \<Rightarrow> bool" where
  "counts_ok sets \<equiv> \<forall>b \<in> set sets. 0 \<le> bs_count b"

lemma serve_sequence_Cons:
  "serve_sequence (b # sets) = map (\<lambda>j. (bs_backend b, j)) [1..bs_count b] @ serve_sequence sets"
  by (simp add: serve_sequence_def)

lemma serve_find_nth:
  assumes "counts_ok sets"
  shows "map_option job_item (serve_find offset voffset sets) =
    (if voffset \<le> offset \<and> nat (offset - voffset) < length (serve_sequence sets)
     then Some (serve_sequence sets ! nat (offset - voffset)) else None)"
  using assms
proof (induction sets arbitrary: voffset)
  case Nil
  then show ?case by (simp add: serve_sequence_def)
next
  case (Cons b sets)
  let ?c = "bs_count b"
  have c: "0 \<le> ?c" using Cons.prems by simp
  show ?case
  proof (cases "voffset \<le> offset \<and> offset < voffset + ?c")
    case True
    then have "nat (offset - voffset) < nat ?c" by simp
    with True show ?thesis
      by (simp add: serve_sequence_Cons nth_append PresentJob_new_def trans_less_add1)
  next
    case False
    have l: "nat (offset - voffset) = nat ?c + nat (offset - (voffset + ?c))"
      if "voffset + ?c \<le> offset" using that c by arith
    show ?thesis
    proof (cases "voffset + ?c \<le> offset")
      case True
      with False l [OF True] c Cons show ?thesis
        by (simp add: serve_sequence_Cons nth_append)
    next
      case no: False
      with False Cons c show ?thesis by auto
    qed
  qed
qed

lemma map_filter_nth_window:
  "List.map_filter (\<lambda>i. if s + i < length xs then Some (xs ! (s + i)) else None) [0..<n]
     = take n (drop s xs)"
proof (induction n)
  case 0
  then show ?case by simp
next
  case (Suc n)
  have "List.map_filter f (ys @ [y]) = List.map_filter f ys @ (case f y of None \<Rightarrow> [] | Some z \<Rightarrow> [z])"
    for f :: "nat \<Rightarrow> 'a option" and ys y
    by (induction ys) (simp_all split: option.splits)
  with Suc show ?case
    by (cases "s + n < length xs") (simp_all add: take_Suc_conv_app_nth)
qed

lemma upto_int_upt: "[0..n - 1] = map int [0..<nat n]"
proof (cases "0 \<le> n")
  case True
  then obtain m where m: "n = int m" by (metis nonneg_int_cases)
  show ?thesis unfolding m
  proof (induction m)
    case (Suc m)
    have "[0..int (Suc m) - 1] = [0..int m - 1] @ [int m]"
      using upto_rec2 [of 0 "int m"] by simp
    with Suc show ?case by (simp del: of_nat_Suc)
  qed simp
qed simp

lemma map_filter_map_option:
  "map f (List.map_filter g xs) = List.map_filter (\<lambda>x. map_option f (g x)) xs"
  by (induction xs) (simp_all split: option.splits)

lemma serve_order_window:
  assumes "counts_ok sets" and "1 \<le> start"
  shows "map job_item (serve_order sets start number) = window (serve_sequence sets) start number"
proof -
  let ?xs = "serve_sequence sets"
  have f: "map_option job_item (serve_find (start + int i - 1) 0 sets) =
      (if nat (start - 1) + i < length ?xs then Some (?xs ! (nat (start - 1) + i)) else None)" for i
  proof -
    have "nat (start + int i - 1 - 0) = nat (start - 1) + i" using assms(2) by arith
    then show ?thesis using serve_find_nth [OF assms(1), of "start + int i - 1" 0] assms(2) by simp
  qed
  have "map job_item (serve_order sets start number) =
      List.map_filter (\<lambda>i. map_option job_item (serve_find (start + int i - 1) 0 sets)) [0..<nat number]"
    unfolding serve_order_def upto_int_upt map_filter_map_option
    by (simp add: List.map_filter_def comp_def filter_map)
  then show ?thesis by (simp add: f map_filter_nth_window window_def)
qed

section \<open>Both sequences hold every record once\<close>

lemma filter_le_upto: "c \<le> M \<Longrightarrow> filter (\<lambda>k. k \<le> c) [i..M] = [i..c]"
proof (induction "nat (M - c)" arbitrary: M)
  case 0
  then show ?case by simp
next
  case (Suc n)
  then have IH: "filter (\<lambda>k. k \<le> c) [i..M - 1] = [i..c]" by simp
  show ?case
  proof (cases "i \<le> M")
    case True
    then have "[i..M] = [i..M - 1] @ [M]" by (rule upto_rec2)
    with IH Suc.hyps(2) show ?thesis by simp
  next
    case False
    with Suc.hyps(2) show ?thesis by simp
  qed
qed

lemma mset_concat_if:
  "mset (concat (map (\<lambda>k. (if P k then [f k] else []) @ g k) ks)) =
     mset (map f (filter P ks)) + mset (concat (map g ks))"
  by (induction ks) auto

lemma mset_rr_rounds:
  assumes "\<forall>b \<in> set sets. bs_count b \<le> M"
  shows "mset (rr_rounds sets 1 M) = mset (serve_sequence sets)"
  using assms
proof (induction sets)
  case Nil
  show ?case by (simp add: rr_rounds_def serve_sequence_def rr_round_def)
next
  case (Cons b sets)
  have "rr_round (b # sets) = (\<lambda>k. (if k \<le> bs_count b then [(bs_backend b, k)] else []) @ rr_round sets k)"
    by (auto simp: rr_round_def)
  then have "mset (rr_rounds (b # sets) 1 M) =
      mset (map (\<lambda>k. (bs_backend b, k)) (filter (\<lambda>k. k \<le> bs_count b) [1..M])) + mset (rr_rounds sets 1 M)"
    by (simp only: rr_rounds_def mset_concat_if)
  with Cons show ?case by (simp add: serve_sequence_Cons filter_le_upto)
qed

lemma mset_rr_sequence: "mset (rr_sequence sets) = mset (serve_sequence sets)"
  unfolding rr_sequence_def by (rule mset_rr_rounds) (simp add: max_count_ge)

section \<open>The contract of a merge order\<close>

text \<open>
  What the present code relies on: an order answers a request with the window of a fixed
  sequence that holds every record of every backend once.
\<close>

locale merge_order =
  fixes merge :: "'b BackendSet list \<Rightarrow> int \<Rightarrow> int \<Rightarrow> 'b PresentJob list"
    and merged :: "'b BackendSet list \<Rightarrow> ('b \<times> int) list"
    and ok :: "'b BackendSet list \<Rightarrow> bool"
  assumes merge_window: "ok sets \<Longrightarrow> 1 \<le> start \<Longrightarrow>
      map job_item (merge sets start number) = window (merged sets) start number"
    and merged_items: "ok sets \<Longrightarrow> mset (merged sets) = mset (serve_sequence sets)"
begin

lemma pages:
  assumes "ok sets" and "1 \<le> start" and "0 \<le> n1" and "0 \<le> n2"
  shows "map job_item (merge sets start n1) @ map job_item (merge sets (start + n1) n2)
       = map job_item (merge sets start (n1 + n2))"
proof -
  have "nat (start + n1 - 1) = nat n1 + nat (start - 1)" using assms by arith
  moreover have "nat (n1 + n2) = nat n1 + nat n2" using assms by arith
  ultimately show ?thesis using assms
    by (simp add: merge_window window_def take_add add.commute)
qed

lemma all_records_once:
  assumes "ok sets" and "number \<ge> int (length (serve_sequence sets))"
  shows "mset (map job_item (merge sets 1 number)) = mset (serve_sequence sets)"
proof -
  have "length (merged sets) = length (serve_sequence sets)"
    using merged_items [OF assms(1)] by (metis size_mset)
  then have "map job_item (merge sets 1 number) = merged sets"
    using assms by (simp add: merge_window window_def)
  then show ?thesis using merged_items [OF assms(1)] by simp
qed

lemma number_of_jobs:
  assumes "ok sets" and "1 \<le> start" and "0 \<le> number"
  shows "int (length (merge sets start number)) =
    min number (max 0 (int (length (serve_sequence sets)) - (start - 1)))"
proof -
  have "length (merged sets) = length (serve_sequence sets)"
    using merged_items [OF assms(1)] by (metis size_mset)
  moreover have "length (merge sets start number) = length (window (merged sets) start number)"
    using merge_window [OF assms(1,2), of number] by (metis length_map)
  ultimately show ?thesis using assms by (auto simp: window_def min_def max_def)
qed

lemma job_in_range:
  assumes "ok sets" and "1 \<le> start" and "j \<in> set (merge sets start number)"
  shows "\<exists>b \<in> set sets. job_backend j = bs_backend b \<and> 1 \<le> job_pos j \<and> job_pos j \<le> bs_count b"
proof -
  have "job_item j \<in> set (map job_item (merge sets start number))"
    using assms(3) by simp
  then have "job_item j \<in> set (window (merged sets) start number)"
    by (simp only: merge_window [OF assms(1,2)])
  then have "job_item j \<in> set (merged sets)"
    unfolding window_def by (meson in_set_dropD in_set_takeD)
  then have "job_item j \<in> set (serve_sequence sets)"
    using merged_items [OF assms(1)] by (rule mset_eq_setD [THEN equalityD1, THEN subsetD, rotated])
  then show ?thesis by (auto simp: serve_sequence_def)
qed

end

interpretation so: merge_order serve_order serve_sequence "\<lambda>sets. counts_ok sets"
  by unfold_locales (simp_all add: serve_order_window)

interpretation rr: merge_order round_robin rr_sequence "\<lambda>sets. two_counts sets"
  by unfold_locales (simp_all add: round_robin_window mset_rr_sequence)

interpretation rrl: merge_order "\<lambda>sets start number. rr_loop sets start number (map (\<lambda>_. 1) sets) 0 1 []"
    rr_sequence "\<lambda>_. True"
  by unfold_locales (simp_all add: rr_loop_window mset_rr_sequence)

section \<open>Properties\<close>



text \<open>
  With three different result counts the optimisation step of round robin skips too many
  positions: for backends with 1, 2 and 10 hits, the requests for position 7 and for position
  8 return the same record (the fourth of the last backend), although position 8 of the
  merged sequence, which the plain loop delivers, is its fifth.
\<close>
theorem round_robin_skip_repeats_record:
  "let sets = [\<lparr>bs_backend = 0 :: nat, bs_count = 1\<rparr>, \<lparr>bs_backend = 1, bs_count = 2\<rparr>,
               \<lparr>bs_backend = 2, bs_count = 10\<rparr>]
   in map job_item (round_robin sets 7 1) = [(2, 4)] \<and>
      map job_item (round_robin sets 8 1) = [(2, 4)] \<and>
      window (rr_sequence sets) 8 1 = [(2, 5)] \<and>
      map job_item (rr_loop sets 8 1 (map (\<lambda>_. 1) sets) 0 1 []) = [(2, 5)]"
  by code_simp

text \<open>
  Serve order answers a present request with the requested window of the concatenation of
  the backends' result sets.
\<close>
theorem serve_order_concatenates:
  assumes "\<forall>b \<in> set sets. 0 \<le> bs_count b" and "1 \<le> start"
  shows "map job_item (serve_order sets start number) = window (serve_sequence sets) start number"
  using assms by (rule serve_order_window)

theorem serve_order_concatenates_witness:
  "map job_item (serve_order [\<lparr>bs_backend = 0 :: nat, bs_count = 1\<rparr>, \<lparr>bs_backend = 1, bs_count = 0\<rparr>,
       \<lparr>bs_backend = 2, bs_count = 3\<rparr>] 2 9)
     = window (serve_sequence [\<lparr>bs_backend = 0, bs_count = 1\<rparr>, \<lparr>bs_backend = 1, bs_count = 0\<rparr>,
       \<lparr>bs_backend = 2, bs_count = 3\<rparr>]) 2 9"
  by (rule serve_order_concatenates) simp_all

text \<open>
  Presenting page after page gives the same records as one present request over the whole
  range, in serve order.
\<close>
theorem serve_order_pages:
  assumes "\<forall>b \<in> set sets. 0 \<le> bs_count b" and "1 \<le> start" and "0 \<le> n1" and "0 \<le> n2"
  shows "map job_item (serve_order sets start n1) @ map job_item (serve_order sets (start + n1) n2)
       = map job_item (serve_order sets start (n1 + n2))"
  using assms by (rule so.pages)

theorem serve_order_pages_witness:
  "map job_item (serve_order [\<lparr>bs_backend = 0 :: nat, bs_count = 2\<rparr>, \<lparr>bs_backend = 1, bs_count = 3\<rparr>] 1 3)
   @ map job_item (serve_order [\<lparr>bs_backend = 0, bs_count = 2\<rparr>, \<lparr>bs_backend = 1, bs_count = 3\<rparr>] (1 + 3) 2)
   = map job_item (serve_order [\<lparr>bs_backend = 0, bs_count = 2\<rparr>, \<lparr>bs_backend = 1, bs_count = 3\<rparr>] 1 (3 + 2))"
  by (rule serve_order_pages) simp_all

text \<open>
  A round robin present of at least as many records as there are delivers every record of
  every backend exactly once (counts with at most two different positive values).
\<close>
theorem round_robin_complete:
  assumes "two_counts sets" and "number \<ge> int (length (serve_sequence sets))"
  shows "mset (map job_item (round_robin sets 1 number)) = mset (serve_sequence sets)"
  using assms by (rule rr.all_records_once)

theorem round_robin_complete_witness:
  "mset (map job_item (round_robin [\<lparr>bs_backend = 0 :: nat, bs_count = 2\<rparr>, \<lparr>bs_backend = 1, bs_count = 2\<rparr>] 1 9))
     = mset (serve_sequence [\<lparr>bs_backend = 0, bs_count = 2\<rparr>, \<lparr>bs_backend = 1, bs_count = 2\<rparr>])"
proof (rule round_robin_complete)
  have "{c \<in> bs_count ` set [\<lparr>bs_backend = 0 :: nat, bs_count = 2\<rparr>, \<lparr>bs_backend = 1, bs_count = 2\<rparr>]. 0 < c} = {2}"
    by auto
  then show "two_counts [\<lparr>bs_backend = 0 :: nat, bs_count = 2\<rparr>, \<lparr>bs_backend = 1, bs_count = 2\<rparr>]"
    by (simp add: two_counts_def)
qed code_simp

end
