(* ===== verification/MP_Multi_Scan.thy ===== *)
theory MP_Multi_Scan
  imports MP_Util MP_Yaz_Ref
begin

text \<open>
  The merging of scan responses in the multi filter (\<open>Multi::Frontend::scan\<close> and
  \<open>Multi::ScanTermInfo\<close> in \<open>src/filter_multi.cpp\<close>). The term counts are mathematical
  integers: their sums are not wrapped. The result array is modelled with its bounds: a write
  outside of it is \<open>None\<close>, as is reading a null pointer.
\<close>

section \<open>Terms\<close>

record ScanTermInfo =
  m_norm_term :: string
  m_term_count :: int

text \<open>\<open>operator <\<close> of \<open>std::string\<close> compares octets.\<close>

definition string_less :: "string \<Rightarrow> string \<Rightarrow> bool" where
  "string_less a b = (memcmp2 a b < 0)"

definition ScanTermInfo_less :: "ScanTermInfo \<Rightarrow> ScanTermInfo \<Rightarrow> bool" where
  "ScanTermInfo_less a k = string_less (m_norm_term a) (m_norm_term k)"

definition ScanTermInfo_eq :: "ScanTermInfo \<Rightarrow> ScanTermInfo \<Rightarrow> bool" where
  "ScanTermInfo_eq a k = (m_norm_term a = m_norm_term k)"

definition get_entry :: "ScanTermInfo \<Rightarrow> Z_Entry" where
  "get_entry t = Entry_termInfo \<lparr>ti_term = Term_general (m_norm_term t),
     ti_globalOccurrences = Some (m_term_count t)\<rparr>"

section \<open>Insertion into the lists of terms\<close>

text \<open>
  The search loop and the insertion, for the list of terms before the start point
  (\<open>my < *it\<close> goes on) and for the list behind it (\<open>*it < my\<close> goes on).
\<close>

fun scan_insert :: "(ScanTermInfo \<Rightarrow> ScanTermInfo \<Rightarrow> bool) \<Rightarrow> ScanTermInfo \<Rightarrow> ScanTermInfo list
    \<Rightarrow> ScanTermInfo list" where
  "scan_insert goes_on my [] = [my]"
| "scan_insert goes_on my (x # xs) =
     (if goes_on my x then x # scan_insert goes_on my xs
      else if ScanTermInfo_eq my x then x\<lparr>m_term_count := m_term_count x + m_term_count my\<rparr> # xs
      else my # x # xs)"

definition insert_before :: "ScanTermInfo \<Rightarrow> ScanTermInfo list \<Rightarrow> ScanTermInfo list" where
  "insert_before = scan_insert (\<lambda>my x. ScanTermInfo_less my x)"

definition insert_after :: "ScanTermInfo \<Rightarrow> ScanTermInfo list \<Rightarrow> ScanTermInfo list" where
  "insert_after = scan_insert (\<lambda>my x. ScanTermInfo_less x my)"

text \<open>The term of an entry; surrogate diagnostics and empty terms are passed over.\<close>

fun scan_term :: "Z_Entry \<Rightarrow> ScanTermInfo option" where
  "scan_term (Entry_termInfo ti) =
     (let c = (case ti_globalOccurrences ti of Some o' \<Rightarrow> to_int32 o' | None \<Rightarrow> 0);
          t = (case ti_term ti of Term_general s \<Rightarrow> s | _ \<Rightarrow> [])
      in if length t \<noteq> 0 then Some \<lparr>m_norm_term = t, m_term_count = c\<rparr> else None)"
| "scan_term (Entry_surrogateDiagnostic d) = None"

fun scan_add :: "(ScanTermInfo \<Rightarrow> ScanTermInfo list \<Rightarrow> ScanTermInfo list) \<Rightarrow> Z_Entry list
    \<Rightarrow> ScanTermInfo list \<Rightarrow> ScanTermInfo list" where
  "scan_add ins [] acc = acc"
| "scan_add ins (e # es) acc =
     scan_add ins es (case scan_term e of Some my \<Rightarrow> ins my acc | None \<Rightarrow> acc)"

section \<open>The responses of the targets\<close>

text \<open>The entries of one response before and behind the position of the start term.\<close>

definition scan_position :: "Z_ScanRequest \<Rightarrow> Z_ScanResponse \<Rightarrow> int" where
  "scan_position req res =
     (let position = (case scq_preferredPositionInResponse req of Some v \<Rightarrow> to_int32 v | None \<Rightarrow> 1)
      in case scs_positionOfTerm res of Some v \<Rightarrow> to_int32 v | None \<Rightarrow> position)"

definition scan_merge_one :: "Z_ScanRequest \<Rightarrow> Z_ScanResponse \<Rightarrow> ScanTermInfo list \<times> ScanTermInfo list
    \<Rightarrow> ScanTermInfo list \<times> ScanTermInfo list" where
  "scan_merge_one req res acc =
     (case scs_entries res of
        Some le \<Rightarrow>
          (case le_entries le of
             Some entries \<Rightarrow>
               (let n = nat (scan_position req res - 1)
                in (scan_add insert_before (take n entries) (fst acc),
                    scan_add insert_after (drop n entries) (snd acc)))
           | None \<Rightarrow> acc)
      | None \<Rightarrow> acc)"

text \<open>The responses of all the targets, in the order of the backend list.\<close>

definition scan_merge_all :: "Z_ScanRequest \<Rightarrow> Z_ScanResponse list \<Rightarrow> ScanTermInfo list \<times> ScanTermInfo list" where
  "scan_merge_all req ress = foldl (\<lambda>acc res. scan_merge_one req res acc) ([], []) ress"

section \<open>The result array\<close>

definition array_write :: "'a option list \<Rightarrow> int \<Rightarrow> 'a \<Rightarrow> 'a option list option" where
  "array_write a i v = (if 0 \<le> i \<and> i < int (length a) then Some (a[nat i := Some v]) else None)"

text \<open>Terms before: written downwards from \<open>position_returned - 2\<close>.\<close>

fun write_before :: "int \<Rightarrow> int \<Rightarrow> ScanTermInfo list \<Rightarrow> Z_Entry option list \<Rightarrow> Z_Entry option list option" where
  "write_before position i [] a = Some a"
| "write_before position i (t # ts) a =
     (if i < position - 1
      then (case array_write a (position - 2 - i) (get_entry t) of
              None \<Rightarrow> None
            | Some a \<Rightarrow> write_before position (i + 1) ts a)
      else Some a)"

text \<open>Terms behind: written upwards while there is room. Result: the array and the final index.\<close>

fun write_after :: "int \<Rightarrow> int \<Rightarrow> ScanTermInfo list \<Rightarrow> Z_Entry option list \<Rightarrow> (Z_Entry option list \<times> int) option" where
  "write_after number i [] a = Some (a, i)"
| "write_after number i (t # ts) a =
     (if i < number
      then (case array_write a i (get_entry t) of
              None \<Rightarrow> None
            | Some a \<Rightarrow> write_after number (i + 1) ts a)
      else Some (a, i))"

text \<open>
  The response from the two lists. \<open>None\<close>: the preferred position is a null pointer, the
  array has a negative size, or a write leaves the array.
\<close>

definition scan_response :: "yaz \<Rightarrow> Z_ScanRequest \<Rightarrow> ScanTermInfo list \<Rightarrow> ScanTermInfo list
    \<Rightarrow> (Z_ScanResponse \<times> Z_Entry option list) option" where
  "scan_response Y req before after =
     (case scq_preferredPositionInResponse req of
        None \<Rightarrow> None
      | Some preferred \<Rightarrow>
         (let number_returned = to_int32 (scq_numberOfTermsRequested req);
              position_returned = to_int32 preferred;
              lbefore = int (length before);
              position_returned = (if lbefore < position_returned - 1 then lbefore + 1 else position_returned)
          in if number_returned < 0 then None
             else (case write_before position_returned 0 before (replicate (nat number_returned) None) of
                 None \<Rightarrow> None
               | Some a \<Rightarrow>
                   (case write_after number_returned (if position_returned \<le> 0 then 0 else position_returned - 1) after a of
                      None \<Rightarrow> None
                    | Some (a, i) \<Rightarrow>
                        Some ((create_scanResponse Y (Some (APDU_scanRequest req)) 0 None)\<lparr>
                                scs_positionOfTerm := Some position_returned,
                                scs_numberOfEntriesReturned := i\<rparr>, take (nat i) a)))))"

section \<open>The order of terms\<close>

lemma string_less_lexord:
  "string_less a b \<longleftrightarrow> (map of_char a, map of_char b) \<in> lexord {(x, y). (x :: nat) < y}"
  by (simp add: string_less_def memcmp2_lexord)

lemma string_less_irrefl [simp]: "\<not> string_less a a"
  unfolding string_less_lexord by (rule lexord_irreflexive) simp

lemma inj_of_char_nat: "inj (of_char :: char \<Rightarrow> nat)"
  by (rule injI) simp

lemma string_less_trans: "string_less a b \<Longrightarrow> string_less b c \<Longrightarrow> string_less a c"
  unfolding string_less_lexord by (rule lexord_trans) (auto simp: trans_def)

lemma string_less_total: "a \<noteq> b \<Longrightarrow> string_less a b \<or> string_less b a"
proof -
  assume ne: "a \<noteq> b"
  have "map (of_char :: char \<Rightarrow> nat) a \<noteq> map of_char b"
    using ne inj_map_eq_map [OF inj_of_char_nat] by blast
  moreover have "\<forall>x y :: nat. (x, y) \<in> {(x, y). x < y} \<or> x = y \<or> (y, x) \<in> {(x, y). x < y}" by auto
  ultimately show ?thesis unfolding string_less_lexord using lexord_linear by blast
qed

section \<open>Sorted lists of terms\<close>

text \<open>How often a term occurs according to a list, and the terms of a list.\<close>

definition term_total :: "ScanTermInfo list \<Rightarrow> string \<Rightarrow> int" where
  "term_total xs t = sum_list (map m_term_count (filter (\<lambda>x. m_norm_term x = t) xs))"

abbreviation terms_of :: "ScanTermInfo list \<Rightarrow> string set" where
  "terms_of xs \<equiv> m_norm_term ` set xs"

text \<open>
  The contract of the comparison the insertion loop goes on with: a strict total order of the
  terms. Both lists of the filter are instances.
\<close>

locale term_order =
  fixes goes_on :: "ScanTermInfo \<Rightarrow> ScanTermInfo \<Rightarrow> bool"
  assumes irrefl: "m_norm_term a = m_norm_term b \<Longrightarrow> \<not> goes_on a b"
    and trans: "goes_on a b \<Longrightarrow> goes_on b c \<Longrightarrow> goes_on a c"
    and linear: "m_norm_term a \<noteq> m_norm_term b \<Longrightarrow> goes_on a b \<or> goes_on b a"
    and cong: "m_norm_term a = m_norm_term a' \<Longrightarrow> m_norm_term b = m_norm_term b' \<Longrightarrow> goes_on a b = goes_on a' b'"
begin

abbreviation sorted_terms :: "ScanTermInfo list \<Rightarrow> bool" where
  "sorted_terms xs \<equiv> sorted_wrt (\<lambda>x y. goes_on y x) xs"

lemma terms_insert: "terms_of (scan_insert goes_on my xs) = insert (m_norm_term my) (terms_of xs)"
  by (induction xs) (auto simp: ScanTermInfo_eq_def)

lemma sorted_insert: "sorted_terms xs \<Longrightarrow> sorted_terms (scan_insert goes_on my xs)"
proof (induction xs)
  case (Cons x xs)
  show ?case
  proof (cases "goes_on my x")
    case True
    have "goes_on y x" if "y \<in> set (scan_insert goes_on my xs)" for y
    proof -
      have "m_norm_term y \<in> insert (m_norm_term my) (terms_of xs)"
        using terms_insert [of my xs] that by blast
      then obtain z where z: "z = my \<or> z \<in> set xs" "m_norm_term y = m_norm_term z" by auto
      then have "goes_on z x" using True Cons.prems by auto
      then show ?thesis using cong [OF z(2) refl] by blast
    qed
    then show ?thesis using True Cons by simp
  next
    case False
    show ?thesis
    proof (cases "m_norm_term my = m_norm_term x")
      case True
      have "goes_on y (x\<lparr>m_term_count := n\<rparr>) = goes_on y x" for y n by (rule cong) simp_all
      then show ?thesis using False True Cons.prems by (simp add: ScanTermInfo_eq_def)
    next
      case ne: False
      then have "goes_on x my" using False linear by blast
      then show ?thesis using False ne Cons.prems trans by (auto simp: ScanTermInfo_eq_def)
    qed
  qed
qed simp

lemma total_insert:
  "term_total (scan_insert goes_on my xs) t = term_total xs t + (if m_norm_term my = t then m_term_count my else 0)"
  by (induction xs) (auto simp: term_total_def ScanTermInfo_eq_def)

lemma distinct_terms: "sorted_terms xs \<Longrightarrow> distinct (map m_norm_term xs)"
  by (induction xs) (auto simp: irrefl)

lemma scan_add_spec:
  assumes "sorted_terms acc"
  shows "sorted_terms (scan_add (scan_insert goes_on) es acc) \<and>
     terms_of (scan_add (scan_insert goes_on) es acc) = terms_of acc \<union> terms_of (List.map_filter scan_term es) \<and>
     term_total (scan_add (scan_insert goes_on) es acc) t = term_total acc t + term_total (List.map_filter scan_term es) t"
  using assms
proof (induction es arbitrary: acc)
  case Nil
  then show ?case by (simp add: List.map_filter_def term_total_def)
next
  case (Cons e es)
  show ?case
  proof (cases "scan_term e")
    case None
    then show ?thesis using Cons by (simp add: List.map_filter_def)
  next
    case (Some my)
    have "term_total (my # xs) t = (if m_norm_term my = t then m_term_count my else 0) + term_total xs t" for xs
      by (simp add: term_total_def)
    then show ?thesis
      using Some Cons.IH [OF sorted_insert [OF Cons.prems]] terms_insert [of my acc] total_insert [of my acc t]
      by (simp add: List.map_filter_def)
  qed
qed

end

lemma ScanTermInfo_less_laws:
  "m_norm_term a = m_norm_term b \<Longrightarrow> \<not> ScanTermInfo_less a b"
  "ScanTermInfo_less a b \<Longrightarrow> ScanTermInfo_less b c \<Longrightarrow> ScanTermInfo_less a c"
  "m_norm_term a \<noteq> m_norm_term b \<Longrightarrow> ScanTermInfo_less a b \<or> ScanTermInfo_less b a"
  "m_norm_term a = m_norm_term a' \<Longrightarrow> m_norm_term b = m_norm_term b' \<Longrightarrow> ScanTermInfo_less a b = ScanTermInfo_less a' b'"
  using string_less_trans string_less_total by (auto simp: ScanTermInfo_less_def)

interpretation before: term_order "\<lambda>my x. ScanTermInfo_less my x"
  by unfold_locales (use ScanTermInfo_less_laws in \<open>blast+\<close>)

interpretation after: term_order "\<lambda>my x. ScanTermInfo_less x my"
  by unfold_locales (use ScanTermInfo_less_laws in \<open>metis+\<close>)

section \<open>The merged lists\<close>

definition response_entries :: "Z_ScanResponse \<Rightarrow> Z_Entry list" where
  "response_entries res = (case scs_entries res of None \<Rightarrow> []
     | Some le \<Rightarrow> (case le_entries le of None \<Rightarrow> [] | Some es \<Rightarrow> es))"

text \<open>The terms of a response before and behind its start term.\<close>

definition terms_before :: "Z_ScanRequest \<Rightarrow> Z_ScanResponse \<Rightarrow> ScanTermInfo list" where
  "terms_before req res = List.map_filter scan_term (take (nat (scan_position req res - 1)) (response_entries res))"

definition terms_after :: "Z_ScanRequest \<Rightarrow> Z_ScanResponse \<Rightarrow> ScanTermInfo list" where
  "terms_after req res = List.map_filter scan_term (drop (nat (scan_position req res - 1)) (response_entries res))"

lemma scan_merge_one_add:
  "scan_merge_one req res (bs, as') =
     (scan_add (scan_insert (\<lambda>my x. ScanTermInfo_less my x)) (take (nat (scan_position req res - 1)) (response_entries res)) bs,
      scan_add (scan_insert (\<lambda>my x. ScanTermInfo_less x my)) (drop (nat (scan_position req res - 1)) (response_entries res)) as')"
  by (simp add: scan_merge_one_def response_entries_def insert_before_def insert_after_def Let_def split: option.split)


section \<open>The merged response\<close>

lemma write_before_result:
  assumes "position - 1 - i = int q"
  shows "write_before position i ts a =
     (if take q ts = [] then Some a
      else if q \<le> length a
      then Some (take (q - length (take q ts)) a @ rev (map (Some \<circ> get_entry) (take q ts)) @ drop q a)
      else None)"
  using assms
proof (induction ts arbitrary: q i a)
  case (Cons t ts)
  show ?case
  proof (cases q)
    case 0
    then show ?thesis using Cons.prems by simp
  next
    case (Suc r)
    have r: "i < position - 1" "position - 2 - i = int r" "position - 1 - (i + 1) = int r"
      using Cons.prems Suc by auto
    show ?thesis
    proof (cases "r < length a")
      case True
      let ?a = "a[r := Some (get_entry t)]"
      have d: "drop r ?a = Some (get_entry t) # drop (Suc r) a" "take k ?a = take k a" if "k \<le> r" for k
        using True that by (simp_all add: Cons_nth_drop_Suc [symmetric])
      have "write_before position i (t # ts) a = write_before position (i + 1) ts ?a"
        unfolding write_before.simps r(2) using r(1) True by (simp add: array_write_def)
      also have "\<dots> = Some (take (r - length (take r ts)) a @ rev (map (Some \<circ> get_entry) (take r ts)) @
          Some (get_entry t) # drop (Suc r) a)"
        using Cons.IH [OF r(3), of ?a] True d [of r] d [of "r - length ts"]
          append_take_drop_id [of r ?a] by (auto simp del: append_take_drop_id)
      finally show ?thesis using Suc True by simp
    next
      case False
      then show ?thesis unfolding write_before.simps r(2) using r(1) Suc by (simp add: array_write_def)
    qed
  qed
qed simp

lemma write_after_result:
  assumes "j \<le> length a"
  shows "write_after (int (length a)) (int j) ts a =
     Some (take j a @ map (Some \<circ> get_entry) (take (length a - j) ts) @ drop (j + length ts) a,
           int (j + length (take (length a - j) ts)))"
  using assms
proof (induction ts arbitrary: j a)
  case (Cons t ts)
  show ?case
  proof (cases "j < length a")
    case True
    let ?a = "a[j := Some (get_entry t)]"
    have d: "take (Suc j) ?a = take j a @ [Some (get_entry t)]" "drop (Suc j + k) ?a = drop (Suc j + k) a" for k
      using True by (simp_all add: take_Suc_conv_app_nth)
    have "write_after (int (length a)) (int j) (t # ts) a = write_after (int (length ?a)) (int (Suc j)) ts ?a"
      using True by (simp add: array_write_def add.commute)
    also have "\<dots> = Some (take (Suc j) ?a @ map (Some \<circ> get_entry) (take (length ?a - Suc j) ts) @ drop (Suc j + length ts) ?a,
           int (Suc j + length (take (length ?a - Suc j) ts)))"
      using True by (intro Cons.IH) simp
    finally show ?thesis using True d by (simp add: Suc_diff_Suc [symmetric])
  next
    case False
    then show ?thesis using Cons.prems by simp
  qed
qed simp

text \<open>
  C39. The merged response: with a preferred position it holds the last \<open>k\<close> terms before the
  start term and then as many terms behind it as fit, in rising order, where \<open>k\<close> is the number
  of terms wanted and available before the start term; the start position is \<open>k + 1\<close> and all entries
  are set. If \<open>k\<close> exceeds the number of terms requested, the code writes outside the array.\<close>
theorem scan_response_layout:
  assumes "scq_preferredPositionInResponse req = Some pos" and "1 \<le> pos" and "pos < 2 ^ 31"
    and "scq_numberOfTermsRequested req = int n" and "n < 2 ^ 31"
    and "k = min (nat (pos - 1)) (length bs)"
  shows "scan_response Y req bs as' =
     (if k \<le> n
      then Some ((create_scanResponse Y (Some (APDU_scanRequest req)) 0 None)\<lparr>
             scs_positionOfTerm := Some (int k + 1),
             scs_numberOfEntriesReturned := int (min n (k + length as'))\<rparr>,
           map (Some \<circ> get_entry) (rev (take k bs) @ take (n - k) as'))
      else None)"
proof -
  define pr where "pr = (if int (length bs) < pos - 1 then int (length bs) + 1 else pos)"
  have pr: "pr = int k + 1" using assms(2,6) by (auto simp: pr_def)
  have k: "length (take k bs) = k" using assms(6) by simp
  have ints: "to_int32 pos = pos" "to_int32 (int n) = int n" using assms(2,3,5) by simp_all
  have w: "write_before (int k + 1) 0 bs (replicate n None) =
      (if k \<le> n then Some (rev (map (Some \<circ> get_entry) (take k bs)) @ replicate (n - k) None) else None)"
    using write_before_result [of "int k + 1" 0 k bs "replicate n None"] k by (auto simp: assms(6))
  have start: "(if int k + 1 \<le> 0 then 0 else int k + 1 - 1) = int k" by simp
  define a where "a = rev (map (Some \<circ> get_entry) (take k bs)) @ replicate (n - k) None"
  have after: "write_after (int n) (int k) as' a =
      Some (rev (map (Some \<circ> get_entry) (take k bs)) @ map (Some \<circ> get_entry) (take (n - k) as') @ drop (k + length as') a,
            int (k + length (take (n - k) as')))" if "k \<le> n"
  proof -
    have "length a = n" "take k a = rev (map (Some \<circ> get_entry) (take k bs))" using k that by (simp_all add: a_def)
    then show ?thesis using write_after_result [of k a as'] that by simp
  qed
  have cut: "take (k + min (length as') (n - k)) (rev (map (Some \<circ> get_entry) (take k bs)) @
      map (Some \<circ> get_entry) (take (n - k) as') @ z) = map (Some \<circ> get_entry) (rev (take k bs) @ take (n - k) as')" for z
    using k by (simp add: rev_map)
  show ?thesis
  proof (cases "k \<le> n")
    case True
    have "k + min (length as') (n - k) = min n (k + length as')" using True by simp
    then show ?thesis
      using assms(1,4) ints w after [OF True] cut True
      by (simp add: scan_response_def pr_def [symmetric] pr a_def [symmetric] Let_def nat_int_add)
  next
    case False
    then show ?thesis
      using assms(1,4) ints w by (simp add: scan_response_def pr_def [symmetric] pr Let_def)
  qed
qed

abbreviation demo_scan :: "int \<Rightarrow> int \<Rightarrow> Z_ScanRequest" where
  "demo_scan pos n \<equiv> \<lparr>scq_referenceId = None, scq_databaseNames = [], scq_attributeSet = None, scq_termListAndStartPoint = [],
     scq_stepSize = None,
     scq_numberOfTermsRequested = n, scq_preferredPositionInResponse = Some pos\<rparr>"

abbreviation demo_term :: "string \<Rightarrow> ScanTermInfo" where
  "demo_term t \<equiv> \<lparr>m_norm_term = t, m_term_count = 1\<rparr>"

text \<open>Three terms with the start term at position 2, and a request for no term at all with the
  start term at position 2, which leaves the array.\<close>
theorem scan_response_layout_witness:
  "map_option snd (scan_response yaz_ref (demo_scan 2 3) [demo_term ''b'', demo_term ''a''] (map demo_term [''c'', ''d'', ''e''])) =
     Some (map (Some \<circ> get_entry \<circ> demo_term) [''b'', ''c'', ''d'']) \<and>
   scan_response yaz_ref (demo_scan 2 0) [demo_term ''b''] [] = None"
  using scan_response_layout [of "demo_scan 2 3" 2 3 1 "[demo_term ''b'', demo_term ''a'']" yaz_ref
      "map demo_term [''c'', ''d'', ''e'']"]
    scan_response_layout [of "demo_scan 2 0" 2 0 1 "[demo_term ''b'']" yaz_ref "[]"]
  by simp

end
