(* ===== verification/MP_Multi.thy ===== *)
theory MP_Multi
  imports MP_Multi_Merge MP_Multi_Scan MP_Frontends MP_Xml
begin

text \<open>
  The multiplexing filter (\<open>src/filter_multi.cpp\<close>), apart from the merge orders of
  \<open>MP_Multi_Merge\<close> and the scan merging of \<open>MP_Multi_Scan\<close>: one client session is served
  by several backend sessions, to which every request is sent.

  A \<open>Backend\<close> is shared by pointer and its package changes with every request: backends
  live in a store, the list \<open>mf_backends\<close> of all backends of a frontend, and a
  \<open>BackendPtr\<close> is the index of a backend in it. \<open>None\<close> is what has no defined result: a
  null pointer, a union read as the wrong type, a read behind an array.
\<close>

section \<open>State\<close>

datatype multi_merge_type = merge_round_robin | merge_serve_order

record Multi_FrontendSet =
  m_backend_sets :: "nat BackendSet list"
  m_setname :: string

record Multi_Backend =
  mb_package :: package
  mb_vhost :: string
  mb_route :: string
  mb_auth :: string

record Multi_Frontend =
  mf_is_multi :: bool
  mf_in_use :: bool
  mf_backends :: "Multi_Backend list"
  mf_backend_list :: "nat list"
  mf_sets :: "string \<rightharpoonup> Multi_FrontendSet"

record Multi_Map =
  mm_target_pattern :: string
  mm_route :: string
  mm_auth :: string

record Multi_Rep =
  m_route_patterns :: "Multi_Map list"
  mr_clients :: "Multi_Frontend session_map"
  m_hide_unavailable :: bool
  m_hide_errors :: bool
  m_merge_type :: multi_merge_type

definition Multi_Rep_new :: Multi_Rep where
  "Multi_Rep_new = \<lparr>m_route_patterns = [], mr_clients = Map.empty, m_hide_unavailable = False,
     m_hide_errors = False, m_merge_type = merge_round_robin\<rparr>"

definition Multi_Frontend_new :: Multi_Frontend where
  "Multi_Frontend_new = \<lparr>mf_is_multi = False, mf_in_use = True, mf_backends = [], mf_backend_list = [],
     mf_sets = Map.empty\<rparr>"

definition Multi_Map_match :: "yaz \<Rightarrow> Multi_Map \<Rightarrow> string \<Rightarrow> (string \<times> string) option" where
  "Multi_Map_match Y m target =
     (if yaz_match_glob Y (mm_target_pattern m) target then Some (mm_route m, mm_auth m) else None)"

section \<open>Backends\<close>

definition Multi_backend :: "Multi_Frontend \<Rightarrow> nat \<Rightarrow> Multi_Backend" where
  "Multi_backend f i = mf_backends f ! i"

definition Multi_set_package :: "nat \<Rightarrow> package \<Rightarrow> Multi_Frontend \<Rightarrow> Multi_Frontend" where
  "Multi_set_package i p f = f\<lparr>mf_backends := (mf_backends f)[i := (Multi_backend f i)\<lparr>mb_package := p\<rparr>]\<rparr>"

definition Multi_set_request :: "nat \<Rightarrow> Z_GDU option \<Rightarrow> Multi_Frontend \<Rightarrow> Multi_Frontend" where
  "Multi_set_request i gdu f = Multi_set_package i ((mb_package (Multi_backend f i))\<lparr>pkg_request := gdu\<rparr>) f"

text \<open>The thread of one backend.\<close>

definition Multi_Backend_run :: "'w move_fn \<Rightarrow> nat \<Rightarrow> Multi_Frontend \<times> 'w world_scheme \<Rightarrow> Multi_Frontend \<times> 'w world_scheme" where
  "Multi_Backend_run mv i fw =
     (let b = Multi_backend (fst fw) i; (p, w) = mv (mb_route b) (mb_package b) (snd fw)
      in (Multi_set_package i p (fst fw), w))"

text \<open>
  \<open>multi_move\<close> starts one thread for each backend and joins them. The threads work on
  packages of their own; \<open>ord\<close> is the order in which they get hold of what they share.
\<close>

fun Multi_move_seq :: "'w move_fn \<Rightarrow> nat list \<Rightarrow> Multi_Frontend \<times> 'w world_scheme \<Rightarrow> Multi_Frontend \<times> 'w world_scheme" where
  "Multi_move_seq mv [] fw = fw"
| "Multi_move_seq mv (i # is) fw = Multi_move_seq mv is (Multi_Backend_run mv i fw)"

definition multi_move :: "(nat list \<Rightarrow> nat list) \<Rightarrow> 'w move_fn \<Rightarrow> nat list \<Rightarrow> Multi_Frontend \<Rightarrow> 'w world_scheme
    \<Rightarrow> Multi_Frontend \<times> 'w world_scheme" where
  "multi_move ord mv blist f w = Multi_move_seq mv (ord blist) (f, w)"

text \<open>Closing: the request is cleared and the session of each backend closed.\<close>

fun Multi_close_loop :: "'w move_fn \<Rightarrow> nat list \<Rightarrow> Multi_Frontend \<times> 'w world_scheme \<Rightarrow> Multi_Frontend \<times> 'w world_scheme" where
  "Multi_close_loop mv [] fw = fw"
| "Multi_close_loop mv (i # is) (f, w) =
     Multi_close_loop mv is (Multi_Backend_run mv i
       (Multi_set_package i (close_session ((mb_package (Multi_backend f i))\<lparr>pkg_request := None\<rparr>)) f, w))"

definition Multi_close :: "'w move_fn \<Rightarrow> Multi_Frontend \<Rightarrow> 'w world_scheme \<Rightarrow> Multi_Frontend \<times> 'w world_scheme" where
  "Multi_close mv f w = Multi_close_loop mv (mf_backend_list f) (f, w)"

section \<open>Initialisation\<close>

text \<open>The route and credentials of a target: those of the first pattern that matches.\<close>

fun Multi_find_route :: "yaz \<Rightarrow> Multi_Map list \<Rightarrow> string \<Rightarrow> string \<times> string" where
  "Multi_find_route Y [] target = ([], [])"
| "Multi_find_route Y (m # ms) target =
     (case Multi_Map_match Y m target of Some ra \<Rightarrow> ra | None \<Rightarrow> Multi_find_route Y ms target)"

fun Multi_init_backends :: "yaz \<Rightarrow> Multi_Map list \<Rightarrow> origin \<Rightarrow> string list \<Rightarrow> Multi_Frontend \<Rightarrow> 'w world_scheme
    \<Rightarrow> Multi_Frontend \<times> 'w world_scheme" where
  "Multi_init_backends Y maps ori [] f w = (f, w)"
| "Multi_init_backends Y maps ori (t # ts) f w =
     (let (s, w) = Session_new w;
          (route, auth) = Multi_find_route Y maps t;
          b = \<lparr>mb_package = Package_new s ori, mb_vhost = t, mb_route = route, mb_auth = auth\<rparr>
      in Multi_init_backends Y maps ori ts
           (f\<lparr>mf_backends := mf_backends f @ [b], mf_backend_list := mf_backend_list f @ [length (mf_backends f)]\<rparr>) w)"

definition Multi_init_request :: "yaz \<Rightarrow> Multi_Backend \<Rightarrow> Z_InitRequest \<Rightarrow> Z_InitRequest" where
  "Multi_init_request Y b req =
     (let breq = zget_initRequest Y;
          oi = set_vhost_otherinfo Y (irq_otherInfo breq) [mb_vhost b];
          oi = (case fst (yaz_oi_get_string_oid Y (irq_otherInfo req) oid_userinfo_client_ip 1 False) of
                  Some peer_name \<Rightarrow> yaz_oi_set_string_oid Y oi oid_userinfo_client_ip 1 peer_name
                | None \<Rightarrow> oi)
      in breq\<lparr>irq_otherInfo := oi,
              irq_idAuthentication := (if length (mb_auth b) \<noteq> 0 then Some (IdAuthentication_open (mb_auth b))
                                       else irq_idAuthentication req),
              irq_preferredMessageSize := irq_preferredMessageSize req,
              irq_maximumRecordSize := irq_maximumRecordSize req,
              irq_options := irq_options breq \<union>
                {Z_Options_search, Z_Options_present, Z_Options_namedResultSets, Z_Options_scan},
              irq_protocolVersion := irq_protocolVersion breq \<union>
                {Z_ProtocolVersion_1, Z_ProtocolVersion_2, Z_ProtocolVersion_3}\<rparr>)"

fun Multi_set_requests :: "(Multi_Backend \<Rightarrow> Z_GDU) \<Rightarrow> nat list \<Rightarrow> Multi_Frontend \<Rightarrow> Multi_Frontend" where
  "Multi_set_requests req [] f = f"
| "Multi_set_requests req (i # is) f =
     Multi_set_requests req is (Multi_set_request i (Some (req (Multi_backend f i))) f)"

record multi_init_acc =
  no_failed :: int
  no_succeeded :: int
  acc_preferredMessageSize :: int
  acc_maximumRecordSize :: int
  acc_resp :: Z_InitResponse
  acc_kept :: "nat list"

text \<open>One backend of the loop over the responses; closed backends leave the list.\<close>

definition Multi_init_one :: "Multi_Frontend \<Rightarrow> nat \<Rightarrow> multi_init_acc \<Rightarrow> multi_init_acc" where
  "Multi_init_one f i a =
     (let p = mb_package (Multi_backend f i) in
      if is_closed p then a\<lparr>no_failed := no_failed a + 1\<rparr>
      else (let a = a\<lparr>acc_kept := acc_kept a @ [i]\<rparr> in
        case pkg_response p of
          Some (GDU_Z3950 (APDU_initResponse b_resp)) \<Rightarrow>
            (let r = acc_resp a;
                 r = r\<lparr>irs_options := Set.filter (\<lambda>o'. o' \<in> irs_options b_resp \<or> o' > Z_Options_stringSchema) (irs_options r),
                       irs_protocolVersion := Set.filter (\<lambda>v. v \<in> irs_protocolVersion b_resp \<or> v > Z_ProtocolVersion_3)
                          (irs_protocolVersion r)\<rparr>
             in if irs_result b_resp
                then a\<lparr>no_succeeded := no_succeeded a + 1, acc_resp := r,
                       acc_preferredMessageSize := (if acc_preferredMessageSize a > irs_preferredMessageSize b_resp
                          then irs_preferredMessageSize b_resp else acc_preferredMessageSize a),
                       acc_maximumRecordSize := (if acc_maximumRecordSize a > irs_maximumRecordSize b_resp
                          then irs_maximumRecordSize b_resp else acc_maximumRecordSize a)\<rparr>
                else a\<lparr>no_failed := no_failed a + 1,
                       acc_resp := (if irs_userInformationField r = None \<and> irs_userInformationField b_resp \<noteq> None
                          then r\<lparr>irs_userInformationField := irs_userInformationField b_resp\<rparr> else r)\<rparr>)
        | _ \<Rightarrow> a\<lparr>no_failed := no_failed a + 1\<rparr>))"

definition Multi_init_resp0 :: "yaz \<Rightarrow> string \<Rightarrow> Z_InitRequest \<Rightarrow> Z_InitResponse" where
  "Multi_init_resp0 Y version req =
     (let r = create_initResponse Y version (Some (APDU_initRequest req)) 0 None
      in r\<lparr>irs_options := irs_options r \<union>
             {Z_Options_search, Z_Options_present, Z_Options_namedResultSets, Z_Options_scan},
           irs_protocolVersion := irs_protocolVersion r \<union>
             {Z_ProtocolVersion_1, Z_ProtocolVersion_2, Z_ProtocolVersion_3}\<rparr>)"

definition Multi_init :: "yaz \<Rightarrow> string \<Rightarrow> (nat list \<Rightarrow> nat list) \<Rightarrow> 'w move_fn \<Rightarrow> Multi_Rep \<Rightarrow> Z_InitRequest
    \<Rightarrow> package \<Rightarrow> Multi_Frontend \<Rightarrow> 'w world_scheme \<Rightarrow> (package \<times> Multi_Frontend \<times> 'w world_scheme) option" where
  "Multi_init Y version ord mv rep req p f w =
     (case get_vhost_otherinfo Y (irq_otherInfo req) of
        None \<Rightarrow> None
      | Some targets \<Rightarrow>
          if length targets < 1 then (let (p, w) = mv [] p w in Some (p, f, w))
          else
           (let (f, w) = Multi_init_backends Y (m_route_patterns rep) (pkg_origin p) targets f w;
                f = f\<lparr>mf_is_multi := True\<rparr>;
                f = Multi_set_requests (\<lambda>b. GDU_Z3950 (APDU_initRequest (Multi_init_request Y b req))) (mf_backend_list f) f;
                (f, w) = multi_move ord mv (mf_backend_list f) f w;
                a = fold (Multi_init_one f) (mf_backend_list f)
                      \<lparr>no_failed = 0, no_succeeded = 0, acc_preferredMessageSize = irq_preferredMessageSize req,
                       acc_maximumRecordSize = irq_maximumRecordSize req, acc_resp = Multi_init_resp0 Y version req, acc_kept = []\<rparr>;
                f = f\<lparr>mf_backend_list := acc_kept a\<rparr>;
                f_resp = (acc_resp a)\<lparr>irs_preferredMessageSize := acc_preferredMessageSize a,
                                      irs_maximumRecordSize := acc_maximumRecordSize a\<rparr>;
                failed = (if m_hide_unavailable rep then no_succeeded a = 0 else no_failed a \<noteq> 0);
                f_resp = (if failed then f_resp\<lparr>irs_result := False\<rparr> else f_resp);
                p = (if failed then close_session p else p)
            in Some (p\<lparr>pkg_response := Some (GDU_Z3950 (APDU_initResponse f_resp))\<rparr>, f, w)))"

section \<open>Diagnostics\<close>

text \<open>\<open>z_diag\<close> (null or a list of diagnostics) and the number of successful targets.\<close>

definition record_diagnostics :: "Z_Records option \<Rightarrow> Z_DiagRec list option \<times> int \<Rightarrow> Z_DiagRec list option \<times> int" where
  "record_diagnostics records acc =
     (let (z_diag, no_successful) = acc; old = (case z_diag of None \<Rightarrow> [] | Some ds \<Rightarrow> ds) in
      case records of
        Some (Records_NSD d) \<Rightarrow> (Some (old @ [DiagRec_defaultFormat d]), no_successful)
      | Some (Records_multipleNSD ds) \<Rightarrow> (Some (old @ ds), no_successful)
      | _ \<Rightarrow> (z_diag, no_successful + 1))"

text \<open>
  The records of the response when diagnostics are reported. With one diagnostic its default
  format is taken, so an external one is misread; with none the first element of an
  empty array is read.
\<close>

fun diag_records :: "Z_DiagRec list \<Rightarrow> Z_Records option" where
  "diag_records [DiagRec_defaultFormat d] = Some (Records_NSD d)"
| "diag_records (d # d' # ds) = Some (Records_multipleNSD (d # d' # ds))"
| "diag_records _ = None"

text \<open>What the loop over the responses finds out: diagnostics, successes and a closed target.\<close>

record multi_outcome =
  out_diag :: "Z_DiagRec list option"
  out_successful :: int
  out_close :: "nat option"

definition outcome0 :: multi_outcome where
  "outcome0 = \<lparr>out_diag = None, out_successful = 0, out_close = None\<rparr>"

definition note_records :: "Z_Records option \<Rightarrow> multi_outcome \<Rightarrow> multi_outcome" where
  "note_records records o' =
     (let (d, n) = record_diagnostics records (out_diag o', out_successful o')
      in o'\<lparr>out_diag := d, out_successful := n\<rparr>)"

section \<open>Present\<close>

text \<open>The first and the last position wanted of a backend; -1 when there is none.\<close>

fun job_range :: "nat \<Rightarrow> nat PresentJob list \<Rightarrow> int \<Rightarrow> int \<Rightarrow> int \<times> int" where
  "job_range b [] start end' = (start, end')"
| "job_range b (j # js) start end' =
     (if job_backend j = b
      then job_range b js (if start = -1 \<or> job_pos j < start then job_pos j else start)
             (if end' = -1 \<or> job_pos j > end' then job_pos j else end')
      else job_range b js start end')"

definition mark_jobs :: "nat \<Rightarrow> int \<Rightarrow> int \<Rightarrow> nat PresentJob list \<Rightarrow> nat PresentJob list" where
  "mark_jobs b start end' jobs =
     map (\<lambda>j. if job_backend j = b \<and> job_pos j \<ge> start \<and> job_pos j \<le> end' then j\<lparr>job_start := start\<rparr> else j) jobs"

text \<open>
  The requests to the backends, in the order of the backend sets. The request of the client is
  overwritten for each of them.
\<close>

fun present_requests :: "nat BackendSet list \<Rightarrow> nat PresentJob list \<Rightarrow> Z_PresentRequest \<Rightarrow> nat list
    \<Rightarrow> Multi_Frontend \<Rightarrow> nat PresentJob list \<times> Z_PresentRequest \<times> nat list \<times> Multi_Frontend" where
  "present_requests [] jobs req plist f = (jobs, req, plist, f)"
| "present_requests (bs # bss) jobs req plist f =
     (let b = bs_backend bs; (start, end') = job_range b jobs (-1) (-1) in
      if start \<noteq> -1
      then (let req = req\<lparr>prq_resultSetStartPoint := start, prq_numberOfRecordsRequested := end' - start + 1\<rparr>
            in present_requests bss (mark_jobs b start end' jobs) req (plist @ [b])
                 (Multi_set_request b (Some (GDU_Z3950 (APDU_presentRequest req))) f))
      else present_requests bss jobs req plist f)"

definition present_outcome :: "Multi_Frontend \<Rightarrow> nat \<Rightarrow> multi_outcome \<Rightarrow> multi_outcome" where
  "present_outcome f i o' =
     (let p = mb_package (Multi_backend f i);
          o' = (if is_closed p then o'\<lparr>out_close := Some i\<rparr> else o')
      in case pkg_response p of
           Some (GDU_Z3950 (APDU_presentResponse r)) \<Rightarrow> note_records (prs_records r) o'
         | _ \<Rightarrow> o')"

text \<open>
  The merged records. A job without a record, because its target returned fewer records, is
  left out. \<open>None\<close>: the response of the target is missing or no present response, or the
  position lies before the records.
\<close>

fun merge_records :: "Multi_Frontend \<Rightarrow> nat PresentJob list \<Rightarrow> Z_NamePlusRecord list option" where
  "merge_records f [] = Some []"
| "merge_records f (j # js) =
     (let b = Multi_backend f (job_backend j); inside_pos = job_pos j - job_start j in
      case pkg_response (mb_package b) of
        Some (GDU_Z3950 (APDU_presentResponse r)) \<Rightarrow>
          (case prs_records r of
             Some (Records_DBOSD rs) \<Rightarrow>
               if inside_pos < int (length rs)
               then (if inside_pos < 0 then None
                     else map_option (\<lambda>l. (rs ! nat inside_pos)\<lparr>npr_databaseName := Some (mb_vhost b)\<rparr> # l)
                            (merge_records f js))
               else merge_records f js
           | _ \<Rightarrow> merge_records f js)
      | _ \<Rightarrow> None)"

definition Multi_jobs :: "Multi_Rep \<Rightarrow> Multi_FrontendSet \<Rightarrow> int \<Rightarrow> int \<Rightarrow> nat PresentJob list" where
  "Multi_jobs rep fset start number =
     (case m_merge_type rep of
        merge_round_robin \<Rightarrow> round_robin (m_backend_sets fset) start number
      | merge_serve_order \<Rightarrow> serve_order (m_backend_sets fset) start number)"

text \<open>Result: package, the request as it is left behind, frontend and world.\<close>

definition Multi_present :: "yaz \<Rightarrow> (nat list \<Rightarrow> nat list) \<Rightarrow> 'w move_fn \<Rightarrow> Multi_Rep \<Rightarrow> Z_PresentRequest
    \<Rightarrow> package \<Rightarrow> Multi_Frontend \<Rightarrow> 'w world_scheme
    \<Rightarrow> (package \<times> Z_PresentRequest \<times> Multi_Frontend \<times> 'w world_scheme) option" where
  "Multi_present Y ord mv rep req p f w =
     (case mf_sets f (prq_resultSetId req) of
        None \<Rightarrow> Some (p\<lparr>pkg_response := Some (GDU_Z3950 (APDU_presentResponse
               (create_presentResponse Y (Some (APDU_presentRequest req))
                  BIB1_SPECIFIED_RESULT_SET_DOES_NOT_EXIST (Some (prq_resultSetId req)))))\<rparr>, req, f, w)
      | Some fset \<Rightarrow>
         (let start = to_int32 (prq_resultSetStartPoint req);
              number = to_int32 (prq_numberOfRecordsRequested req);
              jobs = Multi_jobs rep fset start number;
              (jobs, req, plist, f) = present_requests (m_backend_sets fset) jobs req [] f;
              (f, w) = multi_move ord mv plist f w;
              out = fold (present_outcome f) plist outcome0;
              f_resp = create_presentResponse Y (Some (APDU_presentRequest req)) 0 None;
              respond = (\<lambda>r. Some (p\<lparr>pkg_response := Some (GDU_Z3950 (APDU_presentResponse r))\<rparr>, req, f, w))
          in if out_close out \<noteq> None \<and> (out_successful out = 0 \<or> \<not> m_hide_errors rep)
             then Some (close_session (p\<lparr>pkg_response :=
                    pkg_response (mb_package (Multi_backend f (the (out_close out))))\<rparr>), req, f, w)
             else if out_diag out \<noteq> None \<and> (out_successful out = 0 \<or> \<not> m_hide_errors rep)
             then (case diag_records (the (out_diag out)) of
                     None \<Rightarrow> None
                   | Some recs \<Rightarrow> respond (f_resp\<lparr>prs_records := Some recs\<rparr>))
             else if number < 0 \<or> number > int (length jobs)
             then respond (create_presentResponse Y (Some (APDU_presentRequest req)) BIB1_PRESENT_REQUEST_OUT_OF_RANGE None)
             else (case merge_records f jobs of
                     None \<Rightarrow> None
                   | Some recs \<Rightarrow> respond (f_resp\<lparr>prs_records := Some (Records_DBOSD recs),
                        prs_nextResultSetPosition := start + int (length recs),
                        prs_numberOfRecordsReturned := int (length recs)\<rparr>))))"

section \<open>Search\<close>

definition Multi_search_request :: "yaz \<Rightarrow> Z_SearchRequest \<Rightarrow> Multi_Backend \<Rightarrow> Z_SearchRequest" where
  "Multi_search_request Y req b =
     (let req1 = req\<lparr>srq_smallSetUpperBound := 0, srq_largeSetLowerBound := 1, srq_mediumSetPresentNumber := 0\<rparr>
      in case set_databases_from_zurl Y (mb_vhost b) of
           Some dbs \<Rightarrow> req1\<lparr>srq_databaseNames := dbs\<rparr>
         | None \<Rightarrow> req1)"

text \<open>One response: the outcome, the backend sets and the size of the merged result set.\<close>

definition search_outcome :: "Multi_Frontend \<Rightarrow> nat \<Rightarrow> multi_outcome \<times> nat BackendSet list \<times> int
    \<Rightarrow> multi_outcome \<times> nat BackendSet list \<times> int" where
  "search_outcome f i a =
     (let (o', sets, sz) = a;
          p = mb_package (Multi_backend f i);
          o' = (if is_closed p then o'\<lparr>out_close := Some i\<rparr> else o')
      in case pkg_response p of
           Some (GDU_Z3950 (APDU_searchResponse r)) \<Rightarrow>
             (note_records (srs_records r) o',
              sets @ [\<lparr>bs_backend = i, bs_count = to_int32 (srs_resultCount r)\<rparr>], sz + srs_resultCount r)
         | _ \<Rightarrow> (o', sets, sz))"

text \<open>The present request that fetches the piggybacked records.\<close>

definition Multi_piggyback_request :: "yaz \<Rightarrow> Z_SearchRequest \<Rightarrow> int \<Rightarrow> Z_PresentRequest" where
  "Multi_piggyback_request Y req number =
     (zget_presentRequest Y)\<lparr>prq_preferredRecordSyntax := srq_preferredRecordSyntax req,
        prq_resultSetId := srq_resultSetName req, prq_resultSetStartPoint := 1,
        prq_numberOfRecordsRequested := number\<rparr>"

definition Multi_search_piggyback :: "yaz \<Rightarrow> (nat list \<Rightarrow> nat list) \<Rightarrow> 'w move_fn \<Rightarrow> Multi_Rep \<Rightarrow> Z_SearchRequest
    \<Rightarrow> int \<Rightarrow> Z_SearchResponse \<Rightarrow> package \<Rightarrow> Multi_Frontend \<Rightarrow> 'w world_scheme
    \<Rightarrow> (package \<times> Multi_Frontend \<times> 'w world_scheme) option" where
  "Multi_search_piggyback Y ord mv rep req number f_resp p f w =
     (let p_req = Multi_piggyback_request Y req number;
          pp = (Package_new (pkg_session p) (pkg_origin p))\<lparr>pkg_request := Some (GDU_Z3950 (APDU_presentRequest p_req))\<rparr>
      in case Multi_present Y ord mv rep p_req pp f w of
           None \<Rightarrow> None
         | Some (pp, _, f, w) \<Rightarrow>
             (let p = (if is_closed pp then close_session p else p) in
              case pkg_response pp of
                Some (GDU_Z3950 (APDU_presentResponse p_res)) \<Rightarrow>
                  Some (p\<lparr>pkg_response := Some (GDU_Z3950 (APDU_searchResponse
                     (f_resp\<lparr>srs_records := prs_records p_res,
                             srs_numberOfRecordsReturned := prs_numberOfRecordsReturned p_res,
                             srs_nextResultSetPosition := prs_nextResultSetPosition p_res\<rparr>)))\<rparr>, f, w)
              | _ \<Rightarrow> Some (p\<lparr>pkg_response := pkg_response pp\<rparr>, f, w)))"

definition Multi_search :: "yaz \<Rightarrow> (nat list \<Rightarrow> nat list) \<Rightarrow> 'w move_fn \<Rightarrow> Multi_Rep \<Rightarrow> Z_SearchRequest
    \<Rightarrow> package \<Rightarrow> Multi_Frontend \<Rightarrow> 'w world_scheme \<Rightarrow> (package \<times> Multi_Frontend \<times> 'w world_scheme) option" where
  "Multi_search Y ord mv rep req p f w =
     (let f = Multi_set_requests (\<lambda>b. GDU_Z3950 (APDU_searchRequest (Multi_search_request Y req b))) (mf_backend_list f) f;
          (f, w) = multi_move ord mv (mf_backend_list f) f w;
          (out, sets, result_set_size) = fold (search_outcome f) (mf_backend_list f) (outcome0, [], 0);
          f_resp = (create_searchResponse Y (Some (APDU_searchRequest req)) 0 None)\<lparr>srs_resultCount := result_set_size\<rparr>
      in if out_close out \<noteq> None \<and> (out_successful out = 0 \<or> \<not> m_hide_unavailable rep)
         then Some (close_session (p\<lparr>pkg_response :=
                pkg_response (mb_package (Multi_backend f (the (out_close out))))\<rparr>), f, w)
         else
          (let report = (out_diag out \<noteq> None \<and> (out_successful out = 0 \<or> \<not> m_hide_errors rep)) in
           case (if report then map_option Some (diag_records (the (out_diag out))) else Some (srs_records f_resp)) of
             None \<Rightarrow> None
           | Some recs \<Rightarrow>
               (let f_resp = f_resp\<lparr>srs_records := recs\<rparr>;
                    f = f\<lparr>mf_sets := (mf_sets f)(srq_resultSetName req \<mapsto>
                          \<lparr>m_backend_sets = sets, m_setname = srq_resultSetName req\<rparr>)\<rparr>;
                    number = fst (piggyback (srq_smallSetUpperBound req) (srq_largeSetLowerBound req)
                       (srq_mediumSetPresentNumber req) None None result_set_size None)
                in if out_diag out = None \<and> number > 0
                   then Multi_search_piggyback Y ord mv rep req number f_resp p f w
                   else Some (p\<lparr>pkg_response := Some (GDU_Z3950 (APDU_searchResponse f_resp))\<rparr>, f, w))))"

section \<open>Scan and close\<close>

definition Multi_scan_request :: "yaz \<Rightarrow> Z_ScanRequest \<Rightarrow> Multi_Backend \<Rightarrow> Z_ScanRequest" where
  "Multi_scan_request Y req b =
     (case set_databases_from_zurl Y (mb_vhost b) of
        Some dbs \<Rightarrow> req\<lparr>scq_databaseNames := dbs\<rparr>
      | None \<Rightarrow> req)"

text \<open>
  The loop over the responses: \<open>Inl\<close> is the early return, with the package to return; the
  lists of terms are the accumulator.
\<close>

fun Multi_scan_loop :: "yaz \<Rightarrow> Z_ScanRequest \<Rightarrow> Multi_Frontend \<Rightarrow> nat list \<Rightarrow> package
    \<Rightarrow> ScanTermInfo list \<times> ScanTermInfo list \<Rightarrow> package + package \<times> ScanTermInfo list \<times> ScanTermInfo list" where
  "Multi_scan_loop Y req f [] pkg acc = Inr (pkg, acc)"
| "Multi_scan_loop Y req f (i # is) pkg acc =
     (let p = mb_package (Multi_backend f i);
          pkg = (if is_closed p then close_session pkg else pkg)
      in case pkg_response p of
           Some (GDU_Z3950 (APDU_scanResponse res)) \<Rightarrow>
             (case scs_entries res of
                Some le \<Rightarrow>
                  (case le_nonsurrogateDiagnostics le of
                     Some ds \<Rightarrow>
                       Inl (pkg\<lparr>pkg_response := Some (GDU_Z3950 (APDU_scanResponse
                          ((create_scanResponse Y (Some (APDU_scanRequest req)) 1 None)\<lparr>scs_entries :=
                             Some \<lparr>le_entries = None, le_nonsurrogateDiagnostics = Some ds\<rparr>\<rparr>)))\<rparr>)
                   | None \<Rightarrow> Multi_scan_loop Y req f is pkg (scan_merge_one req res acc))
              | None \<Rightarrow> Multi_scan_loop Y req f is pkg acc)
         | _ \<Rightarrow> Inl (pkg\<lparr>pkg_response := pkg_response p\<rparr>))"

definition Multi_scan :: "yaz \<Rightarrow> (nat list \<Rightarrow> nat list) \<Rightarrow> 'w move_fn \<Rightarrow> Z_ScanRequest
    \<Rightarrow> package \<Rightarrow> Multi_Frontend \<Rightarrow> 'w world_scheme \<Rightarrow> (package \<times> Multi_Frontend \<times> 'w world_scheme) option" where
  "Multi_scan Y ord mv req p f w =
     (let f = Multi_set_requests (\<lambda>b. GDU_Z3950 (APDU_scanRequest (Multi_scan_request Y req b))) (mf_backend_list f) f;
          (f, w) = multi_move ord mv (mf_backend_list f) f w
      in case Multi_scan_loop Y req f (mf_backend_list f) p ([], []) of
           Inl p \<Rightarrow> Some (p, f, w)
         | Inr (p, before, after) \<Rightarrow>
             (case scan_response Y req before after of
                None \<Rightarrow> None
              | Some (resp, a) \<Rightarrow>
                  Some (p\<lparr>pkg_response := Some (GDU_Z3950 (APDU_scanResponse (resp\<lparr>scs_entries :=
                     Some \<lparr>le_entries = Some (map the a), le_nonsurrogateDiagnostics = None\<rparr>\<rparr>)))\<rparr>, f, w)))"

fun Multi_relay_loop :: "Multi_Frontend \<Rightarrow> nat list \<Rightarrow> package \<Rightarrow> package" where
  "Multi_relay_loop f [] pkg = pkg"
| "Multi_relay_loop f (i # is) pkg =
     (let p = mb_package (Multi_backend f i);
          pkg = (if is_closed p then close_session pkg else pkg)
      in Multi_relay_loop f is (pkg\<lparr>pkg_response := pkg_response p\<rparr>))"

definition Multi_relay_apdu :: "(nat list \<Rightarrow> nat list) \<Rightarrow> 'w move_fn \<Rightarrow> Z_APDU \<Rightarrow> package \<Rightarrow> Multi_Frontend
    \<Rightarrow> 'w world_scheme \<Rightarrow> package \<times> Multi_Frontend \<times> 'w world_scheme" where
  "Multi_relay_apdu ord mv apdu_req p f w =
     (let f = Multi_set_requests (\<lambda>_. GDU_Z3950 apdu_req) (mf_backend_list f) f;
          (f, w) = multi_move ord mv (mf_backend_list f) f w
      in (Multi_relay_loop f (mf_backend_list f) p, f, w))"

section \<open>Frontends\<close>

definition Multi_get_frontend :: "package \<Rightarrow> Multi_Rep \<Rightarrow> (Multi_Frontend \<times> Multi_Rep) option" where
  "Multi_get_frontend p rep =
     (case mr_clients rep (m_id (pkg_session p)) of
        Some f \<Rightarrow>
          if \<not> mf_in_use f
          then (let f = f\<lparr>mf_in_use := True\<rparr>
                in Some (f, rep\<lparr>mr_clients := session_map_create (mr_clients rep) f (pkg_session p)\<rparr>))
          else None
      | None \<Rightarrow> Some (Multi_Frontend_new,
          rep\<lparr>mr_clients := session_map_create (mr_clients rep) Multi_Frontend_new (pkg_session p)\<rparr>))"

definition Multi_release_frontend :: "'w move_fn \<Rightarrow> package \<Rightarrow> Multi_Rep \<Rightarrow> 'w world_scheme
    \<Rightarrow> Multi_Rep \<times> 'w world_scheme" where
  "Multi_release_frontend mv p rep w =
     (case mr_clients rep (m_id (pkg_session p)) of
        None \<Rightarrow> (rep, w)
      | Some f \<Rightarrow>
          if is_closed p
          then (rep\<lparr>mr_clients := session_map_release (mr_clients rep) (pkg_session p)\<rparr>, snd (Multi_close mv f w))
          else (rep\<lparr>mr_clients := session_map_create (mr_clients rep) (f\<lparr>mf_in_use := False\<rparr>) (pkg_session p)\<rparr>, w))"

section \<open>Processing\<close>

definition Multi_refuse :: "yaz \<Rightarrow> Z_APDU \<Rightarrow> string \<Rightarrow> package \<Rightarrow> package" where
  "Multi_refuse Y apdu addinfo p =
     close_session (p\<lparr>pkg_response := Some (GDU_Z3950 (create_close Y (Some apdu) Z_Close_protocolError (Some addinfo)))\<rparr>)"

definition Multi_handle :: "yaz \<Rightarrow> string \<Rightarrow> (nat list \<Rightarrow> nat list) \<Rightarrow> 'w move_fn \<Rightarrow> Multi_Rep
    \<Rightarrow> package \<Rightarrow> Multi_Frontend \<Rightarrow> 'w world_scheme \<Rightarrow> (package \<times> Multi_Frontend \<times> 'w world_scheme) option" where
  "Multi_handle Y version ord mv rep p f w =
     (if \<not> mf_is_multi f
      then (case pkg_request p of
          Some (GDU_Z3950 (APDU_initRequest req)) \<Rightarrow> Multi_init Y version ord mv rep req p f w
        | _ \<Rightarrow> (let (p, w) = mv [] p w in Some (p, f, w)))
      else (case pkg_request p of
          Some (GDU_Z3950 apdu) \<Rightarrow>
            (case apdu of
               APDU_initRequest _ \<Rightarrow> Some (Multi_refuse Y apdu ''double init'' p, f, w)
             | APDU_searchRequest req \<Rightarrow> Multi_search Y ord mv rep req p f w
             | APDU_presentRequest req \<Rightarrow>
                 (case Multi_present Y ord mv rep req p f w of
                    None \<Rightarrow> None
                  | Some (p, req, f, w) \<Rightarrow> Some (p\<lparr>pkg_request := Some (GDU_Z3950 (APDU_presentRequest req))\<rparr>, f, w))
             | APDU_scanRequest req \<Rightarrow> Multi_scan Y ord mv req p f w
             | APDU_close _ \<Rightarrow> Some (Multi_relay_apdu ord mv apdu p f w)
             | _ \<Rightarrow> Some (Multi_refuse Y apdu ''unsupported APDU in filter multi'' p, f, w))
        | _ \<Rightarrow> Some (p, f, w)))"

definition Multi_process :: "yaz \<Rightarrow> string \<Rightarrow> (nat list \<Rightarrow> nat list) \<Rightarrow> 'w move_fn \<Rightarrow> Multi_Rep \<Rightarrow> package
    \<Rightarrow> 'w world_scheme \<Rightarrow> ((package \<times> Multi_Rep) \<times> 'w world_scheme) option" where
  "Multi_process Y version ord mv rep p w =
     (case Multi_get_frontend p rep of
        None \<Rightarrow> None
      | Some (f, rep) \<Rightarrow>
          (case Multi_handle Y version ord mv rep p f w of
             None \<Rightarrow> None
           | Some (p', f, w) \<Rightarrow>
               (let rep = rep\<lparr>mr_clients := session_map_create (mr_clients rep) f (pkg_session p)\<rparr>;
                    (rep, w) = Multi_release_frontend mv p' rep w
                in Some ((p', rep), w))))"

section \<open>Configuration\<close>

fun Multi_element :: "xml_node list \<Rightarrow> Multi_Rep \<Rightarrow> mp_exception + Multi_Rep" where
  "Multi_element (n # ns) rep =
     (if node_name n = ''target''
      then (case get_route_auth (n # ns) of
              Inl e \<Rightarrow> Inl e
            | Inr (route, auth) \<Rightarrow>
                (let target = get_text (n # ns);
                     target = (if length target = 0 then route else target)
                 in Inr (rep\<lparr>m_route_patterns := m_route_patterns rep @
                      [\<lparr>mm_target_pattern = target, mm_route = route, mm_auth = auth\<rparr>]\<rparr>)))
      else if node_name n = ''hideunavailable'' then Inr (rep\<lparr>m_hide_unavailable := True\<rparr>)
      else if node_name n = ''hideerrors'' then Inr (rep\<lparr>m_hide_errors := True\<rparr>)
      else if node_name n = ''mergetype''
      then (let mergetype = get_text (n # ns) in
            if mergetype = ''roundrobin'' then Inr (rep\<lparr>m_merge_type := merge_round_robin\<rparr>)
            else if mergetype = ''serveorder'' then Inr (rep\<lparr>m_merge_type := merge_serve_order\<rparr>)
            else Inl (FilterException (''Bad mergetype '' @ mergetype @ '' in multi filter'')))
      else Inl (FilterException (''Bad element '' @ node_name n @ '' in multi filter'')))"
| "Multi_element [] rep = Inr rep"

definition Multi_configure :: "xml_node \<Rightarrow> Multi_Rep \<Rightarrow> mp_exception + Multi_Rep" where
  "Multi_configure ptr rep = for_elements Multi_element (node_children ptr) rep"

section \<open>One package of a session at a time\<close>

definition Multi_busy :: "Multi_Rep \<times> 'w world_scheme \<Rightarrow> 64 word \<Rightarrow> bool" where
  "Multi_busy rw i = (case mr_clients (fst rw) i of Some f \<Rightarrow> mf_in_use f | None \<Rightarrow> False)"

definition Multi_get :: "origin \<Rightarrow> session \<Rightarrow> Multi_Rep \<times> 'w world_scheme \<Rightarrow> (Multi_Rep \<times> 'w world_scheme) option" where
  "Multi_get ori s rw = map_option (\<lambda>(f, rep). (rep, snd rw)) (Multi_get_frontend (Package_new s ori) (fst rw))"

definition Multi_release :: "'w move_fn \<Rightarrow> origin \<Rightarrow> session \<Rightarrow> Multi_Rep \<times> 'w world_scheme \<Rightarrow> Multi_Rep \<times> 'w world_scheme" where
  "Multi_release mv ori s rw = Multi_release_frontend mv (Package_new s ori) (fst rw) (snd rw)"

interpretation multi_pool: frontend_pool Multi_busy "Multi_get ori" "Multi_release mv ori"
  for ori :: origin and mv :: "'w move_fn"
proof unfold_locales
  fix s :: session and rw rw' :: "Multi_Rep \<times> 'w world_scheme" and i
  show "Multi_get ori s rw = None \<longleftrightarrow> Multi_busy rw (m_id s)"
    by (auto simp: Multi_get_def Multi_get_frontend_def Multi_busy_def Package_new_def Let_def split: option.splits)
  show "Multi_get ori s rw = Some rw' \<Longrightarrow> Multi_busy rw' i \<longleftrightarrow> i = m_id s \<or> Multi_busy rw i"
    by (auto simp: Multi_get_def Multi_get_frontend_def Multi_busy_def Package_new_def Multi_Frontend_new_def
        session_map_create_def Let_def split: option.splits if_splits)
  show "Multi_busy (Multi_release mv ori s rw) i \<longleftrightarrow> i \<noteq> m_id s \<and> Multi_busy rw i"
    by (auto simp: Multi_release_def Multi_release_frontend_def Multi_busy_def Package_new_def
        session_map_create_def session_map_release_def split: option.splits)
qed

section \<open>The backends while requests are prepared and moved\<close>

text \<open>What never changes of a backend.\<close>

definition same_backend :: "Multi_Backend \<Rightarrow> Multi_Backend \<Rightarrow> bool" where
  "same_backend b b' \<longleftrightarrow> mb_vhost b' = mb_vhost b \<and> mb_route b' = mb_route b \<and> mb_auth b' = mb_auth b \<and>
     pkg_session (mb_package b') = pkg_session (mb_package b)"

lemma Multi_set_package_simps [simp]:
  "mf_backend_list (Multi_set_package i p f) = mf_backend_list f"
  "mf_sets (Multi_set_package i p f) = mf_sets f"
  "length (mf_backends (Multi_set_package i p f)) = length (mf_backends f)"
  by (simp_all add: Multi_set_package_def)

lemma Multi_backend_set_package:
  "i < length (mf_backends f) \<Longrightarrow>
   Multi_backend (Multi_set_package i p f) j =
     (if j = i then (Multi_backend f i)\<lparr>mb_package := p\<rparr> else Multi_backend f j)"
  by (simp add: Multi_set_package_def Multi_backend_def nth_list_update)

lemma Multi_set_request_simps [simp]:
  "mf_backend_list (Multi_set_request i g f) = mf_backend_list f"
  "mf_sets (Multi_set_request i g f) = mf_sets f"
  "length (mf_backends (Multi_set_request i g f)) = length (mf_backends f)"
  by (simp_all add: Multi_set_request_def)

lemma Multi_backend_set_request:
  "i < length (mf_backends f) \<Longrightarrow>
   Multi_backend (Multi_set_request i g f) j =
     (if j = i then (Multi_backend f i)\<lparr>mb_package := (mb_package (Multi_backend f i))\<lparr>pkg_request := g\<rparr>\<rparr>
      else Multi_backend f j)"
  by (simp add: Multi_set_request_def Multi_backend_set_package)

text \<open>
  A parallel move in any order: each backend of the list is moved once, from the package it
  had, and no other backend is touched.
\<close>

lemma Multi_move_seq_backends:
  assumes "Multi_move_seq mv is (f, w) = (f', w')" and "distinct is" and "\<forall>i \<in> set is. i < length (mf_backends f)"
  shows "mf_backend_list f' = mf_backend_list f \<and> mf_sets f' = mf_sets f \<and>
     length (mf_backends f') = length (mf_backends f) \<and>
     (\<forall>i. i \<notin> set is \<longrightarrow> Multi_backend f' i = Multi_backend f i) \<and>
     (\<forall>i \<in> set is. \<exists>wi. Multi_backend f' i = (Multi_backend f i)\<lparr>mb_package :=
         fst (mv (mb_route (Multi_backend f i)) (mb_package (Multi_backend f i)) wi)\<rparr>)"
  using assms
proof (induction "is" arbitrary: f w)
  case (Cons i js)
  obtain f1 w1 where r: "Multi_Backend_run mv i (f, w) = (f1, w1)" by fastforce
  have i: "i < length (mf_backends f)" "i \<notin> set js" using Cons.prems by auto
  have f1: "f1 = Multi_set_package i (fst (mv (mb_route (Multi_backend f i)) (mb_package (Multi_backend f i)) w)) f"
    using r by (auto simp: Multi_Backend_run_def Let_def split: prod.splits)
  note b1 = Multi_backend_set_package [OF i(1)]
  have "Multi_move_seq mv js (f1, w1) = (f', w')" using Cons.prems(1) r by simp
  then have ih: "mf_backend_list f' = mf_backend_list f1" "mf_sets f' = mf_sets f1"
     "length (mf_backends f') = length (mf_backends f1)"
     "\<And>k. k \<notin> set js \<Longrightarrow> Multi_backend f' k = Multi_backend f1 k"
     "\<And>k. k \<in> set js \<Longrightarrow> \<exists>wk. Multi_backend f' k = (Multi_backend f1 k)\<lparr>mb_package :=
         fst (mv (mb_route (Multi_backend f1 k)) (mb_package (Multi_backend f1 k)) wk)\<rparr>"
    using Cons.IH [of f1 w1] Cons.prems(2,3) f1 by auto
  have "\<exists>wk. Multi_backend f' k = (Multi_backend f k)\<lparr>mb_package :=
      fst (mv (mb_route (Multi_backend f k)) (mb_package (Multi_backend f k)) wk)\<rparr>" if "k \<in> set (i # js)" for k
  proof (cases "k = i")
    case True
    then show ?thesis using ih(4) [OF i(2)] f1 b1 by auto
  next
    case False
    then have "Multi_backend f1 k = Multi_backend f k" "k \<in> set js" using f1 b1 that by auto
    then show ?thesis using ih(5) [of k] by simp
  qed
  moreover have "Multi_backend f' k = Multi_backend f k" if "k \<notin> set (i # js)" for k
    using ih(4) [of k] f1 b1 that by auto
  ultimately show ?case using ih(1-3) f1 by simp
qed simp

end
