(* ===== verification/MP_Multi_Present.thy ===== *)
theory MP_Multi_Present
  imports MP_Multi
begin

text \<open>
  Present requests of the multi filter from end to end: from the jobs of the merge order
  through the requests to the backends, their threads in any order and the responses to the
  merged records.
\<close>

section \<open>The range wanted of a backend\<close>

abbreviation wants :: "nat \<Rightarrow> nat PresentJob list \<Rightarrow> bool" where
  "wants b jobs \<equiv> \<exists>j \<in> set jobs. job_backend j = b"

lemma job_range_items:
  "map job_item js = map job_item js' \<Longrightarrow> job_range b js s e = job_range b js' s e"
proof (induction js arbitrary: js' s e)
  case (Cons j js)
  then obtain j' js'' where "js' = j' # js''" "job_item j = job_item j'" "map job_item js = map job_item js''"
    by (cases js') auto
  then show ?case using Cons.IH by auto
qed simp

lemma job_range_acc:
  assumes "\<And>j. j \<in> set jobs \<Longrightarrow> 1 \<le> job_pos j" and "1 \<le> s" and "s \<le> e" and "job_range b jobs s e = (s', e')"
  shows "1 \<le> s' \<and> s' \<le> s \<and> e \<le> e' \<and> (s' = s \<or> (\<exists>j \<in> set jobs. job_backend j = b \<and> job_pos j = s')) \<and>
     (e' = e \<or> (\<exists>j \<in> set jobs. job_backend j = b \<and> job_pos j = e')) \<and>
     (\<forall>j \<in> set jobs. job_backend j = b \<longrightarrow> s' \<le> job_pos j \<and> job_pos j \<le> e')"
  using assms
proof (induction jobs arbitrary: s e)
  case (Cons j js)
  show ?case
  proof (cases "job_backend j = b")
    case True
    define s1 e1 where "s1 = (if job_pos j < s then job_pos j else s)" and "e1 = (if job_pos j > e then job_pos j else e)"
    have p: "1 \<le> job_pos j" using Cons.prems(1) by simp
    have "job_range b js s1 e1 = (s', e')" "1 \<le> s1" "s1 \<le> e1"
      using Cons.prems True p by (auto simp: s1_def e1_def)
    moreover have "\<And>j. j \<in> set js \<Longrightarrow> 1 \<le> job_pos j" using Cons.prems(1) by simp
    ultimately have ih: "1 \<le> s' \<and> s' \<le> s1 \<and> e1 \<le> e' \<and> (s' = s1 \<or> (\<exists>j \<in> set js. job_backend j = b \<and> job_pos j = s')) \<and>
      (e' = e1 \<or> (\<exists>j \<in> set js. job_backend j = b \<and> job_pos j = e')) \<and>
      (\<forall>j \<in> set js. job_backend j = b \<longrightarrow> s' \<le> job_pos j \<and> job_pos j \<le> e')" using Cons.IH by blast
    have "s1 \<le> s" "s1 \<le> job_pos j" "s1 = s \<or> s1 = job_pos j" "e \<le> e1" "job_pos j \<le> e1" "e1 = e \<or> e1 = job_pos j"
      by (simp_all add: s1_def e1_def)
    with ih True show ?thesis by (auto intro: order_trans)
  next
    case False
    then show ?thesis using Cons by auto
  qed
qed simp

lemma job_range_none: "\<not> wants b jobs \<Longrightarrow> job_range b jobs s e = (s, e)"
  by (induction jobs arbitrary: s e) auto

lemma job_range_spec:
  assumes "\<And>j. j \<in> set jobs \<Longrightarrow> 1 \<le> job_pos j" and "job_range b jobs (-1) (-1) = (s, e)"
  shows "if wants b jobs
     then 1 \<le> s \<and> s \<le> e \<and> (\<exists>j \<in> set jobs. job_backend j = b \<and> job_pos j = e) \<and>
        (\<forall>j \<in> set jobs. job_backend j = b \<longrightarrow> s \<le> job_pos j \<and> job_pos j \<le> e)
     else s = -1"
  using assms
proof (induction jobs)
  case (Cons j js)
  show ?case
  proof (cases "job_backend j = b")
    case True
    have p: "1 \<le> job_pos j" using Cons.prems(1) by simp
    have "job_range b js (job_pos j) (job_pos j) = (s, e)" using Cons.prems(2) True p by auto
    moreover have "\<And>j. j \<in> set js \<Longrightarrow> 1 \<le> job_pos j" using Cons.prems(1) by simp
    ultimately have acc: "1 \<le> s \<and> s \<le> job_pos j \<and> job_pos j \<le> e \<and>
      (e = job_pos j \<or> (\<exists>j \<in> set js. job_backend j = b \<and> job_pos j = e)) \<and>
      (\<forall>j \<in> set js. job_backend j = b \<longrightarrow> s \<le> job_pos j \<and> job_pos j \<le> e)"
      using job_range_acc [of js "job_pos j" "job_pos j" b s e] p by blast
    have w: "wants b (j # js)" using True by simp
    show ?thesis using acc True unfolding if_P [OF w] by auto
  next
    case False
    then show ?thesis using Cons by auto
  qed
qed simp

section \<open>The requests to the backends\<close>

definition range_start :: "nat PresentJob list \<Rightarrow> nat \<Rightarrow> int" where
  "range_start jobs b = fst (job_range b jobs (-1) (-1))"

definition range_end :: "nat PresentJob list \<Rightarrow> nat \<Rightarrow> int" where
  "range_end jobs b = snd (job_range b jobs (-1) (-1))"

lemma range_spec:
  assumes "\<And>j. j \<in> set jobs \<Longrightarrow> 1 \<le> job_pos j"
  shows "wants b jobs \<longleftrightarrow> range_start jobs b \<noteq> -1"
    and "wants b jobs \<Longrightarrow> 1 \<le> range_start jobs b \<and> range_start jobs b \<le> range_end jobs b \<and>
      (\<exists>j \<in> set jobs. job_backend j = b \<and> job_pos j = range_end jobs b)"
    and "j \<in> set jobs \<Longrightarrow> range_start jobs (job_backend j) \<le> job_pos j \<and> job_pos j \<le> range_end jobs (job_backend j)"
  using job_range_spec [OF assms, of jobs b "range_start jobs b" "range_end jobs b"]
    job_range_spec [OF assms, of jobs "job_backend j" "range_start jobs (job_backend j)" "range_end jobs (job_backend j)"]
  by (auto simp: range_start_def range_end_def split: if_splits)

lemma range_items: "map job_item js = map job_item js' \<Longrightarrow>
   range_start js = range_start js' \<and> range_end js = range_end js'"
  using job_range_items [of js js'] by (auto simp: range_start_def range_end_def fun_eq_iff)

lemma map_item_mark: "map job_item (mark_jobs b s e jobs) = map job_item jobs"
  by (simp add: mark_jobs_def)

lemma length_mark [simp]: "length (mark_jobs b s e jobs) = length jobs"
  by (simp add: mark_jobs_def)

text \<open>The request a backend with wanted records gets.\<close>

definition asked :: "nat PresentJob list \<Rightarrow> nat \<Rightarrow> Z_GDU option \<Rightarrow> bool" where
  "asked jobs b g \<longleftrightarrow> (\<exists>r. g = Some (GDU_Z3950 (APDU_presentRequest r)) \<and>
     prq_resultSetStartPoint r = range_start jobs b \<and>
     prq_numberOfRecordsRequested r = range_end jobs b - range_start jobs b + 1)"

lemma present_requests_result:
  assumes "present_requests bss jobs req plist f = (jobs', req', plist', f')"
    and "\<And>j. j \<in> set jobs \<Longrightarrow> 1 \<le> job_pos j" and "distinct (map bs_backend bss)"
    and "\<And>b. b \<in> set bss \<Longrightarrow> bs_backend b < length (mf_backends f)"
  shows "map job_item jobs' = map job_item jobs \<and>
     plist' = plist @ filter (\<lambda>b. wants b jobs) (map bs_backend bss) \<and>
     (\<forall>k < length jobs. job_start (jobs' ! k) =
        (if job_backend (jobs ! k) \<in> bs_backend ` set bss then range_start jobs (job_backend (jobs ! k))
         else job_start (jobs ! k))) \<and>
     length (mf_backends f') = length (mf_backends f) \<and> mf_sets f' = mf_sets f \<and> mf_backend_list f' = mf_backend_list f \<and>
     (\<forall>i. same_backend (Multi_backend f i) (Multi_backend f' i) \<and>
        (i \<in> bs_backend ` set bss \<and> wants i jobs \<longrightarrow> asked jobs i (pkg_request (mb_package (Multi_backend f' i)))) \<and>
        (i \<notin> bs_backend ` set bss \<longrightarrow> Multi_backend f' i = Multi_backend f i))"
  using assms
proof (induction bss arbitrary: jobs req plist f)
  case Nil
  then show ?case by (simp add: same_backend_def)
next
  case (Cons bs bss)
  let ?b = "bs_backend bs"
  have ne: "?b \<notin> bs_backend ` set bss" using Cons.prems(3) by simp
  have lt: "?b < length (mf_backends f)" using Cons.prems(4) by simp
  show ?case
  proof (cases "wants ?b jobs")
    case False
    have "present_requests bss jobs req plist f = (jobs', req', plist', f')"
      using Cons.prems(1) job_range_none [OF False] by simp
    note ih = Cons.IH [OF this Cons.prems(2)]
    have no: "job_backend (jobs ! k) \<noteq> ?b" if "k < length jobs" for k using False that by auto
    from ih Cons.prems(3,4) False no show ?thesis by auto
  next
    case True
    define s e where "s = range_start jobs ?b" and "e = range_end jobs ?b"
    have rng: "job_range ?b jobs (-1) (-1) = (s, e)" by (simp add: s_def e_def range_start_def range_end_def)
    have s: "s \<noteq> -1" using range_spec(1) [of jobs ?b] Cons.prems(2) True by (simp add: s_def)
    define jobs1 where "jobs1 = mark_jobs ?b s e jobs"
    define req1 where "req1 = req\<lparr>prq_resultSetStartPoint := s, prq_numberOfRecordsRequested := e - s + 1\<rparr>"
    define f1 where "f1 = Multi_set_request ?b (Some (GDU_Z3950 (APDU_presentRequest req1))) f"
    have step: "present_requests bss jobs1 req1 (plist @ [?b]) f1 = (jobs', req', plist', f')"
      using Cons.prems(1) rng s by (simp add: jobs1_def req1_def f1_def Let_def)
    have items: "map job_item jobs1 = map job_item jobs" by (simp add: jobs1_def map_item_mark)
    have wants1: "wants i jobs1 = wants i jobs" for i
      using arg_cong [OF items, of "\<lambda>xs. i \<in> fst ` set xs"] by (auto simp: image_image image_iff)
    have pos1: "1 \<le> job_pos j" if "j \<in> set jobs1" for j
      using that Cons.prems(2) by (auto simp: jobs1_def mark_jobs_def split: if_splits)
    have rs: "range_start jobs1 = range_start jobs" "range_end jobs1 = range_end jobs"
      using range_items [OF items] by auto
    have "\<And>b. b \<in> set bss \<Longrightarrow> bs_backend b < length (mf_backends f1)" using Cons.prems(4) by (simp add: f1_def)
    note ih = Cons.IH [OF step pos1 _ this, unfolded rs wants1 items asked_def]
    have dist: "distinct (map bs_backend bss)" using Cons.prems(3) by simp
    have k1: "job_backend (jobs1 ! k) = job_backend (jobs ! k)"
      "job_start (jobs1 ! k) = (if job_backend (jobs ! k) = ?b then s else job_start (jobs ! k))" if "k < length jobs" for k
      using that range_spec(3) [of jobs "jobs ! k"] Cons.prems(2)
      by (auto simp: jobs1_def mark_jobs_def s_def e_def)
    have starts: "job_start (jobs' ! k) =
        (if job_backend (jobs ! k) \<in> bs_backend ` set (bs # bss) then range_start jobs (job_backend (jobs ! k))
         else job_start (jobs ! k))" if "k < length jobs" for k
    proof -
      have "k < length jobs1" using that by (simp add: jobs1_def)
      then have "job_start (jobs' ! k) = (if job_backend (jobs1 ! k) \<in> bs_backend ` set bss
          then range_start jobs (job_backend (jobs1 ! k)) else job_start (jobs1 ! k))" using ih [OF _ dist] by blast
      then show ?thesis using k1 [OF that] ne s_def by auto
    qed
    have backs: "same_backend (Multi_backend f1 i) (Multi_backend f' i)"
      "i \<in> bs_backend ` set bss \<Longrightarrow> wants i jobs \<Longrightarrow> asked jobs i (pkg_request (mb_package (Multi_backend f' i)))"
      "i \<notin> bs_backend ` set bss \<Longrightarrow> Multi_backend f' i = Multi_backend f1 i" for i
      using ih [OF _ dist] unfolding asked_def by blast+
    have b1: "Multi_backend f1 i = (if i = ?b then (Multi_backend f i)\<lparr>mb_package :=
        (mb_package (Multi_backend f i))\<lparr>pkg_request := Some (GDU_Z3950 (APDU_presentRequest req1))\<rparr>\<rparr>
        else Multi_backend f i)" for i
      unfolding f1_def by (simp add: Multi_backend_set_request [OF lt])
    have same: "same_backend (Multi_backend f i) (Multi_backend f' i)" for i
      using backs(1) [of i] b1 [of i] by (auto simp: same_backend_def)
    have here: "asked jobs ?b (pkg_request (mb_package (Multi_backend f' ?b)))"
      using backs(3) [OF ne] b1 [of ?b] by (simp add: asked_def req1_def s_def e_def)
    have "plist' = plist @ filter (\<lambda>b. wants b jobs) (map bs_backend (bs # bss))"
      "map job_item jobs' = map job_item jobs"
      "length (mf_backends f') = length (mf_backends f)" "mf_sets f' = mf_sets f" "mf_backend_list f' = mf_backend_list f"
      using ih [OF _ dist] True by (simp_all add: f1_def)
    then show ?thesis using starts same here backs(2,3) b1 by auto
  qed
qed

lemma present_requests_ref:
  "present_requests bss jobs req plist f = (jobs', req', plist', f') \<Longrightarrow> prq_referenceId req' = prq_referenceId req"
  by (induction bss arbitrary: jobs req plist f) (fastforce simp: Let_def split: prod.splits if_splits)+

section \<open>Targets that hold result sets\<close>

text \<open>
  Backend \<open>i\<close> holds the records \<open>R i\<close> and answers present requests within them; the order of
  the threads visits every backend once.
\<close>

definition Multi_serves :: "Multi_Frontend \<Rightarrow> (nat \<Rightarrow> Z_NamePlusRecord list) \<Rightarrow> 'w move_fn \<Rightarrow> bool" where
  "Multi_serves f R mv \<longleftrightarrow>
     (\<forall>i q w r. i < length (mf_backends f) \<longrightarrow> pkg_session q = pkg_session (mb_package (Multi_backend f i)) \<longrightarrow>
        pkg_request q = Some (GDU_Z3950 (APDU_presentRequest r)) \<longrightarrow>
        1 \<le> prq_resultSetStartPoint r \<longrightarrow> 1 \<le> prq_numberOfRecordsRequested r \<longrightarrow>
        prq_resultSetStartPoint r + prq_numberOfRecordsRequested r - 1 \<le> int (length (R i)) \<longrightarrow>
        (\<exists>resp. fst (mv (mb_route (Multi_backend f i)) q w) =
             q\<lparr>pkg_response := Some (GDU_Z3950 (APDU_presentResponse resp))\<rparr> \<and>
           prs_records resp = Some (Records_DBOSD (take (nat (prq_numberOfRecordsRequested r))
             (drop (nat (prq_resultSetStartPoint r - 1)) (R i))))))"

definition thread_order :: "(nat list \<Rightarrow> nat list) \<Rightarrow> bool" where
  "thread_order ord \<longleftrightarrow> (\<forall>xs. mset (ord xs) = mset xs)"

lemma thread_orderD: "thread_order ord \<Longrightarrow> distinct xs \<Longrightarrow> distinct (ord xs) \<and> set (ord xs) = set xs"
  unfolding thread_order_def by (metis mset_eq_imp_distinct_iff set_mset_mset)

text \<open>A backend that has answered with the wanted range.\<close>

definition answered :: "nat PresentJob list \<Rightarrow> (nat \<Rightarrow> Z_NamePlusRecord list) \<Rightarrow> nat \<Rightarrow> package \<Rightarrow> bool" where
  "answered jobs R i p \<longleftrightarrow> \<not> is_closed p \<and>
     (\<exists>resp. pkg_response p = Some (GDU_Z3950 (APDU_presentResponse resp)) \<and>
        prs_records resp = Some (Records_DBOSD (take (nat (range_end jobs i - range_start jobs i + 1))
          (drop (nat (range_start jobs i - 1)) (R i)))))"

lemma answered_outcome:
  assumes "\<And>i. i \<in> set is \<Longrightarrow> answered jobs R i (mb_package (Multi_backend f i))"
    and "out_diag a = None" and "out_close a = None"
  shows "out_diag (fold (present_outcome f) is a) = None \<and> out_close (fold (present_outcome f) is a) = None"
  using assms
proof (induction "is" arbitrary: a)
  case (Cons i js)
  have "answered jobs R i (mb_package (Multi_backend f i))" using Cons.prems(1) by simp
  then have "out_diag (present_outcome f i a) = None" "out_close (present_outcome f i a) = None"
    using Cons.prems(2,3)
    by (auto simp: answered_def present_outcome_def note_records_def record_diagnostics_def Let_def)
  then show ?case using Cons by simp
qed simp

text \<open>The record of a job.\<close>

definition job_record :: "Multi_Frontend \<Rightarrow> (nat \<Rightarrow> Z_NamePlusRecord list) \<Rightarrow> nat \<times> int \<Rightarrow> Z_NamePlusRecord" where
  "job_record f R bp = (R (fst bp) ! nat (snd bp - 1))\<lparr>npr_databaseName := Some (mb_vhost (Multi_backend f (fst bp)))\<rparr>"

lemma merge_records_answered:
  assumes "\<And>j. j \<in> set js \<Longrightarrow> answered jobs R (job_backend j) (mb_package (Multi_backend f (job_backend j)))"
    and "\<And>j. j \<in> set js \<Longrightarrow> job_start j = range_start jobs (job_backend j) \<and> 1 \<le> job_start j \<and> job_start j \<le> job_pos j \<and>
       job_pos j \<le> range_end jobs (job_backend j) \<and> range_end jobs (job_backend j) \<le> int (length (R (job_backend j)))"
  shows "merge_records f js = Some (map (\<lambda>j. job_record f R (job_item j)) js)"
  using assms
proof (induction js)
  case (Cons j js)
  let ?i = "job_backend j"
  obtain resp where resp: "pkg_response (mb_package (Multi_backend f ?i)) = Some (GDU_Z3950 (APDU_presentResponse resp))"
    "prs_records resp = Some (Records_DBOSD (take (nat (range_end jobs ?i - range_start jobs ?i + 1))
       (drop (nat (range_start jobs ?i - 1)) (R ?i))))"
    using Cons.prems(1) [of j] by (auto simp: answered_def)
  define rs where "rs = take (nat (range_end jobs ?i - range_start jobs ?i + 1)) (drop (nat (range_start jobs ?i - 1)) (R ?i))"
  have p: "job_start j = range_start jobs ?i" "1 \<le> job_start j" "job_start j \<le> job_pos j"
    "job_pos j \<le> range_end jobs ?i" "range_end jobs ?i \<le> int (length (R ?i))" using Cons.prems(2) [of j] by auto
  have inside: "job_pos j - job_start j < int (length rs)" using p by (simp add: rs_def)
  have "rs ! nat (job_pos j - job_start j) = R ?i ! (nat (range_start jobs ?i - 1) + nat (job_pos j - job_start j))"
    using p inside by (simp add: rs_def)
  also have "nat (range_start jobs ?i - 1) + nat (job_pos j - job_start j) = nat (job_pos j - 1)" using p by arith
  finally have rec: "rs ! nat (job_pos j - job_start j) = R ?i ! nat (job_pos j - 1)" .
  have "merge_records f js = Some (map (\<lambda>j. job_record f R (job_item j)) js)"
    using Cons.prems by (intro Cons.IH) (meson list.set_intros(2))+
  then show ?case using resp inside rec p(3) by (simp add: rs_def [symmetric] job_record_def)
qed simp

section \<open>A present request from end to end\<close>

text \<open>A request leaves the result sets, the backend list and what never changes of the backends.\<close>

definition Multi_keeps :: "Multi_Frontend \<Rightarrow> Multi_Frontend \<Rightarrow> bool" where
  "Multi_keeps f f' \<longleftrightarrow> mf_sets f' = mf_sets f \<and> mf_backend_list f' = mf_backend_list f \<and>
     length (mf_backends f') = length (mf_backends f) \<and>
     (\<forall>i < length (mf_backends f). same_backend (Multi_backend f i) (Multi_backend f' i))"

text \<open>The result set of a frontend is in order: its backends are distinct, open and hold as many records as counted.\<close>

definition set_in_order :: "Multi_Frontend \<Rightarrow> (nat \<Rightarrow> Z_NamePlusRecord list) \<Rightarrow> nat BackendSet list \<Rightarrow> bool" where
  "set_in_order f R sets \<longleftrightarrow> distinct (map bs_backend sets) \<and>
     (\<forall>b \<in> set sets. bs_backend b < length (mf_backends f) \<and> bs_count b = int (length (R (bs_backend b))) \<and>
        \<not> is_closed (mb_package (Multi_backend f (bs_backend b))))"

lemma Multi_serves_keeps: "Multi_keeps f f' \<Longrightarrow> Multi_serves f R mv \<Longrightarrow> Multi_serves f' R mv"
  unfolding Multi_serves_def Multi_keeps_def by (simp add: same_backend_def)

lemma set_in_order_keeps: "Multi_keeps f f' \<Longrightarrow> set_in_order f R sets \<Longrightarrow> set_in_order f' R sets"
  unfolding set_in_order_def Multi_keeps_def by (simp add: same_backend_def)

lemma moved_answered:
  assumes "Multi_serves f R mv" and "same_backend (Multi_backend f i) (Multi_backend f1 i)"
    and "i < length (mf_backends f)" and "\<not> is_closed (mb_package (Multi_backend f i))"
    and "asked jobs i (pkg_request (mb_package (Multi_backend f1 i)))"
    and "1 \<le> range_start jobs i" and "range_start jobs i \<le> range_end jobs i" and "range_end jobs i \<le> int (length (R i))"
  shows "answered jobs R i (fst (mv (mb_route (Multi_backend f1 i)) (mb_package (Multi_backend f1 i)) w)) \<and>
    pkg_session (fst (mv (mb_route (Multi_backend f1 i)) (mb_package (Multi_backend f1 i)) w)) =
      pkg_session (mb_package (Multi_backend f i))"
proof -
  let ?q = "mb_package (Multi_backend f1 i)"
  obtain r where r: "pkg_request ?q = Some (GDU_Z3950 (APDU_presentRequest r))"
    "prq_resultSetStartPoint r = range_start jobs i"
    "prq_numberOfRecordsRequested r = range_end jobs i - range_start jobs i + 1"
    using assms(5) by (auto simp: asked_def)
  have "pkg_session ?q = pkg_session (mb_package (Multi_backend f i))" "mb_route (Multi_backend f1 i) = mb_route (Multi_backend f i)"
    using assms(2) by (simp_all add: same_backend_def)
  moreover from this obtain resp where "fst (mv (mb_route (Multi_backend f i)) ?q w) =
      ?q\<lparr>pkg_response := Some (GDU_Z3950 (APDU_presentResponse resp))\<rparr>"
    "prs_records resp = Some (Records_DBOSD (take (nat (prq_numberOfRecordsRequested r))
       (drop (nat (prq_resultSetStartPoint r - 1)) (R i))))"
    using assms(1) [unfolded Multi_serves_def, rule_format, OF assms(3) _ r(1)] r(2,3) assms(6-8) by auto
  ultimately show ?thesis using r(2,3) assms(4) by (simp add: answered_def)
qed

text \<open>Every job stands for a record of a backend of the set.\<close>

definition jobs_fit :: "nat BackendSet list \<Rightarrow> nat PresentJob list \<Rightarrow> bool" where
  "jobs_fit sets jobs \<longleftrightarrow> (\<forall>j \<in> set jobs. \<exists>b \<in> set sets.
     job_backend j = bs_backend b \<and> 1 \<le> job_pos j \<and> job_pos j \<le> bs_count b)"

lemma jobs_fitD: "jobs_fit sets jobs \<Longrightarrow> j \<in> set jobs \<Longrightarrow> 1 \<le> job_pos j"
  by (auto simp: jobs_fit_def)

lemma set_in_orderD:
  assumes "set_in_order f R sets"
  shows "distinct (map bs_backend sets)"
    and "b \<in> set sets \<Longrightarrow> bs_backend b < length (mf_backends f)"
    and "b \<in> set sets \<Longrightarrow> bs_count b = int (length (R (bs_backend b)))"
    and "b \<in> set sets \<Longrightarrow> \<not> is_closed (mb_package (Multi_backend f (bs_backend b)))"
  using assms by (auto simp: set_in_order_def)

lemma wanted_range:
  assumes "set_in_order f R sets" and "jobs_fit sets jobs" and "wants i jobs"
  shows "1 \<le> range_start jobs i" "range_start jobs i \<le> range_end jobs i" "range_end jobs i \<le> int (length (R i))"
proof -
  note spec = range_spec(2) [of jobs, OF jobs_fitD [OF assms(2)] assms(3)]
  show "1 \<le> range_start jobs i" "range_start jobs i \<le> range_end jobs i" using spec by auto
  from spec obtain j where "j \<in> set jobs" "job_backend j = i" "job_pos j = range_end jobs i" by blast
  then show "range_end jobs i \<le> int (length (R i))"
    using assms(2) set_in_orderD(3) [OF assms(1)] by (force simp: jobs_fit_def)
qed

lemma prepared_jobs:
  assumes "present_requests sets jobs req [] f = (jobs1, req1, plist, f1)"
    and "set_in_order f R sets" and "jobs_fit sets jobs" and "j \<in> set jobs1"
  shows "job_start j = range_start jobs (job_backend j) \<and> 1 \<le> job_start j \<and> job_start j \<le> job_pos j \<and>
      job_pos j \<le> range_end jobs (job_backend j) \<and> range_end jobs (job_backend j) \<le> int (length (R (job_backend j)))"
    and "job_backend j \<in> set plist"
proof -
  note pos = jobs_fitD [OF assms(3)]
  note res = present_requests_result [OF assms(1) pos set_in_orderD(1,2) [OF assms(2)]]
  have items: "map job_item jobs1 = map job_item jobs" using res by simp
  have len: "length jobs1 = length jobs" using arg_cong [OF items, of length] by simp
  obtain k where k: "k < length jobs" "j = jobs1 ! k" using assms(4) len by (metis in_set_conv_nth)
  have it: "job_item j = job_item (jobs ! k)" using arg_cong [OF items, of "\<lambda>xs. xs ! k"] k len by simp
  have jk: "jobs ! k \<in> set jobs" using k(1) by simp
  obtain b where b: "b \<in> set sets" "job_backend (jobs ! k) = bs_backend b"
    using assms(3) jk by (auto simp: jobs_fit_def)
  have w: "wants (job_backend j) jobs" using jk it by auto
  have "job_start j = range_start jobs (job_backend j)" using res k it b by auto
  moreover have "range_start jobs (job_backend j) \<le> job_pos j \<and> job_pos j \<le> range_end jobs (job_backend j)"
    using range_spec(3) [of jobs, OF pos jk] it by simp
  ultimately show "job_start j = range_start jobs (job_backend j) \<and> 1 \<le> job_start j \<and> job_start j \<le> job_pos j \<and>
      job_pos j \<le> range_end jobs (job_backend j) \<and> range_end jobs (job_backend j) \<le> int (length (R (job_backend j)))"
    using wanted_range [OF assms(2,3) w] by simp
  show "job_backend j \<in> set plist" using res b it w by auto
qed

lemma moved_backends:
  assumes "present_requests sets jobs req [] f = (jobs1, req1, plist, f1)"
    and "set_in_order f R sets" and "jobs_fit sets jobs" and "Multi_serves f R mv" and "thread_order ord"
    and "multi_move ord mv plist f1 w = (f2, w2)" and "i \<in> set plist"
  shows "answered jobs R i (mb_package (Multi_backend f2 i)) \<and> same_backend (Multi_backend f i) (Multi_backend f2 i)"
proof -
  note order = set_in_orderD [OF assms(2)]
  note res = present_requests_result [OF assms(1) jobs_fitD [OF assms(3)] order(1,2)]
  have plist: "plist = filter (\<lambda>b. wants b jobs) (map bs_backend sets)" using res by simp
  have "distinct plist" unfolding plist using order(1) by (rule distinct_filter)
  then have ord: "distinct (ord plist)" "set (ord plist) = set plist" using thread_orderD [OF assms(5)] by auto
  have "length (mf_backends f1) = length (mf_backends f)" using res by simp
  then have "\<forall>i \<in> set (ord plist). i < length (mf_backends f1)" using ord(2) plist order(2) by auto
  note moved = Multi_move_seq_backends [OF assms(6) [unfolded multi_move_def] ord(1) this, unfolded ord(2)]
  obtain wi where f2: "Multi_backend f2 i = (Multi_backend f1 i)\<lparr>mb_package :=
      fst (mv (mb_route (Multi_backend f1 i)) (mb_package (Multi_backend f1 i)) wi)\<rparr>"
    using bspec [OF moved [THEN conjunct2, THEN conjunct2, THEN conjunct2, THEN conjunct2] assms(7)] by (rule exE)
  have i: "wants i jobs" "i \<in> bs_backend ` set sets" using assms(7) plist by auto
  then have "i < length (mf_backends f)" "\<not> is_closed (mb_package (Multi_backend f i))" using order(2,4) by auto
  moreover have same: "same_backend (Multi_backend f i) (Multi_backend f1 i)"
    and "asked jobs i (pkg_request (mb_package (Multi_backend f1 i)))" using res i by blast+
  ultimately show ?thesis
    using moved_answered [OF assms(4)] wanted_range [OF assms(2,3) i(1)] same f2 by (simp add: same_backend_def)
qed

lemma moved_keeps:
  assumes "present_requests sets jobs req [] f = (jobs1, req1, plist, f1)"
    and "set_in_order f R sets" and "jobs_fit sets jobs" and "Multi_serves f R mv" and "thread_order ord"
    and "multi_move ord mv plist f1 w = (f2, w2)"
  shows "Multi_keeps f f2"
proof -
  note order = set_in_orderD [OF assms(2)]
  note res = present_requests_result [OF assms(1) jobs_fitD [OF assms(3)] order(1,2)]
  have plist: "plist = filter (\<lambda>b. wants b jobs) (map bs_backend sets)" using res by simp
  have "distinct plist" unfolding plist using order(1) by (rule distinct_filter)
  then have ord: "distinct (ord plist)" "set (ord plist) = set plist" using thread_orderD [OF assms(5)] by auto
  have "\<forall>i \<in> set (ord plist). i < length (mf_backends f1)" using res ord(2) plist order(2) by auto
  note moved = Multi_move_seq_backends [OF assms(6) [unfolded multi_move_def] ord(1) this, unfolded ord(2)]
  have "same_backend (Multi_backend f i) (Multi_backend f2 i)" for i
  proof (cases "i \<in> set plist")
    case True
    then show ?thesis using moved_backends [OF assms] by blast
  next
    case False
    then have "Multi_backend f2 i = Multi_backend f1 i" using moved by blast
    then show ?thesis using res by metis
  qed
  then show ?thesis using moved res by (simp add: Multi_keeps_def)
qed

lemma Multi_present_merged:
  assumes "mf_sets f (prq_resultSetId req) = Some fset" and "set_in_order f R (m_backend_sets fset)"
    and "Multi_serves f R mv" and "thread_order ord"
    and "jobs = Multi_jobs rep fset (to_int32 (prq_resultSetStartPoint req)) (to_int32 (prq_numberOfRecordsRequested req))"
    and "jobs_fit (m_backend_sets fset) jobs"
    and "0 \<le> to_int32 (prq_numberOfRecordsRequested req)" and "to_int32 (prq_numberOfRecordsRequested req) \<le> int (length jobs)"
  shows "\<exists>req' f' w'. Multi_present Y ord mv rep req p f w = Some (p\<lparr>pkg_response := Some (GDU_Z3950 (APDU_presentResponse
     ((create_presentResponse Y (Some (APDU_presentRequest req)) 0 None)\<lparr>
        prs_records := Some (Records_DBOSD (map (\<lambda>j. job_record f R (job_item j)) jobs)),
        prs_nextResultSetPosition := to_int32 (prq_resultSetStartPoint req) + int (length jobs),
        prs_numberOfRecordsReturned := int (length jobs)\<rparr>)))\<rparr>, req', f', w') \<and> Multi_keeps f f'"
proof -
  obtain jobs1 req1 plist f1 where pr: "present_requests (m_backend_sets fset) jobs req [] f = (jobs1, req1, plist, f1)"
    using prod_cases4 by blast
  obtain f2 w2 where mv: "multi_move ord mv plist f1 w = (f2, w2)" by fastforce
  note moved = moved_backends [OF pr assms(2,6,3,4) mv]
  note prep = prepared_jobs [OF pr assms(2,6)]
  have items: "map job_item jobs1 = map job_item jobs"
    using present_requests_result [OF pr jobs_fitD [OF assms(6)] set_in_orderD(1,2) [OF assms(2)]] by simp
  have len: "length jobs1 = length jobs" using arg_cong [OF items, of length] by simp
  have out: "out_diag (fold (present_outcome f2) plist outcome0) = None \<and> out_close (fold (present_outcome f2) plist outcome0) = None"
    by (rule answered_outcome [of plist jobs R]) (use moved in \<open>simp_all add: outcome0_def\<close>)
  have "merge_records f2 jobs1 = Some (map (\<lambda>j. job_record f2 R (job_item j)) jobs1)"
    using prep moved by (intro merge_records_answered) blast+
  also have "map (\<lambda>j. job_record f2 R (job_item j)) jobs1 = map (job_record f R) (map job_item jobs1)"
    using moved prep(2) by (auto simp: job_record_def same_backend_def)
  also have "\<dots> = map (\<lambda>j. job_record f R (job_item j)) jobs" unfolding items by simp
  finally have recs: "merge_records f2 jobs1 = Some (map (\<lambda>j. job_record f R (job_item j)) jobs)" .
  have ref: "create_presentResponse Y (Some (APDU_presentRequest req1)) 0 None = create_presentResponse Y (Some (APDU_presentRequest req)) 0 None"
    using present_requests_ref [OF pr] by (simp add: create_presentResponse_def source_referenceId_def)
  show ?thesis
    using assms(1,5,7,8) pr mv out recs len ref moved_keeps [OF pr assms(2,6,3,4) mv]
    by (simp add: Multi_present_def Let_def)
qed

text \<open>The merged sequence of the configured order.\<close>

definition Multi_merged :: "Multi_Rep \<Rightarrow> nat BackendSet list \<Rightarrow> (nat \<times> int) list" where
  "Multi_merged rep sets = (case m_merge_type rep of
     merge_round_robin \<Rightarrow> rr_sequence sets | merge_serve_order \<Rightarrow> serve_sequence sets)"

lemma Multi_jobs_order:
  assumes "m_merge_type rep = merge_round_robin \<longrightarrow> two_counts (m_backend_sets fset)"
    and "\<forall>b \<in> set (m_backend_sets fset). 0 \<le> bs_count b" and "1 \<le> start" and "0 \<le> number"
  shows "map job_item (Multi_jobs rep fset start number) = window (Multi_merged rep (m_backend_sets fset)) start number"
    and "int (length (Multi_jobs rep fset start number)) =
       min number (max 0 (int (length (serve_sequence (m_backend_sets fset))) - (start - 1)))"
    and "j \<in> set (Multi_jobs rep fset start number) \<Longrightarrow>
       \<exists>b \<in> set (m_backend_sets fset). job_backend j = bs_backend b \<and> 1 \<le> job_pos j \<and> job_pos j \<le> bs_count b"
proof -
  have rr: "Multi_jobs rep fset start number = round_robin (m_backend_sets fset) start number"
    "Multi_merged rep (m_backend_sets fset) = rr_sequence (m_backend_sets fset)" "two_counts (m_backend_sets fset)"
    if "m_merge_type rep = merge_round_robin" using that assms(1) by (simp_all add: Multi_jobs_def Multi_merged_def)
  have so: "Multi_jobs rep fset start number = serve_order (m_backend_sets fset) start number"
    "Multi_merged rep (m_backend_sets fset) = serve_sequence (m_backend_sets fset)"
    if "m_merge_type rep = merge_serve_order" using that by (simp_all add: Multi_jobs_def Multi_merged_def)
  show "map job_item (Multi_jobs rep fset start number) = window (Multi_merged rep (m_backend_sets fset)) start number"
    using rr so rr.merge_window [OF rr(3) assms(3)] so.merge_window [OF assms(2,3)]
    by (cases "m_merge_type rep") metis+
  show "int (length (Multi_jobs rep fset start number)) =
       min number (max 0 (int (length (serve_sequence (m_backend_sets fset))) - (start - 1)))"
    using rr so rr.number_of_jobs [OF rr(3) assms(3,4)] so.number_of_jobs [OF assms(2-4)]
    by (cases "m_merge_type rep") metis+
  show "\<exists>b \<in> set (m_backend_sets fset). job_backend j = bs_backend b \<and> 1 \<le> job_pos j \<and> job_pos j \<le> bs_count b"
    if "j \<in> set (Multi_jobs rep fset start number)"
    using that rr so rr.job_in_range [OF rr(3) assms(3)] so.job_in_range [OF assms(2,3)]
    by (cases "m_merge_type rep") metis+
qed

lemma Multi_present_window:
  assumes "mf_sets f (prq_resultSetId req) = Some fset" and "set_in_order f R (m_backend_sets fset)"
    and "Multi_serves f R mv" and "thread_order ord"
    and "m_merge_type rep = merge_round_robin \<longrightarrow> two_counts (m_backend_sets fset)"
    and "prq_resultSetStartPoint req = start" and "prq_numberOfRecordsRequested req = number"
    and "1 \<le> start" and "0 \<le> number" and "start + number < 2 ^ 31"
    and "start + number - 1 \<le> int (length (serve_sequence (m_backend_sets fset)))"
  shows "\<exists>req' f' w'. Multi_present Y ord mv rep req p f w = Some (p\<lparr>pkg_response := Some (GDU_Z3950 (APDU_presentResponse
     ((create_presentResponse Y (Some (APDU_presentRequest req)) 0 None)\<lparr>
        prs_records := Some (Records_DBOSD (map (job_record f R) (window (Multi_merged rep (m_backend_sets fset)) start number))),
        prs_nextResultSetPosition := start + number,
        prs_numberOfRecordsReturned := number\<rparr>)))\<rparr>, req', f', w') \<and> Multi_keeps f f'"
proof -
  let ?jobs = "Multi_jobs rep fset start number"
  have i32: "to_int32 start = start" "to_int32 number = number" using assms(8-10) by auto
  have "\<forall>b \<in> set (m_backend_sets fset). 0 \<le> bs_count b" using assms(2) by (simp add: set_in_order_def)
  note order = Multi_jobs_order [of rep fset, OF assms(5) this assms(8,9)]
  have len: "int (length ?jobs) = number" using order(2) assms(8,9,11) by simp
  have "map (\<lambda>j. job_record f R (job_item j)) ?jobs = map (job_record f R) (map job_item ?jobs)" by simp
  also have "\<dots> = map (job_record f R) (window (Multi_merged rep (m_backend_sets fset)) start number)" by (simp only: order(1))
  finally have recs: "map (\<lambda>j. job_record f R (job_item j)) ?jobs =
     map (job_record f R) (window (Multi_merged rep (m_backend_sets fset)) start number)" .
  show ?thesis
    using Multi_present_merged [OF assms(1-4) refl, of rep Y p w, unfolded assms(6,7) i32] order(3) len recs assms(9)
    by (simp add: jobs_fit_def)
qed


section \<open>An instance\<close>

text \<open>Two targets that hold two and one records; the threads run in reverse order.\<close>

definition session_target :: "(64 word \<Rightarrow> Z_NamePlusRecord list) \<Rightarrow> 'w move_fn" where
  "session_target RS r q w = (case pkg_request q of
     Some (GDU_Z3950 (APDU_presentRequest pr)) \<Rightarrow>
       (q\<lparr>pkg_response := Some (GDU_Z3950 (APDU_presentResponse ((zget_presentResponse yaz_ref)\<lparr>prs_records :=
          Some (Records_DBOSD (take (nat (prq_numberOfRecordsRequested pr))
            (drop (nat (prq_resultSetStartPoint pr - 1)) (RS (m_id (pkg_session q))))))\<rparr>)))\<rparr>, w)
   | _ \<Rightarrow> (q, w))"

lemma session_target_serves:
  "(\<And>i. i < length (mf_backends f) \<Longrightarrow> R i = RS (m_id (pkg_session (mb_package (Multi_backend f i))))) \<Longrightarrow>
   Multi_serves f R (session_target RS)"
  by (auto simp: Multi_serves_def session_target_def)

abbreviation multi_backend_demo :: "64 word \<Rightarrow> string \<Rightarrow> Multi_Backend" where
  "multi_backend_demo i v \<equiv> \<lparr>mb_package = Package_new \<lparr>m_id = i, m_close = False\<rparr> Origin_new, mb_vhost = v,
     mb_route = [], mb_auth = []\<rparr>"

abbreviation multi_demo :: Multi_Frontend where
  "multi_demo \<equiv> \<lparr>mf_is_multi = True, mf_in_use = True,
     mf_backends = [multi_backend_demo 5 ''h1'', multi_backend_demo 6 ''h2''], mf_backend_list = [0, 1],
     mf_sets = [''default'' \<mapsto> \<lparr>m_backend_sets = [\<lparr>bs_backend = 0, bs_count = 2\<rparr>, \<lparr>bs_backend = 1, bs_count = 1\<rparr>],
        m_setname = ''default''\<rparr>]\<rparr>"

abbreviation demo_npr :: "string \<Rightarrow> Z_NamePlusRecord" where
  "demo_npr s \<equiv> \<lparr>npr_databaseName = None, npr_record = text_record s\<rparr>"

abbreviation demo_sets :: "nat \<Rightarrow> Z_NamePlusRecord list" where
  "demo_sets i \<equiv> (if i = 0 then [demo_npr ''a1'', demo_npr ''a2''] else [demo_npr ''b1''])"


text \<open>
  The setting that hides unavailable targets has no influence on present requests: a target that
  closes its session during a present request is dealt with by the setting that hides errors.\<close>
lemma Multi_present_ignores_hide_unavailable:
  "Multi_present Y ord mv (rep\<lparr>m_hide_unavailable := u\<rparr>) req p f w = Multi_present Y ord mv rep req p f w"
  by (simp add: Multi_present_def Multi_jobs_def Let_def prod.case_eq_if split: option.split)

end
