(* ===== verification/MP_Multi_Search.thy ===== *)
theory MP_Multi_Search
  imports MP_Multi_Present
begin

text \<open>
  A search through the multi filter from end to end: every backend is searched, the hits are
  added up, the result set of the client is the list of the backends with their hits, and
  records that the client asked for with the search are those of the merged sequence.
\<close>

section \<open>Asking all backends\<close>

lemma Multi_set_requests_backends:
  assumes "distinct is" and "\<forall>i \<in> set is. i < length (mf_backends f)"
  shows "mf_backend_list (Multi_set_requests req is f) = mf_backend_list f \<and>
     mf_sets (Multi_set_requests req is f) = mf_sets f \<and>
     length (mf_backends (Multi_set_requests req is f)) = length (mf_backends f) \<and>
     (\<forall>i. Multi_backend (Multi_set_requests req is f) i =
        (if i \<in> set is then (Multi_backend f i)\<lparr>mb_package := (mb_package (Multi_backend f i))\<lparr>pkg_request :=
           Some (req (Multi_backend f i))\<rparr>\<rparr> else Multi_backend f i))"
  using assms
proof (induction "is" arbitrary: f)
  case (Cons k ks)
  let ?f1 = "Multi_set_request k (Some (req (Multi_backend f k))) f"
  have k: "k < length (mf_backends f)" "k \<notin> set ks" using Cons.prems by auto
  show ?case using Cons.IH [of ?f1] Cons.prems k by (auto simp: Multi_backend_set_request [OF k(1)])
qed simp

text \<open>
  All backends of the list are sent a request and their threads joined: each is moved once,
  with its request, in whatever order.
\<close>

lemma Multi_poll:
  assumes "distinct (mf_backend_list f)" and "\<forall>i \<in> set (mf_backend_list f). i < length (mf_backends f)"
    and "thread_order ord"
    and "multi_move ord mv (mf_backend_list f) (Multi_set_requests req (mf_backend_list f) f) w = (f', w')"
  shows "mf_backend_list f' = mf_backend_list f \<and> mf_sets f' = mf_sets f \<and>
     length (mf_backends f') = length (mf_backends f) \<and>
     (\<forall>i. i \<notin> set (mf_backend_list f) \<longrightarrow> Multi_backend f' i = Multi_backend f i) \<and>
     (\<forall>i \<in> set (mf_backend_list f). \<exists>wi. Multi_backend f' i = (Multi_backend f i)\<lparr>mb_package :=
        fst (mv (mb_route (Multi_backend f i)) ((mb_package (Multi_backend f i))\<lparr>pkg_request :=
          Some (req (Multi_backend f i))\<rparr>) wi)\<rparr>)"
proof -
  let ?l = "mf_backend_list f"
  let ?f1 = "Multi_set_requests req ?l f"
  note f1 = Multi_set_requests_backends [OF assms(1,2), of req]
  have ord: "distinct (ord ?l)" "set (ord ?l) = set ?l" using thread_orderD [OF assms(3,1)] by auto
  have "\<forall>i \<in> set (ord ?l). i < length (mf_backends ?f1)" using f1 ord(2) assms(2) by simp
  note moved = Multi_move_seq_backends [OF assms(4) [unfolded multi_move_def] ord(1) this, unfolded ord(2)]
  have "\<exists>wi. Multi_backend f' i = (Multi_backend f i)\<lparr>mb_package :=
      fst (mv (mb_route (Multi_backend f i)) ((mb_package (Multi_backend f i))\<lparr>pkg_request :=
        Some (req (Multi_backend f i))\<rparr>) wi)\<rparr>" if "i \<in> set ?l" for i
  proof -
    have "Multi_backend ?f1 i = (Multi_backend f i)\<lparr>mb_package := (mb_package (Multi_backend f i))\<lparr>pkg_request :=
        Some (req (Multi_backend f i))\<rparr>\<rparr>" using f1 that by simp
    then show ?thesis using moved that by fastforce
  qed
  then show ?thesis using moved f1 by simp
qed

section \<open>Targets that count hits\<close>

text \<open>Backend \<open>i\<close> answers a search with the number of records in \<open>R i\<close> and no records.\<close>

definition Multi_finds :: "Multi_Frontend \<Rightarrow> (nat \<Rightarrow> Z_NamePlusRecord list) \<Rightarrow> 'w move_fn \<Rightarrow> bool" where
  "Multi_finds f R mv \<longleftrightarrow>
     (\<forall>i q w r. i < length (mf_backends f) \<longrightarrow> pkg_session q = pkg_session (mb_package (Multi_backend f i)) \<longrightarrow>
        pkg_request q = Some (GDU_Z3950 (APDU_searchRequest r)) \<longrightarrow>
        (\<exists>resp. fst (mv (mb_route (Multi_backend f i)) q w) =
             q\<lparr>pkg_response := Some (GDU_Z3950 (APDU_searchResponse resp))\<rparr> \<and>
           srs_resultCount resp = int (length (R i)) \<and> srs_records resp = None))"

lemma Multi_findsD:
  assumes "Multi_finds f R mv" and "i < length (mf_backends f)"
    and "pkg_session q = pkg_session (mb_package (Multi_backend f i))"
    and "pkg_request q = Some (GDU_Z3950 (APDU_searchRequest r))"
  obtains resp where "fst (mv (mb_route (Multi_backend f i)) q w) = q\<lparr>pkg_response := Some (GDU_Z3950 (APDU_searchResponse resp))\<rparr>"
    and "srs_resultCount resp = int (length (R i))" and "srs_records resp = None"
  using assms unfolding Multi_finds_def by blast

text \<open>A frontend whose backends are distinct and open.\<close>

definition Multi_ready :: "Multi_Frontend \<Rightarrow> bool" where
  "Multi_ready f \<longleftrightarrow> distinct (mf_backend_list f) \<and>
     (\<forall>i \<in> set (mf_backend_list f). i < length (mf_backends f) \<and> \<not> is_closed (mb_package (Multi_backend f i)))"

text \<open>The result set a search makes.\<close>

definition found_sets :: "(nat \<Rightarrow> Z_NamePlusRecord list) \<Rightarrow> nat list \<Rightarrow> nat BackendSet list" where
  "found_sets R is = map (\<lambda>i. \<lparr>bs_backend = i, bs_count = int (length (R i))\<rparr>) is"

definition found_total :: "(nat \<Rightarrow> Z_NamePlusRecord list) \<Rightarrow> nat list \<Rightarrow> int" where
  "found_total R is = (\<Sum>i \<leftarrow> is. int (length (R i)))"

definition found :: "(nat \<Rightarrow> Z_NamePlusRecord list) \<Rightarrow> nat \<Rightarrow> package \<Rightarrow> bool" where
  "found R i p \<longleftrightarrow> \<not> is_closed p \<and> (\<exists>resp. pkg_response p = Some (GDU_Z3950 (APDU_searchResponse resp)) \<and>
     srs_resultCount resp = int (length (R i)) \<and> srs_records resp = None)"

lemma found_total_nonneg: "0 \<le> found_total R is"
  by (induction "is") (simp_all add: found_total_def)

lemma found_total_member: "i \<in> set is \<Longrightarrow> int (length (R i)) \<le> found_total R is"
  unfolding found_total_def by (rule member_le_sum_list) auto

lemma length_serve_sequence_found: "int (length (serve_sequence (found_sets R is))) = found_total R is"
  by (induction "is") (simp_all add: found_sets_def found_total_def serve_sequence_def)

lemma search_outcome_found:
  assumes "\<forall>i \<in> set is. found R i (mb_package (Multi_backend f i)) \<and> int (length (R i)) < 2 ^ 31"
  shows "fold (search_outcome f) is (o', sets, sz) =
     (o'\<lparr>out_successful := out_successful o' + int (length is)\<rparr>, sets @ found_sets R is, sz + found_total R is)"
  using assms
proof (induction "is" arbitrary: o' sets sz)
  case (Cons i js)
  have i: "found R i (mb_package (Multi_backend f i))" "int (length (R i)) < 2 ^ 31" using Cons.prems by auto
  have "search_outcome f i (o', sets, sz) = (o'\<lparr>out_successful := out_successful o' + 1\<rparr>,
      sets @ [\<lparr>bs_backend = i, bs_count = int (length (R i))\<rparr>], sz + int (length (R i)))"
    using i by (auto simp: search_outcome_def found_def note_records_def record_diagnostics_def Let_def)
  then show ?case using Cons by (simp add: found_sets_def found_total_def)
qed (simp add: found_sets_def found_total_def)

lemma search_moved:
  assumes "Multi_ready f" and "Multi_finds f R mv" and "thread_order ord"
    and "multi_move ord mv (mf_backend_list f) (Multi_set_requests
      (\<lambda>b. GDU_Z3950 (APDU_searchRequest (Multi_search_request Y req b))) (mf_backend_list f) f) w = (f', w')"
  shows "Multi_keeps f f'" and "\<forall>i \<in> set (mf_backend_list f). found R i (mb_package (Multi_backend f' i))"
proof -
  have ready: "distinct (mf_backend_list f)" "\<forall>i \<in> set (mf_backend_list f). i < length (mf_backends f)"
    using assms(1) by (auto simp: Multi_ready_def)
  note poll = Multi_poll [OF ready assms(3,4)]
  have i: "same_backend (Multi_backend f i) (Multi_backend f' i) \<and> found R i (mb_package (Multi_backend f' i))"
    if member: "i \<in> set (mf_backend_list f)" for i
  proof -
    let ?q = "(mb_package (Multi_backend f i))\<lparr>pkg_request :=
        Some (GDU_Z3950 (APDU_searchRequest (Multi_search_request Y req (Multi_backend f i))))\<rparr>"
    obtain wi where f': "Multi_backend f' i = (Multi_backend f i)\<lparr>mb_package := fst (mv (mb_route (Multi_backend f i)) ?q wi)\<rparr>"
      using bspec [OF poll [THEN conjunct2, THEN conjunct2, THEN conjunct2, THEN conjunct2] member] by (rule exE)
    have lt: "i < length (mf_backends f)" using ready(2) member by simp
    have q: "pkg_session ?q = pkg_session (mb_package (Multi_backend f i))" "pkg_request ?q =
        Some (GDU_Z3950 (APDU_searchRequest (Multi_search_request Y req (Multi_backend f i))))" by simp_all
    obtain resp where "fst (mv (mb_route (Multi_backend f i)) ?q wi) =
        ?q\<lparr>pkg_response := Some (GDU_Z3950 (APDU_searchResponse resp))\<rparr>"
      "srs_resultCount resp = int (length (R i))" "srs_records resp = None"
      by (rule Multi_findsD [OF assms(2) lt q])
    then show ?thesis using f' assms(1) member by (simp add: same_backend_def found_def Multi_ready_def)
  qed
  then show "\<forall>i \<in> set (mf_backend_list f). found R i (mb_package (Multi_backend f' i))" by blast
  have "same_backend (Multi_backend f k) (Multi_backend f' k)" for k
    using i [of k] poll by (cases "k \<in> set (mf_backend_list f)") (auto simp: same_backend_def)
  then show "Multi_keeps f f'" using poll by (simp add: Multi_keeps_def)
qed

lemma close_closed: "is_closed p \<Longrightarrow> close_session p = p"
  by (simp add: close_session_def Session_close_def)

lemma piggyback_le: "0 \<le> rss \<Longrightarrow> fst (piggyback small large medium se me rss esn) \<le> rss"
  by (simp add: piggyback_def)

lemma Multi_ready_keeps: "Multi_keeps f f' \<Longrightarrow> Multi_ready f \<Longrightarrow> Multi_ready f'"
  unfolding Multi_ready_def Multi_keeps_def by (simp add: same_backend_def)

lemma Multi_put_sets [simp]:
  "Multi_backend (f\<lparr>mf_sets := m\<rparr>) i = Multi_backend f i"
  "Multi_ready (f\<lparr>mf_sets := m\<rparr>) = Multi_ready f"
  "Multi_serves (f\<lparr>mf_sets := m\<rparr>) R mv = Multi_serves f R mv"
  "set_in_order (f\<lparr>mf_sets := m\<rparr>) R sets = set_in_order f R sets"
  by (simp_all add: Multi_backend_def Multi_ready_def Multi_serves_def set_in_order_def)

lemma found_in_order: "Multi_ready f \<Longrightarrow> set_in_order f R (found_sets R (mf_backend_list f))"
  by (auto simp: Multi_ready_def set_in_order_def found_sets_def comp_def)

lemma job_record_keeps:
  "Multi_keeps f f' \<Longrightarrow> fst bp < length (mf_backends f) \<Longrightarrow> job_record f' R bp = job_record f R bp"
  by (simp add: Multi_keeps_def same_backend_def job_record_def)

text \<open>A merged sequence has records of the backends of its sets only.\<close>

lemma window_backends:
  assumes "m_merge_type rep = merge_round_robin \<longrightarrow> two_counts (found_sets R is)" and "0 \<le> number"
    and "bp \<in> set (window (Multi_merged rep (found_sets R is)) 1 number)"
  shows "fst bp \<in> set is"
proof -
  let ?fset = "\<lparr>m_backend_sets = found_sets R is, m_setname = []\<rparr>"
  have "\<forall>b \<in> set (found_sets R is). 0 \<le> bs_count b" by (auto simp: found_sets_def)
  note order = Multi_jobs_order [of rep ?fset 1 number, simplified, OF assms(1) this assms(2)]
  from assms(3) obtain j where "j \<in> set (Multi_jobs rep ?fset 1 number)" "bp = job_item j"
    unfolding order(1) [symmetric] by auto
  then show ?thesis using order(3) by (force simp: found_sets_def)
qed

section \<open>A search from end to end\<close>

text \<open>The response: the total of the hits, and records when the piggyback rule asks for some.\<close>

definition found_response :: "yaz \<Rightarrow> Multi_Rep \<Rightarrow> Multi_Frontend \<Rightarrow> (nat \<Rightarrow> Z_NamePlusRecord list) \<Rightarrow> Z_SearchRequest
    \<Rightarrow> Z_SearchResponse" where
  "found_response Y rep f R req =
     (let tot = found_total R (mf_backend_list f);
          number = fst (piggyback (srq_smallSetUpperBound req) (srq_largeSetLowerBound req)
             (srq_mediumSetPresentNumber req) None None tot None);
          resp = (create_searchResponse Y (Some (APDU_searchRequest req)) 0 None)\<lparr>srs_resultCount := tot\<rparr>
      in if number > 0
         then resp\<lparr>srs_records := Some (Records_DBOSD (map (job_record f R)
                (window (Multi_merged rep (found_sets R (mf_backend_list f))) 1 number))),
              srs_numberOfRecordsReturned := number, srs_nextResultSetPosition := 1 + number\<rparr>
         else resp)"

text \<open>
  C3. Let every backend answer a search with the number of its hits and present requests within
  them. Then a search through the filter is answered with the total of the hits and, as far as the
  piggyback rule asks for records, with the first records of the merged sequence. The result set of
  the client is then the list of the backends with their hits, so that later present requests find
  it in order, and the other result sets are as before. For round robin the positive counts
  take at most two values.\<close>
theorem Multi_search_correct:
  assumes "Multi_ready f" and "Multi_finds f R mv" and "Multi_serves f R mv" and "thread_order ord"
    and "found_total R (mf_backend_list f) < 2 ^ 31 - 1"
    and "m_merge_type rep = merge_round_robin \<longrightarrow> two_counts (found_sets R (mf_backend_list f))"
  shows "\<exists>f' w'. Multi_search Y ord mv rep req p f w =
       Some (p\<lparr>pkg_response := Some (GDU_Z3950 (APDU_searchResponse (found_response Y rep f R req)))\<rparr>, f', w') \<and>
     mf_sets f' = (mf_sets f)(srq_resultSetName req \<mapsto>
       \<lparr>m_backend_sets = found_sets R (mf_backend_list f), m_setname = srq_resultSetName req\<rparr>) \<and>
     Multi_ready f' \<and> Multi_serves f' R mv \<and> set_in_order f' R (found_sets R (mf_backend_list f))"
proof -
  let ?l = "mf_backend_list f"
  let ?sets = "found_sets R ?l"
  let ?fset = "\<lparr>m_backend_sets = ?sets, m_setname = srq_resultSetName req\<rparr>"
  let ?m = "(mf_sets f)(srq_resultSetName req \<mapsto> ?fset)"
  define number where "number = fst (piggyback (srq_smallSetUpperBound req) (srq_largeSetLowerBound req)
     (srq_mediumSetPresentNumber req) None None (found_total R ?l) None)"
  let ?resp = "(create_searchResponse Y (Some (APDU_searchRequest req)) 0 None)\<lparr>srs_resultCount := found_total R ?l\<rparr>"
  obtain f1 w1 where mv: "multi_move ord mv ?l (Multi_set_requests
      (\<lambda>b. GDU_Z3950 (APDU_searchRequest (Multi_search_request Y req b))) ?l f) w = (f1, w1)" by fastforce
  note moved = search_moved [OF assms(1,2,4) mv]
  have l: "mf_backend_list f1 = ?l" "mf_sets f1 = mf_sets f" using moved(1) by (simp_all add: Multi_keeps_def)
  have "mf_backend_list (Multi_set_requests g ?l f) = ?l" for g
    using Multi_set_requests_backends [of ?l f g] assms(1) by (simp add: Multi_ready_def)
  moreover have "fold (search_outcome f1) ?l (outcome0, [], 0) =
      (outcome0\<lparr>out_successful := out_successful outcome0 + int (length ?l)\<rparr>, [] @ ?sets, 0 + found_total R ?l)"
    using moved(2) found_total_member [of _ ?l R] assms(5) by (intro search_outcome_found) fastforce
  ultimately have search: "Multi_search Y ord mv rep req p f w =
      (if number > 0 then Multi_search_piggyback Y ord mv rep req number ?resp p (f1\<lparr>mf_sets := ?m\<rparr>) w1
       else Some (p\<lparr>pkg_response := Some (GDU_Z3950 (APDU_searchResponse ?resp))\<rparr>, f1\<lparr>mf_sets := ?m\<rparr>, w1))"
    using mv l by (simp add: Multi_search_def Let_def outcome0_def number_def)
  have f1: "Multi_ready f1" "Multi_serves f1 R mv" "set_in_order f1 R ?sets"
    using Multi_ready_keeps [OF moved(1) assms(1)] Multi_serves_keeps [OF moved(1) assms(3)]
      set_in_order_keeps [OF moved(1) found_in_order [OF assms(1)]] by auto
  show ?thesis
  proof (cases "number > 0")
    case False
    then show ?thesis using search f1 by (simp add: found_response_def number_def Let_def)
  next
    case True
    let ?f2 = "f1\<lparr>mf_sets := ?m\<rparr>"
    let ?q = "Multi_piggyback_request Y req number"
    let ?pp = "(Package_new (pkg_session p) (pkg_origin p))\<lparr>pkg_request := Some (GDU_Z3950 (APDU_presentRequest ?q))\<rparr>"
    have "number \<le> found_total R ?l" unfolding number_def by (rule piggyback_le [OF found_total_nonneg])
    then obtain req' f' w' where pres: "Multi_present Y ord mv rep ?q ?pp ?f2 w1 =
        Some (?pp\<lparr>pkg_response := Some (GDU_Z3950 (APDU_presentResponse
          ((create_presentResponse Y (Some (APDU_presentRequest ?q)) 0 None)\<lparr>
            prs_records := Some (Records_DBOSD (map (job_record ?f2 R) (window (Multi_merged rep ?sets) 1 number))),
            prs_nextResultSetPosition := 1 + number, prs_numberOfRecordsReturned := number\<rparr>)))\<rparr>, req', f', w')"
      and keeps: "Multi_keeps ?f2 f'"
      using Multi_present_window [of ?f2 ?q ?fset R mv ord rep 1 number Y ?pp w1] True assms(4-6) f1
      by (auto simp: Multi_piggyback_request_def length_serve_sequence_found)
    have "fst bp < length (mf_backends f)" if "bp \<in> set (window (Multi_merged rep ?sets) 1 number)" for bp
      using window_backends [OF assms(6) _ that] True assms(1) by (auto simp: Multi_ready_def)
    then have recs: "map (job_record ?f2 R) (window (Multi_merged rep ?sets) 1 number) =
        map (job_record f R) (window (Multi_merged rep ?sets) 1 number)"
      using job_record_keeps [OF moved(1)] by (simp add: job_record_def)
    have "Multi_search Y ord mv rep req p f w =
        Some (p\<lparr>pkg_response := Some (GDU_Z3950 (APDU_searchResponse (found_response Y rep f R req)))\<rparr>, f', w')"
      using search True pres recs
      by (simp add: Multi_search_piggyback_def Let_def found_response_def number_def [symmetric] Package_new_def close_closed)
    moreover have "mf_sets f' = ?m" using keeps by (simp add: Multi_keeps_def)
    moreover have "Multi_ready f'" "Multi_serves f' R mv" "set_in_order f' R ?sets"
      using Multi_ready_keeps [OF keeps] Multi_serves_keeps [OF keeps] set_in_order_keeps [OF keeps] f1 by simp_all
    ultimately show ?thesis by blast
  qed
qed

section \<open>An instance\<close>

text \<open>Targets that count their records and present them.\<close>

definition searching_target :: "(64 word \<Rightarrow> Z_NamePlusRecord list) \<Rightarrow> 'w move_fn" where
  "searching_target RS r q w = (case pkg_request q of
     Some (GDU_Z3950 (APDU_searchRequest sr)) \<Rightarrow>
       (q\<lparr>pkg_response := Some (GDU_Z3950 (APDU_searchResponse ((zget_searchResponse yaz_ref)\<lparr>
          srs_resultCount := int (length (RS (m_id (pkg_session q))))\<rparr>)))\<rparr>, w)
   | _ \<Rightarrow> session_target RS r q w)"

lemma searching_target_finds:
  "(\<And>i. i < length (mf_backends f) \<Longrightarrow> R i = RS (m_id (pkg_session (mb_package (Multi_backend f i))))) \<Longrightarrow>
   Multi_finds f R (searching_target RS) \<and> Multi_serves f R (searching_target RS)"
  by (auto simp: Multi_finds_def Multi_serves_def searching_target_def session_target_def yaz_ref_def)

abbreviation demo_search :: Z_SearchRequest where
  "demo_search \<equiv> \<lparr>srq_referenceId = None, srq_smallSetUpperBound = 0, srq_largeSetLowerBound = 100,
     srq_mediumSetPresentNumber = 2, srq_replaceIndicator = True, srq_resultSetName = ''s'', srq_databaseNames = [''Default''],
     srq_smallSetElementSetNames = None, srq_mediumSetElementSetNames = None, srq_preferredRecordSyntax = None,
     srq_query = Query_other [], srq_additionalSearchInfo = None\<rparr>"

theorem Multi_search_correct_witness:
  "\<exists>p' f' w'. Multi_search yaz_ref rev (searching_target (\<lambda>i. demo_sets (if i = 5 then 0 else 1)))
       (Multi_Rep_new\<lparr>m_merge_type := merge_serve_order\<rparr>) demo_search
       (Package_new \<lparr>m_id = 1, m_close = False\<rparr> Origin_new) multi_demo \<lparr>m_global_id = 6\<rparr> = Some (p', f', w') \<and>
     (\<exists>r. pkg_response p' = Some (GDU_Z3950 (APDU_searchResponse r)) \<and> srs_resultCount r = 3 \<and> srs_records r = Some (Records_DBOSD
        [\<lparr>npr_databaseName = Some ''h1'', npr_record = text_record ''a1''\<rparr>, \<lparr>npr_databaseName = Some ''h1'', npr_record = text_record ''a2''\<rparr>]))"
proof -
  have sets: "found_sets demo_sets [0, 1] = [\<lparr>bs_backend = 0, bs_count = 2\<rparr>, \<lparr>bs_backend = 1, bs_count = 1\<rparr>]"
    "found_total demo_sets [0, 1] = 3" by (simp_all add: found_sets_def found_total_def)
  have seq: "serve_sequence ([\<lparr>bs_backend = 0, bs_count = 2\<rparr>, \<lparr>bs_backend = 1, bs_count = 1\<rparr>] :: nat BackendSet list) =
     [(0, 1), (0, 2), (1, 1)]" by code_simp
  let ?mv = "searching_target (\<lambda>i. demo_sets (if i = 5 then 0 else 1)) :: unit move_fn"
  let ?rep = "Multi_Rep_new\<lparr>m_merge_type := merge_serve_order\<rparr>"
  have ready: "Multi_ready multi_demo" by (simp add: Multi_ready_def Multi_backend_def Package_new_def)
  have "demo_sets i = (\<lambda>i. demo_sets (if i = 5 then 0 else 1)) (m_id (pkg_session (mb_package (Multi_backend multi_demo i))))"
    if "i < length (mf_backends multi_demo)" for i
    using that by (auto simp: Multi_backend_def Package_new_def less_Suc_eq)
  then have "Multi_finds multi_demo demo_sets ?mv \<and> Multi_serves multi_demo demo_sets ?mv"
    by (rule searching_target_finds)
  note target = this [THEN conjunct1] this [THEN conjunct2]
  have ord: "thread_order rev" by (simp add: thread_order_def)
  have tot: "found_total demo_sets (mf_backend_list multi_demo) < 2 ^ 31 - 1" using sets by simp
  have rr: "m_merge_type ?rep = merge_round_robin \<longrightarrow> two_counts (found_sets demo_sets (mf_backend_list multi_demo))" by simp
  obtain f' w' where "Multi_search yaz_ref rev ?mv ?rep demo_search
       (Package_new \<lparr>m_id = 1, m_close = False\<rparr> Origin_new) multi_demo \<lparr>m_global_id = 6\<rparr> =
     Some ((Package_new \<lparr>m_id = 1, m_close = False\<rparr> Origin_new)\<lparr>pkg_response := Some (GDU_Z3950 (APDU_searchResponse
       (found_response yaz_ref ?rep multi_demo demo_sets demo_search)))\<rparr>, f', w')"
    using Multi_search_correct [OF ready target ord tot rr, of yaz_ref demo_search
      "Package_new \<lparr>m_id = 1, m_close = False\<rparr> Origin_new" "\<lparr>m_global_id = 6\<rparr>"]
    by (elim exE conjE) (rule that)
  then show ?thesis
    using sets seq by (simp add: found_response_def Multi_merged_def window_def job_record_def Multi_backend_def piggyback_def)
qed

end
