(* ===== verification/MP_Shared.thy ===== *)
theory MP_Shared
  imports MP_Util MP_Frontends MP_Xml
begin

text \<open>
  The session_shared filter (\<open>src/filter_session_shared.cpp\<close>): clients whose init requests
  agree share a class of backend sessions, and searches that agree share result sets on them.

  Instances of a class are shared by pointer: they live in the store \<open>bc_store\<close>, and
  \<open>m_backend_list\<close> and every \<open>BackendInstancePtr\<close> hold indices. A \<open>BackendSetPtr\<close> is the index of
  the instance with the position of the set in its list, which does not move while the instance
  is in use. Classes live in a store of the representation likewise. The code between two locks
  of a class is one definition.

  \<open>Null_deref\<close> is the use of a null pointer, \<open>Waits\<close> the wait on a condition variable.
\<close>

section \<open>Parameters\<close>

text \<open>
  Of other libraries: the encoding of the two parts of an init key by YAZ, the comparison of
  queries (\<open>Yaz_Z_Query::match\<close>) and of additional search information, the lookup in a
  record cache, which is a function of what was added to it, and the clock.
\<close>

type_synonym record_cache = "(Z_NamePlusRecord list \<times> int \<times> Z_RecordComposition option) list"

record 'w ss_env =
  ss_clock :: "'w world_scheme \<Rightarrow> int"
  ss_encode :: "Z_IdAuthentication option \<Rightarrow> Z_OtherInformation \<Rightarrow> octets \<times> octets"
  ss_query_match :: "Z_Query \<Rightarrow> Z_Query \<Rightarrow> bool"
  ss_compare_info :: "Z_OtherInformation option \<Rightarrow> Z_OtherInformation option \<Rightarrow> bool"
  ss_cache_lookup :: "record_cache \<Rightarrow> int \<Rightarrow> int \<Rightarrow> octets option \<Rightarrow> Z_RecordComposition option
    \<Rightarrow> Z_NamePlusRecord list option"

abbreviation (input) int_max :: int where "int_max \<equiv> 2 ^ 31 - 1"

section \<open>State\<close>

record InitKey =
  ik_idAuthentication :: octets
  ik_otherInfo :: octets

record SS_BackendSet =
  bset_id :: string
  bset_databases :: "string list"
  bset_size :: int
  bset_query :: Z_Query
  bset_time :: int
  bset_cache :: record_cache
  bset_infoRequest :: "Z_OtherInformation option"
  bset_infoResponse :: "Z_OtherInformation option"

record SS_BackendInstance =
  bi_session :: session
  bi_sets :: "SS_BackendSet list"
  bi_in_use :: bool
  bi_sequence_this :: int
  bi_result_set_sequence :: int
  bi_time_last_use :: int
  bi_origin :: origin

record SS_BackendClass =
  bc_named_result_sets :: bool
  bc_store :: "SS_BackendInstance list"
  bc_list :: "nat list"
  bc_init_request :: Z_InitRequest
  bc_init_response :: "Z_InitResponse option"
  bc_sequence_top :: int
  bc_set_ttl :: int
  bc_expiry_ttl :: int
  bc_set_max :: nat
  bc_preferredMessageSize :: int
  bc_maximumRecordSize :: int
  bc_no_failed :: int
  bc_no_succeeded :: int
  bc_no_init :: int

record SS_FrontendSet =
  fset_databases :: "string list"
  fset_query :: Z_Query

record SS_Frontend =
  sf_is_virtual :: bool
  sf_in_use :: bool
  sf_init_options :: odr_mask
  sf_backend_class :: "nat option"
  sf_sets :: "string \<rightharpoonup> SS_FrontendSet"

record SS_Conf =
  m_resultset_ttl :: int
  m_resultset_max :: int
  m_session_ttl :: int
  m_optimize_search :: bool
  m_restart :: bool
  m_ignore_auth :: bool
  m_session_max :: int
  m_preferredMessageSize :: int
  m_maximumRecordSize :: int

record SS_Rep =
  ss_clients :: "SS_Frontend session_map"
  ss_map :: "(InitKey \<times> nat) list"
  ss_classes :: "SS_BackendClass list"
  ss_conf :: SS_Conf

datatype 'a ss_result = Waits | Null_deref | Done 'a

definition SS_Conf_new :: SS_Conf where
  "SS_Conf_new = \<lparr>m_resultset_ttl = 30, m_resultset_max = 10, m_session_ttl = 90,
     m_optimize_search = True, m_restart = False, m_ignore_auth = False, m_session_max = 100,
     m_preferredMessageSize = 0, m_maximumRecordSize = 0\<rparr>"

definition SS_Rep_new :: SS_Rep where
  "SS_Rep_new = \<lparr>ss_clients = Map.empty, ss_map = [], ss_classes = [], ss_conf = SS_Conf_new\<rparr>"

definition SS_Frontend_new :: SS_Frontend where
  "SS_Frontend_new = \<lparr>sf_is_virtual = False, sf_in_use = True, sf_init_options = {},
     sf_backend_class = None, sf_sets = Map.empty\<rparr>"

text \<open>\<open>m_backend_set_max\<close> is a \<open>size_t\<close> made from an \<open>int\<close>.\<close>

definition SS_BackendClass_new :: "Z_InitRequest \<Rightarrow> SS_Conf \<Rightarrow> SS_BackendClass" where
  "SS_BackendClass_new req cf = \<lparr>bc_named_result_sets = False, bc_store = [], bc_list = [],
     bc_init_request = req, bc_init_response = None, bc_sequence_top = 0,
     bc_set_ttl = m_resultset_ttl cf, bc_expiry_ttl = m_session_ttl cf,
     bc_set_max = unat (word_of_int (m_resultset_max cf) :: 64 word),
     bc_preferredMessageSize = m_preferredMessageSize cf, bc_maximumRecordSize = m_maximumRecordSize cf,
     bc_no_failed = 0, bc_no_succeeded = 0, bc_no_init = 0\<rparr>"

section \<open>Keys of classes\<close>

definition InitKey_new :: "'w ss_env \<Rightarrow> Z_InitRequest \<Rightarrow> InitKey" where
  "InitKey_new E req =
     (let (a, i) = ss_encode E (irq_idAuthentication req) (irq_otherInfo req)
      in \<lparr>ik_idAuthentication = a, ik_otherInfo = i\<rparr>)"

definition InitKey_less :: "InitKey \<Rightarrow> InitKey \<Rightarrow> bool" where
  "InitKey_less k k' =
     (let c = memcmp2 (ik_idAuthentication k) (ik_idAuthentication k') in
      if c < 0 then True
      else if c > 0 then False
      else (let c = memcmp2 (ik_otherInfo k) (ik_otherInfo k') in
            if c < 0 then True else if c > 0 then False else False))"

text \<open>
  \<open>std::map\<close> with this order: the entries are a list in the order of the keys, and two keys are
  the same when neither precedes the other.
\<close>

fun SS_map_find :: "InitKey \<Rightarrow> (InitKey \<times> nat) list \<Rightarrow> nat option" where
  "SS_map_find k [] = None"
| "SS_map_find k ((k', c) # es) =
     (if \<not> InitKey_less k k' \<and> \<not> InitKey_less k' k then Some c else SS_map_find k es)"

fun SS_map_put :: "InitKey \<Rightarrow> nat \<Rightarrow> (InitKey \<times> nat) list \<Rightarrow> (InitKey \<times> nat) list" where
  "SS_map_put k c [] = [(k, c)]"
| "SS_map_put k c ((k', c') # es) =
     (if InitKey_less k k' then (k, c) # (k', c') # es
      else if InitKey_less k' k then (k', c') # SS_map_put k c es
      else (k', c) # es)"

section \<open>Instances of a class\<close>

definition SS_inst :: "SS_BackendClass \<Rightarrow> nat \<Rightarrow> SS_BackendInstance" where
  "SS_inst bc i = bc_store bc ! i"

definition SS_upd :: "nat \<Rightarrow> (SS_BackendInstance \<Rightarrow> SS_BackendInstance) \<Rightarrow> SS_BackendClass \<Rightarrow> SS_BackendClass" where
  "SS_upd i g bc = bc\<lparr>bc_store := (bc_store bc)[i := g (SS_inst bc i)]\<rparr>"

definition SS_use_backend :: "nat \<Rightarrow> SS_BackendClass \<Rightarrow> SS_BackendClass" where
  "SS_use_backend i bc =
     (SS_upd i (\<lambda>b. b\<lparr>bi_in_use := True, bi_sequence_this := bc_sequence_top bc\<rparr>) bc)
       \<lparr>bc_sequence_top := bc_sequence_top bc + 1\<rparr>"

definition SS_release_backend :: "nat \<Rightarrow> SS_BackendClass \<Rightarrow> SS_BackendClass" where
  "SS_release_backend i = SS_upd i (\<lambda>b. b\<lparr>bi_in_use := False\<rparr>)"

definition SS_timestamp :: "int \<Rightarrow> nat \<Rightarrow> SS_BackendClass \<Rightarrow> SS_BackendClass" where
  "SS_timestamp now i = SS_upd i (\<lambda>b. b\<lparr>bi_time_last_use := now\<rparr>)"

text \<open>
  The package that closes a backend session. \<open>remove_backend\<close> and the destructor of the instance
  share one package; the model moves it once, since its route position is used up behind that.
\<close>

definition SS_close_package :: "yaz \<Rightarrow> session \<Rightarrow> origin \<Rightarrow> package" where
  "SS_close_package Y s ori = close_session ((Package_new s ori)\<lparr>pkg_response :=
     Some (GDU_Z3950 (create_close Y None Z_Close_lackOfActivity None))\<rparr>)"

definition SS_send_close :: "yaz \<Rightarrow> 'w move_fn \<Rightarrow> session \<Rightarrow> origin \<Rightarrow> 'w world_scheme \<Rightarrow> 'w world_scheme" where
  "SS_send_close Y mv s ori w = snd (mv [] (SS_close_package Y s ori) w)"

definition SS_remove_backend :: "yaz \<Rightarrow> 'w move_fn \<Rightarrow> nat \<Rightarrow> SS_BackendClass \<Rightarrow> 'w world_scheme
    \<Rightarrow> SS_BackendClass \<times> 'w world_scheme" where
  "SS_remove_backend Y mv i bc w =
     (if i \<notin> set (bc_list bc) then (bc, w)
      else (bc\<lparr>bc_list := remove1 i (bc_list bc)\<rparr>,
            SS_send_close Y mv (bi_session (SS_inst bc i)) (bi_origin (SS_inst bc i)) w))"

text \<open>The init request to a backend.\<close>

definition SS_init_request :: "SS_BackendClass \<Rightarrow> Z_InitRequest" where
  "SS_init_request bc =
     (let req = bc_init_request bc
      in req\<lparr>irq_options := {Z_Options_search, Z_Options_present, Z_Options_namedResultSets, Z_Options_scan},
             irq_protocolVersion := irq_protocolVersion req \<union>
               {Z_ProtocolVersion_1, Z_ProtocolVersion_2, Z_ProtocolVersion_3},
             irq_preferredMessageSize := (if bc_preferredMessageSize bc \<noteq> 0 then bc_preferredMessageSize bc
                                          else irq_preferredMessageSize req),
             irq_maximumRecordSize := (if bc_maximumRecordSize bc \<noteq> 0 then bc_maximumRecordSize bc
                                       else irq_maximumRecordSize req)\<rparr>)"

text \<open>The diagnostic of a failed init, if it is where it is looked for.\<close>

fun SS_first_diag :: "Z_External option \<Rightarrow> Z_DefaultDiagFormat option" where
  "SS_first_diag (Some (External_userInfo1 (OtherInfo_externallyDefinedInfo (Some (External_diag1
     (DiagnosticFormat_s_defaultDiagRec e # _))) # _))) = Some e"
| "SS_first_diag _ = None"

definition SS_init_diag :: "Z_InitResponse \<Rightarrow> int \<times> string" where
  "SS_init_diag res =
     (case SS_first_diag (irs_userInformationField res) of
        Some e \<Rightarrow> (to_int32 (diag_condition e), case diag_addinfo e of v2Addinfo s \<Rightarrow> s | v3Addinfo s \<Rightarrow> s)
      | None \<Rightarrow> (0, []))"

definition SS_create_failed :: "yaz \<Rightarrow> 'w move_fn \<Rightarrow> session \<Rightarrow> origin \<Rightarrow> package \<Rightarrow> int \<times> string
    \<Rightarrow> SS_BackendClass \<Rightarrow> 'w world_scheme \<Rightarrow> (nat option \<times> int \<times> string) \<times> SS_BackendClass \<times> 'w world_scheme" where
  "SS_create_failed Y mv s ori ip diag bc w =
     (let w = (if \<not> is_closed ip then snd (mv [] (close_session ip) w) else w)
      in ((None, diag), bc\<lparr>bc_no_failed := bc_no_failed bc + 1\<rparr>, SS_send_close Y mv s ori w))"

text \<open>Result: the new instance, in use, or the diagnostic.\<close>

definition SS_create_backend :: "yaz \<Rightarrow> 'w ss_env \<Rightarrow> 'w move_fn \<Rightarrow> package \<Rightarrow> SS_BackendClass \<Rightarrow> 'w world_scheme
    \<Rightarrow> (nat option \<times> int \<times> string) \<times> SS_BackendClass \<times> 'w world_scheme" where
  "SS_create_backend Y E mv p bc w =
     (let (s, w) = Session_new w;
          bc = bc\<lparr>bc_no_init := bc_no_init bc + 1\<rparr>;
          (ip, w) = mv [] ((Package_new s (pkg_origin p))\<lparr>pkg_request :=
             Some (GDU_Z3950 (APDU_initRequest (SS_init_request bc)))\<rparr>) w;
          bc = bc\<lparr>bc_named_result_sets := False\<rparr>
      in case pkg_response ip of
           Some (GDU_Z3950 (APDU_initResponse res)) \<Rightarrow>
             (let bc = bc\<lparr>bc_named_result_sets := (Z_Options_namedResultSets \<in> irs_options res)\<rparr>;
                  bc = (if bc_no_succeeded bc = 0 then bc\<lparr>bc_init_response := Some res\<rparr> else bc)
              in if irs_result res \<and> \<not> is_closed ip
                 then ((Some (length (bc_store bc)), 0, []),
                       bc\<lparr>bc_store := bc_store bc @ [\<lparr>bi_session = s, bi_sets = [], bi_in_use = True,
                            bi_sequence_this = 0, bi_result_set_sequence = 0, bi_time_last_use = ss_clock E w,
                            bi_origin = pkg_origin p\<rparr>],
                          bc_list := bc_list bc @ [length (bc_store bc)],
                          bc_no_succeeded := bc_no_succeeded bc + 1\<rparr>, w)
                 else SS_create_failed Y mv s (pkg_origin p) ip (SS_init_diag res) bc w)
         | _ \<Rightarrow> SS_create_failed Y mv s (pkg_origin p) ip (0, []) bc w)"

text \<open>A free instance for a scan: the one that was taken first, or a new one.\<close>

fun SS_oldest :: "SS_BackendClass \<Rightarrow> nat list \<Rightarrow> nat option \<Rightarrow> nat option" where
  "SS_oldest bc [] b1 = b1"
| "SS_oldest bc (i # is) b1 =
     SS_oldest bc is
       (if \<not> bi_in_use (SS_inst bc i) \<and>
           (b1 = None \<or> bi_sequence_this (SS_inst bc i) < bi_sequence_this (SS_inst bc (the b1)))
        then Some i else b1)"

definition SS_get_backend :: "yaz \<Rightarrow> 'w ss_env \<Rightarrow> 'w move_fn \<Rightarrow> package \<Rightarrow> SS_BackendClass \<Rightarrow> 'w world_scheme
    \<Rightarrow> (nat option \<times> int \<times> string) \<times> SS_BackendClass \<times> 'w world_scheme" where
  "SS_get_backend Y E mv p bc w =
     (case SS_oldest bc (bc_list bc) None of
        Some i \<Rightarrow> ((Some i, 0, []), SS_use_backend i bc, w)
      | None \<Rightarrow> SS_create_backend Y E mv p bc w)"

section \<open>Result sets\<close>

definition SS_max_sets :: "SS_BackendClass \<Rightarrow> nat" where
  "SS_max_sets bc = (if bc_named_result_sets bc then bc_set_max bc else 1)"

text \<open>The identifier of a further result set of an instance.\<close>

definition SS_next_id :: "nat \<Rightarrow> SS_BackendClass \<Rightarrow> string \<times> SS_BackendClass" where
  "SS_next_id i bc =
     (if bc_named_result_sets bc
      then (show_int (bi_result_set_sequence (SS_inst bc i)),
            SS_upd i (\<lambda>b. b\<lparr>bi_result_set_sequence := bi_result_set_sequence b + 1\<rparr>) bc)
      else (''default'', bc))"

text \<open>The first set with a property, over instances and their sets in order.\<close>

fun SS_find_set :: "(SS_BackendInstance \<Rightarrow> bool) \<Rightarrow> (SS_BackendSet \<Rightarrow> bool) \<Rightarrow> SS_BackendClass \<Rightarrow> nat list
    \<Rightarrow> (nat \<times> nat) option" where
  "SS_find_set Q P bc [] = None"
| "SS_find_set Q P bc (i # is) =
     (if Q (SS_inst bc i)
      then (case find_pos P (bi_sets (SS_inst bc i)) of
              Some k \<Rightarrow> Some (i, k)
            | None \<Rightarrow> SS_find_set Q P bc is)
      else SS_find_set Q P bc is)"

definition SS_overridable :: "int \<Rightarrow> SS_BackendClass \<Rightarrow> string list \<Rightarrow> bool \<Rightarrow> SS_BackendSet \<Rightarrow> bool" where
  "SS_overridable now bc databases out_of_sessions s \<longleftrightarrow>
     (SS_max_sets bc > 1 \<or> match (bset_databases s) databases) \<and>
     (out_of_sessions \<or> now < bset_time s \<or> now - bset_time s \<ge> bc_set_ttl bc)"

definition SS_override_set :: "int \<Rightarrow> SS_BackendClass \<Rightarrow> string list \<Rightarrow> bool
    \<Rightarrow> (nat \<times> string) option \<times> SS_BackendClass" where
  "SS_override_set now bc databases out_of_sessions =
     (case SS_find_set (\<lambda>b. \<not> bi_in_use b) (SS_overridable now bc databases out_of_sessions) bc (bc_list bc) of
        Some (i, k) \<Rightarrow>
          (Some (i, bset_id (bi_sets (SS_inst bc i) ! k)), SS_upd i (\<lambda>b. b\<lparr>bi_sets := erase_at k (bi_sets b)\<rparr>) bc)
      | None \<Rightarrow>
          (case find (\<lambda>i. \<not> bi_in_use (SS_inst bc i) \<and> length (bi_sets (SS_inst bc i)) < SS_max_sets bc) (bc_list bc) of
             Some i \<Rightarrow> (let (rid, bc) = SS_next_id i bc in (Some (i, rid), bc))
           | None \<Rightarrow> (None, bc)))"

text \<open>The additional search information of a search request; a present request has none.\<close>

fun SS_search_info :: "Z_APDU \<Rightarrow> Z_OtherInformation option" where
  "SS_search_info (APDU_searchRequest r) = srq_additionalSearchInfo r"
| "SS_search_info _ = None"

fun is_searchRequest :: "Z_APDU \<Rightarrow> bool" where
  "is_searchRequest (APDU_searchRequest _) = True"
| "is_searchRequest _ = False"

definition SS_same_search :: "'w ss_env \<Rightarrow> Z_APDU \<Rightarrow> string list \<Rightarrow> Z_Query \<Rightarrow> SS_BackendSet \<Rightarrow> bool" where
  "SS_same_search E apdu_req databases query s \<longleftrightarrow>
     match (bset_databases s) databases \<and> ss_query_match E query (bset_query s) \<and>
     (\<not> is_searchRequest apdu_req \<or> ss_compare_info E (SS_search_info apdu_req) (bset_infoRequest s))"

text \<open>
  What the locked part of \<open>get_set\<close> decides: a set to share, an instance and the identifier of a
  new set, or neither. The result is \<open>None\<close> when a set to share is on an instance in use: the
  thread waits and looks again from the start.
\<close>

datatype ss_choice = Share nat nat | Take nat string | No_backend bool

definition SS_choose :: "'w ss_env \<Rightarrow> SS_Conf \<Rightarrow> Z_APDU \<Rightarrow> string list \<Rightarrow> Z_Query \<Rightarrow> SS_BackendClass \<Rightarrow> 'w world_scheme
    \<Rightarrow> (ss_choice \<times> SS_BackendClass) option" where
  "SS_choose E cf apdu_req databases query bc w =
     (let out_of_sessions = (int (length (bc_list bc)) \<ge> m_session_max cf) in
      case (if m_optimize_search cf
            then SS_find_set (\<lambda>_. True) (SS_same_search E apdu_req databases query) bc (bc_list bc) else None) of
        Some (i, k) \<Rightarrow> if bi_in_use (SS_inst bc i) then None else Some (Share i k, SS_use_backend i bc)
      | None \<Rightarrow>
          (case SS_override_set (ss_clock E w) bc databases out_of_sessions of
             (Some (i, rid), bc) \<Rightarrow> Some (Take i rid, SS_use_backend i bc)
           | (None, bc) \<Rightarrow> Some (No_backend out_of_sessions, bc)))"

text \<open>A failure answered by the filter.\<close>

fun SS_failure :: "yaz \<Rightarrow> Z_APDU \<Rightarrow> string \<Rightarrow> Z_APDU" where
  "SS_failure Y (APDU_searchRequest r) addinfo = APDU_searchResponse
     (create_searchResponse Y (Some (APDU_searchRequest r)) BIB1_TEMPORARY_SYSTEM_ERROR (Some addinfo))"
| "SS_failure Y (APDU_presentRequest r) addinfo = APDU_presentResponse
     (create_presentResponse Y (Some (APDU_presentRequest r)) BIB1_TEMPORARY_SYSTEM_ERROR (Some addinfo))"
| "SS_failure Y a addinfo = create_close Y (Some a) BIB1_TEMPORARY_SYSTEM_ERROR (Some addinfo)"

definition SS_BackendSet_new :: "int \<Rightarrow> string \<Rightarrow> string list \<Rightarrow> Z_Query \<Rightarrow> Z_OtherInformation option \<Rightarrow> SS_BackendSet" where
  "SS_BackendSet_new now rid databases query info = \<lparr>bset_id = rid, bset_databases = databases, bset_size = 0,
     bset_query = query, bset_time = now, bset_cache = [], bset_infoRequest = info, bset_infoResponse = None\<rparr>"

definition SS_search_request :: "yaz \<Rightarrow> Z_APDU \<Rightarrow> SS_BackendSet \<Rightarrow> Z_SearchRequest" where
  "SS_search_request Y apdu_req s =
     (let req = (zget_searchRequest Y)\<lparr>srq_additionalSearchInfo := bset_infoRequest s, srq_resultSetName := bset_id s,
            srq_query := bset_query s, srq_databaseNames := bset_databases s\<rparr>
      in case apdu_req of
           APDU_searchRequest r \<Rightarrow> req\<lparr>srq_preferredRecordSyntax := srq_preferredRecordSyntax r\<rparr>
         | _ \<Rightarrow> req)"

text \<open>\<open>BackendSet::search\<close>: the set with its size and the records, or the failure.\<close>

definition SS_search_set :: "yaz \<Rightarrow> 'w move_fn \<Rightarrow> Z_APDU \<Rightarrow> session \<Rightarrow> SS_BackendSet \<Rightarrow> package \<Rightarrow> 'w world_scheme
    \<Rightarrow> (package + SS_BackendSet \<times> Z_Records option) \<times> 'w world_scheme" where
  "SS_search_set Y mv apdu_req ses s p w =
     (let (sp, w) = mv [] ((Package_new ses (pkg_origin p))\<lparr>pkg_request :=
            Some (GDU_Z3950 (APDU_searchRequest (SS_search_request Y apdu_req s)))\<rparr>) w;
          failed = Inl (p\<lparr>pkg_response := Some (GDU_Z3950
            (SS_failure Y apdu_req ''session_shared: target closed connection during search''))\<rparr>)
      in if is_closed sp then (failed, w)
         else (case pkg_response sp of
             Some (GDU_Z3950 (APDU_searchResponse r)) \<Rightarrow>
               (Inr (s\<lparr>bset_size := srs_resultCount r, bset_infoResponse := srs_additionalSearchInfo r\<rparr>, srs_records r), w)
           | _ \<Rightarrow> (failed, w)))"

text \<open>The condition of a diagnostic in the response.\<close>

fun SS_condition :: "Z_Records option \<Rightarrow> int" where
  "SS_condition (Some (Records_NSD d)) = to_int32 (diag_condition d)"
| "SS_condition (Some (Records_multipleNSD (DiagRec_defaultFormat d # _))) = to_int32 (diag_condition d)"
| "SS_condition _ = 0"

text \<open>
  The diagnostic of the target is passed on. \<open>Z_SearchResponse_none\<close> is stored in
  \<open>searchStatus\<close>, where every value but 0 is success.
\<close>

fun SS_diag_response :: "yaz \<Rightarrow> Z_APDU \<Rightarrow> Z_Records option \<Rightarrow> package \<Rightarrow> package" where
  "SS_diag_response Y (APDU_searchRequest r) recs p = p\<lparr>pkg_response := Some (GDU_Z3950 (APDU_searchResponse
     ((create_searchResponse Y (Some (APDU_searchRequest r)) 0 None)\<lparr>srs_searchStatus := True, srs_records := recs\<rparr>)))\<rparr>"
| "SS_diag_response Y (APDU_presentRequest r) recs p = p\<lparr>pkg_response := Some (GDU_Z3950 (APDU_presentResponse
     ((create_presentResponse Y (Some (APDU_presentRequest r)) 0 None)\<lparr>prs_records := recs\<rparr>)))\<rparr>"
| "SS_diag_response Y _ recs p = p"

text \<open>
  One pass through \<open>get_set\<close>: \<open>Again\<close> is \<open>goto restart\<close>. \<open>found_set\<close> and \<open>found_backend\<close> are results;
  a null pointer is \<open>None\<close>.
\<close>

datatype 'w ss_pass =
    Pass_waits
  | Pass_again SS_BackendClass "'w world_scheme"
  | Pass_found nat nat SS_BackendClass "'w world_scheme"
  | Pass_failed package SS_BackendClass "'w world_scheme"
  | Pass_no_backend package SS_BackendClass "'w world_scheme"

definition SS_new_set :: "yaz \<Rightarrow> 'w ss_env \<Rightarrow> 'w move_fn \<Rightarrow> SS_Conf \<Rightarrow> Z_APDU \<Rightarrow> string list \<Rightarrow> Z_Query \<Rightarrow> bool
    \<Rightarrow> package \<Rightarrow> nat \<Rightarrow> string \<Rightarrow> SS_BackendClass \<Rightarrow> 'w world_scheme \<Rightarrow> 'w ss_pass" where
  "SS_new_set Y E mv cf apdu_req databases query restarted p i rid bc w =
     (let bc = SS_timestamp (ss_clock E w) i bc;
          s = SS_BackendSet_new (ss_clock E w) rid databases query (SS_search_info apdu_req)
      in case SS_search_set Y mv apdu_req (bi_session (SS_inst bc i)) s p w of
           (Inl p, w) \<Rightarrow> (let (bc, w) = SS_remove_backend Y mv i bc w in Pass_failed p bc w)
         | (Inr (s, recs), w) \<Rightarrow>
             if recs \<noteq> None \<and> m_restart cf \<and> \<not> restarted \<and> SS_condition recs = BIB1_TEMPORARY_SYSTEM_ERROR
             then (let (bc, w) = SS_remove_backend Y mv i bc w in Pass_again bc w)
             else if recs \<noteq> None \<and> SS_condition recs \<noteq> 0
             then Pass_failed (SS_diag_response Y apdu_req recs p) (SS_release_backend i bc) w
             else if m_restart cf \<and> \<not> restarted \<and> bset_size s < 0
             then (let (bc, w) = SS_remove_backend Y mv i bc w in Pass_again bc w)
             else Pass_found i (length (bi_sets (SS_inst bc i))) (SS_upd i (\<lambda>b. b\<lparr>bi_sets := bi_sets b @ [s]\<rparr>) bc) w)"

definition SS_pass :: "yaz \<Rightarrow> 'w ss_env \<Rightarrow> 'w move_fn \<Rightarrow> SS_Conf \<Rightarrow> Z_APDU \<Rightarrow> string list \<Rightarrow> Z_Query \<Rightarrow> bool
    \<Rightarrow> package \<Rightarrow> SS_BackendClass \<Rightarrow> 'w world_scheme \<Rightarrow> 'w ss_pass" where
  "SS_pass Y E mv cf apdu_req databases query restarted p bc w =
     (case SS_choose E cf apdu_req databases query bc w of
        None \<Rightarrow> Pass_waits
      | Some (Share i k, bc) \<Rightarrow> Pass_found i k bc w
      | Some (Take i rid, bc) \<Rightarrow> SS_new_set Y E mv cf apdu_req databases query restarted p i rid bc w
      | Some (No_backend out_of_sessions, bc) \<Rightarrow>
          (if out_of_sessions
           then Pass_no_backend (p\<lparr>pkg_response := Some (GDU_Z3950
                  (SS_failure Y apdu_req ''session_shared: all sessions in use''))\<rparr>) bc w
           else (case SS_create_backend Y E mv p bc w of
               ((Some i, _), bc, w) \<Rightarrow>
                 (let (rid, bc) = SS_next_id i bc
                  in SS_new_set Y E mv cf apdu_req databases query restarted p i rid bc w)
             | ((None, code, addinfo), bc, w) \<Rightarrow>
                 Pass_no_backend (p\<lparr>pkg_response := Some (GDU_Z3950 (SS_failure Y apdu_req
                   (if length addinfo = 0 then ''session_shared: could not create backend'' else addinfo)))\<rparr>) bc w)))"

text \<open>
  \<open>get_set\<close>. The result is the set found, or none with the response already set. When the
  second pass finds no backend, \<open>found_set\<close> still points to the set of the first pass while
  \<open>found_backend\<close> is null, and the caller goes on to release it.
\<close>

definition SS_get_set :: "yaz \<Rightarrow> 'w ss_env \<Rightarrow> 'w move_fn \<Rightarrow> SS_Conf \<Rightarrow> Z_APDU \<Rightarrow> string list \<Rightarrow> Z_Query
    \<Rightarrow> package \<Rightarrow> SS_BackendClass \<Rightarrow> 'w world_scheme
    \<Rightarrow> ((nat \<times> nat) option \<times> package \<times> SS_BackendClass \<times> 'w world_scheme) ss_result" where
  "SS_get_set Y E mv cf apdu_req databases query p bc w =
     (case SS_pass Y E mv cf apdu_req databases query False p bc w of
        Pass_waits \<Rightarrow> Waits
      | Pass_found i k bc w \<Rightarrow> Done (Some (i, k), p, bc, w)
      | Pass_failed p bc w \<Rightarrow> Done (None, p, bc, w)
      | Pass_no_backend p bc w \<Rightarrow> Done (None, p, bc, w)
      | Pass_again bc w \<Rightarrow>
          (case SS_pass Y E mv cf apdu_req databases query True p bc w of
             Pass_waits \<Rightarrow> Waits
           | Pass_found i k bc w \<Rightarrow> Done (Some (i, k), p, bc, w)
           | Pass_failed p bc w \<Rightarrow> Done (None, p, bc, w)
           | Pass_no_backend p bc w \<Rightarrow> Null_deref
           | Pass_again bc w \<Rightarrow> Null_deref))"

section \<open>Requests of the client\<close>

text \<open>
  A query may name result sets of the client: the operand is replaced by the query of the set.
  \<open>Inl\<close> is the set that does not exist or was made on other databases.
\<close>

fun result_set_ref :: "(string \<rightharpoonup> SS_FrontendSet) \<Rightarrow> string list \<Rightarrow> Z_RPNStructure \<Rightarrow> string + Z_RPNStructure" where
  "result_set_ref sets databases (RPN_simple (Operand_resultSetId rset)) =
     (case sets rset of
        None \<Rightarrow> Inl rset
      | Some fset \<Rightarrow>
          if \<not> match (fset_databases fset) databases then Inl rset
          else (case fset_query fset of
                  Query_type_1 s \<Rightarrow> Inr s
                | Query_type_101 s \<Rightarrow> Inr s
                | Query_other _ \<Rightarrow> Inl rset))"
| "result_set_ref sets databases (RPN_simple (Operand_attributesPlusTerm t)) = Inr (RPN_simple (Operand_attributesPlusTerm t))"
| "result_set_ref sets databases (RPN_complex op s1 s2) =
     (case result_set_ref sets databases s1 of
        Inl e \<Rightarrow> Inl e
      | Inr s1' \<Rightarrow> (case result_set_ref sets databases s2 of Inl e \<Rightarrow> Inl e | Inr s2' \<Rightarrow> Inr (RPN_complex op s1' s2')))"

fun SS_expand_query :: "(string \<rightharpoonup> SS_FrontendSet) \<Rightarrow> string list \<Rightarrow> Z_Query \<Rightarrow> string + Z_Query" where
  "SS_expand_query sets databases (Query_type_1 s) = map_sum id Query_type_1 (result_set_ref sets databases s)"
| "SS_expand_query sets databases (Query_type_101 s) = map_sum id Query_type_101 (result_set_ref sets databases s)"
| "SS_expand_query sets databases (Query_other q) = Inr (Query_other q)"

definition SS_search :: "yaz \<Rightarrow> 'w ss_env \<Rightarrow> 'w move_fn \<Rightarrow> SS_Conf \<Rightarrow> Z_SearchRequest \<Rightarrow> package \<Rightarrow> SS_Frontend
    \<Rightarrow> SS_BackendClass \<Rightarrow> 'w world_scheme \<Rightarrow> (package \<times> SS_Frontend \<times> SS_BackendClass \<times> 'w world_scheme) ss_result" where
  "SS_search Y E mv cf req p f bc w =
     (let apdu_req = APDU_searchRequest req in
      if sf_sets f (srq_resultSetName req) \<noteq> None \<and> \<not> srq_replaceIndicator req
      then Done (p\<lparr>pkg_response := Some (GDU_Z3950 (APDU_searchResponse (create_searchResponse Y (Some apdu_req)
             BIB1_RESULT_SET_EXISTS_AND_REPLACE_INDICATOR_OFF None)))\<rparr>, f, bc, w)
      else
       (let f = f\<lparr>sf_sets := (sf_sets f)(srq_resultSetName req := None)\<rparr>;
            databases = srq_databaseNames req
        in case SS_expand_query (sf_sets f) databases (srq_query req) of
             Inl rset \<Rightarrow> Done (p\<lparr>pkg_response := Some (GDU_Z3950 (APDU_searchResponse (create_searchResponse Y (Some apdu_req)
                 BIB1_SPECIFIED_RESULT_SET_DOES_NOT_EXIST (Some rset))))\<rparr>, f, bc, w)
           | Inr query \<Rightarrow>
               (case SS_get_set Y E mv cf apdu_req databases query p bc w of
                  Waits \<Rightarrow> Waits
                | Null_deref \<Rightarrow> Null_deref
                | Done (None, p, bc, w) \<Rightarrow> Done (p, f, bc, w)
                | Done (Some (i, k), p, bc, w) \<Rightarrow>
                    (let s = bi_sets (SS_inst bc i) ! k in
                     Done (p\<lparr>pkg_response := Some (GDU_Z3950 (APDU_searchResponse
                          ((create_searchResponse Y (Some apdu_req) 0 None)\<lparr>srs_resultCount := bset_size s,
                             srs_additionalSearchInfo := bset_infoResponse s\<rparr>)))\<rparr>,
                        f\<lparr>sf_sets := (sf_sets f)(srq_resultSetName req \<mapsto> \<lparr>fset_databases = databases, fset_query = query\<rparr>)\<rparr>,
                        SS_release_backend i bc, w)))))"

text \<open>The records of a set, from the cache or by a present request to the target.\<close>

definition SS_lookup :: "'w ss_env \<Rightarrow> Z_PresentRequest \<Rightarrow> SS_BackendSet \<Rightarrow> Z_NamePlusRecord list option" where
  "SS_lookup E req s =
     (if prq_resultSetStartPoint req > 0 \<and> prq_resultSetStartPoint req < int_max \<and>
         prq_numberOfRecordsRequested req > 0 \<and> prq_numberOfRecordsRequested req < int_max
      then ss_cache_lookup E (bset_cache s) (prq_resultSetStartPoint req) (prq_numberOfRecordsRequested req)
             (prq_preferredRecordSyntax req) (prq_recordComposition req)
      else None)"

definition SS_present_request :: "yaz \<Rightarrow> Z_PresentRequest \<Rightarrow> SS_BackendSet \<Rightarrow> Z_PresentRequest" where
  "SS_present_request Y req s = (zget_presentRequest Y)\<lparr>prq_preferredRecordSyntax := prq_preferredRecordSyntax req,
     prq_resultSetId := bset_id s, prq_resultSetStartPoint := prq_resultSetStartPoint req,
     prq_numberOfRecordsRequested := prq_numberOfRecordsRequested req,
     prq_recordComposition := prq_recordComposition req\<rparr>"

definition SS_cache_add :: "Z_PresentRequest \<Rightarrow> Z_PresentResponse \<Rightarrow> SS_BackendSet \<Rightarrow> SS_BackendSet" where
  "SS_cache_add req r s =
     (case prs_records r of
        Some (Records_DBOSD npr) \<Rightarrow>
          if prq_resultSetStartPoint req > 0 \<and> int (length npr) + prq_resultSetStartPoint req < int_max
          then s\<lparr>bset_cache := bset_cache s @ [(npr, prq_resultSetStartPoint req, prq_recordComposition req)]\<rparr>
          else s
      | _ \<Rightarrow> s)"

definition SS_present_target :: "yaz \<Rightarrow> 'w ss_env \<Rightarrow> 'w move_fn \<Rightarrow> Z_PresentRequest \<Rightarrow> package \<Rightarrow> nat \<Rightarrow> nat
    \<Rightarrow> SS_BackendClass \<Rightarrow> 'w world_scheme \<Rightarrow> package \<times> SS_BackendClass \<times> 'w world_scheme" where
  "SS_present_target Y E mv req p i k bc w =
     (let apdu_req = APDU_presentRequest req;
          bc = SS_timestamp (ss_clock E w) i bc;
          s = bi_sets (SS_inst bc i) ! k;
          (pp, w) = mv [] ((Package_new (bi_session (SS_inst bc i)) (pkg_origin p))\<lparr>pkg_request :=
             Some (GDU_Z3950 (APDU_presentRequest (SS_present_request Y req s)))\<rparr>) w;
          closed = (let (bc, w) = SS_remove_backend Y mv i bc w in
             (p\<lparr>pkg_response := Some (GDU_Z3950 (APDU_presentResponse (create_presentResponse Y (Some apdu_req)
                BIB1_TEMPORARY_SYSTEM_ERROR (Some ''session_shared: target closed connection during present''))))\<rparr>, bc, w))
      in if is_closed pp then closed
         else (case pkg_response pp of
             Some (GDU_Z3950 (APDU_presentResponse r)) \<Rightarrow>
               (p\<lparr>pkg_response := Some (GDU_Z3950 (APDU_presentResponse
                    ((create_presentResponse Y (Some apdu_req) 0 None)\<lparr>
                       prs_numberOfRecordsReturned := prs_numberOfRecordsReturned r,
                       prs_nextResultSetPosition := prs_nextResultSetPosition r,
                       prs_presentStatus := prs_presentStatus r, prs_records := prs_records r,
                       prs_otherInfo := prs_otherInfo r\<rparr>)))\<rparr>,
                SS_release_backend i (SS_upd i (\<lambda>b. b\<lparr>bi_sets := (bi_sets b)[k := SS_cache_add req r s]\<rparr>) bc), w)
           | _ \<Rightarrow> closed))"

definition SS_present :: "yaz \<Rightarrow> 'w ss_env \<Rightarrow> 'w move_fn \<Rightarrow> SS_Conf \<Rightarrow> Z_PresentRequest \<Rightarrow> package \<Rightarrow> SS_Frontend
    \<Rightarrow> SS_BackendClass \<Rightarrow> 'w world_scheme \<Rightarrow> (package \<times> SS_BackendClass \<times> 'w world_scheme) ss_result" where
  "SS_present Y E mv cf req p f bc w =
     (let apdu_req = APDU_presentRequest req in
      case sf_sets f (prq_resultSetId req) of
        None \<Rightarrow> Done (p\<lparr>pkg_response := Some (GDU_Z3950 (APDU_presentResponse (create_presentResponse Y (Some apdu_req)
            BIB1_SPECIFIED_RESULT_SET_DOES_NOT_EXIST (Some (prq_resultSetId req)))))\<rparr>, bc, w)
      | Some fset \<Rightarrow>
          (case SS_get_set Y E mv cf apdu_req (fset_databases fset) (fset_query fset) p bc w of
             Waits \<Rightarrow> Waits
           | Null_deref \<Rightarrow> Null_deref
           | Done (None, p, bc, w) \<Rightarrow> Done (p, bc, w)
           | Done (Some (i, k), p, bc, w) \<Rightarrow>
               (case SS_lookup E req (bi_sets (SS_inst bc i) ! k) of
                  Some npr \<Rightarrow>
                    Done (p\<lparr>pkg_response := Some (GDU_Z3950 (APDU_presentResponse
                       ((create_presentResponse Y (Some apdu_req) 0 None)\<lparr>
                          prs_numberOfRecordsReturned := prq_numberOfRecordsRequested req,
                          prs_nextResultSetPosition := prq_resultSetStartPoint req + prq_numberOfRecordsRequested req,
                          prs_records := Some (Records_DBOSD npr)\<rparr>)))\<rparr>, SS_release_backend i bc, w)
                | None \<Rightarrow> Done (SS_present_target Y E mv req p i k bc w))))"

definition SS_scan :: "yaz \<Rightarrow> 'w ss_env \<Rightarrow> 'w move_fn \<Rightarrow> Z_ScanRequest \<Rightarrow> package
    \<Rightarrow> SS_BackendClass \<Rightarrow> 'w world_scheme \<Rightarrow> package \<times> SS_BackendClass \<times> 'w world_scheme" where
  "SS_scan Y E mv req p bc w =
     (let apdu_req = APDU_scanRequest req in
      case SS_get_backend Y E mv p bc w of
        ((None, code, addinfo), bc, w) \<Rightarrow>
          (p\<lparr>pkg_response := Some (GDU_Z3950 (APDU_scanResponse (create_scanResponse Y (Some apdu_req)
             (if code = 0 then BIB1_TEMPORARY_SYSTEM_ERROR else code)
             (Some (if length addinfo = 0 then ''session_shared: could not create backend'' else addinfo)))))\<rparr>, bc, w)
      | ((Some i, _), bc, w) \<Rightarrow>
          (let bc = SS_timestamp (ss_clock E w) i bc;
               (sp, w) = mv [] ((Package_new (bi_session (SS_inst bc i)) (pkg_origin p))\<lparr>pkg_request :=
                  Some (GDU_Z3950 apdu_req)\<rparr>) w;
               p = p\<lparr>pkg_response := pkg_response sp\<rparr>
           in if is_closed sp
              then (let (bc, w) = SS_remove_backend Y mv i bc w in (close_session p, bc, w))
              else (p, SS_release_backend i bc, w)))"

section \<open>Initialisation\<close>

definition SS_put_class :: "nat \<Rightarrow> SS_BackendClass \<Rightarrow> SS_Rep \<Rightarrow> SS_Rep" where
  "SS_put_class c bc rep = rep\<lparr>ss_classes := (ss_classes rep)[c := bc]\<rparr>"

text \<open>The class of an init request: an existing one with the same key or a new one.\<close>

definition SS_class_of :: "'w ss_env \<Rightarrow> Z_InitRequest \<Rightarrow> SS_Rep \<Rightarrow> nat \<times> SS_Rep" where
  "SS_class_of E req rep =
     (let k = InitKey_new E req in
      case SS_map_find k (ss_map rep) of
        Some c \<Rightarrow> (c, rep)
      | None \<Rightarrow>
          (let c = length (ss_classes rep) in
           (c, rep\<lparr>ss_classes := ss_classes rep @ [SS_BackendClass_new req (ss_conf rep)],
                   ss_map := SS_map_put k c (ss_map rep)\<rparr>)))"

definition SS_init_response :: "SS_Conf \<Rightarrow> Z_InitRequest \<Rightarrow> odr_mask \<Rightarrow> Z_InitResponse \<Rightarrow> Z_InitResponse" where
  "SS_init_response cf req client_options res =
     res\<lparr>irs_referenceId := source_referenceId (Some (APDU_initRequest req)),
         irs_options := {i \<in> irs_options res. i \<ge> 30 \<or> i \<in> client_options},
         irs_preferredMessageSize :=
           (if m_preferredMessageSize cf = 0 \<or> irs_preferredMessageSize res > irq_preferredMessageSize req
            then irq_preferredMessageSize req else irs_preferredMessageSize res),
         irs_maximumRecordSize :=
           (if m_maximumRecordSize cf = 0 \<or> irs_maximumRecordSize res > irq_maximumRecordSize req
            then irq_maximumRecordSize req else irs_maximumRecordSize res)\<rparr>"

text \<open>
  A backend is created unless one was created before. The loop that waits for another
  thread is in the branch where its condition is false.
\<close>

definition SS_first_backend :: "yaz \<Rightarrow> 'w ss_env \<Rightarrow> 'w move_fn \<Rightarrow> package \<Rightarrow> SS_BackendClass \<Rightarrow> 'w world_scheme
    \<Rightarrow> SS_BackendClass \<times> 'w world_scheme" where
  "SS_first_backend Y E mv p bc w =
     (if bc_no_succeeded bc = 0
      then (case SS_create_backend Y E mv p bc w of
              ((Some i, _), bc, w) \<Rightarrow> (SS_release_backend i bc, w)
            | ((None, _), bc, w) \<Rightarrow> (bc, w))
      else (bc, w))"

definition SS_init :: "yaz \<Rightarrow> 'w ss_env \<Rightarrow> string \<Rightarrow> 'w move_fn \<Rightarrow> Z_InitRequest \<Rightarrow> package \<Rightarrow> SS_Frontend
    \<Rightarrow> SS_Rep \<Rightarrow> 'w world_scheme \<Rightarrow> package \<times> SS_Frontend \<times> SS_Rep \<times> 'w world_scheme" where
  "SS_init Y E version mv req p f rep w =
     (let cf = ss_conf rep;
          client_options = irq_options req;
          req = (if m_ignore_auth cf then req\<lparr>irq_idAuthentication := None\<rparr> else req);
          (c, rep) = SS_class_of E req rep;
          f = f\<lparr>sf_is_virtual := True, sf_init_options := client_options, sf_backend_class := Some c\<rparr>;
          (bc, w) = SS_first_backend Y E mv p (ss_classes rep ! c) w;
          rep = SS_put_class c bc rep
      in case bc_init_response bc of
           Some res \<Rightarrow>
             (let res = SS_init_response cf req client_options res;
                  p = p\<lparr>pkg_response := Some (GDU_Z3950 (APDU_initResponse res))\<rparr>
              in (if \<not> irs_result res then close_session p else p, f, rep, w))
         | None \<Rightarrow>
             (close_session (p\<lparr>pkg_response := Some (GDU_Z3950 (APDU_initResponse
                ((create_initResponse Y version (Some (APDU_initRequest req)) BIB1_TEMPORARY_SYSTEM_ERROR
                   (Some ''session_shared: target closed connection during init''))\<lparr>irs_result := False\<rparr>)))\<rparr>), f, rep, w))"

section \<open>Expiry\<close>

fun SS_expire_loop :: "yaz \<Rightarrow> 'w move_fn \<Rightarrow> int \<Rightarrow> SS_BackendClass \<Rightarrow> nat list \<Rightarrow> 'w world_scheme
    \<Rightarrow> nat list \<times> 'w world_scheme" where
  "SS_expire_loop Y mv now bc [] w = ([], w)"
| "SS_expire_loop Y mv now bc (i # is) w =
     (let b = SS_inst bc i; last_use = bi_time_last_use b in
      if bi_in_use b then (let (l, w) = SS_expire_loop Y mv now bc is w in (i # l, w))
      else if now < last_use \<or> now - last_use > bc_expiry_ttl bc
      then SS_expire_loop Y mv now bc is (SS_send_close Y mv (bi_session b) (bi_origin b) w)
      else (let (l, w) = SS_expire_loop Y mv now bc is w in (i # l, w)))"

definition SS_expire_instances :: "yaz \<Rightarrow> 'w ss_env \<Rightarrow> 'w move_fn \<Rightarrow> SS_BackendClass \<Rightarrow> 'w world_scheme
    \<Rightarrow> bool \<times> SS_BackendClass \<times> 'w world_scheme" where
  "SS_expire_instances Y E mv bc w =
     (let (l, w) = SS_expire_loop Y mv (ss_clock E w) bc (bc_list bc) w
      in (l = [], bc\<lparr>bc_list := l\<rparr>, w))"

text \<open>The loop over the map starts again whenever a class was erased. \<open>kept\<close> are the entries already passed.\<close>

function SS_expire_map :: "yaz \<Rightarrow> 'w ss_env \<Rightarrow> 'w move_fn \<Rightarrow> (InitKey \<times> nat) list \<Rightarrow> (InitKey \<times> nat) list
    \<Rightarrow> SS_BackendClass list \<Rightarrow> 'w world_scheme \<Rightarrow> (InitKey \<times> nat) list \<times> SS_BackendClass list \<times> 'w world_scheme" where
  "SS_expire_map Y E mv kept [] cs w = (kept, cs, w)"
| "SS_expire_map Y E mv kept ((k, c) # es) cs w =
     (case SS_expire_instances Y E mv (cs ! c) w of
        (True, bc, w) \<Rightarrow> SS_expire_map Y E mv [] (kept @ es) (cs[c := bc]) w
      | (False, bc, w) \<Rightarrow> SS_expire_map Y E mv (kept @ [(k, c)]) es (cs[c := bc]) w)"
  by pat_completeness auto
termination
  by (relation "(\<lambda>(Y, E, mv, kept, es, cs, w). length kept + length es) <*mlex*>
        measure (\<lambda>(Y, E, mv, kept, es, cs, w). length es)")
     (auto intro: mlex_less mlex_leq wf_mlex)

definition SS_expire_classes :: "yaz \<Rightarrow> 'w ss_env \<Rightarrow> 'w move_fn \<Rightarrow> SS_Rep \<Rightarrow> 'w world_scheme
    \<Rightarrow> SS_Rep \<times> 'w world_scheme" where
  "SS_expire_classes Y E mv rep w =
     (let (es, cs, w) = SS_expire_map Y E mv [] (ss_map rep) (ss_classes rep) w
      in (rep\<lparr>ss_map := es, ss_classes := cs\<rparr>, w))"

section \<open>Packages\<close>

definition SS_get_frontend :: "package \<Rightarrow> SS_Rep \<Rightarrow> (SS_Frontend \<times> SS_Rep) option" where
  "SS_get_frontend p rep =
     (case ss_clients rep (m_id (pkg_session p)) of
        Some f \<Rightarrow>
          if \<not> sf_in_use f
          then (let f = f\<lparr>sf_in_use := True\<rparr>
                in Some (f, rep\<lparr>ss_clients := session_map_create (ss_clients rep) f (pkg_session p)\<rparr>))
          else None
      | None \<Rightarrow> Some (SS_Frontend_new, rep\<lparr>ss_clients := session_map_create (ss_clients rep) SS_Frontend_new (pkg_session p)\<rparr>))"

definition SS_release_frontend :: "package \<Rightarrow> SS_Rep \<Rightarrow> SS_Rep" where
  "SS_release_frontend p rep =
     (case ss_clients rep (m_id (pkg_session p)) of
        None \<Rightarrow> rep
      | Some f \<Rightarrow>
          if is_closed p
          then rep\<lparr>ss_clients := session_map_release (ss_clients rep) (pkg_session p)\<rparr>
          else rep\<lparr>ss_clients := session_map_create (ss_clients rep) (f\<lparr>sf_in_use := False\<rparr>) (pkg_session p)\<rparr>)"

definition SS_refuse :: "yaz \<Rightarrow> Z_APDU \<Rightarrow> int \<Rightarrow> string \<Rightarrow> package \<Rightarrow> package" where
  "SS_refuse Y apdu reason msg p =
     close_session (p\<lparr>pkg_response := Some (GDU_Z3950 (create_close Y (Some apdu) reason (Some msg)))\<rparr>)"

text \<open>A request of an initialised client. \<open>Null_deref\<close>: the frontend has no class.\<close>

definition SS_request :: "yaz \<Rightarrow> 'w ss_env \<Rightarrow> 'w move_fn \<Rightarrow> Z_APDU \<Rightarrow> package \<Rightarrow> SS_Frontend
    \<Rightarrow> SS_Rep \<Rightarrow> 'w world_scheme \<Rightarrow> (package \<times> SS_Frontend \<times> SS_Rep \<times> 'w world_scheme) ss_result" where
  "SS_request Y E mv apdu p f rep w =
     (case apdu of
        APDU_initRequest _ \<Rightarrow> Done (SS_refuse Y apdu Z_Close_protocolError ''double init'' p, f, rep, w)
      | APDU_close _ \<Rightarrow> Done (SS_refuse Y apdu Z_Close_peerAbort ''received close from client'' p, f, rep, w)
      | APDU_searchRequest req \<Rightarrow>
          (case sf_backend_class f of
             None \<Rightarrow> Null_deref
           | Some c \<Rightarrow>
               (case SS_search Y E mv (ss_conf rep) req p f (ss_classes rep ! c) w of
                  Waits \<Rightarrow> Waits
                | Null_deref \<Rightarrow> Null_deref
                | Done (p, f, bc, w) \<Rightarrow> Done (p, f, SS_put_class c bc rep, w)))
      | APDU_presentRequest req \<Rightarrow>
          (case sf_backend_class f of
             None \<Rightarrow> Null_deref
           | Some c \<Rightarrow>
               (case SS_present Y E mv (ss_conf rep) req p f (ss_classes rep ! c) w of
                  Waits \<Rightarrow> Waits
                | Null_deref \<Rightarrow> Null_deref
                | Done (p, bc, w) \<Rightarrow> Done (p, f, SS_put_class c bc rep, w)))
      | APDU_scanRequest req \<Rightarrow>
          (case sf_backend_class f of
             None \<Rightarrow> Null_deref
           | Some c \<Rightarrow>
               (case SS_scan Y E mv req p (ss_classes rep ! c) w of
                  (p, bc, w) \<Rightarrow> Done (p, f, SS_put_class c bc rep, w)))
      | _ \<Rightarrow> Done (SS_refuse Y apdu Z_Close_protocolError ''unsupported APDU in filter_session_shared'' p, f, rep, w))"

definition SS_handle :: "yaz \<Rightarrow> 'w ss_env \<Rightarrow> string \<Rightarrow> 'w move_fn \<Rightarrow> package \<Rightarrow> SS_Frontend
    \<Rightarrow> SS_Rep \<Rightarrow> 'w world_scheme \<Rightarrow> (package \<times> SS_Frontend \<times> SS_Rep \<times> 'w world_scheme) ss_result" where
  "SS_handle Y E version mv p f rep w =
     (if \<not> sf_is_virtual f
      then (case pkg_request p of
              Some (GDU_Z3950 (APDU_initRequest req)) \<Rightarrow> Done (SS_init Y E version mv req p f rep w)
            | _ \<Rightarrow> (let (p, w) = mv [] p w in Done (p, f, rep, w)))
      else (case pkg_request p of
              Some (GDU_Z3950 apdu) \<Rightarrow> SS_request Y E mv apdu p f rep w
            | _ \<Rightarrow> Done (p, f, rep, w)))"

definition SS_process :: "yaz \<Rightarrow> 'w ss_env \<Rightarrow> string \<Rightarrow> 'w move_fn \<Rightarrow> package \<Rightarrow> SS_Rep \<Rightarrow> 'w world_scheme
    \<Rightarrow> (package \<times> SS_Rep \<times> 'w world_scheme) ss_result" where
  "SS_process Y E version mv p rep w =
     (case SS_get_frontend p rep of
        None \<Rightarrow> Waits
      | Some (f, rep) \<Rightarrow>
          (case SS_handle Y E version mv p f rep w of
             Waits \<Rightarrow> Waits
           | Null_deref \<Rightarrow> Null_deref
           | Done (p', f, rep, w) \<Rightarrow>
               Done (p', SS_release_frontend p' (rep\<lparr>ss_clients := session_map_create (ss_clients rep) f (pkg_session p)\<rparr>), w)))"

section \<open>Configuration\<close>

fun SS_resultset_attrs :: "xml_attr list \<Rightarrow> SS_Conf \<Rightarrow> mp_exception + SS_Conf" where
  "SS_resultset_attrs [] cf = Inr cf"
| "SS_resultset_attrs (a # as') cf =
     (if attr_name a = ''ttl'' then SS_resultset_attrs as' (cf\<lparr>m_resultset_ttl := get_int (attr_children a) 30\<rparr>)
      else if attr_name a = ''max'' then SS_resultset_attrs as' (cf\<lparr>m_resultset_max := get_int (attr_children a) 10\<rparr>)
      else if attr_name a = ''optimizesearch''
      then SS_resultset_attrs as' (cf\<lparr>m_optimize_search := get_bool (attr_children a) True\<rparr>)
      else if attr_name a = ''restart'' then SS_resultset_attrs as' (cf\<lparr>m_restart := get_bool (attr_children a) True\<rparr>)
      else Inl (FilterException (''Bad attribute '' @ attr_name a)))"

fun SS_session_attrs :: "xml_attr list \<Rightarrow> SS_Conf \<Rightarrow> mp_exception + SS_Conf" where
  "SS_session_attrs [] cf = Inr cf"
| "SS_session_attrs (a # as') cf =
     (if attr_name a = ''ttl'' then SS_session_attrs as' (cf\<lparr>m_session_ttl := get_int (attr_children a) 90\<rparr>)
      else if attr_name a = ''max'' then SS_session_attrs as' (cf\<lparr>m_session_max := get_int (attr_children a) 100\<rparr>)
      else Inl (FilterException (''Bad attribute '' @ attr_name a)))"

fun SS_init_attrs :: "xml_attr list \<Rightarrow> SS_Conf \<Rightarrow> mp_exception + SS_Conf" where
  "SS_init_attrs [] cf = Inr cf"
| "SS_init_attrs (a # as') cf =
     (if attr_name a = ''maximum-record-size''
      then SS_init_attrs as' (cf\<lparr>m_maximumRecordSize := get_int (attr_children a) 0\<rparr>)
      else if attr_name a = ''preferred-message-size''
      then SS_init_attrs as' (cf\<lparr>m_preferredMessageSize := get_int (attr_children a) 0\<rparr>)
      else if attr_name a = ''ignore-auth''
      then SS_init_attrs as' (cf\<lparr>m_ignore_auth := get_bool (attr_children a) False\<rparr>)
      else Inl (FilterException (''Bad attribute '' @ attr_name a)))"

fun SS_element :: "xml_node list \<Rightarrow> SS_Conf \<Rightarrow> mp_exception + SS_Conf" where
  "SS_element [] cf = Inr cf"
| "SS_element (n # _) cf =
     (if node_name n = ''resultset'' then SS_resultset_attrs (node_attrs n) cf
      else if node_name n = ''session'' then SS_session_attrs (node_attrs n) cf
      else if node_name n = ''init'' then SS_init_attrs (node_attrs n) cf
      else Inl (FilterException (''Bad element '' @ node_name n)))"

definition SS_configure :: "xml_node \<Rightarrow> SS_Rep \<Rightarrow> mp_exception + SS_Rep" where
  "SS_configure node rep =
     map_sum id (\<lambda>cf. rep\<lparr>ss_conf := cf\<rparr>) (for_elements SS_element (node_children node) (ss_conf rep))"

end
