(* ===== verification/MP_Shared_Props.thy ===== *)
theory MP_Shared_Props
  imports MP_Shared MP_Yaz_Ref
begin

text \<open>
  Properties of the session_shared filter that need no view of the targets: which clients share
  a class of backends, how references to result sets are replaced, which instances expire, how
  many there can be and who may use a frontend.
\<close>

section \<open>Keys and the map of classes\<close>

definition octets_less :: "octets \<Rightarrow> octets \<Rightarrow> bool" where
  "octets_less a b \<longleftrightarrow> (map of_char a, map of_char b) \<in> lexord {(x, y). (x :: nat) < y}"

lemma octets_less_irrefl: "\<not> octets_less a a"
  unfolding octets_less_def by (rule lexord_irreflexive) simp

lemma octets_less_trans: "octets_less a b \<Longrightarrow> octets_less b c \<Longrightarrow> octets_less a c"
  unfolding octets_less_def by (rule lexord_trans) (auto intro: transI)

lemma octets_less_linear: "octets_less a b \<or> a = b \<or> octets_less b a"
proof -
  have "inj (of_char :: char \<Rightarrow> nat)" by (rule injI) simp
  then have "map of_char a = (map of_char b :: nat list) \<longleftrightarrow> a = b" by (rule inj_map_eq_map)
  then show ?thesis
    using lexord_linear [of "{(x, y). (x :: nat) < y}" "map of_char a" "map of_char b"]
    unfolding octets_less_def by (metis (lifting) case_prodI mem_Collect_eq nat_neq_iff)
qed

lemma memcmp2_sign: "memcmp2 a b < 0 \<longleftrightarrow> octets_less a b" "memcmp2 a b > 0 \<longleftrightarrow> octets_less b a"
  using octets_less_linear [of a b] octets_less_irrefl [of a] octets_less_trans [of a b a]
  by (auto simp: memcmp2_lexord octets_less_def)

lemma InitKey_less_octets:
  "InitKey_less k k' \<longleftrightarrow> octets_less (ik_idAuthentication k) (ik_idAuthentication k') \<or>
     ik_idAuthentication k = ik_idAuthentication k' \<and> octets_less (ik_otherInfo k) (ik_otherInfo k')"
  using octets_less_linear [of "ik_idAuthentication k" "ik_idAuthentication k'"]
    octets_less_irrefl octets_less_trans [of "ik_idAuthentication k" "ik_idAuthentication k'" "ik_idAuthentication k"]
  by (auto simp: InitKey_less_def Let_def memcmp2_sign)

text \<open>The order \<open>std::map\<close> is given is a linear one: two keys are the same for the map when they are equal.\<close>

definition InitKey_le :: "InitKey \<Rightarrow> InitKey \<Rightarrow> bool" where
  "InitKey_le k k' \<longleftrightarrow> InitKey_less k k' \<or> k = k'"

lemma InitKey_less_irrefl: "\<not> InitKey_less k k"
  by (simp add: InitKey_less_octets octets_less_irrefl)

lemma InitKey_less_trans: "InitKey_less x y \<Longrightarrow> InitKey_less y z \<Longrightarrow> InitKey_less x z"
  by (auto simp: InitKey_less_octets intro: octets_less_trans)

lemma InitKey_less_linear: "InitKey_less x y \<or> x = y \<or> InitKey_less y x"
  using octets_less_linear [of "ik_idAuthentication x" "ik_idAuthentication y"]
    octets_less_linear [of "ik_otherInfo x" "ik_otherInfo y"]
  by (cases x; cases y) (auto simp: InitKey_less_octets)

interpretation init_key: linorder InitKey_le InitKey_less
proof unfold_locales
  fix x y z :: InitKey
  show "InitKey_less x y \<longleftrightarrow> InitKey_le x y \<and> \<not> InitKey_le y x"
    using InitKey_less_irrefl [of x] InitKey_less_trans [of x y x] by (auto simp: InitKey_le_def)
  show "InitKey_le x x" by (simp add: InitKey_le_def)
  show "InitKey_le x y \<Longrightarrow> InitKey_le y z \<Longrightarrow> InitKey_le x z"
    by (auto simp: InitKey_le_def intro: InitKey_less_trans)
  show "InitKey_le x y \<Longrightarrow> InitKey_le y x \<Longrightarrow> x = y"
    using InitKey_less_irrefl [of x] InitKey_less_trans [of x y x] by (auto simp: InitKey_le_def)
  show "InitKey_le x y \<or> InitKey_le y x" using InitKey_less_linear [of x y] by (auto simp: InitKey_le_def)
qed

lemma InitKey_same [simp]: "(\<not> InitKey_less k k' \<and> \<not> InitKey_less k' k) \<longleftrightarrow> k = k'"
  using init_key.less_linear [of k k'] by auto

lemma SS_map_find_Some: "SS_map_find k es = Some c \<Longrightarrow> (k, c) \<in> set es"
  by (induction k es rule: SS_map_find.induct) (auto split: if_splits)

lemma SS_map_find_put:
  "SS_map_find k (SS_map_put k' c es) = (if k = k' then Some c else SS_map_find k es)"
proof (induction k' c es rule: SS_map_put.induct)
  case (2 k' c k'' c' es)
  then show ?case using init_key.less_linear [of k' k''] by auto
qed simp

lemma set_SS_map_put: "set (SS_map_put k c es) \<subseteq> insert (k, c) (set es)"
proof (induction k c es rule: SS_map_put.induct)
  case (2 k c k' c' es)
  then show ?case using init_key.less_linear [of k k'] by auto
qed simp

lemma snd_SS_map_put: "SS_map_find k es = None \<Longrightarrow> snd ` set (SS_map_put k c es) = insert c (snd ` set es)"
proof (induction k c es rule: SS_map_put.induct)
  case (2 k c k' c' es)
  then show ?case by (auto split: if_splits)
qed simp

lemma SS_map_put_distinct:
  "SS_map_find k es = None \<Longrightarrow> distinct (map snd es) \<Longrightarrow> c \<notin> snd ` set es \<Longrightarrow>
   distinct (map snd (SS_map_put k c es))"
proof (induction k c es rule: SS_map_put.induct)
  case (2 k c k' c' es)
  then show ?case using snd_SS_map_put [of k es c] by (auto split: if_splits simp flip: image_set)
qed simp

lemma SS_map_put_sorted:
  "sorted_wrt InitKey_less (map fst es) \<Longrightarrow> sorted_wrt InitKey_less (map fst (SS_map_put k c es))"
proof (induction k c es rule: SS_map_put.induct)
  case (2 k c k' c' es)
  then show ?case using set_SS_map_put [of k c es] init_key.less_linear [of k k']
    by (fastforce dest: init_key.less_trans)
qed simp

text \<open>The map is sorted, and its entries are different classes.\<close>

definition SS_map_ok :: "SS_Rep \<Rightarrow> bool" where
  "SS_map_ok rep \<longleftrightarrow> sorted_wrt InitKey_less (map fst (ss_map rep)) \<and> distinct (map snd (ss_map rep)) \<and>
     (\<forall>c \<in> snd ` set (ss_map rep). c < length (ss_classes rep))"

lemma SS_map_find_inj:
  assumes "SS_map_ok rep" and "SS_map_find k (ss_map rep) = Some c" and "SS_map_find k' (ss_map rep) = Some c"
  shows "k = k'"
proof -
  have "inj_on snd (set (ss_map rep))" using assms(1) by (simp add: SS_map_ok_def distinct_map)
  then show ?thesis using SS_map_find_Some [OF assms(2)] SS_map_find_Some [OF assms(3)] by (metis Pair_inject inj_onD snd_conv)
qed

lemma SS_class_of_ok:
  assumes "SS_map_ok rep" and "SS_class_of E req rep = (c, rep')"
  shows "SS_map_ok rep' \<and> c < length (ss_classes rep') \<and> SS_map_find (InitKey_new E req) (ss_map rep') = Some c \<and>
    (\<forall>k d. SS_map_find k (ss_map rep) = Some d \<longrightarrow> SS_map_find k (ss_map rep') = Some d)"
proof (cases "SS_map_find (InitKey_new E req) (ss_map rep)")
  case None
  let ?k = "InitKey_new E req"
  let ?n = "length (ss_classes rep)"
  have r: "c = ?n" "rep' = rep\<lparr>ss_classes := ss_classes rep @ [SS_BackendClass_new req (ss_conf rep)],
      ss_map := SS_map_put ?k ?n (ss_map rep)\<rparr>"
    using assms(2) None by (auto simp: SS_class_of_def Let_def)
  have "?n \<notin> snd ` set (ss_map rep)" using assms(1) by (auto simp: SS_map_ok_def)
  then have "SS_map_ok rep'"
    using assms(1) None SS_map_put_sorted SS_map_put_distinct snd_SS_map_put [OF None, of ?n]
    by (auto simp: SS_map_ok_def r less_Suc_eq)
  then show ?thesis using None by (auto simp: r SS_map_find_put)
next
  case (Some d)
  then show ?thesis using assms SS_map_find_Some [OF Some] by (force simp: SS_class_of_def Let_def SS_map_ok_def)
qed

text \<open>
  C31. Two clients share the backend sessions of a class exactly when their init requests have the
  same key: the octets of their authentication and of their other information agree.\<close>
theorem SS_share_class:
  assumes "SS_map_ok rep" and "SS_class_of E req rep = (c, rep1)" and "SS_class_of E req' rep1 = (c', rep2)"
  shows "c = c' \<longleftrightarrow> InitKey_new E req = InitKey_new E req'"
proof -
  note one = SS_class_of_ok [OF assms(1,2)]
  note two = SS_class_of_ok [OF one [THEN conjunct1] assms(3)]
  show ?thesis using one two SS_map_find_inj [of rep2 "InitKey_new E req" c "InitKey_new E req'"] by auto
qed

section \<open>An instance of the parameters\<close>

text \<open>
  Keys are the authentication string and the strings of the other information; queries and
  search information match when they are equal; a cached record is found by position and
  composition; the clock stands still.
\<close>

fun cache_at :: "record_cache \<Rightarrow> Z_RecordComposition option \<Rightarrow> int \<Rightarrow> Z_NamePlusRecord option" where
  "cache_at [] cmp pos = None"
| "cache_at ((npr, start, cmp') # c) cmp pos =
     (if cmp' = cmp \<and> start \<le> pos \<and> pos < start + int (length npr) then Some (npr ! nat (pos - start))
      else cache_at c cmp pos)"

definition cache_lookup :: "record_cache \<Rightarrow> int \<Rightarrow> int \<Rightarrow> octets option \<Rightarrow> Z_RecordComposition option
    \<Rightarrow> Z_NamePlusRecord list option" where
  "cache_lookup c start num syn cmp =
     those (map (\<lambda>j. cache_at c cmp (start + int j)) [0..<nat num])"

definition ss_env_ref :: "'w ss_env" where
  "ss_env_ref = \<lparr>ss_clock = (\<lambda>w. 1000),
     ss_encode = (\<lambda>a oi. (case a of Some (IdAuthentication_open s) \<Rightarrow> s | Some (IdAuthentication_other s) \<Rightarrow> s | _ \<Rightarrow> [],
        concat (map oiu_string oi))),
     ss_query_match = (=), ss_compare_info = (=), ss_cache_lookup = cache_lookup\<rparr>"

abbreviation init_of :: "string \<Rightarrow> Z_InitRequest" where
  "init_of user \<equiv> \<lparr>irq_referenceId = None, irq_protocolVersion = {}, irq_options = {0, 14}, irq_preferredMessageSize = 1000,
     irq_maximumRecordSize = 1000, irq_idAuthentication = Some (IdAuthentication_open user), irq_implementationId = None,
     irq_implementationName = None, irq_implementationVersion = None, irq_otherInfo = []\<rparr>"

abbreviation unit_env :: "unit ss_env" where "unit_env \<equiv> ss_env_ref"

theorem SS_share_class_witness:
  "fst (SS_class_of unit_env (init_of ''b'') (snd (SS_class_of unit_env (init_of ''b'') SS_Rep_new))) =
     fst (SS_class_of unit_env (init_of ''b'') SS_Rep_new) \<and>
   fst (SS_class_of unit_env (init_of ''a'') (snd (SS_class_of unit_env (init_of ''b'') SS_Rep_new))) \<noteq>
     fst (SS_class_of unit_env (init_of ''b'') SS_Rep_new)"
proof -
  have ok: "SS_map_ok SS_Rep_new" by (simp add: SS_map_ok_def SS_Rep_new_def)
  have key: "InitKey_new unit_env (init_of ''b'') \<noteq> InitKey_new unit_env (init_of ''a'')"
    by (simp add: InitKey_new_def ss_env_ref_def)
  obtain c rep where 1: "SS_class_of unit_env (init_of ''b'') SS_Rep_new = (c, rep)" by fastforce
  obtain c1 rep1 where 2: "SS_class_of unit_env (init_of ''b'') rep = (c1, rep1)" by fastforce
  obtain c2 rep2 where 3: "SS_class_of unit_env (init_of ''a'') rep = (c2, rep2)" by fastforce
  show ?thesis using SS_share_class [OF ok 1 2] SS_share_class [OF ok 1 3] key 1 2 3 by auto
qed

section \<open>References to result sets\<close>

text \<open>
  The value of a query, for any meaning of terms, operators and result sets.
\<close>

primrec rpn_value :: "(octets \<Rightarrow> 'v) \<Rightarrow> (octets \<Rightarrow> 'v \<Rightarrow> 'v \<Rightarrow> 'v) \<Rightarrow> (string \<Rightarrow> 'v) \<Rightarrow> Z_RPNStructure \<Rightarrow> 'v" where
  "rpn_value T F S (RPN_simple x) = (case x of Operand_attributesPlusTerm t \<Rightarrow> T t | Operand_resultSetId r \<Rightarrow> S r)"
| "rpn_value T F S (RPN_complex op s1 s2) = F op (rpn_value T F S s1) (rpn_value T F S s2)"

primrec rpn_refs :: "Z_RPNStructure \<Rightarrow> string set" where
  "rpn_refs (RPN_simple x) = (case x of Operand_attributesPlusTerm t \<Rightarrow> {} | Operand_resultSetId r \<Rightarrow> {r})"
| "rpn_refs (RPN_complex op s1 s2) = rpn_refs s1 \<union> rpn_refs s2"

fun query_rpn :: "Z_Query \<Rightarrow> Z_RPNStructure option" where
  "query_rpn (Query_type_1 s) = Some s"
| "query_rpn (Query_type_101 s) = Some s"
| "query_rpn (Query_other _) = None"

definition query_refs :: "Z_Query \<Rightarrow> string set" where
  "query_refs q = (case query_rpn q of Some s \<Rightarrow> rpn_refs s | None \<Rightarrow> {})"

text \<open>The query of a set a reference can stand for: the set was made on the same databases by an RPN query.\<close>

definition set_rpn :: "(string \<rightharpoonup> SS_FrontendSet) \<Rightarrow> string list \<Rightarrow> string \<Rightarrow> Z_RPNStructure option" where
  "set_rpn sets databases r =
     (case sets r of
        None \<Rightarrow> None
      | Some fset \<Rightarrow> if match (fset_databases fset) databases then query_rpn (fset_query fset) else None)"

definition sets_closed :: "(string \<rightharpoonup> SS_FrontendSet) \<Rightarrow> bool" where
  "sets_closed sets \<longleftrightarrow> (\<forall>r fset. sets r = Some fset \<longrightarrow> query_refs (fset_query fset) = {})"

lemma set_rpn_closed: "sets_closed sets \<Longrightarrow> set_rpn sets databases r = Some s \<Longrightarrow> rpn_refs s = {}"
  by (auto simp: set_rpn_def sets_closed_def query_refs_def split: option.splits if_splits)

lemma result_set_ref_reference:
  "result_set_ref sets databases (RPN_simple (Operand_resultSetId r)) =
     (case set_rpn sets databases r of None \<Rightarrow> Inl r | Some s \<Rightarrow> Inr s)"
  by (auto simp: set_rpn_def split: option.splits Z_Query.splits)

lemma result_set_ref_spec:
  "case result_set_ref sets databases s of
     Inl r \<Rightarrow> r \<in> rpn_refs s \<and> set_rpn sets databases r = None
   | Inr s' \<Rightarrow> (\<forall>r \<in> rpn_refs s. set_rpn sets databases r \<noteq> None) \<and>
       rpn_refs s' = (\<Union>r \<in> rpn_refs s. rpn_refs (the (set_rpn sets databases r))) \<and>
       rpn_value T F S s' = rpn_value T F (\<lambda>r. rpn_value T F S (the (set_rpn sets databases r))) s"
proof (induction s)
  case (RPN_simple x)
  then show ?case
    by (cases x) (auto simp: result_set_ref_reference simp del: result_set_ref.simps(1) split: option.splits)
next
  case (RPN_complex op s1 s2)
  then show ?case by (auto split: sum.splits)
qed

lemma SS_expand_query_closed:
  assumes "sets_closed sets" and "SS_expand_query sets databases q = Inr q'"
  shows "query_refs q' = {}"
proof -
  have closed: "rpn_refs s' = {}" if "result_set_ref sets databases s = Inr s'" for s s'
    using result_set_ref_spec [where sets = sets and databases = databases and s = s] set_rpn_closed [OF assms(1)] that
    by (fastforce split: sum.splits)
  then show ?thesis using assms(2)
    by (cases q) (auto simp: query_refs_def map_sum_def split: sum.splits)
qed

text \<open>
  C32. A query that names result sets of the client is replaced by one that names none and has the
  same value, for any meaning of terms and operators, when a name stands for the value
  of the query of that set; this fails exactly when a name stands for no set made by an RPN
  query on the same databases, and the diagnostic then tells such a name.\<close>
theorem result_set_ref_correct:
  assumes "sets_closed sets"
  shows "(\<exists>s'. result_set_ref sets databases s = Inr s' \<and> rpn_refs s' = {} \<and>
        (\<forall>S. rpn_value T F S s' = rpn_value T F (\<lambda>r. rpn_value T F S (the (set_rpn sets databases r))) s) \<and>
        (\<forall>r \<in> rpn_refs s. set_rpn sets databases r \<noteq> None)) \<or>
     (\<exists>r. result_set_ref sets databases s = Inl r \<and> r \<in> rpn_refs s \<and> set_rpn sets databases r = None)"
proof (cases "result_set_ref sets databases s")
  case (Inl r)
  then show ?thesis using result_set_ref_spec [where sets = sets and databases = databases and s = s] by simp
next
  case (Inr s')
  have val: "(\<forall>r \<in> rpn_refs s. set_rpn sets databases r \<noteq> None) \<and>
       rpn_refs s' = (\<Union>r \<in> rpn_refs s. rpn_refs (the (set_rpn sets databases r))) \<and>
       rpn_value T F S s' = rpn_value T F (\<lambda>r. rpn_value T F S (the (set_rpn sets databases r))) s" for S
    using result_set_ref_spec [where sets = sets and databases = databases and s = s and T = T and F = F and S = S] Inr by simp
  then have "rpn_refs s' = {}" using set_rpn_closed [OF assms] by fastforce
  then show ?thesis using Inr val by blast
qed

theorem result_set_ref_correct_witness:
  "\<exists>s'. result_set_ref [''a'' \<mapsto> \<lparr>fset_databases = [''Db''], fset_query = Query_type_1 (RPN_simple (Operand_attributesPlusTerm ''x''))\<rparr>]
       [''db''] (RPN_complex ''and'' (RPN_simple (Operand_resultSetId ''a'')) (RPN_simple (Operand_attributesPlusTerm ''y''))) = Inr s' \<and>
     rpn_value id (\<lambda>op x y. x @ op @ y) (\<lambda>_. []) s' = ''xandy''"
proof -
  let ?sets = "[''a'' \<mapsto> \<lparr>fset_databases = [''Db''], fset_query = Query_type_1 (RPN_simple (Operand_attributesPlusTerm ''x''))\<rparr>]"
  have "sets_closed ?sets" by (simp add: sets_closed_def query_refs_def)
  moreover have "match [''Db''] [''db'']" by code_simp
  ultimately show ?thesis
    using result_set_ref_correct [of ?sets "[''db'']"
      "RPN_complex ''and'' (RPN_simple (Operand_resultSetId ''a'')) (RPN_simple (Operand_attributesPlusTerm ''y''))"
      id "\<lambda>op x y. x @ op @ y"]
    by (auto simp: set_rpn_def)
qed

section \<open>Expiry\<close>

definition SS_expired :: "int \<Rightarrow> SS_BackendClass \<Rightarrow> nat \<Rightarrow> bool" where
  "SS_expired now bc i \<longleftrightarrow> \<not> bi_in_use (SS_inst bc i) \<and>
     (now < bi_time_last_use (SS_inst bc i) \<or> now - bi_time_last_use (SS_inst bc i) > bc_expiry_ttl bc)"

definition SS_close_instance :: "yaz \<Rightarrow> 'w move_fn \<Rightarrow> SS_BackendClass \<Rightarrow> nat \<Rightarrow> 'w world_scheme \<Rightarrow> 'w world_scheme" where
  "SS_close_instance Y mv bc i = SS_send_close Y mv (bi_session (SS_inst bc i)) (bi_origin (SS_inst bc i))"

lemma SS_expire_loop_spec:
  "SS_expire_loop Y mv now bc is w =
     (filter (\<lambda>i. \<not> SS_expired now bc i) is, fold (SS_close_instance Y mv bc) (filter (SS_expired now bc) is) w)"
  by (induction Y mv now bc "is" w rule: SS_expire_loop.induct)
     (auto simp: SS_expired_def SS_close_instance_def Let_def)

text \<open>
  Expiry of a class drops exactly the instances that are not in use and whose last use is
  longer ago than the time to live (or in the future), keeps the others in their order, moves
  a close package on the session of each instance dropped, in order, and reports whether none is left.\<close>
theorem SS_expire_instances_correct:
  "SS_expire_instances Y E mv bc w =
     (filter (\<lambda>i. \<not> SS_expired (ss_clock E w) bc i) (bc_list bc) = [],
      bc\<lparr>bc_list := filter (\<lambda>i. \<not> SS_expired (ss_clock E w) bc i) (bc_list bc)\<rparr>,
      fold (SS_close_instance Y mv bc) (filter (SS_expired (ss_clock E w) bc) (bc_list bc)) w)"
  by (simp add: SS_expire_instances_def SS_expire_loop_spec)

text \<open>What expiry may do to a class.\<close>

definition SS_trimmed :: "SS_BackendClass \<Rightarrow> SS_BackendClass \<Rightarrow> bool" where
  "SS_trimmed bc bc' \<longleftrightarrow> (\<exists>P. bc' = bc\<lparr>bc_list := filter P (bc_list bc)\<rparr> \<and>
     (\<forall>i \<in> set (bc_list bc). bi_in_use (SS_inst bc i) \<longrightarrow> P i))"

lemma SS_trimmed_refl: "SS_trimmed bc bc"
  by (auto simp: SS_trimmed_def intro!: exI [of _ "\<lambda>_. True"])

lemma SS_trimmed_trans: "SS_trimmed bc bc1 \<Longrightarrow> SS_trimmed bc1 bc2 \<Longrightarrow> SS_trimmed bc bc2"
proof -
  assume "SS_trimmed bc bc1" "SS_trimmed bc1 bc2"
  then obtain P Q where "bc1 = bc\<lparr>bc_list := filter P (bc_list bc)\<rparr>" "bc2 = bc1\<lparr>bc_list := filter Q (bc_list bc1)\<rparr>"
      "\<forall>i \<in> set (bc_list bc). bi_in_use (SS_inst bc i) \<longrightarrow> P i"
      "\<forall>i \<in> set (bc_list bc1). bi_in_use (SS_inst bc1 i) \<longrightarrow> Q i"
    unfolding SS_trimmed_def by blast
  then show ?thesis by (auto simp: SS_trimmed_def SS_inst_def intro!: exI [of _ "\<lambda>i. P i \<and> Q i"])
qed

lemma SS_trimmed_Nil: "SS_trimmed bc bc' \<Longrightarrow> bc_list bc = [] \<Longrightarrow> bc_list bc' = []"
  by (auto simp: SS_trimmed_def)

lemma SS_expire_instances_trimmed:
  "SS_expire_instances Y E mv bc w = (b, bc', w') \<Longrightarrow> SS_trimmed bc bc' \<and> (b \<longleftrightarrow> bc_list bc' = [])"
  by (auto simp: SS_expire_instances_def SS_expire_loop_spec SS_trimmed_def SS_expired_def)

lemma SS_expire_map_spec:
  "SS_expire_map Y E mv kept es cs w = (es', cs', w') \<Longrightarrow>
   distinct (map snd (kept @ es)) \<Longrightarrow> (\<forall>e \<in> set (kept @ es). snd e < length cs) \<Longrightarrow>
   (\<forall>e \<in> set kept. bc_list (cs ! snd e) \<noteq> []) \<Longrightarrow>
   es' = filter (\<lambda>e. bc_list (cs' ! snd e) \<noteq> []) (kept @ es) \<and> length cs' = length cs \<and>
   (\<forall>c < length cs. SS_trimmed (cs ! c) (cs' ! c))"
proof (induction Y E mv kept es cs w arbitrary: es' cs' w' rule: SS_expire_map.induct)
  case (1 Y E mv kept cs w)
  then show ?case by (simp add: SS_trimmed_refl)
next
  case (2 Y E mv kept k c es cs w)
  obtain b bc w1 where ex: "SS_expire_instances Y E mv (cs ! c) w = (b, bc, w1)" by (cases rule: prod_cases3)
  note tr = SS_expire_instances_trimmed [OF ex]
  have c: "c < length cs" "c \<notin> snd ` set kept" "c \<notin> snd ` set es" using "2.prems"(2,3) by auto
  have other: "cs[c := bc] ! snd e = cs ! snd e" if "e \<in> set kept" for e using that c by (auto simp: image_iff)
  have step: "SS_trimmed (cs ! d) (cs' ! d)"
    if "\<forall>d < length (cs[c := bc]). SS_trimmed (cs[c := bc] ! d) (cs' ! d)" "d < length cs" for d
    using that tr SS_trimmed_trans by (cases "d = c") (auto simp: nth_list_update)
  show ?case
  proof (cases b)
    case True
    then have run: "SS_expire_map Y E mv [] (kept @ es) (cs[c := bc]) w1 = (es', cs', w')" using "2.prems"(1) ex by simp
    have IH: "es' = filter (\<lambda>e. bc_list (cs' ! snd e) \<noteq> []) ([] @ (kept @ es)) \<and> length cs' = length (cs[c := bc]) \<and>
       (\<forall>d < length (cs[c := bc]). SS_trimmed (cs[c := bc] ! d) (cs' ! d))"
      using "2.prems" True ex by (intro "2.IH"(1) [OF ex [symmetric] _ _ run]) auto
    then have "bc_list (cs' ! c) = []" using SS_trimmed_Nil tr True c by fastforce
    then show ?thesis using IH step by auto
  next
    case False
    then have run: "SS_expire_map Y E mv (kept @ [(k, c)]) es (cs[c := bc]) w1 = (es', cs', w')" using "2.prems"(1) ex by simp
    have "es' = filter (\<lambda>e. bc_list (cs' ! snd e) \<noteq> []) ((kept @ [(k, c)]) @ es) \<and> length cs' = length (cs[c := bc]) \<and>
       (\<forall>d < length (cs[c := bc]). SS_trimmed (cs[c := bc] ! d) (cs' ! d))"
      using "2.prems" False ex other tr c by (intro "2.IH"(2) [OF ex [symmetric] _ _ run]) auto
    then show ?thesis using step by auto
  qed
qed

text \<open>
  C36. Expiry of all classes ends; it forgets exactly the classes that have no instance left, keeps
  the map of classes well formed, takes no instance in use away from any class and leaves the
  clients and the configuration alone.\<close>
theorem SS_expire_classes_correct:
  assumes "SS_map_ok rep" and "SS_expire_classes Y E mv rep w = (rep', w')"
  shows "ss_map rep' = filter (\<lambda>e. bc_list (ss_classes rep' ! snd e) \<noteq> []) (ss_map rep) \<and> SS_map_ok rep' \<and>
     length (ss_classes rep') = length (ss_classes rep) \<and>
     (\<forall>c < length (ss_classes rep). SS_trimmed (ss_classes rep ! c) (ss_classes rep' ! c)) \<and>
     ss_clients rep' = ss_clients rep \<and> ss_conf rep' = ss_conf rep"
proof -
  obtain es cs w1 where run: "SS_expire_map Y E mv [] (ss_map rep) (ss_classes rep) w = (es, cs, w1)"
    by (cases rule: prod_cases3)
  have rep': "rep' = rep\<lparr>ss_map := es, ss_classes := cs\<rparr>" using assms(2) run by (simp add: SS_expire_classes_def)
  have "es = filter (\<lambda>e. bc_list (cs ! snd e) \<noteq> []) ([] @ ss_map rep) \<and> length cs = length (ss_classes rep) \<and>
     (\<forall>c < length (ss_classes rep). SS_trimmed (ss_classes rep ! c) (cs ! c))"
    using assms(1) by (intro SS_expire_map_spec [OF run]) (auto simp: SS_map_ok_def)
  moreover have "sorted_wrt R (map f (filter P xs))" if "sorted_wrt R (map f xs)" for R f P and xs :: "(InitKey \<times> nat) list"
    using that by (simp add: sorted_wrt_map sorted_wrt_filter)
  ultimately show ?thesis
    using assms(1) by (auto simp: rep' SS_map_ok_def distinct_map_filter)
qed

theorem SS_expire_classes_correct_witness:
  "ss_map (fst (SS_expire_classes yaz_ref unit_env (\<lambda>r p w. (p, w))
     (snd (SS_class_of unit_env (init_of ''b'') SS_Rep_new)) \<lparr>m_global_id = 0\<rparr>)) = []"
proof -
  let ?rep = "snd (SS_class_of unit_env (init_of ''b'') SS_Rep_new)"
  have rep: "ss_map ?rep = [(InitKey_new unit_env (init_of ''b''), 0)]" "length (ss_classes ?rep) = 1" "bc_list (ss_classes ?rep ! 0) = []"
    by (simp_all add: SS_class_of_def SS_Rep_new_def Let_def SS_BackendClass_new_def)
  have ok: "SS_map_ok ?rep" unfolding SS_map_ok_def rep by simp
  obtain rep' w' where run: "SS_expire_classes yaz_ref unit_env (\<lambda>r p w. (p, w)) ?rep \<lparr>m_global_id = 0\<rparr> = (rep', w')"
    by fastforce
  note ex = SS_expire_classes_correct [OF ok run]
  then have "SS_trimmed (ss_classes ?rep ! 0) (ss_classes rep' ! 0)" using rep(2) by simp
  then have "bc_list (ss_classes rep' ! 0) = []" using SS_trimmed_Nil rep(3) by blast
  then show ?thesis using ex run rep(1) by simp
qed

section \<open>Frontends\<close>

definition SS_busy :: "SS_Rep \<Rightarrow> 64 word \<Rightarrow> bool" where
  "SS_busy rep i = (case ss_clients rep i of Some f \<Rightarrow> sf_in_use f | None \<Rightarrow> False)"

definition SS_get :: "origin \<Rightarrow> session \<Rightarrow> SS_Rep \<Rightarrow> SS_Rep option" where
  "SS_get ori s rep = map_option snd (SS_get_frontend (Package_new s ori) rep)"

definition SS_release :: "origin \<Rightarrow> session \<Rightarrow> SS_Rep \<Rightarrow> SS_Rep" where
  "SS_release ori s rep = SS_release_frontend (Package_new s ori) rep"

interpretation ss_pool: frontend_pool SS_busy "SS_get ori" "SS_release ori"
  for ori :: origin
proof unfold_locales
  fix s :: session and rep rep' :: SS_Rep and i
  show "SS_get ori s rep = None \<longleftrightarrow> SS_busy rep (m_id s)"
    by (auto simp: SS_get_def SS_get_frontend_def SS_busy_def Package_new_def Let_def split: option.splits)
  show "SS_get ori s rep = Some rep' \<Longrightarrow> SS_busy rep' i \<longleftrightarrow> i = m_id s \<or> SS_busy rep i"
    by (auto simp: SS_get_def SS_get_frontend_def SS_busy_def Package_new_def SS_Frontend_new_def
        session_map_create_def Let_def split: option.splits if_splits)
  show "SS_busy (SS_release ori s rep) i \<longleftrightarrow> i \<noteq> m_id s \<and> SS_busy rep i"
    by (auto simp: SS_release_def SS_release_frontend_def SS_busy_def Package_new_def
        session_map_create_def session_map_release_def split: option.splits)
qed

section \<open>The number of backend sessions\<close>

lemma length_SS_upd [simp]: "length (bc_list (SS_upd i g bc)) = length (bc_list bc)"
  by (simp add: SS_upd_def)

lemma bc_list_ops [simp]:
  "bc_list (SS_upd i g bc) = bc_list bc" "bc_list (SS_use_backend i bc) = bc_list bc"
  "bc_list (SS_release_backend i bc) = bc_list bc" "bc_list (SS_timestamp t i bc) = bc_list bc"
  "bc_list (snd (SS_next_id i bc)) = bc_list bc"
  by (simp_all add: SS_upd_def SS_use_backend_def SS_release_backend_def SS_timestamp_def SS_next_id_def)

lemma SS_remove_backend_length: "SS_remove_backend Y mv i bc w = (bc', w') \<Longrightarrow> length (bc_list bc') \<le> length (bc_list bc)"
  by (auto simp: SS_remove_backend_def length_remove1 split: if_splits)

lemma SS_override_set_list: "SS_override_set now bc dbs oos = (r, bc') \<Longrightarrow> bc_list bc' = bc_list bc"
  by (auto simp: SS_override_set_def Let_def case_prod_unfold split: option.splits)

lemma SS_choose_list:
  "SS_choose E cf a dbs q bc w = Some (ch, bc') \<Longrightarrow> bc_list bc' = bc_list bc \<and>
     (\<forall>oos. ch = No_backend oos \<longrightarrow> (oos \<longleftrightarrow> int (length (bc_list bc)) \<ge> m_session_max cf))"
  by (auto simp: SS_choose_def Let_def dest: SS_override_set_list split: option.splits prod.splits if_splits)

lemma SS_create_failed_list: "SS_create_failed Y mv s ori ip d bc w = (r, bc', w') \<Longrightarrow> fst r = None \<and> bc_list bc' = bc_list bc"
  by (auto simp: SS_create_failed_def Let_def)

lemma SS_create_backend_length:
  "SS_create_backend Y E mv p bc w = (r, bc', w') \<Longrightarrow> length (bc_list bc') \<le> Suc (length (bc_list bc))"
  by (auto simp: SS_create_backend_def Let_def dest!: SS_create_failed_list
      split: prod.splits option.splits Z_GDU.splits Z_APDU.splits if_splits)

abbreviation pass_class :: "'w ss_pass \<Rightarrow> SS_BackendClass option" where
  "pass_class r \<equiv> (case r of Pass_waits \<Rightarrow> None | Pass_again bc w \<Rightarrow> Some bc | Pass_found i k bc w \<Rightarrow> Some bc
     | Pass_failed p bc w \<Rightarrow> Some bc | Pass_no_backend p bc w \<Rightarrow> Some bc)"

lemma SS_new_set_length:
  "pass_class (SS_new_set Y E mv cf a dbs q re p i rid bc w) = Some bc' \<Longrightarrow> length (bc_list bc') \<le> length (bc_list bc)"
  by (auto simp: SS_new_set_def Let_def dest!: SS_remove_backend_length split: prod.splits sum.splits if_splits)

lemma SS_pass_length:
  assumes "pass_class (SS_pass Y E mv cf a dbs q re p bc w) = Some bc'"
  shows "int (length (bc_list bc')) \<le> max (int (length (bc_list bc))) (m_session_max cf)"
proof (cases "SS_choose E cf a dbs q bc w")
  case None
  then show ?thesis using assms by (simp add: SS_pass_def)
next
  case (Some cb)
  then obtain ch bc1 where ch: "SS_choose E cf a dbs q bc w = Some (ch, bc1)" by (cases cb) simp
  note l = SS_choose_list [OF ch]
  show ?thesis
  proof (cases ch)
    case (Share i k)
    then show ?thesis using assms ch l by (simp add: SS_pass_def)
  next
    case (Take i rid)
    then show ?thesis using assms ch l SS_new_set_length [of Y E mv cf a dbs q re p i rid bc1 w bc'] by (simp add: SS_pass_def)
  next
    case (No_backend oos)
    show ?thesis
    proof (cases oos)
      case True
      then show ?thesis using assms ch l No_backend by (simp add: SS_pass_def)
    next
      case False
      then have room: "int (length (bc_list bc)) < m_session_max cf" using l No_backend by auto
      obtain r n m bc2 w2 where cr: "SS_create_backend Y E mv p bc1 w = ((r, n, m), bc2, w2)" using prod.exhaust by metis
      note len = SS_create_backend_length [OF cr]
      have "length (bc_list bc') \<le> length (bc_list bc2)"
      proof (cases r)
        case None
        then show ?thesis using assms ch No_backend False cr by (simp add: SS_pass_def)
      next
        case (Some i)
        then show ?thesis
          using assms ch No_backend False cr SS_new_set_length [of Y E mv cf a dbs q re p i "fst (SS_next_id i bc2)" "snd (SS_next_id i bc2)" w2 bc']
          by (simp add: SS_pass_def Let_def case_prod_unfold)
      qed
      then show ?thesis using len l room by simp
    qed
  qed
qed

text \<open>
  A search or present never makes the number of backend sessions of a class grow beyond the
  configured maximum, whatever the targets answer, also when the session is restarted.\<close>
theorem SS_get_set_bounded:
  assumes "SS_get_set Y E mv cf a dbs q p bc w = Done (r, p', bc', w')"
  shows "int (length (bc_list bc')) \<le> max (int (length (bc_list bc))) (m_session_max cf)"
proof (cases "SS_pass Y E mv cf a dbs q False p bc w")
  case (Pass_again bc1 w1)
  then have "int (length (bc_list bc1)) \<le> max (int (length (bc_list bc))) (m_session_max cf)"
    using SS_pass_length [of Y E mv cf a dbs q False p bc w bc1] by simp
  moreover have "pass_class (SS_pass Y E mv cf a dbs q True p bc1 w1) = Some bc'"
    using assms Pass_again by (auto simp: SS_get_set_def split: ss_pass.splits)
  ultimately show ?thesis using SS_pass_length by fastforce
qed (use assms SS_pass_length [of Y E mv cf a dbs q False p bc w bc'] in \<open>auto simp: SS_get_set_def\<close>)

text \<open>A target that accepts the first session only and answers every search with a temporary system error.\<close>

definition failing_target :: "'w move_fn" where
  "failing_target r q w = (case pkg_request q of
     Some (GDU_Z3950 (APDU_initRequest _)) \<Rightarrow>
       (q\<lparr>pkg_response := Some (GDU_Z3950 (APDU_initResponse ((zget_initResponse yaz_ref)\<lparr>irs_result := (m_id (pkg_session q) = 1)\<rparr>)))\<rparr>, w)
   | Some (GDU_Z3950 (APDU_searchRequest _)) \<Rightarrow>
       (q\<lparr>pkg_response := Some (GDU_Z3950 (APDU_searchResponse ((zget_searchResponse yaz_ref)\<lparr>
          srs_records := Some (Records_NSD \<lparr>diag_condition = 2, diag_addinfo = v2Addinfo []\<rparr>)\<rparr>)))\<rparr>, w)
   | _ \<Rightarrow> (q, w))"

abbreviation search_of :: "string \<Rightarrow> Z_Query \<Rightarrow> Z_SearchRequest" where
  "search_of name q \<equiv> \<lparr>srq_referenceId = None, srq_smallSetUpperBound = 0, srq_largeSetLowerBound = 1,
     srq_mediumSetPresentNumber = 0, srq_replaceIndicator = True, srq_resultSetName = name, srq_databaseNames = [''Db''],
     srq_smallSetElementSetNames = None, srq_mediumSetElementSetNames = None, srq_preferredRecordSyntax = None,
     srq_query = q, srq_additionalSearchInfo = None\<rparr>"

abbreviation client_package :: package where
  "client_package \<equiv> Package_new \<lparr>m_id = 9, m_close = False\<rparr> Origin_new"

text \<open>The definitions a concrete run of the filter evaluates.\<close>

lemmas SS_run_defs = SS_pass_def SS_choose_def SS_override_set_def SS_new_set_def SS_create_backend_def
  SS_BackendClass_new_def SS_Conf_new_def Session_new_def Package_new_def yaz_ref_def Let_def SS_next_id_def
  SS_search_set_def SS_inst_def SS_upd_def SS_timestamp_def SS_remove_backend_def SS_init_request_def SS_init_diag_def
  SS_search_request_def SS_BackendSet_new_def SS_send_close_def SS_close_package_def close_session_def
  Session_close_def ss_env_ref_def SS_create_failed_def create_close_def SS_search_def SS_get_set_def SS_Frontend_new_def

text \<open>
  When restart is on, a target that answers a search with a temporary system error and then
  refuses a new session makes the filter use a null pointer: the second pass leaves the
  set of the first in place while no backend was found.\<close>
theorem SS_restart_null:
  "SS_search yaz_ref unit_env failing_target (SS_Conf_new\<lparr>m_restart := True\<rparr>) (search_of ''s'' (Query_other []))
     client_package SS_Frontend_new (SS_BackendClass_new (init_of []) SS_Conf_new) \<lparr>m_global_id = 0\<rparr> = Null_deref"
  by (simp add: SS_run_defs failing_target_def)

theorem SS_get_set_bounded_witness:
  "\<exists>r p bc w. SS_get_set yaz_ref unit_env failing_target SS_Conf_new (APDU_searchRequest (search_of ''s'' (Query_other []))) [''Db'']
     (Query_other []) client_package (SS_BackendClass_new (init_of []) SS_Conf_new) \<lparr>m_global_id = 0\<rparr> = Done (r, p, bc, w) \<and>
     length (bc_list bc) \<le> 100"
proof -
  obtain r p bc w where run: "SS_get_set yaz_ref unit_env failing_target SS_Conf_new (APDU_searchRequest (search_of ''s'' (Query_other []))) [''Db'']
     (Query_other []) client_package (SS_BackendClass_new (init_of []) SS_Conf_new) \<lparr>m_global_id = 0\<rparr> = Done (r, p, bc, w)"
    by (simp add: SS_run_defs failing_target_def)
  then show ?thesis using SS_get_set_bounded [OF run] by (simp add: SS_BackendClass_new_def SS_Conf_new_def)
qed

end
