(* ===== verification/MP_Shared_Target.thy ===== *)
theory MP_Shared_Target
  imports MP_Shared_Props
begin

text \<open>
  The session_shared filter against its targets: the result sets a class believes to be on
  its backend sessions are there, so that what clients get back belongs to their own queries,
  whoever made the search first. The targets are described by a view: what a session holds under
  a name, how many records a query finds and which records these are.
\<close>

section \<open>The contract of the targets\<close>

record 'w ss_view =
  view_holds :: "'w world_scheme \<Rightarrow> 64 word \<Rightarrow> string \<Rightarrow> (string list \<times> Z_Query) option"
  view_count :: "string list \<Rightarrow> Z_Query \<Rightarrow> int"
  view_record :: "string list \<Rightarrow> Z_Query \<Rightarrow> Z_RecordComposition option \<Rightarrow> int \<Rightarrow> Z_NamePlusRecord \<Rightarrow> bool"
  view_draws :: nat

text \<open>
  \<open>view_draws\<close> bounds the sessions the targets create for one package. \<open>SS_room V n w\<close>: the
  counter of sessions does not wrap during \<open>n\<close> packages and sessions.
\<close>

definition SS_room :: "'w ss_view \<Rightarrow> nat \<Rightarrow> 'w world_scheme \<Rightarrow> bool" where
  "SS_room V n w \<longleftrightarrow> unat (m_global_id w) + n * Suc (view_draws V) < 2 ^ 64"

definition SS_draws :: "'w ss_view \<Rightarrow> nat \<Rightarrow> 'w world_scheme \<Rightarrow> 'w world_scheme \<Rightarrow> bool" where
  "SS_draws V n w w' \<longleftrightarrow> unat (m_global_id w) \<le> unat (m_global_id w') \<and>
     unat (m_global_id w') \<le> unat (m_global_id w) + n * Suc (view_draws V)"

text \<open>Databases and queries that match find the same; records come out of the cache as they were put in.\<close>

definition SS_same_results :: "'w ss_env \<Rightarrow> 'w ss_view \<Rightarrow> bool" where
  "SS_same_results E V \<longleftrightarrow> (\<forall>dbs dbs' q q'. match dbs dbs' \<longrightarrow> ss_query_match E q' q \<longrightarrow>
     view_count V dbs q = view_count V dbs' q' \<and> view_record V dbs q = view_record V dbs' q')"

definition SS_cache_law :: "'w ss_env \<Rightarrow> bool" where
  "SS_cache_law E \<longleftrightarrow> (\<forall>c start num syn cmp npr j. ss_cache_lookup E c start num syn cmp = Some npr \<longrightarrow> j < length npr \<longrightarrow>
     (\<exists>npr' start'. (npr', start', cmp) \<in> set c \<and> start' \<le> start + int j \<and> start + int j < start' + int (length npr') \<and>
        npr ! j = npr' ! nat (start + int j - start')))"

text \<open>
  A package changes what its own session holds and no other, and a new session changes nothing. A search that is answered without a
  diagnostic makes the named set hold the query and leaves other names alone; presents and scans
  change nothing; the records presented are those of the set named.
\<close>

definition SS_answer :: "'w ss_view \<Rightarrow> package \<Rightarrow> 'w world_scheme \<Rightarrow> package \<Rightarrow> 'w world_scheme \<Rightarrow> bool" where
  "SS_answer V q w q' w' \<longleftrightarrow>
     (let sid = m_id (pkg_session q); held = view_holds V w sid; held' = view_holds V w' sid in
      case pkg_request q of
        Some (GDU_Z3950 (APDU_searchRequest r)) \<Rightarrow>
          (\<forall>n. n \<noteq> srq_resultSetName r \<longrightarrow> held' n = held n) \<and>
          (\<forall>s. pkg_response q' = Some (GDU_Z3950 (APDU_searchResponse s)) \<longrightarrow> SS_condition (srs_records s) = 0 \<longrightarrow>
             held' (srq_resultSetName r) = Some (srq_databaseNames r, srq_query r) \<and>
             srs_resultCount s = view_count V (srq_databaseNames r) (srq_query r))
      | Some (GDU_Z3950 (APDU_presentRequest r)) \<Rightarrow> held' = held \<and>
          (\<forall>s npr dbs query j. pkg_response q' = Some (GDU_Z3950 (APDU_presentResponse s)) \<longrightarrow>
             prs_records s = Some (Records_DBOSD npr) \<longrightarrow> held (prq_resultSetId r) = Some (dbs, query) \<longrightarrow> j < length npr \<longrightarrow>
             view_record V dbs query (prq_recordComposition r) (prq_resultSetStartPoint r + int j) (npr ! j))
      | Some (GDU_Z3950 (APDU_scanRequest r)) \<Rightarrow> held' = held
      | _ \<Rightarrow> True)"

definition SS_target :: "'w ss_env \<Rightarrow> 'w ss_view \<Rightarrow> 'w move_fn \<Rightarrow> bool" where
  "SS_target E V mv \<longleftrightarrow> SS_same_results E V \<and> SS_cache_law E \<and>
     (\<forall>w g. view_holds V (w\<lparr>m_global_id := g\<rparr>) = view_holds V w) \<and>
     (\<forall>r q w q' w'. mv r q w = (q', w') \<longrightarrow>
        (SS_room V 1 w \<longrightarrow> SS_draws V 1 w w') \<and>
        (\<forall>sid. sid \<noteq> m_id (pkg_session q) \<longrightarrow> view_holds V w' sid = view_holds V w sid) \<and>
        m_id (pkg_session q') = m_id (pkg_session q) \<and> (\<not> is_closed q' \<longrightarrow> SS_answer V q w q' w'))"

lemma SS_targetD:
  assumes "SS_target E V mv" and "mv r q w = (q', w')"
  shows "SS_room V 1 w \<Longrightarrow> SS_draws V 1 w w'"
    and "sid \<noteq> m_id (pkg_session q) \<Longrightarrow> view_holds V w' sid = view_holds V w sid"
    and "\<not> is_closed q' \<Longrightarrow> SS_answer V q w q' w'"
    and "m_id (pkg_session q') = m_id (pkg_session q)"
  using assms unfolding SS_target_def by blast+

lemma SS_draws_refl [simp]: "SS_draws V n w w"
  by (simp add: SS_draws_def)

lemma SS_draws_mono: "SS_draws V n w w' \<Longrightarrow> n \<le> m \<Longrightarrow> SS_draws V m w w'"
  unfolding SS_draws_def by (meson add_left_mono le_trans mult_le_mono1)

lemma SS_room_mono: "SS_room V m w \<Longrightarrow> n \<le> m \<Longrightarrow> SS_room V n w"
  unfolding SS_room_def by (meson add_left_mono le_less_trans mult_le_mono1)

lemma SS_draws_trans:
  assumes "SS_draws V n w w1" and "SS_draws V m w1 w2" and "n + m \<le> k"
  shows "SS_draws V k w w2"
proof -
  have "SS_draws V (n + m) w w2" using assms(1,2) by (auto simp: SS_draws_def algebra_simps)
  then show ?thesis by (rule SS_draws_mono [OF _ assms(3)])
qed

lemma SS_room_draws:
  assumes "SS_room V k w" and "SS_draws V n w w'" and "n + m \<le> k"
  shows "SS_room V m w'"
  using SS_room_mono [OF assms(1,3)] assms(2) by (auto simp: SS_room_def SS_draws_def algebra_simps)

lemma Session_new_draws:
  assumes "SS_target E V mv" and "SS_room V 1 w" and "Session_new w = (s, w')"
  shows "SS_draws V 1 w w' \<and> unat (m_id s) = Suc (unat (m_global_id w)) \<and> m_id s = m_global_id w' \<and>
    view_holds V w' = view_holds V w"
proof -
  have "unat (m_global_id w) + 1 < 2 ^ 64" using assms(2) by (simp add: SS_room_def)
  then have "unat (m_global_id w + 1) = unat (m_global_id w) + 1" by (simp add: unat_word_ariths)
  moreover have "view_holds V (w\<lparr>m_global_id := g\<rparr>) = view_holds V w" for g using assms(1) by (simp add: SS_target_def)
  ultimately show ?thesis using assms(3) by (auto simp: Session_new_def SS_draws_def Let_def)
qed

section \<open>The state of a class\<close>

definition SS_id_ok :: "int \<Rightarrow> string \<Rightarrow> bool" where
  "SS_id_ok n r \<longleftrightarrow> r = ''default'' \<or> (\<exists>m. 0 \<le> m \<and> m < n \<and> r = show_int m)"

text \<open>Result sets of an instance have different names, and further names are not yet in use.\<close>

definition SS_inst_ok :: "SS_BackendInstance \<Rightarrow> bool" where
  "SS_inst_ok b \<longleftrightarrow> distinct (map bset_id (bi_sets b)) \<and> 0 \<le> bi_result_set_sequence b \<and>
     (\<forall>s \<in> set (bi_sets b). SS_id_ok (bi_result_set_sequence b) (bset_id s))"

definition SS_held :: "'w ss_view \<Rightarrow> 'w world_scheme \<Rightarrow> session \<Rightarrow> SS_BackendSet \<Rightarrow> bool" where
  "SS_held V w ses s \<longleftrightarrow>
     view_holds V w (m_id ses) (bset_id s) = Some (bset_databases s, bset_query s) \<and>
     bset_size s = view_count V (bset_databases s) (bset_query s) \<and>
     (\<forall>(npr, start, cmp) \<in> set (bset_cache s). \<forall>j < length npr.
        view_record V (bset_databases s) (bset_query s) cmp (start + int j) (npr ! j))"

definition SS_good :: "'w ss_view \<Rightarrow> 'w world_scheme \<Rightarrow> SS_BackendInstance \<Rightarrow> bool" where
  "SS_good V w b \<longleftrightarrow> SS_inst_ok b \<and> (\<forall>s \<in> set (bi_sets b). SS_held V w (bi_session b) s) \<and>
     unat (m_id (bi_session b)) \<le> unat (m_global_id w)"

definition SS_sid :: "SS_BackendClass \<Rightarrow> nat \<Rightarrow> 64 word" where
  "SS_sid bc i = m_id (bi_session (SS_inst bc i))"

definition SS_sids :: "SS_BackendClass \<Rightarrow> 64 word set" where
  "SS_sids bc = SS_sid bc ` set (bc_list bc)"

text \<open>\<open>U\<close> are the instances in use; every instance has a session of its own.\<close>

definition SS_sync :: "'w ss_view \<Rightarrow> nat set \<Rightarrow> SS_BackendClass \<Rightarrow> 'w world_scheme \<Rightarrow> bool" where
  "SS_sync V U bc w \<longleftrightarrow> distinct (bc_list bc) \<and> inj_on (SS_sid bc) (set (bc_list bc)) \<and>
     (\<forall>i \<in> set (bc_list bc). i < length (bc_store bc) \<and> (bi_in_use (SS_inst bc i) \<longleftrightarrow> i \<in> U) \<and> SS_good V w (SS_inst bc i))"

text \<open>What a step of a class does to the sessions that are not its own.\<close>

definition SS_step :: "'w ss_view \<Rightarrow> nat \<Rightarrow> SS_BackendClass \<Rightarrow> 'w world_scheme \<Rightarrow> SS_BackendClass \<Rightarrow> 'w world_scheme \<Rightarrow> bool" where
  "SS_step V n bc w bc' w' \<longleftrightarrow> SS_draws V n w w' \<and>
     (\<forall>sid. unat sid \<le> unat (m_global_id w) \<longrightarrow> sid \<notin> SS_sids bc \<longrightarrow>
        sid \<notin> SS_sids bc' \<and> view_holds V w' sid = view_holds V w sid)"

lemma SS_step_refl: "SS_sids bc' \<subseteq> SS_sids bc \<Longrightarrow> SS_step V n bc w bc' w"
  by (auto simp: SS_step_def)

lemma SS_step_one:
  assumes "SS_draws V n w w'" and "SS_sids bc' \<subseteq> insert x (SS_sids bc)" and "x \<in> SS_sids bc \<or> unat (m_global_id w) < unat x"
    and "\<forall>sid. sid \<noteq> x \<longrightarrow> view_holds V w' sid = view_holds V w sid"
  shows "SS_step V n bc w bc' w'"
  unfolding SS_step_def
proof (intro conjI allI impI)
  fix sid assume "unat sid \<le> unat (m_global_id w)" "sid \<notin> SS_sids bc"
  then have "sid \<noteq> x" using assms(3) by auto
  then show "sid \<notin> SS_sids bc'" "view_holds V w' sid = view_holds V w sid"
    using assms(2,4) \<open>sid \<notin> SS_sids bc\<close> by auto
qed (rule assms(1))

lemma SS_step_mono: "SS_step V n bc w bc' w' \<Longrightarrow> n \<le> m \<Longrightarrow> SS_step V m bc w bc' w'"
  unfolding SS_step_def using SS_draws_mono by metis

lemma SS_step_trans:
  assumes "SS_step V n bc w bc1 w1" and "SS_step V m bc1 w1 bc2 w2" and "n + m \<le> k"
  shows "SS_step V k bc w bc2 w2"
  using SS_draws_trans [of V n w w1 m w2 k] assms by (fastforce simp: SS_step_def SS_draws_def)

lemma SS_inst_upd [simp]:
  "SS_inst (SS_upd i g bc) j = (if j = i \<and> i < length (bc_store bc) then g (SS_inst bc i) else SS_inst bc j)"
  by (cases "i < length (bc_store bc)") (auto simp: SS_inst_def SS_upd_def nth_list_update list_update_beyond)

lemma length_store_upd [simp]: "length (bc_store (SS_upd i g bc)) = length (bc_store bc)"
  by (simp add: SS_upd_def)

lemma SS_sync_cong:
  "bc_store bc' = bc_store bc \<Longrightarrow> bc_list bc' = bc_list bc \<Longrightarrow> SS_sync V U bc' w = SS_sync V U bc w"
  by (simp add: SS_sync_def SS_sid_def [abs_def] SS_inst_def)

lemma SS_sids_cong: "bc_store bc' = bc_store bc \<Longrightarrow> bc_list bc' = bc_list bc \<Longrightarrow> SS_sids bc' = SS_sids bc"
  by (simp add: SS_sids_def SS_sid_def [abs_def] SS_inst_def)

lemma SS_sids_upd [simp]:
  "bi_session (g (SS_inst bc i)) = bi_session (SS_inst bc i) \<Longrightarrow> SS_sids (SS_upd i g bc) = SS_sids bc"
  by (auto simp: SS_sids_def SS_sid_def image_iff)

lemma SS_sync_upd:
  assumes "SS_sync V U bc w" and "bi_session (g (SS_inst bc i)) = bi_session (SS_inst bc i)"
    and "\<And>j. j \<noteq> i \<Longrightarrow> j \<in> U' \<longleftrightarrow> j \<in> U" and "bi_in_use (g (SS_inst bc i)) \<longleftrightarrow> i \<in> U'"
    and "SS_good V w (SS_inst bc i) \<Longrightarrow> SS_good V w (g (SS_inst bc i))"
  shows "SS_sync V U' (SS_upd i g bc) w"
proof -
  have "SS_sid (SS_upd i g bc) = SS_sid bc" using assms(2) by (auto simp: SS_sid_def fun_eq_iff)
  then show ?thesis using assms by (auto simp: SS_sync_def)
qed

text \<open>The operations on one instance.\<close>

lemma SS_use_sync: "SS_sync V {} bc w \<Longrightarrow> SS_sync V {i} (SS_use_backend i bc) w \<and> SS_sids (SS_use_backend i bc) = SS_sids bc"
  unfolding SS_use_backend_def
  by (subst SS_sync_cong [where bc = "SS_upd i _ bc"], simp, simp, subst SS_sids_cong [where bc = "SS_upd i _ bc"], simp, simp)
     (auto intro!: SS_sync_upd simp: SS_good_def SS_inst_ok_def)

lemma SS_release_sync: "SS_sync V {i} bc w \<Longrightarrow> SS_sync V {} (SS_release_backend i bc) w \<and> SS_sids (SS_release_backend i bc) = SS_sids bc"
  unfolding SS_release_backend_def by (auto intro!: SS_sync_upd simp: SS_good_def SS_inst_ok_def)

lemma SS_timestamp_sync: "SS_sync V U bc w \<Longrightarrow> i \<in> set (bc_list bc) \<Longrightarrow> SS_sync V U (SS_timestamp t i bc) w"
  unfolding SS_timestamp_def by (rule SS_sync_upd) (auto simp: SS_good_def SS_inst_ok_def SS_sync_def)

lemma SS_sync_world:
  assumes "SS_sync V U bc w" and "unat (m_global_id w) \<le> unat (m_global_id w')"
    and "\<And>sid. sid \<in> SS_sids bc \<Longrightarrow> view_holds V w' sid = view_holds V w sid"
  shows "SS_sync V U bc w'"
proof -
  have "SS_good V w' (SS_inst bc i)" if i: "i \<in> set (bc_list bc)" for i
  proof -
    have "view_holds V w' (SS_sid bc i) = view_holds V w (SS_sid bc i)" using i by (intro assms(3)) (simp add: SS_sids_def)
    moreover have "SS_good V w (SS_inst bc i)" using assms(1) i by (simp add: SS_sync_def)
    ultimately show ?thesis using assms(2) by (auto simp: SS_good_def SS_held_def SS_sid_def)
  qed
  then show ?thesis using assms(1) by (simp add: SS_sync_def)
qed

text \<open>A package on the session of an instance that is no longer in the list, or on a new session.\<close>

lemma SS_move_other:
  assumes "SS_target E V mv" and "mv r q w = (q', w')" and "SS_room V 1 w" and "SS_sync V U bc w"
    and "m_id (pkg_session q) \<notin> SS_sids bc"
  shows "SS_sync V U bc w' \<and> SS_draws V 1 w w'"
proof -
  have d: "SS_draws V 1 w w'" by (rule SS_targetD(1) [OF assms(1,2,3)])
  moreover have "SS_sync V U bc w'"
    using d assms(5) by (intro SS_sync_world [OF assms(4)] SS_targetD(2) [OF assms(1,2)]) (auto simp: SS_draws_def)
  ultimately show ?thesis by simp
qed

lemma SS_send_close_other:
  assumes "SS_target E V mv" and "SS_room V 1 w" and "SS_sync V U bc w" and "m_id s \<notin> SS_sids bc"
  shows "SS_sync V U bc (SS_send_close Y mv s ori w) \<and> SS_draws V 1 w (SS_send_close Y mv s ori w) \<and>
    (\<forall>sid. sid \<noteq> m_id s \<longrightarrow> view_holds V (SS_send_close Y mv s ori w) sid = view_holds V w sid)"
proof -
  let ?q = "SS_close_package Y s ori"
  have sid: "m_id (pkg_session ?q) = m_id s"
    by (simp add: SS_close_package_def close_session_def Session_close_def Package_new_def)
  obtain q' w' where mv: "mv [] ?q w = (q', w')" by fastforce
  then have "SS_send_close Y mv s ori w = w'" by (simp add: SS_send_close_def)
  then show ?thesis using SS_move_other [OF assms(1) mv assms(2,3)] SS_targetD(2) [OF assms(1) mv] sid assms(4) by simp
qed

text \<open>What the session of the instance that is removed holds does not matter.\<close>

lemma SS_remove_sync:
  assumes "SS_target E V mv" and "SS_room V 1 w" and "SS_sync V {i} bc w0" and "SS_remove_backend Y mv i bc w = (bc', w')"
    and "SS_draws V n w0 w" and "\<forall>sid. sid \<noteq> SS_sid bc i \<longrightarrow> view_holds V w sid = view_holds V w0 sid" and "i \<in> set (bc_list bc)"
  shows "SS_sync V {} bc' w' \<and> SS_step V 1 bc w bc' w'"
proof -
  let ?bc = "bc\<lparr>bc_list := remove1 i (bc_list bc)\<rparr>"
  have r: "bc' = ?bc" "w' = SS_send_close Y mv (bi_session (SS_inst bc i)) (bi_origin (SS_inst bc i)) w"
    using assms(4,7) by (simp_all add: SS_remove_backend_def)
  have d: "distinct (bc_list bc)" "inj_on (SS_sid bc) (set (bc_list bc))" using assms(3) by (simp_all add: SS_sync_def)
  have l: "set (bc_list ?bc) = set (bc_list bc) - {i}" using d(1) by simp
  have sid: "SS_sid ?bc = SS_sid bc" by (simp add: fun_eq_iff SS_sid_def SS_inst_def)
  have sids: "SS_sids ?bc = SS_sids bc - {SS_sid bc i}"
    unfolding SS_sids_def sid l using d(2) assms(7) by (simp add: inj_on_image_set_diff [where C = "set (bc_list bc)"])
  have "SS_sync V {} ?bc w0"
    using assms(3) d by (auto simp: SS_sync_def sid distinct_remove1 SS_inst_def intro: inj_on_subset)
  then have "SS_sync V {} ?bc w"
    by (rule SS_sync_world) (use assms(5,6) sids in \<open>auto simp: SS_draws_def\<close>)
  moreover have "m_id (bi_session (SS_inst bc i)) \<notin> SS_sids ?bc" by (simp add: sids SS_sid_def)
  ultimately have *: "SS_sync V {} ?bc w' \<and> SS_draws V 1 w w' \<and> (\<forall>sid. sid \<noteq> SS_sid bc i \<longrightarrow> view_holds V w' sid = view_holds V w sid)"
    unfolding r(2) SS_sid_def by (rule SS_send_close_other [OF assms(1,2)])
  moreover have "SS_sid bc i \<in> SS_sids bc" using assms(7) by (simp add: SS_sids_def)
  ultimately show ?thesis using sids SS_step_one [of V 1 w w' ?bc "SS_sid bc i" bc] by (auto simp: r(1))
qed

text \<open>A new instance.\<close>

lemma SS_append_sync:
  assumes "SS_sync V {} bc w" and "m_id (bi_session b) \<notin> SS_sids bc" and "bi_in_use b" and "SS_good V w b"
    and "bc' = bc\<lparr>bc_store := bc_store bc @ [b], bc_list := bc_list bc @ [length (bc_store bc)], bc_no_succeeded := n\<rparr>"
  shows "SS_sync V {length (bc_store bc)} bc' w \<and> SS_sids bc' = insert (m_id (bi_session b)) (SS_sids bc)"
proof -
  let ?n = "length (bc_store bc)"
  have old: "i < ?n" if "i \<in> set (bc_list bc)" for i using assms(1) that by (simp add: SS_sync_def)
  have inst: "SS_inst bc' i = SS_inst bc i" if "i < ?n" for i using that by (simp add: assms(5) SS_inst_def nth_append)
  have b: "SS_inst bc' ?n = b" by (simp add: assms(5) SS_inst_def)
  have sid: "SS_sid bc' i = SS_sid bc i" if "i \<in> set (bc_list bc)" for i using inst [OF old [OF that]] by (simp add: SS_sid_def)
  have sids: "SS_sids bc' = insert (m_id (bi_session b)) (SS_sids bc)"
  proof -
    have "bc_list bc' = bc_list bc @ [?n]" by (simp add: assms(5))
    then have "SS_sids bc' = SS_sid bc' ` set (bc_list bc) \<union> {SS_sid bc' ?n}" by (simp add: SS_sids_def)
    then show ?thesis using b sid by (simp add: SS_sids_def SS_sid_def)
  qed
  have "inj_on (SS_sid bc') (set (bc_list bc) \<union> {?n})"
    using assms(1,2) sid b old by (auto simp: inj_on_def SS_sync_def SS_sid_def SS_sids_def image_iff)
  then have "SS_sync V {?n} bc' w"
    using assms(1,3,4) inst old b unfolding SS_sync_def by (auto simp: assms(5) less_Suc_eq)
  then show ?thesis using sids by simp
qed

lemma SS_create_failed_sync:
  assumes "SS_target E V mv" and "SS_room V 2 w" and "SS_sync V {} bc w" and "m_id s \<notin> SS_sids bc" and "m_id (pkg_session ip) = m_id s"
    and "SS_create_failed Y mv s ori ip d bc w = (r, bc', w')"
  shows "SS_sync V {} bc' w' \<and> SS_draws V 2 w w' \<and> fst r = None \<and> SS_sids bc' = SS_sids bc \<and>
    (\<forall>sid. sid \<noteq> m_id s \<longrightarrow> view_holds V w' sid = view_holds V w sid)"
proof -
  define w1 where "w1 = (if \<not> is_closed ip then snd (mv [] (close_session ip) w) else w)"
  have r: "fst r = None" "bc' = bc\<lparr>bc_no_failed := bc_no_failed bc + 1\<rparr>" "w' = SS_send_close Y mv s ori w1"
    using assms(6) by (auto simp: SS_create_failed_def Let_def w1_def)
  obtain q2 w2 where mv: "mv [] (close_session ip) w = (q2, w2)" by fastforce
  have room: "SS_room V 1 w" using assms(2) SS_room_mono [of V 2 w 1] by simp
  have "SS_sync V {} bc w2 \<and> SS_draws V 1 w w2 \<and> (\<forall>sid. sid \<noteq> m_id s \<longrightarrow> view_holds V w2 sid = view_holds V w sid)"
    using SS_move_other [OF assms(1) mv room assms(3)] SS_targetD(2) [OF assms(1) mv] assms(4,5)
    by (simp add: close_session_def Session_close_def)
  then have w1: "SS_sync V {} bc w1 \<and> SS_draws V 1 w w1 \<and> (\<forall>sid. sid \<noteq> m_id s \<longrightarrow> view_holds V w1 sid = view_holds V w sid)"
    using assms(3) mv by (simp add: w1_def)
  then have "SS_room V 1 w1" using SS_room_draws [OF assms(2), of 1 w1 1] by simp
  then have "SS_sync V {} bc w' \<and> SS_draws V 1 w1 w' \<and> (\<forall>sid. sid \<noteq> m_id s \<longrightarrow> view_holds V w' sid = view_holds V w1 sid)"
    unfolding r(3) using w1 by (intro SS_send_close_other [OF assms(1) _ _ assms(4)]) simp_all
  moreover have "SS_sync V {} bc' w' = SS_sync V {} bc w'" "SS_sids bc' = SS_sids bc"
    by (auto simp: r(2) intro!: SS_sync_cong SS_sids_cong)
  ultimately show ?thesis using w1 r(1) SS_draws_trans [of V 1 w w1 1 w' 2] by simp
qed

lemma SS_create_backend_cases:
  assumes "Session_new w = (s, w0)"
    and "mv [] ((Package_new s (pkg_origin p))\<lparr>pkg_request := Some (GDU_Z3950 (APDU_initRequest
        (SS_init_request (bc\<lparr>bc_no_init := bc_no_init bc + 1\<rparr>))))\<rparr>) w0 = (ip, w1)"
    and run: "SS_create_backend Y E mv p bc w = (r, bc', w')"
  obtains (ok) b bc1 where "r = (Some (length (bc_store bc1)), 0, [])" "w' = w1" "bc' = bc1\<lparr>bc_store := bc_store bc1 @ [b],
       bc_list := bc_list bc1 @ [length (bc_store bc1)], bc_no_succeeded := bc_no_succeeded bc1 + 1\<rparr>"
       "bc_store bc1 = bc_store bc" "bc_list bc1 = bc_list bc" "bi_session b = s" "bi_sets b = []" "bi_in_use b" "bi_result_set_sequence b = 0"
   | (failed) diag bc1 where "SS_create_failed Y mv s (pkg_origin p) ip diag bc1 w1 = (r, bc', w')"
       "bc_store bc1 = bc_store bc" "bc_list bc1 = bc_list bc"
proof (cases "\<exists>res. pkg_response ip = Some (GDU_Z3950 (APDU_initResponse res))")
  case False
  then have "SS_create_failed Y mv s (pkg_origin p) ip (0, []) (bc\<lparr>bc_no_init := bc_no_init bc + 1, bc_named_result_sets := False\<rparr>) w1 = (r, bc', w')"
    using run assms(1,2) by (auto simp: SS_create_backend_def Let_def split: option.splits Z_GDU.splits Z_APDU.splits)
  then show ?thesis by (rule failed) simp_all
next
  case True
  then obtain res where res: "pkg_response ip = Some (GDU_Z3950 (APDU_initResponse res))" by blast
  define bc1 where "bc1 = (let bc = bc\<lparr>bc_no_init := bc_no_init bc + 1, bc_named_result_sets := (Z_Options_namedResultSets \<in> irs_options res)\<rparr>
      in if bc_no_succeeded bc = 0 then bc\<lparr>bc_init_response := Some res\<rparr> else bc)"
  have bc1: "bc_store bc1 = bc_store bc" "bc_list bc1 = bc_list bc" by (simp_all add: bc1_def Let_def)
  show ?thesis
  proof (cases "irs_result res \<and> \<not> is_closed ip")
    case True
    then show ?thesis using run assms(1,2) res bc1 by (intro ok [of bc1]) (auto simp: SS_create_backend_def Let_def bc1_def)
  next
    case False
    then have "SS_create_failed Y mv s (pkg_origin p) ip (SS_init_diag res) bc1 w1 = (r, bc', w')"
      using run assms(1,2) res by (simp add: SS_create_backend_def Let_def bc1_def del: de_Morgan_conj)
    then show ?thesis using bc1 by (rule failed)
  qed
qed

lemma SS_create_sync:
  assumes "SS_target E V mv" and "SS_room V 4 w" and "SS_sync V {} bc w"
    and "SS_create_backend Y E mv p bc w = ((r, d), bc', w')"
  shows "SS_step V 4 bc w bc' w' \<and> (case r of None \<Rightarrow> SS_sync V {} bc' w'
    | Some i \<Rightarrow> SS_sync V {i} bc' w' \<and> i \<in> set (bc_list bc') \<and> bi_sets (SS_inst bc' i) = [] \<and> 0 \<le> bi_result_set_sequence (SS_inst bc' i))"
proof -
  obtain s w0 where new: "Session_new w = (s, w0)" by fastforce
  let ?bc0 = "bc\<lparr>bc_no_init := bc_no_init bc + 1\<rparr>"
  let ?q = "(Package_new s (pkg_origin p))\<lparr>pkg_request := Some (GDU_Z3950 (APDU_initRequest (SS_init_request ?bc0)))\<rparr>"
  obtain ip w1 where mv: "mv [] ?q w0 = (ip, w1)" by fastforce
  note fresh = Session_new_draws [OF assms(1) SS_room_mono [OF assms(2)] new]
  have d0: "SS_draws V 1 w w0" "view_holds V w0 = view_holds V w" using fresh by simp_all
  have small: "unat sid \<le> unat (m_global_id w)" if "sid \<in> SS_sids bc" for sid
    using assms(3) that by (auto simp: SS_sids_def SS_sync_def SS_good_def SS_sid_def)
  have s: "m_id s \<notin> SS_sids bc" using small [of "m_id s"] fresh by fastforce
  have sync0: "SS_sync V {} bc w0" using d0 by (intro SS_sync_world [OF assms(3)]) (auto simp: SS_draws_def)
  have room1: "SS_room V 1 w0" "SS_room V 3 w0" using SS_room_draws [OF assms(2) d0(1)] by simp_all
  have q: "m_id (pkg_session ?q) = m_id s" by (simp add: Package_new_def)
  have sync1: "SS_sync V {} bc w1" "SS_draws V 1 w0 w1"
    using SS_move_other [OF assms(1) mv room1(1) sync0] s q by simp_all
  have frame1: "\<forall>sid. sid \<noteq> m_id s \<longrightarrow> view_holds V w1 sid = view_holds V w sid"
    using SS_targetD(2) [OF assms(1) mv] d0(2) q by simp
  have room2: "SS_room V 2 w1" using SS_room_draws [OF room1(2) sync1(2)] by simp
  have d1: "SS_draws V 2 w w1" using SS_draws_trans [OF d0(1) sync1(2)] by simp
  have big: "unat (m_global_id w) < unat (m_id s)" using fresh [THEN conjunct2, THEN conjunct1] by simp
  have known: "unat (m_id s) \<le> unat (m_global_id w1)" using fresh sync1(2) by (simp add: SS_draws_def)
  have q': "m_id (pkg_session ip) = m_id s" using SS_targetD(4) [OF assms(1) mv] q by simp
  show ?thesis
    using new mv assms(4)
  proof (cases rule: SS_create_backend_cases)
    case (ok b bc1)
    have sync: "SS_sync V {} bc1 w1" and sids: "SS_sids bc1 = SS_sids bc"
      using sync1(1) SS_sync_cong [of bc1 bc V "{}" w1] SS_sids_cong [of bc1 bc] ok(4,5) by auto
    have "SS_good V w1 b" using ok(6-9) known by (simp add: SS_good_def SS_inst_ok_def)
    then have app: "SS_sync V {length (bc_store bc1)} bc' w1 \<and> SS_sids bc' = insert (m_id s) (SS_sids bc)"
      using SS_append_sync [OF sync _ ok(8) _ ok(3)] sids s ok(6) by simp
    have "SS_step V 2 bc w bc' w1" using app big by (intro SS_step_one [OF d1 _ _ frame1]) auto
    then have "SS_step V 4 bc w bc' w'" using SS_step_mono [of V 2 bc w bc' w1 4] ok(2) by simp
    moreover have "SS_inst bc' (length (bc_store bc1)) = b" "length (bc_store bc1) \<in> set (bc_list bc')"
      by (simp_all add: ok(3) SS_inst_def)
    ultimately show ?thesis using app ok(1,2,7,9) by simp
  next
    case (failed diag bc1)
    have sync: "SS_sync V {} bc1 w1" and sids: "SS_sids bc1 = SS_sids bc"
      using sync1(1) SS_sync_cong [of bc1 bc V "{}" w1] SS_sids_cong [of bc1 bc] failed(2,3) by auto
    have f: "SS_sync V {} bc' w' \<and> SS_draws V 2 w1 w' \<and> fst (r, d) = None \<and> SS_sids bc' = SS_sids bc1 \<and>
        (\<forall>sid. sid \<noteq> m_id s \<longrightarrow> view_holds V w' sid = view_holds V w1 sid)"
      by (rule SS_create_failed_sync [OF assms(1) room2 sync _ q' failed(1)]) (use s sids in simp)
    then have "SS_draws V 4 w w'" using SS_draws_trans [OF d1, of 2 w' 4] by simp
    then have "SS_step V 4 bc w bc' w'" using f sids big frame1 by (intro SS_step_one [where x = "m_id s"]) auto
    then show ?thesis using f by simp
  qed
qed

section \<open>Choosing a result set\<close>

lemma show_int_inject: "0 \<le> m \<Longrightarrow> 0 \<le> n \<Longrightarrow> show_int m = show_int n \<longleftrightarrow> m = n"
  by (auto simp: show_int_def nat_eq_iff)

lemma show_int_default: "0 \<le> n \<Longrightarrow> show_int n \<noteq> ''default''"
  using show_nat_digits [of "CHR ''d''" "nat n"] by (auto simp: show_int_def)

text \<open>A name for a further set of an instance.\<close>

definition SS_fresh :: "SS_BackendInstance \<Rightarrow> string \<Rightarrow> bool" where
  "SS_fresh b rid \<longleftrightarrow> rid \<notin> bset_id ` set (bi_sets b) \<and> SS_id_ok (bi_result_set_sequence b) rid"

lemma SS_find_set_Some:
  "SS_find_set Q P bc is = Some (i, k) \<Longrightarrow>
   i \<in> set is \<and> Q (SS_inst bc i) \<and> k < length (bi_sets (SS_inst bc i)) \<and> P (bi_sets (SS_inst bc i) ! k)"
  by (induction Q P bc "is" rule: SS_find_set.induct) (auto split: if_splits option.splits dest: find_pos_Some)

lemma SS_next_id_sync:
  assumes "SS_sync V U bc w" and "i \<in> set (bc_list bc)" and "bc_named_result_sets bc \<or> bi_sets (SS_inst bc i) = []"
    and "SS_next_id i bc = (rid, bc')"
  shows "SS_sync V U bc' w \<and> SS_sids bc' = SS_sids bc \<and> bc_list bc' = bc_list bc \<and> SS_fresh (SS_inst bc' i) rid"
proof -
  have i: "i < length (bc_store bc)" "SS_inst_ok (SS_inst bc i)" "bi_in_use (SS_inst bc i) \<longleftrightarrow> i \<in> U"
    using assms(1,2) by (auto simp: SS_sync_def SS_good_def)
  show ?thesis
  proof (cases "bc_named_result_sets bc")
    case False
    then show ?thesis using assms by (auto simp: SS_next_id_def SS_fresh_def SS_id_ok_def)
  next
    case True
    let ?g = "\<lambda>b. b\<lparr>bi_result_set_sequence := bi_result_set_sequence b + 1\<rparr>"
    let ?n = "bi_result_set_sequence (SS_inst bc i)"
    have r: "rid = show_int ?n" "bc' = SS_upd i ?g bc" using assms(4) True by (simp_all add: SS_next_id_def)
    have n: "0 \<le> ?n" using i(2) by (simp add: SS_inst_ok_def)
    have old: "SS_id_ok ?n (bset_id s)" if "s \<in> set (bi_sets (SS_inst bc i))" for s
      using i(2) that by (simp add: SS_inst_ok_def)
    have step: "SS_id_ok (?n + 1) x \<and> x \<noteq> rid" if "SS_id_ok ?n x" for x
      using that n show_int_default [OF n] by (auto simp: SS_id_ok_def r(1) show_int_inject)
    have "SS_id_ok (?n + 1) rid" using n by (auto simp: SS_id_ok_def r(1))
    moreover have "rid \<notin> bset_id ` set (bi_sets (SS_inst bc i))" using old step by blast
    ultimately have "SS_fresh (SS_inst bc' i) rid" using i(1) by (simp add: SS_fresh_def r(2))
    moreover have "SS_inst_ok (?g (SS_inst bc i))" using i(2) n old step by (simp add: SS_inst_ok_def)
    moreover from this have "SS_sync V U bc' w" unfolding r(2) using i by (intro SS_sync_upd [OF assms(1)]) (auto simp: SS_good_def)
    ultimately show ?thesis by (simp add: r(2))
  qed
qed

lemma SS_override_sync:
  assumes "SS_sync V {} bc w" and "SS_override_set now bc dbs oos = (r, bc')"
  shows "SS_sync V {} bc' w \<and> SS_sids bc' = SS_sids bc \<and> bc_list bc' = bc_list bc \<and>
    (\<forall>i rid. r = Some (i, rid) \<longrightarrow> i \<in> set (bc_list bc) \<and> SS_fresh (SS_inst bc' i) rid)"
proof (cases "SS_find_set (\<lambda>b. \<not> bi_in_use b) (SS_overridable now bc dbs oos) bc (bc_list bc)")
  case None
  show ?thesis
  proof (cases "find (\<lambda>i. \<not> bi_in_use (SS_inst bc i) \<and> length (bi_sets (SS_inst bc i)) < SS_max_sets bc) (bc_list bc)")
    case None
    then show ?thesis using assms \<open>SS_find_set _ _ _ _ = None\<close> by (auto simp: SS_override_set_def)
  next
    case (Some i)
    then have i: "i \<in> set (bc_list bc)" "length (bi_sets (SS_inst bc i)) < SS_max_sets bc" using find_SomeD by fastforce+
    then have "bc_named_result_sets bc \<or> bi_sets (SS_inst bc i) = []" by (auto simp: SS_max_sets_def split: if_splits)
    moreover obtain rid bc1 where n: "SS_next_id i bc = (rid, bc1)" by fastforce
    moreover have "r = Some (i, rid)" "bc' = bc1"
      using assms(2) Some None n by (auto simp: SS_override_set_def)
    ultimately show ?thesis using SS_next_id_sync [OF assms(1) i(1)] i(1) by auto
  qed
next
  case (Some ik)
  obtain i k where ik: "ik = (i, k)" by fastforce
  let ?b = "SS_inst bc i"
  let ?g = "\<lambda>b. b\<lparr>bi_sets := erase_at k (bi_sets b)\<rparr>"
  have f: "i \<in> set (bc_list bc)" "k < length (bi_sets ?b)" using SS_find_set_Some Some ik by blast+
  have i: "i < length (bc_store bc)" "SS_inst_ok ?b" "\<not> bi_in_use ?b" "SS_good V w ?b"
    using assms(1) f(1) by (auto simp: SS_sync_def SS_good_def)
  have r: "r = Some (i, bset_id (bi_sets ?b ! k))" "bc' = SS_upd i ?g bc"
    using assms(2) Some ik by (simp_all add: SS_override_set_def)
  have sub: "set (erase_at k (bi_sets ?b)) \<subseteq> set (bi_sets ?b)" by (rule set_erase_at)
  have "distinct (map bset_id (bi_sets ?b))" using i(2) by (simp add: SS_inst_ok_def)
  then have d: "distinct (map bset_id (erase_at k (bi_sets ?b)))" "bset_id (bi_sets ?b ! k) \<notin> set (map bset_id (erase_at k (bi_sets ?b)))"
    using distinct_erase_at [of "map bset_id (bi_sets ?b)" k] f(2) by (simp_all add: map_erase_at)
  have "SS_good V w (?g ?b)" using i(4) d(1) sub by (auto simp: SS_good_def SS_inst_ok_def)
  then have "SS_sync V {} bc' w" unfolding r(2) using i(3) by (intro SS_sync_upd [OF assms(1)]) auto
  moreover have "SS_fresh (SS_inst bc' i) (bset_id (bi_sets ?b ! k))"
    using d(2) i(1,2) f(2) by (simp add: SS_fresh_def r(2) SS_inst_ok_def)
  ultimately show ?thesis using f(1) by (simp add: r)
qed

lemma SS_inst_use: "i < length (bc_store bc) \<Longrightarrow> SS_inst (SS_use_backend i bc) i =
    (SS_inst bc i)\<lparr>bi_in_use := True, bi_sequence_this := bc_sequence_top bc\<rparr>"
  using SS_inst_upd [of i _ bc i] by (simp add: SS_use_backend_def SS_inst_def)

text \<open>No thread has to wait when no instance is in use.\<close>

lemma SS_choose_sync:
  assumes "SS_sync V {} bc w"
  obtains (share) i k bc' where "SS_choose E cf a dbs q bc w = Some (Share i k, bc')" "SS_sync V {i} bc' w" "SS_sids bc' = SS_sids bc"
      "i \<in> set (bc_list bc')" "k < length (bi_sets (SS_inst bc' i))" "SS_same_search E a dbs q (bi_sets (SS_inst bc' i) ! k)"
    | (take) i rid bc' where "SS_choose E cf a dbs q bc w = Some (Take i rid, bc')" "SS_sync V {i} bc' w" "SS_sids bc' = SS_sids bc"
      "i \<in> set (bc_list bc')" "SS_fresh (SS_inst bc' i) rid"
    | (none) b bc' where "SS_choose E cf a dbs q bc w = Some (No_backend b, bc')" "SS_sync V {} bc' w" "SS_sids bc' = SS_sids bc"
proof (cases "if m_optimize_search cf then SS_find_set (\<lambda>_. True) (SS_same_search E a dbs q) bc (bc_list bc) else None")
  case (Some ik)
  obtain i k where ik: "ik = (i, k)" by fastforce
  then have "SS_find_set (\<lambda>_. True) (SS_same_search E a dbs q) bc (bc_list bc) = Some (i, k)" using Some by (simp split: if_splits)
  from SS_find_set_Some [OF this] have f: "i \<in> set (bc_list bc)" "k < length (bi_sets (SS_inst bc i))"
      "SS_same_search E a dbs q (bi_sets (SS_inst bc i) ! k)" by simp_all
  then have i: "i < length (bc_store bc)" "\<not> bi_in_use (SS_inst bc i)" using assms by (auto simp: SS_sync_def)
  then show ?thesis using Some ik f SS_use_sync [OF assms, of i]
    by (intro share [of i k "SS_use_backend i bc"]) (auto simp: SS_choose_def Let_def SS_inst_use)
next
  case None
  note unshared = this
  obtain r bc1 where ov: "SS_override_set (ss_clock E w) bc dbs (m_session_max cf \<le> int (length (bc_list bc))) = (r, bc1)" by fastforce
  note o = SS_override_sync [OF assms ov]
  show ?thesis
  proof (cases r)
    case None
    then show ?thesis using unshared ov o by (intro none [of "m_session_max cf \<le> int (length (bc_list bc))" bc1]) (auto simp: SS_choose_def Let_def)
  next
    case (Some ir)
    obtain i rid where ir: "ir = (i, rid)" by fastforce
    then have i: "i \<in> set (bc_list bc1)" "SS_fresh (SS_inst bc1 i) rid" using o Some by auto
    then have "i < length (bc_store bc1)" using o by (auto simp: SS_sync_def)
    then show ?thesis using unshared ov Some ir i o SS_use_sync [of V bc1 w i]
      by (intro take [of i rid "SS_use_backend i bc1"]) (auto simp: SS_choose_def Let_def SS_inst_use SS_fresh_def)
  qed
qed

section \<open>Searching\<close>

definition SS_gives :: "'w ss_view \<Rightarrow> string list \<Rightarrow> Z_Query \<Rightarrow> SS_BackendSet \<Rightarrow> bool" where
  "SS_gives V dbs q s \<longleftrightarrow> view_count V (bset_databases s) (bset_query s) = view_count V dbs q \<and>
     view_record V (bset_databases s) (bset_query s) = view_record V dbs q"

definition SS_diagnostic :: "Z_Records option \<Rightarrow> bool" where
  "SS_diagnostic r \<longleftrightarrow> r \<noteq> None \<and> (\<forall>npr. r \<noteq> Some (Records_DBOSD npr))"

text \<open>A response with a diagnostic, of the kind the request asks for.\<close>

fun SS_refusal :: "Z_APDU \<Rightarrow> Z_APDU \<Rightarrow> bool" where
  "SS_refusal (APDU_searchRequest _) (APDU_searchResponse r) = SS_diagnostic (srs_records r)"
| "SS_refusal (APDU_presentRequest _) (APDU_presentResponse r) = SS_diagnostic (prs_records r)"
| "SS_refusal _ _ = False"

fun SS_for_set :: "Z_APDU \<Rightarrow> bool" where
  "SS_for_set (APDU_searchRequest _) = True"
| "SS_for_set (APDU_presentRequest _) = True"
| "SS_for_set _ = False"

definition SS_refused :: "Z_APDU \<Rightarrow> package \<Rightarrow> package \<Rightarrow> bool" where
  "SS_refused a p p' \<longleftrightarrow> (\<exists>a'. p' = p\<lparr>pkg_response := Some (GDU_Z3950 a')\<rparr> \<and> SS_refusal a a')"

lemma SS_failure_refused: "SS_for_set a \<Longrightarrow> SS_refused a p (p\<lparr>pkg_response := Some (GDU_Z3950 (SS_failure Y a m))\<rparr>)"
  by (cases a) (auto simp: SS_refused_def SS_diagnostic_def create_searchResponse_def create_presentResponse_def Let_def)

lemma SS_condition_diagnostic: "SS_condition r \<noteq> 0 \<Longrightarrow> SS_diagnostic r"
  by (cases r rule: SS_condition.cases) (auto simp: SS_diagnostic_def)

lemma SS_diag_refused: "SS_for_set a \<Longrightarrow> SS_condition r \<noteq> 0 \<Longrightarrow> SS_refused a p (SS_diag_response Y a r p)"
  by (cases a) (auto simp: SS_refused_def SS_condition_diagnostic)

text \<open>What a pass of \<open>get_set\<close> leaves behind.\<close>

definition SS_pass_ok :: "'w ss_view \<Rightarrow> nat \<Rightarrow> bool \<Rightarrow> Z_APDU \<Rightarrow> package \<Rightarrow> string list \<Rightarrow> Z_Query \<Rightarrow> SS_BackendClass \<Rightarrow> 'w world_scheme
    \<Rightarrow> 'w ss_pass \<Rightarrow> bool" where
  "SS_pass_ok V n again a p dbs q bc w r \<longleftrightarrow> (case r of
      Pass_waits \<Rightarrow> False
    | Pass_again bc' w' \<Rightarrow> again \<and> SS_sync V {} bc' w' \<and> SS_step V n bc w bc' w'
    | Pass_found i k bc' w' \<Rightarrow> SS_sync V {i} bc' w' \<and> SS_step V n bc w bc' w' \<and> i \<in> set (bc_list bc') \<and>
        k < length (bi_sets (SS_inst bc' i)) \<and> SS_gives V dbs q (bi_sets (SS_inst bc' i) ! k)
    | Pass_failed p' bc' w' \<Rightarrow> SS_sync V {} bc' w' \<and> SS_step V n bc w bc' w' \<and> SS_refused a p p'
    | Pass_no_backend p' bc' w' \<Rightarrow> SS_sync V {} bc' w' \<and> SS_step V n bc w bc' w' \<and> SS_refused a p p')"

lemma SS_pass_ok_step:
  assumes "SS_step V m bc0 w0 bc w" and "m + n \<le> k" and "SS_pass_ok V n again a p dbs q bc w r"
  shows "SS_pass_ok V k again a p dbs q bc0 w0 r"
  using assms(3) SS_step_trans [OF assms(1) _ assms(2)] by (auto simp: SS_pass_ok_def split: ss_pass.splits)

text \<open>A search on the session of an instance, under a name none of its sets has.\<close>

lemma SS_search_world:
  assumes "SS_sync V {i} bc w" and "i \<in> set (bc_list bc)" and "SS_fresh (SS_inst bc i) rid" and "SS_draws V n w w'"
    and "\<forall>sid. sid \<noteq> SS_sid bc i \<longrightarrow> view_holds V w' sid = view_holds V w sid"
    and "\<forall>m. m \<noteq> rid \<longrightarrow> view_holds V w' (SS_sid bc i) m = view_holds V w (SS_sid bc i) m"
  shows "SS_sync V {i} bc w'"
proof -
  have "view_holds V w' (SS_sid bc j) (bset_id s) = view_holds V w (SS_sid bc j) (bset_id s)"
    if "j \<in> set (bc_list bc)" "s \<in> set (bi_sets (SS_inst bc j))" for j s
  proof (cases "j = i")
    case True
    then show ?thesis using assms(3,6) that(2) by (auto simp: SS_fresh_def)
  next
    case False
    then have "SS_sid bc j \<noteq> SS_sid bc i" using assms(1,2) that(1) by (auto simp: SS_sync_def dest: inj_onD)
    then show ?thesis using assms(5) by simp
  qed
  then show ?thesis using assms(1,4) unfolding SS_sync_def SS_good_def SS_held_def SS_sid_def SS_draws_def
    by (auto dest: order_trans)
qed

lemma SS_push_sync:
  assumes "SS_sync V {i} bc w" and "i \<in> set (bc_list bc)" and "SS_fresh (SS_inst bc i) (bset_id s)" and "SS_held V w (bi_session (SS_inst bc i)) s"
  shows "SS_sync V {i} (SS_upd i (\<lambda>b. b\<lparr>bi_sets := bi_sets b @ [s]\<rparr>) bc) w"
  using assms by (intro SS_sync_upd [OF assms(1)]) (auto simp: SS_good_def SS_inst_ok_def SS_fresh_def SS_sync_def)

lemma SS_search_request_fields [simp]:
  "srq_resultSetName (SS_search_request Y a s) = bset_id s" "srq_databaseNames (SS_search_request Y a s) = bset_databases s"
  "srq_query (SS_search_request Y a s) = bset_query s"
  by (simp_all add: SS_search_request_def Let_def split: Z_APDU.split)

lemma SS_search_set_sync:
  assumes "SS_target E V mv" and "SS_room V 1 w" and "SS_sync V {i} bc w" and "i \<in> set (bc_list bc)"
    and "SS_fresh (SS_inst bc i) rid" and "s = SS_BackendSet_new t rid dbs q info"
    and "SS_search_set Y mv a (bi_session (SS_inst bc i)) s p w = (r, w')"
  shows "SS_draws V 1 w w' \<and> (\<forall>sid. sid \<noteq> SS_sid bc i \<longrightarrow> view_holds V w' sid = view_holds V w sid) \<and>
    (case r of Inl p' \<Rightarrow> p' = p\<lparr>pkg_response := Some (GDU_Z3950 (SS_failure Y a ''session_shared: target closed connection during search''))\<rparr>
     | Inr (s', recs) \<Rightarrow> SS_sync V {i} bc w' \<and> bset_id s' = rid \<and> bset_databases s' = dbs \<and> bset_query s' = q \<and>
         (SS_condition recs = 0 \<longrightarrow> SS_held V w' (bi_session (SS_inst bc i)) s'))"
proof -
  let ?ses = "bi_session (SS_inst bc i)"
  let ?q = "(Package_new ?ses (pkg_origin p))\<lparr>pkg_request := Some (GDU_Z3950 (APDU_searchRequest (SS_search_request Y a s)))\<rparr>"
  obtain sp w1 where mv: "mv [] ?q w = (sp, w1)" by fastforce
  have w': "w' = w1" using assms(7) mv by (auto simp: SS_search_set_def Let_def split: if_splits option.splits Z_GDU.splits Z_APDU.splits)
  have sid: "m_id (pkg_session ?q) = SS_sid bc i" by (simp add: Package_new_def SS_sid_def)
  have d: "SS_draws V 1 w w1" by (rule SS_targetD(1) [OF assms(1) mv assms(2)])
  have fr: "\<forall>sid. sid \<noteq> SS_sid bc i \<longrightarrow> view_holds V w1 sid = view_holds V w sid"
    using SS_targetD(2) [OF assms(1) mv] sid by simp
  show ?thesis
  proof (cases r)
    case (Inl p')
    then show ?thesis using assms(7) mv w' d fr
      by (auto simp: SS_search_set_def Let_def split: if_splits option.splits Z_GDU.splits Z_APDU.splits)
  next
    case (Inr sr)
    then obtain x where x: "\<not> is_closed sp" "pkg_response sp = Some (GDU_Z3950 (APDU_searchResponse x))"
        "sr = (s\<lparr>bset_size := srs_resultCount x, bset_infoResponse := srs_additionalSearchInfo x\<rparr>, srs_records x)"
      using assms(7) mv by (auto simp: SS_search_set_def Let_def split: if_splits option.splits Z_GDU.splits Z_APDU.splits)
    have ans: "SS_answer V ?q w sp w1" by (rule SS_targetD(3) [OF assms(1) mv x(1)])
    then have "\<forall>m. m \<noteq> rid \<longrightarrow> view_holds V w1 (SS_sid bc i) m = view_holds V w (SS_sid bc i) m"
      using sid by (simp add: SS_answer_def Let_def assms(6) SS_BackendSet_new_def)
    then have "SS_sync V {i} bc w1" by (rule SS_search_world [OF assms(3,4,5) d fr])
    moreover have "SS_condition (srs_records x) = 0 \<longrightarrow> SS_held V w1 ?ses (fst sr)"
      using ans x(2) by (simp add: SS_answer_def Let_def SS_held_def assms(6) SS_BackendSet_new_def x(3) Package_new_def)
    ultimately show ?thesis using Inr x(3) w' d fr assms(6) by (simp add: SS_BackendSet_new_def)
  qed
qed

lemma SS_timestamp_inst [simp]:
  "bi_sets (SS_inst (SS_timestamp t i bc) j) = bi_sets (SS_inst bc j)" "bi_session (SS_inst (SS_timestamp t i bc) j) = bi_session (SS_inst bc j)"
  "bi_result_set_sequence (SS_inst (SS_timestamp t i bc) j) = bi_result_set_sequence (SS_inst bc j)"
  by (auto simp: SS_timestamp_def)

lemma SS_new_set_ok:
  assumes "SS_target E V mv" and "SS_room V 2 w" and "SS_sync V {i} bc w" and "i \<in> set (bc_list bc)"
    and "SS_fresh (SS_inst bc i) rid" and "SS_for_set a"
  shows "SS_pass_ok V 2 (m_restart cf \<and> \<not> re) a p dbs q bc w (SS_new_set Y E mv cf a dbs q re p i rid bc w)"
proof -
  let ?t = "ss_clock E w"
  define bc0 where "bc0 = SS_timestamp ?t i bc"
  have sync: "SS_sync V {i} bc0 w" unfolding bc0_def by (rule SS_timestamp_sync [OF assms(3,4)])
  have i: "i \<in> set (bc_list bc0)" "SS_fresh (SS_inst bc0 i) rid" using assms(4,5) by (simp_all add: bc0_def SS_fresh_def)
  have sid: "SS_sid bc0 i \<in> SS_sids bc0" using i(1) by (simp add: SS_sids_def)
  have st0: "SS_step V 0 bc w bc0 w" by (rule SS_step_refl) (simp add: bc0_def SS_timestamp_def)
  let ?s = "SS_BackendSet_new ?t rid dbs q (SS_search_info a)"
  obtain r w1 where se: "SS_search_set Y mv a (bi_session (SS_inst bc0 i)) ?s p w = (r, w1)" by fastforce
  have room: "SS_room V 1 w" using SS_room_mono [OF assms(2)] by simp
  note x = SS_search_set_sync [OF assms(1) room sync i refl se]
  then have room1: "SS_room V 1 w1" using SS_room_draws [OF assms(2), of 1 w1 1] by simp
  have st1: "SS_step V 1 bc0 w bc0 w1" using x sid by (intro SS_step_one [where x = "SS_sid bc0 i"]) auto
  obtain bc2 w2 where rm: "SS_remove_backend Y mv i bc0 w1 = (bc2, w2)" by fastforce
  have "SS_sync V {} bc2 w2 \<and> SS_step V 1 bc0 w1 bc2 w2"
    using x by (intro SS_remove_sync [OF assms(1) room1 sync rm _ _ i(1)]) auto
  then have removed: "SS_sync V {} bc2 w2" "SS_step V 2 bc0 w bc2 w2" using SS_step_trans [OF st1, of 1 bc2 w2 2] by simp_all
  have "SS_pass_ok V 2 (m_restart cf \<and> \<not> re) a p dbs q bc0 w (SS_new_set Y E mv cf a dbs q re p i rid bc w)"
  proof (cases r)
    case (Inl p')
    then show ?thesis using se rm removed x SS_failure_refused [OF assms(6)]
      by (simp add: SS_new_set_def Let_def bc0_def [symmetric] SS_pass_ok_def)
  next
    case (Inr sr)
    obtain s recs where sr: "sr = (s, recs)" by fastforce
    have sync1: "SS_sync V {i} bc0 w1" "bset_id s = rid" "bset_databases s = dbs" "bset_query s = q"
      and held: "SS_condition recs = 0 \<Longrightarrow> SS_held V w1 (bi_session (SS_inst bc0 i)) s" using x Inr sr by auto
    have st2: "SS_step V 2 bc0 w bc0 w1" by (rule SS_step_mono [OF st1]) simp
    have len: "i < length (bc_store bc0)" using sync i(1) by (simp add: SS_sync_def)
    let ?bc3 = "SS_upd i (\<lambda>b. b\<lparr>bi_sets := bi_sets b @ [s]\<rparr>) bc0"
    have push: "SS_sync V {i} ?bc3 w1 \<and> SS_step V 2 bc0 w ?bc3 w1" if "SS_condition recs = 0"
      using SS_push_sync [OF sync1(1) i(1) _ held [OF that]] i(2) sync1(2) SS_step_trans [OF st2 SS_step_refl [of ?bc3 bc0 V 0]] by simp
    have rel: "SS_sync V {} (SS_release_backend i bc0) w1 \<and> SS_step V 2 bc0 w (SS_release_backend i bc0) w1"
      using SS_release_sync [OF sync1(1)] SS_step_trans [OF st2 SS_step_refl [of "SS_release_backend i bc0" bc0 V 0]] by simp
    have "SS_condition None = 0" by simp
    then show ?thesis
      using se rm removed Inr sr push rel SS_diag_refused [OF assms(6), of recs p Y] i(1) len sync1
      by (auto simp: SS_new_set_def Let_def bc0_def [symmetric] SS_pass_ok_def SS_gives_def nth_append)
  qed
  then show ?thesis by (rule SS_pass_ok_step [OF st0, rotated]) simp
qed

lemma SS_pass_correct:
  assumes "SS_target E V mv" and "SS_room V 6 w" and "SS_sync V {} bc w" and "SS_for_set a"
  shows "SS_pass_ok V 6 (m_restart cf \<and> \<not> re) a p dbs q bc w (SS_pass Y E mv cf a dbs q re p bc w)"
  using assms(3)
proof (cases rule: SS_choose_sync [where E = E and cf = cf and a = a and dbs = dbs and q = q])
  case (share i k bc')
  have "SS_same_results E V" using assms(1) by (simp add: SS_target_def)
  then have "SS_gives V dbs q (bi_sets (SS_inst bc' i) ! k)"
    using share(6) unfolding SS_same_results_def SS_same_search_def SS_gives_def by blast
  then show ?thesis using share by (simp add: SS_pass_def SS_pass_ok_def SS_step_refl)
next
  case (take i rid bc')
  have "SS_room V 2 w" using SS_room_mono [OF assms(2)] by simp
  then have "SS_pass_ok V 2 (m_restart cf \<and> \<not> re) a p dbs q bc' w (SS_new_set Y E mv cf a dbs q re p i rid bc' w)"
    by (rule SS_new_set_ok [OF assms(1) _ take(2,4,5) assms(4)])
  then show ?thesis using take(1) SS_pass_ok_step [OF SS_step_refl [of bc' bc V 0 w], of 2 6] take(3) by (simp add: SS_pass_def)
next
  case (none b bc')
  have st: "SS_step V 0 bc w bc' w" using none(3) by (simp add: SS_step_refl)
  have "SS_pass_ok V 6 (m_restart cf \<and> \<not> re) a p dbs q bc' w (SS_pass Y E mv cf a dbs q re p bc w)"
  proof (cases b)
    case True
    then show ?thesis using none SS_failure_refused [OF assms(4)] by (simp add: SS_pass_def SS_pass_ok_def SS_step_refl)
  next
    case False
    obtain r code addinfo bc1 w1 where cr: "SS_create_backend Y E mv p bc' w = ((r, code, addinfo), bc1, w1)"
      using prod.exhaust by metis
    have "SS_room V 4 w" using SS_room_mono [OF assms(2)] by simp
    note c = SS_create_sync [OF assms(1) this none(2) cr]
    show ?thesis
    proof (cases r)
      case None
      then have "SS_step V 6 bc' w bc1 w1" using c SS_step_mono [of V 4 bc' w bc1 w1 6] by simp
      then show ?thesis using None none(1) False cr c SS_failure_refused [OF assms(4)] by (simp add: SS_pass_def SS_pass_ok_def)
    next
      case (Some i)
      obtain rid bc2 where id: "SS_next_id i bc1 = (rid, bc2)" by fastforce
      have i: "SS_sync V {i} bc1 w1" "i \<in> set (bc_list bc1)" "bi_sets (SS_inst bc1 i) = []" using c Some by auto
      note n = SS_next_id_sync [OF i(1,2) disjI2 [OF i(3)] id]
      have st2: "SS_step V 4 bc' w bc2 w1" using c n SS_step_trans [of V 4 bc' w bc1 w1 0 bc2 w1 4] SS_step_refl [of bc2 bc1 V 0 w1] by simp
      then have "SS_room V 2 w1" using SS_room_draws [OF assms(2), of 4 w1 2] by (simp add: SS_step_def)
      then have "SS_pass_ok V 2 (m_restart cf \<and> \<not> re) a p dbs q bc2 w1 (SS_new_set Y E mv cf a dbs q re p i rid bc2 w1)"
        using n i(2) by (intro SS_new_set_ok [OF assms(1)]) (auto simp: assms(4))
      then show ?thesis using Some none(1) False cr id SS_pass_ok_step [OF st2, of 2 6] by (simp add: SS_pass_def)
    qed
  qed
  then show ?thesis by (rule SS_pass_ok_step [OF st, rotated]) simp
qed

definition SS_get_ok :: "'w ss_view \<Rightarrow> nat \<Rightarrow> SS_Conf \<Rightarrow> Z_APDU \<Rightarrow> package \<Rightarrow> string list \<Rightarrow> Z_Query \<Rightarrow> SS_BackendClass \<Rightarrow> 'w world_scheme
    \<Rightarrow> ((nat \<times> nat) option \<times> package \<times> SS_BackendClass \<times> 'w world_scheme) ss_result \<Rightarrow> bool" where
  "SS_get_ok V n cf a p dbs q bc w r \<longleftrightarrow> (case r of
      Waits \<Rightarrow> False
    | Null_deref \<Rightarrow> m_restart cf
    | Done (None, p', bc', w') \<Rightarrow> SS_sync V {} bc' w' \<and> SS_step V n bc w bc' w' \<and> SS_refused a p p'
    | Done (Some (i, k), p', bc', w') \<Rightarrow> p' = p \<and> SS_sync V {i} bc' w' \<and> SS_step V n bc w bc' w' \<and> i \<in> set (bc_list bc') \<and>
        k < length (bi_sets (SS_inst bc' i)) \<and> SS_gives V dbs q (bi_sets (SS_inst bc' i) ! k))"

lemma SS_get_set_correct:
  assumes "SS_target E V mv" and "SS_room V 12 w" and "SS_sync V {} bc w" and "SS_for_set a"
  shows "SS_get_ok V 12 cf a p dbs q bc w (SS_get_set Y E mv cf a dbs q p bc w)"
proof -
  have room: "SS_room V 6 w" using SS_room_mono [OF assms(2)] by simp
  note one = SS_pass_correct [OF assms(1) room assms(3,4), of cf False p dbs q Y]
  show ?thesis
  proof (cases "SS_pass Y E mv cf a dbs q False p bc w")
    case (Pass_again bc1 w1)
    then have s1: "m_restart cf" "SS_sync V {} bc1 w1" "SS_step V 6 bc w bc1 w1" using one by (simp_all add: SS_pass_ok_def)
    then have "SS_room V 6 w1" using SS_room_draws [OF assms(2), of 6 w1 6] by (simp add: SS_step_def)
    note two = SS_pass_correct [OF assms(1) this s1(2) assms(4), of cf True p dbs q Y]
    have "SS_pass_ok V 12 False a p dbs q bc w (SS_pass Y E mv cf a dbs q True p bc1 w1)"
      using SS_pass_ok_step [OF s1(3) _ two] by simp
    then show ?thesis using Pass_again s1(1)
      by (simp add: SS_get_set_def SS_pass_ok_def SS_get_ok_def split: ss_pass.splits)
  qed (use one SS_step_mono [of V 6 bc w _ _ 12] in \<open>simp_all add: SS_get_set_def SS_pass_ok_def SS_get_ok_def\<close>)
qed

section \<open>The requests of a client on its class\<close>

text \<open>What the client gets: a diagnostic, or the count of its own query, which is then remembered.\<close>

definition SS_search_ok :: "'w ss_view \<Rightarrow> SS_Conf \<Rightarrow> Z_SearchRequest \<Rightarrow> package \<Rightarrow> SS_Frontend \<Rightarrow> SS_BackendClass \<Rightarrow> 'w world_scheme
    \<Rightarrow> (package \<times> SS_Frontend \<times> SS_BackendClass \<times> 'w world_scheme) ss_result \<Rightarrow> bool" where
  "SS_search_ok V cf req p f bc w r \<longleftrightarrow> (case r of
      Waits \<Rightarrow> False
    | Null_deref \<Rightarrow> m_restart cf
    | Done (p', f', bc', w') \<Rightarrow> SS_sync V {} bc' w' \<and> SS_step V 12 bc w bc' w' \<and>
        (let name = srq_resultSetName req; dbs = srq_databaseNames req; others = (sf_sets f)(name := None) in
         SS_refused (APDU_searchRequest req) p p' \<and> (f' = f \<or> f' = f\<lparr>sf_sets := others\<rparr>) \<or>
         (\<exists>q x. SS_expand_query others dbs (srq_query req) = Inr q \<and>
            p' = p\<lparr>pkg_response := Some (GDU_Z3950 (APDU_searchResponse x))\<rparr> \<and> srs_resultCount x = view_count V dbs q \<and>
            f' = f\<lparr>sf_sets := (sf_sets f)(name \<mapsto> \<lparr>fset_databases = dbs, fset_query = q\<rparr>)\<rparr>)))"

lemma search_refused:
  "err \<noteq> 0 \<Longrightarrow> SS_refused (APDU_searchRequest req) p
     (p\<lparr>pkg_response := Some (GDU_Z3950 (APDU_searchResponse (create_searchResponse Y b err m)))\<rparr>)"
  by (auto simp: SS_refused_def SS_diagnostic_def create_searchResponse_def Let_def)

lemma present_refused:
  "err \<noteq> 0 \<Longrightarrow> SS_refused (APDU_presentRequest req) p
     (p\<lparr>pkg_response := Some (GDU_Z3950 (APDU_presentResponse (create_presentResponse Y b err m)))\<rparr>)"
  by (auto simp: SS_refused_def SS_diagnostic_def create_presentResponse_def Let_def)

lemma SS_released:
  assumes "SS_sync V {i} bc' w'" and "SS_step V n bc w bc' w'"
  shows "SS_sync V {} (SS_release_backend i bc') w' \<and> SS_step V n bc w (SS_release_backend i bc') w'"
  using SS_release_sync [OF assms(1)] SS_step_trans [OF assms(2) SS_step_refl [of "SS_release_backend i bc'" bc' V 0]] by simp

lemma SS_search_correct:
  assumes "SS_target E V mv" and "SS_room V 12 w" and "SS_sync V {} bc w"
  shows "SS_search_ok V cf req p f bc w (SS_search Y E mv cf req p f bc w)"
proof -
  let ?a = "APDU_searchRequest req"
  let ?dbs = "srq_databaseNames req"
  let ?others = "(sf_sets f)(srq_resultSetName req := None)"
  have none: "SS_search_ok V cf req p f bc w (Done (p\<lparr>pkg_response := Some (GDU_Z3950 (APDU_searchResponse
      (create_searchResponse Y (Some ?a) err m)))\<rparr>, f', bc, w))"
    if "err \<noteq> 0" "f' = f \<or> f' = f\<lparr>sf_sets := ?others\<rparr>" for err m f'
    using that search_refused assms(3) by (auto simp: SS_search_ok_def SS_step_refl)
  show ?thesis
  proof (cases "sf_sets f (srq_resultSetName req) \<noteq> None \<and> \<not> srq_replaceIndicator req")
    case True
    then show ?thesis using none by (simp add: SS_search_def)
  next
    case False
    show ?thesis
    proof (cases "SS_expand_query ?others ?dbs (srq_query req)")
      case (Inl r)
      then show ?thesis using False none by (auto simp: SS_search_def Let_def)
    next
      case (Inr q)
      have get: "SS_get_ok V 12 cf ?a p ?dbs q bc w (SS_get_set Y E mv cf ?a ?dbs q p bc w)"
        by (rule SS_get_set_correct [OF assms]) simp
      have run: "SS_search Y E mv cf req p f bc w = (case SS_get_set Y E mv cf ?a ?dbs q p bc w of
           Waits \<Rightarrow> Waits | Null_deref \<Rightarrow> Null_deref
         | Done (None, p, bc, w) \<Rightarrow> Done (p, f\<lparr>sf_sets := ?others\<rparr>, bc, w)
         | Done (Some (i, k), p, bc, w) \<Rightarrow> Done (p\<lparr>pkg_response := Some (GDU_Z3950 (APDU_searchResponse
             ((create_searchResponse Y (Some ?a) 0 None)\<lparr>srs_resultCount := bset_size (bi_sets (SS_inst bc i) ! k),
                srs_additionalSearchInfo := bset_infoResponse (bi_sets (SS_inst bc i) ! k)\<rparr>)))\<rparr>,
             f\<lparr>sf_sets := (sf_sets f)(srq_resultSetName req \<mapsto> \<lparr>fset_databases = ?dbs, fset_query = q\<rparr>)\<rparr>, SS_release_backend i bc, w))"
        unfolding SS_search_def Let_def using False Inr
        by (auto split: ss_result.splits option.splits prod.splits)
      have count: "bset_size s = view_count V dbs q'" if "SS_sync V {i} bc' w'" "i \<in> set (bc_list bc')"
        "s \<in> set (bi_sets (SS_inst bc' i))" "SS_gives V dbs q' s" for i bc' w' s dbs q'
        using that by (simp add: SS_sync_def SS_good_def SS_held_def SS_gives_def)
      show ?thesis
        unfolding run using get Inr SS_released count
        by (fastforce simp: SS_get_ok_def SS_search_ok_def Let_def split: ss_result.splits option.splits prod.splits)
    qed
  qed
qed

definition SS_records_ok :: "'w ss_view \<Rightarrow> string list \<Rightarrow> Z_Query \<Rightarrow> Z_PresentRequest \<Rightarrow> Z_PresentResponse \<Rightarrow> bool" where
  "SS_records_ok V dbs q req x \<longleftrightarrow> (\<forall>npr j. prs_records x = Some (Records_DBOSD npr) \<longrightarrow> j < length npr \<longrightarrow>
     view_record V dbs q (prq_recordComposition req) (prq_resultSetStartPoint req + int j) (npr ! j))"

definition SS_presented :: "'w ss_view \<Rightarrow> nat \<Rightarrow> string list \<Rightarrow> Z_Query \<Rightarrow> Z_PresentRequest \<Rightarrow> package \<Rightarrow> SS_BackendClass \<Rightarrow> 'w world_scheme
    \<Rightarrow> package \<times> SS_BackendClass \<times> 'w world_scheme \<Rightarrow> bool" where
  "SS_presented V n dbs q req p bc w r \<longleftrightarrow> (case r of (p', bc', w') \<Rightarrow> SS_sync V {} bc' w' \<and> SS_step V n bc w bc' w' \<and>
     (\<exists>x. p' = p\<lparr>pkg_response := Some (GDU_Z3950 (APDU_presentResponse x))\<rparr> \<and> SS_records_ok V dbs q req x))"

lemma SS_presentedI:
  "SS_sync V {} bc' w' \<Longrightarrow> SS_step V n bc w bc' w' \<Longrightarrow> SS_records_ok V dbs q req x \<Longrightarrow>
   SS_presented V n dbs q req p bc w (p\<lparr>pkg_response := Some (GDU_Z3950 (APDU_presentResponse x))\<rparr>, bc', w')"
  by (auto simp: SS_presented_def)

lemma SS_diagnostic_records_ok: "SS_diagnostic (prs_records x) \<Longrightarrow> SS_records_ok V dbs q req x"
  by (simp add: SS_diagnostic_def SS_records_ok_def)

lemma error_records_ok: "err \<noteq> 0 \<Longrightarrow> SS_records_ok V dbs q req (create_presentResponse Y b err m)"
  by (simp add: SS_records_ok_def create_presentResponse_def Let_def)

lemma SS_refusal_present: "SS_refusal (APDU_presentRequest req) a \<Longrightarrow> \<exists>x. a = APDU_presentResponse x \<and> SS_diagnostic (prs_records x)"
  by (cases a) auto

lemma SS_refused_records_ok:
  "SS_refused (APDU_presentRequest req) p p' \<Longrightarrow>
   \<exists>x. p' = p\<lparr>pkg_response := Some (GDU_Z3950 (APDU_presentResponse x))\<rparr> \<and> SS_records_ok V dbs q req x"
  by (auto simp: SS_refused_def SS_diagnostic_records_ok dest!: SS_refusal_present)

lemma SS_cache_add_held:
  assumes "SS_held V w ses s" and "SS_gives V dbs q s" and "SS_records_ok V dbs q req r"
  shows "SS_held V w ses (SS_cache_add req r s) \<and> bset_id (SS_cache_add req r s) = bset_id s"
  using assms by (auto simp: SS_cache_add_def SS_held_def SS_gives_def SS_records_ok_def split: option.split Z_Records.split)

lemma SS_cached_records:
  assumes "SS_cache_law E" and "SS_held V w ses s" and "SS_gives V dbs q s" and "SS_lookup E req s = Some npr" and "j < length npr"
  shows "view_record V dbs q (prq_recordComposition req) (prq_resultSetStartPoint req + int j) (npr ! j)"
proof -
  let ?pos = "prq_resultSetStartPoint req + int j"
  have "ss_cache_lookup E (bset_cache s) (prq_resultSetStartPoint req) (prq_numberOfRecordsRequested req)
      (prq_preferredRecordSyntax req) (prq_recordComposition req) = Some npr"
    using assms(4) by (simp add: SS_lookup_def split: if_splits)
  then obtain npr' start' where c: "(npr', start', prq_recordComposition req) \<in> set (bset_cache s)" "start' \<le> ?pos"
      "?pos < start' + int (length npr')" "npr ! j = npr' ! nat (?pos - start')"
    using assms(1,5) unfolding SS_cache_law_def by blast
  let ?k = "nat (?pos - start')"
  have "?k < length npr'" "start' + int ?k = ?pos" using c(2,3) by linarith+
  moreover have "\<forall>(npr, start, cmp) \<in> set (bset_cache s). \<forall>j < length npr.
      view_record V (bset_databases s) (bset_query s) cmp (start + int j) (npr ! j)" using assms(2) by (simp add: SS_held_def)
  ultimately have "view_record V (bset_databases s) (bset_query s) (prq_recordComposition req) ?pos (npr' ! ?k)"
    using c(1) by (metis (no_types, lifting) case_prodD)
  then show ?thesis using assms(3) c(4) by (simp add: SS_gives_def)
qed

lemma SS_update_set_sync:
  assumes "SS_sync V {i} bc w" and "i \<in> set (bc_list bc)" and "k < length (bi_sets (SS_inst bc i))"
    and "SS_held V w (bi_session (SS_inst bc i)) s" and "bset_id s = bset_id (bi_sets (SS_inst bc i) ! k)"
  shows "SS_sync V {i} (SS_upd i (\<lambda>b. b\<lparr>bi_sets := (bi_sets b)[k := s]\<rparr>) bc) w"
proof -
  let ?b = "SS_inst bc i"
  have ids: "map bset_id ((bi_sets ?b)[k := s]) = map bset_id (bi_sets ?b)"
    using assms(3,5) by (metis list_update_id map_update nth_map)
  have good: "SS_good V w ?b" using assms(1,2) by (simp add: SS_sync_def)
  have "SS_id_ok n (bset_id x)" if "x \<in> set ((bi_sets ?b)[k := s])" "\<forall>y \<in> set (bi_sets ?b). SS_id_ok n (bset_id y)" for x n
    using that set_update_subset_insert [of "bi_sets ?b" k s] assms(3,5) by (metis insertE nth_mem subsetD)
  then have "SS_good V w (?b\<lparr>bi_sets := (bi_sets ?b)[k := s]\<rparr>)"
    using good assms(4) ids set_update_subset_insert [of "bi_sets ?b" k s]
    by (auto simp: SS_good_def SS_inst_ok_def dest!: subsetD [OF set_update_subset_insert])
  then show ?thesis using assms(1,2) by (intro SS_sync_upd [OF assms(1)]) (auto simp: SS_sync_def)
qed

lemma same_holds: "\<forall>x. x \<noteq> sid \<longrightarrow> h' x = h x \<Longrightarrow> h' sid = h sid \<Longrightarrow> h' = h"
  by (rule ext) metis

lemma SS_present_target_ok:
  assumes "SS_target E V mv" and "SS_room V 2 w" and "SS_sync V {i} bc w" and "i \<in> set (bc_list bc)"
    and "k < length (bi_sets (SS_inst bc i))" and "SS_gives V dbs q (bi_sets (SS_inst bc i) ! k)"
  shows "SS_presented V 2 dbs q req p bc w (SS_present_target Y E mv req p i k bc w)"
proof -
  define bc0 where "bc0 = SS_timestamp (ss_clock E w) i bc"
  let ?s = "bi_sets (SS_inst bc i) ! k"
  let ?q = "(Package_new (bi_session (SS_inst bc i)) (pkg_origin p))\<lparr>pkg_request :=
     Some (GDU_Z3950 (APDU_presentRequest (SS_present_request Y req ?s)))\<rparr>"
  obtain pp w1 where mv: "mv [] ?q w = (pp, w1)" by fastforce
  have sync: "SS_sync V {i} bc0 w" unfolding bc0_def by (rule SS_timestamp_sync [OF assms(3,4)])
  have i: "i \<in> set (bc_list bc0)" "bi_sets (SS_inst bc0 i) = bi_sets (SS_inst bc i)" "bi_session (SS_inst bc0 i) = bi_session (SS_inst bc i)"
    "i < length (bc_store bc0)" using assms(3,4) sync by (auto simp: bc0_def SS_sync_def)
  have sids: "SS_sids bc0 = SS_sids bc" by (simp add: bc0_def SS_timestamp_def)
  have "m_id (pkg_session ?q) = SS_sid bc0 i" using i(3) by (simp add: SS_sid_def Package_new_def)
  moreover have "SS_sid bc0 i \<in> SS_sids bc0" using i(1) by (simp add: SS_sids_def)
  ultimately have sid: "m_id (pkg_session ?q) = SS_sid bc0 i" "SS_sid bc0 i \<in> SS_sids bc0" by simp_all
  have d: "SS_draws V 1 w w1" using SS_targetD(1) [OF assms(1) mv] SS_room_mono [OF assms(2), of 1] by simp
  have fr: "\<forall>x. x \<noteq> SS_sid bc0 i \<longrightarrow> view_holds V w1 x = view_holds V w x" using SS_targetD(2) [OF assms(1) mv] sid by simp
  have st: "SS_step V 1 bc w bc0 w1" using sid(2) sids by (intro SS_step_one [OF d _ _ fr]) auto
  obtain bc2 w2 where rm: "SS_remove_backend Y mv i bc0 w1 = (bc2, w2)" by fastforce
  have "SS_room V 1 w1" using SS_room_draws [OF assms(2) d] by simp
  then have "SS_sync V {} bc2 w2 \<and> SS_step V 1 bc0 w1 bc2 w2" by (rule SS_remove_sync [OF assms(1) _ sync rm d fr i(1)])
  then have removed: "SS_sync V {} bc2 w2" "SS_step V 2 bc w bc2 w2" using SS_step_trans [OF st, of 1 bc2 w2 2] by simp_all
  define err where "err = create_presentResponse Y (Some (APDU_presentRequest req)) BIB1_TEMPORARY_SYSTEM_ERROR
     (Some ''session_shared: target closed connection during present'')"
  define good where "good = (\<lambda>r :: Z_PresentResponse. (create_presentResponse Y (Some (APDU_presentRequest req)) 0 None)\<lparr>
     prs_numberOfRecordsReturned := prs_numberOfRecordsReturned r, prs_nextResultSetPosition := prs_nextResultSetPosition r,
     prs_presentStatus := prs_presentStatus r, prs_records := prs_records r, prs_otherInfo := prs_otherInfo r\<rparr>)"
  have run: "SS_present_target Y E mv req p i k bc w = (if is_closed pp
      then (p\<lparr>pkg_response := Some (GDU_Z3950 (APDU_presentResponse err))\<rparr>, bc2, w2)
      else (case pkg_response pp of
          Some (GDU_Z3950 (APDU_presentResponse r)) \<Rightarrow> (p\<lparr>pkg_response := Some (GDU_Z3950 (APDU_presentResponse (good r)))\<rparr>,
            SS_release_backend i (SS_upd i (\<lambda>b. b\<lparr>bi_sets := (bi_sets b)[k := SS_cache_add req r ?s]\<rparr>) bc0), w1)
        | _ \<Rightarrow> (p\<lparr>pkg_response := Some (GDU_Z3950 (APDU_presentResponse err))\<rparr>, bc2, w2)))"
    using mv rm by (simp add: SS_present_target_def Let_def bc0_def err_def good_def split: option.split Z_GDU.split Z_APDU.split)
  show ?thesis
  proof (cases "\<not> is_closed pp \<and> (\<exists>r. pkg_response pp = Some (GDU_Z3950 (APDU_presentResponse r)))")
    case False
    then have "SS_present_target Y E mv req p i k bc w = (p\<lparr>pkg_response := Some (GDU_Z3950 (APDU_presentResponse err))\<rparr>, bc2, w2)"
      unfolding run by (auto split: option.split Z_GDU.split Z_APDU.split)
    moreover have "SS_records_ok V dbs q req err" unfolding err_def by (rule error_records_ok) simp
    ultimately show ?thesis using removed by (simp add: SS_presentedI)
  next
    case True
    then obtain r where r: "\<not> is_closed pp" "pkg_response pp = Some (GDU_Z3950 (APDU_presentResponse r))" by blast
    have s: "SS_held V w (bi_session (SS_inst bc i)) ?s" using assms(3-5) by (simp add: SS_sync_def SS_good_def)
    have ans: "SS_answer V ?q w pp w1" by (rule SS_targetD(3) [OF assms(1) mv r(1)])
    have "view_holds V w1 (SS_sid bc0 i) = view_holds V w (SS_sid bc0 i)" using ans sid(1) by (simp add: SS_answer_def Let_def)
    then have same: "view_holds V w1 = view_holds V w" by (rule same_holds [OF fr])
    have recs: "SS_records_ok V dbs q req r"
      using ans r(2) s assms(6) by (auto simp: SS_answer_def Let_def SS_records_ok_def SS_present_request_def SS_held_def SS_gives_def Package_new_def)
    have sync1: "SS_sync V {i} bc0 w1" using d same by (intro SS_sync_world [OF sync]) (auto simp: SS_draws_def)
    have "SS_held V w1 (bi_session (SS_inst bc0 i)) ?s" using s same i(3) by (simp add: SS_held_def)
    note added = SS_cache_add_held [OF this assms(6) recs]
    have "SS_sync V {i} (SS_upd i (\<lambda>b. b\<lparr>bi_sets := (bi_sets b)[k := SS_cache_add req r ?s]\<rparr>) bc0) w1"
      using assms(5) i(2) added by (intro SS_update_set_sync [OF sync1 i(1)]) simp_all
    moreover have "SS_step V 2 bc w (SS_upd i (\<lambda>b. b\<lparr>bi_sets := (bi_sets b)[k := SS_cache_add req r ?s]\<rparr>) bc0) w1"
      using SS_step_trans [OF st SS_step_refl [of _ bc0 V 0]] by simp
    ultimately have "SS_sync V {} (SS_release_backend i (SS_upd i (\<lambda>b. b\<lparr>bi_sets := (bi_sets b)[k := SS_cache_add req r ?s]\<rparr>) bc0)) w1 \<and>
        SS_step V 2 bc w (SS_release_backend i (SS_upd i (\<lambda>b. b\<lparr>bi_sets := (bi_sets b)[k := SS_cache_add req r ?s]\<rparr>) bc0)) w1"
      by (rule SS_released)
    moreover have "SS_records_ok V dbs q req (good r)" using recs by (simp add: SS_records_ok_def good_def)
    ultimately show ?thesis unfolding run using r by (simp add: SS_presentedI)
  qed
qed

lemma SS_present_correct:
  assumes "SS_target E V mv" and "SS_room V 14 w" and "SS_sync V {} bc w"
  shows "case SS_present Y E mv cf req p f bc w of
      Waits \<Rightarrow> False
    | Null_deref \<Rightarrow> m_restart cf
    | Done r \<Rightarrow> (case sf_sets f (prq_resultSetId req) of
         None \<Rightarrow> SS_refused (APDU_presentRequest req) p (fst r) \<and> snd r = (bc, w)
       | Some fset \<Rightarrow> SS_presented V 14 (fset_databases fset) (fset_query fset) req p bc w r)"
proof (cases "sf_sets f (prq_resultSetId req)")
  case None
  then show ?thesis using present_refused by (simp add: SS_present_def Let_def)
next
  case (Some fset)
  let ?a = "APDU_presentRequest req"
  let ?dbs = "fset_databases fset" and ?qu = "fset_query fset"
  have room: "SS_room V 12 w" using SS_room_mono [OF assms(2)] by simp
  have get: "SS_get_ok V 12 cf ?a p ?dbs ?qu bc w (SS_get_set Y E mv cf ?a ?dbs ?qu p bc w)"
    by (rule SS_get_set_correct [OF assms(1) room assms(3)]) simp
  show ?thesis
  proof (cases "SS_get_set Y E mv cf ?a ?dbs ?qu p bc w")
    case (Done r)
    obtain fk p1 bc1 w1 where r: "r = (fk, p1, bc1, w1)" by (cases r) auto
    show ?thesis
    proof (cases fk)
      case None
      then have "SS_sync V {} bc1 w1" "SS_step V 14 bc w bc1 w1" "SS_refused ?a p p1"
        using get Done r SS_step_mono [of V 12 bc w bc1 w1 14] by (simp_all add: SS_get_ok_def)
      then show ?thesis using Some Done r None SS_refused_records_ok [of req p p1 V ?dbs ?qu]
        by (simp add: SS_present_def Let_def SS_presented_def)
    next
      case (Some ik)
      obtain i k where ik: "ik = (i, k)" by fastforce
      have g: "p1 = p" "SS_sync V {i} bc1 w1" "SS_step V 12 bc w bc1 w1" "i \<in> set (bc_list bc1)"
          "k < length (bi_sets (SS_inst bc1 i))" "SS_gives V ?dbs ?qu (bi_sets (SS_inst bc1 i) ! k)"
        using get Done r Some ik by (simp_all add: SS_get_ok_def)
      let ?s = "bi_sets (SS_inst bc1 i) ! k"
      have held: "SS_held V w1 (bi_session (SS_inst bc1 i)) ?s" using g(2,4,5) by (simp add: SS_sync_def SS_good_def)
      have law: "SS_cache_law E" using assms(1) by (simp add: SS_target_def)
      have "SS_room V 2 w1" using SS_room_draws [OF assms(2), of 12 w1 2] g(3) by (simp add: SS_step_def)
      then have t: "SS_presented V 2 ?dbs ?qu req p bc1 w1 (SS_present_target Y E mv req p i k bc1 w1)"
        by (rule SS_present_target_ok [OF assms(1) _ g(2,4,5,6)])
      then have t': "SS_presented V 14 ?dbs ?qu req p bc w (SS_present_target Y E mv req p i k bc1 w1)"
        using SS_step_trans [OF g(3), of 2 _ _ 14] by (auto simp: SS_presented_def)
      have rel: "SS_sync V {} (SS_release_backend i bc1) w1" "SS_step V 14 bc w (SS_release_backend i bc1) w1"
        using SS_released [OF g(2) SS_step_mono [OF g(3), of 14]] by simp_all
      show ?thesis
      proof (cases "SS_lookup E req ?s")
        case None
        then show ?thesis using \<open>sf_sets f _ = Some fset\<close> Done r Some ik g(1) t' by (simp add: SS_present_def Let_def)
      next
        case (Some npr)
        then show ?thesis using \<open>sf_sets f _ = Some fset\<close> Done r \<open>fk = Some ik\<close> ik g(1) SS_cached_records [OF law held g(6) Some]
          by (auto simp: SS_present_def Let_def SS_records_ok_def intro!: SS_presentedI rel)
      qed
    qed
  qed (use get Some in \<open>simp_all add: SS_get_ok_def SS_present_def Let_def\<close>)
qed

lemma SS_oldest_free:
  "SS_oldest bc is b1 = Some i \<Longrightarrow> (\<forall>j. b1 = Some j \<longrightarrow> j \<in> S \<and> \<not> bi_in_use (SS_inst bc j)) \<Longrightarrow> set is \<subseteq> S \<Longrightarrow>
   i \<in> S \<and> \<not> bi_in_use (SS_inst bc i)"
proof (induction bc "is" b1 rule: SS_oldest.induct)
  case (2 bc j "is" b1)
  show ?case using "2.prems" by (intro "2.IH") (auto split: if_splits)
qed simp

lemma SS_get_backend_sync:
  assumes "SS_target E V mv" and "SS_room V 4 w" and "SS_sync V {} bc w" and "SS_get_backend Y E mv p bc w = ((r, d), bc', w')"
  shows "SS_step V 4 bc w bc' w' \<and> (case r of None \<Rightarrow> SS_sync V {} bc' w' | Some i \<Rightarrow> SS_sync V {i} bc' w' \<and> i \<in> set (bc_list bc'))"
proof (cases "SS_oldest bc (bc_list bc) None")
  case None
  then have "SS_create_backend Y E mv p bc w = ((r, d), bc', w')" using assms(4) by (simp add: SS_get_backend_def)
  from SS_create_sync [OF assms(1-3) this] show ?thesis by (auto split: option.splits)
next
  case (Some i)
  then have "i \<in> set (bc_list bc)" using SS_oldest_free [OF Some, of "set (bc_list bc)"] by simp
  moreover have "r = Some i" "bc' = SS_use_backend i bc" "w' = w" using assms(4) Some by (simp_all add: SS_get_backend_def)
  ultimately show ?thesis using SS_use_sync [OF assms(3), of i] by (auto intro!: SS_step_refl)
qed

lemma SS_scan_correct:
  assumes "SS_target E V mv" and "SS_room V 14 w" and "SS_sync V {} bc w" and "SS_scan Y E mv req p bc w = (p', bc', w')"
  shows "SS_sync V {} bc' w' \<and> SS_step V 14 bc w bc' w' \<and> m_id (pkg_session p') = m_id (pkg_session p)"
proof -
  obtain r d bc1 w1 where get: "SS_get_backend Y E mv p bc w = ((r, d), bc1, w1)" using prod.exhaust by metis
  have room: "SS_room V 4 w" using SS_room_mono [OF assms(2)] by simp
  note g = SS_get_backend_sync [OF assms(1) room assms(3) get]
  show ?thesis
  proof (cases r)
    case None
    then show ?thesis using assms(4) get g SS_step_mono [of V 4 bc w bc1 w1 14] by (auto simp: SS_scan_def Let_def split: prod.splits)
  next
    case (Some i)
    define bc2 where "bc2 = SS_timestamp (ss_clock E w1) i bc1"
    have i: "SS_sync V {i} bc2 w1" "i \<in> set (bc_list bc2)" "SS_sids bc2 = SS_sids bc1"
      using g Some SS_timestamp_sync [of V "{i}" bc1 w1 i] by (auto simp: bc2_def SS_timestamp_def)
    let ?q = "(Package_new (bi_session (SS_inst bc1 i)) (pkg_origin p))\<lparr>pkg_request := Some (GDU_Z3950 (APDU_scanRequest req))\<rparr>"
    obtain sp w2 where mv: "mv [] ?q w1 = (sp, w2)" by fastforce
    have run: "SS_scan Y E mv req p bc w = (if is_closed sp
        then (case SS_remove_backend Y mv i bc2 w2 of (bc, w) \<Rightarrow> (close_session (p\<lparr>pkg_response := pkg_response sp\<rparr>), bc, w))
        else (p\<lparr>pkg_response := pkg_response sp\<rparr>, SS_release_backend i bc2, w2))"
      using get Some mv by (simp add: SS_scan_def Let_def bc2_def)
    have "m_id (pkg_session ?q) = SS_sid bc2 i" by (simp add: SS_sid_def Package_new_def bc2_def)
    moreover have "SS_sid bc2 i \<in> SS_sids bc2" using i(2) by (simp add: SS_sids_def)
    ultimately have sid: "m_id (pkg_session ?q) = SS_sid bc2 i" "SS_sid bc2 i \<in> SS_sids bc2" by simp_all
    have room1: "SS_room V 10 w1" using SS_room_draws [OF assms(2), of 4 w1 10] g by (simp add: SS_step_def)
    have d: "SS_draws V 1 w1 w2" using SS_targetD(1) [OF assms(1) mv] SS_room_mono [OF room1, of 1] by simp
    have fr: "\<forall>x. x \<noteq> SS_sid bc2 i \<longrightarrow> view_holds V w2 x = view_holds V w1 x" using SS_targetD(2) [OF assms(1) mv] sid by simp
    have st: "SS_step V 1 bc1 w1 bc2 w2" using sid(2) i(3) by (intro SS_step_one [OF d _ _ fr]) auto
    have st2: "SS_step V 5 bc w bc2 w2" using SS_step_trans [OF _ st, of 4 bc w 5] g by simp
    show ?thesis
    proof (cases "is_closed sp")
      case True
      obtain bc3 w3 where rm: "SS_remove_backend Y mv i bc2 w2 = (bc3, w3)" by fastforce
      have "SS_room V 1 w2" using SS_room_draws [OF room1 d] by simp
      then have "SS_sync V {} bc3 w3 \<and> SS_step V 1 bc2 w2 bc3 w3" by (rule SS_remove_sync [OF assms(1) _ i(1) rm d fr i(2)])
      then show ?thesis using assms(4) run rm True SS_step_trans [OF st2, of 1 bc3 w3 14]
        by (auto simp: close_session_def Session_close_def)
    next
      case False
      have "SS_answer V ?q w1 sp w2" by (rule SS_targetD(3) [OF assms(1) mv False])
      then have "view_holds V w2 (SS_sid bc2 i) = view_holds V w1 (SS_sid bc2 i)" using sid(1) by (simp add: SS_answer_def Let_def)
      then have same: "view_holds V w2 = view_holds V w1" by (rule same_holds [OF fr])
      have "SS_sync V {i} bc2 w2" using d same by (intro SS_sync_world [OF i(1)]) (auto simp: SS_draws_def)
      then show ?thesis using assms(4) run False SS_released [OF _ SS_step_mono [OF st2, of 14]] by auto
    qed
  qed
qed

end
