(* ===== verification/MP_Shared_Process.thy ===== *)
theory MP_Shared_Process
  imports MP_Shared_Target
begin

text \<open>
  The session_shared filter as a whole: the invariant of its state that every package keeps, that
  every request is answered, and what the answers are.
\<close>

section \<open>The invariant\<close>

text \<open>No session belongs to two classes.\<close>

definition SS_classes_ok :: "'w ss_view \<Rightarrow> SS_BackendClass list \<Rightarrow> 'w world_scheme \<Rightarrow> bool" where
  "SS_classes_ok V cs w \<longleftrightarrow> (\<forall>c < length cs. SS_sync V {} (cs ! c) w) \<and>
     (\<forall>c < length cs. \<forall>d < length cs. c \<noteq> d \<longrightarrow> SS_sids (cs ! c) \<inter> SS_sids (cs ! d) = {})"

definition SS_client_ok :: "nat \<Rightarrow> SS_Frontend \<Rightarrow> bool" where
  "SS_client_ok n f \<longleftrightarrow> sets_closed (sf_sets f) \<and> (sf_is_virtual f \<longrightarrow> (\<exists>c < n. sf_backend_class f = Some c))"

definition SS_rep_ok :: "'w ss_view \<Rightarrow> SS_Rep \<Rightarrow> 'w world_scheme \<Rightarrow> bool" where
  "SS_rep_ok V rep w \<longleftrightarrow> SS_map_ok rep \<and> SS_classes_ok V (ss_classes rep) w \<and>
     (\<forall>i f. ss_clients rep i = Some f \<longrightarrow> \<not> sf_in_use f \<and> SS_client_ok (length (ss_classes rep)) f)"

text \<open>The session of a client is none of the sessions of backends.\<close>

definition SS_foreign :: "package \<Rightarrow> SS_Rep \<Rightarrow> bool" where
  "SS_foreign p rep \<longleftrightarrow> (\<forall>c < length (ss_classes rep). m_id (pkg_session p) \<notin> SS_sids (ss_classes rep ! c))"

lemma SS_sids_small: "SS_sync V U bc w \<Longrightarrow> sid \<in> SS_sids bc \<Longrightarrow> unat sid \<le> unat (m_global_id w)"
  by (auto simp: SS_sids_def SS_sync_def SS_good_def SS_sid_def)

lemma SS_classes_put:
  assumes "SS_classes_ok V cs w" and "c < length cs" and "SS_sync V {} bc w'" and "SS_step V n (cs ! c) w bc w'"
  shows "SS_classes_ok V (cs[c := bc]) w'"
proof -
  have other: "SS_sync V {} (cs ! d) w' \<and> SS_sids (cs ! d) \<inter> SS_sids bc = {}" if d: "d < length cs" "d \<noteq> c" for d
  proof -
    have sync: "SS_sync V {} (cs ! d) w" and dis: "SS_sids (cs ! d) \<inter> SS_sids (cs ! c) = {}"
      using assms(1,2) d by (simp_all add: SS_classes_ok_def)
    have out: "sid \<notin> SS_sids bc \<and> view_holds V w' sid = view_holds V w sid" if "sid \<in> SS_sids (cs ! d)" for sid
      using assms(4) SS_sids_small [OF sync that] dis that by (auto simp: SS_step_def)
    then have "SS_sync V {} (cs ! d) w'" using assms(4) by (intro SS_sync_world [OF sync]) (auto simp: SS_step_def SS_draws_def)
    then show ?thesis using out by auto
  qed
  then show ?thesis using assms(1-3) unfolding SS_classes_ok_def
    by (auto simp: nth_list_update Int_commute)
qed

lemma SS_classes_append:
  assumes "SS_classes_ok V cs w" and "bc_list bc = []"
  shows "SS_classes_ok V (cs @ [bc]) w"
proof -
  have "SS_sync V {} bc w" "SS_sids bc = {}" using assms(2) by (simp_all add: SS_sync_def SS_sids_def)
  then show ?thesis using assms(1) by (auto simp: SS_classes_ok_def nth_append less_Suc_eq)
qed

lemma SS_classes_world:
  assumes "SS_classes_ok V cs w" and "SS_draws V n w w'"
    and "\<forall>c < length cs. \<forall>sid \<in> SS_sids (cs ! c). view_holds V w' sid = view_holds V w sid"
  shows "SS_classes_ok V cs w'"
  using assms SS_sync_world [of V "{}" _ w w'] by (auto simp: SS_classes_ok_def SS_draws_def)

lemma SS_put_class_simps [simp]:
  "ss_classes (SS_put_class c bc rep) = (ss_classes rep)[c := bc]" "ss_clients (SS_put_class c bc rep) = ss_clients rep"
  "ss_conf (SS_put_class c bc rep) = ss_conf rep" "ss_map (SS_put_class c bc rep) = ss_map rep"
  by (simp_all add: SS_put_class_def)

lemma SS_map_ok_put: "SS_map_ok rep \<Longrightarrow> SS_map_ok (SS_put_class c bc rep)"
  by (simp add: SS_map_ok_def)

section \<open>Handling a package\<close>

definition SS_handled :: "'w ss_view \<Rightarrow> package \<Rightarrow> SS_Rep \<Rightarrow> 'w world_scheme
    \<Rightarrow> package \<times> SS_Frontend \<times> SS_Rep \<times> 'w world_scheme \<Rightarrow> bool" where
  "SS_handled V p rep w r \<longleftrightarrow> (case r of (p', f', rep', w') \<Rightarrow>
     SS_map_ok rep' \<and> SS_classes_ok V (ss_classes rep') w' \<and> length (ss_classes rep) \<le> length (ss_classes rep') \<and>
     ss_clients rep' = ss_clients rep \<and> ss_conf rep' = ss_conf rep \<and> SS_client_ok (length (ss_classes rep')) f' \<and>
     SS_draws V 14 w w' \<and> m_id (pkg_session p') = m_id (pkg_session p))"

lemma SS_handled_put:
  assumes "SS_map_ok rep" and "SS_classes_ok V (ss_classes rep) w" and "c < length (ss_classes rep)"
    and "SS_sync V {} bc w'" and "SS_step V n (ss_classes rep ! c) w bc w'" and "n \<le> 14"
    and "SS_client_ok (length (ss_classes rep)) f" and "m_id (pkg_session p') = m_id (pkg_session p)"
  shows "SS_handled V p rep w (p', f, SS_put_class c bc rep, w')"
  using assms SS_classes_put [OF assms(2-5)] SS_map_ok_put [OF assms(1)] SS_draws_mono [of V n w w' 14]
  by (simp add: SS_handled_def SS_step_def)

lemma SS_first_backend_sync:
  assumes "SS_target E V mv" and "SS_room V 4 w" and "SS_sync V {} bc w" and "SS_first_backend Y E mv p bc w = (bc', w')"
  shows "SS_sync V {} bc' w' \<and> SS_step V 4 bc w bc' w'"
proof (cases "bc_no_succeeded bc = 0")
  case False
  then show ?thesis using assms(3,4) by (auto simp: SS_first_backend_def intro: SS_step_refl)
next
  case True
  obtain r d bc1 w1 where cr: "SS_create_backend Y E mv p bc w = ((r, d), bc1, w1)" using prod.exhaust by metis
  note c = SS_create_sync [OF assms(1-3) cr]
  show ?thesis
  proof (cases r)
    case None
    then show ?thesis using c cr True assms(4) by (simp add: SS_first_backend_def)
  next
    case (Some i)
    then have "SS_sync V {i} bc1 w1" "SS_step V 4 bc w bc1 w1" using c by simp_all
    from SS_released [OF this] show ?thesis using Some cr True assms(4) by (simp add: SS_first_backend_def)
  qed
qed

lemma SS_init_handled:
  assumes "SS_target E V mv" and "SS_room V 14 w" and "SS_map_ok rep" and "SS_classes_ok V (ss_classes rep) w"
    and "SS_client_ok (length (ss_classes rep)) f"
  shows "SS_handled V p rep w (SS_init Y E version mv req p f rep w)"
proof -
  let ?req = "if m_ignore_auth (ss_conf rep) then req\<lparr>irq_idAuthentication := None\<rparr> else req"
  obtain c rep1 where cl: "SS_class_of E ?req rep = (c, rep1)" by fastforce
  note co = SS_class_of_ok [OF assms(3) cl]
  have rep1: "SS_classes_ok V (ss_classes rep1) w" "length (ss_classes rep) \<le> length (ss_classes rep1)"
      "ss_clients rep1 = ss_clients rep" "ss_conf rep1 = ss_conf rep"
    using cl assms(4) SS_classes_append [OF assms(4)]
    by (auto simp: SS_class_of_def Let_def SS_BackendClass_new_def split: option.splits)
  obtain bc w1 where fb: "SS_first_backend Y E mv p (ss_classes rep1 ! c) w = (bc, w1)" by fastforce
  have "SS_room V 4 w" "SS_sync V {} (ss_classes rep1 ! c) w"
    using SS_room_mono [OF assms(2)] rep1(1) co by (simp_all add: SS_classes_ok_def)
  note b = SS_first_backend_sync [OF assms(1) this fb]
  let ?f = "f\<lparr>sf_is_virtual := True, sf_init_options := irq_options req, sf_backend_class := Some c\<rparr>"
  have f: "SS_client_ok (length (ss_classes rep1)) ?f" using assms(5) co by (auto simp: SS_client_ok_def)
  have "\<exists>p'. SS_init Y E version mv req p f rep w = (p', ?f, SS_put_class c bc rep1, w1) \<and> m_id (pkg_session p') = m_id (pkg_session p)"
    using cl fb by (auto simp: SS_init_def Let_def close_session_def Session_close_def split: option.splits)
  then obtain p' where run: "SS_init Y E version mv req p f rep w = (p', ?f, SS_put_class c bc rep1, w1)"
      "m_id (pkg_session p') = m_id (pkg_session p)" by blast
  have "SS_handled V p rep1 w (SS_init Y E version mv req p f rep w)"
    unfolding run(1) using SS_handled_put [OF _ rep1(1) _ b [THEN conjunct1] b [THEN conjunct2] _ f run(2)] co by simp
  then show ?thesis using rep1 by (auto simp: SS_handled_def)
qed

lemma sets_closed_search:
  assumes "SS_client_ok n f" and "SS_search_ok V cf req p f bc w (Done (p', f', bc', w'))"
  shows "SS_client_ok n f'"
proof -
  let ?others = "(sf_sets f)(srq_resultSetName req := None)"
  have cl: "sets_closed (sf_sets f)" "sets_closed ?others" using assms(1) by (auto simp: SS_client_ok_def sets_closed_def)
  have "sets_closed (sf_sets f') \<and> sf_is_virtual f' = sf_is_virtual f \<and> sf_backend_class f' = sf_backend_class f"
    using assms(2) cl SS_expand_query_closed [OF cl(2)] by (auto simp: SS_search_ok_def Let_def) (auto simp: sets_closed_def)
  then show ?thesis using assms(1) by (simp add: SS_client_ok_def)
qed

lemma SS_refused_session: "SS_refused a p p' \<Longrightarrow> pkg_session p' = pkg_session p"
  by (auto simp: SS_refused_def)

lemma SS_search_ok_session: "SS_search_ok V cf req p f bc w (Done (p', f', bc', w')) \<Longrightarrow> pkg_session p' = pkg_session p"
  by (auto simp: SS_search_ok_def Let_def dest: SS_refused_session)

definition SS_handle_ok :: "'w ss_view \<Rightarrow> package \<Rightarrow> SS_Rep \<Rightarrow> 'w world_scheme
    \<Rightarrow> (package \<times> SS_Frontend \<times> SS_Rep \<times> 'w world_scheme) ss_result \<Rightarrow> bool" where
  "SS_handle_ok V p rep w r \<longleftrightarrow> (case r of Waits \<Rightarrow> False | Null_deref \<Rightarrow> m_restart (ss_conf rep) | Done d \<Rightarrow> SS_handled V p rep w d)"

lemma SS_request_search:
  assumes "SS_target E V mv" and "SS_room V 14 w" and "SS_map_ok rep" and "SS_classes_ok V (ss_classes rep) w"
    and "SS_client_ok (length (ss_classes rep)) f" and "sf_backend_class f = Some c" and "c < length (ss_classes rep)"
  shows "SS_handle_ok V p rep w (SS_request Y E mv (APDU_searchRequest req) p f rep w)"
proof -
  let ?bc = "ss_classes rep ! c"
  have sync: "SS_sync V {} ?bc w" using assms(4,7) by (simp add: SS_classes_ok_def)
  have room: "SS_room V 12 w" using SS_room_mono [OF assms(2)] by simp
  note s = SS_search_correct [OF assms(1) room sync, of "ss_conf rep" req p f Y]
  show ?thesis
  proof (cases "SS_search Y E mv (ss_conf rep) req p f ?bc w")
    case (Done d)
    obtain p' f' bc' w' where d: "d = (p', f', bc', w')" by (cases d) auto
    then have ok: "SS_search_ok V (ss_conf rep) req p f ?bc w (Done (p', f', bc', w'))" using s Done by simp
    then have "SS_sync V {} bc' w'" "SS_step V 12 ?bc w bc' w'" by (simp_all add: SS_search_ok_def)
    then show ?thesis using Done d assms(6) sets_closed_search [OF assms(5) ok] SS_search_ok_session [OF ok]
      by (auto simp: SS_request_def SS_handle_ok_def intro!: SS_handled_put [OF assms(3,4,7)])
  qed (use s assms(6) in \<open>simp_all add: SS_request_def SS_handle_ok_def SS_search_ok_def\<close>)
qed

lemma SS_request_present:
  assumes "SS_target E V mv" and "SS_room V 14 w" and "SS_map_ok rep" and "SS_classes_ok V (ss_classes rep) w"
    and "SS_client_ok (length (ss_classes rep)) f" and "sf_backend_class f = Some c" and "c < length (ss_classes rep)"
  shows "SS_handle_ok V p rep w (SS_request Y E mv (APDU_presentRequest req) p f rep w)"
proof -
  let ?bc = "ss_classes rep ! c"
  have sync: "SS_sync V {} ?bc w" using assms(4,7) by (simp add: SS_classes_ok_def)
  note s = SS_present_correct [OF assms(1,2) sync, where Y = Y and cf = "ss_conf rep" and req = req and p = p and f = f]
  show ?thesis
  proof (cases "SS_present Y E mv (ss_conf rep) req p f ?bc w")
    case (Done d)
    obtain p' bc' w' where d: "d = (p', bc', w')" by (cases d) auto
    have "SS_sync V {} bc' w' \<and> SS_step V 14 ?bc w bc' w' \<and> pkg_session p' = pkg_session p"
    proof (cases "sf_sets f (prq_resultSetId req)")
      case None
      then show ?thesis using s Done d sync SS_refused_session by (auto intro: SS_step_refl)
    next
      case (Some fset)
      then show ?thesis using s Done d by (auto simp: SS_presented_def)
    qed
    then show ?thesis using Done d assms(5,6)
      by (auto simp: SS_request_def SS_handle_ok_def intro!: SS_handled_put [OF assms(3,4,7)])
  qed (use s assms(6) in \<open>simp_all add: SS_request_def SS_handle_ok_def\<close>)
qed

lemma SS_request_scan:
  assumes "SS_target E V mv" and "SS_room V 14 w" and "SS_map_ok rep" and "SS_classes_ok V (ss_classes rep) w"
    and "SS_client_ok (length (ss_classes rep)) f" and "sf_backend_class f = Some c" and "c < length (ss_classes rep)"
  shows "SS_handle_ok V p rep w (SS_request Y E mv (APDU_scanRequest req) p f rep w)"
proof -
  let ?bc = "ss_classes rep ! c"
  have sync: "SS_sync V {} ?bc w" using assms(4,7) by (simp add: SS_classes_ok_def)
  obtain p' bc' w' where run: "SS_scan Y E mv req p ?bc w = (p', bc', w')" by (cases rule: prod_cases3)
  note s = SS_scan_correct [OF assms(1,2) sync run]
  then show ?thesis using run assms(5,6)
    by (auto simp: SS_request_def SS_handle_ok_def intro!: SS_handled_put [OF assms(3,4,7)])
qed

lemma SS_refuse_handled:
  assumes "SS_map_ok rep" and "SS_classes_ok V (ss_classes rep) w" and "SS_client_ok (length (ss_classes rep)) f"
  shows "SS_handle_ok V p rep w (Done (SS_refuse Y a n m p, f, rep, w))"
  using assms by (simp add: SS_handle_ok_def SS_handled_def SS_refuse_def close_session_def Session_close_def)

lemma SS_handle_correct:
  assumes "SS_target E V mv" and "SS_room V 14 w" and "SS_map_ok rep" and "SS_classes_ok V (ss_classes rep) w"
    and "SS_client_ok (length (ss_classes rep)) f" and "SS_foreign p rep"
  shows "SS_handle_ok V p rep w (SS_handle Y E version mv p f rep w)"
proof (cases "sf_is_virtual f")
  case True
  then obtain c where c: "sf_backend_class f = Some c" "c < length (ss_classes rep)" using assms(5) by (auto simp: SS_client_ok_def)
  have idle: "SS_handle_ok V p rep w (Done (p, f, rep, w))" using assms(3-5) by (simp add: SS_handle_ok_def SS_handled_def)
  have "SS_handle_ok V p rep w (SS_request Y E mv apdu p f rep w)" for apdu
    using SS_request_search [OF assms(1-5) c] SS_request_present [OF assms(1-5) c] SS_request_scan [OF assms(1-5) c]
      SS_refuse_handled [OF assms(3-5)]
    by (cases apdu) (simp_all add: SS_request_def)
  then show ?thesis using True idle by (auto simp: SS_handle_def split: option.split Z_GDU.split)
next
  case False
  obtain p' w' where mv: "mv [] p w = (p', w')" by fastforce
  have d: "SS_draws V 1 w w'" using SS_targetD(1) [OF assms(1) mv] SS_room_mono [OF assms(2), of 1] by simp
  have "SS_classes_ok V (ss_classes rep) w'"
    using assms(6) SS_targetD(2) [OF assms(1) mv] by (intro SS_classes_world [OF assms(4) d]) (metis SS_foreign_def)
  then have moved: "SS_handle_ok V p rep w (Done (p', f, rep, w'))"
    using assms(3,5) SS_targetD(4) [OF assms(1) mv] SS_draws_mono [OF d, of 14] by (simp add: SS_handle_ok_def SS_handled_def)
  have "SS_handle_ok V p rep w (Done (SS_init Y E version mv req p f rep w))" for req
    using SS_init_handled [OF assms(1-5)] by (simp add: SS_handle_ok_def)
  then show ?thesis using False mv moved by (auto simp: SS_handle_def split: option.split Z_GDU.split Z_APDU.split)
qed

section \<open>Processing a package\<close>

definition SS_taken :: "package \<Rightarrow> SS_Rep \<Rightarrow> SS_Frontend" where
  "SS_taken p rep = (case ss_clients rep (m_id (pkg_session p)) of
     Some f \<Rightarrow> f\<lparr>sf_in_use := True\<rparr> | None \<Rightarrow> SS_Frontend_new)"

lemma SS_get_frontend_ok:
  assumes "SS_rep_ok V rep w"
  shows "SS_get_frontend p rep = Some (SS_taken p rep, rep\<lparr>ss_clients := (ss_clients rep)(m_id (pkg_session p) \<mapsto> SS_taken p rep)\<rparr>) \<and>
    SS_client_ok (length (ss_classes rep)) (SS_taken p rep)"
  using assms by (auto simp: SS_get_frontend_def SS_taken_def SS_rep_ok_def SS_client_ok_def sets_closed_def SS_Frontend_new_def
      session_map_create_def Let_def split: option.split)

lemma SS_process_run:
  assumes "SS_target E V mv" and "SS_rep_ok V rep w" and "SS_room V 14 w" and "SS_foreign p rep"
    and "rep1 = rep\<lparr>ss_clients := (ss_clients rep)(m_id (pkg_session p) \<mapsto> SS_taken p rep)\<rparr>"
    and "SS_handle Y E version mv p (SS_taken p rep) rep1 w = Done (p', f', rep', w')"
  shows "\<exists>rep2. SS_process Y E version mv p rep w = Done (p', rep2, w') \<and> SS_rep_ok V rep2 w' \<and> SS_draws V 14 w w' \<and> ss_conf rep2 = ss_conf rep \<and>
    ss_clients rep2 = (ss_clients rep)(m_id (pkg_session p) := if is_closed p' then None else Some (f'\<lparr>sf_in_use := False\<rparr>))"
proof -
  note g = SS_get_frontend_ok [OF assms(2), of p]
  have "SS_map_ok rep1" "SS_classes_ok V (ss_classes rep1) w" "SS_foreign p rep1" "length (ss_classes rep1) = length (ss_classes rep)"
    using assms(2,4) by (simp_all add: assms(5) SS_rep_ok_def SS_map_ok_def SS_foreign_def)
  then have h: "SS_handled V p rep1 w (p', f', rep', w')"
    using SS_handle_correct [OF assms(1,3), of rep1 "SS_taken p rep" p Y version] g assms(6) by (simp add: SS_handle_ok_def)
  define rep2 where "rep2 = SS_release_frontend p' (rep'\<lparr>ss_clients := session_map_create (ss_clients rep') f' (pkg_session p)\<rparr>)"
  have cl: "ss_clients rep2 = (ss_clients rep)(m_id (pkg_session p) := if is_closed p' then None else Some (f'\<lparr>sf_in_use := False\<rparr>))"
    "ss_classes rep2 = ss_classes rep'" "ss_map rep2 = ss_map rep'" "ss_conf rep2 = ss_conf rep'"
    using h by (auto simp: rep2_def SS_release_frontend_def SS_handled_def session_map_create_def session_map_release_def assms(5) fun_eq_iff)
  have "SS_client_ok (length (ss_classes rep')) f" if "ss_clients rep i = Some f" for i f
    using assms(2) h that by (fastforce simp: SS_rep_ok_def SS_handled_def SS_client_ok_def assms(5))
  then have "SS_rep_ok V rep2 w'"
    using h assms(2) by (auto simp: SS_rep_ok_def cl SS_handled_def SS_map_ok_def SS_client_ok_def)
  moreover have "SS_process Y E version mv p rep w = Done (p', rep2, w')"
    using g assms(6) by (simp add: SS_process_def assms(5) rep2_def)
  ultimately show ?thesis using h cl by (intro exI [of _ rep2]) (simp add: SS_handled_def assms(5))
qed

text \<open>
  C5. Between packages the state of the filter stays consistent with the targets, whatever the package is
  and whatever the targets answer: every backend session belongs to one class, its result sets have
  different names and are the sets the target holds, cached records are records of their set, the
  clients know existing classes, and the queries they stored name no other sets. The thread
  never waits for itself, and it ends in a response unless restart is configured.\<close>
theorem SS_process_keeps:
  assumes "SS_target E V mv" and "SS_rep_ok V rep w" and "SS_room V 14 w" and "SS_foreign p rep"
  shows "case SS_process Y E version mv p rep w of
      Waits \<Rightarrow> False
    | Null_deref \<Rightarrow> m_restart (ss_conf rep)
    | Done (p', rep', w') \<Rightarrow> SS_rep_ok V rep' w' \<and> SS_draws V 14 w w' \<and> ss_conf rep' = ss_conf rep"
proof -
  define rep1 where "rep1 = rep\<lparr>ss_clients := (ss_clients rep)(m_id (pkg_session p) \<mapsto> SS_taken p rep)\<rparr>"
  note g = SS_get_frontend_ok [OF assms(2), of p]
  have "SS_map_ok rep1" "SS_classes_ok V (ss_classes rep1) w" "SS_foreign p rep1" "length (ss_classes rep1) = length (ss_classes rep)"
    using assms(2,4) by (simp_all add: rep1_def SS_rep_ok_def SS_map_ok_def SS_foreign_def)
  then have h: "SS_handle_ok V p rep1 w (SS_handle Y E version mv p (SS_taken p rep) rep1 w)"
    using SS_handle_correct [OF assms(1,3)] g by simp
  show ?thesis
  proof (cases "SS_handle Y E version mv p (SS_taken p rep) rep1 w")
    case Waits
    then show ?thesis using h by (simp add: SS_handle_ok_def)
  next
    case Null_deref
    then show ?thesis using h g by (simp add: SS_handle_ok_def SS_process_def rep1_def)
  next
    case (Done d)
    obtain p' f' rep' w' where "d = (p', f', rep', w')" by (cases d) auto
    then show ?thesis using SS_process_run [OF assms rep1_def, of Y version p' f' rep' w'] Done by auto
  qed
qed

section \<open>What clients are answered\<close>

lemma SS_class_sync:
  assumes "SS_rep_ok V rep w" and "ss_clients rep i = Some f" and "sf_is_virtual f"
  shows "\<exists>c. sf_backend_class f = Some c \<and> c < length (ss_classes rep) \<and> SS_sync V {} (ss_classes rep ! c) w"
proof -
  have "SS_client_ok (length (ss_classes rep)) f" "SS_classes_ok V (ss_classes rep) w" using assms(1,2) by (auto simp: SS_rep_ok_def)
  then show ?thesis using assms(3) by (auto simp: SS_client_ok_def SS_classes_ok_def)
qed



text \<open>
  A search that agrees with a result set of the class in databases, query and search information,
  on an instance that is free, is answered from that set: no package is moved and no
  session created, and the count is the one of the set.\<close>
theorem SS_search_shared:
  assumes "m_optimize_search cf" and "srq_replaceIndicator req"
    and "SS_expand_query ((sf_sets f)(srq_resultSetName req := None)) (srq_databaseNames req) (srq_query req) = Inr q"
    and "SS_find_set (\<lambda>_. True) (SS_same_search E (APDU_searchRequest req) (srq_databaseNames req) q) bc (bc_list bc) = Some (i, k)"
    and "\<not> bi_in_use (SS_inst bc i)" and "i < length (bc_store bc)"
  shows "\<exists>x f' bc'. SS_search Y E mv cf req p f bc w = Done (p\<lparr>pkg_response := Some (GDU_Z3950 (APDU_searchResponse x))\<rparr>, f', bc', w) \<and>
     srs_resultCount x = bset_size (bi_sets (SS_inst bc i) ! k) \<and> bc_list bc' = bc_list bc"
  using assms by (simp add: SS_search_def SS_get_set_def SS_pass_def SS_choose_def Let_def SS_inst_use)
    (rule exI, rule conjI, rule refl, simp)

section \<open>An instance\<close>

text \<open>Targets that keep result sets: \<open>R q\<close> are the records a query finds.\<close>

record lib_world = world +
  lib_holds :: "64 word \<Rightarrow> string \<Rightarrow> (string list \<times> Z_Query) option"

definition lib_present :: "(Z_Query \<Rightarrow> Z_NamePlusRecord list) \<Rightarrow> (string list \<times> Z_Query) option \<Rightarrow> Z_PresentRequest \<Rightarrow> Z_PresentResponse" where
  "lib_present R held r = (case held of
     Some (dbs, q) \<Rightarrow>
       if 1 \<le> prq_resultSetStartPoint r
       then (zget_presentResponse yaz_ref)\<lparr>prs_records := Some (Records_DBOSD
          (take (nat (prq_numberOfRecordsRequested r)) (drop (nat (prq_resultSetStartPoint r - 1)) (R q))))\<rparr>
       else create_presentResponse yaz_ref None 13 None
   | None \<Rightarrow> create_presentResponse yaz_ref None 30 None)"

definition lib_target :: "(Z_Query \<Rightarrow> Z_NamePlusRecord list) \<Rightarrow> unit lib_world_ext move_fn" where
  "lib_target R r q w =
     (let sid = m_id (pkg_session q) in
      case pkg_request q of
        Some (GDU_Z3950 (APDU_initRequest _)) \<Rightarrow>
          (q\<lparr>pkg_response := Some (GDU_Z3950 (APDU_initResponse (zget_initResponse yaz_ref)))\<rparr>, w)
      | Some (GDU_Z3950 (APDU_searchRequest sr)) \<Rightarrow>
          (q\<lparr>pkg_response := Some (GDU_Z3950 (APDU_searchResponse ((zget_searchResponse yaz_ref)\<lparr>
             srs_resultCount := int (length (R (srq_query sr)))\<rparr>)))\<rparr>,
           w\<lparr>lib_holds := (lib_holds w)(sid := (lib_holds w sid)(srq_resultSetName sr \<mapsto> (srq_databaseNames sr, srq_query sr)))\<rparr>)
      | Some (GDU_Z3950 (APDU_presentRequest pr)) \<Rightarrow>
          (q\<lparr>pkg_response := Some (GDU_Z3950 (APDU_presentResponse (lib_present R (lib_holds w sid (prq_resultSetId pr)) pr)))\<rparr>, w)
      | _ \<Rightarrow> (q, w))"

definition lib_view :: "(Z_Query \<Rightarrow> Z_NamePlusRecord list) \<Rightarrow> unit lib_world_ext ss_view" where
  "lib_view R = \<lparr>view_holds = lib_holds, view_count = (\<lambda>dbs q. int (length (R q))),
     view_record = (\<lambda>dbs q cmp pos rec. 1 \<le> pos \<and> pos \<le> int (length (R q)) \<and> rec = R q ! nat (pos - 1)), view_draws = 0\<rparr>"

lemma cache_at_Some:
  "cache_at c cmp pos = Some r \<Longrightarrow> \<exists>npr start. (npr, start, cmp) \<in> set c \<and> start \<le> pos \<and> pos < start + int (length npr) \<and> r = npr ! nat (pos - start)"
  by (induction c cmp pos rule: cache_at.induct) (auto split: if_splits)

lemma those_Some: "those xs = Some ys \<Longrightarrow> length ys = length xs \<and> (\<forall>j < length xs. xs ! j = Some (ys ! j))"
  by (induction xs arbitrary: ys) (auto split: option.splits simp: nth_Cons')

lemma ss_env_ref_cache: "SS_cache_law ss_env_ref"
  unfolding SS_cache_law_def
proof (intro allI impI)
  fix c start num syn cmp npr j
  assume l: "ss_cache_lookup ss_env_ref c start num syn cmp = Some npr" and j: "j < length npr"
  then have "those (map (\<lambda>j. cache_at c cmp (start + int j)) [0..<nat num]) = Some npr"
    by (simp add: ss_env_ref_def cache_lookup_def)
  from those_Some [OF this] j have "cache_at c cmp (start + int j) = Some (npr ! j)" by simp
  from cache_at_Some [OF this] show "\<exists>npr' start'. (npr', start', cmp) \<in> set c \<and> start' \<le> start + int j \<and>
      start + int j < start' + int (length npr') \<and> npr ! j = npr' ! nat (start + int j - start')" by blast
qed

lemma lib_present_records:
  assumes "prs_records (lib_present R (Some (dbs, q)) r) = Some (Records_DBOSD npr)" and "j < length npr"
  shows "1 \<le> prq_resultSetStartPoint r + int j \<and> prq_resultSetStartPoint r + int j \<le> int (length (R q)) \<and>
    npr ! j = R q ! nat (prq_resultSetStartPoint r + int j - 1)"
proof -
  let ?s = "nat (prq_resultSetStartPoint r - 1)"
  have n: "npr = take (nat (prq_numberOfRecordsRequested r)) (drop ?s (R q))" "1 \<le> prq_resultSetStartPoint r"
    using assms(1) by (auto simp: lib_present_def create_presentResponse_def Let_def split: if_splits)
  have "j < length (R q) - ?s" using assms(2) n(1) by simp
  then have "?s + j < length (R q)" by linarith
  moreover have "nat (prq_resultSetStartPoint r + int j - 1) = ?s + j" using n(2) by simp
  ultimately show ?thesis using assms(2) n by simp
qed

lemma lib_target_ok: "SS_target ss_env_ref (lib_view R) (lib_target R)"
  unfolding SS_target_def
proof (intro conjI allI impI)
  show "SS_same_results ss_env_ref (lib_view R)" by (simp add: SS_same_results_def ss_env_ref_def lib_view_def)
  show "SS_cache_law ss_env_ref" by (rule ss_env_ref_cache)
  show "view_holds (lib_view R) (w\<lparr>m_global_id := g\<rparr>) = view_holds (lib_view R) w" for w g by (simp add: lib_view_def)
  fix r q w q' w'
  assume mv: "lib_target R r q w = (q', w')"
  have w': "m_global_id w' = m_global_id w" "m_id (pkg_session q') = m_id (pkg_session q)"
    using mv by (auto simp: lib_target_def Let_def split: option.splits Z_GDU.splits Z_APDU.splits)
  show "SS_draws (lib_view R) 1 w w'" using w' by (simp add: SS_draws_def)
  show "m_id (pkg_session q') = m_id (pkg_session q)" by (rule w'(2))
  show "view_holds (lib_view R) w' sid = view_holds (lib_view R) w sid" if "sid \<noteq> m_id (pkg_session q)" for sid
    using mv that by (auto simp: lib_target_def lib_view_def Let_def split: option.splits Z_GDU.splits Z_APDU.splits)
  show "SS_answer (lib_view R) q w q' w'"
    using mv lib_present_records [of R]
    by (auto simp: lib_target_def lib_view_def Let_def SS_answer_def yaz_ref_def split: option.splits Z_GDU.splits Z_APDU.splits)
qed

text \<open>
  A client whose set \<open>s\<close> stands for a query, in a class without backend sessions.
\<close>

definition lib_records :: "Z_Query \<Rightarrow> Z_NamePlusRecord list" where
  "lib_records q = [\<lparr>npr_databaseName = None, npr_record = text_record ''r1''\<rparr>, \<lparr>npr_databaseName = None, npr_record = text_record ''r2''\<rparr>]"

definition lib_client :: SS_Frontend where
  "lib_client = \<lparr>sf_is_virtual = True, sf_in_use = False, sf_init_options = {}, sf_backend_class = Some 0,
     sf_sets = [''s'' \<mapsto> \<lparr>fset_databases = [''Db''], fset_query = Query_type_1 (RPN_simple (Operand_attributesPlusTerm ''x''))\<rparr>]\<rparr>"

definition lib_rep :: SS_Rep where
  "lib_rep = SS_Rep_new\<lparr>ss_clients := [9 \<mapsto> lib_client], ss_classes := [SS_BackendClass_new (init_of []) SS_Conf_new]\<rparr>"

definition lib_start :: lib_world where
  "lib_start = \<lparr>m_global_id = 9, lib_holds = (\<lambda>sid n. None)\<rparr>"

lemma lib_rep_facts:
  "SS_rep_ok (lib_view R) lib_rep lib_start" "SS_room (lib_view R) 14 lib_start" "SS_foreign (client_package\<lparr>pkg_request := x\<rparr>) lib_rep"
  "\<not> m_restart (ss_conf lib_rep)" "ss_clients lib_rep 9 = Some lib_client" "sf_is_virtual lib_client"
  by (auto simp: SS_rep_ok_def SS_map_ok_def SS_classes_ok_def SS_sync_def SS_sids_def SS_client_ok_def sets_closed_def query_refs_def
      SS_room_def SS_foreign_def lib_rep_def lib_client_def lib_start_def lib_view_def SS_Rep_new_def SS_BackendClass_new_def SS_Conf_new_def
      split: if_splits)

abbreviation lib_request :: "Z_APDU \<Rightarrow> package" where
  "lib_request a \<equiv> client_package\<lparr>pkg_request := Some (GDU_Z3950 a)\<rparr>"

abbreviation lib_search :: Z_SearchRequest where
  "lib_search \<equiv> search_of ''t'' (Query_type_1 (RPN_simple (Operand_resultSetId ''s'')))"

abbreviation lib_page :: Z_PresentRequest where
  "lib_page \<equiv> \<lparr>prq_referenceId = None, prq_resultSetId = ''s'', prq_resultSetStartPoint = 1, prq_numberOfRecordsRequested = 2,
     prq_recordComposition = None, prq_preferredRecordSyntax = None\<rparr>"

lemma lib_session [simp]: "pkg_session (lib_request a) = \<lparr>m_id = 9, m_close = False\<rparr>" "pkg_request (lib_request a) = Some (GDU_Z3950 a)"
  by (simp_all add: Package_new_def)

lemmas lib_facts = lib_target_ok [of lib_records] lib_rep_facts(1,2) [of lib_records] lib_rep_facts(3)

abbreviation lib_process :: "Z_APDU \<Rightarrow> (package \<times> SS_Rep \<times> lib_world) ss_result" where
  "lib_process a \<equiv> SS_process yaz_ref ss_env_ref ''1.0'' (lib_target lib_records) (lib_request a) lib_rep lib_start"

theorem SS_process_keeps_witness:
  "lib_process (APDU_searchRequest lib_search) \<noteq> Waits \<and> lib_process (APDU_searchRequest lib_search) \<noteq> Null_deref"
  using SS_process_keeps [OF lib_facts, where x1 = "Some (GDU_Z3950 (APDU_searchRequest lib_search))" and Y = yaz_ref and version = "''1.0''"] lib_rep_facts(4)
  by (auto split: ss_result.splits)

lemma lib_client_session: "ss_clients lib_rep (m_id (pkg_session (lib_request a))) = Some lib_client"
  using lib_rep_facts(5) by (simp only: lib_session) simp



text \<open>A class with one backend session that holds one set.\<close>

definition lib_class :: SS_BackendClass where
  "lib_class = (SS_BackendClass_new (init_of []) SS_Conf_new)\<lparr>bc_store := [\<lparr>bi_session = \<lparr>m_id = 3, m_close = False\<rparr>,
     bi_sets = [(SS_BackendSet_new 990 ''0'' [''db''] (Query_other ''x'') None)\<lparr>bset_size := 42\<rparr>], bi_in_use = False, bi_sequence_this = 0,
     bi_result_set_sequence = 1, bi_time_last_use = 990, bi_origin = Origin_new\<rparr>], bc_list := [0]\<rparr>"

theorem SS_search_shared_witness:
  "\<exists>x f' bc'. SS_search yaz_ref unit_env failing_target SS_Conf_new (search_of ''t'' (Query_other ''x'')) client_package SS_Frontend_new lib_class
       \<lparr>m_global_id = 3\<rparr> = Done (client_package\<lparr>pkg_response := Some (GDU_Z3950 (APDU_searchResponse x))\<rparr>, f', bc', \<lparr>m_global_id = 3\<rparr>) \<and>
     srs_resultCount x = 42"
proof -
  have "match [''db''] [''Db'']" by code_simp
  then have found: "SS_find_set (\<lambda>_. True) (SS_same_search unit_env (APDU_searchRequest (search_of ''t'' (Query_other ''x'')))
      (srq_databaseNames (search_of ''t'' (Query_other ''x''))) (Query_other ''x'')) lib_class (bc_list lib_class) = Some (0, 0)"
    by (simp add: lib_class_def SS_inst_def SS_same_search_def SS_BackendSet_new_def ss_env_ref_def)
  have "m_optimize_search SS_Conf_new" "\<not> bi_in_use (SS_inst lib_class 0)" "0 < length (bc_store lib_class)"
      "bset_size (bi_sets (SS_inst lib_class 0) ! 0) = 42"
    by (simp_all add: SS_Conf_new_def lib_class_def SS_inst_def)
  then show ?thesis
    using SS_search_shared [OF _ _ _ found, of SS_Conf_new SS_Frontend_new yaz_ref failing_target client_package "\<lparr>m_global_id = 3\<rparr>"] by fastforce
qed

end
