(* ===== verification/MP_Files.thy ===== *)
theory MP_Files
  imports MP_Prelude
begin

text \<open>
  Reading of text files: the input stream of the C++ library, whose state decides when the
  reading loops of the filters end, and the reader of plain files (\<open>src/plainfile.cpp\<close>).
  The file system is a parameter.
\<close>

section \<open>Reading a text file line by line\<close>

text \<open>
  \<open>std::ifstream\<close>: the characters left and the two flags a read may set. \<open>getline\<close>
  with a buffer of \<open>n\<close> characters reads nothing from a stream that is not good, stops at
  the end of the file, at a newline (which it drops) or after \<open>n - 1\<close> characters, tested
  in that order, and fails in the last case and when there was no character to extract. The
  buffer is read as a C string.
\<close>

record ifstream =
  fs_rest :: string
  fs_eof :: bool
  fs_fail :: bool

abbreviation newline :: char where "newline \<equiv> CHR 0x0A"

definition ifstream_new :: "string \<Rightarrow> ifstream" where
  "ifstream_new s = \<lparr>fs_rest = s, fs_eof = False, fs_fail = False\<rparr>"

definition getline :: "nat \<Rightarrow> ifstream \<Rightarrow> string \<times> ifstream" where
  "getline n fs =
     (if fs_eof fs \<or> fs_fail fs then ([], fs\<lparr>fs_fail := True\<rparr>)
      else let s = fs_rest fs; l = takeWhile (\<lambda>c. c \<noteq> newline) s in
        if length l < n
        then (takeWhile is_c_char l,
              if length l < length s then fs\<lparr>fs_rest := drop (Suc (length l)) s\<rparr>
              else fs\<lparr>fs_rest := [], fs_eof := True, fs_fail := s = []\<rparr>)
        else (takeWhile is_c_char (take (n - 1) l),
              fs\<lparr>fs_rest := drop (n - 1) s, fs_fail := True\<rparr>))"

text \<open>The file system: path resolution and file contents, \<open>None\<close> for what cannot be opened.\<close>

record file_system =
  yaz_filepath_resolve :: "string \<Rightarrow> string option \<Rightarrow> string option"
  file_contents :: "string \<Rightarrow> string option"

text \<open>A line that a buffer can hold.\<close>

definition fits_line :: "nat \<Rightarrow> string \<Rightarrow> bool" where
  [simp]: "fits_line n l \<longleftrightarrow> length l < n \<and> list_all (\<lambda>c. c \<noteq> newline \<and> is_c_char c) l"

lemma getline_line:
  assumes "fits_line n l"
  shows "getline n (ifstream_new (l @ newline # rest)) = (l, ifstream_new rest)"
proof -
  have "takeWhile (\<lambda>c. c \<noteq> newline) (l @ newline # rest) = l" "takeWhile is_c_char l = l"
    using assms by (auto simp: list_all_iff takeWhile_append)
  with assms show ?thesis by (simp add: getline_def ifstream_new_def)
qed

lemma getline_stuck: "fs_fail fs \<Longrightarrow> getline n fs = ([], fs)"
  by (simp add: getline_def)

lemma getline_end: "0 < n \<Longrightarrow> getline n (ifstream_new []) = ([], \<lparr>fs_rest = [], fs_eof = True, fs_fail = True\<rparr>)"
  by (simp add: getline_def ifstream_new_def)

lemma getline_long:
  assumes "n \<le> length l" and "newline \<notin> set l"
  shows "getline n (ifstream_new (l @ rest)) =
     (takeWhile is_c_char (take (n - 1) l), \<lparr>fs_rest = drop (n - 1) (l @ rest), fs_eof = False, fs_fail = True\<rparr>)"
proof -
  have tw: "takeWhile (\<lambda>c. c \<noteq> newline) (l @ rest) = l @ takeWhile (\<lambda>c. c \<noteq> newline) rest"
    using assms(2) by (auto simp: takeWhile_append)
  show ?thesis using assms(1) by (simp add: getline_def ifstream_new_def Let_def tw)
qed

section \<open>Plain files\<close>

abbreviation is_blank :: "char \<Rightarrow> bool" where "is_blank c \<equiv> c = CHR '' '' \<or> c = CHR 0x09"

text \<open>
  The reader has an open stream or none. The inner loop reads up to a line that is not empty and
  does not start with a blank or a comment character; \<open>None\<close> is a loop that never ends.
\<close>

type_synonym PlainFile = "ifstream option"

definition PlainFile_open :: "file_system \<Rightarrow> string \<Rightarrow> bool \<times> PlainFile" where
  "PlainFile_open F fname =
     (case file_contents F fname of None \<Rightarrow> (False, None) | Some s \<Rightarrow> (True, Some (ifstream_new s)))"

partial_function (option) plain_line :: "ifstream \<Rightarrow> (string \<times> ifstream) option option" where
  "plain_line fs =
     (if fs_eof fs then Some None
      else (let (line, fs) = getline 255 fs
            in if line \<noteq> [] \<and> \<not> (is_blank (hd line) \<or> hd line = CHR ''#'') then Some (Some (line, fs))
               else plain_line fs))"

lemma dropWhile_word_less:
  "dropWhile is_blank cp = c # cs \<Longrightarrow> length (dropWhile (\<lambda>c. \<not> is_blank c) (c # cs)) < length cp"
proof -
  assume d: "dropWhile is_blank cp = c # cs"
  then have "\<not> is_blank c" using hd_dropWhile [of is_blank cp] by fastforce
  then have "length (dropWhile (\<lambda>c. \<not> is_blank c) (c # cs)) \<le> length cs" by (auto intro: length_dropWhile_le)
  also have "\<dots> < length (dropWhile is_blank cp)" using d by simp
  also have "\<dots> \<le> length cp" by (rule length_dropWhile_le)
  finally show ?thesis .
qed

function plain_args :: "string \<Rightarrow> string list" where
  "plain_args cp =
     (case dropWhile is_blank cp of
        [] \<Rightarrow> []
      | c # cs \<Rightarrow> takeWhile (\<lambda>c. \<not> is_blank c) (c # cs) # plain_args (dropWhile (\<lambda>c. \<not> is_blank c) (c # cs)))"
  by pat_completeness auto

termination
  by (relation "measure length") (auto dest: dropWhile_word_less)

declare plain_args.simps [simp del]

definition PlainFile_getline :: "PlainFile \<Rightarrow> (string list option \<times> PlainFile) option" where
  "PlainFile_getline f =
     (case f of
        None \<Rightarrow> Some (None, None)
      | Some fs \<Rightarrow> map_option (\<lambda>r. case r of None \<Rightarrow> (None, None) | Some (line, fs) \<Rightarrow> (Some (plain_args line), Some fs))
          (plain_line fs))"

section \<open>Properties of plain files\<close>

definition is_word :: "string \<Rightarrow> bool" where
  "is_word s \<longleftrightarrow> s \<noteq> [] \<and> list_all (\<lambda>c. \<not> is_blank c \<and> c \<noteq> newline \<and> is_c_char c) s"

definition print_args :: "string list \<Rightarrow> string" where
  "print_args args = join_with (CHR '' '') args"

lemma is_word_span:
  assumes "is_word a" and "rest = [] \<or> is_blank (hd rest)"
  shows "dropWhile is_blank (a @ rest) = a @ rest"
    and "takeWhile (\<lambda>c. \<not> is_blank c) (a @ rest) = a"
    and "dropWhile (\<lambda>c. \<not> is_blank c) (a @ rest) = rest"
proof -
  have nb: "\<And>c. c \<in> set a \<Longrightarrow> \<not> is_blank c" and "a \<noteq> []"
    using assms(1) by (auto simp: is_word_def list_all_iff)
  then have "\<not> is_blank (hd a)" by simp
  with \<open>a \<noteq> []\<close> show "dropWhile is_blank (a @ rest) = a @ rest" by (cases a) auto
  have t: "takeWhile (\<lambda>c. \<not> is_blank c) rest = []" and d: "dropWhile (\<lambda>c. \<not> is_blank c) rest = rest"
    using assms(2) by (cases rest; auto)+
  show "takeWhile (\<lambda>c. \<not> is_blank c) (a @ rest) = a" using nb t by simp
  show "dropWhile (\<lambda>c. \<not> is_blank c) (a @ rest) = rest" using nb d by simp
qed

lemma plain_args_word:
  assumes "is_word a" and "rest = [] \<or> is_blank (hd rest)"
  shows "plain_args (a @ rest) = a # plain_args rest"
proof -
  obtain c cs where "a @ rest = c # cs" using assms(1) by (cases a) (auto simp: is_word_def)
  then show ?thesis
    using is_word_span [OF assms] by (subst plain_args.simps) simp
qed

lemma plain_args_blank: "is_blank c \<Longrightarrow> plain_args (c # s) = plain_args s"
  by (subst plain_args.simps, subst (2) plain_args.simps) simp

lemma plain_args_print: "list_all is_word args \<Longrightarrow> plain_args (print_args args) = args"
proof (induction args)
  case Nil
  show ?case by (simp add: print_args_def plain_args.simps)
next
  case (Cons a args)
  have empty: "plain_args [] = []" by (simp add: plain_args.simps)
  show ?case
  proof (cases args)
    case Nil
    then show ?thesis using Cons.prems plain_args_word [of a "[]"] empty by (simp add: print_args_def)
  next
    case (Cons b bs)
    then have "print_args (a # args) = a @ CHR '' '' # print_args args" by (simp add: print_args_def)
    then show ?thesis
      using Cons.IH Cons.prems plain_args_word [of a "CHR '' '' # print_args args"]
      by (simp add: plain_args_blank)
  qed
qed

lemma plain_line_end: "plain_line (ifstream_new []) = Some None"
  by (subst plain_line.simps, simp add: getline_end, simp add: ifstream_new_def, subst plain_line.simps) simp

lemma plain_line_line:
  assumes "fits_line 255 l" and "l \<noteq> []" and "\<not> is_blank (hd l)" and "hd l \<noteq> CHR ''#''"
  shows "plain_line (ifstream_new (l @ newline # rest)) = Some (Some (l, ifstream_new rest))"
proof -
  have "\<not> fs_eof (ifstream_new (l @ newline # rest))" by (simp add: ifstream_new_def)
  then show ?thesis
    using assms(2-4) by (subst plain_line.simps) (simp add: getline_line [OF assms(1)])
qed

lemma plain_line_skip:
  assumes "fits_line 255 l" and "l = [] \<or> is_blank (hd l) \<or> hd l = CHR ''#''"
  shows "plain_line (ifstream_new (l @ newline # rest)) = plain_line (ifstream_new rest)"
proof -
  have "\<not> fs_eof (ifstream_new (l @ newline # rest))" by (simp add: ifstream_new_def)
  then show ?thesis
    using assms(2) by (subst plain_line.simps) (auto simp: getline_line [OF assms(1)])
qed

text \<open>A line longer than the buffer, here a comment, makes the reader run forever.\<close>

lemma plain_line_stuck:
  assumes "fs_fail fs" and "\<not> fs_eof fs"
  shows "plain_line fs = None"
proof -
  have "\<not> (fs_fail fs \<and> \<not> fs_eof fs)" if "plain_line fs = Some r" for r
  proof (rule plain_line.raw_induct [OF _ that, where P = "\<lambda>fs r. \<not> (fs_fail fs \<and> \<not> fs_eof fs)"])
    fix loop fs r
    assume IH: "\<And>fs r. loop fs = Some r \<Longrightarrow> \<not> (fs_fail fs \<and> \<not> fs_eof fs)"
      and body: "(if fs_eof fs then Some None
        else (let (line, fs) = getline 255 fs
              in if line \<noteq> [] \<and> \<not> (is_blank (hd line) \<or> hd line = CHR ''#'') then Some (Some (line, fs))
                 else loop fs)) = Some r"
    show "\<not> (fs_fail fs \<and> \<not> fs_eof fs)"
    proof
      assume stuck: "fs_fail fs \<and> \<not> fs_eof fs"
      then have "loop fs = Some r" using body by (simp add: getline_stuck)
      from IH [OF this] stuck show False by simp
    qed
  qed
  with assms show ?thesis by (cases "plain_line fs") auto
qed

theorem plain_long_line_diverges:
  assumes "length l \<ge> 254" and "newline \<notin> set l"
  shows "PlainFile_getline (Some (ifstream_new (CHR ''#'' # l @ rest))) = None"
proof -
  have "getline 255 (ifstream_new ((CHR ''#'' # l) @ rest)) = (takeWhile is_c_char (take 254 (CHR ''#'' # l)),
      \<lparr>fs_rest = drop 254 ((CHR ''#'' # l) @ rest), fs_eof = False, fs_fail = True\<rparr>)"
    using getline_long [of 255 "CHR ''#'' # l" rest] assms by simp
  moreover have "plain_line \<lparr>fs_rest = r, fs_eof = False, fs_fail = True\<rparr> = None" for r
    by (rule plain_line_stuck) simp_all
  ultimately have "plain_line (ifstream_new ((CHR ''#'' # l) @ rest)) = None"
    by (subst plain_line.simps) (simp add: ifstream_new_def take_Cons')
  then show ?thesis by (simp add: PlainFile_getline_def)
qed

end
