(* ===== verification/MP_Auth_Simple.thy ===== *)
theory MP_Auth_Simple
  imports MP_Util MP_Xml MP_Yaz_Ref MP_Files
begin

text \<open>
  The authentication filter (\<open>src/filter_auth_simple.cpp\<close>): the registers it reads at
  configuration time, the credentials it checks when a session begins, and the databases and
  targets it admits afterwards.
\<close>

section \<open>State and configuration\<close>

record PasswordAndDBs =
  pw_password :: string
  pw_dbs :: "string list"

definition PasswordAndDBs_new :: "string \<Rightarrow> PasswordAndDBs" where
  "PasswordAndDBs_new pw = \<lparr>pw_password = pw, pw_dbs = []\<rparr>"

record AuthSimple_Rep =
  got_userRegister :: bool
  got_targetRegister :: bool
  userRegister :: "string \<rightharpoonup> PasswordAndDBs"
  targetsByUser :: "string \<rightharpoonup> string list"
  userBySession :: "string session_map"
  discardUnauthorisedTargets :: bool

definition AuthSimple_Rep_new :: AuthSimple_Rep where
  "AuthSimple_Rep_new = \<lparr>got_userRegister = False, got_targetRegister = False,
     userRegister = Map.empty, targetsByUser = Map.empty, userBySession = Map.empty,
     discardUnauthorisedTargets = False\<rparr>"

function split_db :: "string list \<Rightarrow> string \<Rightarrow> string list" where
  "split_db dbs databasesp =
     (case strchr_split (CHR '','') databasesp of
        Some (db, rest) \<Rightarrow> split_db (dbs @ [db]) rest
      | None \<Rightarrow> dbs @ [databasesp])"
  by pat_completeness auto
termination
  by (relation "measure (\<lambda>(dbs, s). length s)") (auto dest: strchr_split_length)

declare split_db.simps [simp del]

text \<open>
  The loop both registers are read with: \<open>None\<close> is a loop that never ends. It is left at
  the end of the file or with the exception of a line.
\<close>

partial_function (option) register_loop :: "(string \<Rightarrow> AuthSimple_Rep \<Rightarrow> mp_exception + AuthSimple_Rep)
    \<Rightarrow> ifstream \<Rightarrow> AuthSimple_Rep \<Rightarrow> (mp_exception + AuthSimple_Rep) option" where
  "register_loop add_line fs st =
     (if fs_eof fs then Some (Inr st)
      else let (buf, fs) = getline 1000 fs in
        if buf = [] \<or> hd buf = CHR ''#'' then register_loop add_line fs st
        else (case add_line buf st of
                Inl e \<Rightarrow> Some (Inl e)
              | Inr st \<Rightarrow> register_loop add_line fs st))"

definition userRegister_line :: "string \<Rightarrow> string \<Rightarrow> AuthSimple_Rep \<Rightarrow> mp_exception + AuthSimple_Rep" where
  "userRegister_line filename buf st =
     (case strchr_split (CHR '':'') buf of
        None \<Rightarrow> Inl (FilterException (''auth_simple user-register '' @ [CHR 0x27] @ filename @ [CHR 0x27]
          @ '': no password on line: '' @ [CHR 0x27] @ buf @ [CHR 0x27]))
      | Some (user, passwdp) \<Rightarrow>
          (case strchr_split (CHR '':'') passwdp of
             None \<Rightarrow> Inl (FilterException (''auth_simple user-register '' @ [CHR 0x27] @ filename @ [CHR 0x27]
               @ '': no databases on line: '' @ [CHR 0x27] @ user @ '':'' @ passwdp @ [CHR 0x27]))
           | Some (passwd, databasesp) \<Rightarrow>
               (let tmp = PasswordAndDBs_new passwd;
                    tmp = tmp\<lparr>pw_dbs := split_db (pw_dbs tmp) databasesp\<rparr>
                in Inr (st\<lparr>userRegister := (userRegister st)(user \<mapsto> tmp)\<rparr>))))"

definition targetRegister_line :: "string \<Rightarrow> string \<Rightarrow> AuthSimple_Rep \<Rightarrow> mp_exception + AuthSimple_Rep" where
  "targetRegister_line filename buf st =
     (case strchr_split (CHR '':'') buf of
        None \<Rightarrow> Inl (FilterException (''auth_simple target-register '' @ [CHR 0x27] @ filename @ [CHR 0x27]
          @ '': no targets on line: '' @ [CHR 0x27] @ buf @ [CHR 0x27]))
      | Some (user, targetsp) \<Rightarrow>
          Inr (st\<lparr>targetsByUser := (targetsByUser st)(user \<mapsto> split_db [] targetsp)\<rparr>))"

definition config_register :: "file_system \<Rightarrow> (string \<Rightarrow> AuthSimple_Rep \<Rightarrow> mp_exception + AuthSimple_Rep)
    \<Rightarrow> string \<Rightarrow> string option \<Rightarrow> AuthSimple_Rep \<Rightarrow> (mp_exception + AuthSimple_Rep) option" where
  "config_register F add_line filename path st =
     (case yaz_filepath_resolve F filename path of
        None \<Rightarrow> Some (Inl (FilterException (''Could not open '' @ filename)))
      | Some fullpath \<Rightarrow>
          (case file_contents F fullpath of
             None \<Rightarrow> Some (Inl (FilterException (''Could not open '' @ filename)))
           | Some s \<Rightarrow> register_loop add_line (ifstream_new s) st))"

definition config_userRegister :: "file_system \<Rightarrow> string \<Rightarrow> string option \<Rightarrow> AuthSimple_Rep
    \<Rightarrow> (mp_exception + AuthSimple_Rep) option" where
  "config_userRegister F filename path st = config_register F (userRegister_line filename) filename path st"

definition config_targetRegister :: "file_system \<Rightarrow> string \<Rightarrow> string option \<Rightarrow> AuthSimple_Rep
    \<Rightarrow> (mp_exception + AuthSimple_Rep) option" where
  "config_targetRegister F filename path st = config_register F (targetRegister_line filename) filename path st"

text \<open>The loop over the configuration elements, with the two file names it collects.\<close>

fun AuthSimple_element :: "xml_node list \<Rightarrow> string \<times> string \<times> AuthSimple_Rep
    \<Rightarrow> mp_exception + string \<times> string \<times> AuthSimple_Rep" where
  "AuthSimple_element ptr (userRegisterName, targetRegisterName, st) =
     (let nm = node_name (hd ptr) in
      if nm = ''userRegister''
      then Inr (get_text ptr, targetRegisterName, st\<lparr>got_userRegister := True\<rparr>)
      else if nm = ''targetRegister''
      then Inr (userRegisterName, get_text ptr, st\<lparr>got_targetRegister := True\<rparr>)
      else if nm = ''discardUnauthorisedTargets''
      then Inr (userRegisterName, targetRegisterName, st\<lparr>discardUnauthorisedTargets := True\<rparr>)
      else Inl (FilterException (''Bad element in auth_simple: <'' @ nm @ ''>'')))"

definition AuthSimple_configure :: "file_system \<Rightarrow> xml_node \<Rightarrow> string option \<Rightarrow> AuthSimple_Rep
    \<Rightarrow> (mp_exception + AuthSimple_Rep) option" where
  "AuthSimple_configure F ptr path st =
     (case for_elements AuthSimple_element (node_children ptr) ([], [], st) of
        Inl e \<Rightarrow> Some (Inl e)
      | Inr (userRegisterName, targetRegisterName, st) \<Rightarrow>
          if \<not> got_userRegister st \<and> \<not> got_targetRegister st
          then Some (Inl (FilterException
            ''auth_simple: no user-register or target-register filename specified''))
          else
            (case (if got_userRegister st then config_userRegister F userRegisterName path st
                   else Some (Inr st)) of
               None \<Rightarrow> None
             | Some (Inl e) \<Rightarrow> Some (Inl e)
             | Some (Inr st) \<Rightarrow>
                 if got_targetRegister st then config_targetRegister F targetRegisterName path st
                 else Some (Inr st)))"

section \<open>Processing\<close>

text \<open>User and password of an init request; both are empty when the request has none.\<close>

definition get_user :: "Z_InitRequest \<Rightarrow> string \<times> string" where
  "get_user initReq =
     (case irq_idAuthentication initReq of
        Some (IdAuthentication_open opn) \<Rightarrow>
          (case strchr_split (CHR ''/'') opn of
             Some (user, password) \<Rightarrow> (user, password)
           | None \<Rightarrow> (opn, []))
      | Some (IdAuthentication_idPass _ userId pw) \<Rightarrow>
          (case userId of Some u \<Rightarrow> u | None \<Rightarrow> [], case pw of Some x \<Rightarrow> x | None \<Rightarrow> [])
      | _ \<Rightarrow> ([], []))"

fun contains :: "string list \<Rightarrow> string \<Rightarrow> bool" where
  "contains [] thing = False"
| "contains (i # is') thing =
     (if database_name_normalize i = database_name_normalize thing then True else contains is' thing)"

text \<open>\<open>reject_init\<close>: the version of the proxy is part of every init response.\<close>

definition reject_init :: "yaz \<Rightarrow> string \<Rightarrow> package \<Rightarrow> Z_APDU \<Rightarrow> int \<Rightarrow> string \<Rightarrow> package" where
  "reject_init Y version p apdu err addinfo =
     (let err = (if err = 0 then BIB1_INIT_AC_AUTHENTICATION_SYSTEM_ERROR else err);
          r = (create_initResponse Y version (Some apdu) err (Some addinfo))\<lparr>irs_result := False\<rparr>
      in close_session (p\<lparr>pkg_response := Some (GDU_Z3950 (APDU_initResponse r))\<rparr>))"

type_synonym 'w auth_result = "(package \<times> AuthSimple_Rep) \<times> 'w world_scheme"

definition AuthSimple_process_init :: "yaz \<Rightarrow> string \<Rightarrow> 'w move_fn \<Rightarrow> AuthSimple_Rep \<Rightarrow> package
    \<Rightarrow> Z_InitRequest \<Rightarrow> 'w world_scheme \<Rightarrow> 'w auth_result" where
  "AuthSimple_process_init Y version mv st p initReq w =
     (let (user, password) = get_user initReq;
          rejected = (\<lambda>why. ((reject_init Y version p (APDU_initRequest initReq) 0 why, st), w))
      in if user = [] then rejected ''no credentials supplied''
         else case userRegister st user of
                Some pdbs \<Rightarrow>
                  if pw_password pdbs = password
                  then let st = st\<lparr>userBySession := session_map_create (userBySession st) user (pkg_session p)\<rparr>;
                           (p, w) = mv [] p w
                       in ((p, st), w)
                  else rejected ''username/password combination rejected''
              | None \<Rightarrow> rejected ''username/password combination rejected'')"

text \<open>
  \<open>std::map::operator[]\<close> adds a default value when the key is absent. The loop over the
  databases of a request stops at the first one that is not admitted.
\<close>

definition userRegister_at :: "AuthSimple_Rep \<Rightarrow> string \<Rightarrow> PasswordAndDBs \<times> AuthSimple_Rep" where
  "userRegister_at st user =
     (case userRegister st user of
        Some pdb \<Rightarrow> (pdb, st)
      | None \<Rightarrow> (PasswordAndDBs_new [], st\<lparr>userRegister := (userRegister st)(user \<mapsto> PasswordAndDBs_new [])\<rparr>))"

fun denied_database :: "string list \<Rightarrow> string list \<Rightarrow> string option" where
  "denied_database dbs [] = None"
| "denied_database dbs (db # rest) =
     (if \<not> contains dbs db \<and> \<not> contains dbs ''*'' then Some db else denied_database dbs rest)"

definition AuthSimple_process_search :: "yaz \<Rightarrow> 'w move_fn \<Rightarrow> AuthSimple_Rep \<Rightarrow> package
    \<Rightarrow> Z_SearchRequest \<Rightarrow> 'w world_scheme \<Rightarrow> 'w auth_result" where
  "AuthSimple_process_search Y mv st p req w =
     (case userBySession st (m_id (pkg_session p)) of
        None \<Rightarrow> (let (p, w) = mv [] p w in ((p, st), w))
      | Some user \<Rightarrow>
          (let (pdb, st) = userRegister_at st user in
           case denied_database (pw_dbs pdb) (srq_databaseNames req) of
             Some db \<Rightarrow> ((close_session (p\<lparr>pkg_response := Some (GDU_Z3950 (APDU_searchResponse
               (create_searchResponse Y (Some (APDU_searchRequest req))
                 BIB1_ACCESS_TO_SPECIFIED_DATABASE_DENIED (Some db))))\<rparr>), st), w)
           | None \<Rightarrow> (let (p, w) = mv [] p w in ((p, st), w))))"

definition AuthSimple_process_scan :: "yaz \<Rightarrow> 'w move_fn \<Rightarrow> AuthSimple_Rep \<Rightarrow> package
    \<Rightarrow> Z_ScanRequest \<Rightarrow> 'w world_scheme \<Rightarrow> 'w auth_result" where
  "AuthSimple_process_scan Y mv st p req w =
     (case userBySession st (m_id (pkg_session p)) of
        None \<Rightarrow> (let (p, w) = mv [] p w in ((p, st), w))
      | Some user \<Rightarrow>
          (let (pdb, st) = userRegister_at st user in
           case denied_database (pw_dbs pdb) (scq_databaseNames req) of
             Some db \<Rightarrow> ((close_session (p\<lparr>pkg_response := Some (GDU_Z3950 (APDU_scanResponse
               (create_scanResponse Y (Some (APDU_scanRequest req))
                 BIB1_ACCESS_TO_SPECIFIED_DATABASE_DENIED (Some db))))\<rparr>), st), w)
           | None \<Rightarrow> (let (p, w) = mv [] p w in ((p, st), w))))"

text \<open>
  The loop over the targets of an init request: \<open>Inl\<close> is the target it rejects the session
  for, \<open>Inr\<close> the targets it keeps.
\<close>

fun check_target_list :: "bool \<Rightarrow> string list \<Rightarrow> string list \<Rightarrow> string + string list" where
  "check_target_list disc authorised [] = Inr []"
| "check_target_list disc authorised (t # ts) =
     (if contains authorised t \<or> contains authorised ''*''
      then (case check_target_list disc authorised ts of Inl e \<Rightarrow> Inl e | Inr ts' \<Rightarrow> Inr (t # ts'))
      else if \<not> disc then Inl t
      else check_target_list disc authorised ts)"

text \<open>
  \<open>check_targets\<close>: the request is changed in place, so a rejected package has lost its
  virtual hosts. \<open>None\<close> is the endless loop of \<open>remove_vhost_otherinfo\<close>.
\<close>

definition AuthSimple_check_targets :: "yaz \<Rightarrow> string \<Rightarrow> 'w move_fn \<Rightarrow> AuthSimple_Rep \<Rightarrow> package
    \<Rightarrow> Z_InitRequest \<Rightarrow> 'w world_scheme \<Rightarrow> 'w auth_result option" where
  "AuthSimple_check_targets Y version mv st p initReq w =
     (let (user, password) = get_user initReq;
          authorisedTargets = (case targetsByUser st user of Some ts \<Rightarrow> ts | None \<Rightarrow> []);
          st = st\<lparr>targetsByUser := (targetsByUser st)(user \<mapsto> authorisedTargets)\<rparr>
      in case remove_vhost_otherinfo Y (irq_otherInfo initReq) of
           None \<Rightarrow> None
         | Some (_, targets, oi) \<Rightarrow>
             (let request = (\<lambda>oi. p\<lparr>pkg_request := Some (GDU_Z3950 (APDU_initRequest (initReq\<lparr>irq_otherInfo := oi\<rparr>)))\<rparr>);
                  rejected = (\<lambda>what. Some ((reject_init Y version (request oi)
                    (APDU_initRequest (initReq\<lparr>irq_otherInfo := oi\<rparr>))
                    BIB1_ACCESS_TO_SPECIFIED_DATABASE_DENIED what, st), w))
              in case check_target_list (discardUnauthorisedTargets st) authorisedTargets targets of
                   Inl t \<Rightarrow> rejected t
                 | Inr ts \<Rightarrow>
                     if ts = [] then rejected ''all databases''
                     else let (p, w) = mv [] (request (set_vhost_otherinfo Y oi ts)) w
                          in Some ((p, st), w)))"

definition AuthSimple_process :: "yaz \<Rightarrow> string \<Rightarrow> 'w move_fn \<Rightarrow> AuthSimple_Rep \<Rightarrow> package
    \<Rightarrow> 'w world_scheme \<Rightarrow> 'w auth_result option" where
  "AuthSimple_process Y version mv st p w =
     (let moved = (let (p, w) = mv [] p w in Some ((p, st), w)) in
      case pkg_request p of
        Some (GDU_Z3950 apdu) \<Rightarrow>
          (let target_check = (case apdu of
                 APDU_initRequest r \<Rightarrow>
                   if got_targetRegister st then AuthSimple_check_targets Y version mv st p r w
                   else moved
               | _ \<Rightarrow> moved)
           in if got_userRegister st
              then (case apdu of
                      APDU_initRequest r \<Rightarrow> Some (AuthSimple_process_init Y version mv st p r w)
                    | APDU_searchRequest r \<Rightarrow> Some (AuthSimple_process_search Y mv st p r w)
                    | APDU_scanRequest r \<Rightarrow> Some (AuthSimple_process_scan Y mv st p r w)
                    | _ \<Rightarrow> target_check)
              else target_check)
      | _ \<Rightarrow> moved)"

section \<open>Lemmas\<close>

lemma contains_iff:
  "contains dbs thing \<longleftrightarrow> (\<exists>db \<in> set dbs. database_name_normalize db = database_name_normalize thing)"
  by (induction dbs) auto

text \<open>A register line that names a database, or an asterisk, admits it.\<close>

abbreviation admitted :: "string list \<Rightarrow> string \<Rightarrow> bool" where
  "admitted dbs db \<equiv> contains dbs db \<or> contains dbs ''*''"

lemma denied_database_find: "denied_database dbs names = find (\<lambda>db. \<not> admitted dbs db) names"
  by (induction names) auto

lemma check_target_list_discard:
  "check_target_list True authorised ts = Inr (filter (admitted authorised) ts)"
  by (induction ts) auto

lemma check_target_list_strict:
  "check_target_list False authorised ts =
     (case find (\<lambda>t. \<not> admitted authorised t) ts of None \<Rightarrow> Inr ts | Some t \<Rightarrow> Inl t)"
proof (induction ts)
  case (Cons t ts)
  then show ?case by (cases "admitted authorised t") (auto split: option.split_asm option.split)
qed simp

lemma find_None_iff_filter: "find (\<lambda>x. \<not> P x) xs = None \<longleftrightarrow> filter P xs = xs"
  by (auto simp: find_None_iff filter_id_conv)

lemma check_target_list_spec:
  "check_target_list disc authorised ts =
     (if disc \<or> filter (admitted authorised) ts = ts then Inr (filter (admitted authorised) ts)
      else Inl (the (find (\<lambda>t. \<not> admitted authorised t) ts)))"
proof (cases disc)
  case True
  then show ?thesis by (simp add: check_target_list_discard)
next
  case False
  then show ?thesis
    by (cases "find (\<lambda>t. \<not> admitted authorised t) ts")
      (simp_all only: check_target_list_strict find_None_iff_filter [of "admitted authorised" ts, symmetric],
        simp_all add: find_None_iff_filter [of "admitted authorised" ts, simplified])
qed

lemma split_db_split_at: "split_db dbs s = dbs @ split_at (CHR '','') s"
proof (induction dbs s rule: split_db.induct)
  case (1 dbs s)
  show ?case
  proof (cases "CHR '','' \<in> set s")
    case True
    then obtain a b where s: "s = a @ CHR '','' # b" "CHR '','' \<notin> set a" by (metis split_list_first)
    have "split_at (CHR '','') s = a # split_at (CHR '','') b"
      unfolding s(1) using s(2) by (induction a) auto
    with 1 strchr_split_append [OF s(2)] show ?thesis by (subst split_db.simps) (simp add: s(1))
  next
    case False
    then have "split_at (CHR '','') s = [s]" by (induction s) auto
    with False show ?thesis by (subst split_db.simps) (simp add: strchr_split_def)
  qed
qed

section \<open>Properties: the registers\<close>

text \<open>Lines of a user register, their printed form and what they add to the register.\<close>

datatype register_line = R_blank | R_comment string | R_user string string "string list"

fun print_line :: "register_line \<Rightarrow> string" where
  "print_line R_blank = []"
| "print_line (R_comment c) = CHR ''#'' # c"
| "print_line (R_user user pw dbs) = user @ CHR '':'' # pw @ CHR '':'' # join_with (CHR '','') dbs"

fun line_ok :: "register_line \<Rightarrow> bool" where
  "line_ok (R_user user pw dbs) \<longleftrightarrow>
     (case user of [] \<Rightarrow> True | c # _ \<Rightarrow> c \<noteq> CHR ''#'') \<and> CHR '':'' \<notin> set user \<and> CHR '':'' \<notin> set pw \<and>
     dbs \<noteq> [] \<and> list_all (\<lambda>db. CHR '','' \<notin> set db) dbs"
| "line_ok _ = True"

abbreviation fits_buffer :: "string \<Rightarrow> bool" where
  "fits_buffer \<equiv> fits_line 1000"

fun add_user :: "register_line \<Rightarrow> (string \<rightharpoonup> PasswordAndDBs) \<Rightarrow> (string \<rightharpoonup> PasswordAndDBs)" where
  "add_user (R_user user pw dbs) reg = reg(user \<mapsto> \<lparr>pw_password = pw, pw_dbs = dbs\<rparr>)"
| "add_user _ reg = reg"

definition print_register :: "register_line list \<Rightarrow> string" where
  "print_register ls = concat (map (\<lambda>l. print_line l @ [newline]) ls)"

lemma register_loop_end: "register_loop f (ifstream_new []) st = Some (Inr st)"
  by (subst register_loop.simps, simp add: getline_def ifstream_new_def, subst register_loop.simps) simp

lemma register_loop_line:
  assumes "fits_buffer l"
  shows "register_loop f (ifstream_new (l @ newline # rest)) st =
     (if l = [] \<or> hd l = CHR ''#'' then register_loop f (ifstream_new rest) st
      else case f l st of Inl e \<Rightarrow> Some (Inl e) | Inr st' \<Rightarrow> register_loop f (ifstream_new rest) st')"
proof -
  have "\<not> fs_eof (ifstream_new (l @ newline # rest))" by (simp add: ifstream_new_def)
  then show ?thesis
    by (subst register_loop.simps) (simp only: getline_line [OF assms] Let_def prod.case if_False)
qed

lemma userRegister_line_user:
  assumes "line_ok (R_user user pw dbs)"
  shows "userRegister_line filename (print_line (R_user user pw dbs)) st =
     Inr (st\<lparr>userRegister := (userRegister st)(user \<mapsto> \<lparr>pw_password = pw, pw_dbs = dbs\<rparr>)\<rparr>)"
  using assms strchr_split_append [of "CHR '':''" user] strchr_split_append [of "CHR '':''" pw]
    split_at_join [of dbs "CHR '',''"]
  by (simp add: userRegister_line_def split_db_split_at PasswordAndDBs_new_def list_all_iff)

lemma userRegister_loop:
  assumes "list_all line_ok ls" and "list_all (\<lambda>l. fits_buffer (print_line l)) ls"
  shows "register_loop (userRegister_line filename) (ifstream_new (print_register ls)) st =
     Some (Inr (st\<lparr>userRegister := fold add_user ls (userRegister st)\<rparr>))"
  using assms
proof (induction ls arbitrary: st)
  case Nil
  then show ?case by (simp add: print_register_def register_loop_end)
next
  case (Cons l ls)
  have one: "print_register (l # ls) = print_line l @ newline # print_register ls"
    by (simp add: print_register_def)
  have fits: "fits_buffer (print_line l)" and ok: "line_ok l" using Cons.prems by auto
  have IH: "register_loop (userRegister_line filename) (ifstream_new (print_register ls)) st =
     Some (Inr (st\<lparr>userRegister := fold add_user ls (userRegister st)\<rparr>))" for st
    using Cons.IH Cons.prems by simp
  have step: "register_loop f (ifstream_new (print_register (l # ls))) st =
     (if print_line l = [] \<or> hd (print_line l) = CHR ''#'' then register_loop f (ifstream_new (print_register ls)) st
      else case f (print_line l) st of Inl e \<Rightarrow> Some (Inl e)
        | Inr st' \<Rightarrow> register_loop f (ifstream_new (print_register ls)) st')" for f
    unfolding one by (rule register_loop_line [OF fits])
  show ?case
  proof (cases l)
    case (R_user user pw dbs)
    have "print_line l \<noteq> [] \<and> hd (print_line l) \<noteq> CHR ''#''"
      using ok R_user by (cases user) auto
    moreover have "userRegister_line filename (print_line l) st =
        Inr (st\<lparr>userRegister := add_user l (userRegister st)\<rparr>)"
      using R_user ok userRegister_line_user [of user pw dbs filename st] by simp
    ultimately show ?thesis by (simp add: step IH)
  next
    case R_blank
    then show ?thesis using step [of "userRegister_line filename"] IH [of st] by simp
  next
    case (R_comment c)
    then show ?thesis using step [of "userRegister_line filename"] IH [of st] by simp
  qed
qed

text \<open>
  C37. A user register whose lines fit the buffer is read completely: whatever users, passwords
  and databases it was written with (blank lines and comments in between, a later line of a
  user replacing an earlier one), \<open>configure\<close> reads back, and the reading loop ends.\<close>
theorem config_userRegister_roundtrip:
  assumes "yaz_filepath_resolve F filename path = Some fullpath"
    and "file_contents F fullpath = Some (print_register ls)"
    and "list_all line_ok ls" and "list_all (\<lambda>l. fits_buffer (print_line l)) ls"
  shows "config_userRegister F filename path st =
     Some (Inr (st\<lparr>userRegister := fold add_user ls (userRegister st)\<rparr>))"
  using assms userRegister_loop by (simp add: config_userRegister_def config_register_def)

theorem config_userRegister_roundtrip_witness:
  "config_userRegister \<lparr>yaz_filepath_resolve = (\<lambda>f _. Some f),
       file_contents = (\<lambda>_. Some (print_register [R_comment '' users'', R_user ''ann'' ''pw'' [''db1'', ''db2'']]))\<rparr>
     ''reg'' None AuthSimple_Rep_new =
   Some (Inr (AuthSimple_Rep_new\<lparr>userRegister := fold add_user [R_comment '' users'', R_user ''ann'' ''pw'' [''db1'', ''db2'']]
      (userRegister AuthSimple_Rep_new)\<rparr>))"
  by (rule config_userRegister_roundtrip [where fullpath = "''reg''"]) simp_all

text \<open>A stream that failed before the end of the file keeps the loop running.\<close>

lemma register_loop_stuck:
  assumes "fs_fail fs" and "\<not> fs_eof fs"
  shows "register_loop f fs st = None"
proof -
  have "\<not> (fs_fail fs \<and> \<not> fs_eof fs)" if "register_loop f fs st = Some r" for r
  proof (rule register_loop.raw_induct [OF _ that, where P = "\<lambda>f fs st r. \<not> (fs_fail fs \<and> \<not> fs_eof fs)"])
    fix loop :: "(string \<Rightarrow> AuthSimple_Rep \<Rightarrow> mp_exception + AuthSimple_Rep) \<Rightarrow> ifstream \<Rightarrow> AuthSimple_Rep
      \<Rightarrow> (mp_exception + AuthSimple_Rep) option" and f fs st r
    assume IH: "\<And>f fs st r. loop f fs st = Some r \<Longrightarrow> \<not> (fs_fail fs \<and> \<not> fs_eof fs)"
      and body: "(if fs_eof fs then Some (Inr st)
        else let (buf, fs) = getline 1000 fs in
          if buf = [] \<or> hd buf = CHR ''#'' then loop f fs st
          else (case f buf st of Inl e \<Rightarrow> Some (Inl e) | Inr st \<Rightarrow> loop f fs st)) = Some r"
    show "\<not> (fs_fail fs \<and> \<not> fs_eof fs)"
    proof
      assume stuck: "fs_fail fs \<and> \<not> fs_eof fs"
      then have "getline 1000 fs = ([], fs\<lparr>fs_fail := True\<rparr>)" by (simp add: getline_def)
      with body stuck have "loop f (fs\<lparr>fs_fail := True\<rparr>) st = Some r" by simp
      from IH [OF this] stuck show False by simp
    qed
  qed
  with assms show ?thesis by (cases "register_loop f fs st") auto
qed

text \<open>
  A line of 1000 or more characters, here a comment, makes the reading loop of either
  register run forever: \<open>getline\<close> fails, the end of the file is never reached.\<close>
theorem register_long_line_diverges:
  assumes "length l \<ge> 999" and "newline \<notin> set l"
  shows "register_loop add_line (ifstream_new (CHR ''#'' # l @ rest)) st = None"
proof -
  let ?s = "CHR ''#'' # l @ rest"
  have len: "length (takeWhile (\<lambda>c. c \<noteq> newline) ?s) \<ge> 1000"
    using assms by (simp add: takeWhile_append)
  obtain buf fs where g: "getline 1000 (ifstream_new ?s) = (buf, fs)" by fastforce
  have "buf \<noteq> [] \<and> hd buf = CHR ''#'' \<and> fs_fail fs \<and> \<not> fs_eof fs"
    using g len by (auto simp: getline_def ifstream_new_def Let_def take_Cons')
  with g register_loop_stuck show ?thesis
    by (subst register_loop.simps) (simp add: ifstream_new_def)
qed

section \<open>Properties: sessions\<close>

text \<open>
  A run of the filter: the packages it was given so far, each with whatever the rest of the
  chain did to it.
\<close>

fun auth_run :: "yaz \<Rightarrow> string \<Rightarrow> ('w move_fn \<times> package) list \<Rightarrow> AuthSimple_Rep \<Rightarrow> 'w world_scheme
    \<Rightarrow> (AuthSimple_Rep \<times> 'w world_scheme) option" where
  "auth_run Y version [] st w = Some (st, w)"
| "auth_run Y version ((mv, p) # evs) st w =
     (case AuthSimple_process Y version mv st p w of
        None \<Rightarrow> None
      | Some ((p', st'), w') \<Rightarrow> auth_run Y version evs st' w')"

text \<open>An init request with the user name and the password of a register entry.\<close>

definition credentials_of :: "(string \<rightharpoonup> PasswordAndDBs) \<Rightarrow> package \<Rightarrow> string option" where
  "credentials_of reg p =
     (case pkg_request p of
        Some (GDU_Z3950 (APDU_initRequest r)) \<Rightarrow>
          (let (user, password) = get_user r in
           if user \<noteq> [] \<and> map_option pw_password (reg user) = Some password then Some user else None)
      | _ \<Rightarrow> None)"

text \<open>What every state of a run has in common with the configuration it started from.\<close>

definition auth_inv :: "AuthSimple_Rep \<Rightarrow> AuthSimple_Rep \<Rightarrow> bool" where
  "auth_inv cfg st \<longleftrightarrow>
     got_userRegister st = got_userRegister cfg \<and> got_targetRegister st = got_targetRegister cfg \<and>
     discardUnauthorisedTargets st = discardUnauthorisedTargets cfg \<and>
     userRegister st = userRegister cfg \<and>
     ran (userBySession st) \<subseteq> dom (userRegister cfg)"

lemma userRegister_at_registered:
  "auth_inv cfg st \<Longrightarrow> userBySession st i = Some user \<Longrightarrow>
     \<exists>pdb. userRegister cfg user = Some pdb \<and> userRegister_at st user = (pdb, st)"
  by (force simp: auth_inv_def userRegister_at_def ran_def)

lemma process_init_step:
  assumes "auth_inv cfg st" and "AuthSimple_process_init Y version mv st p r w = ((p', st'), w')"
    and "pkg_request p = Some (GDU_Z3950 (APDU_initRequest r))"
  shows "st' = (case credentials_of (userRegister cfg) p of
     None \<Rightarrow> st
   | Some user \<Rightarrow> st\<lparr>userBySession := (userBySession st)(m_id (pkg_session p) \<mapsto> user)\<rparr>)"
  using assms by (auto simp: AuthSimple_process_init_def credentials_of_def auth_inv_def Let_def
      session_map_create_def split: prod.splits if_splits option.splits)

lemma process_search_step:
  assumes "auth_inv cfg st" and "AuthSimple_process_search Y mv st p r w = ((p', st'), w')"
  shows "st' = st"
proof (cases "userBySession st (m_id (pkg_session p))")
  case (Some user)
  with userRegister_at_registered [OF assms(1)] assms(2) show ?thesis
    by (fastforce simp: AuthSimple_process_search_def split: option.splits prod.splits)
qed (use assms(2) in \<open>auto simp: AuthSimple_process_search_def split: prod.splits\<close>)

lemma process_scan_step:
  assumes "auth_inv cfg st" and "AuthSimple_process_scan Y mv st p r w = ((p', st'), w')"
  shows "st' = st"
proof (cases "userBySession st (m_id (pkg_session p))")
  case (Some user)
  with userRegister_at_registered [OF assms(1)] assms(2) show ?thesis
    by (fastforce simp: AuthSimple_process_scan_def split: option.splits prod.splits)
qed (use assms(2) in \<open>auto simp: AuthSimple_process_scan_def split: prod.splits\<close>)

lemma process_step:
  assumes inv: "auth_inv cfg st" and got: "got_userRegister cfg"
    and run: "AuthSimple_process Y version mv st p w = Some ((p', st'), w')"
  shows "st' = (case credentials_of (userRegister cfg) p of
     None \<Rightarrow> st
   | Some user \<Rightarrow> st\<lparr>userBySession := (userBySession st)(m_id (pkg_session p) \<mapsto> user)\<rparr>)"
proof -
  have got': "got_userRegister st" using inv got by (simp add: auth_inv_def)
  consider (init) r where "pkg_request p = Some (GDU_Z3950 (APDU_initRequest r))"
    | (search) r where "pkg_request p = Some (GDU_Z3950 (APDU_searchRequest r))"
    | (scan) r where "pkg_request p = Some (GDU_Z3950 (APDU_scanRequest r))"
    | (moved) "AuthSimple_process Y version mv st p w = (let (p, w) = mv [] p w in Some ((p, st), w))"
        and "credentials_of (userRegister cfg) p = None"
    using got' unfolding AuthSimple_process_def credentials_of_def Let_def
    by (cases "pkg_request p" rule: option.exhaust [case_product Z_GDU.exhaust])
      (fastforce split: Z_GDU.split_asm Z_APDU.split_asm Z_GDU.split Z_APDU.split)+
  then show ?thesis
  proof cases
    case init
    with run got' process_init_step [OF inv _ init] show ?thesis by (simp add: AuthSimple_process_def)
  next
    case search
    with run got' process_search_step [OF inv] show ?thesis
      by (simp add: AuthSimple_process_def credentials_of_def)
  next
    case scan
    with run got' process_scan_step [OF inv] show ?thesis
      by (simp add: AuthSimple_process_def credentials_of_def)
  next
    case moved
    with run show ?thesis by (auto split: prod.splits)
  qed
qed

lemma credentials_of_registered:
  "credentials_of reg p = Some user \<Longrightarrow> user \<in> dom reg"
  by (auto simp: credentials_of_def Let_def split: option.splits Z_GDU.splits Z_APDU.splits prod.splits if_splits)

lemma process_inv:
  assumes "auth_inv cfg st" and "got_userRegister cfg"
    and "AuthSimple_process Y version mv st p w = Some ((p', st'), w')"
  shows "auth_inv cfg st'"
  using process_step [OF assms] assms(1) credentials_of_registered [of "userRegister cfg" p]
  by (auto simp: auth_inv_def ran_def split: option.splits)

text \<open>The user a session belongs to after a run: the last one it gave the credentials of.\<close>

fun session_user :: "(string \<rightharpoonup> PasswordAndDBs) \<Rightarrow> ('w move_fn \<times> package) list \<Rightarrow> 64 word \<Rightarrow> string option
    \<Rightarrow> string option" where
  "session_user reg [] i user = user"
| "session_user reg ((mv, p) # evs) i user =
     session_user reg evs i
       (if m_id (pkg_session p) = i \<and> credentials_of reg p \<noteq> None then credentials_of reg p else user)"

lemma auth_run_sessions:
  assumes "auth_inv cfg st" and "got_userRegister cfg" and "auth_run Y version evs st w = Some (st', w')"
  shows "auth_inv cfg st' \<and> userBySession st' i = session_user (userRegister cfg) evs i (userBySession st i)"
  using assms
proof (induction Y version evs st w rule: auth_run.induct)
  case (2 Y version mv p evs st w)
  from "2.prems"(3) obtain p1 st1 w1 where one: "AuthSimple_process Y version mv st p w = Some ((p1, st1), w1)"
    and rest: "auth_run Y version evs st1 w1 = Some (st', w')"
    by (auto split: option.splits prod.splits)
  have "userBySession st1 i = (if m_id (pkg_session p) = i \<and> credentials_of (userRegister cfg) p \<noteq> None
      then credentials_of (userRegister cfg) p else userBySession st i)"
    using process_step [OF "2.prems"(1,2) one] by (auto split: option.splits)
  with "2.IH" [OF one _ _ process_inv [OF "2.prems"(1,2) one] "2.prems"(2) rest] show ?case by simp
qed simp

lemma auth_start: "userBySession cfg = Map.empty \<Longrightarrow> auth_inv cfg cfg"
  by (simp add: auth_inv_def)

text \<open>A register with one user, her session, and the requests of the examples.\<close>

definition ann_cfg :: AuthSimple_Rep where
  "ann_cfg = AuthSimple_Rep_new\<lparr>got_userRegister := True,
     userRegister := [''ann'' \<mapsto> \<lparr>pw_password = ''pw'', pw_dbs = [''Db1'', ''Db2'']\<rparr>]\<rparr>"

definition ann_package :: "Z_APDU \<Rightarrow> package" where
  "ann_package apdu = (Package_new \<lparr>m_id = 4, m_close = False\<rparr> Origin_new)\<lparr>pkg_request := Some (GDU_Z3950 apdu)\<rparr>"

definition ann_init :: "string \<Rightarrow> Z_InitRequest" where
  "ann_init pw = (zget_initRequest yaz_ref)\<lparr>irq_idAuthentication := Some (IdAuthentication_open (''ann/'' @ pw))\<rparr>"

definition pass_on :: "unit move_fn" where
  "pass_on r p w = (p, w)"

definition ann_run :: "(unit move_fn \<times> package) list" where
  "ann_run = [(pass_on, ann_package (APDU_initRequest (ann_init ''pw'')))]"

definition ann_state :: AuthSimple_Rep where
  "ann_state = ann_cfg\<lparr>userBySession := [4 \<mapsto> ''ann'']\<rparr>"

lemmas ann_defs = ann_cfg_def ann_package_def ann_init_def ann_run_def ann_state_def pass_on_def
  AuthSimple_Rep_new_def Package_new_def

lemma ann_logged_in: "auth_run yaz_ref ''1'' ann_run ann_cfg \<lparr>m_global_id = 9\<rparr> = Some (ann_state, \<lparr>m_global_id = 9\<rparr>)"
  by (simp add: ann_defs AuthSimple_process_def AuthSimple_process_init_def get_user_def strchr_split_def
      session_map_create_def yaz_ref_def Let_def)

lemma ann_cfg_simps [simp]:
  "got_userRegister ann_cfg" "userBySession ann_cfg = Map.empty"
  "userRegister ann_cfg ''ann'' = Some \<lparr>pw_password = ''pw'', pw_dbs = [''Db1'', ''Db2'']\<rparr>"
  by (simp_all add: ann_cfg_def AuthSimple_Rep_new_def)

lemma ann_session: "session_user (userRegister ann_cfg) ann_run 4 None = Some ''ann''"
  by (simp add: ann_defs credentials_of_def get_user_def strchr_split_def Let_def)

text \<open>
  C7. In every run of the filter with a user register, a session belongs to a user exactly
  when one of its own init requests gave the name and the password of that user, the last
  such request counting: no other package, no other session and nothing the rest of the
  chain does makes a session an authenticated one.\<close>
theorem auth_sessions_authenticated:
  assumes "got_userRegister cfg" and "userBySession cfg = Map.empty"
    and "auth_run Y version evs cfg w = Some (st, w')"
  shows "userBySession st i = session_user (userRegister cfg) evs i None"
  using auth_run_sessions [OF auth_start [OF assms(2)] assms(1,3), of i] assms(2) by simp

theorem auth_sessions_authenticated_witness:
  "userBySession ann_state 4 = session_user (userRegister ann_cfg) ann_run 4 None
   \<and> userBySession ann_state 5 = session_user (userRegister ann_cfg) ann_run 5 None"
  using auth_sessions_authenticated [OF _ _ ann_logged_in] by simp

text \<open>
  C8. In a session that belongs to a user, a search or scan request is passed on exactly when
  the register admits all its databases for that user; otherwise nothing reaches the rest of
  the chain, the first database that is not admitted is reported with the diagnostic for
  denied access, and the session is closed.\<close>
theorem auth_databases_guarded:
  assumes "got_userRegister cfg" and "userBySession cfg = Map.empty"
    and "auth_run Y version evs cfg w0 = Some (st, w1)"
    and "session_user (userRegister cfg) evs (m_id (pkg_session p)) None = Some user"
    and "userRegister cfg user = Some pdb"
  shows "(pkg_request p = Some (GDU_Z3950 (APDU_searchRequest rq)) \<longrightarrow>
      AuthSimple_process Y version mv st p w =
       (case find (\<lambda>db. \<not> admitted (pw_dbs pdb) db) (srq_databaseNames rq) of
          None \<Rightarrow> (let (q, w') = mv [] p w in Some ((q, st), w'))
        | Some db \<Rightarrow> Some ((close_session (p\<lparr>pkg_response := Some (GDU_Z3950 (APDU_searchResponse
            (create_searchResponse Y (Some (APDU_searchRequest rq))
              BIB1_ACCESS_TO_SPECIFIED_DATABASE_DENIED (Some db))))\<rparr>), st), w)))
   \<and> (pkg_request p = Some (GDU_Z3950 (APDU_scanRequest sq)) \<longrightarrow>
      AuthSimple_process Y version mv st p w =
       (case find (\<lambda>db. \<not> admitted (pw_dbs pdb) db) (scq_databaseNames sq) of
          None \<Rightarrow> (let (q, w') = mv [] p w in Some ((q, st), w'))
        | Some db \<Rightarrow> Some ((close_session (p\<lparr>pkg_response := Some (GDU_Z3950 (APDU_scanResponse
            (create_scanResponse Y (Some (APDU_scanRequest sq))
              BIB1_ACCESS_TO_SPECIFIED_DATABASE_DENIED (Some db))))\<rparr>), st), w)))"
proof -
  note run = auth_run_sessions [OF auth_start [OF assms(2)] assms(1,3)]
  have user: "userBySession st (m_id (pkg_session p)) = Some user" and inv: "auth_inv cfg st"
    using run [of "m_id (pkg_session p)"] assms(2,4) by simp_all
  have at: "userRegister_at st user = (pdb, st)"
    using userRegister_at_registered [OF inv user] assms(5) by auto
  have got: "got_userRegister st" using inv assms(1) by (simp add: auth_inv_def)
  show ?thesis
    by (auto simp: AuthSimple_process_def AuthSimple_process_search_def AuthSimple_process_scan_def
        got user at denied_database_find split: option.split prod.split)
qed

definition secret_search :: Z_SearchRequest where
  "secret_search = (zget_searchRequest yaz_ref)\<lparr>srq_databaseNames := [''db1'', ''secret'']\<rparr>"

theorem auth_databases_guarded_witness:
  "AuthSimple_process yaz_ref ''1'' pass_on ann_state (ann_package (APDU_searchRequest secret_search)) \<lparr>m_global_id = 9\<rparr> =
   Some ((close_session ((ann_package (APDU_searchRequest secret_search))
     \<lparr>pkg_response := Some (GDU_Z3950 (APDU_searchResponse (create_searchResponse yaz_ref
        (Some (APDU_searchRequest secret_search)) 236 (Some ''secret''))))\<rparr>), ann_state), \<lparr>m_global_id = 9\<rparr>)"
proof -
  have p: "pkg_request (ann_package (APDU_searchRequest secret_search)) = Some (GDU_Z3950 (APDU_searchRequest secret_search))"
    and i: "m_id (pkg_session (ann_package (APDU_searchRequest secret_search))) = 4"
    by (simp_all add: ann_package_def Package_new_def)
  have user: "session_user (userRegister ann_cfg) ann_run (m_id (pkg_session (ann_package (APDU_searchRequest secret_search)))) None
      = Some ''ann''" unfolding i by (rule ann_session)
  have d: "find (\<lambda>db. \<not> admitted [''Db1'', ''Db2''] db) [''db1'', ''secret''] = Some ''secret''"
    by code_simp
  show ?thesis
    using auth_databases_guarded [OF _ _ ann_logged_in user ann_cfg_simps(3), where mv = pass_on
        and w = "\<lparr>m_global_id = 9\<rparr>" and rq = secret_search] p d
    by (simp add: secret_search_def)
qed

text \<open>
  An init request is passed on, and its session then belongs to the user, exactly when it
  has the name and the password of a register entry; otherwise nothing reaches the rest of
  the chain and the session is closed with a negative init response that carries the
  request's reference identifier.\<close>
theorem auth_init_guarded:
  assumes "got_userRegister cfg" and "userBySession cfg = Map.empty"
    and "auth_run Y version evs cfg w0 = Some (st, w1)"
    and "pkg_request p = Some (GDU_Z3950 (APDU_initRequest r))"
  shows "case credentials_of (userRegister cfg) p of
      Some user \<Rightarrow> AuthSimple_process Y version mv st p w =
        (let (q, w') = mv [] p w in
         Some ((q, st\<lparr>userBySession := session_map_create (userBySession st) user (pkg_session p)\<rparr>), w'))
    | None \<Rightarrow> (\<exists>q rs. AuthSimple_process Y version mv st p w = Some ((q, st), w) \<and> is_closed q \<and>
        pkg_request q = pkg_request p \<and>
        pkg_response q = Some (GDU_Z3950 (APDU_initResponse rs)) \<and> \<not> irs_result rs \<and>
        irs_referenceId rs = irq_referenceId r)"
proof -
  have inv: "auth_inv cfg st"
    using auth_run_sessions [OF auth_start [OF assms(2)] assms(1,3)] by blast
  then have reg: "userRegister st = userRegister cfg" "got_userRegister st"
    using assms(1) by (auto simp: auth_inv_def)
  have run: "AuthSimple_process Y version mv st p w = Some (AuthSimple_process_init Y version mv st p r w)"
    using assms(4) reg(2) by (simp add: AuthSimple_process_def)
  obtain user password where u: "get_user r = (user, password)" by fastforce
  show ?thesis
    unfolding run using reg(1) u assms(4)
    by (auto simp: AuthSimple_process_init_def credentials_of_def reject_init_def close_session_def
        create_initResponse_def source_referenceId_def Let_def
        split: option.split prod.split)
qed

theorem auth_init_guarded_witness:
  "\<exists>q rs. AuthSimple_process yaz_ref ''1'' pass_on ann_state (ann_package (APDU_initRequest (ann_init ''guess'')))
       \<lparr>m_global_id = 9\<rparr> = Some ((q, ann_state), \<lparr>m_global_id = 9\<rparr>) \<and> is_closed q \<and>
     pkg_response q = Some (GDU_Z3950 (APDU_initResponse rs)) \<and> \<not> irs_result rs"
proof -
  have none: "credentials_of (userRegister ann_cfg) (ann_package (APDU_initRequest (ann_init ''guess''))) = None"
    by (simp add: ann_defs credentials_of_def get_user_def strchr_split_def Let_def)
  have rq: "pkg_request (ann_package (APDU_initRequest (ann_init ''guess''))) =
      Some (GDU_Z3950 (APDU_initRequest (ann_init ''guess'')))"
    by (simp add: ann_package_def)
  from auth_init_guarded [OF _ _ ann_logged_in rq, where mv = pass_on and w = "\<lparr>m_global_id = 9\<rparr>"] none
  show ?thesis by auto
qed

section \<open>Properties: targets\<close>

text \<open>
  With a target register only, an init request is passed on with exactly the targets the
  register admits for its user name, in their order. It is rejected, and its session closed,
  when none of them is admitted, and, unless unauthorised targets are to be discarded, when
  one of them is not.\<close>
theorem auth_targets_checked:
  assumes "oi_laws Y" and "\<not> got_userRegister st" and "got_targetRegister st"
    and "pkg_request p = Some (GDU_Z3950 (APDU_initRequest r))"
    and "authorised = (case targetsByUser st (fst (get_user r)) of Some ts \<Rightarrow> ts | None \<Rightarrow> [])"
  shows "\<exists>targets oi st'. get_vhost_otherinfo Y (irq_otherInfo r) = Some targets \<and>
     remove_vhost_otherinfo Y (irq_otherInfo r) = Some (int (length targets), targets, oi) \<and>
     (let ok = filter (admitted authorised) targets in
      if ok \<noteq> [] \<and> (discardUnauthorisedTargets st \<or> ok = targets)
      then AuthSimple_process Y version mv st p w =
        (let (q, w') = mv [] (p\<lparr>pkg_request := Some (GDU_Z3950 (APDU_initRequest
               (r\<lparr>irq_otherInfo := set_vhost_otherinfo Y oi ok\<rparr>)))\<rparr>) w
         in Some ((q, st'), w'))
      else \<exists>q rs. AuthSimple_process Y version mv st p w = Some ((q, st'), w) \<and> is_closed q \<and>
        pkg_response q = Some (GDU_Z3950 (APDU_initResponse rs)) \<and> \<not> irs_result rs)"
proof -
  let ?st = "st\<lparr>targetsByUser := (targetsByUser st)(fst (get_user r) \<mapsto> authorised)\<rparr>"
  obtain targets oi where v: "get_vhost_otherinfo Y (irq_otherInfo r) = Some targets"
      "remove_vhost_otherinfo Y (irq_otherInfo r) = Some (int (length targets), targets, oi)"
    using remove_vhost_total [OF assms(1), of "irq_otherInfo r"] by blast
  have run: "AuthSimple_process Y version mv st p w = AuthSimple_check_targets Y version mv st p r w"
    using assms(2-4) by (simp add: AuthSimple_process_def)
  obtain user password where u: "get_user r = (user, password)" by fastforce
  define res where "res = check_target_list (discardUnauthorisedTargets st) authorised targets"
  have ct: "AuthSimple_check_targets Y version mv st p r w =
      (let rejected = (\<lambda>what. Some ((reject_init Y version
             (p\<lparr>pkg_request := Some (GDU_Z3950 (APDU_initRequest (r\<lparr>irq_otherInfo := oi\<rparr>)))\<rparr>)
             (APDU_initRequest (r\<lparr>irq_otherInfo := oi\<rparr>))
             BIB1_ACCESS_TO_SPECIFIED_DATABASE_DENIED what, ?st), w))
       in case res of Inl t \<Rightarrow> rejected t
          | Inr ts \<Rightarrow> if ts = [] then rejected ''all databases''
              else let (q, w') = mv [] (p\<lparr>pkg_request := Some (GDU_Z3950 (APDU_initRequest
                     (r\<lparr>irq_otherInfo := set_vhost_otherinfo Y oi ts\<rparr>)))\<rparr>) w
                   in Some ((q, ?st), w'))"
    using u assms(5) v(2)
    by (auto simp: AuthSimple_check_targets_def res_def Let_def split: sum.split prod.split)
  have res: "res = (if discardUnauthorisedTargets st \<or> filter (admitted authorised) targets = targets
      then Inr (filter (admitted authorised) targets)
      else Inl (the (find (\<lambda>t. \<not> admitted authorised t) targets)))"
    unfolding res_def by (rule check_target_list_spec)
  show ?thesis
    by (rule exI [of _ targets], rule exI [of _ oi], rule exI [of _ ?st])
      (simp add: v run ct res reject_init_def close_session_def create_initResponse_def Let_def
        split: sum.split)
qed

text \<open>The register of the examples with targets, and an init request that names two of them.\<close>

definition ann_targets :: AuthSimple_Rep where
  "ann_targets = AuthSimple_Rep_new\<lparr>got_targetRegister := True, discardUnauthorisedTargets := True,
     targetsByUser := [''ann'' \<mapsto> [''host/A'']]\<rparr>"

definition two_hosts :: Z_InitRequest where
  "two_hosts = (ann_init [])\<lparr>irq_otherInfo := set_vhost_otherinfo yaz_ref [] [''host/a'', ''host/b'']\<rparr>"

theorem auth_targets_checked_witness:
  "\<exists>targets oi st'. get_vhost_otherinfo yaz_ref (irq_otherInfo two_hosts) = Some targets \<and>
     filter (admitted [''host/A'']) targets = [''host/a''] \<and>
     AuthSimple_process yaz_ref ''1'' pass_on ann_targets (ann_package (APDU_initRequest two_hosts)) \<lparr>m_global_id = 9\<rparr> =
       Some ((ann_package (APDU_initRequest (two_hosts\<lparr>irq_otherInfo := set_vhost_otherinfo yaz_ref oi [''host/a'']\<rparr>)), st'),
         \<lparr>m_global_id = 9\<rparr>)"
proof -
  have vh: "get_vhost_otherinfo yaz_ref (irq_otherInfo two_hosts) = Some [''host/a'', ''host/b'']"
    unfolding two_hosts_def
    by (simp, rule get_set_vhost [OF yaz_ref_oi_laws]) (simp add: yaz_ref_def)
  have rq: "pkg_request (ann_package (APDU_initRequest two_hosts)) = Some (GDU_Z3950 (APDU_initRequest two_hosts))"
    by (simp add: ann_package_def)
  have cfg: "\<not> got_userRegister ann_targets" "got_targetRegister ann_targets" "discardUnauthorisedTargets ann_targets"
    by (simp_all add: ann_targets_def AuthSimple_Rep_new_def)
  have au: "[''host/A''] = (case targetsByUser ann_targets (fst (get_user two_hosts)) of Some ts \<Rightarrow> ts | None \<Rightarrow> [])"
    by (simp add: ann_targets_def two_hosts_def ann_init_def get_user_def strchr_split_def)
  have keep: "filter (admitted [''host/A'']) [''host/a'', ''host/b''] = [''host/a'']"
    by code_simp
  from auth_targets_checked [OF yaz_ref_oi_laws cfg(1,2) rq au, where version = "''1''" and mv = pass_on and w = "\<lparr>m_global_id = 9\<rparr>"]
  obtain oi st' where run: "AuthSimple_process yaz_ref ''1'' pass_on ann_targets (ann_package (APDU_initRequest two_hosts)) \<lparr>m_global_id = 9\<rparr> =
      (let (q, w') = pass_on [] (ann_package (APDU_initRequest two_hosts)\<lparr>pkg_request := Some (GDU_Z3950 (APDU_initRequest
          (two_hosts\<lparr>irq_otherInfo := set_vhost_otherinfo yaz_ref oi [''host/a'']\<rparr>)))\<rparr>) \<lparr>m_global_id = 9\<rparr> in Some ((q, st'), w'))"
    unfolding vh option.inject using cfg(3) keep by (auto simp: Let_def)
  show ?thesis
    by (rule exI [of _ "[''host/a'', ''host/b'']"], rule exI [of _ oi], rule exI [of _ st'])
      (use run vh keep in \<open>simp add: pass_on_def ann_package_def\<close>)
qed

text \<open>
  With a user register configured, the target register has no effect: no request is treated
  differently with another target register, or with none.\<close>
theorem auth_target_register_unused:
  assumes "got_userRegister st"
  shows "AuthSimple_process Y version mv (st\<lparr>got_targetRegister := b, targetsByUser := t\<rparr>) p w =
     map_option (\<lambda>((q, st'), w'). ((q, st'\<lparr>got_targetRegister := b, targetsByUser := t\<rparr>), w'))
       (AuthSimple_process Y version mv st p w)"
proof -
  let ?st = "st\<lparr>got_targetRegister := b, targetsByUser := t\<rparr>"
  have at: "userRegister_at ?st user = (let (pdb, st') = userRegister_at st user in
      (pdb, st'\<lparr>got_targetRegister := b, targetsByUser := t\<rparr>))" for user
    by (simp add: userRegister_at_def split: option.split)
  show ?thesis
    using assms
    by (auto simp: AuthSimple_process_def AuthSimple_process_init_def AuthSimple_process_search_def
        AuthSimple_process_scan_def at Let_def split: option.split Z_GDU.split Z_APDU.split prod.split)
qed

end
