(* ===== verification/MP_Sort.thy ===== *)
theory MP_Sort
  imports MP_Util MP_Xml MP_Yaz_Ref MP_Frontends "HOL-Library.Multiset"
begin

text \<open>
  The sort filter (\<open>src/filter_sort.cpp\<close>): it fetches the first records of a result set,
  sorts them by a text that an XPath expression finds in them, and serves present requests
  from the sorted list. Parsing of XML and evaluation of XPath expressions are parameters
  (libxml2). Positions and counts are unbounded integers.
\<close>

section \<open>Records and their scores\<close>

text \<open>
  A node an XPath expression finds: \<open>get_text\<close> looks at the children of an element or an
  attribute, and at a text node with its later siblings.
\<close>

datatype xpath_node =
    XPath_element xml_node
  | XPath_attribute xml_attr
  | XPath_text "xml_node list"
  | XPath_other

text \<open>
  What the filter uses of libxml2, and the value a hit count has before it is assigned: the
  class \<open>ResultSet\<close> has no constructor that sets it.
\<close>

record 'd sort_env =
  xmlParseMemory :: "octets \<Rightarrow> 'd option"
  xmlXPathRegisterNs :: "string \<Rightarrow> string \<Rightarrow> bool"
  xmlXPathEvalExpression :: "'d \<Rightarrow> (string \<times> string) list \<Rightarrow> string \<Rightarrow> xpath_node list option"
  uninitialised_hit_count :: int

record sort_record =
  sr_npr :: Z_NamePlusRecord
  sr_score :: string

text \<open>The namespaces registered by the loop over the list, and its result.\<close>

function register_namespaces :: "(string \<Rightarrow> string \<Rightarrow> bool) \<Rightarrow> string \<Rightarrow> (string \<times> string) list
    \<Rightarrow> (string \<times> string) list \<times> bool" where
  "register_namespaces register_ns nxt ctx =
     (let nxt = dropWhile (\<lambda>c. c = CHR '' '') nxt in
      if nxt = [] then (ctx, True)
      else case strchr_split (CHR ''='') nxt of
             None \<Rightarrow> (ctx, False)
           | Some (pfx, rest) \<Rightarrow>
               (case strchr_split (CHR '' '') rest of
                  Some (href, nxt) \<Rightarrow>
                    if register_ns pfx href then register_namespaces register_ns nxt (ctx @ [(pfx, href)])
                    else (ctx, False)
                | None \<Rightarrow>
                    if register_ns pfx rest then (ctx @ [(pfx, rest)], True) else (ctx, False)))"
  by pat_completeness auto
termination
proof (relation "measure (\<lambda>(f, nxt, ctx). length nxt)")
  fix f nxt ctx nxt1 x2 pfx rest x2a href nxt2
  assume "nxt1 = dropWhile (\<lambda>c. c = CHR '' '') nxt" "strchr_split (CHR ''='') nxt1 = Some x2"
    "(pfx, rest) = x2" "strchr_split (CHR '' '') rest = Some x2a" "(href, nxt2) = x2a"
  then have "length nxt2 < length rest" "length rest < length nxt1" "length nxt1 \<le> length nxt"
    using strchr_split_length length_dropWhile_le by blast+
  then show "((f, nxt2, ctx @ [(pfx, href)]), (f, nxt, ctx)) \<in> measure (\<lambda>(f, nxt, ctx). length nxt)"
    by simp
qed simp_all

declare register_namespaces.simps [simp del]

fun xpath_content :: "xpath_node \<Rightarrow> string" where
  "xpath_content (XPath_element n) = get_text (node_children n)"
| "xpath_content (XPath_attribute a) = get_text (attr_children a)"
| "xpath_content (XPath_text ptr) = get_text ptr"
| "xpath_content XPath_other = []"

fun first_content :: "xpath_node list \<Rightarrow> string \<Rightarrow> string" where
  "first_content [] score = score"
| "first_content (n # ns) score =
     (let content = xpath_content n in
      if length content \<noteq> 0 then content else first_content ns score)"

definition get_xpath :: "'d sort_env \<Rightarrow> 'd \<Rightarrow> string \<Rightarrow> string \<Rightarrow> string \<Rightarrow> string" where
  "get_xpath X doc namespaces expr score =
     (let ctx = fst (register_namespaces (xmlXPathRegisterNs X) namespaces []) in
      case xmlXPathEvalExpression X doc ctx expr of
        Some nodes \<Rightarrow> first_content nodes score
      | None \<Rightarrow> score)"

definition Sort_Record_new :: "'d sort_env \<Rightarrow> Z_NamePlusRecord \<Rightarrow> string \<Rightarrow> string \<Rightarrow> sort_record" where
  "Sort_Record_new X n namespaces expr =
     \<lparr>sr_npr = n,
      sr_score =
        (case npr_record n of
           NPR_databaseRecord (External_octet oid buf) \<Rightarrow>
             if oid = recsyn_xml
             then (case xmlParseMemory X buf of
                     Some doc \<Rightarrow> get_xpath X doc namespaces expr []
                   | None \<Rightarrow> [])
             else []
         | _ \<Rightarrow> [])\<rparr>"

text \<open>\<open>strcmp\<close>: the sign of the first difference, as unsigned characters.\<close>

fun strcmp :: "string \<Rightarrow> string \<Rightarrow> int" where
  "strcmp [] [] = 0"
| "strcmp [] (y # ys) = -1"
| "strcmp (x # xs) [] = 1"
| "strcmp (x # xs) (y # ys) =
     (if x = y then strcmp xs ys else if (of_char x :: nat) < of_char y then -1 else 1)"

definition c_str :: "string \<Rightarrow> string" where
  "c_str s = takeWhile is_c_char s"

definition Sort_Record_less :: "sort_record \<Rightarrow> sort_record \<Rightarrow> bool" where
  "Sort_Record_less lhs rhs = (if strcmp (c_str (sr_score lhs)) (c_str (sr_score rhs)) < 0 then True else False)"

section \<open>Lists of records\<close>

text \<open>\<open>std::list::sort\<close> with the operator \<open>lt\<close>: the stable order.\<close>

fun list_insert :: "('a \<Rightarrow> 'a \<Rightarrow> bool) \<Rightarrow> 'a \<Rightarrow> 'a list \<Rightarrow> 'a list" where
  "list_insert lt x [] = [x]"
| "list_insert lt x (y # ys) = (if lt y x then y # list_insert lt x ys else x # y # ys)"

fun list_sort :: "('a \<Rightarrow> 'a \<Rightarrow> bool) \<Rightarrow> 'a list \<Rightarrow> 'a list" where
  "list_sort lt [] = []"
| "list_sort lt (x # xs) = list_insert lt x (list_sort lt xs)"

record Sort_RecordList =
  rl_syntax :: "octets option"
  rl_npr_list :: "sort_record list"
  rl_namespaces :: string
  rl_xpath_expr :: string

definition RecordList_new :: "octets option \<Rightarrow> string \<Rightarrow> string \<Rightarrow> Sort_RecordList" where
  "RecordList_new syn a_namespaces a_xpath_expr =
     \<lparr>rl_syntax = syn, rl_npr_list = [], rl_namespaces = a_namespaces, rl_xpath_expr = a_xpath_expr\<rparr>"

definition RecordList_cmp :: "Sort_RecordList \<Rightarrow> octets option \<Rightarrow> bool" where
  "RecordList_cmp rl syn =
     (case (rl_syntax rl, syn) of
        (None, None) \<Rightarrow> True
      | (Some a, Some b) \<Rightarrow> a = b
      | _ \<Rightarrow> False)"

definition RecordList_size :: "Sort_RecordList \<Rightarrow> int" where
  "RecordList_size rl = int (length (rl_npr_list rl))"

definition RecordList_add :: "'d sort_env \<Rightarrow> Z_NamePlusRecord \<Rightarrow> Sort_RecordList \<Rightarrow> Sort_RecordList" where
  "RecordList_add X s rl =
     rl\<lparr>rl_npr_list := rl_npr_list rl @ [Sort_Record_new X s (rl_namespaces rl) (rl_xpath_expr rl)]\<rparr>"

fun get_from :: "sort_record list \<Rightarrow> int \<Rightarrow> Z_NamePlusRecord option" where
  "get_from [] i = None"
| "get_from (r # rs) i = (if i \<le> 0 then Some (sr_npr r) else get_from rs (i - 1))"

definition RecordList_get :: "Sort_RecordList \<Rightarrow> int \<Rightarrow> bool \<Rightarrow> Z_NamePlusRecord option" where
  "RecordList_get rl pos ascending =
     get_from (rl_npr_list rl) (if \<not> ascending then RecordList_size rl - pos - 1 else pos)"

definition RecordList_sort :: "Sort_RecordList \<Rightarrow> Sort_RecordList" where
  "RecordList_sort rl = rl\<lparr>rl_npr_list := list_sort Sort_Record_less (rl_npr_list rl)\<rparr>"

section \<open>State and configuration\<close>

record Sort_ResultSet =
  rs_hit_count :: int
  rs_record_lists :: "Sort_RecordList list"

record Sort_Frontend =
  so_is_virtual :: bool
  so_in_use :: bool
  so_sets :: "string \<rightharpoonup> Sort_ResultSet"

definition Sort_Frontend_new :: Sort_Frontend where
  "Sort_Frontend_new = \<lparr>so_is_virtual = False, so_in_use = True, so_sets = Map.empty\<rparr>"

record Sort_Conf =
  so_prefetch :: int
  so_xpath_expr :: string
  so_namespaces :: string
  so_ascending :: bool
  so_debug :: bool

definition Sort_Conf_new :: Sort_Conf where
  "Sort_Conf_new = \<lparr>so_prefetch = 20, so_xpath_expr = [], so_namespaces = [], so_ascending = True, so_debug = False\<rparr>"

type_synonym sort_clients = "Sort_Frontend session_map"

fun Sort_attrs :: "xml_attr list \<Rightarrow> Sort_Conf \<Rightarrow> mp_exception + Sort_Conf" where
  "Sort_attrs [] c = Inr c"
| "Sort_attrs (a # ats) c =
     (if attr_name a = ''prefetch''
      then (let c = c\<lparr>so_prefetch := get_int (attr_children a) (-1)\<rparr> in
            if so_prefetch c < 0
            then Inl (FilterException (''Bad or missing value for attribute '' @ attr_name a))
            else Sort_attrs ats c)
      else if attr_name a = ''xpath''
      then Sort_attrs ats (c\<lparr>so_xpath_expr := get_text (attr_children a)\<rparr>)
      else if attr_name a = ''namespaces''
      then Sort_attrs ats (c\<lparr>so_namespaces := get_text (attr_children a)\<rparr>)
      else if attr_name a = ''ascending''
      then Sort_attrs ats (c\<lparr>so_ascending := get_bool (attr_children a) True\<rparr>)
      else if attr_name a = ''debug''
      then Sort_attrs ats (c\<lparr>so_debug := get_bool (attr_children a) False\<rparr>)
      else Inl (FilterException (''Bad attribute '' @ attr_name a)))"

fun Sort_element :: "xml_node list \<Rightarrow> Sort_Conf \<Rightarrow> mp_exception + Sort_Conf" where
  "Sort_element (Xml_Element nm _ attrs _ # _) c =
     (if nm = ''sort'' then Sort_attrs attrs c
      else Inl (FilterException (''Bad element '' @ nm @ '' in sort filter'')))"
| "Sort_element _ c = Inr c"

definition Sort_configure :: "xml_node \<Rightarrow> Sort_Conf \<Rightarrow> mp_exception + Sort_Conf" where
  "Sort_configure ptr c =
     (case for_elements Sort_element (node_children ptr) c of
        Inl e \<Rightarrow> Inl e
      | Inr c \<Rightarrow>
          if length (so_xpath_expr c) = 0
          then Inl (FilterException ''Missing xpath attribute for config element in sort filter'')
          else Inr c)"

section \<open>Processing\<close>

text \<open>The records of a present response; no records when it is anything else.\<close>

fun prefetched :: "Z_GDU option \<Rightarrow> Z_NamePlusRecord list" where
  "prefetched (Some (GDU_Z3950 (APDU_presentResponse res))) =
     (case prs_records res of Some (Records_DBOSD nprl) \<Rightarrow> nprl | _ \<Rightarrow> [])"
| "prefetched _ = []"

definition prefetch_request :: "yaz \<Rightarrow> octets option \<Rightarrow> Z_RecordComposition option \<Rightarrow> string \<Rightarrow> int \<Rightarrow> int
    \<Rightarrow> Z_PresentRequest" where
  "prefetch_request Y syn rcomp resultSetId pos end_pos =
     (zget_presentRequest Y)\<lparr>prq_resultSetStartPoint := pos,
        prq_numberOfRecordsRequested := end_pos - pos + 1,
        prq_preferredRecordSyntax := syn,
        prq_resultSetId := resultSetId,
        prq_recordComposition := rcomp\<rparr>"

text \<open>
  The loop that fetches more records, until \<open>end_pos\<close> is reached or a response has none;
  \<open>i\<close> is the number of records of the last response.
\<close>

function prefetch_loop :: "'d sort_env \<Rightarrow> yaz \<Rightarrow> 'w move_fn \<Rightarrow> package \<Rightarrow> octets option
    \<Rightarrow> Z_RecordComposition option \<Rightarrow> string \<Rightarrow> int \<Rightarrow> nat \<Rightarrow> int \<Rightarrow> Sort_RecordList \<Rightarrow> 'w world_scheme
    \<Rightarrow> Sort_RecordList \<times> 'w world_scheme" where
  "prefetch_loop X Y mv p syn rcomp resultSetId end_pos i pos rlp w =
     (if i \<noteq> 0 \<and> pos \<le> end_pos
      then (let present_package = (Package_new (pkg_session p) (pkg_origin p))\<lparr>pkg_request :=
                  Some (GDU_Z3950 (APDU_presentRequest
                    (prefetch_request Y syn rcomp resultSetId pos end_pos)))\<rparr>;
                (present_package, w) = mv [] present_package w;
                nprl = prefetched (pkg_response present_package)
            in prefetch_loop X Y mv p syn rcomp resultSetId end_pos (length nprl) (pos + int (length nprl))
                 (fold (RecordList_add X) nprl rlp) w)
      else (rlp, w))"
  by pat_completeness auto
termination
  by (relation "measure (\<lambda>(X, Y, mv, p, syn, rcomp, setid, end_pos, i, pos, rlp, w).
        nat (end_pos - pos + 1) + (if i \<noteq> 0 then 1 else 0))") (auto simp: Suc_le_eq)

declare prefetch_loop.simps [simp del]

text \<open>
  \<open>handle_records\<close> changes the records of the response and the result set. \<open>None\<close> is a
  null record pointer in the response.
\<close>

definition Sort_handle_records :: "'d sort_env \<Rightarrow> yaz \<Rightarrow> Sort_Conf \<Rightarrow> 'w move_fn \<Rightarrow> package \<Rightarrow> Z_Records option
    \<Rightarrow> int \<Rightarrow> Sort_ResultSet \<Rightarrow> octets option \<Rightarrow> Z_RecordComposition option \<Rightarrow> string \<Rightarrow> 'w world_scheme
    \<Rightarrow> (Z_Records option \<times> Sort_ResultSet \<times> 'w world_scheme) option" where
  "Sort_handle_records X Y c mv p records start_pos s syn rcomp resultSetId w =
     (case records of
        Some (Records_DBOSD nprl) \<Rightarrow>
          if start_pos = 1 \<and> \<not> list_ex (\<lambda>rl. RecordList_cmp rl syn) (rs_record_lists s)
          then (let rlp = fold (RecordList_add X) nprl
                      (RecordList_new syn (so_namespaces c) (so_xpath_expr c));
                    end_pos = (if so_prefetch c > rs_hit_count s then rs_hit_count s else so_prefetch c);
                    (rlp, w) = prefetch_loop X Y mv p syn rcomp resultSetId end_pos (length nprl)
                      (1 + int (length nprl)) rlp w;
                    rlp = RecordList_sort rlp;
                    s = s\<lparr>rs_record_lists := rs_record_lists s @ [rlp]\<rparr>
                in case those (map (\<lambda>i. RecordList_get rlp (int i) (so_ascending c)) [0..<length nprl]) of
                     None \<Rightarrow> None
                   | Some nprl \<Rightarrow> Some (Some (Records_DBOSD nprl), s, w))
          else Some (records, s, w)
      | _ \<Rightarrow> Some (records, s, w))"

definition Sort_handle_search :: "'d sort_env \<Rightarrow> yaz \<Rightarrow> Sort_Conf \<Rightarrow> 'w move_fn \<Rightarrow> package \<Rightarrow> Z_SearchRequest
    \<Rightarrow> Sort_Frontend \<Rightarrow> 'w world_scheme \<Rightarrow> (package \<times> Sort_Frontend \<times> 'w world_scheme) option" where
  "Sort_handle_search X Y c mv p req f w =
     (let resultSetId = srq_resultSetName req; syn = srq_preferredRecordSyntax req in
      if so_sets f resultSetId \<noteq> None \<and> \<not> srq_replaceIndicator req
      then Some (p\<lparr>pkg_response := Some (GDU_Z3950 (APDU_searchResponse (create_searchResponse Y
             (Some (APDU_searchRequest req)) BIB1_RESULT_SET_EXISTS_AND_REPLACE_INDICATOR_OFF None)))\<rparr>, f, w)
      else
        (let s = \<lparr>rs_hit_count = uninitialised_hit_count X, rs_record_lists = []\<rparr>;
             f = f\<lparr>so_sets := (so_sets f)(resultSetId \<mapsto> s)\<rparr>;
             b_package = (Package_new (pkg_session p) (pkg_origin p))\<lparr>pkg_request :=
               Some (GDU_Z3950 (APDU_searchRequest req))\<rparr>;
             (b_package, w) = mv [] b_package w
         in case pkg_response b_package of
              Some (GDU_Z3950 (APDU_searchResponse res)) \<Rightarrow>
                (let record_comp = piggyback_to_RecordComposition (srs_resultCount res) req;
                     s = s\<lparr>rs_hit_count := srs_resultCount res\<rparr>
                 in case Sort_handle_records X Y c mv p (srs_records res) 1 s syn record_comp resultSetId w of
                      None \<Rightarrow> None
                    | Some (records, s, w) \<Rightarrow>
                        Some (p\<lparr>pkg_response := Some (GDU_Z3950 (APDU_searchResponse (res\<lparr>srs_records := records\<rparr>)))\<rparr>,
                              f\<lparr>so_sets := (so_sets f)(resultSetId \<mapsto> s)\<rparr>, w))
            | r \<Rightarrow> Some (p\<lparr>pkg_response := r\<rparr>, f, w)))"

text \<open>A present request served from a sorted list.\<close>

definition cached_response :: "yaz \<Rightarrow> Sort_Conf \<Rightarrow> Z_PresentRequest \<Rightarrow> Sort_RecordList \<Rightarrow> Z_PresentResponse option" where
  "cached_response Y c req rl =
     map_option (\<lambda>nprl. (zget_presentResponse Y)\<lparr>
         prs_nextResultSetPosition := prq_resultSetStartPoint req + prq_numberOfRecordsRequested req,
         prs_numberOfRecordsReturned := prq_numberOfRecordsRequested req,
         prs_records := Some (Records_DBOSD nprl)\<rparr>)
       (those (map (\<lambda>i. RecordList_get rl (int i + prq_resultSetStartPoint req - 1) (so_ascending c))
         [0..<nat (prq_numberOfRecordsRequested req)]))"

definition Sort_handle_present :: "'d sort_env \<Rightarrow> yaz \<Rightarrow> Sort_Conf \<Rightarrow> 'w move_fn \<Rightarrow> package \<Rightarrow> Z_PresentRequest
    \<Rightarrow> Sort_Frontend \<Rightarrow> 'w world_scheme \<Rightarrow> (package \<times> Sort_Frontend \<times> 'w world_scheme) option" where
  "Sort_handle_present X Y c mv p req f w =
     (let resultSetId = prq_resultSetId req; syn = prq_preferredRecordSyntax req;
          start = prq_resultSetStartPoint req
      in case so_sets f resultSetId of
           None \<Rightarrow> Some (p\<lparr>pkg_response := Some (GDU_Z3950 (APDU_presentResponse (create_presentResponse Y
             (Some (APDU_presentRequest req)) BIB1_SPECIFIED_RESULT_SET_DOES_NOT_EXIST (Some resultSetId))))\<rparr>, f, w)
         | Some rset \<Rightarrow>
             (let backend =
                (let b_package = (Package_new (pkg_session p) (pkg_origin p))\<lparr>pkg_request :=
                       Some (GDU_Z3950 (APDU_presentRequest req))\<rparr>;
                     (b_package, w) = mv [] b_package w
                 in case pkg_response b_package of
                      Some (GDU_Z3950 (APDU_presentResponse res)) \<Rightarrow>
                        (case Sort_handle_records X Y c mv p (prs_records res) start rset syn
                                (prq_recordComposition req) resultSetId w of
                           None \<Rightarrow> None
                         | Some (records, rset, w) \<Rightarrow>
                             Some (p\<lparr>pkg_response := Some (GDU_Z3950 (APDU_presentResponse (res\<lparr>prs_records := records\<rparr>)))\<rparr>,
                                   f\<lparr>so_sets := (so_sets f)(resultSetId \<mapsto> rset)\<rparr>, w))
                    | r \<Rightarrow> Some (p\<lparr>pkg_response := r\<rparr>, f, w))
              in case find (\<lambda>rl. RecordList_cmp rl syn) (rs_record_lists rset) of
                   Some rl \<Rightarrow>
                     if start - 1 + prq_numberOfRecordsRequested req \<le> RecordList_size rl
                     then (case cached_response Y c req rl of
                             None \<Rightarrow> None
                           | Some res \<Rightarrow> Some (p\<lparr>pkg_response := Some (GDU_Z3950 (APDU_presentResponse res))\<rparr>, f, w))
                     else backend
                 | None \<Rightarrow> backend))"

definition Sort_handle_package :: "'d sort_env \<Rightarrow> yaz \<Rightarrow> Sort_Conf \<Rightarrow> 'w move_fn \<Rightarrow> package
    \<Rightarrow> Sort_Frontend \<Rightarrow> 'w world_scheme \<Rightarrow> (package \<times> Sort_Frontend \<times> 'w world_scheme) option" where
  "Sort_handle_package X Y c mv p f w =
     (case pkg_request p of
        Some (GDU_Z3950 (APDU_searchRequest req)) \<Rightarrow> Sort_handle_search X Y c mv p req f w
      | Some (GDU_Z3950 (APDU_presentRequest req)) \<Rightarrow> Sort_handle_present X Y c mv p req f w
      | _ \<Rightarrow> (let (p, w) = mv [] p w in Some (p, f, w)))"

text \<open>\<open>None\<close> is the wait for the package of the session that has the frontend.\<close>

definition Sort_get_frontend :: "package \<Rightarrow> sort_clients \<Rightarrow> (Sort_Frontend \<times> sort_clients) option" where
  "Sort_get_frontend p cl =
     (case cl (m_id (pkg_session p)) of
        Some f \<Rightarrow>
          if \<not> so_in_use f
          then (let f = f\<lparr>so_in_use := True\<rparr> in Some (f, session_map_create cl f (pkg_session p)))
          else None
      | None \<Rightarrow> (let f = Sort_Frontend_new\<lparr>so_in_use := True\<rparr> in Some (f, session_map_create cl f (pkg_session p))))"

definition Sort_release_frontend :: "package \<Rightarrow> sort_clients \<Rightarrow> sort_clients" where
  "Sort_release_frontend p cl =
     (case cl (m_id (pkg_session p)) of
        None \<Rightarrow> cl
      | Some f \<Rightarrow>
          if is_closed p then session_map_release cl (pkg_session p)
          else session_map_create cl (f\<lparr>so_in_use := False\<rparr>) (pkg_session p))"

definition Sort_process :: "'d sort_env \<Rightarrow> yaz \<Rightarrow> Sort_Conf \<Rightarrow> 'w move_fn \<Rightarrow> sort_clients \<Rightarrow> package
    \<Rightarrow> 'w world_scheme \<Rightarrow> ((package \<times> sort_clients) \<times> 'w world_scheme) option" where
  "Sort_process X Y c mv cl p w =
     (case Sort_get_frontend p cl of
        None \<Rightarrow> None
      | Some (f, cl) \<Rightarrow>
          (case (if so_is_virtual f then Sort_handle_package X Y c mv p f w
                 else case pkg_request p of
                   Some (GDU_Z3950 (APDU_initRequest _)) \<Rightarrow>
                     (let (p, w) = mv [] p w in Some (p, f\<lparr>so_is_virtual := True\<rparr>, w))
                 | _ \<Rightarrow> (let (p, w) = mv [] p w in Some (p, f, w))) of
             None \<Rightarrow> None
           | Some (p', f, w) \<Rightarrow>
               Some ((p', Sort_release_frontend p' (session_map_create cl f (pkg_session p))), w)))"

section \<open>The order of the records\<close>

text \<open>
  The contract of \<open>std::list::sort\<close>: for an operator that is a strict weak order the
  result is a sorted permutation in which equivalent elements keep their order.
\<close>

locale list_sort_order =
  fixes lt :: "'a \<Rightarrow> 'a \<Rightarrow> bool"
  assumes asym: "lt x y \<Longrightarrow> \<not> lt y x"
    and cotrans: "lt x z \<Longrightarrow> lt x y \<or> lt y z"
begin

lemma mset_insert: "mset (list_insert lt x xs) = add_mset x (mset xs)"
  by (induction xs) auto

lemma mset_sort: "mset (list_sort lt xs) = mset xs"
  by (induction xs) (simp_all add: mset_insert)

lemma set_insert: "set (list_insert lt x xs) = insert x (set xs)"
  by (induction xs) auto

lemma sorted_insert:
  "sorted_wrt (\<lambda>x y. \<not> lt y x) xs \<Longrightarrow> sorted_wrt (\<lambda>x y. \<not> lt y x) (list_insert lt x xs)"
proof (induction xs)
  case (Cons y ys)
  show ?case
  proof (cases "lt y x")
    case True
    with Cons asym [OF True] show ?thesis by (auto simp: set_insert)
  next
    case False
    with Cons.prems have "\<not> lt z x" if "z \<in> set ys" for z
      using that cotrans [of z x y] by auto
    with False Cons.prems show ?thesis by auto
  qed
qed simp

lemma sorted_sort: "sorted_wrt (\<lambda>x y. \<not> lt y x) (list_sort lt xs)"
  by (induction xs) (simp_all add: sorted_insert)

lemma stable_insert:
  "filter (\<lambda>y. \<not> lt y k \<and> \<not> lt k y) (list_insert lt x xs) = filter (\<lambda>y. \<not> lt y k \<and> \<not> lt k y) (x # xs)"
proof (induction xs)
  case (Cons y ys)
  have "\<not> (\<not> lt y k \<and> \<not> lt k y)" if "lt y x" "\<not> lt x k" "\<not> lt k x"
    using that cotrans [of y x k] by auto
  with Cons show ?case by auto
qed simp

lemma stable_sort:
  "filter (\<lambda>y. \<not> lt y k \<and> \<not> lt k y) (list_sort lt xs) = filter (\<lambda>y. \<not> lt y k \<and> \<not> lt k y) xs"
proof (induction xs)
  case (Cons x xs)
  then show ?case by (simp only: list_sort.simps stable_insert filter.simps)
qed simp

end

lemma strcmp_swap: "strcmp y x = - strcmp x y"
  by (induction x y rule: strcmp.induct) (auto simp: not_less_iff_gr_or_eq)

lemma strcmp_cotrans: "strcmp x z < 0 \<Longrightarrow> strcmp x y < 0 \<or> strcmp y z < 0"
proof (induction x z arbitrary: y rule: strcmp.induct)
  case (2 c cs)
  then show ?case by (cases y) auto
next
  case (4 a as' b bs)
  then show ?case by (cases y) (auto split: if_splits)
qed auto

interpretation score_order: list_sort_order Sort_Record_less
proof unfold_locales
  fix x y z :: sort_record
  show "Sort_Record_less x y \<Longrightarrow> \<not> Sort_Record_less y x"
    using strcmp_swap [of "c_str (sr_score x)" "c_str (sr_score y)"]
    by (simp add: Sort_Record_less_def split: if_splits)
  show "Sort_Record_less x z \<Longrightarrow> Sort_Record_less x y \<or> Sort_Record_less y z"
    using strcmp_cotrans [of "c_str (sr_score x)" "c_str (sr_score z)" "c_str (sr_score y)"]
    by (auto simp: Sort_Record_less_def split: if_splits)
qed

text \<open>The records of a list in the order in which they are shown to the client.\<close>

definition shown_records :: "Sort_RecordList \<Rightarrow> bool \<Rightarrow> Z_NamePlusRecord list" where
  "shown_records rl ascending = map sr_npr (if ascending then rl_npr_list rl else rev (rl_npr_list rl))"

lemma length_shown [simp]: "length (shown_records rl ascending) = length (rl_npr_list rl)"
  by (simp add: shown_records_def)

lemma get_from_nth: "0 \<le> i \<Longrightarrow> i < int (length rs) \<Longrightarrow> get_from rs i = Some (sr_npr (rs ! nat i))"
proof (induction rs i rule: get_from.induct)
  case (2 r rs i)
  show ?case
  proof (cases "i \<le> 0")
    case False
    then have "nat i = Suc (nat (i - 1))" by arith
    with 2 False show ?thesis by simp
  qed (use 2 in simp)
qed simp

lemma get_from_None: "int (length rs) \<le> i \<Longrightarrow> get_from rs i = None"
  by (induction rs i rule: get_from.induct) auto

lemma RecordList_get_nth:
  assumes "0 \<le> i" and "i < RecordList_size rl"
  shows "RecordList_get rl i ascending = Some (shown_records rl ascending ! nat i)"
proof -
  let ?n = "length (rl_npr_list rl)"
  have n: "nat i < ?n" using assms by (simp add: RecordList_size_def nat_less_iff)
  have "nat (int ?n - i - 1) = ?n - Suc (nat i)" using assms by arith
  then show ?thesis
    using n assms get_from_nth [of i "rl_npr_list rl"] get_from_nth [of "int ?n - i - 1" "rl_npr_list rl"]
    by (simp add: RecordList_get_def RecordList_size_def shown_records_def rev_nth)
qed

lemma those_map_Some: "(\<And>x. x \<in> set xs \<Longrightarrow> f x = Some (g x)) \<Longrightarrow> those (map f xs) = Some (map g xs)"
  by (induction xs) auto

lemma those_RecordList_get:
  assumes "1 \<le> start" and "start - 1 + int n \<le> RecordList_size rl"
  shows "those (map (\<lambda>i. RecordList_get rl (int i + start - 1) ascending) [0..<n]) =
     Some (take n (drop (nat (start - 1)) (shown_records rl ascending)))"
proof -
  have "those (map (\<lambda>i. RecordList_get rl (int i + start - 1) ascending) [0..<n]) =
      Some (map (\<lambda>i. shown_records rl ascending ! nat (int i + start - 1)) [0..<n])"
    using assms by (intro those_map_Some RecordList_get_nth) auto
  also have "map (\<lambda>i. shown_records rl ascending ! nat (int i + start - 1)) [0..<n] =
      take n (drop (nat (start - 1)) (shown_records rl ascending))"
    using assms by (intro nth_equalityI)
      (auto simp: RecordList_size_def nth_append nat_add_distrib algebra_simps
        intro!: arg_cong [of _ _ "(!) (shown_records rl ascending)"])
  finally show ?thesis .
qed

section \<open>Fetching records\<close>

text \<open>
  A target that holds the records \<open>recs\<close> in a result set: a request within the set is
  answered with at least one and at most the requested number of records, from the requested
  position on.
\<close>

definition sort_target :: "'w move_fn \<Rightarrow> session \<Rightarrow> string \<Rightarrow> octets option \<Rightarrow> Z_RecordComposition option
    \<Rightarrow> Z_NamePlusRecord list \<Rightarrow> bool" where
  "sort_target mv ses setid syn rcomp recs \<longleftrightarrow>
     (\<forall>p w rq. pkg_session p = ses \<and> pkg_request p = Some (GDU_Z3950 (APDU_presentRequest rq)) \<and>
        prq_resultSetId rq = setid \<and> prq_preferredRecordSyntax rq = syn \<and> prq_recordComposition rq = rcomp \<and>
        1 \<le> prq_resultSetStartPoint rq \<and> 1 \<le> prq_numberOfRecordsRequested rq \<and>
        prq_resultSetStartPoint rq + prq_numberOfRecordsRequested rq \<le> int (length recs) + 1 \<longrightarrow>
        (\<exists>k res. 1 \<le> k \<and> int k \<le> prq_numberOfRecordsRequested rq \<and>
           pkg_response (fst (mv [] p w)) = Some (GDU_Z3950 (APDU_presentResponse res)) \<and>
           prs_records res = Some (Records_DBOSD (take k (drop (nat (prq_resultSetStartPoint rq - 1)) recs)))))"

lemma fold_RecordList_add:
  "fold (RecordList_add X) ns rl =
     rl\<lparr>rl_npr_list := rl_npr_list rl @ map (\<lambda>n. Sort_Record_new X n (rl_namespaces rl) (rl_xpath_expr rl)) ns\<rparr>"
  by (induction ns arbitrary: rl) (simp_all add: RecordList_add_def)

lemma sort_target_prefetch:
  assumes "sort_target mv ses setid syn rcomp recs" and "1 \<le> pos" and "pos \<le> end_pos" and "end_pos \<le> int (length recs)"
  shows "\<exists>k. 1 \<le> k \<and> pos + int k \<le> end_pos + 1 \<and>
     prefetched (pkg_response (fst (mv [] ((Package_new ses ori)\<lparr>pkg_request := Some (GDU_Z3950 (APDU_presentRequest
       (prefetch_request Y syn rcomp setid pos end_pos)))\<rparr>) w))) = take k (drop (nat (pos - 1)) recs)"
proof -
  let ?rq = "prefetch_request Y syn rcomp setid pos end_pos"
  let ?p = "(Package_new ses ori)\<lparr>pkg_request := Some (GDU_Z3950 (APDU_presentRequest ?rq))\<rparr>"
  have "\<exists>k res. 1 \<le> k \<and> int k \<le> prq_numberOfRecordsRequested ?rq \<and>
      pkg_response (fst (mv [] ?p w)) = Some (GDU_Z3950 (APDU_presentResponse res)) \<and>
      prs_records res = Some (Records_DBOSD (take k (drop (nat (prq_resultSetStartPoint ?rq - 1)) recs)))"
    by (rule assms(1) [unfolded sort_target_def, rule_format])
      (use assms in \<open>simp add: prefetch_request_def Package_new_def\<close>)
  then show ?thesis by (force simp: prefetch_request_def)
qed

lemma prefetch_loop_correct:
  assumes "sort_target mv (pkg_session p) setid syn rcomp recs" and "1 \<le> pos" and "pos \<le> int (length recs) + 1"
    and "end_pos \<le> int (length recs)" and "i \<noteq> 0"
    and "rl_npr_list rl = map (\<lambda>n. Sort_Record_new X n (rl_namespaces rl) (rl_xpath_expr rl)) (take (nat (pos - 1)) recs)"
  shows "\<exists>w'. prefetch_loop X Y mv p syn rcomp setid end_pos i pos rl w =
     (rl\<lparr>rl_npr_list := map (\<lambda>n. Sort_Record_new X n (rl_namespaces rl) (rl_xpath_expr rl))
        (take (max (nat (pos - 1)) (nat end_pos)) recs)\<rparr>, w')"
  using assms
proof (induction "nat (end_pos - pos + 1)" arbitrary: i pos rl w rule: less_induct)
  case (less pos i rl w)
  show ?case
  proof (cases "pos \<le> end_pos")
    case False
    then have "max (nat (pos - 1)) (nat end_pos) = nat (pos - 1)" by linarith
    with less.prems(6) False show ?thesis by (subst prefetch_loop.simps) simp
  next
    case True
    let ?p = "(Package_new (pkg_session p) (pkg_origin p))\<lparr>pkg_request := Some (GDU_Z3950 (APDU_presentRequest
       (prefetch_request Y syn rcomp setid pos end_pos)))\<rparr>"
    obtain q w1 where mv: "mv [] ?p w = (q, w1)" by fastforce
    obtain k where k: "1 \<le> k" "pos + int k \<le> end_pos + 1"
        "prefetched (pkg_response q) = take k (drop (nat (pos - 1)) recs)"
      using sort_target_prefetch [OF less.prems(1,2) True less.prems(4),
          where ori = "pkg_origin p" and Y = Y and w = w] mv by auto
    have len: "length (take k (drop (nat (pos - 1)) recs)) = k" using k less.prems(2,4) by simp
    let ?rl = "fold (RecordList_add X) (take k (drop (nat (pos - 1)) recs)) rl"
    have nat_pos: "nat (pos + int k - 1) = nat (pos - 1) + k" using less.prems(2) by linarith
    have rl: "rl_namespaces ?rl = rl_namespaces rl" "rl_xpath_expr ?rl = rl_xpath_expr rl"
      "rl_npr_list ?rl = map (\<lambda>n. Sort_Record_new X n (rl_namespaces rl) (rl_xpath_expr rl)) (take (nat (pos + int k - 1)) recs)"
      using less.prems(6) by (simp_all add: fold_RecordList_add nat_pos take_add)
    have step: "prefetch_loop X Y mv p syn rcomp setid end_pos i pos rl w =
        prefetch_loop X Y mv p syn rcomp setid end_pos k (pos + int k) ?rl w1"
      using True less.prems(5) mv k(3) len by (subst prefetch_loop.simps) simp
    have "\<exists>w'. prefetch_loop X Y mv p syn rcomp setid end_pos k (pos + int k) ?rl w1 =
       (?rl\<lparr>rl_npr_list := map (\<lambda>n. Sort_Record_new X n (rl_namespaces ?rl) (rl_xpath_expr ?rl))
          (take (max (nat (pos + int k - 1)) (nat end_pos)) recs)\<rparr>, w')"
      by (rule less.hyps) (use less.prems k True rl in auto)
    moreover have "max (nat (pos + int k - 1)) (nat end_pos) = nat end_pos"
      "max (nat (pos - 1)) (nat end_pos) = nat end_pos" using k True by linarith+
    ultimately show ?thesis unfolding step by (simp add: rl(1,2)) (simp add: fold_RecordList_add)
  qed
qed

text \<open>The list the filter keeps for records of a result set, and its order.\<close>

definition sorted_list :: "'d sort_env \<Rightarrow> Sort_Conf \<Rightarrow> octets option \<Rightarrow> Z_NamePlusRecord list \<Rightarrow> Sort_RecordList" where
  "sorted_list X c syn ns =
     RecordList_sort ((RecordList_new syn (so_namespaces c) (so_xpath_expr c))
       \<lparr>rl_npr_list := map (\<lambda>n. Sort_Record_new X n (so_namespaces c) (so_xpath_expr c)) ns\<rparr>)"

definition score_of :: "'d sort_env \<Rightarrow> Sort_Conf \<Rightarrow> Z_NamePlusRecord \<Rightarrow> string" where
  "score_of X c n = c_str (sr_score (Sort_Record_new X n (so_namespaces c) (so_xpath_expr c)))"

lemma RecordList_size_sorted [simp]: "RecordList_size (sorted_list X c syn ns) = int (length ns)"
  using mset_eq_length [OF score_order.mset_sort [of "map (\<lambda>n. Sort_Record_new X n (so_namespaces c) (so_xpath_expr c)) ns"]]
  by (simp add: sorted_list_def RecordList_sort_def RecordList_size_def)

lemma RecordList_cmp_sorted [simp]: "RecordList_cmp (sorted_list X c syn ns) syn"
  by (cases "syn") (simp_all add: sorted_list_def RecordList_cmp_def RecordList_sort_def RecordList_new_def)

lemma sr_npr_new [simp]: "sr_npr (Sort_Record_new X n a b) = n"
  by (simp add: Sort_Record_new_def)

lemma handle_records_correct:
  assumes "sort_target mv (pkg_session p) setid syn rcomp recs" and "1 \<le> k" and "k \<le> length recs"
    and "rs_hit_count s = int (length recs)" and "\<not> list_ex (\<lambda>rl. RecordList_cmp rl syn) (rs_record_lists s)"
    and "rl = sorted_list X c syn (take (max k (min (nat (so_prefetch c)) (length recs))) recs)"
  shows "\<exists>w'. Sort_handle_records X Y c mv p (Some (Records_DBOSD (take k recs))) 1 s syn rcomp setid w =
     Some (Some (Records_DBOSD (take k (shown_records rl (so_ascending c)))),
           s\<lparr>rs_record_lists := rs_record_lists s @ [rl]\<rparr>, w')"
proof -
  define end_pos where "end_pos = (if so_prefetch c > rs_hit_count s then rs_hit_count s else so_prefetch c)"
  have e: "end_pos \<le> int (length recs)" "nat end_pos = min (nat (so_prefetch c)) (length recs)"
    using assms(4) by (auto simp: end_pos_def)
  define rl0 where "rl0 = (RecordList_new syn (so_namespaces c) (so_xpath_expr c))
     \<lparr>rl_npr_list := map (\<lambda>n. Sort_Record_new X n (so_namespaces c) (so_xpath_expr c)) (take k recs)\<rparr>"
  have rl0: "fold (RecordList_add X) (take k recs) (RecordList_new syn (so_namespaces c) (so_xpath_expr c)) = rl0"
    by (simp add: rl0_def fold_RecordList_add RecordList_new_def)
  have len: "length (take k recs) = k" using assms(3) by simp
  have "\<exists>w'. prefetch_loop X Y mv p syn rcomp setid end_pos k (1 + int k) rl0 w =
     (rl0\<lparr>rl_npr_list := map (\<lambda>n. Sort_Record_new X n (rl_namespaces rl0) (rl_xpath_expr rl0))
        (take (max (nat (1 + int k - 1)) (nat end_pos)) recs)\<rparr>, w')"
    by (rule prefetch_loop_correct [OF assms(1)])
      (use assms(2,3) e in \<open>auto simp: rl0_def RecordList_new_def\<close>)
  then obtain w' rl1 where loop: "prefetch_loop X Y mv p syn rcomp setid end_pos k (1 + int k) rl0 w = (rl1, w')"
    and rl1: "RecordList_sort rl1 = rl"
    by (auto simp: assms(6) sorted_list_def rl0_def RecordList_new_def e(2))
  have "those (map (\<lambda>i. RecordList_get rl (int i) (so_ascending c)) [0..<k]) =
      Some (take k (shown_records rl (so_ascending c)))"
    using those_RecordList_get [of 1 k rl "so_ascending c"] assms(3) by (simp add: assms(6))
  then show ?thesis
    using assms(5) loop rl1 len by (simp add: Sort_handle_records_def rl0 end_pos_def [symmetric] Let_def)
qed

section \<open>Frontends\<close>

definition Sort_busy :: "sort_clients \<Rightarrow> 64 word \<Rightarrow> bool" where
  "Sort_busy cl i = (case cl i of Some f \<Rightarrow> so_in_use f | None \<Rightarrow> False)"

definition Sort_get :: "origin \<Rightarrow> session \<Rightarrow> sort_clients \<Rightarrow> sort_clients option" where
  "Sort_get ori s cl = map_option snd (Sort_get_frontend (Package_new s ori) cl)"

definition Sort_release :: "origin \<Rightarrow> session \<Rightarrow> sort_clients \<Rightarrow> sort_clients" where
  "Sort_release ori s cl = Sort_release_frontend (Package_new s ori) cl"

interpretation sort_pool: frontend_pool Sort_busy "Sort_get ori" "Sort_release ori"
  for ori :: origin
proof unfold_locales
  fix s :: session and cl cl' :: sort_clients and i
  show "Sort_get ori s cl = None \<longleftrightarrow> Sort_busy cl (m_id s)"
    by (auto simp: Sort_get_def Sort_get_frontend_def Sort_busy_def Package_new_def Let_def split: option.splits)
  show "Sort_get ori s cl = Some cl' \<Longrightarrow> Sort_busy cl' i \<longleftrightarrow> i = m_id s \<or> Sort_busy cl i"
    by (auto simp: Sort_get_def Sort_get_frontend_def Sort_busy_def Package_new_def Sort_Frontend_new_def
        session_map_create_def Let_def split: option.splits if_splits)
  show "Sort_busy (Sort_release ori s cl) i \<longleftrightarrow> i \<noteq> m_id s \<and> Sort_busy cl i"
    by (auto simp: Sort_release_def Sort_release_frontend_def Sort_busy_def Package_new_def
        session_map_create_def session_map_release_def split: option.splits)
qed

text \<open>The filter with the frontend of a session that was initialised and is not busy.\<close>

lemma Sort_process_virtual:
  assumes "cl (m_id (pkg_session p)) = Some f" and "so_is_virtual f" and "\<not> so_in_use f" and "\<not> is_closed p"
    and "pkg_session p' = pkg_session p"
    and "Sort_handle_package X Y c mv p (f\<lparr>so_in_use := True\<rparr>) w = Some (p', f', w')"
  shows "Sort_process X Y c mv cl p w =
     Some ((p', session_map_create cl (f'\<lparr>so_in_use := False\<rparr>) (pkg_session p)), w')"
  using assms by (simp add: Sort_process_def Sort_get_frontend_def Sort_release_frontend_def session_map_create_def Let_def)

lemma Sort_present_cached:
  assumes "cl (m_id (pkg_session q)) = Some f" and "so_is_virtual f" and "\<not> so_in_use f" and "\<not> is_closed q"
    and "pkg_request q = Some (GDU_Z3950 (APDU_presentRequest pq))"
    and "so_sets f (prq_resultSetId pq) = Some rset"
    and "find (\<lambda>rl. RecordList_cmp rl (prq_preferredRecordSyntax pq)) (rs_record_lists rset) = Some rl"
    and "1 \<le> prq_resultSetStartPoint pq" and "0 \<le> prq_numberOfRecordsRequested pq"
    and "prq_resultSetStartPoint pq - 1 + prq_numberOfRecordsRequested pq \<le> RecordList_size rl"
  shows "Sort_process X Y c mv cl q w = Some ((q\<lparr>pkg_response := Some (GDU_Z3950 (APDU_presentResponse
      ((zget_presentResponse Y)\<lparr>
         prs_nextResultSetPosition := prq_resultSetStartPoint pq + prq_numberOfRecordsRequested pq,
         prs_numberOfRecordsReturned := prq_numberOfRecordsRequested pq,
         prs_records := Some (Records_DBOSD (take (nat (prq_numberOfRecordsRequested pq))
           (drop (nat (prq_resultSetStartPoint pq - 1)) (shown_records rl (so_ascending c)))))\<rparr>)))\<rparr>, cl), w)"
    (is "_ = Some ((?q, _), _)")
proof -
  have "Sort_handle_package X Y c mv q (f\<lparr>so_in_use := True\<rparr>) w = Some (?q, f\<lparr>so_in_use := True\<rparr>, w)"
    using assms(5-10) those_RecordList_get [of "prq_resultSetStartPoint pq" "nat (prq_numberOfRecordsRequested pq)" rl]
    by (simp add: Sort_handle_package_def Sort_handle_present_def cached_response_def Let_def)
  then have "Sort_process X Y c mv cl q w =
      Some ((?q, session_map_create cl (f\<lparr>so_in_use := True\<rparr>\<lparr>so_in_use := False\<rparr>) (pkg_session q)), w)"
    by (intro Sort_process_virtual [where cl = cl and p = q and f = f]) (simp_all add: assms(1-4))
  moreover have "f\<lparr>so_in_use := True\<rparr>\<lparr>so_in_use := False\<rparr> = f" using assms(3) by (cases f) simp
  ultimately show ?thesis using assms(1) by (simp add: session_map_create_def fun_upd_idem)
qed

section \<open>Properties\<close>

lemma strcmp_eq_0: "strcmp a b = 0 \<longleftrightarrow> a = b"
  by (induction a b rule: strcmp.induct) auto

lemma Sort_Record_less_score:
  "Sort_Record_less a b \<longleftrightarrow> strcmp (c_str (sr_score a)) (c_str (sr_score b)) < 0"
  by (simp add: Sort_Record_less_def)

lemma not_less_both:
  "\<not> Sort_Record_less a b \<and> \<not> Sort_Record_less b a \<longleftrightarrow> c_str (sr_score a) = c_str (sr_score b)"
  using strcmp_swap [of "c_str (sr_score a)" "c_str (sr_score b)"] strcmp_eq_0 [of "c_str (sr_score a)" "c_str (sr_score b)"]
  by (auto simp: Sort_Record_less_score)

text \<open>
  The list kept for records shows them sorted by their scores, ascending or descending as
  configured. None is lost or repeated, and records with equal scores keep the order the
  target gave them in, or its reverse when the list is descending.\<close>
theorem sorted_list_order:
  "mset (shown_records (sorted_list X c syn ns) asc) = mset ns
   \<and> sorted_wrt (\<lambda>a b. if asc then strcmp (score_of X c a) (score_of X c b) \<le> 0
                       else strcmp (score_of X c b) (score_of X c a) \<le> 0)
       (shown_records (sorted_list X c syn ns) asc)
   \<and> filter (\<lambda>n. score_of X c n = score_of X c n0) (shown_records (sorted_list X c syn ns) asc) =
      (if asc then filter (\<lambda>n. score_of X c n = score_of X c n0) ns
       else rev (filter (\<lambda>n. score_of X c n = score_of X c n0) ns))"
proof -
  define R where "R = (\<lambda>n. Sort_Record_new X n (so_namespaces c) (so_xpath_expr c))"
  define L where "L = list_sort Sort_Record_less (map R ns)"
  have score: "c_str (sr_score (R n)) = score_of X c n" and npr: "sr_npr (R n) = n" for n
    by (simp_all add: R_def score_of_def)
  have shown: "shown_records (sorted_list X c syn ns) asc = (if asc then map sr_npr L else rev (map sr_npr L))"
    by (simp add: shown_records_def sorted_list_def RecordList_sort_def L_def R_def rev_map)
  have perm: "mset L = mset (map R ns)" unfolding L_def by (rule score_order.mset_sort)
  have elem: "x = R (sr_npr x)" if "x \<in> set L" for x
  proof -
    have "x \<in> set (map R ns)" using that perm mset_eq_setD by blast
    then show ?thesis by (auto simp: npr)
  qed
  have elem': "c_str (sr_score x) = score_of X c (sr_npr x)" if "x \<in> set L" for x
    using elem [OF that] score by metis
  have sorted: "sorted_wrt (\<lambda>a b. strcmp (score_of X c a) (score_of X c b) \<le> 0) (map sr_npr L)"
    unfolding sorted_wrt_map
  proof (rule sorted_wrt_mono_rel)
    show "sorted_wrt (\<lambda>x y. \<not> Sort_Record_less y x) L" unfolding L_def by (rule score_order.sorted_sort)
    show "strcmp (score_of X c (sr_npr x)) (score_of X c (sr_npr y)) \<le> 0"
      if "x \<in> set L" "y \<in> set L" "\<not> Sort_Record_less y x" for x y
      using that elem' strcmp_swap [of "score_of X c (sr_npr y)" "score_of X c (sr_npr x)"]
      by (simp add: Sort_Record_less_score)
  qed
  have "filter (\<lambda>x. c_str (sr_score x) = c_str (sr_score (R n0))) L =
      filter (\<lambda>x. c_str (sr_score x) = c_str (sr_score (R n0))) (map R ns)"
    using score_order.stable_sort [of "R n0" "map R ns"] unfolding L_def not_less_both .
  then have "map sr_npr (filter (\<lambda>x. score_of X c (sr_npr x) = score_of X c n0) L) =
      map sr_npr (map R (filter (\<lambda>n. score_of X c n = score_of X c n0) ns))"
    using elem' by (simp add: filter_map o_def score cong: filter_cong)
  then have stable: "filter (\<lambda>n. score_of X c n = score_of X c n0) (map sr_npr L) =
      filter (\<lambda>n. score_of X c n = score_of X c n0) ns"
    by (simp add: filter_map o_def npr)
  have "mset (map sr_npr L) = mset ns"
    using arg_cong [OF perm, of "image_mset sr_npr"] by (simp add: npr flip: mset_map) (simp add: o_def npr)
  with sorted stable show ?thesis
    unfolding shown by (cases asc) (simp_all add: sorted_wrt_rev rev_filter [symmetric])
qed


text \<open>A target with three records in XML, the score of a record being its content.\<close>

definition xml_record :: "string \<Rightarrow> Z_NamePlusRecord" where
  "xml_record s = \<lparr>npr_databaseName = None, npr_record = NPR_databaseRecord (External_octet recsyn_xml s)\<rparr>"

definition text_env :: "string sort_env" where
  "text_env = \<lparr>xmlParseMemory = Some, xmlXPathRegisterNs = (\<lambda>_ _. True),
     xmlXPathEvalExpression = (\<lambda>d _ _. Some [XPath_text [Xml_Text d]]), uninitialised_hit_count = 77\<rparr>"

definition three_records :: "Z_NamePlusRecord list" where
  "three_records = [xml_record ''c'', xml_record ''a'', xml_record ''b'']"

fun three_target :: "unit move_fn" where
  "three_target route p w =
     (case pkg_request p of
        Some (GDU_Z3950 (APDU_searchRequest rq)) \<Rightarrow>
          (p\<lparr>pkg_response := Some (GDU_Z3950 (APDU_searchResponse ((zget_searchResponse yaz_ref)
            \<lparr>srs_resultCount := 3, srs_records := Some (Records_DBOSD (take 1 three_records))\<rparr>)))\<rparr>, w)
      | Some (GDU_Z3950 (APDU_presentRequest rq)) \<Rightarrow>
          (p\<lparr>pkg_response := Some (GDU_Z3950 (APDU_presentResponse ((zget_presentResponse yaz_ref)
            \<lparr>prs_records := Some (Records_DBOSD (take (nat (prq_numberOfRecordsRequested rq))
               (drop (nat (prq_resultSetStartPoint rq - 1)) three_records)))\<rparr>)))\<rparr>, w)
      | _ \<Rightarrow> (p, w))"

lemma three_target_ok: "sort_target three_target ses setid syn rcomp three_records"
  unfolding sort_target_def
proof (intro allI impI)
  fix p :: package and w :: world and rq
  assume *: "pkg_session p = ses \<and> pkg_request p = Some (GDU_Z3950 (APDU_presentRequest rq)) \<and>
        prq_resultSetId rq = setid \<and> prq_preferredRecordSyntax rq = syn \<and> prq_recordComposition rq = rcomp \<and>
        1 \<le> prq_resultSetStartPoint rq \<and> 1 \<le> prq_numberOfRecordsRequested rq \<and>
        prq_resultSetStartPoint rq + prq_numberOfRecordsRequested rq \<le> int (length three_records) + 1"
  show "\<exists>k res. 1 \<le> k \<and> int k \<le> prq_numberOfRecordsRequested rq \<and>
      pkg_response (fst (three_target [] p w)) = Some (GDU_Z3950 (APDU_presentResponse res)) \<and>
      prs_records res = Some (Records_DBOSD (take k (drop (nat (prq_resultSetStartPoint rq - 1)) three_records)))"
    by (rule exI [of _ "nat (prq_numberOfRecordsRequested rq)"]) (use * in auto)
qed

definition sort_client :: "Z_APDU \<Rightarrow> package" where
  "sort_client apdu = (Package_new \<lparr>m_id = 5, m_close = False\<rparr> Origin_new)\<lparr>pkg_request := Some (GDU_Z3950 apdu)\<rparr>"


lemma Sort_attrs_prefetch:
  "Sort_attrs ats c = Inr c' \<Longrightarrow> 0 \<le> so_prefetch c \<Longrightarrow> 0 \<le> so_prefetch c'"
  by (induction ats c rule: Sort_attrs.induct) (auto simp: Let_def split: if_splits)

lemma Sort_element_prefetch:
  "Sort_element ptr c = Inr c' \<Longrightarrow> 0 \<le> so_prefetch c \<Longrightarrow> 0 \<le> so_prefetch c'"
  by (induction ptr c rule: Sort_element.induct) (auto split: if_splits dest: Sort_attrs_prefetch)

text \<open>
  C38. A configuration the filter accepts has an XPath expression and a prefetch limit that is
  not negative.\<close>
theorem Sort_configure_valid:
  assumes "Sort_configure ptr Sort_Conf_new = Inr c"
  shows "0 \<le> so_prefetch c \<and> so_xpath_expr c \<noteq> []"
proof -
  have run: "for_elements Sort_element (node_children ptr) Sort_Conf_new = Inr c" and "so_xpath_expr c \<noteq> []"
    using assms by (auto simp: Sort_configure_def split: sum.splits if_splits)
  moreover have "0 \<le> so_prefetch c"
    by (rule for_elements_inv [where I = "\<lambda>c. 0 \<le> so_prefetch c" and c = Sort_Conf_new, OF _ _ run])
      (auto simp: Sort_Conf_new_def dest: Sort_element_prefetch)
  ultimately show ?thesis by simp
qed

theorem Sort_configure_valid_witness:
  "0 \<le> so_prefetch (Sort_Conf_new\<lparr>so_prefetch := 5, so_xpath_expr := ''/a''\<rparr>)
   \<and> so_xpath_expr (Sort_Conf_new\<lparr>so_prefetch := 5, so_xpath_expr := ''/a''\<rparr>) \<noteq> []"
proof (rule Sort_configure_valid)
  show "Sort_configure (Xml_Element ''filter'' None [] [Xml_Element ''sort'' None
      [Xml_Attr ''prefetch'' None [Xml_Text ''5''], Xml_Attr ''xpath'' None [Xml_Text ''/a'']] []]) Sort_Conf_new =
    Inr (Sort_Conf_new\<lparr>so_prefetch := 5, so_xpath_expr := ''/a''\<rparr>)"
    by code_simp
qed

text \<open>
  The session of a package stays open when the rest of the chain closes it on a search or a
  present request: the code closes its own package instead.\<close>
theorem Sort_session_not_closed:
  assumes "pkg_request p = Some (GDU_Z3950 (APDU_searchRequest rq)) \<or> pkg_request p = Some (GDU_Z3950 (APDU_presentRequest pq))"
    and "Sort_handle_package X Y c mv p f w = Some (p', f', w')"
  shows "pkg_session p' = pkg_session p"
  using assms
  by (auto simp: Sort_handle_package_def Sort_handle_search_def Sort_handle_present_def Let_def
      split: if_splits option.splits prod.splits Z_GDU.splits Z_APDU.splits)

text \<open>
  With a descending order a present request from position 0 on makes the filter put a null
  record into the response.\<close>
theorem Sort_null_record:
  assumes "cl (m_id (pkg_session q)) = Some f" and "so_is_virtual f" and "\<not> so_in_use f"
    and "pkg_request q = Some (GDU_Z3950 (APDU_presentRequest pq))" and "\<not> so_ascending c"
    and "so_sets f (prq_resultSetId pq) = Some rset"
    and "find (\<lambda>rl. RecordList_cmp rl (prq_preferredRecordSyntax pq)) (rs_record_lists rset) = Some rl"
    and "prq_resultSetStartPoint pq = 0" and "prq_numberOfRecordsRequested pq = 1"
  shows "cached_response Y c pq rl = None \<and> Sort_process X Y c mv cl q w = None"
proof -
  have "RecordList_get rl (- 1) False = None"
    by (simp add: RecordList_get_def RecordList_size_def get_from_None)
  then have none: "cached_response Y c pq rl = None"
    using assms(5,8,9) by (simp add: cached_response_def)
  then show ?thesis
    using assms by (simp add: Sort_process_def Sort_get_frontend_def Sort_handle_package_def
        Sort_handle_present_def RecordList_size_def Let_def)
qed

end
