(* ===== verification/MP_Flexml.thy ===== *)
theory MP_Flexml
  imports MP_Core MP_Xml MP_Util
begin

text \<open>
  The router that a configuration file describes (\<open>src/router_flexml.cpp\<close>) and the factory
  it takes its filters from (\<open>src/factory_filter.cpp\<close>). Filters are objects that several
  routes may share: they live in a store, in the order of their creation, and a route is a
  list of indices. Loading of shared objects, the configuration of a filter and the inclusion
  of files are parameters.
\<close>

section \<open>The filter factory\<close>

text \<open>A creator is represented by the unconfigured filter it makes.\<close>

type_synonym 'f creators = "string \<rightharpoonup> 'f"

record 'f flexml_env =
  dl_creator :: "string \<Rightarrow> string \<Rightarrow> 'f option"
  filter_configure :: "'f \<Rightarrow> xml_node list \<Rightarrow> bool \<Rightarrow> string option \<Rightarrow> mp_exception + 'f"
  yaz_xml_include_glob :: "xml_node \<Rightarrow> string \<Rightarrow> xml_node option"

definition add_creator :: "string \<Rightarrow> 'f \<Rightarrow> 'f creators \<Rightarrow> bool \<times> 'f creators" where
  "add_creator fi cfc m = (case m fi of None \<Rightarrow> (True, m(fi \<mapsto> cfc)) | Some _ \<Rightarrow> (False, m))"

definition drop_creator :: "string \<Rightarrow> 'f creators \<Rightarrow> bool \<times> 'f creators" where
  "drop_creator fi m = (m fi \<noteq> None, m(fi := None))"

definition exist_creator :: "string \<Rightarrow> 'f creators \<Rightarrow> bool" where
  "exist_creator fi m = (case m fi of None \<Rightarrow> False | Some _ \<Rightarrow> True)"

definition create_filter :: "string \<Rightarrow> 'f creators \<Rightarrow> mp_exception + 'f" where
  "create_filter fi m =
     (case m fi of
        None \<Rightarrow> Inl (NotFound (''filter type '' @ [CHR 0x27] @ fi @ [CHR 0x27] @ '' not found''))
      | Some f \<Rightarrow> Inr f)"

definition add_creator_dl :: "'f flexml_env \<Rightarrow> string \<Rightarrow> string \<Rightarrow> 'f creators \<Rightarrow> bool \<times> 'f creators" where
  "add_creator_dl E fi path m =
     (case m fi of
        Some _ \<Rightarrow> (True, m)
      | None \<Rightarrow> (case dl_creator E fi path of None \<Rightarrow> (False, m) | Some c \<Rightarrow> add_creator fi c m))"

section \<open>State\<close>

text \<open>
  \<open>std::map<std::string, T>\<close>, which \<open>start\<close> and \<open>stop\<close> visit in the order of its
  keys: an association list with increasing keys.
\<close>

fun smap_find :: "string \<Rightarrow> (string \<times> 'v) list \<Rightarrow> 'v option" where
  "smap_find k [] = None"
| "smap_find k ((k', v) # es) = (if k = k' then Some v else smap_find k es)"

fun smap_put :: "string \<Rightarrow> 'v \<Rightarrow> (string \<times> 'v) list \<Rightarrow> (string \<times> 'v) list" where
  "smap_put k v [] = [(k, v)]"
| "smap_put k v ((k', v') # es) =
     (if memcmp2 k k' < 0 then (k, v) # (k', v') # es
      else if memcmp2 k' k < 0 then (k', v') # smap_put k v es
      else (k', v) # es)"

record 'f RouterFleXML =
  fx_store :: "'f list"
  fx_id_filter_map :: "(string \<times> nat) list"
  fx_routes :: "(string \<times> nat list) list"
  fx_start_route :: string
  fx_dl_path :: string
  fx_factory :: "'f creators"

section \<open>Reading the configuration\<close>

text \<open>
  The loop over the attributes of an element: the accepted names with their values so far, and
  the beginning of the error message for any other but \<open>base\<close>.
\<close>

fun fx_attrs :: "string list \<Rightarrow> string \<Rightarrow> xml_attr list \<Rightarrow> string list \<Rightarrow> mp_exception + string list" where
  "fx_attrs names msg [] vals = Inr vals"
| "fx_attrs names msg (a # ats) vals =
     (case name_index names (attr_name a) of
        Some i \<Rightarrow> fx_attrs names msg ats (vals[i := attr_first_text a])
      | None \<Rightarrow>
          if attr_name a = ''base'' then fx_attrs names msg ats vals
          else Inl (XMLError (msg @ '' Got '' @ attr_name a)))"

text \<open>A new filter of a type, configured by the element: its index in the store.\<close>

definition fx_new_filter :: "'f flexml_env \<Rightarrow> bool \<Rightarrow> string option \<Rightarrow> xml_node list \<Rightarrow> string
    \<Rightarrow> 'f RouterFleXML \<Rightarrow> mp_exception + nat \<times> 'f RouterFleXML" where
  "fx_new_filter E test_only path node type_value st =
     (let st = (if \<not> exist_creator type_value (fx_factory st)
                then st\<lparr>fx_factory := snd (add_creator_dl E type_value (fx_dl_path st) (fx_factory st))\<rparr>
                else st)
      in case create_filter type_value (fx_factory st) of
           Inl e \<Rightarrow> Inl e
         | Inr fb \<Rightarrow>
             (case filter_configure E fb node test_only path of
                Inl e \<Rightarrow> Inl e
              | Inr fb \<Rightarrow> Inr (length (fx_store st), st\<lparr>fx_store := fx_store st @ [fb]\<rparr>)))"

lemma jump_to_length: "length (jump_to ns t) \<le> length ns"
  by (induction ns) auto

function parse_xml_filters :: "'f flexml_env \<Rightarrow> bool \<Rightarrow> string option \<Rightarrow> xml_node list \<Rightarrow> 'f RouterFleXML
    \<Rightarrow> mp_exception + 'f RouterFleXML" where
  "parse_xml_filters E test_only path [] st = Inr st"
| "parse_xml_filters E test_only path (n # rest) st =
     (case check_element_mp (n # rest) ''filter'' of
        Inl e \<Rightarrow> Inl e
      | Inr _ \<Rightarrow>
          (case fx_attrs [''id'', ''type''] ''Only attribute id or type allowed in filter element.''
                  (node_attrs n) [[], []] of
             Inl e \<Rightarrow> Inl e
           | Inr vals \<Rightarrow>
               (let id_value = vals ! 0; type_value = vals ! 1 in
                case fx_new_filter E test_only path (n # rest) type_value st of
                  Inl e \<Rightarrow> Inl e
                | Inr (fb, st) \<Rightarrow>
                    if smap_find id_value (fx_id_filter_map st) \<noteq> None
                    then Inl (XMLError (''Filter '' @ id_value @ '' already defined''))
                    else parse_xml_filters E test_only path (jump_to rest XML_ELEMENT_NODE)
                      (st\<lparr>fx_id_filter_map := smap_put id_value fb (fx_id_filter_map st)\<rparr>))))"
  by pat_completeness auto
termination
  by (relation "measure (\<lambda>(E, t, p, ns, st). length ns)") (auto simp: le_imp_less_Suc jump_to_length)

text \<open>The size of a list of nodes, which every step of the recursive loops makes smaller.\<close>

abbreviation nodes_size :: "xml_node list \<Rightarrow> nat" where
  "nodes_size ns \<equiv> size_list size ns"

lemma jump_to_size: "nodes_size (jump_to ns t) \<le> nodes_size ns"
  by (induction ns) auto

lemma children_size: "nodes_size (node_children n) \<le> size n"
  by (cases n) auto

function parse_xml_filters1 :: "'f flexml_env \<Rightarrow> bool \<Rightarrow> string option \<Rightarrow> xml_node list
    \<Rightarrow> 'f RouterFleXML \<times> nat list \<Rightarrow> mp_exception + 'f RouterFleXML \<times> nat list" where
  "parse_xml_filters1 E test_only path [] sr = Inr sr"
| "parse_xml_filters1 E test_only path (n # rest) (st, route) =
     (if is_element_mp (n # rest) ''filters''
      then (case parse_xml_filters1 E test_only path (jump_to (node_children n) XML_ELEMENT_NODE) (st, route) of
              Inl e \<Rightarrow> Inl e
            | Inr sr \<Rightarrow> parse_xml_filters1 E test_only path (jump_to rest XML_ELEMENT_NODE) sr)
      else (case check_element_mp (n # rest) ''filter'' of
              Inl e \<Rightarrow> Inl e
            | Inr _ \<Rightarrow>
                (case fx_attrs [''refid'', ''type'']
                        (''Only attribute '' @ [CHR 0x27] @ ''refid'' @ [CHR 0x27] @ '' or '' @ [CHR 0x27] @ ''type''
                          @ [CHR 0x27] @ '' allowed for element '' @ [CHR 0x27] @ ''filter'' @ [CHR 0x27] @ ''.'')
                        (node_attrs n) [[], []] of
                   Inl e \<Rightarrow> Inl e
                 | Inr vals \<Rightarrow>
                     (let refid_value = vals ! 0; type_value = vals ! 1 in
                      if length refid_value \<noteq> 0
                      then (case smap_find refid_value (fx_id_filter_map st) of
                              None \<Rightarrow> Inl (XMLError (''Unknown filter refid '' @ refid_value))
                            | Some f \<Rightarrow> parse_xml_filters1 E test_only path (jump_to rest XML_ELEMENT_NODE) (st, route @ [f]))
                      else if length type_value \<noteq> 0
                      then (case fx_new_filter E test_only path (n # rest) type_value st of
                              Inl e \<Rightarrow> Inl e
                            | Inr (f, st) \<Rightarrow>
                                parse_xml_filters1 E test_only path (jump_to rest XML_ELEMENT_NODE) (st, route @ [f]))
                      else parse_xml_filters1 E test_only path (jump_to rest XML_ELEMENT_NODE) (st, route)))))"
  by pat_completeness auto
termination
proof (relation "measure (\<lambda>(E, t, p, ns, sr). nodes_size ns)", goal_cases)
  case (2 E t p n rest st route)
  then show ?case using jump_to_size [of "node_children n" XML_ELEMENT_NODE] children_size [of n] by simp
qed (auto simp: less_Suc_eq_le intro: le_trans [OF jump_to_size] trans_le_add2)

function routes_loop :: "'f flexml_env \<Rightarrow> bool \<Rightarrow> string option \<Rightarrow> xml_node list \<Rightarrow> 'f RouterFleXML
    \<Rightarrow> mp_exception + 'f RouterFleXML" where
  "routes_loop E test_only path [] st = Inr st"
| "routes_loop E test_only path (n # rest) st =
     (if \<not> is_element_mp (n # rest) ''route'' then Inr st
      else
        (case fx_attrs [''id'']
                (''Only attribute '' @ [CHR 0x27] @ ''id'' @ [CHR 0x27] @ '' allowed for element '' @ [CHR 0x27]
                  @ ''route'' @ [CHR 0x27] @ ''.'') (node_attrs n) [[]] of
           Inl e \<Rightarrow> Inl e
         | Inr vals \<Rightarrow>
             (let id_value = vals ! 0 in
              case parse_xml_filters1 E test_only path (jump_to (node_children n) XML_ELEMENT_NODE) (st, []) of
                Inl e \<Rightarrow> Inl e
              | Inr (st, route) \<Rightarrow>
                  if smap_find id_value (fx_routes st) \<noteq> None
                  then Inl (XMLError (''Route id='' @ [CHR 0x27] @ id_value @ [CHR 0x27] @ '' already exist''))
                  else routes_loop E test_only path (jump_to rest XML_ELEMENT_NODE)
                    (st\<lparr>fx_routes := smap_put id_value route (fx_routes st)\<rparr>))))"
  by pat_completeness auto
termination
  by (relation "measure (\<lambda>(E, t, p, ns, st). length ns)") (auto simp: le_imp_less_Suc jump_to_length)

definition parse_xml_routes :: "'f flexml_env \<Rightarrow> bool \<Rightarrow> string option \<Rightarrow> xml_node list \<Rightarrow> 'f RouterFleXML
    \<Rightarrow> mp_exception + 'f RouterFleXML" where
  "parse_xml_routes E test_only path node st =
     (case check_element_mp node ''route'' of
        Inl e \<Rightarrow> Inl e
      | Inr _ \<Rightarrow> routes_loop E test_only path node st)"

text \<open>The \<open>route\<close> attributes one level below a filter.\<close>

fun check_route_attrs :: "(string \<times> nat list) list \<Rightarrow> xml_attr list \<Rightarrow> mp_exception + unit" where
  "check_route_attrs routes [] = Inr ()"
| "check_route_attrs routes (a # ats) =
     (if attr_name a = ''route'' \<and> smap_find (attr_first_text a) routes = None
      then Inl (XMLError (''Route '' @ [CHR 0x27] @ attr_first_text a @ [CHR 0x27] @ '' does not exist''))
      else check_route_attrs routes ats)"

function check_filter_children :: "(string \<times> nat list) list \<Rightarrow> xml_node list \<Rightarrow> mp_exception + unit" where
  "check_filter_children routes [] = Inr ()"
| "check_filter_children routes (n # rest) =
     (case check_route_attrs routes (node_attrs n) of
        Inl e \<Rightarrow> Inl e
      | Inr _ \<Rightarrow> check_filter_children routes (jump_to rest XML_ELEMENT_NODE))"
  by pat_completeness auto
termination
  by (relation "measure (\<lambda>(r, ns). length ns)") (auto simp: le_imp_less_Suc jump_to_length)

function check_routes_in_filters :: "(string \<times> nat list) list \<Rightarrow> xml_node list \<Rightarrow> mp_exception + unit" where
  "check_routes_in_filters routes [] = Inr ()"
| "check_routes_in_filters routes (n # rest) =
     (case (if is_element_mp (n # rest) ''filters''
            then check_routes_in_filters routes (jump_to (node_children n) XML_ELEMENT_NODE)
            else if is_element_mp (n # rest) ''filter''
            then check_filter_children routes (jump_to (node_children n) XML_ELEMENT_NODE)
            else Inr ()) of
        Inl e \<Rightarrow> Inl e
      | Inr _ \<Rightarrow> check_routes_in_filters routes (jump_to rest XML_ELEMENT_NODE))"
  by pat_completeness auto
termination
proof (relation "measure (\<lambda>(r, ns). nodes_size ns)", goal_cases)
  case (2 routes n rest)
  then show ?case using jump_to_size [of "node_children n" XML_ELEMENT_NODE] children_size [of n] by simp
qed (auto simp: less_Suc_eq_le intro: le_trans [OF jump_to_size] trans_le_add2)

function check_routes :: "(string \<times> nat list) list \<Rightarrow> xml_node list \<Rightarrow> mp_exception + unit" where
  "check_routes routes [] = Inr ()"
| "check_routes routes (n # rest) =
     (case (if is_element_mp (n # rest) ''route''
            then check_routes_in_filters routes (jump_to (node_children n) XML_ELEMENT_NODE)
            else Inr ()) of
        Inl e \<Rightarrow> Inl e
      | Inr _ \<Rightarrow> check_routes routes (jump_to rest XML_ELEMENT_NODE))"
  by pat_completeness auto
termination
  by (relation "measure (\<lambda>(r, ns). length ns)") (auto simp: le_imp_less_Suc jump_to_length)

function check_config_routes :: "(string \<times> nat list) list \<Rightarrow> xml_node list \<Rightarrow> mp_exception + unit" where
  "check_config_routes routes [] = Inr ()"
| "check_config_routes routes (n # rest) =
     (case (if is_element_mp (n # rest) ''filters''
            then check_routes_in_filters routes (jump_to (node_children n) XML_ELEMENT_NODE)
            else if is_element_mp (n # rest) ''routes''
            then check_routes routes (jump_to (node_children n) XML_ELEMENT_NODE)
            else Inr ()) of
        Inl e \<Rightarrow> Inl e
      | Inr _ \<Rightarrow> check_config_routes routes (jump_to rest XML_ELEMENT_NODE))"
  by pat_completeness auto
termination
  by (relation "measure (\<lambda>(r, ns). length ns)") (auto simp: le_imp_less_Suc jump_to_length)

text \<open>
  The sections of the configuration, each given the node the walk has reached: the result is
  the node behind it. \<open>jump_to\<close> finds the next element, \<open>[]\<close> is the null pointer.
\<close>

definition next_element :: "xml_node list \<Rightarrow> xml_node list" where
  "next_element node = jump_to (tl node) XML_ELEMENT_NODE"

definition child_elements :: "xml_node list \<Rightarrow> xml_node list" where
  "child_elements node = jump_to (node_children (hd node)) XML_ELEMENT_NODE"

definition config_dlpath :: "xml_node list \<Rightarrow> 'f RouterFleXML \<Rightarrow> xml_node list \<times> 'f RouterFleXML" where
  "config_dlpath node st =
     (if is_element_mp node ''dlpath'' then (next_element node, st\<lparr>fx_dl_path := get_text node\<rparr>)
      else (node, st))"

definition config_start :: "xml_node list \<Rightarrow> 'f RouterFleXML \<Rightarrow> mp_exception + xml_node list \<times> 'f RouterFleXML" where
  "config_start node st =
     (case check_element_mp node ''start'' of
        Inl e \<Rightarrow> Inl e
      | Inr _ \<Rightarrow>
          (case fx_attrs [''route'']
                  (''Only attribute route allowed in element '' @ [CHR 0x27] @ ''start'' @ [CHR 0x27] @ ''.'')
                  (node_attrs (hd node)) [fx_start_route st] of
             Inl e \<Rightarrow> Inl e
           | Inr vals \<Rightarrow> Inr (next_element node, st\<lparr>fx_start_route := vals ! 0\<rparr>)))"

definition config_filters :: "'f flexml_env \<Rightarrow> bool \<Rightarrow> string option \<Rightarrow> xml_node list \<Rightarrow> 'f RouterFleXML
    \<Rightarrow> mp_exception + xml_node list \<times> 'f RouterFleXML" where
  "config_filters E test_only path node st =
     (if is_element_mp node ''filters''
      then (case parse_xml_filters E test_only path (child_elements node) st of
              Inl e \<Rightarrow> Inl e
            | Inr st \<Rightarrow> Inr (next_element node, st))
      else Inr (node, st))"

definition config_routes :: "'f flexml_env \<Rightarrow> bool \<Rightarrow> string option \<Rightarrow> xml_node list \<Rightarrow> 'f RouterFleXML
    \<Rightarrow> mp_exception + 'f RouterFleXML" where
  "config_routes E test_only path node st =
     (case check_element_mp node ''routes'' of
        Inl e \<Rightarrow> Inl e
      | Inr _ \<Rightarrow>
          (case parse_xml_routes E test_only path (child_elements node) st of
             Inl e \<Rightarrow> Inl e
           | Inr st \<Rightarrow>
               (case next_element node of
                  [] \<Rightarrow> Inr st
                | n # _ \<Rightarrow> Inl (XMLError (''Unexpected element '' @ node_name n)))))"

definition parse_xml_config_dom :: "'f flexml_env \<Rightarrow> bool \<Rightarrow> string option \<Rightarrow> xml_node option \<Rightarrow> 'f RouterFleXML
    \<Rightarrow> mp_exception + 'f RouterFleXML" where
  "parse_xml_config_dom E test_only path doc st =
     (case doc of
        None \<Rightarrow> Inl (XMLError ''Empty XML Document'')
      | Some root \<Rightarrow>
          (case (case path of None \<Rightarrow> Some root | Some pa \<Rightarrow> yaz_xml_include_glob E root pa) of
             None \<Rightarrow> Inl (XMLError ''YAZ XML Include failed'')
           | Some root \<Rightarrow>
               (case check_element_mp [root] ''metaproxy'' of
                  Inl e \<Rightarrow> Inl e
                | Inr _ \<Rightarrow>
                    (let (node, st) = config_dlpath (child_elements [root]) st in
                     case config_start node st of
                       Inl e \<Rightarrow> Inl e
                     | Inr (node, st) \<Rightarrow>
                         (case config_filters E test_only path node st of
                            Inl e \<Rightarrow> Inl e
                          | Inr (node, st) \<Rightarrow>
                              (case config_routes E test_only path node st of
                                 Inl e \<Rightarrow> Inl e
                               | Inr st \<Rightarrow>
                                   (case check_config_routes (fx_routes st) (child_elements [root]) of
                                      Inl e \<Rightarrow> Inl e
                                    | Inr _ \<Rightarrow>
                                        if smap_find (fx_start_route st) (fx_routes st) = None
                                        then Inl (XMLError (''Start route '' @ [CHR 0x27] @ fx_start_route st
                                               @ [CHR 0x27] @ '' not found''))
                                        else Inr st)))))))"

definition RouterFleXML_base :: "'f flexml_env \<Rightarrow> 'f creators \<Rightarrow> bool \<Rightarrow> string option \<Rightarrow> xml_node option
    \<Rightarrow> mp_exception + 'f RouterFleXML" where
  "RouterFleXML_base E factory test_only path doc =
     parse_xml_config_dom E test_only path doc
       \<lparr>fx_store = [], fx_id_filter_map = [], fx_routes = [], fx_start_route = ''start'', fx_dl_path = [],
        fx_factory = factory\<rparr>"

section \<open>Positions on a route\<close>

text \<open>
  The iterator into the table of routes is the name of a route, \<open>None\<close> for \<open>end()\<close>,
  and the iterator into its list of filters an index. The table does not change once the
  router is configured.
\<close>

record flexml_pos =
  fp_route :: "string option"
  fp_filter :: nat

text \<open>\<open>None\<close> is the use of the end iterator of the table of routes.\<close>

definition FleXML_step :: "(string \<times> nat list) list \<Rightarrow> flexml_pos \<Rightarrow> (nat option \<times> flexml_pos) option" where
  "FleXML_step routes pos =
     (case fp_route pos of
        None \<Rightarrow> None
      | Some r \<Rightarrow>
          (case smap_find r routes of
             None \<Rightarrow> None
           | Some l \<Rightarrow>
               if fp_filter pos = length l then Some (None, pos)
               else Some (Some (l ! fp_filter pos), pos\<lparr>fp_filter := fp_filter pos + 1\<rparr>)))"

definition FleXML_Pos_move :: "(string \<times> nat list) list \<Rightarrow> string \<Rightarrow> flexml_pos \<Rightarrow> (nat option \<times> flexml_pos) option" where
  "FleXML_Pos_move routes route pos =
     (if route \<noteq> []
      then (case smap_find route routes of
              None \<Rightarrow> Some (None, pos\<lparr>fp_route := None\<rparr>)
            | Some l \<Rightarrow> FleXML_step routes (pos\<lparr>fp_route := Some route, fp_filter := 0\<rparr>))
      else FleXML_step routes pos)"

definition FleXML_createpos :: "'f RouterFleXML \<Rightarrow> flexml_pos option" where
  "FleXML_createpos st =
     (case smap_find (fx_start_route st) (fx_routes st) of
        None \<Rightarrow> None
      | Some l \<Rightarrow> Some \<lparr>fp_route = Some (fx_start_route st), fp_filter = 0\<rparr>)"

definition FleXML_Pos_clone :: "flexml_pos \<Rightarrow> flexml_pos" where
  "FleXML_Pos_clone pos = \<lparr>fp_route = fp_route pos, fp_filter = fp_filter pos\<rparr>"

text \<open>\<open>start()\<close> and \<open>stop(signo)\<close>: every filter of every route, in the order of the names.\<close>

fun FleXML_foreach :: "(nat \<Rightarrow> 's \<Rightarrow> 's) \<Rightarrow> (string \<times> nat list) list \<Rightarrow> 's \<Rightarrow> 's" where
  "FleXML_foreach act [] s = s"
| "FleXML_foreach act ((k, l) # routes) s = FleXML_foreach act routes (RouterChain_foreach act l s)"

section \<open>Lemmas\<close>

lemma is_element_mp_hd: "is_element_mp (n # rest) nm \<longleftrightarrow> is_element_mp [n] nm"
  by (cases n) (simp_all add: is_element_mp_def)

lemma memcmp2_both: "\<not> memcmp2 k k' < 0 \<Longrightarrow> \<not> memcmp2 k' k < 0 \<Longrightarrow> k = k'"
proof -
  have "(map of_char k, map of_char k') \<in> lexord {(x, y). (x :: nat) < y} \<or> map of_char k = (map of_char k' :: nat list)
      \<or> (map of_char k', map of_char k) \<in> lexord {(x, y). (x :: nat) < y}"
    by (rule lexord_linear) auto
  then show "\<not> memcmp2 k k' < 0 \<Longrightarrow> \<not> memcmp2 k' k < 0 \<Longrightarrow> k = k'"
    by (auto simp: memcmp2_lexord inj_map_eq_map [OF inj_of_char] split: if_splits)
qed

lemma memcmp2_irrefl [simp]: "memcmp2 k k = 0"
  by (induction k) auto

lemma smap_find_put: "smap_find k (smap_put k' v m) = (if k = k' then Some v else smap_find k m)"
  by (induction k' v m rule: smap_put.induct) (auto dest: memcmp2_both)

lemma smap_find_Some: "smap_find k m = Some v \<Longrightarrow> (k, v) \<in> set m"
  by (induction k m rule: smap_find.induct) (auto split: if_splits)

lemma set_smap_put: "set (smap_put k v m) \<subseteq> insert (k, v) (set m)"
  by (induction k v m rule: smap_put.induct) (auto dest: memcmp2_both)

lemma set_jump_to: "set (jump_to ns t) \<subseteq> set ns"
  by (induction ns) auto

lemma jump_to_keeps: "n \<in> set ns \<Longrightarrow> node_type n = t \<Longrightarrow> n \<in> set (jump_to ns t)"
  by (induction ns) auto

text \<open>What the store and the tables of a router have in common.\<close>

definition flexml_wf :: "'f RouterFleXML \<Rightarrow> bool" where
  "flexml_wf st \<longleftrightarrow>
     (\<forall>(id, f) \<in> set (fx_id_filter_map st). f < length (fx_store st)) \<and>
     (\<forall>(id, route) \<in> set (fx_routes st). \<forall>f \<in> set route. f < length (fx_store st))"

lemma flexml_wf_update [simp]:
  "flexml_wf (st\<lparr>fx_start_route := r\<rparr>) = flexml_wf st" "flexml_wf (st\<lparr>fx_dl_path := d\<rparr>) = flexml_wf st"
  by (simp_all add: flexml_wf_def)

lemma fx_new_filter_ok:
  assumes "fx_new_filter E test_only path node ty st = Inr (f, st')"
  shows "f = length (fx_store st) \<and> length (fx_store st') = Suc (length (fx_store st)) \<and>
     fx_id_filter_map st' = fx_id_filter_map st \<and> fx_routes st' = fx_routes st \<and> fx_start_route st' = fx_start_route st"
  using assms by (auto simp: fx_new_filter_def Let_def split: sum.splits if_splits)

lemma flexml_wf_new:
  "fx_new_filter E test_only path node ty st = Inr (f, st') \<Longrightarrow> flexml_wf st \<Longrightarrow> flexml_wf st'"
  by (frule fx_new_filter_ok) (fastforce simp: flexml_wf_def)

lemma parse_xml_filters_wf:
  "parse_xml_filters E test_only path ns st = Inr st' \<Longrightarrow> flexml_wf st \<Longrightarrow>
   flexml_wf st' \<and> fx_routes st' = fx_routes st"
proof (induction E test_only path ns st rule: parse_xml_filters.induct)
  case (2 E test_only path n rest st)
  from "2.prems"(1) obtain vals u fb st1 where c: "check_element_mp (n # rest) ''filter'' = Inr u"
      "fx_attrs [''id'', ''type''] ''Only attribute id or type allowed in filter element.'' (node_attrs n) [[], []] = Inr vals"
    and nf: "fx_new_filter E test_only path (n # rest) (vals ! 1) st = Inr (fb, st1)"
    and id: "\<not> smap_find (vals ! 0) (fx_id_filter_map st1) \<noteq> None"
    and rest: "parse_xml_filters E test_only path (jump_to rest XML_ELEMENT_NODE)
       (st1\<lparr>fx_id_filter_map := smap_put (vals ! 0) fb (fx_id_filter_map st1)\<rparr>) = Inr st'"
    by (auto simp: Let_def split: sum.splits if_splits prod.splits)
  have "flexml_wf (st1\<lparr>fx_id_filter_map := smap_put (vals ! 0) fb (fx_id_filter_map st1)\<rparr>)"
    using flexml_wf_new [OF nf "2.prems"(2)] fx_new_filter_ok [OF nf] set_smap_put [of "vals ! 0" fb "fx_id_filter_map st1"]
    by (fastforce simp: flexml_wf_def)
  with "2.IH" [OF c refl refl nf refl id rest] fx_new_filter_ok [OF nf] show ?case by simp
qed simp

lemma parse_xml_filters1_wf:
  "parse_xml_filters1 E test_only path ns sr = Inr sr' \<Longrightarrow> flexml_wf (fst sr) \<Longrightarrow>
   \<forall>f \<in> set (snd sr). f < length (fx_store (fst sr)) \<Longrightarrow>
   flexml_wf (fst sr') \<and> (\<forall>f \<in> set (snd sr'). f < length (fx_store (fst sr'))) \<and>
   fx_routes (fst sr') = fx_routes (fst sr) \<and> fx_start_route (fst sr') = fx_start_route (fst sr)"
proof (induction E test_only path ns sr arbitrary: sr' rule: parse_xml_filters1.induct)
  case (2 E test_only path n rest st route)
  note prems = "2.prems" [unfolded fst_conv snd_conv]
  show ?case
  proof (cases "is_element_mp (n # rest) ''filters''")
    case True
    with prems(1) obtain sr1 where
        one: "parse_xml_filters1 E test_only path (jump_to (node_children n) XML_ELEMENT_NODE) (st, route) = Inr sr1"
      and two: "parse_xml_filters1 E test_only path (jump_to rest XML_ELEMENT_NODE) sr1 = Inr sr'"
      by (auto split: sum.splits)
    from "2.IH"(1) [OF True one] prems(2,3) have sr1: "flexml_wf (fst sr1)" "\<forall>f \<in> set (snd sr1). f < length (fx_store (fst sr1))"
        "fx_routes (fst sr1) = fx_routes st" "fx_start_route (fst sr1) = fx_start_route st" by simp_all
    from "2.IH"(2) [OF True one two sr1(1,2)] sr1(3,4) show ?thesis by simp
  next
    case False
    let ?msg = "''Only attribute '' @ [CHR 0x27] @ ''refid'' @ [CHR 0x27] @ '' or '' @ [CHR 0x27] @ ''type''
       @ [CHR 0x27] @ '' allowed for element '' @ [CHR 0x27] @ ''filter'' @ [CHR 0x27] @ ''.''"
    from False prems(1) obtain u vals where c: "check_element_mp (n # rest) ''filter'' = Inr u"
      and vals: "fx_attrs [''refid'', ''type''] ?msg (node_attrs n) [[], []] = Inr vals"
      by (auto split: sum.splits)
    consider (ref) f where "length (vals ! 0) \<noteq> 0" "smap_find (vals ! 0) (fx_id_filter_map st) = Some f"
        "parse_xml_filters1 E test_only path (jump_to rest XML_ELEMENT_NODE) (st, route @ [f]) = Inr sr'"
      | (new) f st1 where "\<not> length (vals ! 0) \<noteq> 0" "length (vals ! 1) \<noteq> 0"
        "fx_new_filter E test_only path (n # rest) (vals ! 1) st = Inr (f, st1)"
        "parse_xml_filters1 E test_only path (jump_to rest XML_ELEMENT_NODE) (st1, route @ [f]) = Inr sr'"
      | (neither) "\<not> length (vals ! 0) \<noteq> 0" "\<not> length (vals ! 1) \<noteq> 0"
        "parse_xml_filters1 E test_only path (jump_to rest XML_ELEMENT_NODE) (st, route) = Inr sr'"
      using prems(1) False c vals by (auto simp: Let_def split: sum.splits if_splits option.splits prod.splits)
    then show ?thesis
    proof cases
      case ref
      have "f < length (fx_store st)" using smap_find_Some [OF ref(2)] prems(2) by (auto simp: flexml_wf_def)
      with "2.IH"(3) [OF False c vals refl refl ref(1,2,3)] prems(2,3) show ?thesis by simp
    next
      case new
      note ok = fx_new_filter_ok [OF new(3)]
      from prems(3) ok have "\<forall>g \<in> set (route @ [f]). g < length (fx_store st1)" by (auto intro: less_SucI)
      with "2.IH"(4) [OF False c vals refl refl new(1,2,3) refl new(4)] flexml_wf_new [OF new(3) prems(2)] ok
      show ?thesis by simp
    next
      case neither
      with "2.IH"(5) [OF False c vals refl refl neither] prems(2,3) show ?thesis by simp
    qed
  qed
qed simp

lemma routes_loop_wf:
  "routes_loop E test_only path ns st = Inr st' \<Longrightarrow> flexml_wf st \<Longrightarrow> flexml_wf st'"
proof (induction E test_only path ns st rule: routes_loop.induct)
  case (2 E test_only path n rest st)
  let ?msg = "''Only attribute '' @ [CHR 0x27] @ ''id'' @ [CHR 0x27] @ '' allowed for element '' @ [CHR 0x27]
       @ ''route'' @ [CHR 0x27] @ ''.''"
  show ?case
  proof (cases "\<not> is_element_mp (n # rest) ''route''")
    case False
    with "2.prems"(1) obtain vals st1 route where vals: "fx_attrs [''id''] ?msg (node_attrs n) [[]] = Inr vals"
      and fs: "parse_xml_filters1 E test_only path (jump_to (node_children n) XML_ELEMENT_NODE) (st, []) = Inr (st1, route)"
      and id: "\<not> smap_find (vals ! 0) (fx_routes st1) \<noteq> None"
      and rest: "routes_loop E test_only path (jump_to rest XML_ELEMENT_NODE)
        (st1\<lparr>fx_routes := smap_put (vals ! 0) route (fx_routes st1)\<rparr>) = Inr st'"
      by (auto simp: Let_def split: sum.splits if_splits prod.splits)
    have "flexml_wf (st1\<lparr>fx_routes := smap_put (vals ! 0) route (fx_routes st1)\<rparr>)"
      using parse_xml_filters1_wf [OF fs] "2.prems"(2) set_smap_put [of "vals ! 0" route "fx_routes st1"]
      by (fastforce simp: flexml_wf_def)
    with "2.IH" [OF False vals refl fs refl id rest] show ?thesis by simp
  qed (use "2.prems" in simp)
qed simp

section \<open>References to routes\<close>

text \<open>The filters of a section, those of nested \<open>filters\<close> elements included.\<close>

inductive filter_in :: "xml_node list \<Rightarrow> xml_node \<Rightarrow> bool" where
  here: "n \<in> set ns \<Longrightarrow> is_element_mp [n] ''filter'' \<Longrightarrow> filter_in ns n"
| nested: "m \<in> set ns \<Longrightarrow> is_element_mp [m] ''filters'' \<Longrightarrow> filter_in (node_children m) n \<Longrightarrow> filter_in ns n"

text \<open>The filters of a configuration: of its \<open>filters\<close> section and of its routes.\<close>

inductive config_filter :: "xml_node \<Rightarrow> xml_node \<Rightarrow> bool" where
  in_section: "s \<in> set (node_children root) \<Longrightarrow> is_element_mp [s] ''filters'' \<Longrightarrow> filter_in (node_children s) n
     \<Longrightarrow> config_filter root n"
| in_route: "s \<in> set (node_children root) \<Longrightarrow> is_element_mp [s] ''routes'' \<Longrightarrow> r \<in> set (node_children s)
     \<Longrightarrow> is_element_mp [r] ''route'' \<Longrightarrow> filter_in (node_children r) n \<Longrightarrow> config_filter root n"

lemma is_element_mp_type: "is_element_mp [n] nm \<Longrightarrow> node_type n = XML_ELEMENT_NODE"
  by (cases n) (simp_all add: is_element_mp_def)

lemma is_element_mp_unique: "is_element_mp [n] a \<Longrightarrow> is_element_mp [n] b \<longleftrightarrow> a = b"
  by (cases n) (auto simp: is_element_mp_def)

lemma check_route_attrs_ok:
  "check_route_attrs routes ats = Inr u \<Longrightarrow> a \<in> set ats \<Longrightarrow> attr_name a = ''route'' \<Longrightarrow>
   smap_find (attr_first_text a) routes \<noteq> None"
  by (induction routes ats rule: check_route_attrs.induct) (auto split: if_splits)

lemma check_filter_children_ok:
  "check_filter_children routes (jump_to ns XML_ELEMENT_NODE) = Inr u \<Longrightarrow> n \<in> set ns \<Longrightarrow>
   node_type n = XML_ELEMENT_NODE \<Longrightarrow> \<exists>v. check_route_attrs routes (node_attrs n) = Inr v"
  by (induction ns) (auto split: if_splits sum.splits)

lemma check_routes_in_filters_ok:
  "check_routes_in_filters routes (jump_to ns XML_ELEMENT_NODE) = Inr u \<Longrightarrow> m \<in> set ns \<Longrightarrow>
   (is_element_mp [m] ''filters'' \<longrightarrow>
      (\<exists>v. check_routes_in_filters routes (jump_to (node_children m) XML_ELEMENT_NODE) = Inr v)) \<and>
   (is_element_mp [m] ''filter'' \<longrightarrow>
      (\<exists>v. check_filter_children routes (jump_to (node_children m) XML_ELEMENT_NODE) = Inr v))"
proof (induction ns)
  case (Cons n ns)
  show ?case
  proof (cases "node_type n = XML_ELEMENT_NODE")
    case True
    with Cons show ?thesis
      by (auto simp: is_element_mp_hd [of n ns] is_element_mp_unique split: sum.splits if_splits)
  next
    case False
    with Cons show ?thesis by (auto dest: is_element_mp_type)
  qed
qed simp

lemma check_filter_in:
  "filter_in ns n \<Longrightarrow> check_routes_in_filters routes (jump_to ns XML_ELEMENT_NODE) = Inr u \<Longrightarrow>
   \<exists>v. check_filter_children routes (jump_to (node_children n) XML_ELEMENT_NODE) = Inr v"
proof (induction arbitrary: u rule: filter_in.induct)
  case (here n ns)
  then show ?case using check_routes_in_filters_ok by blast
next
  case (nested m ns n)
  then show ?case using check_routes_in_filters_ok by blast
qed

lemma check_routes_ok:
  "check_routes routes (jump_to ns XML_ELEMENT_NODE) = Inr u \<Longrightarrow> r \<in> set ns \<Longrightarrow> is_element_mp [r] ''route'' \<Longrightarrow>
   \<exists>v. check_routes_in_filters routes (jump_to (node_children r) XML_ELEMENT_NODE) = Inr v"
proof (induction ns)
  case (Cons n ns)
  then show ?case
    by (cases "node_type n = XML_ELEMENT_NODE")
      (auto simp: is_element_mp_hd [of n ns] split: sum.splits if_splits dest: is_element_mp_type)
qed simp

lemma check_config_routes_ok:
  "check_config_routes routes (jump_to ns XML_ELEMENT_NODE) = Inr u \<Longrightarrow> s \<in> set ns \<Longrightarrow>
   (is_element_mp [s] ''filters'' \<longrightarrow>
      (\<exists>v. check_routes_in_filters routes (jump_to (node_children s) XML_ELEMENT_NODE) = Inr v)) \<and>
   (is_element_mp [s] ''routes'' \<longrightarrow>
      (\<exists>v. check_routes routes (jump_to (node_children s) XML_ELEMENT_NODE) = Inr v))"
proof (induction ns)
  case (Cons n ns)
  show ?case
  proof (cases "node_type n = XML_ELEMENT_NODE")
    case True
    with Cons show ?thesis
      by (auto simp: is_element_mp_hd [of n ns] is_element_mp_unique split: sum.splits if_splits)
  next
    case False
    with Cons show ?thesis by (auto dest: is_element_mp_type)
  qed
qed simp

text \<open>The configuration file after the inclusion of other files.\<close>

definition included :: "'f flexml_env \<Rightarrow> string option \<Rightarrow> xml_node \<Rightarrow> xml_node option" where
  "included E path root = (case path of None \<Rightarrow> Some root | Some pa \<Rightarrow> yaz_xml_include_glob E root pa)"

lemma config_accepted:
  assumes "RouterFleXML_base E factory test_only path doc = Inr st"
  shows "\<exists>root0 root. doc = Some root0 \<and> included E path root0 = Some root \<and> flexml_wf st \<and>
     smap_find (fx_start_route st) (fx_routes st) \<noteq> None \<and>
     (\<exists>u. check_config_routes (fx_routes st) (jump_to (node_children root) XML_ELEMENT_NODE) = Inr u)"
proof -
  let ?st0 = "\<lparr>fx_store = [], fx_id_filter_map = [], fx_routes = [], fx_start_route = ''start'', fx_dl_path = [],
        fx_factory = factory\<rparr>"
  obtain root0 root node1 st1 node2 st2 node3 st3 u where r: "doc = Some root0" "included E path root0 = Some root"
    and d: "config_dlpath (child_elements [root]) ?st0 = (node1, st1)" and s: "config_start node1 st1 = Inr (node2, st2)"
    and f: "config_filters E test_only path node2 st2 = Inr (node3, st3)"
    and rt: "config_routes E test_only path node3 st3 = Inr st"
    and c: "check_config_routes (fx_routes st) (child_elements [root]) = Inr u"
    and start: "smap_find (fx_start_route st) (fx_routes st) \<noteq> None"
    using assms unfolding RouterFleXML_base_def parse_xml_config_dom_def included_def Let_def
    by (auto split: option.splits sum.splits prod.splits if_splits)
  have "flexml_wf st1" using d by (auto simp: config_dlpath_def flexml_wf_def split: if_splits)
  then have "flexml_wf st2" using s by (auto simp: config_start_def split: sum.splits)
  then have "flexml_wf st3"
    using f parse_xml_filters_wf by (fastforce simp: config_filters_def split: sum.splits if_splits)
  then have "flexml_wf st"
    using rt routes_loop_wf by (fastforce simp: config_routes_def parse_xml_routes_def split: sum.splits list.splits)
  with r start c show ?thesis by (auto simp: child_elements_def)
qed

section \<open>Positions\<close>

text \<open>Moving on along the current route, what is left of it, and the positions that are on a route.\<close>

definition flexml_on :: "(string \<times> nat list) list \<Rightarrow> flexml_pos \<Rightarrow> nat option \<times> flexml_pos" where
  "flexml_on routes pos = (case FleXML_Pos_move routes [] pos of Some r \<Rightarrow> r | None \<Rightarrow> (None, pos))"

definition flexml_remaining :: "(string \<times> nat list) list \<Rightarrow> flexml_pos \<Rightarrow> nat list" where
  "flexml_remaining routes pos =
     (case Option.bind (fp_route pos) (\<lambda>r. smap_find r routes) of Some l \<Rightarrow> drop (fp_filter pos) l | None \<Rightarrow> [])"

definition flexml_valid :: "(string \<times> nat list) list \<Rightarrow> flexml_pos \<Rightarrow> bool" where
  "flexml_valid routes pos =
     (case Option.bind (fp_route pos) (\<lambda>r. smap_find r routes) of Some l \<Rightarrow> fp_filter pos \<le> length l | None \<Rightarrow> False)"

lemma flexml_validE:
  assumes "flexml_valid routes pos"
  obtains r l where "fp_route pos = Some r" "smap_find r routes = Some l" "fp_filter pos \<le> length l"
    "FleXML_Pos_move routes [] pos = Some (if fp_filter pos = length l then (None, pos)
       else (Some (l ! fp_filter pos), pos\<lparr>fp_filter := fp_filter pos + 1\<rparr>))"
  using assms by (auto simp: flexml_valid_def FleXML_Pos_move_def FleXML_step_def bind_eq_Some_conv split: option.splits)

interpretation flexml: route_position "flexml_on routes" "flexml_remaining routes" "flexml_valid routes"
  for routes :: "(string \<times> nat list) list"
proof unfold_locales
  fix p :: flexml_pos and f :: nat and fs :: "nat list"
  assume v: "flexml_valid routes p"
  then obtain r l where p: "fp_route p = Some r" "smap_find r routes = Some l" "fp_filter p \<le> length l"
    "FleXML_Pos_move routes [] p = Some (if fp_filter p = length l then (None, p)
       else (Some (l ! fp_filter p), p\<lparr>fp_filter := fp_filter p + 1\<rparr>))" by (rule flexml_validE)
  have rem: "flexml_remaining routes p = drop (fp_filter p) l" using p by (simp add: flexml_remaining_def)
  show "flexml_remaining routes p = [] \<Longrightarrow> flexml_on routes p = (None, p)"
    using p rem by (simp add: flexml_on_def)
  show "flexml_remaining routes p = f # fs \<Longrightarrow> fst (flexml_on routes p) = Some f"
    using p rem by (auto simp: flexml_on_def hd_drop_conv_nth dest: arg_cong [where f = hd])
  show "flexml_remaining routes (snd (flexml_on routes p)) = tl (flexml_remaining routes p)"
    using p by (auto simp: flexml_on_def flexml_remaining_def tl_drop drop_Suc)
  show "flexml_valid routes (snd (flexml_on routes p))"
    using p by (auto simp: flexml_on_def flexml_valid_def)
qed

section \<open>Properties\<close>

text \<open>A configuration with two routes and three filters, each represented by its type.\<close>

definition mp_element :: "string \<Rightarrow> (string \<times> string) list \<Rightarrow> xml_node list \<Rightarrow> xml_node" where
  "mp_element nm ats cs = Xml_Element nm (Some metaproxy_ns) (map (\<lambda>(n, v). Xml_Attr n None [Xml_Text v]) ats) cs"

definition target_element :: xml_node where
  "target_element = mp_element ''target'' [(''route'', ''other'')] []"

definition multi_element :: xml_node where
  "multi_element = mp_element ''filter'' [(''type'', ''multi'')] [target_element]"

definition routes_element :: xml_node where
  "routes_element = mp_element ''routes'' []
     [mp_element ''route'' [(''id'', ''start'')] [mp_element ''filter'' [(''refid'', ''f'')] [], multi_element],
      mp_element ''route'' [(''id'', ''other'')] [mp_element ''filter'' [(''refid'', ''f'')] []]]"

definition small_config :: xml_node where
  "small_config = mp_element ''metaproxy'' []
     [mp_element ''start'' [(''route'', ''start'')] [],
      mp_element ''filters'' [] [mp_element ''filter'' [(''id'', ''f''), (''type'', ''log'')] []],
      routes_element]"

definition small_env :: "string flexml_env" where
  "small_env = \<lparr>dl_creator = (\<lambda>fi path. Some fi), filter_configure = (\<lambda>f node t path. Inr f),
     yaz_xml_include_glob = (\<lambda>root path. Some root)\<rparr>"

lemma small_config_accepted:
  "\<exists>st. RouterFleXML_base small_env Map.empty False None (Some small_config) = Inr st \<and>
     fx_routes st = [(''other'', [0]), (''start'', [0, 1])] \<and> fx_start_route st = ''start''"
  by (simp add: RouterFleXML_base_def parse_xml_config_dom_def small_config_def routes_element_def multi_element_def
      target_element_def mp_element_def small_env_def config_dlpath_def config_start_def config_filters_def config_routes_def
      parse_xml_routes_def child_elements_def next_element_def check_element_mp_def is_element_mp_def attr_first_text_def
      fx_new_filter_def exist_creator_def add_creator_dl_def add_creator_def create_filter_def Let_def)



text \<open>
  C28. In a configuration the router accepts, every \<open>route\<close> attribute of an element directly
  below a filter, in the \<open>filters\<close> section, in a route or in nested \<open>filters\<close> elements,
  names a route of the configuration: no filter sends a package to a route that does not
  exist.\<close>
theorem flexml_references_exist:
  assumes "RouterFleXML_base E factory test_only path (Some root0) = Inr st"
    and "included E path root0 = Some root" and "config_filter root n"
    and "c \<in> set (node_children n)" and "node_type c = XML_ELEMENT_NODE"
    and "a \<in> set (node_attrs c)" and "attr_name a = ''route''"
  shows "smap_find (attr_first_text a) (fx_routes st) \<noteq> None"
proof -
  obtain u where ok: "check_config_routes (fx_routes st) (jump_to (node_children root) XML_ELEMENT_NODE) = Inr u"
    using config_accepted [OF assms(1)] assms(2) by auto
  have "\<exists>v. check_filter_children (fx_routes st) (jump_to (node_children n) XML_ELEMENT_NODE) = Inr v"
    using assms(3)
  proof cases
    case (in_section s)
    then show ?thesis using check_config_routes_ok [OF ok] check_filter_in by blast
  next
    case (in_route s r)
    then show ?thesis using check_config_routes_ok [OF ok] check_routes_ok check_filter_in by blast
  qed
  then show ?thesis using check_filter_children_ok [OF _ assms(4,5)] check_route_attrs_ok [OF _ assms(6,7)] by blast
qed

theorem flexml_references_exist_witness:
  "\<exists>st. RouterFleXML_base small_env Map.empty False None (Some small_config) = Inr st \<and>
     smap_find ''other'' (fx_routes st) \<noteq> None"
proof -
  obtain st where st: "RouterFleXML_base small_env Map.empty False None (Some small_config) = Inr st"
    using small_config_accepted by blast
  have inc: "included small_env None small_config = Some small_config" by (simp add: included_def)
  have "filter_in [mp_element ''filter'' [(''refid'', ''f'')] [], multi_element] multi_element"
    by (rule filter_in.here) (simp_all add: multi_element_def mp_element_def is_element_mp_def)
  then have "config_filter small_config multi_element"
    by (intro config_filter.in_route [where s = routes_element
          and r = "mp_element ''route'' [(''id'', ''start'')] [mp_element ''filter'' [(''refid'', ''f'')] [], multi_element]"])
      (simp_all add: small_config_def routes_element_def mp_element_def is_element_mp_def)
  from flexml_references_exist [OF st inc this, of target_element "Xml_Attr ''route'' None [Xml_Text ''other'']"]
  have "smap_find ''other'' (fx_routes st) \<noteq> None"
    by (simp add: multi_element_def target_element_def mp_element_def attr_first_text_def)
  with st show ?thesis by blast
qed

text \<open>
  A package that was sent to a route that does not exist stops there; when it is moved on
  once more, the router uses the end iterator of its table.\<close>
theorem flexml_unknown_route:
  assumes "smap_find route routes = None" and "route \<noteq> []"
  shows "\<exists>pos'. FleXML_Pos_move routes route pos = Some (None, pos') \<and> FleXML_Pos_move routes [] pos' = None"
  using assms by (simp add: FleXML_Pos_move_def FleXML_step_def)

end
