(* ===== verification/MP_Backend_Test.thy ===== *)
theory MP_Backend_Test
  imports MP_Present_Chunk
begin

text \<open>
  The test backend (\<open>src/filter_backend_test.cpp\<close>): a Z39.50 server at the end of a chain
  that answers every search with the same result set of 42 records. The filter keeps the set
  of sessions it has seen an Init request of and one flag for named result sets. Together
  with the filters in front of it, it closes the model of a chain: what \<open>present_chunk\<close>
  assumes of a target is proved here of this one.
\<close>

section \<open>Records\<close>

definition result_set_size :: int where "result_set_size = 42"

text \<open>The ISO2709 record every result is a copy of, by its directory and its fields.\<close>

definition marc_record :: octets where
  "marc_record =
     ''00366nam  22001698a 4500001001300000003000400013005001700017008004100034010001700179'' @
     ''040001300075050001200088100001700100245003000117260001200147263000900159300001100168'' @
     [CHR 0x1E] @ ''   11224466 '' @ [CHR 0x1E] @ ''DLC'' @ [CHR 0x1E] @ ''00000000000000.0'' @ [CHR 0x1E] @
     ''910710c19910701nju           00010 eng  '' @ [CHR 0x1E] @
     ''  '' @ [CHR 0x1F] @ ''aDLC'' @ [CHR 0x1F] @ ''cDLC'' @ [CHR 0x1E] @
     ''00'' @ [CHR 0x1F] @ ''a123-xyz'' @ [CHR 0x1E] @
     ''10'' @ [CHR 0x1F] @ ''aJack Collins'' @ [CHR 0x1E] @
     ''10'' @ [CHR 0x1F] @ ''aHow to program a computer'' @ [CHR 0x1E] @
     ''1 '' @ [CHR 0x1F] @ ''aPenguin'' @ [CHR 0x1E] @
     ''  '' @ [CHR 0x1F] @ ''a8710'' @ [CHR 0x1E] @
     ''  '' @ [CHR 0x1F] @ ''ap. cm.'' @ [CHR 0x1E] @
     ''  '' @ [CHR 0x1F] @ ''a   11224466 '' @ [CHR 0x1E] @ [CHR 0x1D]"

definition dummy_opac :: "yaz \<Rightarrow> string \<Rightarrow> string \<Rightarrow> octets \<Rightarrow> Z_OPACRecord" where
  "dummy_opac Y item_id element_set_name marc_input =
     (let availableNow = (element_set_name = ''F'') in
      \<lparr>opac_bibliographicRecord = z_ext_record_usmarc Y marc_input,
       opac_holdingsData =
         [\<lparr>hc_typeOfRecord = ''u'', hc_encodingLevel = ''u'', hc_receiptAcqStatus = ''0'',
           hc_dateOfReport = ''000000'', hc_nucCode = ''s-FM/GC'',
           hc_localLocation = ''Main or Science/Business Reading Rms - STORED OFFSITE'',
           hc_callNumber = ''MLCM 89/00602 (N)'', hc_shelvingData = ''FT MEADE'', hc_copyNumber = ''Copy 1'',
           hc_circulationData =
             [\<lparr>circ_availableNow = availableNow, circ_itemId = item_id, circ_renewable = availableNow,
               circ_onHold = \<not> availableNow\<rparr>]\<rparr>]\<rparr>)"

text \<open>\<open>memcpy\<close> into a buffer at an offset, and the conversion \<open>%09d\<close> of \<open>snprintf\<close>.\<close>

definition memcpy_at :: "nat \<Rightarrow> octets \<Rightarrow> octets \<Rightarrow> octets" where
  "memcpy_at off s buf = take off buf @ s @ drop (off + length s) buf"

definition zero_pad :: "nat \<Rightarrow> string \<Rightarrow> string" where
  "zero_pad n s = replicate (n - length s) CHR ''0'' @ s"

definition format_09d :: "int \<Rightarrow> string" where
  "format_09d i = (if i < 0 then CHR ''-'' # zero_pad 8 (show_nat (nat (- i))) else zero_pad 9 (show_nat (nat i)))"

text \<open>
  The size in bytes an element set name \<open>FF\<close> with a number of kilobytes asks for. The
  product is an \<open>int\<close>; stored in a \<open>size_t\<close>, a negative one is larger than any limit.
\<close>

definition xml_record_size :: "string \<Rightarrow> nat" where
  "xml_record_size element_set_name =
     (let sz = (if drop 2 element_set_name \<noteq> [] then to_int32 (atoi (drop 2 element_set_name) * 1024) else 1024)
      in if sz < 10 \<or> sz > 1024 * 1024 then 10 else nat sz)"

definition xml_record :: "string \<Rightarrow> octets" where
  "xml_record element_set_name =
     (let sz = xml_record_size element_set_name
      in memcpy_at (sz - 4) ''</a>'' (memcpy_at 0 ''<a>'' (replicate sz CHR ''a'')))"

text \<open>The body of the loop over the records: the record at position \<open>pos\<close> of the result set.\<close>

definition offset_str :: "int \<Rightarrow> string" where
  "offset_str pos = ''test__'' @ format_09d pos @ ''_''"

definition fetch_record :: "yaz \<Rightarrow> octets \<Rightarrow> string \<Rightarrow> int \<Rightarrow> Z_NamePlusRecord" where
  "fetch_record Y preferredRecordSyntax element_set_name pos =
     (if element_set_name = ''SD''
      then zget_surrogateDiagRec Y None BIB1_SPECIFIED_ELEMENT_SET_NAME_NOT_VALID_FOR_SPECIFIED (Some ''SD'')
      else \<lparr>npr_databaseName = None, npr_record = NPR_databaseRecord
        (if take 2 element_set_name = ''FF'' then z_ext_record_xml Y (xml_record element_set_name)
         else (let tmp_rec = memcpy_at 186 (offset_str pos) marc_record
               in if preferredRecordSyntax = recsyn_opac
                  then z_ext_record_opac Y (dummy_opac Y (offset_str pos) element_set_name tmp_rec)
                  else z_ext_record_usmarc Y tmp_rec))\<rparr>)"

section \<open>Fetching\<close>

text \<open>
  \<open>Inl\<close> has the error code and the additional information, \<open>Inr\<close> the records, their number
  and the next position. \<open>None\<close> is undefined behaviour of the C++ code: the sum of the range
  check overflows an \<open>int\<close>, or the number of records is negative and sizes an array.
\<close>

type_synonym fetch_result = "(int \<times> string) + Z_NamePlusRecord list \<times> int \<times> int"

definition fetch_esn :: "Z_ElementSetNames option \<Rightarrow> int + string" where
  "fetch_esn esn = (case esn of
     None \<Rightarrow> Inr ''F''
   | Some (ESN_generic n) \<Rightarrow> Inr n
   | Some _ \<Rightarrow> Inl BIB1_SPECIFIED_ELEMENT_SET_NAME_NOT_VALID_FOR_SPECIFIED)"

definition fetch_check :: "octets \<Rightarrow> string \<Rightarrow> (int \<times> string) option" where
  "fetch_check preferredRecordSyntax element_set_name =
     (if preferredRecordSyntax = recsyn_xml
      then (if take 2 element_set_name \<noteq> ''FF'' \<and> element_set_name \<noteq> ''SD''
            then Some (BIB1_SPECIFIED_ELEMENT_SET_NAME_NOT_VALID_FOR_SPECIFIED, element_set_name) else None)
      else if preferredRecordSyntax = recsyn_usmarc \<or> preferredRecordSyntax = recsyn_opac
      then (if element_set_name \<noteq> ''B'' \<and> element_set_name \<noteq> ''F'' \<and> element_set_name \<noteq> ''SD''
            then Some (BIB1_SPECIFIED_ELEMENT_SET_NAME_NOT_VALID_FOR_SPECIFIED, element_set_name) else None)
      else Some (BIB1_RECORD_SYNTAX_UNSUPP, []))"

definition in_int32 :: "int \<Rightarrow> bool" where
  "in_int32 x \<longleftrightarrow> - (2 ^ 31) \<le> x \<and> x < 2 ^ 31"

definition BackendTest_fetch :: "yaz \<Rightarrow> octets option \<Rightarrow> Z_ElementSetNames option \<Rightarrow> int \<Rightarrow> int
    \<Rightarrow> fetch_result option" where
  "BackendTest_fetch Y preferredRecordSyntax esn start number =
     (if \<not> in_int32 (number + start) \<or> \<not> in_int32 (number + start - 1) then None
      else if number + start - 1 > result_set_size \<or> start < 1
      then Some (Inl (BIB1_PRESENT_REQUEST_OUT_OF_RANGE, []))
      else (case fetch_esn esn of
        Inl err \<Rightarrow> Some (Inl (err, []))
      | Inr element_set_name \<Rightarrow>
          (let syn = (case preferredRecordSyntax of None \<Rightarrow> recsyn_usmarc | Some s \<Rightarrow> s)
           in case fetch_check syn element_set_name of
                Some err \<Rightarrow> Some (Inl err)
              | None \<Rightarrow>
                  if number < 0 then None
                  else Some (Inr (map (\<lambda>i. fetch_record Y syn element_set_name (i + start)) [0..number - 1], number,
                         if start + number > result_set_size then 0 else start + number)))))"

section \<open>Requests\<close>

record BackendTest_Rep =
  m_support_named_result_sets :: bool
  bt_sessions :: "unit session_map"

definition BackendTest_new :: BackendTest_Rep where
  "BackendTest_new = \<lparr>m_support_named_result_sets = False, bt_sessions = Map.empty\<rparr>"

text \<open>The protocol versions are accepted up to the first one the client does not offer.\<close>

fun set_versions :: "nat list \<Rightarrow> odr_mask \<Rightarrow> odr_mask \<Rightarrow> odr_mask" where
  "set_versions [] req resp = resp"
| "set_versions (v # vs) req resp = (if v \<in> req then set_versions vs req (insert v resp) else resp)"

definition BackendTest_init :: "yaz \<Rightarrow> string \<Rightarrow> Z_InitRequest \<Rightarrow> Z_InitResponse" where
  "BackendTest_init Y version req =
     (let resp = create_initResponse Y version (Some (APDU_initRequest req)) 0 None
      in resp\<lparr>irs_implementationName := Some ''backend_test'',
           irs_options := irs_options resp \<union> {m \<in> {Z_Options_search, Z_Options_present, Z_Options_namedResultSets}.
             m \<in> irq_options req},
           irs_protocolVersion := set_versions [Z_ProtocolVersion_1, Z_ProtocolVersion_2, Z_ProtocolVersion_3]
             (irq_protocolVersion req) (irs_protocolVersion resp),
           irs_preferredMessageSize := irq_preferredMessageSize req,
           irs_maximumRecordSize := irq_maximumRecordSize req\<rparr>)"

definition BackendTest_search :: "yaz \<Rightarrow> BackendTest_Rep \<Rightarrow> Z_SearchRequest \<Rightarrow> Z_SearchResponse option" where
  "BackendTest_search Y st req =
     (let apdu_req = Some (APDU_searchRequest req) in
      if \<not> m_support_named_result_sets st \<and> srq_resultSetName req \<noteq> ''default''
      then Some (create_searchResponse Y apdu_req BIB1_RESULT_SET_NAMING_UNSUPP None)
      else
        (let number = fst (piggyback_sr req result_set_size None);
             esn = (if number > srq_smallSetUpperBound req then srq_mediumSetElementSetNames req
                    else srq_smallSetElementSetNames req)
         in case (if number \<noteq> 0
                  then map_option (map_sum id (\<lambda>(recs, r). (Some (Records_DBOSD recs), r)))
                    (BackendTest_fetch Y (srq_preferredRecordSyntax req) esn 1 (to_int32 number))
                  else Some (Inr (None, 0, 0))) of
              None \<Rightarrow> None
            | Some (Inl (error_code, addinfo)) \<Rightarrow>
                Some ((create_searchResponse Y apdu_req error_code (Some addinfo))\<lparr>srs_resultCount := result_set_size\<rparr>)
            | Some (Inr (records, number_returned, next_position)) \<Rightarrow>
                Some ((create_searchResponse Y apdu_req 0 None)\<lparr>srs_resultCount := result_set_size,
                  srs_numberOfRecordsReturned := number_returned, srs_nextResultSetPosition := next_position,
                  srs_records := records\<rparr>)))"

definition BackendTest_present :: "yaz \<Rightarrow> Z_PresentRequest \<Rightarrow> Z_ElementSetNames option \<Rightarrow> Z_PresentResponse option" where
  "BackendTest_present Y req esn =
     (let apdu_req = Some (APDU_presentRequest req)
      in case BackendTest_fetch Y (prq_preferredRecordSyntax req) esn
           (to_int32 (prq_resultSetStartPoint req)) (to_int32 (prq_numberOfRecordsRequested req)) of
           None \<Rightarrow> None
         | Some (Inl (error_code, addinfo)) \<Rightarrow> Some (create_presentResponse Y apdu_req error_code (Some addinfo))
         | Some (Inr (records, number_returned, next_position)) \<Rightarrow>
             Some ((create_presentResponse Y apdu_req 0 None)\<lparr>prs_records := Some (Records_DBOSD records),
               prs_numberOfRecordsReturned := number_returned, prs_nextResultSetPosition := next_position\<rparr>))"

text \<open>The end of \<open>process\<close>: a closed session is forgotten.\<close>

definition BackendTest_leave :: "package \<Rightarrow> BackendTest_Rep \<Rightarrow> package \<times> BackendTest_Rep" where
  "BackendTest_leave p st =
     (p, if is_closed p then st\<lparr>bt_sessions := session_map_release (bt_sessions st) (pkg_session p)\<rparr> else st)"

abbreviation z_reply :: "Z_APDU \<Rightarrow> package \<Rightarrow> package" where
  "z_reply apdu p \<equiv> p\<lparr>pkg_response := Some (GDU_Z3950 apdu)\<rparr>"

definition BackendTest_apdu :: "yaz \<Rightarrow> string \<Rightarrow> package \<Rightarrow> Z_APDU \<Rightarrow> BackendTest_Rep
    \<Rightarrow> (package \<times> BackendTest_Rep) option" where
  "BackendTest_apdu Y version p apdu_req st =
     (case apdu_req of
        APDU_initRequest req \<Rightarrow>
          Some (BackendTest_leave (z_reply (APDU_initResponse (BackendTest_init Y version req)) p)
            (st\<lparr>m_support_named_result_sets := m_support_named_result_sets st \<or> Z_Options_namedResultSets \<in> irq_options req,
                bt_sessions := session_map_create (bt_sessions st) () (pkg_session p)\<rparr>))
      | _ \<Rightarrow>
          if \<not> session_map_exist (bt_sessions st) (pkg_session p)
          then Some (BackendTest_leave (close_session (z_reply
            (create_close Y (Some apdu_req) Z_Close_protocolError (Some ''no init for filter_backend_test'')) p)) st)
          else case apdu_req of
            APDU_searchRequest req \<Rightarrow>
              map_option (\<lambda>resp. BackendTest_leave (z_reply (APDU_searchResponse resp) p) st) (BackendTest_search Y st req)
          | APDU_presentRequest req \<Rightarrow>
              (case prq_recordComposition req of
                 Some (RecordComp_complex _) \<Rightarrow>
                   Some (z_reply (APDU_presentResponse (create_presentResponse Y (Some apdu_req)
                     (BIB1_ONLY_A_SINGLE_ELEMENT_SET_NAME_SUPPORTED Y) None)) p, st)
               | comp' \<Rightarrow>
                   map_option (\<lambda>resp. BackendTest_leave (z_reply (APDU_presentResponse resp) p) st)
                     (BackendTest_present Y req (case comp' of Some (RecordComp_simple e) \<Rightarrow> Some e | _ \<Rightarrow> None)))
          | APDU_close _ \<Rightarrow>
              Some (BackendTest_leave (close_session (z_reply (create_close Y (Some apdu_req) Z_Close_finished None) p)) st)
          | _ \<Rightarrow>
              Some (BackendTest_leave (close_session (z_reply
                (create_close Y (Some apdu_req) Z_Close_protocolError (Some ''backend_test: unhandled APDU'')) p)) st))"

definition BackendTest_process :: "yaz \<Rightarrow> string \<Rightarrow> 'w move_fn \<Rightarrow> BackendTest_Rep \<Rightarrow> package \<Rightarrow> 'w world_scheme
    \<Rightarrow> ((package \<times> BackendTest_Rep) \<times> 'w world_scheme) option" where
  "BackendTest_process Y version mv st p w =
     (case pkg_request p of
        Some (GDU_Z3950 apdu_req) \<Rightarrow> map_option (\<lambda>r. (r, w)) (BackendTest_apdu Y version p apdu_req st)
      | _ \<Rightarrow> (let (p, w) = mv [] p w in Some (BackendTest_leave p st, w)))"

definition BackendTest_configure :: "xml_node list \<Rightarrow> mp_exception + unit" where
  "BackendTest_configure ptr = check_empty ptr"

section \<open>The result set\<close>

text \<open>What the backend stands for: the list of its 42 records in a syntax and an element set.\<close>

definition bt_results :: "yaz \<Rightarrow> octets \<Rightarrow> string \<Rightarrow> Z_NamePlusRecord list" where
  "bt_results Y syn e = map (fetch_record Y syn e) [1..result_set_size]"

lemma length_bt_results [simp]: "length (bt_results Y syn e) = 42"
  by (simp add: bt_results_def result_set_size_def)

lemma upto_segment: "1 \<le> s \<Longrightarrow> s + n - 1 \<le> m \<Longrightarrow> [s..s + n - 1] = take (nat n) (drop (nat (s - 1)) [1..m])"
  by (rule nth_equalityI) auto

lemma map_upto_shift: "map (\<lambda>i. f (i + s)) [0..n - 1] = map f [s..s + n - 1]"
  by (rule nth_equalityI) (auto simp: add.commute)

lemma fetch_within:
  assumes "1 \<le> start" and "0 \<le> number" and "start + number - 1 \<le> result_set_size"
    and "fetch_esn esn = Inr e" and "fetch_check (case syn of None \<Rightarrow> recsyn_usmarc | Some s \<Rightarrow> s) e = None"
  shows "BackendTest_fetch Y syn esn start number = Some (Inr
     (take (nat number) (drop (nat (start - 1)) (bt_results Y (case syn of None \<Rightarrow> recsyn_usmarc | Some s \<Rightarrow> s) e)),
      number, if start + number > result_set_size then 0 else start + number))"
  using assms
  by (simp add: BackendTest_fetch_def in_int32_def result_set_size_def bt_results_def map_upto_shift
      upto_segment [of start number 42] take_map drop_map Let_def)

text \<open>
  The requests the backend can serve records for: one element set name at most, one the record
  syntax allows.
\<close>

definition bt_esn :: "Z_PresentRequest \<Rightarrow> string option" where
  "bt_esn pr = (case prq_recordComposition pr of
     None \<Rightarrow> Some ''F''
   | Some (RecordComp_simple (ESN_generic e)) \<Rightarrow> Some e
   | _ \<Rightarrow> None)"

definition bt_syntax :: "Z_PresentRequest \<Rightarrow> octets" where
  "bt_syntax pr = (case prq_preferredRecordSyntax pr of None \<Rightarrow> recsyn_usmarc | Some s \<Rightarrow> s)"

definition bt_accepts :: "Z_PresentRequest \<Rightarrow> string \<Rightarrow> bool" where
  "bt_accepts pr e \<longleftrightarrow> bt_esn pr = Some e \<and> fetch_check (bt_syntax pr) e = None"

definition bt_response :: "yaz \<Rightarrow> Z_PresentRequest \<Rightarrow> string \<Rightarrow> Z_PresentResponse" where
  "bt_response Y pr e =
     (create_presentResponse Y (Some (APDU_presentRequest pr)) 0 None)
       \<lparr>prs_records := Some (Records_DBOSD (take (nat (prq_numberOfRecordsRequested pr))
          (drop (nat (prq_resultSetStartPoint pr - 1)) (bt_results Y (bt_syntax pr) e)))),
        prs_numberOfRecordsReturned := prq_numberOfRecordsRequested pr,
        prs_nextResultSetPosition :=
          (if prq_resultSetStartPoint pr + prq_numberOfRecordsRequested pr > result_set_size then 0
           else prq_resultSetStartPoint pr + prq_numberOfRecordsRequested pr)\<rparr>"

lemma bt_acceptsE:
  assumes "bt_accepts pr e"
  obtains esn where "fetch_esn esn = Inr e" "fetch_check (bt_syntax pr) e = None"
    "esn = (case prq_recordComposition pr of Some (RecordComp_simple e) \<Rightarrow> Some e | _ \<Rightarrow> None)"
    "\<not> (\<exists>c. prq_recordComposition pr = Some (RecordComp_complex c))"
  using assms
  by (cases "prq_recordComposition pr")
     (auto simp: bt_accepts_def bt_esn_def fetch_esn_def split: Z_RecordComposition.splits Z_ElementSetNames.splits)

lemma BackendTest_process_present:
  assumes "pkg_request p = Some (GDU_Z3950 (APDU_presentRequest pr))" and "bt_accepts pr e"
    and "session_map_exist (bt_sessions st) (pkg_session p)" and "\<not> is_closed p"
    and "1 \<le> prq_resultSetStartPoint pr" and "0 \<le> prq_numberOfRecordsRequested pr"
    and "prq_resultSetStartPoint pr + prq_numberOfRecordsRequested pr - 1 \<le> result_set_size"
  shows "BackendTest_process Y version mv st p w =
     Some ((z_reply (APDU_presentResponse (bt_response Y pr e)) p, st), w)"
proof -
  obtain esn where esn: "fetch_esn esn = Inr e" "fetch_check (bt_syntax pr) e = None"
    "esn = (case prq_recordComposition pr of Some (RecordComp_simple e) \<Rightarrow> Some e | _ \<Rightarrow> None)"
    "\<not> (\<exists>c. prq_recordComposition pr = Some (RecordComp_complex c))"
    using assms(2) by (rule bt_acceptsE)
  have "to_int32 (prq_resultSetStartPoint pr) = prq_resultSetStartPoint pr"
    "to_int32 (prq_numberOfRecordsRequested pr) = prq_numberOfRecordsRequested pr"
    using assms(5-7) by (simp_all add: result_set_size_def)
  then have "BackendTest_present Y pr esn = Some (bt_response Y pr e)"
    using fetch_within [OF assms(5-7) esn(1) esn(2) [unfolded bt_syntax_def], of Y]
    by (simp add: BackendTest_present_def bt_response_def bt_syntax_def)
  with assms(1,3,4) esn(3,4) show ?thesis
    by (auto simp: BackendTest_process_def BackendTest_apdu_def BackendTest_leave_def
        split: option.splits Z_RecordComposition.splits)
qed

text \<open>
  The backend as the end of a chain: its state is part of the world. The value where the C++
  code has no defined behaviour is arbitrary.
\<close>

record bt_world = world +
  bt_state :: BackendTest_Rep

definition backend_move :: "yaz \<Rightarrow> string \<Rightarrow> 'a bt_world_ext move_fn" where
  "backend_move Y version r p w =
     (case BackendTest_process Y version (\<lambda>r p w. (p, w)) (bt_state w) p w of
        Some ((p', st'), w') \<Rightarrow> (p', w'\<lparr>bt_state := st'\<rparr>)
      | None \<Rightarrow> (p, w))"

abbreviation bt_knows :: "session \<Rightarrow> 'a bt_world_scheme \<Rightarrow> bool" where
  "bt_knows ses w \<equiv> session_map_exist (bt_sessions (bt_state w)) ses"

lemma same_request_accepts:
  assumes "same_request pr pr0"
  shows "bt_accepts pr e = bt_accepts pr0 e" "bt_syntax pr = bt_syntax pr0"
proof -
  have "prq_recordComposition pr = prq_recordComposition pr0" "prq_preferredRecordSyntax pr = prq_preferredRecordSyntax pr0"
    using assms unfolding same_request_def
    by (metis (no_types) Z_PresentRequest.select_convs(5) Z_PresentRequest.surjective Z_PresentRequest.update_convs(3,4),
        metis (no_types) Z_PresentRequest.select_convs(6) Z_PresentRequest.surjective Z_PresentRequest.update_convs(3,4))
  then show "bt_accepts pr e = bt_accepts pr0 e" "bt_syntax pr = bt_syntax pr0"
    by (simp_all add: bt_accepts_def bt_esn_def bt_syntax_def)
qed

lemma backend_test_serves:
  assumes "bt_accepts pr0 e" and "\<not> m_close ses"
  shows "serves (bt_knows ses) ses pr0 (bt_results Y (bt_syntax pr0) e) (backend_move Y version :: 'a bt_world_ext move_fn)"
  unfolding serves_def
proof (intro allI impI)
  fix q :: package and w :: "'a bt_world_scheme" and pr
  assume w: "bt_knows ses w"
    and q: "pkg_session q = ses" "pkg_request q = Some (GDU_Z3950 (APDU_presentRequest pr))" "same_request pr pr0"
    and n: "1 \<le> prq_resultSetStartPoint pr" "1 \<le> prq_numberOfRecordsRequested pr"
      "prq_resultSetStartPoint pr + prq_numberOfRecordsRequested pr - 1 \<le> int (length (bt_results Y (bt_syntax pr0) e))"
  have "BackendTest_process Y version (\<lambda>r p w. (p, w)) (bt_state w) q w =
      Some ((z_reply (APDU_presentResponse (bt_response Y pr e)) q, bt_state w), w)"
    using w q n assms same_request_accepts [OF q(3)]
    by (intro BackendTest_process_present) (simp_all add: result_set_size_def)
  then show "\<exists>k w' pres. bt_knows ses w' \<and> 1 \<le> k \<and> int k \<le> prq_numberOfRecordsRequested pr \<and>
     prs_records pres = Some (Records_DBOSD (take k (drop (nat (prq_resultSetStartPoint pr - 1)) (bt_results Y (bt_syntax pr0) e)))) \<and>
     backend_move Y version [] q w = (q\<lparr>pkg_response := Some (GDU_Z3950 (APDU_presentResponse pres))\<rparr>, w')"
    using w n same_request_accepts [OF q(3)]
    by (intro exI [of _ "nat (prq_numberOfRecordsRequested pr)"] exI [of _ w] exI [of _ "bt_response Y pr e"])
       (simp add: backend_move_def bt_response_def)
qed

section \<open>Properties\<close>

text \<open>
  C14. A present request the test backend can serve gives the same records through the
  \<open>present_chunk\<close> filter, whatever its chunk size, as without it: both responses have the
  requested segment of the one result set.\<close>
theorem present_chunk_transparent:
  fixes w :: "'a bt_world_scheme"
  assumes "pkg_request p = Some (GDU_Z3950 (APDU_presentRequest pr))" and "bt_accepts pr e"
    and "bt_knows (pkg_session p) w" and "\<not> is_closed p"
    and "1 \<le> prq_resultSetStartPoint pr" and "0 \<le> prq_numberOfRecordsRequested pr"
    and "prq_resultSetStartPoint pr + prq_numberOfRecordsRequested pr - 1 \<le> result_set_size"
    and "0 < chunk_number"
  shows "\<exists>q w' resp resp'.
     PresentChunk_process Y chunk_number (backend_move Y version) p w = Some (Inr q, w') \<and>
     pkg_response q = Some (GDU_Z3950 (APDU_presentResponse resp)) \<and>
     backend_move Y version [] p w = (z_reply (APDU_presentResponse resp') p, w) \<and>
     prs_records resp = prs_records resp' \<and>
     prs_numberOfRecordsReturned resp = prs_numberOfRecordsReturned resp' \<and>
     prs_records resp' = Some (Records_DBOSD (map (fetch_record Y (bt_syntax pr) e)
       [prq_resultSetStartPoint pr..prq_resultSetStartPoint pr + prq_numberOfRecordsRequested pr - 1]))"
proof -
  let ?R = "bt_results Y (bt_syntax pr) e"
  let ?a = "nat (prq_resultSetStartPoint pr - 1)" and ?n = "nat (prq_numberOfRecordsRequested pr)"
  have "serves (bt_knows (pkg_session p)) (pkg_session p) pr ?R (backend_move Y version :: 'a bt_world_ext move_fn)"
    using assms by (intro backend_test_serves) simp_all
  moreover have "?a + ?n \<le> length ?R" using assms(5-7) unfolding result_set_size_def length_bt_results by linarith
  ultimately obtain q w' resp where q: "PresentChunk_process Y chunk_number (backend_move Y version) p w = Some (Inr q, w')"
    "pkg_response q = Some (GDU_Z3950 (APDU_presentResponse resp))"
    "prs_records resp = Some (Records_DBOSD (take ?n (drop ?a ?R)))" "prs_numberOfRecordsReturned resp = int ?n"
    using PresentChunk_process_records [of "bt_knows (pkg_session p)" p pr ?R
        "backend_move Y version :: 'a bt_world_ext move_fn" chunk_number ?a ?n w Y] assms
    by auto
  note q
  moreover have "take ?n (drop ?a ?R) = map (fetch_record Y (bt_syntax pr) e)
      [prq_resultSetStartPoint pr..prq_resultSetStartPoint pr + prq_numberOfRecordsRequested pr - 1]"
    using assms(5,7) by (simp add: bt_results_def take_map drop_map upto_segment [where m = result_set_size])
  ultimately show ?thesis
    using BackendTest_process_present [OF assms(1-7), of Y version "\<lambda>r p w. (p, w)" w] assms(6) q(1,2)
    by (intro exI [of _ q] exI [of _ w'] exI [of _ resp] exI [of _ "bt_response Y pr e"])
       (simp add: bt_response_def backend_move_def)
qed

abbreviation bt_known :: bt_world where
  "bt_known \<equiv> \<lparr>m_global_id = 1, bt_state = \<lparr>m_support_named_result_sets = False, bt_sessions = [1 \<mapsto> ()]\<rparr>\<rparr>"

theorem present_chunk_transparent_witness:
  "\<exists>q w' resp resp'.
     PresentChunk_process yaz_ref 3 (backend_move yaz_ref ''1.0'') (demo_package 38 5) bt_known = Some (Inr q, w') \<and>
     pkg_response q = Some (GDU_Z3950 (APDU_presentResponse resp)) \<and>
     backend_move yaz_ref ''1.0'' [] (demo_package 38 5) bt_known =
       (z_reply (APDU_presentResponse resp') (demo_package 38 5), bt_known) \<and>
     prs_records resp = prs_records resp' \<and>
     prs_numberOfRecordsReturned resp = prs_numberOfRecordsReturned resp' \<and>
     prs_records resp' = Some (Records_DBOSD (map (fetch_record yaz_ref recsyn_usmarc ''F'') [38..42]))"
  using present_chunk_transparent [of "demo_package 38 5" "demo_present 38 5" "''F''" bt_known 3 yaz_ref "''1.0''"]
  by (simp add: Package_new_def session_map_exist_def bt_accepts_def bt_esn_def bt_syntax_def fetch_check_def
      result_set_size_def yaz_ref_def)

text \<open>What a request does to the table: it is an Init, it is refused, it is answered, or it ends the session.\<close>

lemma BackendTest_apdu_outcome:
  assumes "BackendTest_apdu Y version p apdu st = Some (p', st')" and "\<not> is_closed p"
  defines "known \<equiv> session_map_exist (bt_sessions st) (pkg_session p)" and "init \<equiv> \<exists>req. apdu = APDU_initRequest req"
  shows "init \<and> \<not> is_closed p' \<and> bt_sessions st' = session_map_create (bt_sessions st) () (pkg_session p) \<or>
     \<not> init \<and> known \<and> \<not> is_closed p' \<and> st' = st \<or>
     \<not> init \<and> is_closed p' \<and> bt_sessions st' = session_map_release (bt_sessions st) (pkg_session p) \<and>
       (\<not> known \<longrightarrow> pkg_response p' = Some (GDU_Z3950 (create_close Y (Some apdu) Z_Close_protocolError
         (Some ''no init for filter_backend_test''))))"
  using assms
  by (cases apdu) (auto simp: BackendTest_apdu_def BackendTest_leave_def close_session_def Session_close_def
      session_map_release_def split: if_splits option.splits Z_RecordComposition.splits)

text \<open>
  The session table of the test backend: a request of an open session leaves the session
  in the table exactly if it was there or the request is an Init, and the session is still
  open; every other request of an unknown session is answered by closing it. No other
  session of the table changes.\<close>
theorem BackendTest_sessions:
  assumes "BackendTest_process Y version mv st p w = Some ((p', st'), w')"
    and "pkg_request p = Some (GDU_Z3950 apdu)" and "\<not> is_closed p"
  shows "(session_map_exist (bt_sessions st') (pkg_session p) \<longleftrightarrow>
       \<not> is_closed p' \<and> (session_map_exist (bt_sessions st) (pkg_session p) \<or> (\<exists>req. apdu = APDU_initRequest req))) \<and>
     (\<not> session_map_exist (bt_sessions st) (pkg_session p) \<longrightarrow> \<not> (\<exists>req. apdu = APDU_initRequest req) \<longrightarrow>
       is_closed p' \<and> pkg_response p' = Some (GDU_Z3950 (create_close Y (Some apdu) Z_Close_protocolError
         (Some ''no init for filter_backend_test'')))) \<and>
     (\<forall>ses. m_id ses \<noteq> m_id (pkg_session p) \<longrightarrow>
       session_map_exist (bt_sessions st') ses = session_map_exist (bt_sessions st) ses)"
  using BackendTest_apdu_outcome [of Y version p apdu st p' st'] assms
  by (auto simp: BackendTest_process_def session_map_exist_def session_map_create_def session_map_release_def)

theorem BackendTest_sessions_witness:
  "(session_map_exist [1 \<mapsto> ()] \<lparr>m_id = 1, m_close = False\<rparr> \<longleftrightarrow> True) \<and>
     BackendTest_process yaz_ref ''1.0'' (\<lambda>r p w. (p, w)) BackendTest_new (demo_package 1 1) \<lparr>m_global_id = 1\<rparr> =
       Some ((close_session (z_reply (create_close yaz_ref (Some (APDU_presentRequest (demo_present 1 1)))
         Z_Close_protocolError (Some ''no init for filter_backend_test'')) (demo_package 1 1)), BackendTest_new),
         \<lparr>m_global_id = 1\<rparr>) \<and>
     is_closed (close_session (z_reply (create_close yaz_ref (Some (APDU_presentRequest (demo_present 1 1)))
         Z_Close_protocolError (Some ''no init for filter_backend_test'')) (demo_package 1 1)))"
proof -
  let ?q = "close_session (z_reply (create_close yaz_ref (Some (APDU_presentRequest (demo_present 1 1)))
         Z_Close_protocolError (Some ''no init for filter_backend_test'')) (demo_package 1 1))"
  have run: "BackendTest_process yaz_ref ''1.0'' (\<lambda>r p w. (p, w)) BackendTest_new (demo_package 1 1) \<lparr>m_global_id = 1\<rparr> =
      Some ((?q, BackendTest_new), \<lparr>m_global_id = 1\<rparr>)"
    by (simp add: BackendTest_process_def BackendTest_apdu_def BackendTest_leave_def session_map_exist_def
        BackendTest_new_def close_session_def Session_close_def session_map_release_def Package_new_def)
  from BackendTest_sessions [OF this, of "APDU_presentRequest (demo_present 1 1)"] run show ?thesis
    by (simp add: session_map_exist_def BackendTest_new_def Package_new_def)
qed

text \<open>
  Every MARC record of the result set is well formed in its length: the position goes into
  the sixteen bytes of the date field and no other byte of the record changes. Records at
  different positions differ.
\<close>

lemma length_show_nat: "n < 10 ^ Suc k \<Longrightarrow> length (show_nat n) \<le> Suc k"
proof (induction k arbitrary: n)
  case 0
  then show ?case by (subst show_nat.simps) simp
next
  case (Suc k)
  then have "n div 10 < 10 ^ Suc k" by simp
  from Suc.IH [OF this] show ?case by (subst show_nat.simps) simp
qed

lemma length_offset_str: "0 \<le> pos \<Longrightarrow> pos < 10 ^ 9 \<Longrightarrow> length (offset_str pos) = 16"
  using length_show_nat [of "nat pos" 8] by (simp add: offset_str_def format_09d_def zero_pad_def)

lemma read_nat_zeros: "read_nat 0 (replicate k CHR ''0'' @ s) = read_nat 0 s"
  by (induction k) simp_all

lemma read_format_09d: "0 \<le> pos \<Longrightarrow> read_nat 0 (format_09d pos) = nat pos"
  by (simp add: format_09d_def zero_pad_def read_nat_zeros)

lemma length_marc_record: "length marc_record = 366"
  by (simp add: marc_record_def)

theorem marc_records_distinct:
  assumes "0 \<le> pos" and "pos < 10 ^ 9" and "0 \<le> pos'" and "pos' < 10 ^ 9"
  defines "rec \<equiv> \<lambda>i. memcpy_at 186 (offset_str i) marc_record"
  shows "length (rec pos) = 366 \<and> take 186 (rec pos) = take 186 marc_record \<and> drop 202 (rec pos) = drop 202 marc_record \<and>
     (rec pos = rec pos' \<longleftrightarrow> pos = pos')"
proof -
  have len: "length (offset_str pos) = 16" "length (offset_str pos') = 16" using assms length_offset_str by auto
  have "pos = pos'" if "rec pos = rec pos'"
  proof -
    have "offset_str pos = offset_str pos'"
      using that len by (simp add: assms(5) memcpy_at_def length_marc_record)
    then have "format_09d pos = format_09d pos'" by (simp add: offset_str_def)
    then have "nat pos = nat pos'" using read_format_09d assms(1,3) by metis
    then show ?thesis using assms(1,3) by simp
  qed
  moreover have "length (rec pos) = 366" "take 186 (rec pos) = take 186 marc_record"
    "drop 202 (rec pos) = drop 202 marc_record"
    using len by (simp_all add: assms(5) memcpy_at_def length_marc_record)
  ultimately show ?thesis by blast
qed

end
