(* ===== verification/MP_SD_Remove.thy ===== *)
theory MP_SD_Remove
  imports MP_Backend_Test
begin

text \<open>
  The \<open>sd_remove\<close> filter (\<open>src/filter_sd_remove.cpp\<close>): it turns the surrogate diagnostics
  of the search and present responses that come back into text records.
\<close>

section \<open>Operations\<close>

definition SD_Remove_configure :: "xml_node option \<Rightarrow> mp_exception + unit" where
  "SD_Remove_configure xmlnode =
     (case xmlnode of
        None \<Rightarrow> Inr ()
      | Some n \<Rightarrow> for_elements (\<lambda>ptr u. case ptr of
            c # _ \<Rightarrow> Inl (FilterException (''Bad element '' @ node_name c))
          | [] \<Rightarrow> Inr u) (node_children n) ())"

text \<open>The C code reads the additional information as \<open>v2Addinfo\<close> in both cases of the union.\<close>

fun addinfo_string :: "Z_Addinfo \<Rightarrow> string" where
  "addinfo_string (v2Addinfo s) = s"
| "addinfo_string (v3Addinfo s) = s"

definition diagrec_to_sutrs :: "yaz \<Rightarrow> Z_DiagRec \<Rightarrow> octets" where
  "diagrec_to_sutrs Y diag =
     '' ERROR '' @
     (case diag of
        DiagRec_defaultFormat e \<Rightarrow>
          show_int (diag_condition e) @ '': '' @ diagbib1_str Y (to_int32 (diag_condition e)) @
          (if addinfo_string (diag_addinfo e) \<noteq> [] then '' -- '' @ addinfo_string (diag_addinfo e) else [])
      | _ \<Rightarrow> ''diag not in default format'') @
     [CHR 0x0A]"

definition remove_surrogate :: "yaz \<Rightarrow> Z_NamePlusRecord \<Rightarrow> Z_NamePlusRecord" where
  "remove_surrogate Y npr =
     (case npr_record npr of
        NPR_surrogateDiagnostic diag \<Rightarrow>
          npr\<lparr>npr_record := NPR_databaseRecord (z_ext_record_sutrs Y (diagrec_to_sutrs Y diag))\<rparr>
      | _ \<Rightarrow> npr)"

fun SD_Remove_apdu :: "yaz \<Rightarrow> Z_APDU \<Rightarrow> Z_APDU" where
  "SD_Remove_apdu Y (APDU_presentResponse pr_res) =
     (case prs_records pr_res of
        Some (Records_DBOSD records) \<Rightarrow>
          if prs_numberOfRecordsReturned pr_res > 0
          then APDU_presentResponse (pr_res\<lparr>prs_records := Some (Records_DBOSD (map (remove_surrogate Y) records))\<rparr>)
          else APDU_presentResponse pr_res
      | _ \<Rightarrow> APDU_presentResponse pr_res)"
| "SD_Remove_apdu Y (APDU_searchResponse sr_res) =
     (case srs_records sr_res of
        Some (Records_DBOSD records) \<Rightarrow>
          if srs_numberOfRecordsReturned sr_res > 0
          then APDU_searchResponse (sr_res\<lparr>srs_records := Some (Records_DBOSD (map (remove_surrogate Y) records))\<rparr>)
          else APDU_searchResponse sr_res
      | _ \<Rightarrow> APDU_searchResponse sr_res)"
| "SD_Remove_apdu Y apdu = apdu"

definition SD_Remove_process :: "yaz \<Rightarrow> 'w move_fn \<Rightarrow> package \<Rightarrow> 'w world_scheme \<Rightarrow> package \<times> 'w world_scheme" where
  "SD_Remove_process Y mv p w =
     (let (p, w) = mv [] p w
      in (case pkg_response p of
            Some (GDU_Z3950 apdu) \<Rightarrow> p\<lparr>pkg_response := Some (GDU_Z3950 (SD_Remove_apdu Y apdu))\<rparr>
          | _ \<Rightarrow> p, w))"

section \<open>Properties\<close>

text \<open>The records a response carries, and how many it says it has.\<close>

fun apdu_records :: "Z_APDU \<Rightarrow> int \<times> Z_NamePlusRecord list" where
  "apdu_records (APDU_presentResponse r) = (prs_numberOfRecordsReturned r,
     case prs_records r of Some (Records_DBOSD rs) \<Rightarrow> rs | _ \<Rightarrow> [])"
| "apdu_records (APDU_searchResponse r) = (srs_numberOfRecordsReturned r,
     case srs_records r of Some (Records_DBOSD rs) \<Rightarrow> rs | _ \<Rightarrow> [])"
| "apdu_records apdu = (0, [])"

definition is_surrogate :: "Z_NamePlusRecord \<Rightarrow> bool" where
  "is_surrogate npr \<longleftrightarrow> (\<exists>d. npr_record npr = NPR_surrogateDiagnostic d)"

definition sd_replaced :: "Z_NamePlusRecord \<Rightarrow> Z_NamePlusRecord \<Rightarrow> bool" where
  "sd_replaced r r' \<longleftrightarrow> \<not> is_surrogate r' \<and> npr_databaseName r' = npr_databaseName r \<and> (\<not> is_surrogate r \<longrightarrow> r' = r)"

lemma remove_surrogate_replaced: "sd_replaced r (remove_surrogate Y r)"
  by (auto simp: sd_replaced_def remove_surrogate_def is_surrogate_def split: Z_NPRecord.splits)

lemma remove_surrogate_none [simp]: "\<not> is_surrogate r \<Longrightarrow> remove_surrogate Y r = r"
  using remove_surrogate_replaced [of r Y] by (simp add: sd_replaced_def)

lemma SD_Remove_apdu_records:
  "apdu_records (SD_Remove_apdu Y apdu) = (fst (apdu_records apdu),
     if fst (apdu_records apdu) > 0 then map (remove_surrogate Y) (snd (apdu_records apdu)) else snd (apdu_records apdu))"
  by (cases apdu) (auto split: option.splits Z_Records.splits)

lemma SD_Remove_apdu_idem: "SD_Remove_apdu Y (SD_Remove_apdu Y apdu) = SD_Remove_apdu Y apdu"
proof -
  have idem: "remove_surrogate Y \<circ> remove_surrogate Y = remove_surrogate Y"
    using remove_surrogate_replaced by (auto simp: sd_replaced_def)
  show ?thesis by (cases apdu) (auto simp: idem split: option.splits Z_Records.splits if_splits)
qed

text \<open>
  When a response that says it has records comes back, the filter hands it on with the same
  number of records at the same positions, none of them a surrogate diagnostic, every record
  that was none unchanged, and a second pass changes nothing more; the session and the
  request stay what the filters behind have left.\<close>
theorem SD_Remove_no_surrogates:
  assumes "mv [] p w = (p', w')" and "pkg_response p' = Some (GDU_Z3950 apdu)" and "fst (apdu_records apdu) > 0"
  shows "\<exists>apdu'. SD_Remove_process Y mv p w = (p'\<lparr>pkg_response := Some (GDU_Z3950 apdu')\<rparr>, w') \<and>
     fst (apdu_records apdu') = fst (apdu_records apdu) \<and>
     list_all2 sd_replaced (snd (apdu_records apdu)) (snd (apdu_records apdu')) \<and>
     SD_Remove_apdu Y apdu' = apdu'"
proof (intro exI conjI)
  show "SD_Remove_process Y mv p w = (p'\<lparr>pkg_response := Some (GDU_Z3950 (SD_Remove_apdu Y apdu))\<rparr>, w')"
    using assms by (simp add: SD_Remove_process_def)
  show "fst (apdu_records (SD_Remove_apdu Y apdu)) = fst (apdu_records apdu)"
    by (simp add: SD_Remove_apdu_records)
  show "list_all2 sd_replaced (snd (apdu_records apdu)) (snd (apdu_records (SD_Remove_apdu Y apdu)))"
    using assms(3) by (simp add: SD_Remove_apdu_records list_all2_map2 list.rel_refl remove_surrogate_replaced)
  show "SD_Remove_apdu Y (SD_Remove_apdu Y apdu) = SD_Remove_apdu Y apdu" by (rule SD_Remove_apdu_idem)
qed

text \<open>Behind the filter, the test backend asked for its surrogate diagnostics.\<close>

abbreviation sd_package :: package where
  "sd_package \<equiv> (Package_new \<lparr>m_id = 1, m_close = False\<rparr> Origin_new)\<lparr>pkg_request := Some (GDU_Z3950 (APDU_presentRequest
     ((demo_present 4 2)\<lparr>prq_recordComposition := Some (RecordComp_simple (ESN_generic ''SD''))\<rparr>)))\<rparr>"

theorem SD_Remove_no_surrogates_witness:
  "\<exists>apdu apdu'. backend_move yaz_ref ''1.0'' [] sd_package bt_known =
       (z_reply apdu sd_package, bt_known) \<and> fst (apdu_records apdu) = 2 \<and>
     list_all is_surrogate (snd (apdu_records apdu)) \<and>
     SD_Remove_process yaz_ref (backend_move yaz_ref ''1.0'') sd_package bt_known =
       (z_reply apdu' sd_package, bt_known) \<and>
     list_all2 sd_replaced (snd (apdu_records apdu)) (snd (apdu_records apdu'))"
proof -
  let ?pr = "(demo_present 4 2)\<lparr>prq_recordComposition := Some (RecordComp_simple (ESN_generic ''SD''))\<rparr>"
  let ?apdu = "APDU_presentResponse (bt_response yaz_ref ?pr ''SD'')"
  have "BackendTest_process yaz_ref ''1.0'' (\<lambda>r p w. (p, w)) (bt_state bt_known) sd_package bt_known =
      Some ((z_reply ?apdu sd_package, bt_state bt_known), bt_known)"
    by (rule BackendTest_process_present)
       (simp_all add: bt_accepts_def bt_esn_def bt_syntax_def fetch_check_def session_map_exist_def Package_new_def
         result_set_size_def yaz_ref_def)
  then have run: "backend_move yaz_ref ''1.0'' [] sd_package bt_known =
      (z_reply ?apdu sd_package, bt_known)"
    by (simp add: backend_move_def)
  have sd: "is_surrogate (fetch_record yaz_ref syn ''SD'' pos)" for syn pos
    by (simp add: fetch_record_def is_surrogate_def yaz_ref_def)
  have "list_all is_surrogate (bt_results yaz_ref (bt_syntax ?pr) ''SD'')"
    by (simp add: bt_results_def list_all_iff sd)
  then have "list_all is_surrogate (snd (apdu_records ?apdu))" "fst (apdu_records ?apdu) = 2"
    by (auto simp: bt_response_def list_all_iff dest: in_set_takeD in_set_dropD)
  note * = this
  obtain apdu' where "SD_Remove_process yaz_ref (backend_move yaz_ref ''1.0'') sd_package bt_known =
      ((z_reply ?apdu sd_package)\<lparr>pkg_response := Some (GDU_Z3950 apdu')\<rparr>, bt_known)"
    "list_all2 sd_replaced (snd (apdu_records ?apdu)) (snd (apdu_records apdu'))"
    using SD_Remove_no_surrogates [where mv = "backend_move yaz_ref ''1.0''" and p = sd_package
      and w = bt_known and p' = "z_reply ?apdu sd_package" and w' = bt_known
      and apdu = ?apdu and Y = yaz_ref] run * by auto
  with run * show ?thesis by (intro exI [of _ ?apdu] exI [of _ apdu'] conjI) simp_all
qed

end
