(* ===== verification/MP_Z3950_Client.thy ===== *)
theory MP_Z3950_Client
  imports MP_Backend_Test "HOL-Library.AList"
begin

text \<open>
  The Z39.50 client at the end of a chain (\<open>src/filter_z3950_client.cpp\<close>): one association
  with a target per session, used by one package at a time. The sockets are those of YAZ++:
  what the socket manager reports to an association is a list of notifications, one list per
  event it processes, and the end of the list is an event loop that has nothing to wait for.
  The two critical sections, \<open>get_assoc\<close> and \<open>release_assoc\<close>, are separate operations,
  and a condition wait is a state a package can be in, so that packages interleave.
\<close>

section \<open>State\<close>

text \<open>
  \<open>as_package\<close> says that the association points to the package it works for. The package
  itself is an argument of the operations.
\<close>

record Assoc =
  as_package :: bool
  as_in_use :: bool
  as_waiting :: bool
  as_destroyed :: bool
  as_connected :: int
  as_has_closed :: bool
  as_queue_len :: int
  as_time_elapsed :: int
  as_connect_time_max :: int
  as_init_time_max :: int
  as_max_sockets_timeout_sec :: int
  as_general_time_max :: int
  as_host :: string

definition Assoc_new :: "string \<Rightarrow> int \<Rightarrow> int \<Rightarrow> int \<Rightarrow> int \<Rightarrow> Assoc" where
  "Assoc_new host connect_timeout init_timeout max_sockets_timeout general_timeout =
     \<lparr>as_package = False, as_in_use = True, as_waiting = False, as_destroyed = False, as_connected = 0,
      as_has_closed = False, as_queue_len = 1, as_time_elapsed = 0, as_connect_time_max = connect_timeout,
      as_init_time_max = init_timeout, as_max_sockets_timeout_sec = max_sockets_timeout,
      as_general_time_max = general_timeout, as_host = host\<rparr>"

record ZC_Conf =
  zc_general_timeout_sec :: int
  zc_connect_timeout_sec :: int
  zc_init_timeout_sec :: int
  zc_max_sockets_timeout_sec :: int
  zc_max_sockets :: int
  zc_force_close :: bool
  zc_client_ip :: bool
  zc_bind_host :: bool
  zc_charset :: string
  zc_default_target :: string
  zc_force_target :: string

definition ZC_Conf_new :: ZC_Conf where
  "ZC_Conf_new = \<lparr>zc_general_timeout_sec = 30, zc_connect_timeout_sec = 10, zc_init_timeout_sec = 10,
     zc_max_sockets_timeout_sec = 15, zc_max_sockets = 0, zc_force_close = False, zc_client_ip = False,
     zc_bind_host = False, zc_charset = [], zc_default_target = [], zc_force_target = []\<rparr>"

text \<open>The clients of the filter, by session. The code iterates over them, so they are a list.\<close>

type_synonym zc_clients = "(64 word \<times> Assoc) list"

text \<open>
  What the filter needs of YAZ and YAZ++ beyond the functions of \<open>yaz\<close>: the result of
  starting a connection, whether a unit of other information is a character set negotiation,
  the update that adds one with a proposal (\<open>None\<close> when YAZ refuses), and a diagnostic code.
\<close>

record zc_env =
  zc_client :: "string \<Rightarrow> int"
  zc_is_charneg :: "Z_OtherInfoUnit \<Rightarrow> bool"
  zc_add_charneg :: "Z_OtherInformation \<Rightarrow> string \<Rightarrow> Z_OtherInformation option"
  BIB1_INIT_NEGOTIATION_OPTION_REQUIRED :: int
  Z_Options_negotiationModel :: nat

section \<open>Notifications\<close>

definition apdu_of :: "Z_GDU option \<Rightarrow> Z_APDU option" where
  "apdu_of gdu = (case gdu of Some (GDU_Z3950 apdu) \<Rightarrow> Some apdu | _ \<Rightarrow> None)"

definition abort_package :: "yaz \<Rightarrow> int \<Rightarrow> package \<Rightarrow> package" where
  "abort_package Y reason p = close_session (z_reply (create_close Y (apdu_of (pkg_request p)) reason None) p)"

definition Assoc_connectNotify :: "Assoc \<times> package \<Rightarrow> Assoc \<times> package" where
  "Assoc_connectNotify = (\<lambda>(c, p). (c\<lparr>as_waiting := False, as_connected := 1\<rparr>, p))"

definition Assoc_failNotify :: "yaz \<Rightarrow> Assoc \<times> package \<Rightarrow> Assoc \<times> package" where
  "Assoc_failNotify Y = (\<lambda>(c, p). (c\<lparr>as_waiting := False\<rparr>,
     if as_package c then abort_package Y Z_Close_peerAbort p else p))"

definition time_is_up :: "Assoc \<Rightarrow> bool" where
  "time_is_up c \<longleftrightarrow>
     as_connected c = 0 \<and> as_time_elapsed c \<ge> as_connect_time_max c \<or>
     as_connected c = 1 \<and> as_time_elapsed c \<ge> as_init_time_max c \<or>
     as_connected c \<ge> 2 \<and> as_time_elapsed c \<ge> as_general_time_max c"

definition Assoc_timeoutNotify :: "yaz \<Rightarrow> Assoc \<times> package \<Rightarrow> Assoc \<times> package" where
  "Assoc_timeoutNotify Y = (\<lambda>(c, p).
     (let c = c\<lparr>as_time_elapsed := as_time_elapsed c + 1\<rparr>
      in if time_is_up c
         then (c\<lparr>as_waiting := False\<rparr>,
               if as_package c
               then abort_package Y (if as_connected c = 2 then Z_Close_lackOfActivity else Z_Close_peerAbort) p
               else p)
         else (c, p)))"

text \<open>The additional information of a diagnostic is written through the member \<open>v2Addinfo\<close> in both cases.\<close>

definition fixup_addinfo :: "string \<Rightarrow> string \<Rightarrow> string" where
  "fixup_addinfo host addinfo =
     (if addinfo \<noteq> [] then addinfo @ '' '' else []) @ ''(backend='' @ host @ '')''"

fun map_addinfo :: "(string \<Rightarrow> string) \<Rightarrow> Z_Addinfo \<Rightarrow> Z_Addinfo" where
  "map_addinfo f (v2Addinfo s) = v2Addinfo (f s)"
| "map_addinfo f (v3Addinfo s) = v3Addinfo (f s)"

definition fixup_nsd_diag :: "string \<Rightarrow> Z_DefaultDiagFormat \<Rightarrow> Z_DefaultDiagFormat" where
  "fixup_nsd_diag host nsd = nsd\<lparr>diag_addinfo := map_addinfo (fixup_addinfo host) (diag_addinfo nsd)\<rparr>"

fun fixup_diagrec :: "string \<Rightarrow> Z_DiagRec \<Rightarrow> Z_DiagRec" where
  "fixup_diagrec host (DiagRec_defaultFormat nsd) = DiagRec_defaultFormat (fixup_nsd_diag host nsd)"
| "fixup_diagrec host dr = dr"

fun fixup_nsd :: "string \<Rightarrow> Z_Records option \<Rightarrow> Z_Records option" where
  "fixup_nsd host (Some (Records_NSD nsd)) = Some (Records_NSD (fixup_nsd_diag host nsd))"
| "fixup_nsd host (Some (Records_multipleNSD drecs)) = Some (Records_multipleNSD (map (fixup_diagrec host) drecs))"
| "fixup_nsd host records = records"

fun fixup_diag_element :: "string \<Rightarrow> Z_DiagnosticFormat_s \<Rightarrow> Z_DiagnosticFormat_s" where
  "fixup_diag_element host (DiagnosticFormat_s_defaultDiagRec r) = DiagnosticFormat_s_defaultDiagRec (fixup_nsd_diag host r)"
| "fixup_diag_element host ds = ds"

fun fixup_init_unit :: "string \<Rightarrow> Z_OtherInfoValue \<Rightarrow> Z_OtherInfoValue" where
  "fixup_init_unit host (OtherInfo_externallyDefinedInfo (Some (External_diag1 diag))) =
     OtherInfo_externallyDefinedInfo (Some (External_diag1 (map (fixup_diag_element host) diag)))"
| "fixup_init_unit host u = u"

definition fixup_init :: "string \<Rightarrow> Z_InitResponse \<Rightarrow> Z_InitResponse" where
  "fixup_init host initrs =
     (case irs_userInformationField initrs of
        Some (External_userInfo1 ui) \<Rightarrow>
          initrs\<lparr>irs_userInformationField := Some (External_userInfo1 (map (fixup_init_unit host) ui))\<rparr>
      | _ \<Rightarrow> initrs)"

fun fixup_apdu :: "string \<Rightarrow> Z_APDU \<Rightarrow> Z_APDU" where
  "fixup_apdu host (APDU_searchResponse r) = APDU_searchResponse (r\<lparr>srs_records := fixup_nsd host (srs_records r)\<rparr>)"
| "fixup_apdu host (APDU_presentResponse r) = APDU_presentResponse (r\<lparr>prs_records := fixup_nsd host (prs_records r)\<rparr>)"
| "fixup_apdu host (APDU_initResponse r) = APDU_initResponse (fixup_init host r)"
| "fixup_apdu host apdu = apdu"

definition Assoc_recv_GDU :: "Z_GDU option \<Rightarrow> Assoc \<times> package \<Rightarrow> Assoc \<times> package" where
  "Assoc_recv_GDU gdu = (\<lambda>(c, p).
     (let c = c\<lparr>as_waiting := False\<rparr>
      in if as_package c
         then (case gdu of
                 Some (GDU_Z3950 apdu) \<Rightarrow>
                   (case apdu of APDU_initResponse _ \<Rightarrow> c\<lparr>as_connected := 2\<rparr> | _ \<Rightarrow> c,
                    z_reply (fixup_apdu (as_host c) apdu) p)
               | _ \<Rightarrow> (c, p\<lparr>pkg_response := gdu\<rparr>))
         else (c, p)))"

datatype notification = Connect_notify | Fail_notify | Timeout_notify | Recv_GDU "Z_GDU option"

fun Assoc_notify :: "yaz \<Rightarrow> Assoc \<times> package \<Rightarrow> notification \<Rightarrow> Assoc \<times> package" where
  "Assoc_notify Y cp Connect_notify = Assoc_connectNotify cp"
| "Assoc_notify Y cp Fail_notify = Assoc_failNotify Y cp"
| "Assoc_notify Y cp Timeout_notify = Assoc_timeoutNotify Y cp"
| "Assoc_notify Y cp (Recv_GDU gdu) = Assoc_recv_GDU gdu cp"

text \<open>The event loop of both waits: \<open>while (!m_destroyed && m_waiting && processEvent() > 0)\<close>.\<close>

type_synonym zc_events = "notification list list"

fun event_loop :: "yaz \<Rightarrow> zc_events \<Rightarrow> Assoc \<times> package \<Rightarrow> (Assoc \<times> package) \<times> zc_events" where
  "event_loop Y [] cp = (cp, [])"
| "event_loop Y (e # es) cp =
     (if \<not> as_destroyed (fst cp) \<and> as_waiting (fst cp) then event_loop Y es (foldl (Assoc_notify Y) cp e)
      else (cp, e # es))"

section \<open>Getting an association\<close>

text \<open>
  What \<open>get_assoc\<close> ends with or waits for: the association of the session is taken; it is in
  use and the package waits for it; all sockets to the target are taken and the package
  waits for one; or the package has been dealt with and no association is returned.
\<close>

datatype zc_phase = Ready | Waiting_session | Waiting_socket string | No_assoc

definition ZC_max_sockets :: "ZC_Conf \<Rightarrow> package \<Rightarrow> int" where
  "ZC_max_sockets conf p =
     (if m_max_sockets (pkg_origin p) = 0 then zc_max_sockets conf else m_max_sockets (pkg_origin p))"

text \<open>The loop over an association that exists: take it unless another package uses it.\<close>

definition ZC_take :: "zc_clients \<Rightarrow> package \<Rightarrow> Assoc \<Rightarrow> zc_phase \<times> zc_clients" where
  "ZC_take clients p a =
     (if \<not> as_in_use a
      then (Ready, AList.update (m_id (pkg_session p)) (a\<lparr>as_in_use := True\<rparr>) clients)
      else (Waiting_session, AList.update (m_id (pkg_session p)) a clients))"

text \<open>
  The target of a new association, with the package without its virtual hosts; or the
  package with the refusal. \<open>None\<close> is a loop over virtual hosts that does not end.
\<close>

definition init_refused :: "yaz \<Rightarrow> string \<Rightarrow> Z_InitRequest \<Rightarrow> int \<Rightarrow> string \<Rightarrow> package \<Rightarrow> package" where
  "init_refused Y version req err addinfo p =
     close_session (z_reply (APDU_initResponse (create_initResponse Y version (Some (APDU_initRequest req)) err (Some addinfo))) p)"

definition ZC_target :: "zc_env \<Rightarrow> yaz \<Rightarrow> string \<Rightarrow> ZC_Conf \<Rightarrow> package \<Rightarrow> Z_InitRequest
    \<Rightarrow> (package + string \<times> package) option" where
  "ZC_target X Y version conf p req =
     (if zc_force_target conf \<noteq> [] then Some (Inr (zc_force_target conf, p))
      else (case remove_vhost_otherinfo Y (irq_otherInfo req) of
        None \<Rightarrow> None
      | Some (_, vhosts, oi) \<Rightarrow>
          (let req = req\<lparr>irq_otherInfo := oi\<rparr>; p = p\<lparr>pkg_request := Some (GDU_Z3950 (APDU_initRequest req))\<rparr>
           in case vhosts of
                [v] \<Rightarrow> Some (Inr (v, p))
              | [] \<Rightarrow>
                  if zc_default_target conf = []
                  then Some (Inl (init_refused Y version req (BIB1_INIT_NEGOTIATION_OPTION_REQUIRED X)
                         ''z3950_client: No vhost given'' p))
                  else Some (Inr (zc_default_target conf, p))
              | _ \<Rightarrow>
                  Some (Inl (init_refused Y version req BIB1_COMBI_OF_SPECIFIED_DATABASES_UNSUPP
                         ''z3950_client: Can not cope with multiple vhosts'' p)))))"

text \<open>One turn of the loop over the sockets; the wait for one may also time out.\<close>

definition ZC_new_assoc :: "ZC_Conf \<Rightarrow> string \<Rightarrow> Assoc" where
  "ZC_new_assoc conf target =
     Assoc_new target (zc_connect_timeout_sec conf) (zc_init_timeout_sec conf) (zc_max_sockets_timeout_sec conf)
       (zc_general_timeout_sec conf)"

definition hosts_number :: "zc_clients \<Rightarrow> string \<Rightarrow> nat" where
  "hosts_number clients target = length (filter (\<lambda>(k, a). as_host a = target) clients)"

definition hosts_idle :: "zc_clients \<Rightarrow> string \<Rightarrow> nat" where
  "hosts_idle clients target = length (filter (\<lambda>(k, a). as_host a = target \<and> \<not> as_in_use a) clients)"

definition ZC_no_socket :: "yaz \<Rightarrow> string \<Rightarrow> package \<Rightarrow> package" where
  "ZC_no_socket Y version p =
     (case pkg_request p of
        Some (GDU_Z3950 (APDU_initRequest req)) \<Rightarrow>
          init_refused Y version req BIB1_TEMPORARY_SYSTEM_ERROR ''z3950_client: max sessions'' p
      | _ \<Rightarrow> p)"

definition ZC_socket :: "yaz \<Rightarrow> string \<Rightarrow> ZC_Conf \<Rightarrow> zc_clients \<Rightarrow> package \<Rightarrow> string \<Rightarrow> zc_phase \<times> package \<times> zc_clients" where
  "ZC_socket Y version conf clients p target =
     (if ZC_max_sockets conf p = 0 \<or> int (hosts_number clients target) < ZC_max_sockets conf p
      then (Ready, p, AList.update (m_id (pkg_session p)) (ZC_new_assoc conf target) clients)
      else if hosts_idle clients target = 0
      then (No_assoc, ZC_no_socket Y version p, clients)
      else (Waiting_socket target, p, clients))"

definition ZC_get_assoc :: "zc_env \<Rightarrow> yaz \<Rightarrow> string \<Rightarrow> ZC_Conf \<Rightarrow> 'w move_fn \<Rightarrow> zc_clients \<Rightarrow> package
    \<Rightarrow> 'w world_scheme \<Rightarrow> ((zc_phase \<times> package \<times> zc_clients) \<times> 'w world_scheme) option" where
  "ZC_get_assoc X Y version conf mv clients p w =
     (case map_of clients (m_id (pkg_session p)) of
        Some a \<Rightarrow>
          (let (ph, clients) = ZC_take clients p (a\<lparr>as_queue_len := as_queue_len a + 1\<rparr>)
           in Some ((ph, p, clients), w))
      | None \<Rightarrow>
          (case pkg_request p of
             Some (GDU_Z3950 (APDU_initRequest req)) \<Rightarrow>
               (case ZC_target X Y version conf p req of
                  None \<Rightarrow> None
                | Some (Inl p) \<Rightarrow> Some ((No_assoc, p, clients), w)
                | Some (Inr (target, p)) \<Rightarrow> Some (ZC_socket Y version conf clients p target, w))
           | Some (GDU_Z3950 apdu) \<Rightarrow>
               Some ((No_assoc, close_session (z_reply (create_close Y (Some apdu) Z_Close_protocolError
                 (Some ''First PDU was not an Initialize Request'')) p), clients), w)
           | _ \<Rightarrow> (let (p, w) = mv [] p w in Some ((No_assoc, p, clients), w))))"

section \<open>Sending and receiving\<close>

definition set_charset_proposal :: "zc_env \<Rightarrow> Z_InitRequest \<Rightarrow> string \<Rightarrow> Z_InitRequest" where
  "set_charset_proposal X req charset =
     (if list_ex (zc_is_charneg X) (irq_otherInfo req) then req
      else (case zc_add_charneg X (irq_otherInfo req) charset of
              None \<Rightarrow> req
            | Some oi \<Rightarrow> req\<lparr>irq_options := insert (Z_Options_negotiationModel X) (irq_options req), irq_otherInfo := oi\<rparr>))"

definition set_client_ip :: "yaz \<Rightarrow> string \<Rightarrow> Z_InitRequest \<Rightarrow> Z_InitRequest" where
  "set_client_ip Y peer_name2 req =
     (if peer_name2 = [] then req
      else (let (peer_name1, oi) = yaz_oi_get_string_oid Y (irq_otherInfo req) oid_userinfo_client_ip 1 True;
                pcomb = (case peer_name1 of None \<Rightarrow> [] | Some n \<Rightarrow> n @ '', '') @ peer_name2
            in req\<lparr>irq_otherInfo := yaz_oi_set_string_oid Y oi oid_userinfo_client_ip 1 pcomb\<rparr>))"

definition ZC_prepare :: "zc_env \<Rightarrow> yaz \<Rightarrow> ZC_Conf \<Rightarrow> origin \<Rightarrow> Z_APDU \<Rightarrow> Z_APDU" where
  "ZC_prepare X Y conf ori apdu =
     (case apdu of
        APDU_initRequest req \<Rightarrow>
          (let req = (if zc_client_ip conf then set_client_ip Y (Origin_get_address ori) req else req);
               req = (if zc_charset conf \<noteq> [] then set_charset_proposal X req (zc_charset conf) else req)
           in APDU_initRequest req)
      | _ \<Rightarrow> apdu)"

text \<open>The second half: relay the request and wait for the answer. The list has what was sent.\<close>

definition ZC_relay :: "zc_env \<Rightarrow> yaz \<Rightarrow> ZC_Conf \<Rightarrow> zc_events \<Rightarrow> Z_APDU \<Rightarrow> Assoc \<times> package
    \<Rightarrow> (Assoc \<times> package) \<times> Z_GDU list" where
  "ZC_relay X Y conf es apdu = (\<lambda>(c, p).
     (let gdu = GDU_Z3950 (ZC_prepare X Y conf (pkg_origin p) apdu);
          p = p\<lparr>pkg_request := Some gdu\<rparr>;
          c = c\<lparr>as_time_elapsed := 0, as_waiting := True\<rparr>
      in (case apdu of
            APDU_kind triggerResourceControlRequest _ _ \<Rightarrow> (c, p)
          | _ \<Rightarrow> fst (event_loop Y es (c, p)), [gdu])))"

definition ZC_connect_host :: "ZC_Conf \<Rightarrow> origin \<Rightarrow> string \<Rightarrow> string" where
  "ZC_connect_host conf ori host =
     (let bind_host = Origin_get_bind_address ori
      in if zc_bind_host conf \<and> bind_host \<noteq> [] then host @ '' '' @ bind_host else host)"

text \<open>
  The first half: connect where there is no connection yet. Before that, the association is
  pointed to the package, unless the session is closed and the filter closes the
  connection on its own.
\<close>

definition ZC_connect :: "zc_env \<Rightarrow> yaz \<Rightarrow> ZC_Conf \<Rightarrow> zc_events \<Rightarrow> Z_APDU \<Rightarrow> Assoc \<times> package
    \<Rightarrow> (Assoc \<times> package) \<times> Z_GDU list" where
  "ZC_connect X Y conf es apdu = (\<lambda>(c, p).
     (let c = (case apdu of APDU_close _ \<Rightarrow> c\<lparr>as_has_closed := True\<rparr> | _ \<Rightarrow> c);
          c = c\<lparr>as_time_elapsed := 0, as_waiting := True\<rparr>
      in if as_connected c = 0
         then if zc_client X (ZC_connect_host conf (pkg_origin p) (as_host c)) \<noteq> 0
              then ((c, close_session (z_reply (create_close Y (Some apdu) Z_Close_peerAbort None) p)), [])
              else (let (cp, es) = event_loop Y es (c, p)
                    in if as_connected (fst cp) = 0 then (cp, []) else ZC_relay X Y conf es apdu cp)
         else ZC_relay X Y conf es apdu (c, p)))"

definition ZC_claim :: "yaz \<Rightarrow> ZC_Conf \<Rightarrow> Assoc \<Rightarrow> package \<Rightarrow> Assoc \<times> package" where
  "ZC_claim Y conf c p =
     (if is_closed p \<and> as_connected c \<noteq> 0 \<and> \<not> as_has_closed c \<and> zc_force_close conf
      then (c\<lparr>as_package := False\<rparr>,
            p\<lparr>pkg_request := Some (GDU_Z3950 (create_close Y None Z_Close_finished (Some ''z3950_client'')))\<rparr>)
      else (c\<lparr>as_package := True\<rparr>, p))"

definition ZC_send_and_receive :: "zc_env \<Rightarrow> yaz \<Rightarrow> ZC_Conf \<Rightarrow> zc_events \<Rightarrow> Assoc \<Rightarrow> package
    \<Rightarrow> (Assoc \<times> package) \<times> Z_GDU list" where
  "ZC_send_and_receive X Y conf es c p =
     (if as_destroyed c then ((c, p), [])
      else (let (c, p) = ZC_claim Y conf c p
            in case pkg_request p of
                 Some (GDU_Z3950 apdu) \<Rightarrow> ZC_connect X Y conf es apdu (c, p)
               | _ \<Rightarrow> ((c, p), [])))"

section \<open>Releasing an association\<close>

definition ZC_release_assoc :: "zc_clients \<Rightarrow> package \<Rightarrow> zc_clients" where
  "ZC_release_assoc clients p =
     (let k = m_id (pkg_session p)
      in case map_of clients k of
           None \<Rightarrow> clients
         | Some a \<Rightarrow>
             (let a = a\<lparr>as_in_use := False, as_queue_len := as_queue_len a - 1\<rparr>
              in if is_closed p
                 then (let a = a\<lparr>as_destroyed := True\<rparr>
                       in if as_queue_len a = 0 then AList.delete k clients else AList.update k a clients)
                 else AList.update k a clients))"

text \<open>
  A package that does not have to wait. \<open>None\<close>: it has to, or the loop over virtual hosts
  does not end.
\<close>

definition ZC_process :: "zc_env \<Rightarrow> yaz \<Rightarrow> string \<Rightarrow> ZC_Conf \<Rightarrow> zc_events \<Rightarrow> 'w move_fn \<Rightarrow> zc_clients \<Rightarrow> package
    \<Rightarrow> 'w world_scheme \<Rightarrow> ((package \<times> zc_clients \<times> Z_GDU list) \<times> 'w world_scheme) option" where
  "ZC_process X Y version conf es mv clients p w =
     (case ZC_get_assoc X Y version conf mv clients p w of
        Some ((Ready, p, clients), w) \<Rightarrow>
          (case map_of clients (m_id (pkg_session p)) of
             Some c \<Rightarrow>
               (let ((c, p), sent) = ZC_send_and_receive X Y conf es c p
                in Some ((p, ZC_release_assoc (AList.update (m_id (pkg_session p)) c clients) p, sent), w))
           | None \<Rightarrow> None)
      | Some ((No_assoc, p, clients), w) \<Rightarrow> Some ((p, clients, []), w)
      | _ \<Rightarrow> None)"

section \<open>Configuration\<close>

fun ZC_element :: "xml_node list \<Rightarrow> ZC_Conf \<Rightarrow> mp_exception + ZC_Conf" where
  "ZC_element (n # ns) c =
     (if node_name n = ''timeout'' then Inr (c\<lparr>zc_general_timeout_sec := get_int (n # ns) 30\<rparr>)
      else if node_name n = ''connect-timeout'' then Inr (c\<lparr>zc_connect_timeout_sec := get_int (n # ns) 10\<rparr>)
      else if node_name n = ''init-timeout'' then Inr (c\<lparr>zc_init_timeout_sec := get_int (n # ns) 10\<rparr>)
      else if node_name n = ''max-sockets-timeout'' then Inr (c\<lparr>zc_max_sockets_timeout_sec := get_int (n # ns) 15\<rparr>)
      else if node_name n = ''default_target'' then Inr (c\<lparr>zc_default_target := get_text (n # ns)\<rparr>)
      else if node_name n = ''force_target'' then Inr (c\<lparr>zc_force_target := get_text (n # ns)\<rparr>)
      else if node_name n = ''max-sockets'' then Inr (c\<lparr>zc_max_sockets := get_int (n # ns) 0\<rparr>)
      else if node_name n = ''force_close'' then Inr (c\<lparr>zc_force_close := get_bool (n # ns) False\<rparr>)
      else if node_name n = ''client_ip'' then Inr (c\<lparr>zc_client_ip := get_bool (n # ns) False\<rparr>)
      else if node_name n = ''charset'' then Inr (c\<lparr>zc_charset := get_text (n # ns)\<rparr>)
      else if node_name n = ''bind_host'' then Inr (c\<lparr>zc_bind_host := get_bool (n # ns) False\<rparr>)
      else Inl (FilterException (''Bad element '' @ node_name n)))"
| "ZC_element [] c = Inr c"

definition ZC_configure :: "xml_node \<Rightarrow> ZC_Conf \<Rightarrow> mp_exception + ZC_Conf" where
  "ZC_configure ptr c = for_elements ZC_element (node_children ptr) c"

end
