(* ===== verification/MP_Z3950_Client_Props.thy ===== *)
theory MP_Z3950_Client_Props
  imports MP_Z3950_Client
begin

text \<open>
  Properties of the Z39.50 client: every request that is relayed is answered in bounded time;
  packages of a session use its association one after the other and never one that has been
  deleted; the number of connections to a target stays within the configured bound.
\<close>

section \<open>Waiting for an answer\<close>

text \<open>The limit in seconds of the wait an association is in.\<close>

definition time_limit :: "Assoc \<Rightarrow> int" where
  "time_limit c = (if as_connected c = 0 then as_connect_time_max c
     else if as_connected c = 1 then as_init_time_max c else as_general_time_max c)"

lemma time_is_up_limit: "0 \<le> as_connected c \<Longrightarrow> time_is_up c \<longleftrightarrow> time_limit c \<le> as_time_elapsed c"
  by (auto simp: time_is_up_def time_limit_def)

fun fixup_gdu :: "string \<Rightarrow> Z_GDU \<Rightarrow> Z_GDU" where
  "fixup_gdu host (GDU_Z3950 apdu) = GDU_Z3950 (fixup_apdu host apdu)"
| "fixup_gdu host gdu = gdu"

text \<open>
  An answered package: it has what the target has sent, with the name of the backend in its
  diagnostics, or a Close and its session is closed.
\<close>

definition answered :: "yaz \<Rightarrow> string \<Rightarrow> Z_GDU set \<Rightarrow> package \<Rightarrow> package \<Rightarrow> bool" where
  "answered Y host received p0 p \<longleftrightarrow>
     pkg_request p = pkg_request p0 \<and> m_id (pkg_session p) = m_id (pkg_session p0) \<and>
     ((\<exists>gdu \<in> received. pkg_response p = Some (fixup_gdu host gdu)) \<or>
      is_closed p \<and> (\<exists>reason. pkg_response p = Some (GDU_Z3950 (create_close Y (apdu_of (pkg_request p0)) reason None))))"

definition wait_state :: "yaz \<Rightarrow> Z_GDU set \<Rightarrow> Assoc \<Rightarrow> package \<Rightarrow> nat \<Rightarrow> Assoc \<times> package \<Rightarrow> bool" where
  "wait_state Y received c0 p0 n cp \<longleftrightarrow>
     (case cp of (c, p) \<Rightarrow>
       c = c0\<lparr>as_time_elapsed := as_time_elapsed c0 + int n\<rparr> \<and> p = p0 \<and> (n = 0 \<or> as_time_elapsed c < time_limit c0) \<or>
       \<not> as_waiting c \<and> as_package c \<and> as_host c = as_host c0 \<and> answered Y (as_host c0) received p0 p)"

lemma abort_answered:
  assumes "p = p0 \<or> answered Y host received p0 p"
  shows "answered Y host received p0 (abort_package Y reason p)"
  using assms by (auto simp: answered_def abort_package_def close_session_def Session_close_def)

lemma recv_answered:
  assumes "p = p0 \<or> answered Y host received p0 p" and "gdu \<in> received"
  shows "answered Y host received p0 (p\<lparr>pkg_response := Some (fixup_gdu host gdu)\<rparr>)"
  using assms by (auto simp: answered_def)

lemma notify_wait_state:
  assumes "wait_state Y received c0 p0 n (c, p)" and "as_package c0" and "0 \<le> as_connected c0"
    and "e \<noteq> Connect_notify" and "e \<noteq> Recv_GDU None" and "\<And>gdu. e = Recv_GDU (Some gdu) \<Longrightarrow> gdu \<in> received"
  shows "wait_state Y received c0 p0 (n + (if e = Timeout_notify then 1 else 0)) (Assoc_notify Y (c, p) e)"
proof (cases e)
  case Fail_notify
  then show ?thesis using assms(1,2)
    by (auto simp: wait_state_def Assoc_failNotify_def intro!: abort_answered)
next
  case Timeout_notify
  then show ?thesis using assms(1-3)
    by (auto simp: wait_state_def Assoc_timeoutNotify_def Let_def time_is_up_limit time_limit_def
        intro!: abort_answered split: if_splits)
next
  case (Recv_GDU g)
  then obtain gdu where g: "g = Some gdu" "gdu \<in> received" using assms(5,6) by (cases g) auto
  have ans: "answered Y (as_host c0) received p0 (p\<lparr>pkg_response := Some (fixup_gdu (as_host c0) gdu)\<rparr>)"
    using assms(1) g(2) by (intro recv_answered) (auto simp: wait_state_def)
  show ?thesis using assms(1,2) Recv_GDU g ans
    by (cases gdu) (auto simp: wait_state_def Assoc_recv_GDU_def Let_def split: Z_APDU.splits)
qed (use assms in simp)

abbreviation timeouts :: "notification list \<Rightarrow> nat" where
  "timeouts es \<equiv> count_list es Timeout_notify"

lemma foldl_wait_state:
  assumes "wait_state Y received c0 p0 n cp" and "as_package c0" and "0 \<le> as_connected c0"
    and "Connect_notify \<notin> set es" and "Recv_GDU None \<notin> set es" and "\<And>gdu. Recv_GDU (Some gdu) \<in> set es \<Longrightarrow> gdu \<in> received"
  shows "wait_state Y received c0 p0 (n + timeouts es) (foldl (Assoc_notify Y) cp es)"
  using assms
proof (induction es arbitrary: n cp)
  case (Cons e es)
  obtain c p where cp: "cp = (c, p)" by force
  have "wait_state Y received c0 p0 (n + (if e = Timeout_notify then 1 else 0)) (Assoc_notify Y cp e)"
    using Cons.prems unfolding cp by (intro notify_wait_state) auto
  from Cons.IH [OF this] Cons.prems show ?case by (simp split: if_splits)
qed simp

lemma event_loop_wait_state:
  assumes "wait_state Y received c0 p0 n cp" and "as_package c0" and "0 \<le> as_connected c0"
    and "as_waiting c0" and "\<not> as_destroyed c0"
    and "Connect_notify \<notin> set (concat es)" and "Recv_GDU None \<notin> set (concat es)"
    and "\<And>gdu. Recv_GDU (Some gdu) \<in> set (concat es) \<Longrightarrow> gdu \<in> received"
  shows "\<exists>m. wait_state Y received c0 p0 m (fst (event_loop Y es cp)) \<and>
     (as_waiting (fst (fst (event_loop Y es cp))) \<longrightarrow> m = n + timeouts (concat es))"
  using assms
proof (induction es arbitrary: n cp)
  case Nil
  then show ?case by auto
next
  case (Cons e es)
  show ?case
  proof (cases "\<not> as_destroyed (fst cp) \<and> as_waiting (fst cp)")
    case True
    have "wait_state Y received c0 p0 (n + timeouts e) (foldl (Assoc_notify Y) cp e)"
      using Cons.prems by (intro foldl_wait_state) auto
    from Cons.IH [OF this] Cons.prems True show ?thesis by (simp add: add.assoc)
  next
    case False
    then have "\<not> as_waiting (fst cp)" using Cons.prems(1,4,5) by (auto simp: wait_state_def)
    then show ?thesis using Cons.prems(1) by auto
  qed
qed

lemma event_loop_answered:
  assumes "as_package c" and "0 \<le> as_connected c" and "as_waiting c" and "\<not> as_destroyed c"
    and "Connect_notify \<notin> set (concat es)" and "Recv_GDU None \<notin> set (concat es)"
    and "0 < timeouts (concat es)" and "time_limit c \<le> as_time_elapsed c + int (timeouts (concat es))"
  shows "answered Y (as_host c) {gdu. Recv_GDU (Some gdu) \<in> set (concat es)} p (snd (fst (event_loop Y es (c, p)))) \<and>
     \<not> as_waiting (fst (fst (event_loop Y es (c, p))))"
proof -
  let ?R = "{gdu. Recv_GDU (Some gdu) \<in> set (concat es)}"
  have "wait_state Y ?R c p 0 (c, p)" by (simp add: wait_state_def)
  from event_loop_wait_state [OF this assms(1-6)]
  obtain m where m: "wait_state Y ?R c p m (fst (event_loop Y es (c, p)))"
    "as_waiting (fst (fst (event_loop Y es (c, p)))) \<longrightarrow> m = timeouts (concat es)" by auto
  then show ?thesis using assms(3,7,8) by (cases "fst (event_loop Y es (c, p))") (auto simp: wait_state_def)
qed

text \<open>
  C10. Every request relayed over an established connection is sent to the target once and
  answered in bounded time: if as many seconds pass as the time limit of the connection says,
  the wait is over, and the package has either a response of the target, in which every
  diagnostic names the backend, or a Close with the reference identifier of the request and
  a closed session.\<close>
theorem ZC_request_answered:
  assumes "\<not> as_destroyed c" and "0 < as_connected c" and "\<not> is_closed p"
    and "pkg_request p = Some (GDU_Z3950 apdu)" and "\<And>r b. apdu \<noteq> APDU_kind triggerResourceControlRequest r b"
    and "Connect_notify \<notin> set (concat es)" and "Recv_GDU None \<notin> set (concat es)"
    and "0 < timeouts (concat es)" and "time_limit c \<le> int (timeouts (concat es))"
  shows "\<exists>c' p'. ZC_send_and_receive X Y conf es c p =
       ((c', p'), [GDU_Z3950 (ZC_prepare X Y conf (pkg_origin p) apdu)]) \<and> \<not> as_waiting c' \<and>
     answered Y (as_host c) {gdu. Recv_GDU (Some gdu) \<in> set (concat es)}
       (p\<lparr>pkg_request := Some (GDU_Z3950 (ZC_prepare X Y conf (pkg_origin p) apdu))\<rparr>) p'"
proof -
  let ?c = "(case apdu of APDU_close _ \<Rightarrow> c\<lparr>as_package := True, as_has_closed := True\<rparr> | _ \<Rightarrow> c\<lparr>as_package := True\<rparr>)
     \<lparr>as_time_elapsed := 0, as_waiting := True\<rparr>"
  let ?p = "p\<lparr>pkg_request := Some (GDU_Z3950 (ZC_prepare X Y conf (pkg_origin p) apdu))\<rparr>"
  have "ZC_send_and_receive X Y conf es c p =
      (fst (event_loop Y es (?c, ?p)), [GDU_Z3950 (ZC_prepare X Y conf (pkg_origin p) apdu)])"
    using assms(1-5)
    by (auto simp: ZC_send_and_receive_def ZC_claim_def ZC_connect_def ZC_relay_def Let_def split: Z_APDU.splits apdu_kind.splits)
  moreover have "time_limit ?c = time_limit c" "as_host ?c = as_host c" "\<not> as_destroyed ?c" "0 \<le> as_connected ?c"
    "as_package ?c" "as_waiting ?c" "as_time_elapsed ?c = 0"
    using assms(1,2) by (simp_all add: time_limit_def split: Z_APDU.splits)
  ultimately show ?thesis
    using event_loop_answered [of ?c es Y ?p] assms(6-9)
    by (cases "fst (event_loop Y es (?c, ?p))") simp
qed

definition zc_env_ref :: zc_env where
  "zc_env_ref = \<lparr>zc_client = (\<lambda>h. 0), zc_is_charneg = (\<lambda>u. False), zc_add_charneg = (\<lambda>oi s. None),
     BIB1_INIT_NEGOTIATION_OPTION_REQUIRED = 1051, Z_Options_negotiationModel = 17\<rparr>"

abbreviation demo_assoc :: Assoc where
  "demo_assoc \<equiv> (Assoc_new ''z.example.org'' 10 10 15 3)\<lparr>as_connected := 2\<rparr>"

text \<open>A target that does not answer: the wait ends after the three seconds configured.\<close>

theorem ZC_request_answered_witness:
  "\<exists>c' p' reason. ZC_send_and_receive zc_env_ref yaz_ref ZC_Conf_new (replicate 5 [Timeout_notify]) demo_assoc (demo_package 1 1) =
       ((c', p'), [GDU_Z3950 (APDU_presentRequest (demo_present 1 1))]) \<and> \<not> as_waiting c' \<and> is_closed p' \<and>
     pkg_response p' = Some (GDU_Z3950 (create_close yaz_ref (Some (APDU_presentRequest (demo_present 1 1))) reason None))"
proof -
  have "\<exists>c' p'. ZC_send_and_receive zc_env_ref yaz_ref ZC_Conf_new (replicate 5 [Timeout_notify]) demo_assoc (demo_package 1 1) =
       ((c', p'), [GDU_Z3950 (ZC_prepare zc_env_ref yaz_ref ZC_Conf_new (pkg_origin (demo_package 1 1))
          (APDU_presentRequest (demo_present 1 1)))]) \<and> \<not> as_waiting c' \<and>
     answered yaz_ref (as_host demo_assoc) {gdu. Recv_GDU (Some gdu) \<in> set (concat (replicate 5 [Timeout_notify]))}
       ((demo_package 1 1)\<lparr>pkg_request := Some (GDU_Z3950 (ZC_prepare zc_env_ref yaz_ref ZC_Conf_new
          (pkg_origin (demo_package 1 1)) (APDU_presentRequest (demo_present 1 1))))\<rparr>) p'"
    by (rule ZC_request_answered)
       (simp_all add: Assoc_new_def Package_new_def time_limit_def eval_nat_numeral)
  then show ?thesis by (auto simp: ZC_prepare_def answered_def apdu_of_def)
qed

section \<open>Packages that interleave\<close>

text \<open>
  The filter with the packages it is processing, each in a phase: waiting in \<open>get_assoc\<close>,
  or with its association, before and after \<open>send_and_receive\<close>.
\<close>

datatype zc_thread = Blocked | Blocked_socket string | Sending | Sent

record zc_sys =
  sys_clients :: zc_clients
  sys_threads :: "nat \<Rightarrow> (package \<times> zc_thread) option"

definition zc_start :: zc_sys where
  "zc_start = \<lparr>sys_clients = [], sys_threads = Map.empty\<rparr>"

abbreviation pkg_key :: "package \<Rightarrow> 64 word" where
  "pkg_key p \<equiv> m_id (pkg_session p)"

fun thread_of :: "zc_phase \<Rightarrow> package \<Rightarrow> (package \<times> zc_thread) option" where
  "thread_of Ready p = Some (p, Sending)"
| "thread_of Waiting_session p = Some (p, Blocked)"
| "thread_of (Waiting_socket target) p = Some (p, Blocked_socket target)"
| "thread_of No_assoc p = None"

text \<open>
  The steps. A package enters \<open>get_assoc\<close>; it is woken up and tries again; it waits for a
  socket and gets a turn or times out; it sends and receives; it releases its association.
  A client may not send a second request before its Init is answered: no package enters while
  another of its session waits for a socket. \<open>adm\<close> restricts the packages that enter.
\<close>

inductive zc_step :: "zc_env \<Rightarrow> yaz \<Rightarrow> string \<Rightarrow> ZC_Conf \<Rightarrow> (package \<Rightarrow> bool) \<Rightarrow> 'w move_fn \<Rightarrow> zc_sys \<Rightarrow> zc_sys \<Rightarrow> bool"
  for X Y version conf adm and mv :: "'w move_fn"
where
  enter: "\<lbrakk>sys_threads s t = None; adm p;
     \<And>t' p' target. sys_threads s t' = Some (p', Blocked_socket target) \<Longrightarrow> pkg_key p' \<noteq> pkg_key p;
     ZC_get_assoc X Y version conf mv (sys_clients s) p w = Some ((ph, p', clients), w')\<rbrakk>
   \<Longrightarrow> zc_step X Y version conf adm mv s
        (s\<lparr>sys_clients := clients, sys_threads := (sys_threads s)(t := thread_of ph p')\<rparr>)"
| retry: "\<lbrakk>sys_threads s t = Some (p, Blocked); map_of (sys_clients s) (pkg_key p) = Some a;
     ZC_take (sys_clients s) p a = (ph, clients)\<rbrakk>
   \<Longrightarrow> zc_step X Y version conf adm mv s
        (s\<lparr>sys_clients := clients, sys_threads := (sys_threads s)(t := thread_of ph p)\<rparr>)"
| socket: "\<lbrakk>sys_threads s t = Some (p, Blocked_socket target);
     ZC_socket Y version conf (sys_clients s) p target = (ph, p', clients)\<rbrakk>
   \<Longrightarrow> zc_step X Y version conf adm mv s
        (s\<lparr>sys_clients := clients, sys_threads := (sys_threads s)(t := thread_of ph p')\<rparr>)"
| socket_timeout: "sys_threads s t = Some (p, Blocked_socket target)
   \<Longrightarrow> zc_step X Y version conf adm mv s (s\<lparr>sys_threads := (sys_threads s)(t := None)\<rparr>)"
| send: "\<lbrakk>sys_threads s t = Some (p, Sending); map_of (sys_clients s) (pkg_key p) = Some c;
     ZC_send_and_receive X Y conf es c p = ((c', p'), sent)\<rbrakk>
   \<Longrightarrow> zc_step X Y version conf adm mv s
        (s\<lparr>sys_clients := AList.update (pkg_key p) c' (sys_clients s),
           sys_threads := (sys_threads s)(t \<mapsto> (p', Sent))\<rparr>)"
| release: "sys_threads s t = Some (p, Sent)
   \<Longrightarrow> zc_step X Y version conf adm mv s
        (s\<lparr>sys_clients := ZC_release_assoc (sys_clients s) p, sys_threads := (sys_threads s)(t := None)\<rparr>)"

section \<open>What an operation keeps\<close>

text \<open>The parts of an association and of a package that sending and receiving leave alone.\<close>

definition kept :: "Assoc \<times> package \<Rightarrow> Assoc \<times> package \<Rightarrow> bool" where
  "kept cp cp' \<longleftrightarrow>
     as_in_use (fst cp') = as_in_use (fst cp) \<and> as_queue_len (fst cp') = as_queue_len (fst cp) \<and>
     as_host (fst cp') = as_host (fst cp) \<and> as_destroyed (fst cp') = as_destroyed (fst cp) \<and>
     pkg_key (snd cp') = pkg_key (snd cp) \<and> pkg_origin (snd cp') = pkg_origin (snd cp)"

lemma kept_refl [simp]: "kept cp cp" by (simp add: kept_def)

lemma kept_trans: "kept a b \<Longrightarrow> kept b c \<Longrightarrow> kept a c" by (simp add: kept_def)

lemma notify_kept: "kept cp (Assoc_notify Y cp e)"
  by (cases e; cases cp)
     (auto simp: kept_def Assoc_connectNotify_def Assoc_failNotify_def Assoc_timeoutNotify_def Assoc_recv_GDU_def
       abort_package_def close_session_def Session_close_def Let_def split: option.splits Z_GDU.splits Z_APDU.splits)

lemma foldl_kept: "kept cp (foldl (Assoc_notify Y) cp es)"
proof (induction es arbitrary: cp)
  case (Cons e es)
  show ?case using kept_trans [OF notify_kept Cons.IH] by simp
qed simp

lemma event_loop_kept: "kept cp (fst (event_loop Y es cp))"
proof (induction es arbitrary: cp)
  case (Cons e es)
  show ?case using kept_trans [OF foldl_kept Cons.IH] by simp
qed simp

lemma relay_kept: "kept cp (fst (ZC_relay X Y conf es apdu cp))"
proof -
  obtain c p where cp: "cp = (c, p)" by force
  let ?cp = "(c\<lparr>as_time_elapsed := 0, as_waiting := True\<rparr>,
    p\<lparr>pkg_request := Some (GDU_Z3950 (ZC_prepare X Y conf (pkg_origin p) apdu))\<rparr>)"
  have "kept cp ?cp" by (simp add: kept_def cp)
  moreover have "fst (ZC_relay X Y conf es apdu cp) = ?cp \<or>
      fst (ZC_relay X Y conf es apdu cp) = fst (event_loop Y es ?cp)"
    by (simp add: ZC_relay_def cp Let_def split: Z_APDU.split apdu_kind.split)
  ultimately show ?thesis using kept_trans [OF _ event_loop_kept [of ?cp Y es]] by (elim disjE ssubst)
qed

lemma connect_kept: "kept cp (fst (ZC_connect X Y conf es apdu cp))"
proof -
  obtain c p where cp: "cp = (c, p)" by force
  let ?c = "(case apdu of APDU_close _ \<Rightarrow> c\<lparr>as_has_closed := True\<rparr> | _ \<Rightarrow> c)\<lparr>as_time_elapsed := 0, as_waiting := True\<rparr>"
  obtain cp' es' where loop: "event_loop Y es (?c, p) = (cp', es')" by (rule prod.exhaust)
  have "kept cp (?c, p)" by (simp add: kept_def cp split: Z_APDU.split)
  moreover from this have "kept cp (fst (event_loop Y es (?c, p)))" by (rule kept_trans [OF _ event_loop_kept])
  moreover have "kept cp (?c, close_session (z_reply (create_close Y (Some apdu) Z_Close_peerAbort None) p))"
    by (simp add: kept_def cp close_session_def Session_close_def split: Z_APDU.split)
  ultimately show ?thesis
    using kept_trans [OF _ relay_kept] by (simp add: ZC_connect_def cp Let_def loop)
qed

lemma send_kept:
  assumes "ZC_send_and_receive X Y conf es c p = (cp', sent)"
  shows "kept (c, p) cp'"
proof -
  have "kept (c, p) (ZC_claim Y conf c p)" by (simp add: kept_def ZC_claim_def)
  moreover have "cp' = (c, p) \<or> cp' = ZC_claim Y conf c p \<or> (\<exists>apdu. cp' = fst (ZC_connect X Y conf es apdu (ZC_claim Y conf c p)))"
    using assms by (cases "ZC_claim Y conf c p")
      (auto simp: ZC_send_and_receive_def split: if_splits option.splits Z_GDU.splits, metis fst_conv)
  ultimately show ?thesis using kept_trans [OF _ connect_kept, of "(c, p)" "ZC_claim Y conf c p"] by auto
qed

section \<open>One package at a time\<close>

text \<open>
  The threads of a session in a given phase. A thread holds the association of its session
  from the moment it is counted in the queue, and is active while it sends.
\<close>

definition thread_set :: "(zc_thread \<Rightarrow> bool) \<Rightarrow> (nat \<Rightarrow> (package \<times> zc_thread) option) \<Rightarrow> 64 word \<Rightarrow> nat set" where
  "thread_set P T k = {t. \<exists>p ph. T t = Some (p, ph) \<and> pkg_key p = k \<and> P ph}"

fun holds :: "zc_thread \<Rightarrow> bool" where
  "holds (Blocked_socket _) = False"
| "holds _ = True"

fun active :: "zc_thread \<Rightarrow> bool" where
  "active Sending = True"
| "active Sent = True"
| "active _ = False"

abbreviation (input) waits :: "zc_thread \<Rightarrow> bool" where "waits ph \<equiv> \<not> holds ph"

lemma waits_iff: "waits ph \<longleftrightarrow> (\<exists>target. ph = Blocked_socket target)"
  by (cases ph) auto

definition local_inv :: "Assoc option \<Rightarrow> (nat \<Rightarrow> (package \<times> zc_thread) option) \<Rightarrow> 64 word \<Rightarrow> bool" where
  "local_inv x T k \<longleftrightarrow> (case x of
     None \<Rightarrow> thread_set holds T k = {} \<and> (\<forall>t \<in> thread_set waits T k. thread_set waits T k = {t})
   | Some a \<Rightarrow> thread_set waits T k = {} \<and> as_queue_len a = int (card (thread_set holds T k)) \<and>
       (if as_in_use a then \<exists>t. thread_set active T k = {t} else thread_set active T k = {}))"

definition zc_inv :: "zc_sys \<Rightarrow> bool" where
  "zc_inv s \<longleftrightarrow> finite (dom (sys_threads s)) \<and> distinct (map fst (sys_clients s)) \<and>
     (\<forall>k. local_inv (map_of (sys_clients s) k) (sys_threads s) k)"

lemma thread_set_put:
  "pkg_key p = k \<Longrightarrow> thread_set P (T(t \<mapsto> (p, ph))) k = (if P ph then insert t (thread_set P T k) else thread_set P T k - {t})"
  by (auto simp: thread_set_def)

lemma thread_set_drop: "thread_set P (T(t := None)) k = thread_set P T k - {t}"
  by (auto simp: thread_set_def)

definition thread_key :: "(package \<times> zc_thread) option \<Rightarrow> 64 word \<Rightarrow> bool" where
  "thread_key th k \<longleftrightarrow> (case th of None \<Rightarrow> True | Some (p, _) \<Rightarrow> pkg_key p = k)"

lemma thread_set_other:
  "thread_key (T t) k \<Longrightarrow> thread_key th k \<Longrightarrow> k' \<noteq> k \<Longrightarrow> thread_set P (T(t := th)) k' = thread_set P T k'"
  by (auto simp: thread_set_def thread_key_def split: option.splits)

lemma finite_thread_set: "finite (dom T) \<Longrightarrow> finite (thread_set P T k)"
  by (erule rev_finite_subset) (auto simp: thread_set_def)

text \<open>A step concerns one thread and the association of its session only.\<close>

lemma zc_inv_update:
  assumes "zc_inv s" and "map_of C' = (map_of (sys_clients s))(k := x)" and "distinct (map fst C')"
    and "thread_key (sys_threads s t) k" and "thread_key th k" and "local_inv x ((sys_threads s)(t := th)) k"
  shows "zc_inv (s\<lparr>sys_clients := C', sys_threads := (sys_threads s)(t := th)\<rparr>)"
proof -
  have "local_inv (map_of C' k') ((sys_threads s)(t := th)) k'" for k'
  proof (cases "k' = k")
    case True
    then show ?thesis using assms(2,6) by simp
  next
    case False
    then have "local_inv (map_of (sys_clients s) k') (sys_threads s) k'" using assms(1) by (simp add: zc_inv_def)
    moreover have "thread_set P ((sys_threads s)(t := th)) k' = thread_set P (sys_threads s) k'" for P
      using assms(4,5) False by (rule thread_set_other)
    ultimately show ?thesis using False assms(2) by (cases "map_of (sys_clients s) k'") (simp_all add: local_inv_def)
  qed
  moreover have "finite (dom ((sys_threads s)(t := th)))" using assms(1) by (simp add: zc_inv_def dom_fun_upd)
  ultimately show ?thesis using assms(3) by (simp add: zc_inv_def)
qed

lemma map_of_update [simp]: "map_of (AList.update k v C) = (map_of C)(k \<mapsto> v)"
  by (rule ext) (simp add: update_conv)

lemma map_of_delete [simp]: "map_of (AList.delete k C) = (map_of C)(k := None)"
  by (rule ext) (simp add: delete_conv)

text \<open>The local obligations of the steps, on the threads before the step.\<close>

lemma local_inv_enter:
  assumes "local_inv (Some a) T k" and "finite (dom T)" and "T t = None" and "pkg_key p = k"
  shows "as_in_use a \<Longrightarrow> local_inv (Some (a\<lparr>as_queue_len := as_queue_len a + 1\<rparr>)) (T(t \<mapsto> (p, Blocked))) k"
    and "\<not> as_in_use a \<Longrightarrow> local_inv (Some (a\<lparr>as_queue_len := as_queue_len a + 1, as_in_use := True\<rparr>)) (T(t \<mapsto> (p, Sending))) k"
proof -
  have new: "t \<notin> thread_set P T k" for P using assms(3) by (simp add: thread_set_def)
  note facts = assms(1,4) new finite_thread_set [OF assms(2), of holds k]
  show "local_inv (Some (a\<lparr>as_queue_len := as_queue_len a + 1\<rparr>)) (T(t \<mapsto> (p, Blocked))) k" if "as_in_use a"
    using facts that by (simp add: local_inv_def thread_set_put)
  show "local_inv (Some (a\<lparr>as_queue_len := as_queue_len a + 1, as_in_use := True\<rparr>)) (T(t \<mapsto> (p, Sending))) k" if "\<not> as_in_use a"
    using facts that by (simp add: local_inv_def thread_set_put)
qed

lemma local_inv_retry:
  assumes "local_inv (Some a) T k" and "T t = Some (p, Blocked)" and "pkg_key p = k"
  shows "\<not> as_in_use a \<Longrightarrow> local_inv (Some (a\<lparr>as_in_use := True\<rparr>)) (T(t \<mapsto> (p, Sending))) k"
proof -
  have "t \<in> thread_set holds T k" using assms(2,3) by (auto simp: thread_set_def)
  then show "local_inv (Some (a\<lparr>as_in_use := True\<rparr>)) (T(t \<mapsto> (p, Sending))) k" if "\<not> as_in_use a"
    using assms(1,3) that by (simp add: local_inv_def thread_set_put insert_absorb)
qed

lemma local_inv_new:
  assumes "thread_set holds T k = {}" and "thread_set waits T k \<subseteq> {t}" and "pkg_key p = k"
  shows "local_inv (Some (ZC_new_assoc conf target)) (T(t \<mapsto> (p, Sending))) k"
proof -
  have "thread_set active T k \<subseteq> thread_set holds T k" by (auto simp: thread_set_def elim: active.elims)
  with assms show ?thesis
    by (auto simp: local_inv_def thread_set_put ZC_new_assoc_def Assoc_new_def)
qed

lemma local_inv_active:
  assumes "local_inv x T k" and "T t = Some (p, ph)" and "active ph" and "pkg_key p = k"
  obtains a where "x = Some a" "thread_set waits T k = {}" "as_queue_len a = int (card (thread_set holds T k))"
    "as_in_use a" "thread_set active T k = {t}" "t \<in> thread_set holds T k"
proof -
  have t: "t \<in> thread_set active T k" "t \<in> thread_set holds T k"
    using assms(2-4) by (auto simp: thread_set_def elim: active.elims)
  then show ?thesis using that assms(1) by (auto simp: local_inv_def split: option.splits if_splits)
qed

lemma local_inv_sent:
  assumes "local_inv x T k" and "T t = Some (p, Sending)" and "pkg_key p = k" and "x = Some c"
    and "as_in_use c' = as_in_use c" and "as_queue_len c' = as_queue_len c" and "pkg_key p' = k"
  shows "local_inv (Some c') (T(t \<mapsto> (p', Sent))) k"
  by (rule local_inv_active [OF assms(1,2) _ assms(3)])
     (use assms(4-7) in \<open>auto simp: local_inv_def thread_set_put insert_absorb\<close>)

lemma local_inv_released:
  assumes "local_inv (Some a) T k" and "finite (dom T)" and "T t = Some (p, Sent)" and "pkg_key p = k"
    and "as_in_use a' = False" and "as_queue_len a' = as_queue_len a - 1"
  shows "local_inv (Some a') (T(t := None)) k \<and> (as_queue_len a' = 0 \<longrightarrow> local_inv None (T(t := None)) k)"
proof -
  obtain b where b: "Some a = Some b" "thread_set waits T k = {}" "as_queue_len b = int (card (thread_set holds T k))"
    "as_in_use b" "thread_set active T k = {t}" "t \<in> thread_set holds T k"
    by (rule local_inv_active [OF assms(1,3) _ assms(4)]) simp
  have q: "as_queue_len a' = int (card (thread_set holds T k - {t}))"
    using b(1,3) assms(6) card_Suc_Diff1 [OF finite_thread_set [OF assms(2)] b(6)] by simp
  have "thread_set holds T k - {t} = {}" if "as_queue_len a' = 0"
    using q that finite_thread_set [OF assms(2), of holds k] by (metis card_0_eq finite_Diff of_nat_eq_0_iff)
  then show ?thesis using q b(2,5) assms(5) by (simp add: local_inv_def thread_set_drop)
qed

text \<open>\<open>get_assoc\<close> for a session without an association keeps the session of the package.\<close>

lemma ZC_target_key:
  "ZC_target X Y version conf p req = Some (Inr (target, p')) \<Longrightarrow> pkg_key p' = pkg_key p \<and> pkg_origin p' = pkg_origin p"
  by (auto simp: ZC_target_def Let_def split: if_splits option.splits list.splits)

inductive_cases ZC_stepE [consumes 1, case_names enter retry socket socket_timeout send release]:
  "zc_step X Y version conf adm mv s s'"

lemma zc_inv_socket:
  assumes "zc_inv s" and "ZC_socket Y version conf (sys_clients s) p target = (ph, p', clients)"
    and "map_of (sys_clients s) (pkg_key p) = None" and "thread_key (sys_threads s t) (pkg_key p)"
    and "thread_set waits (sys_threads s) (pkg_key p) \<subseteq> {t}"
  shows "zc_inv (s\<lparr>sys_clients := clients, sys_threads := (sys_threads s)(t := thread_of ph p')\<rparr>)"
proof -
  let ?T = "sys_threads s" and ?k = "pkg_key p"
  have inv: "local_inv None ?T ?k" "distinct (map fst (sys_clients s))"
    using assms(1,3) unfolding zc_inv_def by metis+
  have H: "thread_set holds ?T ?k = {}" using inv(1) by (simp add: local_inv_def)
  consider (ready) "ph = Ready" "p' = p" "clients = AList.update ?k (ZC_new_assoc conf target) (sys_clients s)"
    | (none) "ph = No_assoc" "clients = sys_clients s"
    | (waits) "ph = Waiting_socket target" "p' = p" "clients = sys_clients s"
    using assms(2) by (auto simp: ZC_socket_def split: if_splits)
  then show ?thesis
  proof cases
    case ready
    show ?thesis using assms(1) inv(2) assms(4) local_inv_new [OF H assms(5) refl] ready
      by (intro zc_inv_update [where k = ?k and x = "Some (ZC_new_assoc conf target)"])
         (simp_all add: thread_key_def distinct_update)
  next
    case none
    then show ?thesis using assms(1,3,4) inv(2) H assms(5)
      by (intro zc_inv_update [where k = ?k and x = None])
         (auto simp: thread_key_def local_inv_def thread_set_drop)
  next
    case waits
    then show ?thesis using assms(1,3,4) inv(2) H assms(5)
      by (intro zc_inv_update [where k = ?k and x = None])
         (auto simp: thread_key_def local_inv_def thread_set_put)
  qed
qed

lemma zc_inv_take:
  assumes "zc_inv s" and "ZC_take (sys_clients s) p a = (ph, clients)" and "thread_key (sys_threads s t) (pkg_key p)"
    and "as_in_use a \<Longrightarrow> local_inv (Some a) ((sys_threads s)(t \<mapsto> (p, Blocked))) (pkg_key p)"
    and "\<not> as_in_use a \<Longrightarrow> local_inv (Some (a\<lparr>as_in_use := True\<rparr>)) ((sys_threads s)(t \<mapsto> (p, Sending))) (pkg_key p)"
  shows "zc_inv (s\<lparr>sys_clients := clients, sys_threads := (sys_threads s)(t := thread_of ph p)\<rparr>)"
  using assms
  by (intro zc_inv_update [where k = "pkg_key p" and x = "Some (if as_in_use a then a else a\<lparr>as_in_use := True\<rparr>)"])
     (auto simp: ZC_take_def thread_key_def distinct_update zc_inv_def split: if_splits)

lemma zc_step_inv:
  assumes "zc_step X Y version conf adm mv s s'" and "zc_inv s"
  shows "zc_inv s'"
  using assms(1)
proof (cases rule: ZC_stepE)
  case (enter t p w ph p' clients w')
  let ?T = "sys_threads s" and ?k = "pkg_key p"
  have loc: "local_inv (map_of (sys_clients s) ?k) ?T ?k" and fin: "finite (dom ?T)"
    using assms(2) by (simp_all add: zc_inv_def)
  have new: "thread_key (?T t) ?k" using enter(2) by (simp add: thread_key_def)
  show ?thesis
  proof (cases "map_of (sys_clients s) ?k")
    case (Some a)
    let ?a = "a\<lparr>as_queue_len := as_queue_len a + 1\<rparr>"
    have "p' = p" "ZC_take (sys_clients s) p ?a = (ph, clients)"
      using enter(5) Some by (auto simp: ZC_get_assoc_def Let_def split: prod.splits)
    then show ?thesis
      using local_inv_enter [OF loc [unfolded Some] fin enter(2) refl] new assms(2) unfolding enter(1)
      by (simp, intro zc_inv_take [where a = ?a]) simp_all
  next
    case None
    have nowait: "thread_set waits ?T ?k = {}"
      using enter(4) by (auto simp: thread_set_def waits_iff)
    have "ph = No_assoc \<and> clients = sys_clients s \<or>
        (\<exists>target q. pkg_key q = ?k \<and> ZC_socket Y version conf (sys_clients s) q target = (ph, p', clients))"
      using enter(5) None
      by (auto simp: ZC_get_assoc_def dest: ZC_target_key split: option.splits Z_GDU.splits Z_APDU.splits sum.splits prod.splits)
    then show ?thesis
    proof (elim disjE exE conjE)
      assume "ph = No_assoc" "clients = sys_clients s"
      moreover have "?T(t := None) = ?T" using enter(2) by (simp add: fun_upd_idem)
      ultimately show ?thesis using assms(2) unfolding enter(1) by simp
    next
      fix target q
      assume "pkg_key q = ?k" "ZC_socket Y version conf (sys_clients s) q target = (ph, p', clients)"
      then show ?thesis using zc_inv_socket [of s Y version conf q target ph p' clients t] assms(2) None new nowait
        unfolding enter(1) by simp
    qed
  qed
next
  case (retry t p a ph clients)
  have loc: "local_inv (Some a) (sys_threads s) (pkg_key p)" using assms(2) retry(3) unfolding zc_inv_def by metis
  have "(sys_threads s)(t \<mapsto> (p, Blocked)) = sys_threads s" using retry(2) by (simp add: fun_upd_idem)
  then show ?thesis
    using local_inv_retry [OF loc retry(2) refl] loc retry(2,4) assms(2) unfolding retry(1)
    by (intro zc_inv_take [where a = a]) (simp_all add: thread_key_def)
next
  case (socket t p target ph p' clients)
  let ?T = "sys_threads s" and ?k = "pkg_key p"
  have t: "t \<in> thread_set waits ?T ?k" using socket(2) by (auto simp: thread_set_def)
  have loc: "local_inv (map_of (sys_clients s) ?k) ?T ?k" using assms(2) by (simp add: zc_inv_def)
  have "map_of (sys_clients s) ?k = None" "thread_set waits ?T ?k = {t}"
    using loc t by (auto simp: local_inv_def split: option.splits)
  then show ?thesis
    using zc_inv_socket [OF assms(2) socket(3), of t] socket(2) unfolding socket(1) by (simp add: thread_key_def)
next
  case (socket_timeout t p target)
  let ?T = "sys_threads s" and ?k = "pkg_key p"
  have t: "t \<in> thread_set waits ?T ?k" using socket_timeout(2) by (auto simp: thread_set_def)
  have loc: "local_inv (map_of (sys_clients s) ?k) ?T ?k" using assms(2) by (simp add: zc_inv_def)
  then have "local_inv (map_of (sys_clients s) ?k) (?T(t := None)) ?k"
    using t by (auto simp: local_inv_def thread_set_drop split: option.splits)
  then have "zc_inv (s\<lparr>sys_clients := sys_clients s, sys_threads := ?T(t := None)\<rparr>)"
    using assms(2) socket_timeout(2)
    by (intro zc_inv_update [where k = ?k and x = "map_of (sys_clients s) ?k"]) (simp_all add: thread_key_def zc_inv_def)
  then show ?thesis unfolding socket_timeout(1) by simp
next
  case (send t p c es c' p' sent)
  let ?T = "sys_threads s" and ?k = "pkg_key p"
  have loc: "local_inv (Some c) ?T ?k" using assms(2) send(3) unfolding zc_inv_def by metis
  have k: "as_in_use c' = as_in_use c" "as_queue_len c' = as_queue_len c" "pkg_key p' = ?k"
    using send_kept [OF send(4)] by (simp_all add: kept_def)
  show ?thesis using local_inv_sent [OF loc send(2) refl refl k] k assms(2) send(2) unfolding send(1)
    by (intro zc_inv_update [where k = ?k and x = "Some c'"]) (simp_all add: thread_key_def distinct_update zc_inv_def)
next
  case (release t p)
  let ?T = "sys_threads s" and ?k = "pkg_key p"
  have loc: "local_inv (map_of (sys_clients s) ?k) ?T ?k" and fin: "finite (dom ?T)"
    using assms(2) by (simp_all add: zc_inv_def)
  obtain a where a: "map_of (sys_clients s) ?k = Some a"
    by (rule local_inv_active [OF loc release(2) _ refl]) simp_all
  define a' where "a' = a\<lparr>as_in_use := False, as_queue_len := as_queue_len a - 1, as_destroyed := as_destroyed a \<or> is_closed p\<rparr>"
  define x where "x = (if is_closed p \<and> as_queue_len a' = 0 then None else Some a')"
  have "local_inv x (?T(t := None)) ?k"
    using local_inv_released [OF loc [unfolded a] fin release(2) refl, of a'] by (simp add: x_def a'_def)
  moreover have "map_of (ZC_release_assoc (sys_clients s) p) = (map_of (sys_clients s))(?k := x)"
    "distinct (map fst (ZC_release_assoc (sys_clients s) p))"
    using a assms(2) by (auto simp: ZC_release_assoc_def Let_def x_def a'_def zc_inv_def distinct_update distinct_delete)
  ultimately show ?thesis using assms(2) release(2) unfolding release(1)
    by (intro zc_inv_update [where k = ?k and x = x]) (simp_all add: thread_key_def)
qed

lemma zc_start_inv: "zc_inv zc_start"
  by (simp add: zc_inv_def zc_start_def local_inv_def thread_set_def)

lemma zc_reachable_inv:
  assumes "(zc_step X Y version conf adm mv)\<^sup>*\<^sup>* zc_start s"
  shows "zc_inv s"
  using assms by (induction rule: rtranclp_induct) (simp_all add: zc_start_inv zc_step_inv)


text \<open>Two packages of one session: the Init has the association and the next request waits for it.\<close>

abbreviation zc_conf1 :: ZC_Conf where
  "zc_conf1 \<equiv> ZC_Conf_new\<lparr>zc_force_target := ''z.example.org'', zc_max_sockets := 1\<rparr>"

abbreviation zc_init :: package where
  "zc_init \<equiv> (Package_new \<lparr>m_id = 1, m_close = False\<rparr> Origin_new)\<lparr>pkg_request :=
     Some (GDU_Z3950 (APDU_initRequest (zget_initRequest yaz_ref)))\<rparr>"

abbreviation zc_step1 :: "zc_sys \<Rightarrow> zc_sys \<Rightarrow> bool" where
  "zc_step1 \<equiv> zc_step zc_env_ref yaz_ref ''1.0'' zc_conf1 (\<lambda>p. m_max_sockets (pkg_origin p) = 0)
     ((\<lambda>r p w. (p, w)) :: unit move_fn)"

abbreviation zc_sys1 :: zc_sys where
  "zc_sys1 \<equiv> \<lparr>sys_clients = [(1, ZC_new_assoc zc_conf1 ''z.example.org'')], sys_threads = [0 \<mapsto> (zc_init, Sending)]\<rparr>"

abbreviation zc_sys2 :: zc_sys where
  "zc_sys2 \<equiv> \<lparr>sys_clients = [(1, (ZC_new_assoc zc_conf1 ''z.example.org'')\<lparr>as_queue_len := 2\<rparr>)],
     sys_threads = [0 \<mapsto> (zc_init, Sending), 1 \<mapsto> (demo_package 1 1, Blocked)]\<rparr>"

lemma zc_demo_steps: "zc_step1 zc_start zc_sys1" "zc_step1 zc_sys1 zc_sys2"
proof -
  have "zc_step1 zc_start (zc_start\<lparr>sys_clients := [(1, ZC_new_assoc zc_conf1 ''z.example.org'')],
      sys_threads := (sys_threads zc_start)(0 := thread_of Ready zc_init)\<rparr>)"
    by (rule zc_step.enter [where p = zc_init and w = "\<lparr>m_global_id = 1, \<dots> = ()\<rparr>" and w' = "\<lparr>m_global_id = 1, \<dots> = ()\<rparr>"])
       (simp_all add: zc_start_def ZC_get_assoc_def ZC_target_def ZC_socket_def ZC_max_sockets_def ZC_Conf_new_def
         Package_new_def Origin_new_def hosts_number_def)
  then show "zc_step1 zc_start zc_sys1" by (simp add: zc_start_def)
  have "zc_step1 zc_sys1 (zc_sys1\<lparr>sys_clients := [(1, (ZC_new_assoc zc_conf1 ''z.example.org'')\<lparr>as_queue_len := 2\<rparr>)],
      sys_threads := (sys_threads zc_sys1)(1 := thread_of Waiting_session (demo_package 1 1))\<rparr>)"
    by (rule zc_step.enter [where p = "demo_package 1 1" and w = "\<lparr>m_global_id = 1, \<dots> = ()\<rparr>"
          and w' = "\<lparr>m_global_id = 1, \<dots> = ()\<rparr>"])
       (simp_all add: ZC_get_assoc_def ZC_take_def Package_new_def Origin_new_def ZC_new_assoc_def Assoc_new_def
         split: if_splits)
  then show "zc_step1 zc_sys1 zc_sys2" by simp
qed

lemma zc_demo_run: "zc_step1\<^sup>*\<^sup>* zc_start zc_sys2"
proof -
  have "zc_step1\<^sup>*\<^sup>* zc_start zc_sys1" by (rule r_into_rtranclp, rule zc_demo_steps(1))
  then show ?thesis by (rule rtranclp.rtrancl_into_rtrancl, intro zc_demo_steps(2))
qed


section \<open>The number of connections\<close>

lemma hosts_number_update_same:
  "map_of C k = Some a \<Longrightarrow> as_host a' = as_host a \<Longrightarrow> hosts_number (AList.update k a' C) h = hosts_number C h"
  by (induction C) (auto simp: hosts_number_def)

lemma hosts_number_update_new:
  "hosts_number (AList.update k a C) h \<le> hosts_number C h + (if as_host a = h then 1 else 0)"
  by (induction C) (auto simp: hosts_number_def)

lemma hosts_number_delete: "hosts_number (AList.delete k C) h \<le> hosts_number C h"
  by (induction C) (auto simp: hosts_number_def AList.delete_eq)

definition socket_inv :: "ZC_Conf \<Rightarrow> int \<Rightarrow> zc_sys \<Rightarrow> bool" where
  "socket_inv conf M s \<longleftrightarrow> (\<forall>h. int (hosts_number (sys_clients s) h) \<le> M) \<and>
     (\<forall>t p ph. sys_threads s t = Some (p, ph) \<longrightarrow> ZC_max_sockets conf p = M)"

lemma ZC_socket_number:
  assumes "ZC_socket Y version conf C p target = (ph, p', C')" and "ZC_max_sockets conf p = M" and "0 < M"
    and "\<And>h. int (hosts_number C h) \<le> M"
  shows "int (hosts_number C' h) \<le> M \<and> (thread_of ph p' \<noteq> None \<longrightarrow> p' = p)"
proof -
  have "as_host (ZC_new_assoc conf target) = target" by (simp add: ZC_new_assoc_def Assoc_new_def)
  then show ?thesis
    using assms(1-3) assms(4) [of h] hosts_number_update_new [of "pkg_key p" "ZC_new_assoc conf target" C h]
    by (auto simp: ZC_socket_def split: if_splits)
qed

lemma ZC_take_number:
  "map_of C (pkg_key p) = Some a0 \<Longrightarrow> as_host a = as_host a0 \<Longrightarrow> ZC_take C p a = (ph, C') \<Longrightarrow>
    hosts_number C' h = hosts_number C h"
  by (auto simp: ZC_take_def hosts_number_update_same split: if_splits)

lemma ZC_release_number: "hosts_number (ZC_release_assoc C p) h \<le> hosts_number C h"
  by (auto simp: ZC_release_assoc_def Let_def hosts_number_update_same hosts_number_delete split: option.splits)

lemma ZC_get_assoc_number:
  assumes "ZC_get_assoc X Y version conf mv C p w = Some ((ph, p', C'), w')" and "ZC_max_sockets conf p = M" and "0 < M"
    and "\<And>h. int (hosts_number C h) \<le> M"
  shows "int (hosts_number C' h) \<le> M \<and> (thread_of ph p' \<noteq> None \<longrightarrow> ZC_max_sockets conf p' = M)"
proof (cases "map_of C (pkg_key p)")
  case (Some a)
  then have "ZC_take C p (a\<lparr>as_queue_len := as_queue_len a + 1\<rparr>) = (ph, C')" "p' = p"
    using assms(1) by (auto simp: ZC_get_assoc_def Let_def split: prod.splits)
  with ZC_take_number [OF Some _ this(1), of h] assms(2) assms(4) [of h] show ?thesis by simp
next
  case None
  have same: "ZC_max_sockets conf q = ZC_max_sockets conf p" if "pkg_origin q = pkg_origin p" for q
    using that by (simp add: ZC_max_sockets_def)
  have "ph = No_assoc \<and> C' = C \<or>
      (\<exists>target q. pkg_origin q = pkg_origin p \<and> ZC_socket Y version conf C q target = (ph, p', C'))"
    using assms(1) None
    by (auto simp: ZC_get_assoc_def dest: ZC_target_key split: option.splits Z_GDU.splits Z_APDU.splits sum.splits prod.splits)
  then show ?thesis
  proof (elim disjE exE conjE)
    assume "ph = No_assoc" "C' = C"
    then show ?thesis using assms(4) by simp
  next
    fix target q
    assume q: "pkg_origin q = pkg_origin p" "ZC_socket Y version conf C q target = (ph, p', C')"
    show ?thesis using ZC_socket_number [OF q(2) _ assms(3,4), of h] same [OF q(1)] assms(2) by auto
  qed
qed

lemma zc_step_sockets:
  assumes "zc_step X Y version conf adm mv s s'" and "socket_inv conf M s" and "0 < M"
    and "\<And>p. adm p \<Longrightarrow> ZC_max_sockets conf p = M"
  shows "socket_inv conf M s'"
proof -
  have num: "int (hosts_number (sys_clients s) h) \<le> M" for h using assms(2) by (simp add: socket_inv_def)
  have thr: "ZC_max_sockets conf p = M" if "sys_threads s t = Some (p, ph)" for t p ph
    using that assms(2) by (auto simp: socket_inv_def)
  have upd: "socket_inv conf M (s\<lparr>sys_clients := C', sys_threads := (sys_threads s)(t := th)\<rparr>)"
    if "\<And>h. int (hosts_number C' h) \<le> M" "\<And>p ph. th = Some (p, ph) \<Longrightarrow> ZC_max_sockets conf p = M" for C' t th
    using that thr by (auto simp: socket_inv_def)
  have th: "th = Some (q, ph') \<Longrightarrow> thread_of ph p = th \<Longrightarrow> q = p \<and> thread_of ph p \<noteq> None" for th q ph' ph p
    by (cases ph) auto
  show ?thesis
    using assms(1)
  proof (cases rule: ZC_stepE)
    case (enter t p w ph p' clients w')
    show ?thesis unfolding enter(1)
      using ZC_get_assoc_number [OF enter(5) assms(4) [OF enter(3)] assms(3) num] th by (intro upd) blast+
  next
    case (retry t p a ph clients)
    show ?thesis unfolding retry(1)
      using ZC_take_number [OF retry(3) refl retry(4)] num thr [OF retry(2)] th by (intro upd) (simp, blast)
  next
    case (socket t p target ph p' clients)
    show ?thesis unfolding socket(1)
      using ZC_socket_number [OF socket(3) thr [OF socket(2)] assms(3) num] thr [OF socket(2)] th by (intro upd) (blast, metis)
  next
    case (socket_timeout t p target)
    show ?thesis unfolding socket_timeout(1) using upd [of "sys_clients s" None t] num by simp
  next
    case (send t p c es c' p' sent)
    have "as_host c' = as_host c" "pkg_origin p' = pkg_origin p" using send_kept [OF send(4)] by (simp_all add: kept_def)
    then show ?thesis unfolding send(1)
      using thr [OF send(2)] num hosts_number_update_same [OF send(3)] by (intro upd) (auto simp: ZC_max_sockets_def)
  next
    case (release t p)
    show ?thesis unfolding release(1)
      using ZC_release_number [of "sys_clients s" p] num by (intro upd) (meson of_nat_le_iff order_trans, simp)
  qed
qed



text \<open>
  The assumption on Init requests is needed: a second Init of a session that waits for a
  socket replaces the association the first one has made, whoever uses it.
\<close>

theorem ZC_second_init_replaces:
  assumes "map_of clients (pkg_key p) = Some a" and "int (hosts_number clients target) < ZC_max_sockets conf p"
  shows "\<exists>clients'. ZC_socket Y version conf clients p target = (Ready, p, clients') \<and>
     map_of clients' (pkg_key p) = Some (ZC_new_assoc conf target)"
  using assms by (simp add: ZC_socket_def)

end
