(* ===== verification/MP_Sru.thy ===== *)
theory MP_Sru
  imports MP_Backend_Test MP_Frontends
begin

text \<open>
  SRU requests over Z39.50: the helpers of \<open>src/sru_util.cpp\<close> and the filter of
  \<open>src/filter_sru_to_z3950.cpp\<close>. One SRU request becomes an Init, a Search, as many Present
  requests as it takes and a Close on the rest of the chain, and the response is an HTTP
  message again. Decoding and encoding of SRU messages are functions of YAZ and parameters.
\<close>

section \<open>SRU messages\<close>

record Z_SRW_diagnostic =
  srwd_uri :: string
  srwd_message :: "string option"
  srwd_details :: "string option"

datatype srw_packing = recordPacking_string | recordPacking_XML

record Z_SRW_record =
  srw_recordSchema :: "string option"
  srw_recordPacking :: srw_packing
  srw_recordData :: octets
  srw_recordPosition :: "int option"

datatype srw_sort = sort_type_none | sort_type_sort octets | sort_type_xSort octets

record Z_SRW_searchRetrieveRequest =
  sr_queryType :: string
  sr_query :: "string option"
  sr_sort :: srw_sort
  sr_startRecord :: "int option"
  sr_maximumRecords :: "int option"
  sr_recordSchema :: "string option"
  sr_recordPacking :: "string option"
  sr_recordXPath :: "string option"
  sr_resultSetTTL :: "int option"
  sr_database :: "string option"
  sr_stylesheet :: "string option"
  sr_facetList :: "octets option"

record Z_SRW_searchRetrieveResponse =
  srr_numberOfRecords :: "int option"
  srr_records :: "Z_SRW_record list"
  srr_diagnostics :: "Z_SRW_diagnostic list"
  srr_nextRecordPosition :: "int option"
  srr_facetList :: "octets option"

record Z_SRW_explainRequest =
  exq_recordPacking :: "string option"
  exq_stylesheet :: "string option"

record Z_SRW_explainResponse =
  exs_record :: Z_SRW_record
  exs_diagnostics :: "Z_SRW_diagnostic list"

record Z_SRW_scanResponse =
  scr_diagnostics :: "Z_SRW_diagnostic list"

datatype Z_SRW_body =
    SRW_searchRetrieve_request Z_SRW_searchRetrieveRequest
  | SRW_searchRetrieve_response Z_SRW_searchRetrieveResponse
  | SRW_explain_request Z_SRW_explainRequest
  | SRW_explain_response Z_SRW_explainResponse
  | SRW_scan_request "string option"
  | SRW_scan_response Z_SRW_scanResponse
  | SRW_other octets

text \<open>The value of an extra argument may be a null pointer. \<open>SRW_scan_request\<close> has the stylesheet.\<close>

record Z_SRW_PDU =
  pdu_body :: Z_SRW_body
  pdu_username :: "string option"
  pdu_password :: "string option"
  pdu_extra_args :: "(string \<times> string option) list"
  pdu_extraResponseData :: "octets option"

text \<open>Codes of the SRU diagnostics the sources name.\<close>

abbreviation (input) SRW_SYSTEM_TEMPORARILY_UNAVAILABLE :: int where "SRW_SYSTEM_TEMPORARILY_UNAVAILABLE \<equiv> 2"
abbreviation (input) SRW_AUTHENTICATION_ERROR :: int where "SRW_AUTHENTICATION_ERROR \<equiv> 3"
abbreviation (input) SRW_UNSUPP_OPERATION :: int where "SRW_UNSUPP_OPERATION \<equiv> 4"
abbreviation (input) SRW_UNSUPP_PARAMETER_VALUE :: int where "SRW_UNSUPP_PARAMETER_VALUE \<equiv> 6"
abbreviation (input) SRW_MANDATORY_PARAMETER_NOT_SUPPLIED :: int where "SRW_MANDATORY_PARAMETER_NOT_SUPPLIED \<equiv> 7"
abbreviation (input) SRW_QUERY_SYNTAX_ERROR :: int where "SRW_QUERY_SYNTAX_ERROR \<equiv> 10"
abbreviation (input) SRW_RESULT_SETS_UNSUPP :: int where "SRW_RESULT_SETS_UNSUPP \<equiv> 50"
abbreviation (input) SRW_FIRST_RECORD_POSITION_OUT_OF_RANGE :: int where
  "SRW_FIRST_RECORD_POSITION_OUT_OF_RANGE \<equiv> 61"
abbreviation (input) SRW_RECORD_TEMPORARILY_UNAVAILABLE :: int where "SRW_RECORD_TEMPORARILY_UNAVAILABLE \<equiv> 64"
abbreviation (input) SRW_RECORD_NOT_AVAILABLE_IN_THIS_SCHEMA :: int where
  "SRW_RECORD_NOT_AVAILABLE_IN_THIS_SCHEMA \<equiv> 67"
abbreviation (input) SRW_XPATH_RETRIEVAL_UNSUPP :: int where "SRW_XPATH_RETRIEVAL_UNSUPP \<equiv> 72"
abbreviation (input) SRW_SORT_UNSUPP :: int where "SRW_SORT_UNSUPP \<equiv> 80"

text \<open>
  What the code calls of YAZ and libxml2. The decoders return their success, the PDU, the SOAP
  package and, for \<open>yaz_sru_decode\<close>, diagnostics. \<open>srw_*_response\<close> are the empty
  responses of \<open>yaz_srw_get\<close> and \<open>srw_pdu_e\<close> puts one into a PDU that answers a request.
  \<open>z_soap_codec_enc_xsl\<close> has the SOAP package, the PDU, the character set and the stylesheet.
  \<open>yaz_mk_sru_surrogate\<close> fills a record whose packing is set already.
  \<open>external_xml\<close> gives the octets and the descriptor of an external whose reference is XML.
  \<open>log_reset\<close> is the log that the rest of the chain has written for the package.
\<close>

record 'w sru_env =
  yaz_sru_decode :: "Z_HTTP_Request \<Rightarrow> bool \<times> Z_SRW_PDU option \<times> octets option \<times> Z_SRW_diagnostic list"
  yaz_srw_decode :: "Z_HTTP_Request \<Rightarrow> octets option \<Rightarrow> bool \<times> Z_SRW_PDU option \<times> octets option"
  srw_search_response :: Z_SRW_searchRetrieveResponse
  srw_explain_response :: Z_SRW_explainResponse
  srw_scan_response :: Z_SRW_scanResponse
  srw_pdu :: "Z_SRW_body \<Rightarrow> Z_SRW_PDU"
  srw_pdu_e :: "Z_SRW_PDU \<Rightarrow> Z_SRW_body \<Rightarrow> Z_SRW_PDU"
  yaz_add_srw_diagnostic :: "Z_SRW_diagnostic list \<Rightarrow> int \<Rightarrow> string option \<Rightarrow> Z_SRW_diagnostic list"
  yaz_mk_std_diagnostic :: "int \<Rightarrow> string option \<Rightarrow> Z_SRW_diagnostic"
  yaz_diag_bib1_to_srw :: "int \<Rightarrow> int"
  yaz_mk_sru_surrogate :: "srw_packing \<Rightarrow> int \<Rightarrow> int \<Rightarrow> string option \<Rightarrow> Z_SRW_record"
  yaz_decode_init_diag_no :: "nat \<Rightarrow> Z_InitResponse \<Rightarrow> Z_DefaultDiagFormat option"
  yaz_oi_get_facetlist :: "Z_SearchResponse \<Rightarrow> octets option"
  yaz_oi_set_facetlist :: "Z_OtherInformation option \<Rightarrow> octets \<Rightarrow> Z_OtherInformation option"
  yaz_encode_uri_component :: "string \<Rightarrow> string"
  z_soap_codec_enc_xsl :: "octets \<Rightarrow> Z_SRW_PDU \<Rightarrow> string option \<Rightarrow> string option \<Rightarrow> octets"
  wrbuf_xmlputs :: "string \<Rightarrow> string"
  xmlNodeDump :: "xml_node \<Rightarrow> octets"
  external_xml :: "Z_External \<Rightarrow> (octets \<times> string option) option"
  log_reset :: "'w world_scheme \<Rightarrow> string"

section \<open>Helpers\<close>

abbreviation nl :: string where "nl \<equiv> [CHR 0x0A]"

text \<open>\<open>None\<close>: a header without a name or a value, a null pointer in C.\<close>

fun header_lines :: "Z_HTTP_Header list \<Rightarrow> string option" where
  "header_lines [] = Some []"
| "header_lines (h # hs) =
     (case (hdr_name h, hdr_value h, header_lines hs) of
        (Some n, Some v, Some rest) \<Rightarrow> Some (''<b>Header: </b> <i>'' @ n @ '':</i> '' @ v @ ''<br/>'' @ nl @ rest)
      | _ \<Rightarrow> None)"

definition http_headers_debug :: "Z_HTTP_Request \<Rightarrow> string option" where
  "http_headers_debug r =
     map_option (\<lambda>hs. ''<html>'' @ nl @ ''<body>'' @ nl @ ''<h1>Metaproxy SRUtoZ3950 filter</h1>'' @ nl @
       ''<h3>HTTP Info</h3><br/>'' @ nl @ ''<p>'' @ nl @
       ''<b>Method: </b> '' @ hrq_method r @ ''<br/>'' @ nl @
       ''<b>Version:</b> '' @ hrq_version r @ ''<br/>'' @ nl @
       ''<b>Path:   </b> '' @ hrq_path r @ ''<br/>'' @ nl @
       ''<b>Content-Type:</b>'' @ http_header_value (hrq_headers r) ''Content-Type'' @ ''<br/>'' @ nl @
       ''<b>Content-Length:</b>'' @ http_header_value (hrq_headers r) ''Content-Length'' @ ''<br/>'' @ nl @
       ''</p>'' @ nl @ ''<h3>Headers</h3><br/>'' @ nl @ ''<p>'' @ nl @ hs @
       ''</p>'' @ nl @ ''</body>'' @ nl @ ''</html>'' @ nl) (header_lines (hrq_headers r))"

definition build_sru_debug_package :: "yaz \<Rightarrow> package \<Rightarrow> (bool \<times> package) option" where
  "build_sru_debug_package Y p =
     (case pkg_request p of
        Some (GDU_HTTP_Request hreq) \<Rightarrow>
          (case http_headers_debug hreq of
             None \<Rightarrow> None
           | Some content \<Rightarrow> map_option (Pair True) (http_response Y p content 400))
      | _ \<Rightarrow> Some (False, close_session p))"

record SRUServerInfo =
  sru_database :: string
  sru_host :: string
  sru_port :: string

definition get_sru_server_info :: "package \<Rightarrow> SRUServerInfo" where
  "get_sru_server_info p =
     (let info = \<lparr>sru_database = [], sru_host = ''localhost'', sru_port = ''80''\<rparr>
      in case pkg_request p of
           Some (GDU_HTTP_Request hreq) \<Rightarrow>
             (let path = hrq_path hreq;
                  path = (case rfind_char CHR ''?'' path of Some i \<Rightarrow> take i path | None \<Rightarrow> path);
                  info = (if length path > 1 then info\<lparr>sru_database := drop 1 path\<rparr> else info);
                  address = http_header_value (hrq_headers hreq) ''Host''
              in case rfind_char CHR '':'' address of
                   Some i \<Rightarrow> info\<lparr>sru_host := take i address, sru_port := drop (i + 1) address\<rparr>
                 | None \<Rightarrow> info)
         | _ \<Rightarrow> info)"

definition packing_of :: "string option \<Rightarrow> srw_packing" where
  "packing_of s = (case s of Some (c # _) \<Rightarrow> if c = CHR ''s'' then recordPacking_string else recordPacking_XML
     | _ \<Rightarrow> recordPacking_XML)"

definition xmlns_explain :: string where "xmlns_explain = ''http://explain.z3950.org/dtd/2.0/''"

definition default_explain :: "SRUServerInfo \<Rightarrow> octets" where
  "default_explain info =
     ''<explain  xmlns='' @ [CHR 0x22] @ xmlns_explain @ [CHR 0x22] @ ''>'' @ nl @
     ''  <serverInfo protocol='' @ [CHR 0x27] @ ''SRU'' @ [CHR 0x27] @ ''>'' @ nl @
     ''    <host>'' @ sru_host info @ ''</host>'' @ nl @
     ''    <port>'' @ sru_port info @ ''</port>'' @ nl @
     ''    <database>'' @ sru_database info @ ''</database>'' @ nl @
     ''  </serverInfo>'' @ nl @ ''</explain>'' @ nl"

definition build_sru_explain :: "'w sru_env \<Rightarrow> SRUServerInfo \<Rightarrow> xml_node option \<Rightarrow> Z_SRW_explainRequest option
    \<Rightarrow> Z_SRW_explainResponse \<Rightarrow> Z_SRW_explainResponse" where
  "build_sru_explain S info explain er_req sru_res =
     sru_res\<lparr>exs_record := \<lparr>srw_recordSchema = Some xmlns_explain,
       srw_recordPacking = (case er_req of Some er \<Rightarrow> packing_of (exq_recordPacking er) | None \<Rightarrow> recordPacking_XML),
       srw_recordData = (case explain of None \<Rightarrow> default_explain info | Some n \<Rightarrow> xmlNodeDump S n),
       srw_recordPosition = Some 1\<rparr>\<rparr>"

text \<open>
  The response. \<open>None\<close> is a null pointer: there is no request, or the decoder has left no SOAP
  package. An empty stylesheet means none.
\<close>

definition build_sru_response :: "'w sru_env \<Rightarrow> yaz \<Rightarrow> octets option \<Rightarrow> Z_SRW_PDU \<Rightarrow> string option \<Rightarrow> string option
    \<Rightarrow> package \<Rightarrow> (bool \<times> package) option" where
  "build_sru_response S Y soap sru_pdu_res charset stylesheet p =
     (case pkg_request p of
        None \<Rightarrow> None
      | Some (GDU_HTTP_Request hreq) \<Rightarrow>
          (case soap of
             None \<Rightarrow> None
           | Some so \<Rightarrow>
               (let (ses, hres) = create_HTTP_Response Y (pkg_session p) hreq 200;
                    ctype = ''text/xml'' @ (case charset of None \<Rightarrow> [] | Some c \<Rightarrow> ''; charset='' @ c);
                    stylesheet = (if stylesheet = Some [] then None else stylesheet);
                    hres = hres\<lparr>hrs_headers := z_HTTP_header_add Y (hrs_headers hres) ''Content-Type'' ctype,
                      hrs_content := z_soap_codec_enc_xsl S so sru_pdu_res charset stylesheet\<rparr>
                in Some (True, p\<lparr>pkg_session := ses, pkg_response := Some (GDU_HTTP_Response hres)\<rparr>)))
      | Some _ \<Rightarrow> Some (False, close_session p))"

text \<open>
  The character set is a parameter by value, so what the decoder finds does not reach the
  caller and is no part of the result.
\<close>

definition decode_sru_request :: "'w sru_env \<Rightarrow> package
    \<Rightarrow> Z_SRW_PDU option \<times> octets option \<times> Z_SRW_diagnostic list \<times> package" where
  "decode_sru_request S p =
     (case pkg_request p of
        Some (GDU_HTTP_Request hreq) \<Rightarrow>
          (let (ok, pdu, soap, diags) = yaz_sru_decode S hreq
           in if ok then (pdu, soap, diags, p)
              else (let (ok, pdu, soap) = yaz_srw_decode S hreq soap
                    in if ok then (pdu, soap, diags, p) else (None, soap, diags, close_session p)))
      | _ \<Rightarrow> (None, None, [], p))"

definition check_sru_query_exists :: "'w sru_env \<Rightarrow> Z_SRW_searchRetrieveRequest \<Rightarrow> Z_SRW_searchRetrieveResponse
    \<Rightarrow> bool \<times> Z_SRW_searchRetrieveResponse" where
  "check_sru_query_exists S sr_req r =
     (case sr_query sr_req of
        Some _ \<Rightarrow> (True, r)
      | None \<Rightarrow>
          (let d = yaz_add_srw_diagnostic S (srr_diagnostics r) SRW_MANDATORY_PARAMETER_NOT_SUPPLIED (Some ''query'');
               d = yaz_add_srw_diagnostic S d SRW_QUERY_SYNTAX_ERROR (Some ''CQL query is empty'')
           in (False, r\<lparr>srr_diagnostics := d\<rparr>)))"

definition build_esn_from_schema :: "string option \<Rightarrow> Z_ElementSetNames option" where
  "build_esn_from_schema schema = map_option ESN_generic schema"

section \<open>The Z39.50 requests\<close>

abbreviation add_diag :: "'w sru_env \<Rightarrow> int \<Rightarrow> string option \<Rightarrow> Z_SRW_searchRetrieveResponse \<Rightarrow> Z_SRW_searchRetrieveResponse" where
  "add_diag S code addinfo r \<equiv> r\<lparr>srr_diagnostics := yaz_add_srw_diagnostic S (srr_diagnostics r) code addinfo\<rparr>"

definition sru_init_request :: "yaz \<Rightarrow> string \<Rightarrow> Z_SRW_PDU \<Rightarrow> package \<Rightarrow> Z_InitRequest" where
  "sru_init_request Y zurl sru_pdu_req p =
     (let r = zget_initRequest Y;
          auth = (case (pdu_username sru_pdu_req, pdu_password sru_pdu_req) of
                    (Some u, None) \<Rightarrow> Some (IdAuthentication_open u)
                  | (Some u, Some pw) \<Rightarrow> Some (IdAuthentication_idPass None (Some u) (Some pw))
                  | _ \<Rightarrow> None);
          oi = (if zurl \<noteq> [] then set_vhost_otherinfo_cat Y (irq_otherInfo r) (fst (split_zurl Y zurl)) 1
                else irq_otherInfo r);
          oi = (case pkg_request p of
                  Some (GDU_HTTP_Request hreq) \<Rightarrow>
                    (case z_HTTP_header_lookup Y (hrq_headers hreq) ''X-Forwarded-For'' of
                       Some peer_name \<Rightarrow> yaz_oi_set_string_oid Y oi oid_userinfo_client_ip 1 peer_name
                     | None \<Rightarrow> oi)
                | _ \<Rightarrow> oi)
      in r\<lparr>irq_idAuthentication := auth, irq_preferredMessageSize := 10 * 1024 * 1024,
           irq_maximumRecordSize := 10 * 1024 * 1024,
           irq_options := irq_options r \<union> {Z_Options_search, Z_Options_present, Z_Options_namedResultSets, Z_Options_scan},
           irq_protocolVersion := irq_protocolVersion r \<union> {Z_ProtocolVersion_1, Z_ProtocolVersion_2, Z_ProtocolVersion_3},
           irq_otherInfo := oi\<rparr>)"

text \<open>The loop over the diagnostics of an Init response; \<open>None\<close> is a loop that does not end.\<close>

definition addinfo_text :: "Z_DefaultDiagFormat \<Rightarrow> string option" where
  "addinfo_text d = (case diag_addinfo d of v2Addinfo s \<Rightarrow> Some s | v3Addinfo s \<Rightarrow> Some s)"

partial_function (option) init_diag_loop :: "'w sru_env \<Rightarrow> Z_InitResponse \<Rightarrow> nat \<Rightarrow> Z_SRW_searchRetrieveResponse
    \<Rightarrow> (nat \<times> Z_SRW_searchRetrieveResponse) option" where
  "init_diag_loop S initrs no r =
     (case yaz_decode_init_diag_no S no initrs of
        None \<Rightarrow> Some (no, r)
      | Some df \<Rightarrow> init_diag_loop S initrs (no + 1)
          (add_diag S (yaz_diag_bib1_to_srw S (to_int32 (diag_condition df))) (addinfo_text df) r))"

abbreviation sub_package :: "package \<Rightarrow> Z_APDU \<Rightarrow> package" where
  "sub_package p apdu \<equiv> (Package_new (pkg_session p) (pkg_origin p))\<lparr>pkg_request := Some (GDU_Z3950 apdu)\<rparr>"

definition z3950_init_request :: "'w sru_env \<Rightarrow> yaz \<Rightarrow> 'w move_fn \<Rightarrow> package \<Rightarrow> string \<Rightarrow> Z_SRW_PDU
    \<Rightarrow> Z_SRW_searchRetrieveResponse \<Rightarrow> 'w world_scheme \<Rightarrow> ((bool \<times> Z_SRW_searchRetrieveResponse) \<times> 'w world_scheme) option" where
  "z3950_init_request S Y mv p zurl sru_pdu_req r w =
     (let (q, w) = mv [] (sub_package p (APDU_initRequest (sru_init_request Y zurl sru_pdu_req p))) w
      in case pkg_response q of
           Some (GDU_Z3950 (APDU_initResponse initrs)) \<Rightarrow>
             if irs_result initrs then Some ((True, r), w)
             else map_option (\<lambda>(no, r). ((False, if no > 0 then r else add_diag S SRW_AUTHENTICATION_ERROR None r), w))
                    (init_diag_loop S initrs 0 r)
         | _ \<Rightarrow> Some ((False, add_diag S SRW_SYSTEM_TEMPORARILY_UNAVAILABLE
                  (Some ''sru_z3950: expected initResponse'') r), w))"

definition z3950_close_request :: "'w move_fn \<Rightarrow> package \<Rightarrow> 'w world_scheme \<Rightarrow> bool \<times> 'w world_scheme" where
  "z3950_close_request mv p w =
     (let (q, w) = mv [] (close_session (Package_new (pkg_session p) (pkg_origin p))) w in (is_closed q, w))"

text \<open>The query types other than RPN are carried as they are, with their type in front.\<close>

definition query_type_104 :: "string \<Rightarrow> Z_Query" where "query_type_104 s = Query_other (''104 '' @ s)"

definition query_type_2 :: "string \<Rightarrow> Z_Query" where "query_type_2 s = Query_other (''2 '' @ s)"

definition z3950_build_query :: "yaz \<Rightarrow> Z_SRW_searchRetrieveRequest \<Rightarrow> string \<Rightarrow> int + Z_Query" where
  "z3950_build_query Y req q =
     (if sr_queryType req = ''cql'' then Inr (query_type_104 q)
      else if sr_queryType req = ''pqf''
      then (case yaz_pqf_parse Y q of None \<Rightarrow> Inl SRW_QUERY_SYNTAX_ERROR | Some rpn \<Rightarrow> Inr (Query_type_1 rpn))
      else if sr_queryType req = ''ccl'' then Inr (query_type_2 q)
      else Inl SRW_MANDATORY_PARAMETER_NOT_SUPPLIED)"

definition z3950_to_srw_diag :: "'w sru_env \<Rightarrow> Z_DefaultDiagFormat \<Rightarrow> Z_SRW_searchRetrieveResponse \<Rightarrow> Z_SRW_searchRetrieveResponse" where
  "z3950_to_srw_diag S ddf r =
     r\<lparr>srr_diagnostics := [yaz_mk_std_diagnostic S (yaz_diag_bib1_to_srw S (to_int32 (diag_condition ddf))) (addinfo_text ddf)]\<rparr>"

definition z3950_to_srw_diagnostics_ok :: "'w sru_env \<Rightarrow> Z_Records option \<Rightarrow> Z_SRW_searchRetrieveResponse
    \<Rightarrow> bool \<times> Z_SRW_searchRetrieveResponse" where
  "z3950_to_srw_diagnostics_ok S records r =
     (case records of Some (Records_NSD d) \<Rightarrow> (False, z3950_to_srw_diag S d r) | _ \<Rightarrow> (True, r))"

definition sru_search_request :: "'w sru_env \<Rightarrow> yaz \<Rightarrow> Z_SRW_searchRetrieveRequest \<Rightarrow> string \<Rightarrow> string \<Rightarrow> Z_Query \<Rightarrow> Z_SearchRequest" where
  "sru_search_request S Y sr_req zurl dbappend query =
     (let r = zget_searchRequest Y;
          dbs = (case set_databases_from_zurl Y zurl of
                   Some dbs \<Rightarrow> dbs
                 | None \<Rightarrow> [(case sr_database sr_req of Some db \<Rightarrow> db | None \<Rightarrow> ''Default'') @
                            (if dbappend \<noteq> [] then '','' @ dbappend else [])])
      in r\<lparr>srq_databaseNames := dbs, srq_query := query,
           srq_additionalSearchInfo := (case sr_facetList sr_req of
              None \<Rightarrow> srq_additionalSearchInfo r
            | Some fl \<Rightarrow> yaz_oi_set_facetlist S (srq_additionalSearchInfo r) fl)\<rparr>)"

text \<open>
  The search status is tested as a pointer, which a decoded response always has. \<open>None\<close>: no
  query, which the caller has ruled out.
\<close>

definition z3950_search_request :: "'w sru_env \<Rightarrow> yaz \<Rightarrow> 'w move_fn \<Rightarrow> package \<Rightarrow> Z_SRW_searchRetrieveRequest \<Rightarrow> string \<Rightarrow> string
    \<Rightarrow> Z_SRW_searchRetrieveResponse \<Rightarrow> 'w world_scheme \<Rightarrow> ((bool \<times> Z_SRW_searchRetrieveResponse) \<times> 'w world_scheme) option" where
  "z3950_search_request S Y mv p sr_req zurl dbappend r w =
     (case sr_query sr_req of
        None \<Rightarrow> None
      | Some qs \<Rightarrow>
          (case z3950_build_query Y sr_req qs of
             Inl sru_diagnostic \<Rightarrow> Some ((False, add_diag S sru_diagnostic (Some ''query'') r), w)
           | Inr query \<Rightarrow>
               (let (q, w) = mv [] (sub_package p (APDU_searchRequest (sru_search_request S Y sr_req zurl dbappend query))) w
                in case pkg_response q of
                     Some (GDU_Z3950 (APDU_searchResponse sr)) \<Rightarrow>
                       (case z3950_to_srw_diagnostics_ok S (srs_records sr) r of
                          (False, r) \<Rightarrow> Some ((False, r), w)
                        | (True, r) \<Rightarrow> Some ((True, r\<lparr>srr_facetList := yaz_oi_get_facetlist S sr,
                                                    srr_numberOfRecords := Some (srs_resultCount sr)\<rparr>), w))
                   | _ \<Rightarrow> Some ((False, add_diag S SRW_SYSTEM_TEMPORARILY_UNAVAILABLE None r), w))))"

section \<open>Presenting\<close>

text \<open>The checks before the first present request: the response with the diagnostics, and whether to go on.\<close>

definition present_checks :: "'w sru_env \<Rightarrow> Z_SRW_searchRetrieveRequest \<Rightarrow> int \<Rightarrow> int \<Rightarrow> int
    \<Rightarrow> Z_SRW_searchRetrieveResponse \<Rightarrow> bool \<times> Z_SRW_searchRetrieveResponse" where
  "present_checks S sr_req start max_recs numberOfRecords r =
     (let checks =
        [(sr_recordXPath sr_req \<noteq> None, SRW_XPATH_RETRIEVAL_UNSUPP, None),
         (sr_resultSetTTL sr_req \<noteq> None, SRW_RESULT_SETS_UNSUPP, None),
         (sr_sort sr_req \<noteq> sort_type_none, SRW_SORT_UNSUPP, None),
         (start < 0 \<or> start > numberOfRecords, SRW_FIRST_RECORD_POSITION_OUT_OF_RANGE, None),
         (max_recs < 0, SRW_UNSUPP_PARAMETER_VALUE, Some ''maximumRecords'')]
      in foldl (\<lambda>(ok, r) (bad, code, addinfo). if bad then (False, add_diag S code addinfo r) else (ok, r)) (True, r) checks)"

definition present_limit :: "int \<Rightarrow> int \<Rightarrow> int \<Rightarrow> int \<Rightarrow> int" where
  "present_limit conf_max_recs max_recs start numberOfRecords =
     (let m = (if conf_max_recs > 0 \<and> max_recs > conf_max_recs then conf_max_recs else max_recs)
      in if m > numberOfRecords - start then to_int32 (numberOfRecords - start + 1) else m)"

definition sru_present_request :: "yaz \<Rightarrow> Z_SRW_searchRetrieveRequest \<Rightarrow> int \<Rightarrow> int \<Rightarrow> int \<Rightarrow> Z_PresentRequest" where
  "sru_present_request Y sr_req start max_recs num =
     (zget_presentRequest Y)\<lparr>prq_resultSetStartPoint := start + num, prq_numberOfRecordsRequested := max_recs - num,
       prq_preferredRecordSyntax := Some recsyn_xml,
       prq_recordComposition := (case build_esn_from_schema (sr_recordSchema sr_req) of
          Some esn \<Rightarrow> Some (RecordComp_simple esn)
        | None \<Rightarrow> prq_recordComposition (zget_presentRequest Y))\<rparr>"

definition sru_record :: "'w sru_env \<Rightarrow> Z_SRW_searchRetrieveRequest \<Rightarrow> int \<Rightarrow> Z_NamePlusRecord \<Rightarrow> Z_SRW_record" where
  "sru_record S sr_req position npr =
     (let packing = packing_of (sr_recordPacking sr_req); surrogate = yaz_mk_sru_surrogate S packing position
      in case npr_record npr of
           NPR_surrogateDiagnostic (DiagRec_defaultFormat df) \<Rightarrow>
             surrogate (yaz_diag_bib1_to_srw S (to_int32 (diag_condition df))) (addinfo_text df)
         | NPR_surrogateDiagnostic _ \<Rightarrow> surrogate SRW_RECORD_TEMPORARILY_UNAVAILABLE None
         | NPR_databaseRecord e \<Rightarrow>
             (case external_xml S e of
                Some (data, descriptor) \<Rightarrow>
                  \<lparr>srw_recordSchema = (case descriptor of Some d \<Rightarrow> Some d | None \<Rightarrow> sr_recordSchema sr_req),
                   srw_recordPacking = packing, srw_recordData = data, srw_recordPosition = Some position\<rparr>
              | None \<Rightarrow> surrogate SRW_RECORD_NOT_AVAILABLE_IN_THIS_SCHEMA None)
         | _ \<Rightarrow> surrogate SRW_RECORD_NOT_AVAILABLE_IN_THIS_SCHEMA None)"

text \<open>
  One present response: the records so far and those of the response, the end of the loop, a
  failure, or more records than the array was made for.
\<close>

datatype sru_reply =
    Reply_records "Z_SRW_record list"
  | Reply_stop
  | Reply_failed Z_SRW_searchRetrieveResponse
  | Reply_overrun

definition sru_present_reply :: "'w sru_env \<Rightarrow> Z_SRW_searchRetrieveRequest \<Rightarrow> int \<Rightarrow> int \<Rightarrow> Z_SRW_searchRetrieveResponse
    \<Rightarrow> Z_SRW_record list \<Rightarrow> Z_GDU option \<Rightarrow> sru_reply" where
  "sru_present_reply S sr_req start max_recs r recs response =
     (case response of
        Some (GDU_Z3950 (APDU_presentResponse pr)) \<Rightarrow>
          (case z3950_to_srw_diagnostics_ok S (prs_records pr) r of
             (False, r) \<Rightarrow> Reply_failed r
           | (True, _) \<Rightarrow>
               (case prs_records pr of
                  Some (Records_DBOSD nprs) \<Rightarrow>
                    if int (length recs + length nprs) > max_recs then Reply_overrun
                    else Reply_records (recs @ map (\<lambda>(i, npr). sru_record S sr_req (to_int32 (int i + (start + int (length recs)))) npr)
                           (enumerate 0 nprs))
                | _ \<Rightarrow> Reply_stop))
      | _ \<Rightarrow> Reply_failed (add_diag S SRW_SYSTEM_TEMPORARILY_UNAVAILABLE None r))"

text \<open>The loop of present requests. \<open>None\<close>: it does not end, or it writes outside of the array.\<close>

partial_function (option) sru_present_loop :: "'w sru_env \<Rightarrow> yaz \<Rightarrow> 'w move_fn \<Rightarrow> package \<Rightarrow> Z_SRW_searchRetrieveRequest
    \<Rightarrow> int \<Rightarrow> int \<Rightarrow> Z_SRW_searchRetrieveResponse \<Rightarrow> Z_SRW_record list \<Rightarrow> 'w world_scheme
    \<Rightarrow> ((Z_SRW_searchRetrieveResponse + Z_SRW_record list) \<times> 'w world_scheme) option" where
  "sru_present_loop S Y mv p sr_req start max_recs r recs w =
     (if int (length recs) < max_recs
      then (let (q, w) = mv [] (sub_package p (APDU_presentRequest
                  (sru_present_request Y sr_req start max_recs (int (length recs))))) w
            in case sru_present_reply S sr_req start max_recs r recs (pkg_response q) of
                 Reply_records recs' \<Rightarrow> sru_present_loop S Y mv p sr_req start max_recs r recs' w
               | Reply_stop \<Rightarrow> Some (Inr recs, w)
               | Reply_failed r' \<Rightarrow> Some (Inl r', w)
               | Reply_overrun \<Rightarrow> None)
      else Some (Inr recs, w))"

definition z3950_present_request :: "'w sru_env \<Rightarrow> yaz \<Rightarrow> int \<Rightarrow> 'w move_fn \<Rightarrow> package \<Rightarrow> Z_SRW_searchRetrieveRequest
    \<Rightarrow> Z_SRW_searchRetrieveResponse \<Rightarrow> int \<Rightarrow> 'w world_scheme \<Rightarrow> ((bool \<times> Z_SRW_searchRetrieveResponse) \<times> 'w world_scheme) option" where
  "z3950_present_request S Y conf_max_recs mv p sr_req r numberOfRecords w =
     (let max_recs = (case sr_maximumRecords sr_req of None \<Rightarrow> 0 | Some m \<Rightarrow> to_int32 m);
          start = (case sr_startRecord sr_req of None \<Rightarrow> 1 | Some s \<Rightarrow> to_int32 s)
      in if max_recs = 0 then Some ((True, r), w)
         else (case present_checks S sr_req start max_recs numberOfRecords r of
           (False, r) \<Rightarrow> Some ((False, r), w)
         | (True, r) \<Rightarrow>
             (case sru_present_loop S Y mv p sr_req start (present_limit conf_max_recs max_recs start numberOfRecords) r [] w of
                None \<Rightarrow> None
              | Some (Inl r, w) \<Rightarrow> Some ((False, r), w)
              | Some (Inr recs, w) \<Rightarrow>
                  Some ((True, (if start - 1 + int (length recs) < numberOfRecords
                                then r\<lparr>srr_records := recs, srr_nextRecordPosition := Some (start + int (length recs))\<rparr>
                                else r\<lparr>srr_records := recs\<rparr>)), w))))"

section \<open>The SRU request\<close>

text \<open>
  The extra arguments: target, origin, logging and the arguments for the database. \<open>None\<close>: an
  argument without a value where the code needs one.
\<close>

record sru_args =
  arg_zurl :: string
  arg_origin :: origin
  arg_log :: bool
  arg_dbargs :: string

definition uri_encode :: "'w sru_env \<Rightarrow> string \<Rightarrow> string" where
  "uri_encode S s = yaz_encode_uri_component S s"

definition sru_arg :: "'w sru_env \<Rightarrow> string \<times> string option \<Rightarrow> sru_args \<Rightarrow> sru_args option" where
  "sru_arg S arg a =
     (case arg of (name, val) \<Rightarrow>
       if name = ''x-target'' then map_option (\<lambda>v. a\<lparr>arg_zurl := v\<rparr>) val
       else if name = ''x-max-sockets'' then map_option (\<lambda>v. a\<lparr>arg_origin := Origin_set_max_sockets (arg_origin a) (atoi v)\<rparr>) val
       else if name = ''x-session-id'' then map_option (\<lambda>v. a\<lparr>arg_origin := Origin_set_custom_session (arg_origin a) v\<rparr>) val
       else if name = ''x-log-enable'' then map_option (\<lambda>v. if take 1 v = ''1'' then a\<lparr>arg_log := True\<rparr> else a) val
       else (case val of
               Some v \<Rightarrow>
                 if take 9 name = ''x-client-''
                 then Some (a\<lparr>arg_dbargs := arg_dbargs a @ (if arg_dbargs a \<noteq> [] then ''&'' else []) @
                        uri_encode S (drop 9 name) @ ''='' @ uri_encode S v\<rparr>)
                 else Some a
             | None \<Rightarrow> Some a))"

fun sru_args_loop :: "'w sru_env \<Rightarrow> (string \<times> string option) list \<Rightarrow> sru_args \<Rightarrow> sru_args option" where
  "sru_args_loop S [] a = Some a"
| "sru_args_loop S (x # xs) a = (case sru_arg S x a of None \<Rightarrow> None | Some a' \<Rightarrow> sru_args_loop S xs a')"

record SRU_Conf =
  m_database_explain :: "string \<rightharpoonup> xml_node"
  default_stylesheet :: string
  sru_conf_max_recs :: int

definition SRU_Conf_new :: SRU_Conf where
  "SRU_Conf_new = \<lparr>m_database_explain = Map.empty, default_stylesheet = [], sru_conf_max_recs = 0\<rparr>"

text \<open>A search: check, Init, Search, Present requests where there is something to present, Close.\<close>

definition sru_search :: "'w sru_env \<Rightarrow> yaz \<Rightarrow> SRU_Conf \<Rightarrow> 'w move_fn \<Rightarrow> package \<Rightarrow> Z_SRW_PDU \<Rightarrow> Z_SRW_searchRetrieveRequest
    \<Rightarrow> sru_args \<Rightarrow> Z_SRW_diagnostic list \<Rightarrow> 'w world_scheme \<Rightarrow> (Z_SRW_searchRetrieveResponse \<times> 'w world_scheme) option" where
  "sru_search S Y conf mv p sru_pdu_req sr_req a diags w =
     (case check_sru_query_exists S sr_req ((srw_search_response S)\<lparr>srr_diagnostics := diags\<rparr>) of
        (False, r) \<Rightarrow> Some (r, w)
      | (True, r) \<Rightarrow>
          (case z3950_init_request S Y mv p (arg_zurl a) sru_pdu_req r w of
             None \<Rightarrow> None
           | Some ((False, r), w) \<Rightarrow> Some (r, w)
           | Some ((True, r), w) \<Rightarrow>
               (case z3950_search_request S Y mv p sr_req (arg_zurl a) (arg_dbargs a) r w of
                  None \<Rightarrow> None
                | Some ((ok, r), w) \<Rightarrow>
                    (case (case srr_numberOfRecords r of
                             Some n \<Rightarrow>
                               if ok \<and> n \<noteq> 0
                               then map_option (\<lambda>((_, r), w). (r, w))
                                 (z3950_present_request S Y (sru_conf_max_recs conf) mv p sr_req r n w)
                               else Some (r, w)
                           | None \<Rightarrow> Some (r, w)) of
                       None \<Rightarrow> None
                     | Some (r, w) \<Rightarrow> Some (r, snd (z3950_close_request mv p w))))))"

text \<open>The response PDU to a decoded request, and the stylesheet the request asks for.\<close>

definition sru_answer :: "'w sru_env \<Rightarrow> yaz \<Rightarrow> SRU_Conf \<Rightarrow> 'w move_fn \<Rightarrow> package \<Rightarrow> Z_SRW_PDU \<Rightarrow> sru_args
    \<Rightarrow> Z_SRW_diagnostic list \<Rightarrow> SRUServerInfo \<Rightarrow> 'w world_scheme
    \<Rightarrow> ((Z_SRW_PDU \<times> string option) \<times> 'w world_scheme) option" where
  "sru_answer S Y conf mv p sru_pdu_req a diags info w =
     (case pdu_body sru_pdu_req of
        SRW_explain_request er_req \<Rightarrow>
          Some ((srw_pdu_e S sru_pdu_req (SRW_explain_response (build_sru_explain S info
                   (m_database_explain conf (sru_database info)) (Some er_req) ((srw_explain_response S)\<lparr>exs_diagnostics := diags\<rparr>))),
                 exq_stylesheet er_req), w)
      | SRW_searchRetrieve_request sr_req \<Rightarrow>
          map_option (\<lambda>(r, w). ((srw_pdu_e S sru_pdu_req (SRW_searchRetrieve_response r), sr_stylesheet sr_req), w))
            (sru_search S Y conf mv p sru_pdu_req sr_req a diags w)
      | SRW_scan_request stylesheet \<Rightarrow>
          Some ((srw_pdu_e S sru_pdu_req (SRW_scan_response ((srw_scan_response S)
                   \<lparr>scr_diagnostics := yaz_add_srw_diagnostic S diags SRW_UNSUPP_OPERATION (Some ''scan'')\<rparr>)), stylesheet), w)
      | _ \<Rightarrow>
          Some ((srw_pdu_e S sru_pdu_req (SRW_explain_response ((srw_explain_response S)\<lparr>exs_diagnostics := diags\<rparr>)), None), w))"

definition SRU_sru :: "'w sru_env \<Rightarrow> yaz \<Rightarrow> SRU_Conf \<Rightarrow> 'w move_fn \<Rightarrow> Z_HTTP_Request \<Rightarrow> package \<Rightarrow> 'w world_scheme
    \<Rightarrow> (package \<times> 'w world_scheme) option" where
  "SRU_sru S Y conf mv hreq p w =
     (let info = get_sru_server_info p
      in case decode_sru_request S p of
           (None, soap, diags, p) \<Rightarrow>
             (case soap of
                Some _ \<Rightarrow>
                  map_option (\<lambda>(_, p). (p, w))
                    (build_sru_response S Y soap (srw_pdu S (SRW_explain_response (build_sru_explain S info
                       (m_database_explain conf (sru_database info)) None ((srw_explain_response S)\<lparr>exs_diagnostics := diags\<rparr>))))
                       None None p)
              | None \<Rightarrow>
                  (let (ses, hres) = create_HTTP_Response Y (pkg_session p) hreq 400
                   in Some (p\<lparr>pkg_session := ses, pkg_response := Some (GDU_HTTP_Response hres)\<rparr>, w)))
         | (Some sru_pdu_req, soap, diags, p) \<Rightarrow>
             (case sru_args_loop S (pdu_extra_args sru_pdu_req)
                     \<lparr>arg_zurl = [], arg_origin = pkg_origin p, arg_log = False, arg_dbargs = []\<rparr> of
                None \<Rightarrow> None
              | Some a \<Rightarrow>
                  (let p = p\<lparr>pkg_origin := arg_origin a\<rparr>
                   in case sru_answer S Y conf mv p sru_pdu_req a diags info w of
                        None \<Rightarrow> None
                      | Some ((res, stylesheet), w) \<Rightarrow>
                          (let l = log_reset S w;
                               res = (if arg_log a \<and> l \<noteq> []
                                      then res\<lparr>pdu_extraResponseData := Some (''<log>'' @ nl @ wrbuf_xmlputs S l @ ''</log>'')\<rparr>
                                      else res);
                               stylesheet = (if stylesheet = None \<and> default_stylesheet conf \<noteq> []
                                             then Some (default_stylesheet conf) else stylesheet)
                           in map_option (\<lambda>(_, p). (p, w)) (build_sru_response S Y soap res None stylesheet p)))))"

section \<open>Sessions and configuration\<close>

text \<open>The clients and whether they are in use. \<open>None\<close>: the package has to wait.\<close>

type_synonym sru_clients = "bool session_map"

definition SRU_get_frontend :: "package \<Rightarrow> sru_clients \<Rightarrow> sru_clients option" where
  "SRU_get_frontend p clients =
     (case clients (m_id (pkg_session p)) of
        Some in_use \<Rightarrow> if \<not> in_use then Some (session_map_create clients True (pkg_session p)) else None
      | None \<Rightarrow> Some (session_map_create clients True (pkg_session p)))"

definition SRU_release_frontend :: "package \<Rightarrow> sru_clients \<Rightarrow> sru_clients" where
  "SRU_release_frontend p clients =
     (if session_map_exist clients (pkg_session p)
      then if is_closed p then session_map_release clients (pkg_session p)
           else session_map_create clients False (pkg_session p)
      else clients)"

definition SRU_process :: "'w sru_env \<Rightarrow> yaz \<Rightarrow> SRU_Conf \<Rightarrow> 'w move_fn \<Rightarrow> sru_clients \<Rightarrow> package \<Rightarrow> 'w world_scheme
    \<Rightarrow> ((package \<times> sru_clients) \<times> 'w world_scheme) option" where
  "SRU_process S Y conf mv clients p w =
     (case SRU_get_frontend p clients of
        None \<Rightarrow> None
      | Some clients \<Rightarrow>
          (case pkg_request p of
             Some (GDU_HTTP_Request hreq) \<Rightarrow>
               map_option (\<lambda>(p, w). ((p, SRU_release_frontend p clients), w)) (SRU_sru S Y conf mv hreq p w)
           | _ \<Rightarrow> (let (p, w) = mv [] p w in Some ((p, SRU_release_frontend p clients), w))))"

text \<open>The first element below a database is its explain record; the first one of a name is kept.\<close>

definition first_element :: "xml_node list \<Rightarrow> xml_node option" where
  "first_element ns = find (\<lambda>n. node_type n = XML_ELEMENT_NODE) ns"

fun SRU_database_attrs :: "xml_node list \<Rightarrow> xml_attr list \<Rightarrow> SRU_Conf \<Rightarrow> mp_exception + SRU_Conf" where
  "SRU_database_attrs children [] c = Inr c"
| "SRU_database_attrs children (a # ats) c =
     (case check_attribute a [] ''name'' of
        Inl e \<Rightarrow> Inl e
      | Inr _ \<Rightarrow>
          (let database = get_text_attr a;
               c = (case first_element children of
                      None \<Rightarrow> c
                    | Some n \<Rightarrow>
                        if m_database_explain c database = None
                        then c\<lparr>m_database_explain := (m_database_explain c)(database \<mapsto> n)\<rparr> else c)
           in SRU_database_attrs children ats c))"

fun SRU_limit_attrs :: "xml_attr list \<Rightarrow> SRU_Conf \<Rightarrow> mp_exception + SRU_Conf" where
  "SRU_limit_attrs [] c = Inr c"
| "SRU_limit_attrs (a # ats) c =
     (if attr_name a = ''retrieve'' then SRU_limit_attrs ats (c\<lparr>sru_conf_max_recs := get_int (attr_children a) 0\<rparr>)
      else Inl (FilterException (''Bad attribute '' @ attr_name a)))"

fun SRU_element :: "xml_node list \<Rightarrow> SRU_Conf \<Rightarrow> mp_exception + SRU_Conf" where
  "SRU_element (n # ns) c =
     (if node_name n = ''database'' then SRU_database_attrs (node_children n) (node_attrs n) c
      else if node_name n = ''stylesheet'' then Inr (c\<lparr>default_stylesheet := get_text (n # ns)\<rparr>)
      else if node_name n = ''limit'' then SRU_limit_attrs (node_attrs n) c
      else Inl (FilterException (''Bad element '' @ node_name n @ '' in sru_z3950'')))"
| "SRU_element [] c = Inr c"

definition SRU_configure :: "xml_node \<Rightarrow> SRU_Conf \<Rightarrow> mp_exception + SRU_Conf" where
  "SRU_configure confignode c = for_elements SRU_element (node_children confignode) c"

end
