(* ===== verification/MP_Sru_Props.thy ===== *)
theory MP_Sru_Props
  imports MP_Sru
begin

text \<open>
  Properties of the SRU filter: the loop of present requests, an SRU search from end to end
  over the test backend, the response to every HTTP request, and the table of clients.
\<close>

section \<open>The loop of present requests\<close>

text \<open>The SRU records of a segment of the result set that starts at a position.\<close>

definition sru_records :: "'w sru_env \<Rightarrow> Z_SRW_searchRetrieveRequest \<Rightarrow> int \<Rightarrow> Z_NamePlusRecord list \<Rightarrow> Z_SRW_record list" where
  "sru_records S sr_req pos nprs = map (\<lambda>(i, npr). sru_record S sr_req (pos + int i) npr) (enumerate 0 nprs)"

lemma length_sru_records [simp]: "length (sru_records S sr_req pos nprs) = length nprs"
  by (simp add: sru_records_def)

lemma sru_records_Nil [simp]: "sru_records S sr_req pos [] = []"
  by (simp add: sru_records_def)

lemma nth_sru_records: "i < length nprs \<Longrightarrow> sru_records S sr_req pos nprs ! i = sru_record S sr_req (pos + int i) (nprs ! i)"
  by (simp add: sru_records_def nth_enumerate_eq)

lemma sru_records_append:
  "sru_records S sr_req pos (xs @ ys) = sru_records S sr_req pos xs @ sru_records S sr_req (pos + int (length xs)) ys"
  by (rule nth_equalityI) (auto simp: nth_append nth_sru_records algebra_simps)

lemma sru_request_same: "same_request (sru_present_request Y sr_req s m n) (sru_present_request Y sr_req 1 1 0)"
  by (simp add: same_request_def sru_present_request_def)

lemma reply_records:
  assumes "prs_records pres = Some (Records_DBOSD nprs)" and "int (length recs + length nprs) \<le> max_recs"
    and "0 \<le> start" and "start + max_recs < 2 ^ 31"
  shows "sru_present_reply S sr_req start max_recs r recs (Some (GDU_Z3950 (APDU_presentResponse pres))) =
     Reply_records (recs @ sru_records S sr_req (start + int (length recs)) nprs)"
proof -
  have "to_int32 (int i + (start + int (length recs))) = start + int (length recs) + int i" if "i < length nprs" for i
    using assms(2-4) that by (subst to_int32_id) auto
  then have "map (\<lambda>(i, npr). sru_record S sr_req (to_int32 (int i + (start + int (length recs)))) npr) (enumerate 0 nprs) =
      sru_records S sr_req (start + int (length recs)) nprs"
    by (auto simp: sru_records_def in_set_enumerate_eq)
  then show ?thesis using assms(1,2) by (simp add: sru_present_reply_def z3950_to_srw_diagnostics_ok_def)
qed

lemma sru_present_loop_records:
  assumes "serves I (pkg_session p) (sru_present_request Y sr_req 1 1 0) R mv"
    and "a + tot \<le> length R" and "int (a + tot) < 2 ^ 31 - 1"
  shows "n \<le> tot \<Longrightarrow> I w \<Longrightarrow> \<exists>w'. I w' \<and>
     sru_present_loop S Y mv p sr_req (int a + 1) (int tot) r (sru_records S sr_req (int a + 1) (take n (drop a R))) w =
       Some (Inr (sru_records S sr_req (int a + 1) (take tot (drop a R))), w')"
proof (induction "tot - n" arbitrary: n w rule: less_induct)
  case less
  let ?recs = "sru_records S sr_req (int a + 1) (take n (drop a R))"
  have len: "length ?recs = n" using less.prems assms(2) by simp
  show ?case
  proof (cases "n < tot")
    case False
    then have "n = tot" using less.prems(1) by simp
    then show ?thesis using len less.prems(2) by (subst sru_present_loop.simps) simp
  next
    case True
    let ?pr = "sru_present_request Y sr_req (int a + 1) (int tot) (int n)"
    define q where "q = sub_package p (APDU_presentRequest ?pr)"
    have pr: "prq_resultSetStartPoint ?pr = int (a + n) + 1" "prq_numberOfRecordsRequested ?pr = int tot - int n"
      by (simp_all add: sru_present_request_def)
    have q: "pkg_session q = pkg_session p" "pkg_request q = Some (GDU_Z3950 (APDU_presentRequest ?pr))"
      by (simp_all add: q_def Package_new_def)
    have bounds: "1 \<le> prq_numberOfRecordsRequested ?pr"
      "int (a + n) + prq_numberOfRecordsRequested ?pr \<le> int (length R)"
      using True assms(2) pr(2) by auto
    obtain k w' pres where I: "I w'" and k: "1 \<le> k" "int k \<le> prq_numberOfRecordsRequested ?pr"
      "prs_records pres = Some (Records_DBOSD (take k (drop (a + n) R)))"
      "mv [] q w = (q\<lparr>pkg_response := Some (GDU_Z3950 (APDU_presentResponse pres))\<rparr>, w')"
      by (rule servesD [OF assms(1) [folded q(1)] less.prems(2) q(2) sru_request_same pr(1) bounds])
    have kb: "n + k \<le> tot" using k(2) pr(2) by simp
    have take_add': "take n (drop a R) @ take k (drop (a + n) R) = take (n + k) (drop a R)"
      by (simp add: take_add add.commute [of n a])
    have "sru_present_reply S sr_req (int a + 1) (int tot) r ?recs (Some (GDU_Z3950 (APDU_presentResponse pres))) =
        Reply_records (sru_records S sr_req (int a + 1) (take (n + k) (drop a R)))"
      using reply_records [OF k(3), of ?recs "int tot" "int a + 1"] kb len assms(2,3)
      by (simp add: take_add' [symmetric] sru_records_append)
    then show ?thesis
      using less.hyps [of "n + k" w'] k(1) kb I True k(4)
      by (subst sru_present_loop.simps, unfold len) (simp add: q_def [symmetric])
  qed
qed

text \<open>The number of records a request gets: the least of what it asks for, what the filter grants and what there is.\<close>

definition sru_wanted :: "int \<Rightarrow> int \<Rightarrow> int \<Rightarrow> int \<Rightarrow> int" where
  "sru_wanted conf_max_recs max_recs start numberOfRecords =
     min (if conf_max_recs > 0 then min conf_max_recs max_recs else max_recs) (numberOfRecords - start + 1)"

lemma present_limit_wanted:
  assumes "1 \<le> start" and "start \<le> N" and "N < 2 ^ 31"
  shows "present_limit conf m start N = sru_wanted conf m start N"
  using assms by (auto simp: present_limit_def sru_wanted_def Let_def min_def)

definition sru_plain :: "Z_SRW_searchRetrieveRequest \<Rightarrow> bool" where
  "sru_plain sr_req \<longleftrightarrow> sr_recordXPath sr_req = None \<and> sr_resultSetTTL sr_req = None \<and> sr_sort sr_req = sort_type_none"

lemma z3950_present_records:
  fixes conf :: int
  assumes "serves I (pkg_session p) (sru_present_request Y sr_req 1 1 0) R mv" and "I w"
    and "sru_plain sr_req" and "sr_startRecord sr_req = Some start" and "sr_maximumRecords sr_req = Some m"
    and "1 \<le> start" and "start \<le> int (length R)" and "0 < m" and "m < 2 ^ 31" and "int (length R) < 2 ^ 31 - 1"
  defines "n \<equiv> sru_wanted conf m start (int (length R))"
  shows "\<exists>w'. I w' \<and> z3950_present_request S Y conf mv p sr_req r (int (length R)) w = Some ((True,
     r\<lparr>srr_records := sru_records S sr_req start (take (nat n) (drop (nat (start - 1)) R)),
       srr_nextRecordPosition := (if start - 1 + n < int (length R) then Some (start + n) else srr_nextRecordPosition r)\<rparr>), w')"
proof -
  let ?N = "int (length R)" and ?a = "nat (start - 1)"
  have N: "?N < 2 ^ 31" using assms(10) by simp
  have n: "1 \<le> n" "start + n - 1 \<le> ?N" using assms(6-8) by (auto simp: n_def sru_wanted_def)
  have lim: "present_limit conf m start ?N = n" unfolding n_def by (rule present_limit_wanted [OF assms(6,7) N])
  have checks: "present_checks S sr_req start m ?N r = (True, r)"
    using assms(3,6,7,8) by (simp add: present_checks_def sru_plain_def Let_def)
  have narrow: "to_int32 start = start" "to_int32 m = m" using assms(6-9) N by simp_all
  have a: "int ?a + 1 = start" "?a + nat n \<le> length R" using assms(6) n by auto
  then have bound: "int (?a + nat n) < 2 ^ 31 - 1" using assms(10) by linarith
  obtain w' where w': "I w'" "sru_present_loop S Y mv p sr_req start n r [] w =
      Some (Inr (sru_records S sr_req start (take (nat n) (drop ?a R))), w')"
    using sru_present_loop_records [OF assms(1) a(2) bound, of 0 w S r] assms(2) n(1) a(1) by auto
  have "length (take (nat n) (drop ?a R)) = nat n" using a(2) by simp
  with w' n(1) assms(4,5,8) narrow checks lim show ?thesis
    by (intro exI [of _ w']) (simp add: z3950_present_request_def Let_def)
qed

section \<open>A search over the test backend\<close>

text \<open>
  The three other requests on a chain that ends in the test backend. What YAZ puts into new
  messages is assumed where it matters: an Init response accepts, a search request names the
  set \<open>default\<close> and asks for no records with the response.
\<close>

definition yaz_defaults :: "yaz \<Rightarrow> bool" where
  "yaz_defaults Y \<longleftrightarrow> irs_result (zget_initResponse Y) \<and> srq_resultSetName (zget_searchRequest Y) = ''default'' \<and>
     fst (piggyback_sr (zget_searchRequest Y) result_set_size None) = 0"

lemma backend_init:
  assumes "\<not> is_closed p" and "yaz_defaults Y"
  shows "\<exists>resp w'. backend_move Y version [] (sub_package p (APDU_initRequest req)) w =
       (z_reply (APDU_initResponse resp) (sub_package p (APDU_initRequest req)), w') \<and>
     irs_result resp \<and> bt_knows (pkg_session p) w'"
  using assms
  by (auto simp: backend_move_def BackendTest_process_def BackendTest_apdu_def BackendTest_leave_def BackendTest_init_def
      create_initResponse_def yaz_defaults_def Package_new_def session_map_create_def session_map_exist_def Let_def)

lemma backend_search:
  assumes "\<not> is_closed p" and "yaz_defaults Y" and "bt_knows (pkg_session p) w"
  shows "\<exists>resp. backend_move Y version [] (sub_package p (APDU_searchRequest (sru_search_request S Y sr_req zurl dbappend query))) w =
       (z_reply (APDU_searchResponse resp) (sub_package p (APDU_searchRequest (sru_search_request S Y sr_req zurl dbappend query))), w) \<and>
     srs_records resp = None \<and> srs_resultCount resp = result_set_size"
proof -
  let ?req = "sru_search_request S Y sr_req zurl dbappend query"
  have "srq_resultSetName ?req = ''default''" "fst (piggyback_sr ?req result_set_size None) = 0"
    using assms(2) by (simp_all add: sru_search_request_def yaz_defaults_def piggyback_sr_def Let_def)
  then obtain resp where "BackendTest_search Y (bt_state w) ?req = Some resp" "srs_records resp = None"
    "srs_resultCount resp = result_set_size"
    by (simp add: BackendTest_search_def Let_def)
  then show ?thesis using assms(1,3)
    by (simp add: backend_move_def BackendTest_process_def BackendTest_apdu_def BackendTest_leave_def Package_new_def)
qed

lemma backend_close: "\<not> bt_knows (pkg_session p) (snd (z3950_close_request (backend_move Y version) p w))"
  by (simp add: z3950_close_request_def backend_move_def BackendTest_process_def BackendTest_leave_def Package_new_def
      close_session_def Session_close_def session_map_release_def session_map_exist_def split: prod.splits)

lemma sru_request_accepted:
  assumes "sr_recordSchema sr_req = Some e" and "fetch_check recsyn_xml e = None"
  shows "bt_accepts (sru_present_request Y sr_req s m n) e" "bt_syntax (sru_present_request Y sr_req s m n) = recsyn_xml"
  using assms by (simp_all add: bt_accepts_def bt_esn_def bt_syntax_def sru_present_request_def build_esn_from_schema_def)

text \<open>
  C15. An SRU search on a chain that ends in the test backend: the request becomes an Init, a
  Search and Present requests, the response has the number of hits, exactly the records that
  were asked for, in order and with their positions, as many as the request, the
  configuration and the result set allow, and the position of the next one; afterwards the
  backend has forgotten the session.\<close>
theorem sru_search_end_to_end:
  fixes w :: "'a bt_world_scheme" and conf :: SRU_Conf
  assumes "\<not> is_closed p" and "yaz_defaults Y" and "sr_query sr_req = Some qs" and "z3950_build_query Y sr_req qs = Inr query"
    and "sru_plain sr_req" and "sr_recordSchema sr_req = Some e" and "fetch_check recsyn_xml e = None"
    and "sr_startRecord sr_req = Some start" and "sr_maximumRecords sr_req = Some m"
    and "1 \<le> start" and "start \<le> result_set_size" and "0 < m" and "m < 2 ^ 31"
  defines "n \<equiv> sru_wanted (sru_conf_max_recs conf) m start result_set_size"
  shows "\<exists>r w'. sru_search S Y conf (backend_move Y version) p sru_pdu_req sr_req a diags w = Some (r, w') \<and>
     srr_numberOfRecords r = Some result_set_size \<and> srr_diagnostics r = diags \<and>
     srr_records r = sru_records S sr_req start (map (fetch_record Y recsyn_xml e) [start..start + n - 1]) \<and>
     srr_nextRecordPosition r = (if start + n \<le> result_set_size then Some (start + n)
       else srr_nextRecordPosition (srw_search_response S)) \<and>
     \<not> bt_knows (pkg_session p) w'"
proof -
  let ?mv = "backend_move Y version :: 'a bt_world_ext move_fn"
  let ?r0 = "(srw_search_response S)\<lparr>srr_diagnostics := diags\<rparr>"
  obtain resp w1 where init: "?mv [] (sub_package p (APDU_initRequest (sru_init_request Y (arg_zurl a) sru_pdu_req p))) w =
      (z_reply (APDU_initResponse resp) (sub_package p (APDU_initRequest (sru_init_request Y (arg_zurl a) sru_pdu_req p))), w1)"
    "irs_result resp" "bt_knows (pkg_session p) w1"
    using backend_init [OF assms(1,2)] by blast
  let ?sreq = "sru_search_request S Y sr_req (arg_zurl a) (arg_dbargs a) query"
  obtain sresp where search: "?mv [] (sub_package p (APDU_searchRequest ?sreq)) w1 =
      (z_reply (APDU_searchResponse sresp) (sub_package p (APDU_searchRequest ?sreq)), w1)"
    "srs_records sresp = None" "srs_resultCount sresp = result_set_size"
    using backend_search [OF assms(1,2) init(3)] by blast
  let ?r1 = "?r0\<lparr>srr_facetList := yaz_oi_get_facetlist S sresp, srr_numberOfRecords := Some result_set_size\<rparr>"
  let ?pr = "sru_present_request Y sr_req 1 1 0"
  have acc: "bt_accepts ?pr e" "bt_syntax ?pr = recsyn_xml" using sru_request_accepted assms(6,7) by auto
  have serves: "serves (bt_knows (pkg_session p)) (pkg_session p) ?pr (bt_results Y recsyn_xml e) ?mv"
    by (rule backend_test_serves [OF acc(1) assms(1), unfolded acc(2)])
  have R: "int (length (bt_results Y recsyn_xml e)) = result_set_size" by (simp add: result_set_size_def)
  obtain w2 where present: "z3950_present_request S Y (sru_conf_max_recs conf) ?mv p sr_req ?r1 result_set_size w1 = Some ((True,
     ?r1\<lparr>srr_records := sru_records S sr_req start (take (nat n) (drop (nat (start - 1)) (bt_results Y recsyn_xml e))),
       srr_nextRecordPosition := (if start - 1 + n < result_set_size then Some (start + n) else srr_nextRecordPosition ?r1)\<rparr>), w2)"
    using z3950_present_records [OF serves init(3) assms(5,8,9,10), where conf = "sru_conf_max_recs conf" and S = S and r = ?r1]
      assms(11-13)
    unfolding R n_def by (auto simp: result_set_size_def)
  have "n \<le> result_set_size - start + 1" by (simp add: n_def sru_wanted_def)
  then have "take (nat n) (drop (nat (start - 1)) (bt_results Y recsyn_xml e)) =
      map (fetch_record Y recsyn_xml e) [start..start + n - 1]"
    using assms(10) by (simp add: bt_results_def take_map drop_map upto_segment [where m = result_set_size])
  moreover have "result_set_size \<noteq> 0" by (simp add: result_set_size_def)
  ultimately show ?thesis
    using assms(3,4) init search present backend_close [where p = p and Y = Y and version = version and w = w2]
    by (simp add: sru_search_def check_sru_query_exists_def z3950_init_request_def z3950_search_request_def
        z3950_to_srw_diagnostics_ok_def)
qed

text \<open>A value of the parameters, for concrete requests.\<close>

definition sru_env_ref :: "'w sru_env" where
  "sru_env_ref = \<lparr>
     yaz_sru_decode = (\<lambda>h. (False, None, None, [])), yaz_srw_decode = (\<lambda>h so. (False, None, so)),
     srw_search_response = \<lparr>srr_numberOfRecords = None, srr_records = [], srr_diagnostics = [],
       srr_nextRecordPosition = None, srr_facetList = None\<rparr>,
     srw_explain_response = \<lparr>exs_record = \<lparr>srw_recordSchema = None, srw_recordPacking = recordPacking_XML,
       srw_recordData = [], srw_recordPosition = None\<rparr>, exs_diagnostics = []\<rparr>,
     srw_scan_response = \<lparr>scr_diagnostics = []\<rparr>,
     srw_pdu = (\<lambda>b. \<lparr>pdu_body = b, pdu_username = None, pdu_password = None, pdu_extra_args = [], pdu_extraResponseData = None\<rparr>),
     srw_pdu_e = (\<lambda>q b. \<lparr>pdu_body = b, pdu_username = None, pdu_password = None, pdu_extra_args = [], pdu_extraResponseData = None\<rparr>),
     yaz_add_srw_diagnostic = (\<lambda>ds c a. ds @ [\<lparr>srwd_uri = show_int c, srwd_message = None, srwd_details = a\<rparr>]),
     yaz_mk_std_diagnostic = (\<lambda>c a. \<lparr>srwd_uri = show_int c, srwd_message = None, srwd_details = a\<rparr>),
     yaz_diag_bib1_to_srw = (\<lambda>c. 1),
     yaz_mk_sru_surrogate = (\<lambda>k pos c a. \<lparr>srw_recordSchema = None, srw_recordPacking = k, srw_recordData = show_int c,
       srw_recordPosition = Some pos\<rparr>),
     yaz_decode_init_diag_no = (\<lambda>n r. None), yaz_oi_get_facetlist = (\<lambda>r. None), yaz_oi_set_facetlist = (\<lambda>oi f. oi),
     yaz_encode_uri_component = id, z_soap_codec_enc_xsl = (\<lambda>so p c s. so), wrbuf_xmlputs = id,
     xmlNodeDump = (\<lambda>n. []),
     external_xml = (\<lambda>e. case e of External_octet oid b \<Rightarrow> if oid = recsyn_xml then Some (b, None) else None | _ \<Rightarrow> None),
     log_reset = (\<lambda>w. [])\<rparr>"

abbreviation sru_demo :: Z_SRW_searchRetrieveRequest where
  "sru_demo \<equiv> \<lparr>sr_queryType = ''cql'', sr_query = Some ''computer'', sr_sort = sort_type_none, sr_startRecord = Some 40,
     sr_maximumRecords = Some 10, sr_recordSchema = Some ''FF'', sr_recordPacking = None, sr_recordXPath = None,
     sr_resultSetTTL = None, sr_database = None, sr_stylesheet = None, sr_facetList = None\<rparr>"

abbreviation sru_demo_args :: sru_args where
  "sru_demo_args \<equiv> \<lparr>arg_zurl = [], arg_origin = Origin_new, arg_log = False, arg_dbargs = []\<rparr>"

abbreviation sru_demo_pdu :: Z_SRW_PDU where
  "sru_demo_pdu \<equiv> \<lparr>pdu_body = SRW_searchRetrieve_request sru_demo, pdu_username = None, pdu_password = None,
     pdu_extra_args = [], pdu_extraResponseData = None\<rparr>"

abbreviation sru_env1 :: "unit bt_world_ext sru_env" where "sru_env1 \<equiv> sru_env_ref"

theorem sru_search_end_to_end_witness:
  "\<exists>r w'. sru_search sru_env1 yaz_ref SRU_Conf_new (backend_move yaz_ref ''1.0'') (demo_package 1 1) sru_demo_pdu sru_demo
       sru_demo_args [] (bt_known\<lparr>bt_state := BackendTest_new\<rparr>) = Some (r, w') \<and>
     srr_numberOfRecords r = Some 42 \<and> srr_diagnostics r = [] \<and>
     srr_records r = sru_records sru_env1 sru_demo 40 (map (fetch_record yaz_ref recsyn_xml ''FF'') [40..42]) \<and>
     srr_nextRecordPosition r = None"
proof -
  have "\<exists>r w'. sru_search sru_env1 yaz_ref SRU_Conf_new (backend_move yaz_ref ''1.0'') (demo_package 1 1) sru_demo_pdu sru_demo
       sru_demo_args [] (bt_known\<lparr>bt_state := BackendTest_new\<rparr>) = Some (r, w') \<and>
     srr_numberOfRecords r = Some result_set_size \<and> srr_diagnostics r = [] \<and>
     srr_records r = sru_records sru_env1 sru_demo 40 (map (fetch_record yaz_ref recsyn_xml ''FF'')
       [40..40 + sru_wanted (sru_conf_max_recs SRU_Conf_new) 10 40 result_set_size - 1]) \<and>
     srr_nextRecordPosition r = (if 40 + sru_wanted (sru_conf_max_recs SRU_Conf_new) 10 40 result_set_size \<le> result_set_size
       then Some (40 + sru_wanted (sru_conf_max_recs SRU_Conf_new) 10 40 result_set_size)
       else srr_nextRecordPosition (srw_search_response sru_env1)) \<and>
     \<not> bt_knows (pkg_session (demo_package 1 1)) w'"
    by (rule sru_search_end_to_end [where query = "query_type_104 ''computer''" and qs = "''computer''" and e = "''FF''"
          and start = 40 and m = 10 and p = "demo_package 1 1" and sr_req = sru_demo and conf = SRU_Conf_new])
       (simp_all add: Package_new_def yaz_defaults_def yaz_ref_def z3950_build_query_def sru_plain_def fetch_check_def
         result_set_size_def piggyback_sr_def piggyback_def)
  then show ?thesis by (auto simp: sru_wanted_def SRU_Conf_new_def result_set_size_def sru_env_ref_def)
qed

section \<open>Responses and clients\<close>

lemma build_sru_response_http:
  "build_sru_response S Y soap res cs style p = Some (b, p') \<Longrightarrow> pkg_request p = Some (GDU_HTTP_Request hreq) \<Longrightarrow>
     \<exists>hres. pkg_response p' = Some (GDU_HTTP_Response hres) \<and> m_id (pkg_session p') = m_id (pkg_session p)"
  by (auto simp: build_sru_response_def create_HTTP_Response_def create_HTTP_Response_details_def Let_def Session_close_def
      split: option.splits if_splits)

lemma decode_sru_request_keeps:
  assumes "decode_sru_request S p = (pdu, soap, diags, p')"
  shows "pkg_request p' = pkg_request p \<and> m_id (pkg_session p') = m_id (pkg_session p) \<and> (pdu \<noteq> None \<longrightarrow> p' = p)"
  using assms by (auto simp: decode_sru_request_def close_session_def Session_close_def Let_def
      split: option.splits Z_GDU.splits prod.splits if_splits)

lemma SRU_sru_http:
  assumes "SRU_sru S Y conf mv hreq p w = Some (p', w')" and "pkg_request p = Some (GDU_HTTP_Request hreq)"
  shows "\<exists>hres. pkg_response p' = Some (GDU_HTTP_Response hres) \<and> m_id (pkg_session p') = m_id (pkg_session p)"
proof -
  obtain pdu soap diags p1 where dec: "decode_sru_request S p = (pdu, soap, diags, p1)" by (metis prod_cases4)
  note p1 = decode_sru_request_keeps [OF dec]
  show ?thesis
  proof (cases pdu)
    case None
    show ?thesis
    proof (cases soap)
      case None
      with assms dec p1 \<open>pdu = None\<close> show ?thesis
        by (auto simp: SRU_sru_def create_HTTP_Response_def create_HTTP_Response_details_def Let_def Session_close_def split: if_splits)
    next
      case (Some so)
      then obtain b res where "build_sru_response S Y soap res None None p1 = Some (b, p')"
        using assms dec \<open>pdu = None\<close> by (auto simp: SRU_sru_def Let_def)
      from build_sru_response_http [OF this] p1 assms(2) show ?thesis by simp
    qed
  next
    case (Some q)
    then obtain b res style ori where "build_sru_response S Y soap res None style (p1\<lparr>pkg_origin := ori\<rparr>) = Some (b, p')"
      using assms dec by (auto simp: SRU_sru_def Let_def split: option.splits prod.splits)
    from build_sru_response_http [OF this] p1 assms(2) show ?thesis by simp
  qed
qed


abbreviation sru_http :: package where
  "sru_http \<equiv> (Package_new \<lparr>m_id = 1, m_close = False\<rparr> Origin_new)\<lparr>pkg_request := Some (GDU_HTTP_Request
     \<lparr>hrq_method = ''GET'', hrq_version = ''1.1'', hrq_path = ''/db'', hrq_headers = [], hrq_content = []\<rparr>)\<rparr>"


definition SRU_busy :: "sru_clients \<Rightarrow> 64 word \<Rightarrow> bool" where
  "SRU_busy clients i \<longleftrightarrow> clients i = Some True"

abbreviation SRU_get :: "origin \<Rightarrow> session \<Rightarrow> sru_clients \<Rightarrow> sru_clients option" where
  "SRU_get ori s clients \<equiv> SRU_get_frontend (Package_new s ori) clients"

abbreviation SRU_release :: "origin \<Rightarrow> session \<Rightarrow> sru_clients \<Rightarrow> sru_clients" where
  "SRU_release ori s clients \<equiv> SRU_release_frontend (Package_new s ori) clients"

interpretation sru_pool: frontend_pool SRU_busy "SRU_get ori" "SRU_release ori"
  for ori :: origin
  by unfold_locales
     (auto simp: SRU_busy_def SRU_get_frontend_def SRU_release_frontend_def session_map_create_def session_map_exist_def
       session_map_release_def Package_new_def split: option.splits if_splits)

text \<open>A client is used by one package at a time.\<close>

theorem SRU_frontend_exclusive:
  assumes "pool_run (SRU_get ori) (SRU_release ori) (xs @ Pool_Get s # ys @ Pool_Get s' # zs) clients = Some clients'"
    and "m_id s = m_id s'"
  shows "\<exists>r. Pool_Release r \<in> set ys \<and> m_id r = m_id s"
  using assms by (rule sru_pool.exclusive)

section \<open>Where the code goes wrong\<close>

text \<open>More records in a response than the request has asked for are written behind the array.\<close>

theorem sru_present_overrun:
  assumes "mv [] (sub_package p (APDU_presentRequest (sru_present_request Y sr_req start max_recs 0))) w =
      (q\<lparr>pkg_response := Some (GDU_Z3950 (APDU_presentResponse pres))\<rparr>, w')"
    and "prs_records pres = Some (Records_DBOSD nprs)" and "0 < max_recs" and "max_recs < int (length nprs)"
  shows "sru_present_loop S Y mv p sr_req start max_recs r [] w = None"
  using assms by (subst sru_present_loop.simps) (simp add: sru_present_reply_def z3950_to_srw_diagnostics_ok_def)

text \<open>The diagnostic of an operation that the filter does not know is lost.\<close>

theorem sru_unknown_operation_silent:
  assumes "pdu_body req = SRW_other b"
  shows "sru_answer S Y conf mv p req a [] info w =
     Some ((srw_pdu_e S req (SRW_explain_response ((srw_explain_response S)\<lparr>exs_diagnostics := []\<rparr>)), None), w)"
  using assms by (simp add: sru_answer_def)

end
