(* ===== verification/MP_Http_File.thy ===== *)
theory MP_Http_File
  imports MP_Files MP_Xml MP_Yaz_Ref
begin

text \<open>
  The \<open>http_file\<close> filter (\<open>src/filter_http_file.cpp\<close>): it maps the paths of HTTP requests to
  files below the document roots of its areas. The calls of the C library on files, the URI
  decoder and the decoder of stored packages are parameters.
\<close>

section \<open>State and parameters\<close>

record Area =
  m_url_path_prefix :: string
  m_file_root :: string
  m_raw :: bool
  m_passthru :: bool

definition Area_new :: Area where
  "Area_new = \<lparr>m_url_path_prefix = [], m_file_root = [], m_raw = False, m_passthru = False\<rparr>"

record HttpFile_Rep =
  m_ext_to_map :: "string \<rightharpoonup> string"
  m_area_list :: "Area list"

text \<open>
  An open file: whether seeking to its end works, the position \<open>ftell\<close> gives there (negative for
  an error) and what one \<open>fread\<close> of a number of bytes from its start yields.
\<close>

record FILE =
  fseek_end :: bool
  ftell_end :: int
  fread_start :: "nat \<Rightarrow> octets option"

record stdio =
  stat_regular :: "string \<Rightarrow> bool"
  fopen :: "string \<Rightarrow> FILE option"

record http_codec =
  yaz_decode_uri_component :: "string \<Rightarrow> string"
  z_GDU_decode :: "octets \<Rightarrow> Z_GDU option"

section \<open>Operations\<close>

fun find_str :: "string \<Rightarrow> string \<Rightarrow> nat option" where
  "find_str [] pat = (if pat = [] then Some 0 else None)"
| "find_str (c # s) pat =
     (if take (length pat) (c # s) = pat then Some 0 else map_option Suc (find_str s pat))"

definition erase_from :: "string \<Rightarrow> string \<Rightarrow> string" where
  "erase_from pat s = (case find_str s pat of None \<Rightarrow> s | Some p \<Rightarrow> take p s)"

text \<open>The decoder fills a buffer, which is read back as a C string.\<close>

definition uri_decode :: "http_codec \<Rightarrow> string \<Rightarrow> string" where
  "uri_decode D s = takeWhile is_c_char (yaz_decode_uri_component D s)"

definition get_mime_type :: "HttpFile_Rep \<Rightarrow> string \<Rightarrow> string" where
  "get_mime_type st fname =
     (let file_part = (case rfind_char (CHR ''/'') fname of None \<Rightarrow> fname | Some p \<Rightarrow> drop (p + 1) fname);
          content_type = (case rfind_char (CHR ''.'') file_part of
              None \<Rightarrow> []
            | Some p \<Rightarrow> (case m_ext_to_map st (drop (p + 1) file_part) of None \<Rightarrow> [] | Some t \<Rightarrow> t))
      in if length content_type = 0 then ''application/octet-stream'' else content_type)"

definition http_status :: "yaz \<Rightarrow> Z_HTTP_Request \<Rightarrow> int \<Rightarrow> package \<Rightarrow> package" where
  "http_status Y req code p =
     (let (ses, hres) = create_HTTP_Response Y (pkg_session p) req code
      in p\<lparr>pkg_session := ses, pkg_response := Some (GDU_HTTP_Response hres)\<rparr>)"

text \<open>
  \<open>None\<close>: \<open>ftell\<close> has failed, and the code allocates a buffer of that negative size.
\<close>

definition fetch_file :: "yaz \<Rightarrow> http_codec \<Rightarrow> stdio \<Rightarrow> HttpFile_Rep \<Rightarrow> Z_HTTP_Request \<Rightarrow> string \<Rightarrow> bool \<Rightarrow> bool
    \<Rightarrow> 'w move_fn \<Rightarrow> package \<Rightarrow> 'w world_scheme \<Rightarrow> (package \<times> 'w world_scheme) option" where
  "fetch_file Y D F st req fname raw passthru mv p w =
     (if hrq_method req \<noteq> ''GET''
      then Some (if passthru then mv [] p w else (http_status Y req 405 p, w))
      else if \<not> stat_regular F fname
      then Some (if passthru then mv [] p w else (http_status Y req 404 p, w))
      else case fopen F fname of
        None \<Rightarrow> Some (http_status Y req 404 p, w)
      | Some f \<Rightarrow>
          if \<not> fseek_end f then Some (http_status Y req 404 p, w)
          else let sz = ftell_end f in
            if sz > 1000000 then Some (http_status Y req 404 p, w)
            else if sz < 0 then None
            else (case (if sz > 0 then fread_start f (nat sz) else Some []) of
                None \<Rightarrow> Some (http_status Y req 500 p, w)
              | Some fbuf \<Rightarrow>
                  if raw
                  then (case z_GDU_decode D fbuf of
                          None \<Rightarrow> Some (http_status Y req 500 p, w)
                        | Some gdu \<Rightarrow> Some (p\<lparr>pkg_response := Some gdu\<rparr>, w))
                  else
                    (let (ses, hres) = create_HTTP_Response Y (pkg_session p) req 200;
                         hres = hres\<lparr>hrs_content := fbuf,
                           hrs_headers := z_HTTP_header_add Y (hrs_headers hres) ''Content-Type'' (get_mime_type st fname)\<rparr>
                     in Some (p\<lparr>pkg_session := ses, pkg_response := Some (GDU_HTTP_Response hres)\<rparr>, w))))"

definition request_path :: "http_codec \<Rightarrow> Z_HTTP_Request \<Rightarrow> string" where
  "request_path D req = uri_decode D (erase_from ''?'' (erase_from ''#'' (hrq_path req)))"

definition area_matches :: "string \<Rightarrow> Area \<Rightarrow> bool" where
  "area_matches path a \<longleftrightarrow> take (length (m_url_path_prefix a)) path = m_url_path_prefix a"

definition area_file :: "string \<Rightarrow> Area \<Rightarrow> string" where
  "area_file path a = m_file_root a @ drop (length (m_url_path_prefix a)) path"

definition fetch_uri :: "yaz \<Rightarrow> http_codec \<Rightarrow> stdio \<Rightarrow> HttpFile_Rep \<Rightarrow> Z_HTTP_Request
    \<Rightarrow> 'w move_fn \<Rightarrow> package \<Rightarrow> 'w world_scheme \<Rightarrow> (package \<times> 'w world_scheme) option" where
  "fetch_uri Y D F st req mv p w =
     (let path = request_path D req;
          sane = (find_str path ''..'' = None)
      in case (if sane then find (area_matches path) (m_area_list st) else None) of
           Some it \<Rightarrow> fetch_file Y D F st req (area_file path it) (m_raw it) (m_passthru it) mv p w
         | None \<Rightarrow> Some (mv [] p w))"

definition HttpFile_process :: "yaz \<Rightarrow> http_codec \<Rightarrow> stdio \<Rightarrow> HttpFile_Rep
    \<Rightarrow> 'w move_fn \<Rightarrow> package \<Rightarrow> 'w world_scheme \<Rightarrow> (package \<times> 'w world_scheme) option" where
  "HttpFile_process Y D F st mv p w =
     (case pkg_request p of
        Some (GDU_HTTP_Request req) \<Rightarrow> fetch_uri Y D F st req mv p w
      | _ \<Rightarrow> Some (mv [] p w))"

section \<open>Configuration\<close>

text \<open>The reading loop of the MIME types; \<open>None\<close> when it does not end.\<close>

definition mime_line :: "string list \<Rightarrow> (string \<rightharpoonup> string) \<Rightarrow> (string \<rightharpoonup> string)" where
  "mime_line args m = fold (\<lambda>ext m. m(ext \<mapsto> hd args)) (tl args) m"

partial_function (option) mime_loop :: "PlainFile \<Rightarrow> (string \<rightharpoonup> string) \<Rightarrow> (string \<rightharpoonup> string) option" where
  "mime_loop f m =
     (case PlainFile_getline f of
        None \<Rightarrow> None
      | Some (None, f) \<Rightarrow> Some m
      | Some (Some args, f) \<Rightarrow> mime_loop f (mime_line args m))"

definition HttpFile_area_element :: "xml_node list \<Rightarrow> Area \<Rightarrow> mp_exception + Area" where
  "HttpFile_area_element a_node a =
     (if is_element_mp a_node ''documentroot'' then Inr (a\<lparr>m_file_root := get_text a_node\<rparr>)
      else if is_element_mp a_node ''prefix'' then Inr (a\<lparr>m_url_path_prefix := get_text a_node\<rparr>)
      else if is_element_mp a_node ''raw'' then Inr (a\<lparr>m_raw := get_bool a_node False\<rparr>)
      else if is_element_mp a_node ''passthru'' then Inr (a\<lparr>m_passthru := get_bool a_node False\<rparr>)
      else Inl (FilterException (''Bad element '' @ node_name (hd a_node) @ '' in area section'')))"

definition HttpFile_element :: "file_system \<Rightarrow> xml_node list \<Rightarrow> HttpFile_Rep \<Rightarrow> (mp_exception + HttpFile_Rep) option" where
  "HttpFile_element F ptr st =
     (if node_name (hd ptr) = ''mimetypes''
      then (let fname = get_text ptr in
            case PlainFile_open F fname of
              (False, _) \<Rightarrow> Some (Inl (FilterException (''Can not open mime types file '' @ fname)))
            | (True, f) \<Rightarrow> map_option (\<lambda>m. Inr (st\<lparr>m_ext_to_map := m\<rparr>)) (mime_loop f (m_ext_to_map st)))
      else if node_name (hd ptr) = ''area''
      then (case for_elements HttpFile_area_element (node_children (hd ptr)) Area_new of
              Inl e \<Rightarrow> Some (Inl e)
            | Inr a \<Rightarrow> Some (Inr (if length (m_file_root a) \<noteq> 0
                then st\<lparr>m_area_list := m_area_list st @ [a]\<rparr> else st)))
      else Some (Inl (FilterException (''Bad element '' @ node_name (hd ptr) @ '' in virt_db filter''))))"

fun HttpFile_elements :: "file_system \<Rightarrow> xml_node list \<Rightarrow> HttpFile_Rep \<Rightarrow> (mp_exception + HttpFile_Rep) option" where
  "HttpFile_elements F [] st = Some (Inr st)"
| "HttpFile_elements F (n # ns) st =
     (if node_type n \<noteq> XML_ELEMENT_NODE then HttpFile_elements F ns st
      else (case HttpFile_element F (n # ns) st of
              None \<Rightarrow> None
            | Some (Inl e) \<Rightarrow> Some (Inl e)
            | Some (Inr st) \<Rightarrow> HttpFile_elements F ns st))"

definition HttpFile_configure :: "file_system \<Rightarrow> xml_node \<Rightarrow> HttpFile_Rep \<Rightarrow> (mp_exception + HttpFile_Rep) option" where
  "HttpFile_configure F ptr st = HttpFile_elements F (node_children ptr) st"

section \<open>Properties: file names\<close>

text \<open>
  Lexical resolution of a file name: whether it is absolute, and its directories with empty
  components and \<open>.\<close> dropped and \<open>..\<close> leading one directory up.
\<close>

fun path_step :: "string list \<Rightarrow> string \<Rightarrow> string list" where
  "path_step ds c =
     (if c = [] \<or> c = ''.'' then ds
      else if c = ''..'' \<and> ds \<noteq> [] \<and> last ds \<noteq> ''..'' then butlast ds
      else ds @ [c])"

definition resolve_name :: "string \<Rightarrow> bool \<times> string list" where
  "resolve_name s = (s \<noteq> [] \<and> hd s = CHR ''/'', foldl path_step [] (split_at (CHR ''/'') s))"

declare path_step.simps [simp del]

text \<open>The file name names the root or something in the tree below it.\<close>

definition below :: "string \<Rightarrow> string \<Rightarrow> bool" where
  "below root fname \<longleftrightarrow> (\<exists>rest. ''..'' \<notin> set rest \<and>
     resolve_name fname = (fst (resolve_name root), snd (resolve_name root) @ rest))"

text \<open>The document root and the part of the path behind the prefix meet at a separator.\<close>

definition separated :: "string \<Rightarrow> Area \<Rightarrow> bool" where
  "separated path a \<longleftrightarrow> (let rest = drop (length (m_url_path_prefix a)) path in
     m_file_root a \<noteq> [] \<and> (last (m_file_root a) = CHR ''/'' \<or> rest = [] \<or> hd rest = CHR ''/''))"

lemma find_str_None: "find_str s pat = None \<Longrightarrow> s \<noteq> u @ pat @ v"
proof (induction s arbitrary: u)
  case (Cons c s)
  then have "take (length pat) (c # s) \<noteq> pat" and "find_str s pat = None" by (auto split: if_splits)
  then show ?case using Cons.IH [of "tl u"] by (cases u) auto
qed (auto split: if_splits)

lemma split_at_infix: "c \<in> set (split_at sep s) \<Longrightarrow> \<exists>u v. s = u @ c @ v"
proof (induction s arbitrary: c)
  case Nil
  then show ?case by simp
next
  case (Cons x xs)
  obtain y ys where sp: "split_at sep xs = y # ys" by (cases "split_at sep xs") simp_all
  have y: "take (length y) xs = y"
    using join_split [of sep xs] sp by (cases ys) auto
  consider "x = sep" "c = []" | "x \<noteq> sep" "c = x # y" | "c \<in> set (split_at sep xs)"
    using Cons.prems sp by (auto split: if_splits)
  then show ?case
  proof cases
    case 1
    then show ?thesis by auto
  next
    case 2
    then have "x # xs = [] @ c @ drop (length y) xs" using y by (metis append_Cons append_Nil append_take_drop_id)
    then show ?thesis by blast
  next
    case 3
    then obtain u v where "xs = u @ c @ v" using Cons.IH by blast
    then have "x # xs = (x # u) @ c @ v" by simp
    then show ?thesis by blast
  qed
qed

lemma split_at_append_sep: "split_at c (u @ c # v) = split_at c u @ split_at c v"
  by (induction u) (auto simp: neq_Nil_conv split: list.splits)

lemma walk_down:
  "''..'' \<notin> set cs \<Longrightarrow> \<exists>rest. ''..'' \<notin> set rest \<and> foldl path_step ds cs = ds @ rest"
proof (induction cs arbitrary: ds)
  case (Cons c cs)
  define r where "r = (if c = [] \<or> c = ''.'' then [] else [c])"
  have r: "''..'' \<notin> set r" "path_step ds c = ds @ r" using Cons.prems by (auto simp: r_def path_step.simps)
  obtain r' where "''..'' \<notin> set r'" "foldl path_step (ds @ r) cs = (ds @ r) @ r'"
    using Cons.IH [of "ds @ r"] Cons.prems by auto
  with r show ?case by (intro exI [of _ "r @ r'"]) simp
qed simp

lemma below_separated:
  assumes root: "root \<noteq> []" and sep: "last root = CHR ''/'' \<or> s = [] \<or> hd s = CHR ''/''"
    and dots: "\<And>u v. s \<noteq> u @ ''..'' @ v"
  shows "below root (root @ s)"
proof -
  have no: "''..'' \<notin> set (split_at (CHR ''/'') t)" if "s = t \<or> s = CHR ''/'' # t" for t
  proof
    assume "''..'' \<in> set (split_at (CHR ''/'') t)"
    then obtain u v where t: "t = u @ ''..'' @ v" by (auto dest: split_at_infix)
    from that show False using t dots [of u v] dots [of "CHR ''/'' # u" v] by auto
  qed
  have goal: "below root (root @ s)"
    if cs: "''..'' \<notin> set cs" and eq: "foldl path_step [] (split_at (CHR ''/'') (root @ s)) =
        foldl path_step (foldl path_step [] (split_at (CHR ''/'') root)) cs" for cs
  proof -
    obtain rest where "''..'' \<notin> set rest"
      "foldl path_step [] (split_at (CHR ''/'') (root @ s)) = foldl path_step [] (split_at (CHR ''/'') root) @ rest"
      using walk_down [OF cs] eq by metis
    with root show ?thesis unfolding below_def resolve_name_def by (intro exI [of _ rest]) simp
  qed
  consider (eq) "s = []" | (slash) t where "s = CHR ''/'' # t" | (rslash) r where "root = r @ [CHR ''/'']"
  proof -
    have "root = butlast root @ [last root]" using root by simp
    with sep that show thesis by (cases s) auto
  qed
  then show ?thesis
  proof cases
    case eq
    then show ?thesis by (intro goal [of "[]"]) simp_all
  next
    case slash
    then show ?thesis using no by (intro goal [of "split_at (CHR ''/'') t"]) (simp_all add: split_at_append_sep)
  next
    case rslash
    then show ?thesis using no
      by (intro goal [of "split_at (CHR ''/'') s"]) (simp_all add: split_at_append_sep path_step.simps)
  qed
qed

lemma area_file_below:
  assumes "find_str path ''..'' = None" and "separated path a"
  shows "below (m_file_root a) (area_file path a)"
proof -
  have "drop n path \<noteq> u @ ''..'' @ v" for n u v
    using find_str_None [OF assms(1), of "take n path @ u" v] by (metis append.assoc append_take_drop_id)
  with assms(2) show ?thesis
    unfolding area_file_def separated_def Let_def by (intro below_separated) auto
qed

section \<open>Properties: confinement\<close>

lemma fetch_file_cong:
  assumes "stat_regular F1 fname = stat_regular F2 fname" and "fopen F1 fname = fopen F2 fname"
  shows "fetch_file Y D F1 st req fname raw passthru mv p w = fetch_file Y D F2 st req fname raw passthru mv p w"
  by (simp only: fetch_file_def assms)

text \<open>
  C17. The filter reads nothing outside the document roots: when the roots and the paths meet at a
  separator, two file systems that agree on every name in the trees below the roots give
  the same response, the same session and the same calls of the filters behind, whatever the
  request asks for (encoded dots and slashes included).\<close>
theorem http_file_confined:
  assumes "\<And>req. pkg_request p = Some (GDU_HTTP_Request req) \<Longrightarrow> list_all (separated (request_path D req)) (m_area_list st)"
    and "\<And>a fname. a \<in> set (m_area_list st) \<Longrightarrow> below (m_file_root a) fname \<Longrightarrow>
      stat_regular F1 fname = stat_regular F2 fname \<and> fopen F1 fname = fopen F2 fname"
  shows "HttpFile_process Y D F1 st mv p w = HttpFile_process Y D F2 st mv p w"
proof -
  have "fetch_uri Y D F1 st req mv p w = fetch_uri Y D F2 st req mv p w"
    if req: "pkg_request p = Some (GDU_HTTP_Request req)" for req
  proof (cases "find_str (request_path D req) ''..'' = None")
    case sane: True
    show ?thesis
    proof (cases "find (area_matches (request_path D req)) (m_area_list st)")
      case (Some a)
      then have "a \<in> set (m_area_list st)" by (auto simp: find_Some_iff)
      moreover from this have "below (m_file_root a) (area_file (request_path D req) a)"
        using assms(1) [OF req] sane by (auto simp: list_all_iff intro: area_file_below)
      ultimately show ?thesis
        using assms(2) Some sane by (auto simp: fetch_uri_def intro: fetch_file_cong)
    qed (simp add: fetch_uri_def Let_def)
  qed (auto simp: fetch_uri_def Let_def)
  then show ?thesis by (simp add: HttpFile_process_def split: option.split Z_GDU.split)
qed

abbreviation hf_codec :: http_codec where
  "hf_codec \<equiv> \<lparr>yaz_decode_uri_component = id, z_GDU_decode = (\<lambda>_. None)\<rparr>"

abbreviation hf_files :: "(string \<times> octets) list \<Rightarrow> stdio" where
  "hf_files fs \<equiv> \<lparr>stat_regular = (\<lambda>n. map_of fs n \<noteq> None),
     fopen = (\<lambda>n. map_option (\<lambda>c. \<lparr>fseek_end = True, ftell_end = int (length c), fread_start = (\<lambda>k. Some (take k c))\<rparr>) (map_of fs n))\<rparr>"

abbreviation hf_rep :: HttpFile_Rep where
  "hf_rep \<equiv> \<lparr>m_ext_to_map = [''txt'' \<mapsto> ''text/plain''],
     m_area_list = [Area_new\<lparr>m_url_path_prefix := ''/docs'', m_file_root := ''/srv/docs''\<rparr>]\<rparr>"

abbreviation hf_package :: "string \<Rightarrow> package" where
  "hf_package path \<equiv> (Package_new \<lparr>m_id = 1, m_close = False\<rparr> Origin_new)\<lparr>pkg_request := Some (GDU_HTTP_Request
     \<lparr>hrq_method = ''GET'', hrq_version = ''1.1'', hrq_path = path, hrq_headers = [], hrq_content = []\<rparr>)\<rparr>"

theorem http_file_confined_witness:
  "HttpFile_process yaz_ref hf_codec (hf_files [(''/srv/docs/a.txt'', ''hello''), (''/etc/passwd'', ''root'')]) hf_rep
       (\<lambda>r p w. (p, w)) (hf_package ''/docs/a.txt?x'') \<lparr>m_global_id = 2\<rparr> =
   HttpFile_process yaz_ref hf_codec (hf_files [(''/srv/docs/a.txt'', ''hello'')]) hf_rep
       (\<lambda>r p w. (p, w)) (hf_package ''/docs/a.txt?x'') \<lparr>m_global_id = 2\<rparr>"
proof (rule http_file_confined)
  fix req
  assume "pkg_request (hf_package ''/docs/a.txt?x'') = Some (GDU_HTTP_Request req)"
  then have "request_path hf_codec req = ''/docs/a.txt''"
    by (auto simp: request_path_def uri_decode_def erase_from_def Package_new_def)
  then show "list_all (separated (request_path hf_codec req)) (m_area_list hf_rep)"
    by (simp add: separated_def Area_new_def)
next
  fix a fname
  assume "a \<in> set (m_area_list hf_rep)" and b: "below (m_file_root a) fname"
  then have "m_file_root a = ''/srv/docs''" by (simp add: Area_new_def)
  moreover have "\<not> below ''/srv/docs'' ''/etc/passwd''" by (simp add: below_def resolve_name_def path_step.simps)
  ultimately have "fname \<noteq> ''/etc/passwd''" using b by auto
  then show "stat_regular (hf_files [(''/srv/docs/a.txt'', ''hello''), (''/etc/passwd'', ''root'')]) fname =
        stat_regular (hf_files [(''/srv/docs/a.txt'', ''hello'')]) fname \<and>
      fopen (hf_files [(''/srv/docs/a.txt'', ''hello''), (''/etc/passwd'', ''root'')]) fname =
        fopen (hf_files [(''/srv/docs/a.txt'', ''hello'')]) fname" by simp
qed

text \<open>The example is served: the file's bytes and its type, and the connection stays open.\<close>

lemma http_file_example:
  "HttpFile_process yaz_ref hf_codec (hf_files [(''/srv/docs/a.txt'', ''hello'')]) hf_rep
     (\<lambda>r p w. (p, w)) (hf_package ''/docs/a.txt?x'') w =
   Some ((hf_package ''/docs/a.txt?x'')\<lparr>pkg_response := Some (GDU_HTTP_Response
     \<lparr>hrs_code = 200, hrs_version = ''1.1'', hrs_headers =
        [\<lparr>hdr_name = Some ''Connection'', hdr_value = Some ''Keep-Alive''\<rparr>,
         \<lparr>hdr_name = Some ''Content-Type'', hdr_value = Some ''text/plain''\<rparr>], hrs_content = ''hello''\<rparr>)\<rparr>, w)"
  by (simp add: HttpFile_process_def fetch_uri_def fetch_file_def request_path_def uri_decode_def erase_from_def
      area_matches_def area_file_def Area_new_def get_mime_type_def create_HTTP_Response_def
      create_HTTP_Response_details_def yaz_ref_def header_lookup_ref_def Package_new_def)

lemma area_file_escapes:
  "\<not> below ''/srv/docs'' (area_file ''/docs-private/x'' (Area_new\<lparr>m_url_path_prefix := ''/docs'', m_file_root := ''/srv/docs''\<rparr>))"
  "\<not> below ''.'' (area_file ''/etc./x'' (Area_new\<lparr>m_url_path_prefix := ''/etc'', m_file_root := ''.''\<rparr>))"
  by (simp_all add: below_def resolve_name_def area_file_def Area_new_def path_step.simps)

section \<open>Properties: MIME types\<close>

text \<open>Lines of a file of MIME types: comments, and a type with the extensions it is for.\<close>

datatype mime_entry = M_comment string | M_type string "string list"

fun print_mime :: "mime_entry \<Rightarrow> string" where
  "print_mime (M_comment c) = CHR ''#'' # c"
| "print_mime (M_type t exts) = print_args (t # exts)"

fun mime_ok :: "mime_entry \<Rightarrow> bool" where
  "mime_ok (M_comment c) \<longleftrightarrow> True"
| "mime_ok (M_type t exts) \<longleftrightarrow> list_all is_word (t # exts) \<and> hd t \<noteq> CHR ''#''"

definition print_mimes :: "mime_entry list \<Rightarrow> string" where
  "print_mimes ls = concat (map (\<lambda>l. print_mime l @ [newline]) ls)"

text \<open>The type of an extension: that of the last line that names it.\<close>

fun mime_of :: "mime_entry list \<Rightarrow> string \<Rightarrow> string option" where
  "mime_of [] ext = None"
| "mime_of (l # ls) ext =
     (case mime_of ls ext of
        Some t \<Rightarrow> Some t
      | None \<Rightarrow> (case l of M_type t exts \<Rightarrow> if ext \<in> set exts then Some t else None | M_comment _ \<Rightarrow> None))"

lemma mime_line_lookup: "mime_line (t # exts) m ext = (if ext \<in> set exts then Some t else m ext)"
proof -
  have "fold (\<lambda>ext m. m(ext \<mapsto> t)) exts m ext = (if ext \<in> set exts then Some t else m ext)" for m
    by (induction exts arbitrary: m) auto
  then show ?thesis by (simp add: mime_line_def)
qed

lemma mime_loop_end: "mime_loop (Some (ifstream_new [])) m = Some m"
  by (subst mime_loop.simps) (simp add: PlainFile_getline_def plain_line_end)

lemma mime_loop_comment:
  "fits_line 255 (CHR ''#'' # c) \<Longrightarrow>
     mime_loop (Some (ifstream_new ((CHR ''#'' # c) @ newline # rest))) m = mime_loop (Some (ifstream_new rest)) m"
  by (subst mime_loop.simps, subst (2) mime_loop.simps)
     (simp only: PlainFile_getline_def option.case plain_line_skip list.sel simp_thms)

lemma print_args_hd: "is_word t \<Longrightarrow> print_args (t # exts) \<noteq> [] \<and> hd (print_args (t # exts)) = hd t"
  by (cases exts; cases t) (auto simp: print_args_def is_word_def)

lemma mime_loop_type:
  assumes "mime_ok (M_type t exts)" and "fits_line 255 (print_mime (M_type t exts))"
  shows "mime_loop (Some (ifstream_new (print_mime (M_type t exts) @ newline # rest))) m =
     mime_loop (Some (ifstream_new rest)) (mime_line (t # exts) m)"
proof -
  have t: "is_word t" "list_all is_word (t # exts)" "hd t \<noteq> CHR ''#''" using assms(1) by auto
  then have "\<not> is_blank (hd t)" by (cases t) (auto simp: is_word_def)
  with t have "plain_line (ifstream_new (print_args (t # exts) @ newline # rest)) =
      Some (Some (print_args (t # exts), ifstream_new rest))"
    using assms(2) print_args_hd [OF t(1), of exts] by (intro plain_line_line) auto
  then show ?thesis
    by (subst mime_loop.simps) (simp add: PlainFile_getline_def plain_args_print [OF t(2)])
qed

lemma mime_of_Cons:
  "m ++ mime_of (M_comment c # ls) = m ++ mime_of ls"
  "m ++ mime_of (M_type t exts # ls) = mime_line (t # exts) m ++ mime_of ls"
  by (auto simp: fun_eq_iff map_add_def mime_line_lookup split: option.split)

lemma mime_loop_prints:
  assumes "list_all mime_ok ls" and "list_all (\<lambda>l. fits_line 255 (print_mime l)) ls"
  shows "mime_loop (Some (ifstream_new (print_mimes ls))) m = Some (m ++ mime_of ls)"
  using assms
proof (induction ls arbitrary: m)
  case Nil
  have "mime_of [] = Map.empty" by auto
  then show ?case by (simp add: print_mimes_def mime_loop_end)
next
  case (Cons l ls)
  have one: "print_mimes (l # ls) = print_mime l @ newline # print_mimes ls" by (simp add: print_mimes_def)
  have IH: "mime_loop (Some (ifstream_new (print_mimes ls))) m = Some (m ++ mime_of ls)" for m
    using Cons.IH Cons.prems by simp
  show ?case
  proof (cases l)
    case (M_comment c)
    then have "fits_line 255 (CHR ''#'' # c)" using Cons.prems(2) by simp
    with M_comment show ?thesis unfolding one
      using mime_loop_comment [of c "print_mimes ls" m] by (simp add: IH mime_of_Cons del: mime_of.simps fits_line_def)
  next
    case (M_type t exts)
    have "mime_ok (M_type t exts)" "fits_line 255 (print_mime (M_type t exts))"
      using Cons.prems M_type by (simp_all del: mime_ok.simps print_mime.simps fits_line_def)
    from mime_loop_type [OF this] M_type show ?thesis unfolding one
      by (simp add: IH mime_of_Cons del: mime_of.simps print_mime.simps)
  qed
qed

lemma rfind_char_append:
  assumes "c \<notin> set v"
  shows "rfind_char c (u @ c # v) = Some (length u)"
proof -
  have "rfind_char c v = None" using assms by (induction v) auto
  then show ?thesis by (induction u) auto
qed

lemma get_mime_type_ext:
  assumes "CHR ''/'' \<notin> set base" and "CHR ''.'' \<notin> set ext" and "CHR ''/'' \<notin> set ext"
  shows "get_mime_type st (dir @ CHR ''/'' # base @ CHR ''.'' # ext) =
     (case m_ext_to_map st ext of Some (c # cs) \<Rightarrow> c # cs | _ \<Rightarrow> ''application/octet-stream'')"
proof -
  have "rfind_char (CHR ''/'') (dir @ CHR ''/'' # base @ CHR ''.'' # ext) = Some (length dir)"
    using assms by (intro rfind_char_append) auto
  moreover have "rfind_char (CHR ''.'') (base @ CHR ''.'' # ext) = Some (length base)"
    using assms by (intro rfind_char_append) auto
  ultimately show ?thesis by (simp add: get_mime_type_def split: option.split list.split)
qed



end
