(* ===== verification/MP_Gdu_Text.thy ===== *)
theory MP_Gdu_Text
  imports MP_Util_Props MP_Yaz_Ref
begin

text \<open>
  The printed form of packages (\<open>src/gduutil.cpp\<close>, and the output operators of
  \<open>src/package.cpp\<close> and \<open>src/origin.cpp\<close>), which log lines and the messages of the bounce filter are made of.
\<close>

section \<open>Parameters\<close>

text \<open>
  The functions of YAZ that print object identifiers, queries and scan terms, the number of the
  kind of an APDU, and the members of the structs that the model of APDUs keeps as octets.
\<close>

record Z_ExtendedServicesRequest =
  esq_function :: "int option"
  esq_userId :: "string option"
  esq_packageName :: "string option"
  esq_description :: "string option"

record Z_ExtendedServicesResponse =
  ess_operationStatus :: "int option"
  ess_diagnostics :: "Z_DiagRec list"

record Z_DuplicateDetectionResponse =
  dds_status :: int
  dds_diagnostics :: "Z_DiagRec list"

datatype other_apdu =
    duplicateDetectionRequest
  | duplicateDetectionResponse Z_DuplicateDetectionResponse
  | no_known_apdu

record yaz_text =
  yaz_oid_to_string_buf :: "octets \<Rightarrow> string"
  yaz_query_to_wrbuf :: "Z_Query \<Rightarrow> octets"
  yaz_scan_to_wrbuf :: "octets \<Rightarrow> octets option \<Rightarrow> octets"
  yaz_init_opt_decode :: "odr_mask \<Rightarrow> string list"
  z_GDU_print :: "Z_GDU \<Rightarrow> string"
  apdu_which :: "Z_APDU \<Rightarrow> int"
  extendedServicesRequest_of :: "octets \<Rightarrow> Z_ExtendedServicesRequest"
  extendedServicesResponse_of :: "octets \<Rightarrow> Z_ExtendedServicesResponse"
  other_apdu_of :: "octets \<Rightarrow> other_apdu"

section \<open>Diagnostics\<close>

abbreviation quot :: string where "quot \<equiv> [CHR 0x22]"

fun text_DefaultDiagFormat :: "Z_DefaultDiagFormat \<Rightarrow> string" where
  "text_DefaultDiagFormat ddf =
     show_int (diag_condition ddf) @ '' '' @
     (case diag_addinfo ddf of v2Addinfo s \<Rightarrow> quot @ s @ quot | v3Addinfo s \<Rightarrow> quot @ s @ quot)"

fun text_DiagRec :: "Z_DiagRec \<Rightarrow> string" where
  "text_DiagRec (DiagRec_defaultFormat d) = text_DefaultDiagFormat d"
| "text_DiagRec (DiagRec_external _) = ''Z_DiagRec_externallyDefined''"

fun text_DiagRecs :: "Z_DiagRec list \<Rightarrow> string" where
  "text_DiagRecs (d # _) = text_DiagRec d"
| "text_DiagRecs [] = ''multipleNSD''"

fun text_Records :: "Z_Records \<Rightarrow> string" where
  "text_Records (Records_DBOSD _) = []"
| "text_Records (Records_NSD d) = text_DefaultDiagFormat d"
| "text_Records (Records_multipleNSD ds) = text_DiagRecs ds"

section \<open>APDUs\<close>

definition dump_opt_string :: "string option \<Rightarrow> string" where
  "dump_opt_string s = '' '' @ (case s of Some t \<Rightarrow> t | None \<Rightarrow> ''-'')"

definition dump_opt_int_l :: "int option \<Rightarrow> string \<Rightarrow> string" where
  "dump_opt_int_l i lead = lead @ (case i of Some v \<Rightarrow> show_int v | None \<Rightarrow> ''-'')"

definition dump_opt_int :: "int option \<Rightarrow> string" where
  "dump_opt_int i = dump_opt_int_l i '' ''"

text \<open>\<open>None\<close>: the virtual hosts of the init request cannot be read.\<close>

definition text_initRequest :: "yaz \<Rightarrow> Z_InitRequest \<Rightarrow> string option" where
  "text_initRequest Y ir =
     map_option (\<lambda>vhosts.
       '' initRequest'' @
       (case irq_idAuthentication ir of
          Some (IdAuthentication_idPass _ userId _) \<Rightarrow> dump_opt_string userId
        | Some (IdAuthentication_open s) \<Rightarrow> dump_opt_string (Some s)
        | _ \<Rightarrow> dump_opt_string None) @
       '' '' @
       (if vhosts \<noteq> [] then concat (map (\<lambda>v. v @ '' '') vhosts) else ''-'') @
       dump_opt_string (irq_implementationId ir) @ dump_opt_string (irq_implementationName ir) @
       dump_opt_string (irq_implementationVersion ir))
     (get_vhost_otherinfo Y (irq_otherInfo ir))"

definition text_initResponse :: "Z_InitResponse \<Rightarrow> string" where
  "text_initResponse ir =
     '' initResponse '' @ (if irs_result ir then ''OK'' else ''FAIL'') @
     dump_opt_string (irs_implementationId ir) @ dump_opt_string (irs_implementationName ir) @
     dump_opt_string (irs_implementationVersion ir)"

definition text_syntax :: "yaz_text \<Rightarrow> octets option \<Rightarrow> string" where
  "text_syntax T s = (case s of Some oid \<Rightarrow> yaz_oid_to_string_buf T oid | None \<Rightarrow> ''-'')"

definition text_searchRequest :: "yaz_text \<Rightarrow> Z_SearchRequest \<Rightarrow> string" where
  "text_searchRequest T sr =
     '' searchRequest '' @ join_with (CHR ''+'') (srq_databaseNames sr) @
     dump_opt_string (Some (srq_resultSetName sr)) @
     '' '' @ text_syntax T (srq_preferredRecordSyntax sr) @
     '' '' @ takeWhile is_c_char (yaz_query_to_wrbuf T (srq_query sr))"

fun is_diagnostics :: "Z_Records option \<Rightarrow> bool" where
  "is_diagnostics None = False"
| "is_diagnostics (Some (Records_DBOSD _)) = False"
| "is_diagnostics (Some _) = True"

definition text_searchResponse :: "Z_SearchResponse \<Rightarrow> string" where
  "text_searchResponse sr =
     '' searchResponse '' @ (if srs_searchStatus sr then ''OK'' else ''Failure'') @
     (case srs_records sr of
        Some rs \<Rightarrow> if is_diagnostics (Some rs) then '' DIAG '' @ text_Records rs
          else dump_opt_int (Some (srs_resultCount sr)) @ dump_opt_int_l (Some (srs_numberOfRecordsReturned sr)) '' 1+'' @
            dump_opt_int (Some (srs_nextResultSetPosition sr))
      | None \<Rightarrow> dump_opt_int (Some (srs_resultCount sr)) @ dump_opt_int_l (Some (srs_numberOfRecordsReturned sr)) '' 1+'' @
            dump_opt_int (Some (srs_nextResultSetPosition sr)))"

definition text_presentRequest :: "yaz_text \<Rightarrow> Z_PresentRequest \<Rightarrow> string" where
  "text_presentRequest T pr =
     '' presentRequest'' @ dump_opt_string (Some (prq_resultSetId pr)) @
     dump_opt_int (Some (prq_resultSetStartPoint pr)) @ dump_opt_int_l (Some (prq_numberOfRecordsRequested pr)) ''+'' @
     '' '' @ text_syntax T (prq_preferredRecordSyntax pr) @
     dump_opt_string (record_composition_to_esn (prq_recordComposition pr))"

definition text_presentStatus :: "int \<Rightarrow> string" where
  "text_presentStatus s =
     (if s = 0 then ''OK'' else if s = 1 then ''Partial-1'' else if s = 2 then ''Partial-2''
      else if s = 3 then ''Partial-3'' else if s = 4 then ''Partial-4'' else if s = 5 then ''Failure''
      else ''Unknown'')"

definition text_presentResponse :: "Z_PresentResponse \<Rightarrow> string" where
  "text_presentResponse pr =
     '' presentResponse '' @ text_presentStatus (prs_presentStatus pr) @
     (case prs_records pr of
        Some rs \<Rightarrow> if is_diagnostics (Some rs) then '' DIAG '' @ text_Records rs
          else dump_opt_int (Some (prs_numberOfRecordsReturned pr)) @ dump_opt_int (Some (prs_nextResultSetPosition pr))
      | None \<Rightarrow> dump_opt_int (Some (prs_numberOfRecordsReturned pr)) @ dump_opt_int (Some (prs_nextResultSetPosition pr)))"

definition text_scanRequest :: "yaz_text \<Rightarrow> Z_ScanRequest \<Rightarrow> string" where
  "text_scanRequest T sr =
     '' scanRequest '' @ join_with (CHR ''+'') (scq_databaseNames sr) @
     dump_opt_int (Some (scq_numberOfTermsRequested sr)) @ dump_opt_int (scq_preferredPositionInResponse sr) @
     dump_opt_int (scq_stepSize sr) @
     '' '' @ takeWhile is_c_char (yaz_scan_to_wrbuf T (scq_termListAndStartPoint sr) (scq_attributeSet sr))"

definition text_scanStatus :: "int \<Rightarrow> string" where
  "text_scanStatus s =
     (if s = 0 then ''OK'' else if s = 1 then ''partial_1'' else if s = 2 then ''partial_2''
      else if s = 3 then ''partial_3'' else if s = 4 then ''partial_4'' else if s = 5 then ''partial_5''
      else if s = 6 then ''failure'' else ''unknown'')"

definition text_scanResponse :: "Z_ScanResponse \<Rightarrow> string" where
  "text_scanResponse sr =
     '' scanResponse '' @ text_scanStatus (scs_scanStatus sr) @
     dump_opt_int (Some (scs_numberOfEntriesReturned sr)) @ dump_opt_int (scs_positionOfTerm sr) @
     dump_opt_int (scs_stepSize sr)"

definition text_extendedServicesRequest :: "Z_ExtendedServicesRequest \<Rightarrow> string" where
  "text_extendedServicesRequest er =
     '' extendedServicesRequest'' @
     (case esq_function er of
        Some f \<Rightarrow> '' '' @ (if f = 1 then ''create'' else if f = 2 then ''delete'' else if f = 3 then ''modify'' else ''unknown'')
      | None \<Rightarrow> '' -'') @
     dump_opt_string (esq_userId er) @ dump_opt_string (esq_packageName er) @ dump_opt_string (esq_description er)"

definition text_extendedServicesResponse :: "Z_ExtendedServicesResponse \<Rightarrow> string" where
  "text_extendedServicesResponse er =
     '' extendedServicesResponse'' @
     (case ess_operationStatus er of
        Some s \<Rightarrow> '' '' @
          (if s = 1 then ''OK'' else if s = 2 then ''ACCEPT''
           else if s = 3 then (case ess_diagnostics er of d # _ \<Rightarrow> ''DIAG '' @ text_DiagRec d | [] \<Rightarrow> ''ERROR'')
           else ''unknown'')
      | None \<Rightarrow> '' -'')"

definition text_closeReason :: "int \<Rightarrow> string" where
  "text_closeReason r =
     (if r = 0 then ''finished'' else if r = 1 then ''shutdown'' else if r = 2 then ''systemProblem''
      else if r = 3 then ''costLimit'' else if r = 4 then ''resources'' else if r = 5 then ''securityViolation''
      else if r = 6 then ''protocolError'' else if r = 7 then ''lackOfActivity'' else if r = 8 then ''peerAbort''
      else if r = 9 then ''unspecified'' else ''unknown'')"

definition text_close :: "Z_Close \<Rightarrow> string" where
  "text_close c =
     '' close '' @ show_int (close_closeReason c) @ '' '' @ text_closeReason (close_closeReason c) @
     (case close_diagnosticInformation c of Some d \<Rightarrow> '' '' @ d | None \<Rightarrow> [])"

fun text_kind :: "yaz_text \<Rightarrow> apdu_kind \<Rightarrow> octets \<Rightarrow> string" where
  "text_kind T deleteResultSetRequest _ = '' deleteResultSetRequest''"
| "text_kind T deleteResultSetResponse _ = '' deleteResultSetResponse''"
| "text_kind T accessControlRequest _ = '' accessControlRequest''"
| "text_kind T accessControlResponse _ = '' accessControlResponse''"
| "text_kind T resourceControlRequest _ = '' resourceControlRequest''"
| "text_kind T resourceControlResponse _ = '' resourceControlResponse''"
| "text_kind T triggerResourceControlRequest _ = '' triggerResourceControlRequest''"
| "text_kind T resourceReportRequest _ = '' resourceReportRequest''"
| "text_kind T resourceReportResponse _ = '' resourceReportResponse''"
| "text_kind T sortRequest _ = '' sortRequest ''"
| "text_kind T sortResponse _ = '' sortResponse ''"
| "text_kind T segmentRequest _ = '' segmentRequest ''"
| "text_kind T extendedServicesRequest d = text_extendedServicesRequest (extendedServicesRequest_of T d)"
| "text_kind T extendedServicesResponse d = text_extendedServicesResponse (extendedServicesResponse_of T d)"

fun text_other :: "other_apdu \<Rightarrow> string" where
  "text_other duplicateDetectionRequest = '' duplicateDetectionRequest''"
| "text_other (duplicateDetectionResponse _) = '' duplicateDetectionResponse''"
| "text_other no_known_apdu = '' Z_APDU UNKNOWN''"

fun text_APDU :: "yaz \<Rightarrow> yaz_text \<Rightarrow> Z_APDU \<Rightarrow> string option" where
  "text_APDU Y T (APDU_initRequest r) = text_initRequest Y r"
| "text_APDU Y T (APDU_initResponse r) = Some (text_initResponse r)"
| "text_APDU Y T (APDU_searchRequest r) = Some (text_searchRequest T r)"
| "text_APDU Y T (APDU_searchResponse r) = Some (text_searchResponse r)"
| "text_APDU Y T (APDU_presentRequest r) = Some (text_presentRequest T r)"
| "text_APDU Y T (APDU_presentResponse r) = Some (text_presentResponse r)"
| "text_APDU Y T (APDU_scanRequest r) = Some (text_scanRequest T r)"
| "text_APDU Y T (APDU_scanResponse r) = Some (text_scanResponse r)"
| "text_APDU Y T (APDU_close r) = Some (text_close r)"
| "text_APDU Y T (APDU_kind k _ d) = Some (text_kind T k d)"
| "text_APDU Y T (APDU_unknown d) = Some (text_other (other_apdu_of T d))"

section \<open>Packages\<close>

definition text_HTTP_Request :: "Z_HTTP_Request \<Rightarrow> string" where
  "text_HTTP_Request r = hrq_method r @ '' '' @ hrq_path r"

definition text_HTTP_Response :: "Z_HTTP_Response \<Rightarrow> string" where
  "text_HTTP_Response r = show_int (hrs_code r) @ '' '' @ show_nat (length (hrs_content r))"

fun text_GDU :: "yaz \<Rightarrow> yaz_text \<Rightarrow> Z_GDU \<Rightarrow> string option" where
  "text_GDU Y T (GDU_Z3950 apdu) = map_option (\<lambda>s. ''Z3950'' @ s) (text_APDU Y T apdu)"
| "text_GDU Y T (GDU_HTTP_Request r) = Some (''HTTP_Request '' @ text_HTTP_Request r)"
| "text_GDU Y T (GDU_HTTP_Response r) = Some (''HTTP_Response '' @ text_HTTP_Response r)"

definition text_Origin :: "origin \<Rightarrow> string" where
  "text_Origin ori =
     (let a = Origin_get_forward_address ori in
      (if length a \<noteq> 0 then a else ''0'') @ '':'' @ show_nat (unat (m_origin_id ori)) @
      (if length (m_custom_session ori) \<noteq> 0 then '':'' @ m_custom_session ori else []))"

definition text_Package :: "package \<Rightarrow> string" where
  "text_Package p = text_Origin (pkg_origin p) @ '' '' @ show_nat (unat (m_id (pkg_session p)))"

section \<open>Properties\<close>

text \<open>The kinds of packages a printed form tells apart.\<close>

datatype gdu_kind =
    K_http_request | K_http_response
  | K_init_request | K_init_response | K_search_request | K_search_response
  | K_present_request | K_present_response | K_scan_request | K_scan_response | K_close
  | K_kind apdu_kind | K_dup_request | K_dup_response | K_unknown

fun kind_of_apdu :: "yaz_text \<Rightarrow> Z_APDU \<Rightarrow> gdu_kind" where
  "kind_of_apdu T (APDU_initRequest _) = K_init_request"
| "kind_of_apdu T (APDU_initResponse _) = K_init_response"
| "kind_of_apdu T (APDU_searchRequest _) = K_search_request"
| "kind_of_apdu T (APDU_searchResponse _) = K_search_response"
| "kind_of_apdu T (APDU_presentRequest _) = K_present_request"
| "kind_of_apdu T (APDU_presentResponse _) = K_present_response"
| "kind_of_apdu T (APDU_scanRequest _) = K_scan_request"
| "kind_of_apdu T (APDU_scanResponse _) = K_scan_response"
| "kind_of_apdu T (APDU_close _) = K_close"
| "kind_of_apdu T (APDU_kind k _ _) = K_kind k"
| "kind_of_apdu T (APDU_unknown d) = (case other_apdu_of T d of
     duplicateDetectionRequest \<Rightarrow> K_dup_request | duplicateDetectionResponse _ \<Rightarrow> K_dup_response
   | no_known_apdu \<Rightarrow> K_unknown)"

fun kind_of_gdu :: "yaz_text \<Rightarrow> Z_GDU \<Rightarrow> gdu_kind" where
  "kind_of_gdu T (GDU_Z3950 apdu) = kind_of_apdu T apdu"
| "kind_of_gdu T (GDU_HTTP_Request _) = K_http_request"
| "kind_of_gdu T (GDU_HTTP_Response _) = K_http_response"

text \<open>A reader of log lines: the kind, from the first two words of a line.\<close>

definition first_word :: "string \<Rightarrow> string" where
  "first_word s = takeWhile (\<lambda>c. c \<noteq> CHR '' '') s"

definition apdu_words :: "(string \<times> gdu_kind) list" where
  "apdu_words =
     [(''initRequest'', K_init_request), (''initResponse'', K_init_response),
      (''searchRequest'', K_search_request), (''searchResponse'', K_search_response),
      (''presentRequest'', K_present_request), (''presentResponse'', K_present_response),
      (''scanRequest'', K_scan_request), (''scanResponse'', K_scan_response), (''close'', K_close),
      (''deleteResultSetRequest'', K_kind deleteResultSetRequest), (''deleteResultSetResponse'', K_kind deleteResultSetResponse),
      (''accessControlRequest'', K_kind accessControlRequest), (''accessControlResponse'', K_kind accessControlResponse),
      (''resourceControlRequest'', K_kind resourceControlRequest), (''resourceControlResponse'', K_kind resourceControlResponse),
      (''triggerResourceControlRequest'', K_kind triggerResourceControlRequest),
      (''resourceReportRequest'', K_kind resourceReportRequest), (''resourceReportResponse'', K_kind resourceReportResponse),
      (''sortRequest'', K_kind sortRequest), (''sortResponse'', K_kind sortResponse), (''segmentRequest'', K_kind segmentRequest),
      (''extendedServicesRequest'', K_kind extendedServicesRequest), (''extendedServicesResponse'', K_kind extendedServicesResponse),
      (''duplicateDetectionRequest'', K_dup_request), (''duplicateDetectionResponse'', K_dup_response), (''Z_APDU'', K_unknown)]"

definition read_kind :: "string \<Rightarrow> gdu_kind option" where
  "read_kind s =
     (let w = first_word s in
      if w = ''HTTP_Request'' then Some K_http_request
      else if w = ''HTTP_Response'' then Some K_http_response
      else if w = ''Z3950'' then map_of apdu_words (first_word (drop 6 s))
      else None)"

text \<open>The second word of a printed APDU names its kind.\<close>

lemma first_word_es:
  "first_word (tl (text_extendedServicesRequest er)) = ''extendedServicesRequest''"
  "first_word (tl (text_extendedServicesResponse es)) = ''extendedServicesResponse''"
  by (cases "esq_function er"; simp add: first_word_def text_extendedServicesRequest_def)
     (cases "ess_operationStatus es"; simp add: first_word_def text_extendedServicesResponse_def)

lemma text_kind_word: "map_of apdu_words (first_word (tl (text_kind T k d))) = Some (K_kind k)"
  by (cases k) (simp_all add: first_word_es, simp_all add: apdu_words_def first_word_def)

lemma text_other_word: "map_of apdu_words (first_word (tl (text_other o'))) =
  Some (case o' of duplicateDetectionRequest \<Rightarrow> K_dup_request | duplicateDetectionResponse _ \<Rightarrow> K_dup_response
     | no_known_apdu \<Rightarrow> K_unknown)"
  by (cases o') (simp_all add: apdu_words_def first_word_def)

lemma first_word_initRequest: "text_initRequest Y r = Some s \<Longrightarrow> first_word (tl s) = ''initRequest''"
proof -
  have one: "first_word (''initRequest'' @ dump_opt_string x @ t) = ''initRequest''" for x t
    by (simp add: first_word_def dump_opt_string_def)
  assume "text_initRequest Y r = Some s"
  then obtain t where "s = '' initRequest'' @ (case irq_idAuthentication r of
          Some (IdAuthentication_idPass _ userId _) \<Rightarrow> dump_opt_string userId
        | Some (IdAuthentication_open s) \<Rightarrow> dump_opt_string (Some s)
        | _ \<Rightarrow> dump_opt_string None) @ t"
    unfolding text_initRequest_def by blast
  with one show ?thesis by (simp split: option.split Z_IdAuthentication.split)
qed

lemma first_word_apdu:
  "first_word (tl (text_initResponse ir)) = ''initResponse''"
  "first_word (tl (text_searchRequest T sq)) = ''searchRequest''"
  "first_word (tl (text_searchResponse sr)) = ''searchResponse''"
  "first_word (tl (text_presentRequest T pq)) = ''presentRequest''"
  "first_word (tl (text_presentResponse pr)) = ''presentResponse''"
  "first_word (tl (text_scanRequest T cq)) = ''scanRequest''"
  "first_word (tl (text_scanResponse cr)) = ''scanResponse''"
  "first_word (tl (text_close c)) = ''close''"
  by (simp_all add: first_word_def text_initResponse_def text_searchRequest_def text_searchResponse_def text_presentRequest_def
      text_presentResponse_def text_scanRequest_def text_scanResponse_def text_close_def dump_opt_string_def)

lemma apdu_words_lookup:
  "map_of apdu_words ''initRequest'' = Some K_init_request" "map_of apdu_words ''initResponse'' = Some K_init_response"
  "map_of apdu_words ''searchRequest'' = Some K_search_request" "map_of apdu_words ''searchResponse'' = Some K_search_response"
  "map_of apdu_words ''presentRequest'' = Some K_present_request" "map_of apdu_words ''presentResponse'' = Some K_present_response"
  "map_of apdu_words ''scanRequest'' = Some K_scan_request" "map_of apdu_words ''scanResponse'' = Some K_scan_response"
  "map_of apdu_words ''close'' = Some K_close"
  by (simp_all add: apdu_words_def)

lemma text_APDU_word:
  assumes "text_APDU Y T a = Some s"
  shows "map_of apdu_words (first_word (tl s)) = Some (kind_of_apdu T a)"
proof (cases a)
  case (APDU_initRequest r)
  with assms show ?thesis by (simp add: first_word_initRequest apdu_words_lookup)
qed (use assms in \<open>auto simp: first_word_apdu apdu_words_lookup text_kind_word text_other_word\<close>)

lemma text_APDU_space:
  assumes "text_APDU Y T a = Some s"
  shows "s = CHR '' '' # tl s"
proof (cases a)
  case (APDU_initRequest r)
  with assms show ?thesis by (auto simp: text_initRequest_def)
next
  case (APDU_kind k i d)
  moreover have "text_kind T k d = CHR '' '' # tl (text_kind T k d)"
    by (cases k) (simp_all add: text_extendedServicesRequest_def text_extendedServicesResponse_def)
  ultimately show ?thesis using assms by simp
next
  case (APDU_unknown d)
  then have "s = text_other (other_apdu_of T d)" using assms by simp
  then show ?thesis by (cases "other_apdu_of T d") simp_all
qed (use assms in \<open>auto simp: text_initResponse_def text_searchRequest_def text_searchResponse_def text_presentRequest_def
      text_presentResponse_def text_scanRequest_def text_scanResponse_def text_close_def\<close>)

text \<open>
  The printed form of a package tells its kind: from the first two words of the text of a
  request or response, whatever it holds, a reader of the log gets back what kind of package it was.\<close>
theorem text_GDU_tells_kind:
  assumes "text_GDU Y T g = Some s"
  shows "read_kind s = Some (kind_of_gdu T g)"
proof (cases g)
  case (GDU_Z3950 a)
  then obtain t where t: "text_APDU Y T a = Some t" "s = ''Z3950'' @ t" using assms by auto
  obtain u where u: "t = CHR '' '' # u" using text_APDU_space [OF t(1)] by blast
  then have "map_of apdu_words (first_word u) = Some (kind_of_apdu T a)" using text_APDU_word [OF t(1)] by simp
  moreover have "first_word s = ''Z3950''" "drop 6 s = u" using t(2) u by (simp_all add: first_word_def)
  ultimately show ?thesis using GDU_Z3950 by (simp add: read_kind_def)
next
  case (GDU_HTTP_Request r)
  then show ?thesis using assms by (auto simp: read_kind_def first_word_def)
next
  case (GDU_HTTP_Response r)
  then show ?thesis using assms by (auto simp: read_kind_def first_word_def)
qed

text \<open>Every package has a printed form when the other information can be read.\<close>

lemma text_GDU_Some: "oi_laws Y \<Longrightarrow> text_GDU Y T g \<noteq> None"
proof -
  assume "oi_laws Y"
  then have "text_APDU Y T a \<noteq> None" for a
    using get_vhost_total by (cases a) (auto simp: text_initRequest_def)
  then show ?thesis by (cases g) auto
qed

text \<open>A concrete value of the parameters, for instances.\<close>

definition yaz_text_ref :: yaz_text where
  "yaz_text_ref = \<lparr>yaz_oid_to_string_buf = id, yaz_query_to_wrbuf = (\<lambda>_. ''RPN''), yaz_scan_to_wrbuf = (\<lambda>t _. t),
     yaz_init_opt_decode = (\<lambda>m. if 0 \<in> m then [''search''] else []), z_GDU_print = (\<lambda>_. ''pdu''), apdu_which = (\<lambda>_. 0),
     extendedServicesRequest_of = (\<lambda>_. \<lparr>esq_function = None, esq_userId = None, esq_packageName = None, esq_description = None\<rparr>),
     extendedServicesResponse_of = (\<lambda>_. \<lparr>ess_operationStatus = Some 1, ess_diagnostics = []\<rparr>),
     other_apdu_of = (\<lambda>_. no_known_apdu)\<rparr>"

theorem text_GDU_tells_kind_witness:
  "text_GDU yaz_ref yaz_text_ref (GDU_Z3950 (APDU_close \<lparr>close_referenceId = None, close_closeReason = 2,
       close_diagnosticInformation = Some ''gone''\<rparr>)) = Some ''Z3950 close 2 systemProblem gone'' \<and>
   read_kind ''Z3950 close 2 systemProblem gone'' = Some K_close"
proof -
  let ?g = "GDU_Z3950 (APDU_close \<lparr>close_referenceId = None, close_closeReason = 2,
       close_diagnosticInformation = Some ''gone''\<rparr>)"
  have t: "text_GDU yaz_ref yaz_text_ref ?g = Some ''Z3950 close 2 systemProblem gone''"
    by (simp add: text_close_def text_closeReason_def show_int_def show_nat.simps) code_simp
  show ?thesis using t text_GDU_tells_kind [OF t] by simp
qed

end
