(* ===== verification/MP_Log.thy ===== *)
theory MP_Log
  imports MP_Gdu_Text MP_Xml
begin

text \<open>
  The \<open>log\<close> filter (\<open>src/filter_log.cpp\<close>): it writes lines on the packages that pass it, with the user of
  the session, to files that filters with the same file name share.
\<close>

section \<open>One line on a request and its response\<close>

fun log_DefaultDiagFormat :: "Z_DefaultDiagFormat \<Rightarrow> string" where
  "log_DefaultDiagFormat e =
     show_int (diag_condition e) @ '' '' @
     (case diag_addinfo e of v2Addinfo s \<Rightarrow> quot @ s @ quot | v3Addinfo s \<Rightarrow> quot @ s @ quot)"

text \<open>\<open>None\<close>: the list is empty, and the code reads its first element.\<close>

fun log_DiagRecs :: "Z_DiagRec list \<Rightarrow> string option" where
  "log_DiagRecs [] = None"
| "log_DiagRecs (DiagRec_defaultFormat e # _) = Some (log_DefaultDiagFormat e)"
| "log_DiagRecs (DiagRec_external _ # _) = Some ''(diag not in default format?)''"

definition log_syntax :: "yaz_text \<Rightarrow> octets option \<Rightarrow> string" where
  "log_syntax T s = (case s of Some oid \<Rightarrow> yaz_oid_to_string_buf T oid | None \<Rightarrow> ''-'')"

text \<open>The answer when the response is missing or of another kind.\<close>

definition log_no_response :: "yaz_text \<Rightarrow> Z_APDU option \<Rightarrow> string" where
  "log_no_response T z_res =
     (case z_res of None \<Rightarrow> ''?'' | Some a \<Rightarrow> ''? response='' @ show_int (apdu_which T a))"

definition log_1line_init :: "Z_InitRequest \<Rightarrow> Z_InitResponse \<Rightarrow> string" where
  "log_1line_init req res =
     (if irs_result res then ''OK -''
      else ''ERROR '' @
        (case irs_userInformationField res of
           Some (External_userInfo1 (OtherInfo_externallyDefinedInfo
             (Some (External_diag1 (DiagnosticFormat_s_defaultDiagRec d # _))) # _)) \<Rightarrow> log_DefaultDiagFormat d
         | _ \<Rightarrow> ''-'')) @
     '' ID:'' @ (case irq_implementationId req of Some s \<Rightarrow> s | None \<Rightarrow> ''-'') @
     '' Name:'' @ (case irq_implementationName req of Some s \<Rightarrow> s | None \<Rightarrow> ''-'') @
     '' Version:'' @ (case irq_implementationVersion req of Some s \<Rightarrow> s | None \<Rightarrow> ''-'')"

definition log_1line_records :: "string \<Rightarrow> Z_Records option \<Rightarrow> string option" where
  "log_1line_records ok rs =
     (case rs of
        None \<Rightarrow> Some ok
      | Some (Records_DBOSD _) \<Rightarrow> Some ok
      | Some (Records_NSD e) \<Rightarrow> Some (''ERROR '' @ log_DefaultDiagFormat e)
      | Some (Records_multipleNSD ds) \<Rightarrow> map_option (\<lambda>s. ''ERROR '' @ s) (log_DiagRecs ds))"

definition log_1line_search :: "yaz_text \<Rightarrow> Z_SearchRequest \<Rightarrow> Z_SearchResponse \<Rightarrow> string option" where
  "log_1line_search T req res =
     map_option (\<lambda>s. join_with (CHR ''+'') (srq_databaseNames req) @ '' '' @ s @ '' '' @
         log_syntax T (srq_preferredRecordSyntax req) @ '' 1+'' @ show_int (srs_numberOfRecordsReturned res) @ '' '' @
         yaz_query_to_wrbuf T (srq_query req))
       (log_1line_records (''OK '' @ show_int (srs_resultCount res) @ '' '' @ srq_resultSetName req) (srs_records res))"

definition log_1line_present :: "yaz_text \<Rightarrow> Z_PresentRequest \<Rightarrow> Z_PresentResponse \<Rightarrow> string option" where
  "log_1line_present T req res =
     map_option (\<lambda>s. s @ '' '' @ log_syntax T (prq_preferredRecordSyntax req) @ '' '' @ prq_resultSetId req @ '' '' @
         show_int (prq_resultSetStartPoint req) @ ''+'' @ show_int (prq_numberOfRecordsRequested req) @ '' '')
       (log_1line_records ''OK'' (prs_records res))"

definition log_1line_scan :: "yaz_text \<Rightarrow> Z_ScanRequest \<Rightarrow> Z_ScanResponse \<Rightarrow> string" where
  "log_1line_scan T req res =
     join_with (CHR ''+'') (scq_databaseNames req) @ '' '' @
     (if scs_scanStatus res = 0 then ''OK'' else if scs_scanStatus res = 6 then ''ERROR''
      else ''PARTIAL'' @ show_int (scs_scanStatus res)) @
     '' '' @ show_int (scs_numberOfEntriesReturned res) @
     '' '' @ show_int (case scq_preferredPositionInResponse req of Some v \<Rightarrow> v | None \<Rightarrow> 1) @
     ''+'' @ show_int (scq_numberOfTermsRequested req) @
     ''+'' @ show_int (case scs_stepSize res of Some v \<Rightarrow> v | None \<Rightarrow> 1) @ '' '' @
     yaz_scan_to_wrbuf T (scq_termListAndStartPoint req) (scq_attributeSet req)"

definition log_diagnostics :: "Z_DiagRec list \<Rightarrow> string option" where
  "log_diagnostics ds = (if ds \<noteq> [] then log_DiagRecs ds else Some ''-'')"

text \<open>\<open>None\<close>: the status of the response is missing.\<close>

definition log_1line_es :: "Z_ExtendedServicesResponse \<Rightarrow> string option" where
  "log_1line_es res =
     (case ess_operationStatus res of
        None \<Rightarrow> None
      | Some s \<Rightarrow> map_option (\<lambda>d.
          (if s = 1 then ''DONE'' else if s = 2 then ''ACCEPTED'' else if s = 3 then ''ERROR'' else show_int s) @
          '' '' @ d) (log_diagnostics (ess_diagnostics res)))"

definition log_1line_dup :: "Z_DuplicateDetectionResponse \<Rightarrow> string option" where
  "log_1line_dup res =
     map_option (\<lambda>d. (if dds_status res \<noteq> 0 then ''OK'' else ''ERROR'') @ '' '' @ d)
       (log_diagnostics (dds_diagnostics res))"

text \<open>
  A kind of request without a line of its own: the numbers of the kinds of both, \<open>None\<close> for the null
  pointer that is read when there is no response. A sort response is read as if it were the sort request
  (the request is taken from the response's union), which has no defined result.
\<close>

definition log_1line_default :: "yaz_text \<Rightarrow> Z_APDU \<Rightarrow> Z_APDU option \<Rightarrow> string option" where
  "log_1line_default T z_req z_res =
     map_option (\<lambda>a. ''REQ='' @ show_int (apdu_which T z_req) @ '' RES='' @ show_int (apdu_which T a)) z_res"

definition log_1line_kind :: "yaz_text \<Rightarrow> apdu_kind \<Rightarrow> Z_APDU \<Rightarrow> Z_APDU option \<Rightarrow> string option" where
  "log_1line_kind T k z_req z_res =
     (case k of
        deleteResultSetRequest \<Rightarrow> Some ''deleteResultSet ''
      | accessControlRequest \<Rightarrow> Some ''accessControl ''
      | resourceControlRequest \<Rightarrow> Some ''resourceControl ''
      | triggerResourceControlRequest \<Rightarrow> Some ''triggerResourceControlRequest''
      | resourceReportRequest \<Rightarrow> Some ''resourceReport ''
      | sortRequest \<Rightarrow>
          (case z_res of
             Some (APDU_kind sortResponse _ _) \<Rightarrow> None
           | _ \<Rightarrow> Some (''sort '' @ log_no_response T z_res))
      | segmentRequest \<Rightarrow> Some ''segmentRequest''
      | extendedServicesRequest \<Rightarrow>
          map_option (\<lambda>s. ''extendedServices '' @ s)
            (case z_res of
               Some (APDU_kind extendedServicesResponse _ d) \<Rightarrow> log_1line_es (extendedServicesResponse_of T d)
             | _ \<Rightarrow> Some (log_no_response T z_res))
      | _ \<Rightarrow> log_1line_default T z_req z_res)"

definition log_1line_other :: "yaz_text \<Rightarrow> octets \<Rightarrow> Z_APDU \<Rightarrow> Z_APDU option \<Rightarrow> string option" where
  "log_1line_other T d z_req z_res =
     (case other_apdu_of T d of
        duplicateDetectionRequest \<Rightarrow>
          map_option (\<lambda>s. ''duplicateDetention '' @ s)
            (case z_res of
               Some (APDU_unknown r) \<Rightarrow>
                 (case other_apdu_of T r of
                    duplicateDetectionResponse res \<Rightarrow> log_1line_dup res
                  | _ \<Rightarrow> Some (log_no_response T z_res))
             | _ \<Rightarrow> Some (log_no_response T z_res))
      | _ \<Rightarrow> log_1line_default T z_req z_res)"

definition log_1line_Z_APDU :: "yaz_text \<Rightarrow> Z_APDU \<Rightarrow> Z_APDU option \<Rightarrow> string option" where
  "log_1line_Z_APDU T z_req z_res =
     (case z_req of
        APDU_initRequest req \<Rightarrow>
          Some (''Init '' @ (case z_res of Some (APDU_initResponse res) \<Rightarrow> log_1line_init req res
            | _ \<Rightarrow> log_no_response T z_res))
      | APDU_searchRequest req \<Rightarrow>
          map_option (\<lambda>s. ''Search '' @ s) (case z_res of
              Some (APDU_searchResponse res) \<Rightarrow> log_1line_search T req res
            | _ \<Rightarrow> Some (log_no_response T z_res))
      | APDU_presentRequest req \<Rightarrow>
          map_option (\<lambda>s. ''Present '' @ s) (case z_res of
              Some (APDU_presentResponse res) \<Rightarrow> log_1line_present T req res
            | _ \<Rightarrow> Some (log_no_response T z_res))
      | APDU_scanRequest req \<Rightarrow>
          Some (''Scan '' @ (case z_res of Some (APDU_scanResponse res) \<Rightarrow> log_1line_scan T req res
            | _ \<Rightarrow> log_no_response T z_res))
      | APDU_close _ \<Rightarrow> Some ''close''
      | APDU_kind k _ _ \<Rightarrow> log_1line_kind T k z_req z_res
      | APDU_unknown d \<Rightarrow> log_1line_other T d z_req z_res
      | _ \<Rightarrow> log_1line_default T z_req z_res)"

definition log_1line_Z_HTTP :: "Z_HTTP_Request \<Rightarrow> Z_HTTP_Response option \<Rightarrow> string" where
  "log_1line_Z_HTTP req res =
     hrq_method req @ '' '' @ hrq_path req @ '' HTTP/'' @ hrq_version req @
     (case res of
        Some r \<Rightarrow> '' '' @ show_int (hrs_code r) @ '' '' @ show_nat (length (hrs_content r))
      | None \<Rightarrow> '' ?'')"

definition log_1line_Z_GDU :: "yaz_text \<Rightarrow> Z_GDU option \<Rightarrow> Z_GDU option \<Rightarrow> string option" where
  "log_1line_Z_GDU T gdu_req gdu_res =
     (case gdu_req of
        Some (GDU_Z3950 req) \<Rightarrow> log_1line_Z_APDU T req (case gdu_res of Some (GDU_Z3950 res) \<Rightarrow> Some res | _ \<Rightarrow> None)
      | Some (GDU_HTTP_Request req) \<Rightarrow>
          Some (log_1line_Z_HTTP req (case gdu_res of Some (GDU_HTTP_Response res) \<Rightarrow> Some res | _ \<Rightarrow> None))
      | _ \<Rightarrow> Some [])"

section \<open>Files and state\<close>

text \<open>
  The log files of all filters are one list, to which filters point by index; \<open>fhandle\<close> tells whether
  the file could be opened. What is written is a list of events that every filter appends to: a line
  of a file with its time stamp, a line of the log of YAZ, a printed APDU and the flushing of a file.
\<close>

record LFile =
  m_fname :: string
  fhandle :: bool

datatype log_event =
    File_line string string
  | Yaz_line string
  | File_apdu string string
  | Yaz_apdu string
  | File_flush string

record log_world = world +
  filter_log_files :: "LFile list"
  log_output :: "log_event list"

text \<open>
  The environment: whether a file can be opened, the time stamp of a format (which may be empty) after
  a number of events, and the duration of a request with six decimals.
\<close>

record log_env =
  fopen_append :: "string \<Rightarrow> bool"
  strftime :: "nat \<Rightarrow> string \<Rightarrow> string"
  show_duration :: "nat \<Rightarrow> string"

record Log_Impl =
  m_msg_config :: string
  m_1line :: bool
  m_access :: bool
  m_user_access :: bool
  m_req_apdu :: bool
  m_res_apdu :: bool
  m_req_session :: bool
  m_res_session :: bool
  m_init_options :: bool
  m_file :: nat
  m_time_format :: string
  m_sessions :: "string session_map"

definition LFile_new :: "log_env \<Rightarrow> string \<Rightarrow> LFile" where
  "LFile_new E fname = \<lparr>m_fname = fname, fhandle = fopen_append E fname\<rparr>"

definition LFile_log :: "log_env \<Rightarrow> LFile \<Rightarrow> string \<Rightarrow> string \<Rightarrow> 'w log_world_scheme \<Rightarrow> 'w log_world_scheme" where
  "LFile_log E f date_format os w =
     (let text = takeWhile is_c_char os in
      if fhandle f
      then (let datestr = strftime E (length (log_output w)) date_format
            in w\<lparr>log_output := log_output w @
                 [File_line (m_fname f) ((if datestr \<noteq> [] then datestr @ '' '' else []) @ text)]\<rparr>)
      else w\<lparr>log_output := log_output w @ [Yaz_line text]\<rparr>)"

definition LFile_flush :: "LFile \<Rightarrow> 'w log_world_scheme \<Rightarrow> 'w log_world_scheme" where
  "LFile_flush f w = (if fhandle f then w\<lparr>log_output := log_output w @ [File_flush (m_fname f)]\<rparr> else w)"

definition stream_write :: "LFile \<Rightarrow> string \<Rightarrow> 'w log_world_scheme \<Rightarrow> 'w log_world_scheme" where
  "stream_write f buf w =
     w\<lparr>log_output := log_output w @ [if fhandle f then File_apdu (m_fname f) buf else Yaz_apdu buf]\<rparr>"

definition Log_openfile :: "log_env \<Rightarrow> string \<Rightarrow> Log_Impl \<Rightarrow> 'w log_world_scheme \<Rightarrow> Log_Impl \<times> 'w log_world_scheme" where
  "Log_openfile E fname st w =
     (case find_pos (\<lambda>f. m_fname f = fname) (filter_log_files w) of
        Some i \<Rightarrow> (st\<lparr>m_file := i\<rparr>, w)
      | None \<Rightarrow> (st\<lparr>m_file := length (filter_log_files w)\<rparr>,
                w\<lparr>filter_log_files := filter_log_files w @ [LFile_new E fname]\<rparr>))"

definition Log_Impl_new :: "log_env \<Rightarrow> string \<Rightarrow> 'w log_world_scheme \<Rightarrow> Log_Impl \<times> 'w log_world_scheme" where
  "Log_Impl_new E x w =
     Log_openfile E []
       \<lparr>m_msg_config = x, m_1line = False, m_access = True, m_user_access = False, m_req_apdu = False, m_res_apdu = False,
        m_req_session = False, m_res_session = False, m_init_options = False, m_file = 0,
        m_time_format = ''%H:%M:%S-%d/%m'', m_sessions = Map.empty\<rparr> w"

section \<open>Configuration\<close>

fun Log_category :: "xml_attr list \<Rightarrow> Log_Impl \<Rightarrow> mp_exception + Log_Impl" where
  "Log_category [] st = Inr st"
| "Log_category (a # ats) st =
     (let b = get_bool (attr_children a) True; n = attr_name a in
      if n = ''line'' then Log_category ats (st\<lparr>m_1line := b\<rparr>)
      else if n = ''access'' then Log_category ats (st\<lparr>m_access := b\<rparr>)
      else if n = ''user-access'' then Log_category ats (st\<lparr>m_user_access := b\<rparr>)
      else if n = ''request-apdu'' then Log_category ats (st\<lparr>m_req_apdu := b\<rparr>)
      else if n = ''response-apdu'' then Log_category ats (st\<lparr>m_res_apdu := b\<rparr>)
      else if n = ''apdu'' then Log_category ats (st\<lparr>m_req_apdu := b, m_res_apdu := b\<rparr>)
      else if n = ''request-session'' then Log_category ats (st\<lparr>m_req_session := b\<rparr>)
      else if n = ''response-session'' then Log_category ats (st\<lparr>m_res_session := b\<rparr>)
      else if n = ''session'' then Log_category ats (st\<lparr>m_req_session := b, m_res_session := b\<rparr>)
      else if n = ''init-options'' then Log_category ats (st\<lparr>m_init_options := b\<rparr>)
      else Inl (FilterException (''Bad attribute '' @ n)))"

definition Log_element :: "log_env \<Rightarrow> xml_node list \<Rightarrow> Log_Impl \<times> 'w log_world_scheme
    \<Rightarrow> mp_exception + Log_Impl \<times> 'w log_world_scheme" where
  "Log_element E ptr c =
     (let (st, w) = c; n = node_name (hd ptr) in
      if n = ''message'' then Inr (st\<lparr>m_msg_config := get_text ptr\<rparr>, w)
      else if n = ''filename'' then Inr (Log_openfile E (get_text ptr) st w)
      else if n = ''time-format'' then Inr (st\<lparr>m_time_format := get_text ptr\<rparr>, w)
      else if n = ''category''
      then (case Log_category (node_attrs (hd ptr)) st of Inl e \<Rightarrow> Inl e | Inr st \<Rightarrow> Inr (st, w))
      else Inl (FilterException (''Bad element '' @ n)))"

definition Log_configure :: "log_env \<Rightarrow> xml_node \<Rightarrow> Log_Impl \<Rightarrow> 'w log_world_scheme
    \<Rightarrow> mp_exception + Log_Impl \<times> 'w log_world_scheme" where
  "Log_configure E ptr st w = for_elements (Log_element E) (node_children ptr) (st, w)"

section \<open>Processing\<close>

text \<open>The user of the session: remembered from its init request, forgotten when the session is closed.\<close>

definition init_user :: "package \<Rightarrow> string option" where
  "init_user p =
     (case pkg_request p of
        Some (GDU_Z3950 (APDU_initRequest req)) \<Rightarrow>
          (case irq_idAuthentication req of
             None \<Rightarrow> None
           | Some (IdAuthentication_idPass _ (Some userId) _) \<Rightarrow> Some userId
           | Some (IdAuthentication_open s) \<Rightarrow> Some s
           | Some _ \<Rightarrow> Some ''-'')
      | _ \<Rightarrow> None)"

definition Log_session :: "package \<Rightarrow> Log_Impl \<Rightarrow> string \<times> Log_Impl" where
  "Log_session p st =
     (let m = (case init_user p of Some user \<Rightarrow> session_map_create (m_sessions st) user (pkg_session p) | None \<Rightarrow> m_sessions st);
          user = (case m (m_id (pkg_session p)) of Some u \<Rightarrow> u | None \<Rightarrow> ''-'');
          m = (if is_closed p then session_map_release m (pkg_session p) else m)
      in (user, st\<lparr>m_sessions := m\<rparr>))"

definition log_init_options :: "yaz_text \<Rightarrow> odr_mask \<Rightarrow> string" where
  "log_init_options T options = concat (map (\<lambda>n. '' '' @ n) (yaz_init_opt_decode T options))"

text \<open>
  What a part of the processing writes: lines and printed APDUs, in order. \<open>None\<close> when a package
  cannot be printed.
\<close>

datatype log_item = Item_line string | Item_apdu string

definition items_concat :: "log_item list option list \<Rightarrow> log_item list option" where
  "items_concat xs = map_option concat (those xs)"

definition gdu_line :: "yaz \<Rightarrow> yaz_text \<Rightarrow> bool \<Rightarrow> string \<Rightarrow> Z_GDU option \<Rightarrow> log_item list option" where
  "gdu_line Y T enabled lead g =
     (case g of
        Some gdu \<Rightarrow> if enabled then map_option (\<lambda>s. [Item_line (lead @ s)]) (text_GDU Y T gdu) else Some []
      | None \<Rightarrow> Some [])"

definition gdu_apdu :: "yaz_text \<Rightarrow> bool \<Rightarrow> Z_GDU option \<Rightarrow> log_item list option" where
  "gdu_apdu T enabled g =
     Some (case g of Some gdu \<Rightarrow> if enabled then [Item_apdu (z_GDU_print T gdu)] else [] | None \<Rightarrow> [])"

definition Log_request_items :: "yaz \<Rightarrow> yaz_text \<Rightarrow> Log_Impl \<Rightarrow> string \<Rightarrow> package \<Rightarrow> log_item list option" where
  "Log_request_items Y T st user p =
     items_concat
       [gdu_line Y T (m_access st) (m_msg_config st @ '' '' @ text_Package p @ '' 0.000000 '') (pkg_request p),
        gdu_line Y T (m_user_access st) (m_msg_config st @ '' '' @ user @ '' '' @ text_Package p @ '' 0.000000 '') (pkg_request p),
        Some (if m_req_session st
          then [Item_line (m_msg_config st @ '' request id='' @ show_nat (unat (m_id (pkg_session p))) @
                 '' close='' @ (if is_closed p then ''yes'' else ''no''))] else []),
        Some (case pkg_request p of
            Some (GDU_Z3950 (APDU_initRequest r)) \<Rightarrow>
              if m_init_options st then [Item_line (m_msg_config st @ '' init options:'' @ log_init_options T (irq_options r))] else []
          | _ \<Rightarrow> []),
        gdu_apdu T (m_req_apdu st) (pkg_request p)]"

definition line_item :: "yaz_text \<Rightarrow> Log_Impl \<Rightarrow> string \<Rightarrow> package \<Rightarrow> log_item list option" where
  "line_item T st dur p =
     (if m_1line st
      then map_option (\<lambda>m. if length m > 0
          then [Item_line (m_msg_config st @ '' '' @ text_Package p @ '' '' @ dur @ '' '' @ takeWhile is_c_char m)] else [])
        (log_1line_Z_GDU T (pkg_request p) (pkg_response p))
      else Some [])"

definition Log_response_items :: "yaz \<Rightarrow> yaz_text \<Rightarrow> Log_Impl \<Rightarrow> string \<Rightarrow> string \<Rightarrow> package \<Rightarrow> log_item list option" where
  "Log_response_items Y T st user dur p =
     items_concat
       [line_item T st dur p,
        gdu_line Y T (m_access st) (m_msg_config st @ '' '' @ text_Package p @ '' '' @ dur @ '' '') (pkg_response p),
        gdu_line Y T (m_user_access st) (m_msg_config st @ '' '' @ user @ '' '' @ text_Package p @ '' '' @ dur @ '' '') (pkg_response p),
        Some (if m_res_session st
          then [Item_line (m_msg_config st @ '' response id='' @ show_nat (unat (m_id (pkg_session p))) @
                 '' close='' @ (if is_closed p then ''yes '' else ''no '') @ ''duration='' @ dur)] else []),
        Some (case pkg_response p of
            Some (GDU_Z3950 (APDU_initResponse r)) \<Rightarrow>
              if m_init_options st then [Item_line (m_msg_config st @ '' init options:'' @ log_init_options T (irs_options r))] else []
          | _ \<Rightarrow> []),
        gdu_apdu T (m_res_apdu st) (pkg_response p)]"

fun Log_write :: "log_env \<Rightarrow> LFile \<Rightarrow> string \<Rightarrow> log_item list \<Rightarrow> 'w log_world_scheme \<Rightarrow> 'w log_world_scheme" where
  "Log_write E f fmt [] w = w"
| "Log_write E f fmt (Item_line s # its) w = Log_write E f fmt its (LFile_log E f fmt s w)"
| "Log_write E f fmt (Item_apdu s # its) w = Log_write E f fmt its (stream_write f s w)"

definition Log_process :: "log_env \<Rightarrow> yaz \<Rightarrow> yaz_text \<Rightarrow> Log_Impl \<Rightarrow> 'w log_world_ext move_fn \<Rightarrow> package \<Rightarrow> 'w log_world_scheme
    \<Rightarrow> (package \<times> Log_Impl \<times> 'w log_world_scheme) option" where
  "Log_process E Y T st mv p w =
     (let (user, st) = Log_session p st in
      case Log_request_items Y T st user p of
        None \<Rightarrow> None
      | Some its \<Rightarrow>
          (let w = Log_write E (filter_log_files w ! m_file st) (m_time_format st) its w;
               (p, w) = mv [] p w;
               dur = show_duration E (length (log_output w))
           in case Log_response_items Y T st user dur p of
                None \<Rightarrow> None
              | Some its \<Rightarrow>
                  (let f = filter_log_files w ! m_file st
                   in Some (p, st, LFile_flush f (Log_write E f (m_time_format st) its w)))))"

section \<open>Properties: packages pass unchanged\<close>

lemma LFile_log_append: "\<exists>es. LFile_log E f fmt s w = w\<lparr>log_output := log_output w @ es\<rparr> \<and> length es = 1"
  by (auto simp: LFile_log_def Let_def)

lemma Log_write_append: "\<exists>es. Log_write E f fmt its w = w\<lparr>log_output := log_output w @ es\<rparr> \<and> length es = length its"
proof (induction its arbitrary: w)
  case Nil
  show ?case by (intro exI [of _ "[]"]) simp
next
  case (Cons i its)
  obtain e1 where e1: "Log_write E f fmt (i # its) w = Log_write E f fmt its (w\<lparr>log_output := log_output w @ e1\<rparr>)" "length e1 = 1"
  proof (cases i)
    case (Item_line s)
    obtain es where "LFile_log E f fmt s w = w\<lparr>log_output := log_output w @ es\<rparr>" "length es = 1"
      using LFile_log_append by blast
    with Item_line that show ?thesis by simp
  next
    case (Item_apdu s)
    with that show ?thesis by (simp add: stream_write_def)
  qed
  obtain e2 where "Log_write E f fmt its (w\<lparr>log_output := log_output w @ e1\<rparr>) = w\<lparr>log_output := log_output w @ e1 @ e2\<rparr>"
    "length e2 = length its"
    using Cons.IH [of "w\<lparr>log_output := log_output w @ e1\<rparr>"] by auto
  with e1 show ?case by (intro exI [of _ "e1 @ e2"]) simp
qed

lemma LFile_flush_append: "\<exists>es. LFile_flush f w = w\<lparr>log_output := log_output w @ es\<rparr>"
  by (cases "fhandle f") (auto simp: LFile_flush_def intro: exI [of _ "[]"])

text \<open>The one-line log of the package is defined.\<close>

definition line_defined :: "yaz_text \<Rightarrow> Log_Impl \<Rightarrow> package \<Rightarrow> bool" where
  "line_defined T st p \<longleftrightarrow> m_1line st \<longrightarrow> log_1line_Z_GDU T (pkg_request p) (pkg_response p) \<noteq> None"

lemma items_concat_Some: "list_all (\<lambda>x. x \<noteq> None) xs \<Longrightarrow> \<exists>its. items_concat xs = Some its"
proof -
  have "list_all (\<lambda>x. x \<noteq> None) xs \<Longrightarrow> \<exists>ys. those xs = Some ys" for xs :: "log_item list option list"
    by (induction xs) (auto split: option.splits)
  then show "list_all (\<lambda>x. x \<noteq> None) xs \<Longrightarrow> ?thesis" by (auto simp: items_concat_def)
qed

lemma gdu_line_Some: "oi_laws Y \<Longrightarrow> \<exists>its. gdu_line Y T b lead g = Some its"
  using text_GDU_Some by (auto simp: gdu_line_def split: option.split)

lemma Log_request_items_Some: "oi_laws Y \<Longrightarrow> \<exists>its. Log_request_items Y T st user p = Some its"
  unfolding Log_request_items_def by (rule items_concat_Some) (simp add: gdu_line_Some gdu_apdu_def)

lemma Log_response_items_Some:
  assumes "oi_laws Y" and "line_defined T st p"
  shows "\<exists>its. Log_response_items Y T st user dur p = Some its"
proof -
  have "line_item T st dur p \<noteq> None" using assms(2) by (auto simp: line_item_def line_defined_def)
  then show ?thesis
    unfolding Log_response_items_def using assms(1) by (intro items_concat_Some) (simp add: gdu_line_Some gdu_apdu_def)
qed

lemma line_defined_session [simp]: "line_defined T (snd (Log_session q st)) p = line_defined T st p"
  by (simp add: line_defined_def Log_session_def Let_def)

lemma Log_process_returns:
  assumes "oi_laws Y" and "\<And>w q v. mv [] p w = (q, v) \<Longrightarrow> line_defined T st q"
  shows "\<exists>pre post. Log_process E Y T st mv p w =
     (case mv [] p (w\<lparr>log_output := log_output w @ pre\<rparr>) of
        (q, v) \<Rightarrow> Some (q, snd (Log_session p st), v\<lparr>log_output := log_output v @ post\<rparr>))"
proof -
  obtain user st1 where s: "Log_session p st = (user, st1)" by (cases "Log_session p st")
  obtain its where its: "Log_request_items Y T st1 user p = Some its"
    using Log_request_items_Some [OF assms(1)] by blast
  obtain pre where pre: "Log_write E (filter_log_files w ! m_file st1) (m_time_format st1) its w = w\<lparr>log_output := log_output w @ pre\<rparr>"
    using Log_write_append by blast
  obtain q v where mv: "mv [] p (w\<lparr>log_output := log_output w @ pre\<rparr>) = (q, v)" by (cases "mv [] p (w\<lparr>log_output := log_output w @ pre\<rparr>)")
  have "line_defined T st1 q" using assms(2) [OF mv] s line_defined_session [of T p st q] by simp
  then obtain its2 where its2: "Log_response_items Y T st1 user (show_duration E (length (log_output v))) q = Some its2"
    using Log_response_items_Some [OF assms(1)] by blast
  let ?f = "filter_log_files v ! m_file st1"
  obtain p1 where "Log_write E ?f (m_time_format st1) its2 v = v\<lparr>log_output := log_output v @ p1\<rparr>"
    using Log_write_append by blast
  moreover obtain p2 where "LFile_flush ?f (v\<lparr>log_output := log_output v @ p1\<rparr>) = v\<lparr>log_output := log_output v @ p1 @ p2\<rparr>"
    using LFile_flush_append [of ?f "v\<lparr>log_output := log_output v @ p1\<rparr>"] by auto
  ultimately have "Log_process E Y T st mv p w = Some (q, st1, v\<lparr>log_output := log_output v @ p1 @ p2\<rparr>)"
    using s its pre mv its2 by (simp add: Log_process_def)
  then show ?thesis using mv s by (intro exI [of _ pre] exI [of _ "p1 @ p2"]) simp
qed

text \<open>
  C19. The filter never changes what passes: with any configuration and any rest of the chain, the
  package that comes back is the one the rest of the chain has made of the request, and the log has only
  grown, by entries before and after those of the filters behind. It always returns, unless the
  one-line log reads what is not there.\<close>
theorem Log_transparent:
  assumes "oi_laws Y" and "\<And>w q v. mv [] p w = (q, v) \<Longrightarrow> line_defined T st q"
  shows "\<exists>pre post. Log_process E Y T st mv p w =
     (case mv [] p (w\<lparr>log_output := log_output w @ pre\<rparr>) of
        (q, v) \<Rightarrow> Some (q, snd (Log_session p st), v\<lparr>log_output := log_output v @ post\<rparr>))"
  using assms by (rule Log_process_returns)

section \<open>Properties: the user of a session\<close>

text \<open>
  The packages that passed, the last one first, give the user of a session: the one of its last init
  request with authentication since the session was last closed.
\<close>

fun session_user :: "package list \<Rightarrow> string session_map" where
  "session_user [] s = None"
| "session_user (p # older) s =
     (if m_id (pkg_session p) = s
      then if is_closed p then None
           else (case init_user p of Some u \<Rightarrow> Some u | None \<Rightarrow> session_user older s)
      else session_user older s)"

definition expected_user :: "package list \<Rightarrow> package \<Rightarrow> string" where
  "expected_user older p =
     (case init_user p of Some u \<Rightarrow> u
      | None \<Rightarrow> (case session_user older (m_id (pkg_session p)) of Some u \<Rightarrow> u | None \<Rightarrow> ''-''))"

fun log_run :: "log_env \<Rightarrow> yaz \<Rightarrow> yaz_text \<Rightarrow> 'w log_world_ext move_fn \<Rightarrow> package list \<Rightarrow> Log_Impl \<Rightarrow> 'w log_world_scheme
    \<Rightarrow> (Log_Impl \<times> 'w log_world_scheme) option" where
  "log_run E Y T mv [] st w = Some (st, w)"
| "log_run E Y T mv (p # ps) st w =
     (case Log_process E Y T st mv p w of
        None \<Rightarrow> None
      | Some (q, st, w) \<Rightarrow> log_run E Y T mv ps st w)"

lemma Log_process_state: "Log_process E Y T st mv p w = Some (q, st', w') \<Longrightarrow> st' = snd (Log_session p st)"
  by (auto simp: Log_process_def Let_def split: prod.splits option.splits)

lemma Log_session_user:
  assumes "m_sessions st = session_user older"
  shows "Log_session p st = (expected_user older p, st\<lparr>m_sessions := session_user (p # older)\<rparr>)"
  using assms by (auto simp: Log_session_def Let_def expected_user_def session_map_create_def session_map_release_def
      fun_eq_iff split: option.splits)

lemma log_run_sessions:
  "log_run E Y T mv ps st w = Some (st', w') \<Longrightarrow> m_sessions st = session_user older \<Longrightarrow>
     m_sessions st' = session_user (rev ps @ older)"
proof (induction ps arbitrary: st w older)
  case (Cons p ps)
  then obtain q st1 w1 where one: "Log_process E Y T st mv p w = Some (q, st1, w1)"
    and rest: "log_run E Y T mv ps st1 w1 = Some (st', w')" by (auto split: option.splits prod.splits)
  have "m_sessions st1 = session_user (p # older)"
    using Log_process_state [OF one] Log_session_user [OF Cons.prems(2)] by simp
  from Cons.IH [OF rest this] show ?case by simp
qed simp

lemma items_concat_member: "items_concat xs = Some its \<Longrightarrow> Some ys \<in> set xs \<Longrightarrow> set ys \<subseteq> set its"
proof -
  have "those xs = Some zs \<Longrightarrow> Some ys \<in> set xs \<Longrightarrow> ys \<in> set zs" for xs zs and ys :: "log_item list"
    by (induction xs arbitrary: zs) (auto split: option.splits)
  then show "items_concat xs = Some its \<Longrightarrow> Some ys \<in> set xs \<Longrightarrow> ?thesis"
    unfolding items_concat_def by (force simp: UN_I)
qed


section \<open>Properties: log files\<close>

text \<open>Filters with one file name share a file, and the files of different names are different.\<close>

lemma Log_openfile_shared:
  assumes "Log_openfile E fname st w = (st', w')" and "distinct (map m_fname (filter_log_files w))"
  shows "distinct (map m_fname (filter_log_files w'))"
    and "m_file st' < length (filter_log_files w')" and "m_fname (filter_log_files w' ! m_file st') = fname"
    and "\<exists>new. filter_log_files w' = filter_log_files w @ new"
    and "Log_openfile E fname st2 w' = (st2\<lparr>m_file := m_file st'\<rparr>, w')"
proof -
  have cases: "(\<exists>i. find_pos (\<lambda>f. m_fname f = fname) (filter_log_files w) = Some i \<and> st' = st\<lparr>m_file := i\<rparr> \<and> w' = w) \<or>
     (fname \<notin> set (map m_fname (filter_log_files w)) \<and> st' = st\<lparr>m_file := length (filter_log_files w)\<rparr> \<and>
      w' = w\<lparr>filter_log_files := filter_log_files w @ [LFile_new E fname]\<rparr>)"
    using assms(1) by (auto simp: Log_openfile_def find_pos_None split: option.splits)
  then show d: "distinct (map m_fname (filter_log_files w'))" using assms(2) by (auto simp: LFile_new_def)
  show i: "m_file st' < length (filter_log_files w')" "m_fname (filter_log_files w' ! m_file st') = fname"
    using cases by (auto simp: LFile_new_def dest: find_pos_Some)
  show "\<exists>new. filter_log_files w' = filter_log_files w @ new" using cases by auto
  have "find_pos (\<lambda>f. m_fname f = fname) (filter_log_files w') \<noteq> None"
    using i nth_mem unfolding find_pos_None by blast
  then obtain k where k: "find_pos (\<lambda>f. m_fname f = fname) (filter_log_files w') = Some k" by blast
  then have "k = m_file st'" using find_pos_Some [OF k] i d nth_eq_iff_index_eq [of "map m_fname (filter_log_files w')"] by auto
  with k show "Log_openfile E fname st2 w' = (st2\<lparr>m_file := m_file st'\<rparr>, w')" by (simp add: Log_openfile_def)
qed

section \<open>Properties: what the one-line log does not survive\<close>

lemma log_1line_undefined:
  "log_1line_Z_APDU T (APDU_kind sortRequest i d) (Some (APDU_kind sortResponse j e)) = None"
  "log_1line_Z_APDU T (APDU_initResponse r) None = None"
  "log_1line_Z_APDU T (APDU_searchRequest sq) (Some (APDU_searchResponse (sr\<lparr>srs_records := Some (Records_multipleNSD [])\<rparr>))) = None"
  by (simp_all add: log_1line_Z_APDU_def log_1line_kind_def log_1line_default_def log_1line_search_def log_1line_records_def)

lemma log_line_injection:
  "text_HTTP_Request \<lparr>hrq_method = ''GET'', hrq_version = ''1.1'', hrq_path = ''/'' @ CHR 0x0A # ''x'', hrq_headers = [], hrq_content = []\<rparr>
     = ''GET /'' @ CHR 0x0A # ''x''"
  by (simp add: text_HTTP_Request_def)

section \<open>Instances\<close>

abbreviation log_env1 :: log_env where
  "log_env1 \<equiv> \<lparr>fopen_append = (\<lambda>f. f \<noteq> []), strftime = (\<lambda>_ _. ''12:00''), show_duration = (\<lambda>_. ''0.000001'')\<rparr>"

abbreviation log_world1 :: log_world where
  "log_world1 \<equiv> \<lparr>m_global_id = 3, filter_log_files = [\<lparr>m_fname = ''a.log'', fhandle = True\<rparr>], log_output = []\<rparr>"

definition log_impl1 :: Log_Impl where
  "log_impl1 = \<lparr>m_msg_config = ''A'', m_1line = False, m_access = False, m_user_access = True, m_req_apdu = False, m_res_apdu = False,
     m_req_session = False, m_res_session = False, m_init_options = False, m_file = 0,
     m_time_format = ''%H:%M'', m_sessions = Map.empty\<rparr>"

abbreviation log_package :: "Z_APDU \<Rightarrow> package" where
  "log_package a \<equiv> (Package_new \<lparr>m_id = 1, m_close = False\<rparr> Origin_new)\<lparr>pkg_request := Some (GDU_Z3950 a)\<rparr>"

abbreviation log_init1 :: Z_APDU where
  "log_init1 \<equiv> APDU_initRequest ((zget_initRequest yaz_ref)\<lparr>irq_idAuthentication := Some (IdAuthentication_open ''ann'')\<rparr>)"

abbreviation log_close1 :: Z_APDU where
  "log_close1 \<equiv> APDU_close \<lparr>close_referenceId = None, close_closeReason = 0, close_diagnosticInformation = None\<rparr>"

theorem Log_transparent_witness:
  "\<exists>pre post. Log_process log_env1 yaz_ref yaz_text_ref log_impl1 (\<lambda>r p w. (p, w)) (log_package log_init1) log_world1 =
     Some (log_package log_init1, snd (Log_session (log_package log_init1) log_impl1), log_world1\<lparr>log_output := pre @ post\<rparr>)"
  using Log_transparent [where mv = "\<lambda>r p w. (p, w)" and E = log_env1 and Y = yaz_ref and T = yaz_text_ref
      and st = log_impl1 and p = "log_package log_init1" and w = log_world1, OF yaz_ref_oi_laws]
  by (simp add: line_defined_def log_impl1_def)


end
