(* ===== verification/MP_Bounce.thy ===== *)
theory MP_Bounce
  imports MP_Gdu_Text MP_Xml
begin

text \<open>
  The \<open>bounce\<close> filter (\<open>src/filter_bounce.cpp\<close>), the last resort of a route: it closes the session and
  answers every request itself.
\<close>

section \<open>Operations\<close>

text \<open>The encoder of packages and the setting of headers, functions of YAZ.\<close>

record bounce_yaz =
  z_GDU_encode :: "Z_GDU \<Rightarrow> octets"
  z_HTTP_header_set :: "Z_HTTP_Header list \<Rightarrow> string \<Rightarrow> string \<Rightarrow> Z_HTTP_Header list"

definition http_echo :: "bounce_yaz \<Rightarrow> Z_GDU \<Rightarrow> Z_HTTP_Response \<Rightarrow> Z_HTTP_Response" where
  "http_echo B zgdu hres =
     hres\<lparr>hrs_headers := z_HTTP_header_set B (hrs_headers hres) ''Content-Type'' ''text/plain'',
          hrs_content := z_GDU_encode B zgdu\<rparr>"

text \<open>\<open>None\<close>: the request cannot be printed.\<close>

definition Bounce_process :: "yaz \<Rightarrow> yaz_text \<Rightarrow> bounce_yaz \<Rightarrow> bool \<Rightarrow> package \<Rightarrow> package option" where
  "Bounce_process Y T B echo p =
     (let p = close_session p in
      case pkg_request p of
        None \<Rightarrow> Some p
      | Some zgdu \<Rightarrow>
          (case text_GDU Y T zgdu of
             None \<Rightarrow> None
           | Some msg \<Rightarrow>
               (case zgdu of
                  GDU_Z3950 apdu \<Rightarrow>
                    Some (p\<lparr>pkg_response := Some (GDU_Z3950
                      (create_close Y (Some apdu) Z_Close_systemProblem (Some (''BOUNCE '' @ msg))))\<rparr>)
                | GDU_HTTP_Request req \<Rightarrow>
                    (let (ses, hres) = create_HTTP_Response Y (pkg_session p) req 400;
                         hres = (if echo then http_echo B zgdu hres else hres)
                     in Some (p\<lparr>pkg_session := ses, pkg_response := Some (GDU_HTTP_Response hres)\<rparr>))
                | GDU_HTTP_Response _ \<Rightarrow> Some p)))"

definition Bounce_element :: "xml_node list \<Rightarrow> bool \<Rightarrow> mp_exception + bool" where
  "Bounce_element ptr echo =
     (if node_name (hd ptr) = ''echo'' then Inr (get_bool ptr False)
      else Inl (FilterException (''Bad element '' @ [CHR 0x27] @ node_name (hd ptr) @ [CHR 0x27] @ '' in bounce filter'')))"

definition Bounce_configure :: "xml_node \<Rightarrow> bool \<Rightarrow> mp_exception + bool" where
  "Bounce_configure ptr echo = for_elements Bounce_element (node_children ptr) echo"

section \<open>Properties\<close>

lemma create_HTTP_Response_closed:
  "create_HTTP_Response Y ses req code = (ses', hres) \<Longrightarrow> m_close ses \<Longrightarrow> m_close ses' \<and> m_id ses' = m_id ses"
  by (auto simp: create_HTTP_Response_def create_HTTP_Response_details_def Let_def Session_close_def split: if_splits)

lemma create_HTTP_Response_code:
  "create_HTTP_Response Y ses req code = (ses', hres) \<Longrightarrow> hrs_code hres = hrs_code (z_get_HTTP_Response_server Y code None)"
  by (auto simp: create_HTTP_Response_def create_HTTP_Response_details_def Let_def split: if_splits prod.splits)

text \<open>
  Every package that reaches the filter leaves it with its session closed, and every request is
  answered: a Z39.50 request by a Close with the reference of the request, the reason and the printed
  request in its message, an HTTP request by an error response with status 400.\<close>
theorem Bounce_answers:
  assumes "oi_laws Y" and "hrs_code (z_get_HTTP_Response_server Y 400 None) = 400"
  shows "\<exists>p'. Bounce_process Y T B echo p = Some p' \<and> is_closed p' \<and> pkg_request p' = pkg_request p \<and>
     m_id (pkg_session p') = m_id (pkg_session p) \<and>
     (case pkg_request p of
        Some (GDU_Z3950 apdu) \<Rightarrow> \<exists>c msg. pkg_response p' = Some (GDU_Z3950 (APDU_close c)) \<and>
          close_referenceId c = source_referenceId (Some apdu) \<and> close_closeReason c = Z_Close_systemProblem \<and>
          text_GDU Y T (GDU_Z3950 apdu) = Some msg \<and> close_diagnosticInformation c = Some (''BOUNCE '' @ msg)
      | Some (GDU_HTTP_Request req) \<Rightarrow> \<exists>h. pkg_response p' = Some (GDU_HTTP_Response h) \<and> hrs_code h = 400
      | _ \<Rightarrow> pkg_response p' = pkg_response p)"
proof (cases "pkg_request p")
  case None
  then show ?thesis by (simp add: Bounce_process_def close_session_def Session_close_def)
next
  case (Some g)
  obtain msg where msg: "text_GDU Y T g = Some msg" using text_GDU_Some [OF assms(1)] by blast
  show ?thesis
  proof (cases g)
    case (GDU_HTTP_Request req)
    obtain ses hres where h: "create_HTTP_Response Y (pkg_session (close_session p)) req 400 = (ses, hres)"
      by (cases "create_HTTP_Response Y (pkg_session (close_session p)) req 400")
    have "m_close (pkg_session (close_session p))" by (simp add: close_session_def Session_close_def)
    from create_HTTP_Response_closed [OF h this] create_HTTP_Response_code [OF h] show ?thesis
      using Some GDU_HTTP_Request msg h assms(2)
      by (auto simp: Bounce_process_def close_session_def Session_close_def http_echo_def)
  qed (use Some msg in \<open>auto simp: Bounce_process_def close_session_def Session_close_def create_close_def Let_def\<close>)
qed

theorem Bounce_answers_witness:
  "\<exists>p'. Bounce_process yaz_ref yaz_text_ref \<lparr>z_GDU_encode = (\<lambda>_. ''raw''), z_HTTP_header_set = (\<lambda>h _ _. h)\<rparr> True
     ((Package_new \<lparr>m_id = 1, m_close = False\<rparr> Origin_new)\<lparr>pkg_request := Some (GDU_HTTP_Request
       \<lparr>hrq_method = ''GET'', hrq_version = ''1.1'', hrq_path = ''/'', hrq_headers = [], hrq_content = []\<rparr>)\<rparr>) = Some p' \<and>
   is_closed p' \<and> (\<exists>h. pkg_response p' = Some (GDU_HTTP_Response h) \<and> hrs_code h = 400)"
proof -
  have "hrs_code (z_get_HTTP_Response_server yaz_ref 400 None) = 400" by (simp add: yaz_ref_def)
  from Bounce_answers [OF yaz_ref_oi_laws this, where T = yaz_text_ref
      and B = "\<lparr>z_GDU_encode = (\<lambda>_. ''raw''), z_HTTP_header_set = (\<lambda>h _ _. h)\<rparr>" and echo = True
      and p = "(Package_new \<lparr>m_id = 1, m_close = False\<rparr> Origin_new)\<lparr>pkg_request := Some (GDU_HTTP_Request
       \<lparr>hrq_method = ''GET'', hrq_version = ''1.1'', hrq_path = ''/'', hrq_headers = [], hrq_content = []\<rparr>)\<rparr>"]
  show ?thesis by auto
qed

end
