(* ===== verification/MP_Url_Recipe.thy ===== *)
theory MP_Url_Recipe
  imports MP_Xml
begin

text \<open>
  Recipes for URLs (\<open>src/url_recipe.cpp\<close>): a recipe is text in which fields in braces are replaced by
  metadata of a record, changed by a regular expression and encoded for a URL where asked for.
\<close>

section \<open>Parameters and fields\<close>

text \<open>
  Boost's replacement (text, pattern, whether to ignore case, replacement, whether to replace all
  occurrences; \<open>None\<close> for the exception on a malformed pattern) and the encoder of YAZ.
\<close>

record url_env =
  regex_replace :: "string \<Rightarrow> string \<Rightarrow> bool \<Rightarrow> string \<Rightarrow> bool \<Rightarrow> string option"
  encode_uri_component :: "string \<Rightarrow> string"

datatype url_error = Bad_regex | Out_of_range

record recipe_field =
  rf_variable :: string
  rf_pattern :: string
  rf_replacement :: string
  rf_mode :: string

definition recipe_field_new :: recipe_field where
  "recipe_field_new = \<lparr>rf_variable = [], rf_pattern = [], rf_replacement = [], rf_mode = []\<rparr>"

section \<open>Operations\<close>

text \<open>
  The loop over the characters of a field. The step is 0 in the variable, 1 in the pattern, 2 in the
  replacement, 3 in the mode, 4 behind the pattern and 5 behind the field; a character behind a backslash
  is none of the delimiters.
\<close>

definition field_step :: "nat \<Rightarrow> char \<Rightarrow> char \<Rightarrow> recipe_field \<Rightarrow> nat \<times> recipe_field" where
  "field_step step c_check c f =
     (if c_check = CHR ''}'' then (5, f)
      else if step = 0
      then (if c_check = CHR ''['' then (1, f) else (0, f\<lparr>rf_variable := rf_variable f @ [c]\<rparr>))
      else if c_check = CHR '']'' then (4, f)
      else if step = 1
      then (if c_check = CHR ''/'' then (2, f) else (1, f\<lparr>rf_pattern := rf_pattern f @ [c]\<rparr>))
      else if step = 2
      then (if c_check = CHR ''/'' then (3, f) else (2, f\<lparr>rf_replacement := rf_replacement f @ [c]\<rparr>))
      else if step = 3 then (3, f\<lparr>rf_mode := rf_mode f @ [c]\<rparr>)
      else (step, f))"

fun field_loop :: "nat \<Rightarrow> char \<Rightarrow> string \<Rightarrow> recipe_field \<Rightarrow> recipe_field \<times> string" where
  "field_loop step c_prev [] f = (f, [])"
| "field_loop step c_prev (c # cs) f =
     (if step \<ge> 5 then (f, c # cs)
      else (let (step, f) = field_step step (if c_prev = CHR 0x5C then CHR 0x00 else c) c f
            in field_loop step c cs f))"

text \<open>
  The name of the metadata of a variable: three characters are dropped when the variable starts with one of the
  characters of \<open>md-\<close>; \<open>None\<close> when it has less than three.
\<close>

definition metadata_name :: "string \<Rightarrow> string option" where
  "metadata_name variable =
     (if variable \<noteq> [] \<and> hd variable \<in> {CHR ''m'', CHR ''d'', CHR ''-''}
      then if length variable < 3 then None else Some (drop 3 variable)
      else Some variable)"

definition is_metadata :: "string \<Rightarrow> xml_node \<Rightarrow> bool" where
  "is_metadata name n \<longleftrightarrow> node_type n = XML_ELEMENT_NODE \<and> node_name n = ''metadata'' \<and>
     (\<exists>a \<in> set (node_attrs n). attr_name a = ''type'' \<and> (case attr_children a of Xml_Text t # _ \<Rightarrow> t = name | _ \<Rightarrow> False))"

fun metadata_text :: "string \<Rightarrow> xml_node list \<Rightarrow> string \<Rightarrow> string" where
  "metadata_text name [] text = text"
| "metadata_text name (n # ns) text = metadata_text name ns (if is_metadata name n then get_text (n # ns) else text)"

definition field_value :: "url_env \<Rightarrow> xml_node list \<Rightarrow> bool \<Rightarrow> recipe_field \<Rightarrow> url_error + string" where
  "field_value E ptr1 enc f =
     (if rf_variable f = [] then Inr []
      else case metadata_name (rf_variable f) of
        None \<Rightarrow> Inl Out_of_range
      | Some name \<Rightarrow>
          (let text = metadata_text name ptr1 [] in
           case (if rf_pattern f \<noteq> []
                 then regex_replace E text (rf_pattern f) (CHR ''i'' \<in> set (rf_mode f)) (rf_replacement f) (CHR ''g'' \<in> set (rf_mode f))
                 else Some text) of
             None \<Rightarrow> Inl Bad_regex
           | Some text \<Rightarrow> Inr (if \<not> enc then text else concat (map (\<lambda>c. encode_uri_component E [c]) text))))"

lemma field_loop_rest: "length (snd (field_loop step c s f)) \<le> length s"
  by (induction step c s f rule: field_loop.induct) (auto split: prod.split intro: le_SucI)

function recipe_loop :: "url_env \<Rightarrow> xml_node list \<Rightarrow> string \<Rightarrow> string \<Rightarrow> url_error + string" where
  "recipe_loop E ptr1 [] result = Inr result"
| "recipe_loop E ptr1 (c # cs) result =
     (if (c = CHR ''%'' \<or> c = CHR ''$'') \<and> cs \<noteq> [] \<and> hd cs = CHR ''{''
      then (let (f, rest) = field_loop 0 (CHR 0x00) (tl cs) recipe_field_new
            in case field_value E ptr1 (c = CHR ''%'') f of
                 Inl e \<Rightarrow> Inl e
               | Inr text \<Rightarrow> recipe_loop E ptr1 rest (result @ text))
      else recipe_loop E ptr1 cs (result @ [c]))"
  by pat_completeness auto

termination
proof (relation "measure (\<lambda>(E, p, s, r). length s)", goal_cases)
  case (2 E ptr1 c cs result x f rest t)
  then have "length rest \<le> length (tl cs)"
    using field_loop_rest [of 0 "CHR 0x00" "tl cs" recipe_field_new] by (metis snd_conv)
  then show ?case by (cases cs) simp_all
qed simp_all

definition url_recipe_handle :: "url_env \<Rightarrow> xml_node option \<Rightarrow> string \<Rightarrow> url_error + string" where
  "url_recipe_handle E doc recipe =
     (if length recipe = 0 then Inr []
      else recipe_loop E (case doc of Some root \<Rightarrow> node_children root | None \<Rightarrow> []) recipe [])"

section \<open>Properties\<close>

text \<open>
  Recipes as lists of characters and fields, their printed form and their meaning. The plain parts of
  fields hold no delimiters.
\<close>

datatype recipe_item = Chr char | Sub bool string "(string \<times> string \<times> string) option"

definition plain :: "string \<Rightarrow> string \<Rightarrow> bool" where
  "plain delims s \<longleftrightarrow> list_all (\<lambda>c. c \<noteq> CHR 0x5C \<and> c \<noteq> CHR ''}'' \<and> c \<notin> set delims) s"

fun print_item :: "recipe_item \<Rightarrow> string" where
  "print_item (Chr c) = [c]"
| "print_item (Sub enc v None) = (if enc then CHR ''%'' else CHR ''$'') # CHR ''{'' # v @ ''}''"
| "print_item (Sub enc v (Some (pat, rep, mode))) =
     (if enc then CHR ''%'' else CHR ''$'') # CHR ''{'' # v @ ''['' @ pat @ ''/'' @ rep @ ''/'' @ mode @ '']}''"

fun print_recipe :: "recipe_item list \<Rightarrow> string" where
  "print_recipe [] = []"
| "print_recipe (i # its) = print_item i @ print_recipe its"

fun item_field :: "string \<Rightarrow> (string \<times> string \<times> string) option \<Rightarrow> recipe_field" where
  "item_field v None = recipe_field_new\<lparr>rf_variable := v\<rparr>"
| "item_field v (Some (pat, rep, mode)) = \<lparr>rf_variable = v, rf_pattern = pat, rf_replacement = rep, rf_mode = mode\<rparr>"

fun item_value :: "url_env \<Rightarrow> xml_node list \<Rightarrow> recipe_item \<Rightarrow> url_error + string" where
  "item_value E ptr1 (Chr c) = Inr [c]"
| "item_value E ptr1 (Sub enc v sub) = field_value E ptr1 enc (item_field v sub)"

fun items_value :: "url_env \<Rightarrow> xml_node list \<Rightarrow> recipe_item list \<Rightarrow> url_error + string" where
  "items_value E ptr1 [] = Inr []"
| "items_value E ptr1 (i # its) =
     (case item_value E ptr1 i of
        Inl e \<Rightarrow> Inl e
      | Inr s \<Rightarrow> (case items_value E ptr1 its of Inl e \<Rightarrow> Inl e | Inr t \<Rightarrow> Inr (s @ t)))"

fun recipe_ok :: "recipe_item list \<Rightarrow> bool" where
  "recipe_ok [] = True"
| "recipe_ok (Chr c # its) \<longleftrightarrow>
     \<not> ((c = CHR ''%'' \<or> c = CHR ''$'') \<and> (case its of Chr d # _ \<Rightarrow> d = CHR ''{'' | _ \<Rightarrow> False)) \<and> recipe_ok its"
| "recipe_ok (Sub enc v None # its) \<longleftrightarrow> plain ''['' v \<and> recipe_ok its"
| "recipe_ok (Sub enc v (Some (pat, rep, mode)) # its) \<longleftrightarrow>
     plain ''['' v \<and> plain ''/]'' pat \<and> plain ''/]'' rep \<and> plain '']'' mode \<and> recipe_ok its"

lemma plain_Cons [simp]: "plain delims (c # s) \<longleftrightarrow> c \<noteq> CHR 0x5C \<and> c \<noteq> CHR ''}'' \<and> c \<notin> set delims \<and> plain delims s"
  by (simp add: plain_def)

lemma field_step_plain:
  "c \<noteq> CHR ''}'' \<Longrightarrow> c \<noteq> CHR ''['' \<Longrightarrow> field_step 0 c c f = (0, f\<lparr>rf_variable := rf_variable f @ [c]\<rparr>)"
  "c \<noteq> CHR ''}'' \<Longrightarrow> c \<noteq> CHR '']'' \<Longrightarrow> c \<noteq> CHR ''/'' \<Longrightarrow> field_step (Suc 0) c c f = (Suc 0, f\<lparr>rf_pattern := rf_pattern f @ [c]\<rparr>)"
  "c \<noteq> CHR ''}'' \<Longrightarrow> c \<noteq> CHR '']'' \<Longrightarrow> c \<noteq> CHR ''/'' \<Longrightarrow> field_step 2 c c f = (2, f\<lparr>rf_replacement := rf_replacement f @ [c]\<rparr>)"
  "c \<noteq> CHR ''}'' \<Longrightarrow> c \<noteq> CHR '']'' \<Longrightarrow> field_step 3 c c f = (3, f\<lparr>rf_mode := rf_mode f @ [c]\<rparr>)"
  by (simp_all add: field_step_def)

lemma field_loop_plain:
  "plain ''['' v \<Longrightarrow> c \<noteq> CHR 0x5C \<Longrightarrow> d \<noteq> CHR 0x5C \<Longrightarrow>
     field_loop 0 c (v @ d # rest) f =
       (let (step, g) = field_step 0 d d (f\<lparr>rf_variable := rf_variable f @ v\<rparr>) in field_loop step d rest g)"
  "plain ''/]'' v \<Longrightarrow> c \<noteq> CHR 0x5C \<Longrightarrow> d \<noteq> CHR 0x5C \<Longrightarrow>
     field_loop (Suc 0) c (v @ d # rest) f =
       (let (step, g) = field_step (Suc 0) d d (f\<lparr>rf_pattern := rf_pattern f @ v\<rparr>) in field_loop step d rest g)"
  "plain ''/]'' v \<Longrightarrow> c \<noteq> CHR 0x5C \<Longrightarrow> d \<noteq> CHR 0x5C \<Longrightarrow>
     field_loop 2 c (v @ d # rest) f =
       (let (step, g) = field_step 2 d d (f\<lparr>rf_replacement := rf_replacement f @ v\<rparr>) in field_loop step d rest g)"
  "plain '']'' v \<Longrightarrow> c \<noteq> CHR 0x5C \<Longrightarrow> d \<noteq> CHR 0x5C \<Longrightarrow>
     field_loop 3 c (v @ d # rest) f =
       (let (step, g) = field_step 3 d d (f\<lparr>rf_mode := rf_mode f @ v\<rparr>) in field_loop step d rest g)"
  by (induction v arbitrary: c f) (auto simp: field_step_plain)

lemma field_loop_done: "field_loop 5 c s f = (f, s)"
  by (cases s) simp_all

lemma field_loop_item:
  assumes "recipe_ok (Sub enc v sub # its)"
  shows "\<exists>c. print_item (Sub enc v sub) = (if enc then CHR ''%'' else CHR ''$'') # CHR ''{'' # c \<and>
     field_loop 0 (CHR 0x00) (c @ rest) recipe_field_new = (item_field v sub, rest)"
proof (cases sub)
  case None
  then show ?thesis using assms
    by (auto simp: field_loop_plain field_step_def field_loop_done recipe_field_new_def)
next
  case (Some t)
  obtain pat rep mode where t: "t = (pat, rep, mode)" by (cases t)
  then show ?thesis using assms Some
    by (auto simp: field_loop_plain field_step_def field_loop_done recipe_field_new_def)
qed

lemma print_Chr_next:
  assumes "recipe_ok (Chr c # its)" and "c = CHR ''%'' \<or> c = CHR ''$''"
  shows "print_recipe its = [] \<or> hd (print_recipe its) \<noteq> CHR ''{''"
proof (cases its)
  case (Cons i is')
  show ?thesis
  proof (cases i)
    case (Chr d)
    with assms Cons show ?thesis by auto
  next
    case (Sub enc v sub)
    then obtain s where "print_item i = (if enc then CHR ''%'' else CHR ''$'') # s"
      by (cases sub) auto
    then show ?thesis using Cons by simp
  qed
qed simp

lemma recipe_loop_items:
  "recipe_ok its \<Longrightarrow> recipe_loop E ptr1 (print_recipe its) result =
     (case items_value E ptr1 its of Inl e \<Rightarrow> Inl e | Inr s \<Rightarrow> Inr (result @ s))"
proof (induction its arbitrary: result)
  case (Cons i its)
  show ?case
  proof (cases i)
    case (Chr c)
    then have "recipe_ok its" using Cons.prems by simp
    moreover have "\<not> ((c = CHR ''%'' \<or> c = CHR ''$'') \<and> print_recipe its \<noteq> [] \<and>
        hd (print_recipe its) = CHR ''{'')"
      using print_Chr_next [of c its] Cons.prems Chr by blast
    ultimately have "recipe_loop E ptr1 (c # print_recipe its) result = recipe_loop E ptr1 (print_recipe its) (result @ [c])"
      by (simp only: recipe_loop.simps if_False)
    then show ?thesis using Cons.IH [of "result @ [c]"] \<open>recipe_ok its\<close> Chr by (auto split: sum.split)
  next
    case (Sub enc v sub)
    have ok: "recipe_ok its" using Cons.prems Sub by (cases sub) auto
    obtain c where c: "print_item i = (if enc then CHR ''%'' else CHR ''$'') # CHR ''{'' # c"
      "field_loop 0 (CHR 0x00) (c @ print_recipe its) recipe_field_new = (item_field v sub, print_recipe its)"
      using field_loop_item [of enc v sub its "print_recipe its"] Cons.prems Sub by blast
    then show ?thesis using Cons.IH [OF ok] Sub by (auto split: sum.split)
  qed
qed simp


abbreviation recipe_record :: xml_node where
  "recipe_record \<equiv> Xml_Element ''record'' None []
     [Xml_Element ''metadata'' None [Xml_Attr ''type'' None [Xml_Text ''title'']] [Xml_Text ''a b'']]"


text \<open>A variable that only starts with a letter of \<open>md-\<close> loses three characters too.\<close>

lemma metadata_name_cut: "metadata_name ''date'' = Some ''e''" "metadata_name ''md'' = None"
  by (simp_all add: metadata_name_def)

end
