(* ===== verification/MP_Http_Rewrite.thy ===== *)
theory MP_Http_Rewrite
  imports MP_Html_Parser MP_Xml MP_Yaz_Ref
begin

text \<open>
  The \<open>http_rewrite\<close> filter (\<open>src/filter_http_rewrite.cpp\<close>): rules with regular expressions rewrite the request
  line, headers and bodies of HTTP messages; bodies in HTML are scanned by the scanner of \<open>MP_Html_Parser\<close>.
\<close>

section \<open>Regular expressions\<close>

text \<open>
  A compiled expression is its pattern and whether it ignores case. Boost is a parameter: whether a
  pattern compiles, whether a whole text matches, and the first match in a text, with its position, its
  length and the texts of its groups from the first on (empty for a group without a match).
\<close>

record regex =
  re_pattern :: string
  re_icase :: bool

record re_match =
  mt_pos :: nat
  mt_len :: nat
  mt_groups :: "string list"

record boost =
  regex_valid :: "string \<Rightarrow> bool"
  regex_match :: "regex \<Rightarrow> string \<Rightarrow> bool"
  regex_search :: "regex \<Rightarrow> string \<Rightarrow> re_match option"

text \<open>
  Exceptions: those of the filter, those of boost (a malformed expression, or the use of an expression
  that was never set), and the use of a header without a name or value. \<open>None\<close> is a loop that never ends.
\<close>

datatype rw_error = RW_exception mp_exception | RW_regex | RW_null

type_synonym 'a rw = "(rw_error + 'a) option"
type_synonym rw_vars = "string \<rightharpoonup> string"

definition rw_bind :: "'a rw \<Rightarrow> ('a \<Rightarrow> 'b rw) \<Rightarrow> 'b rw" where
  "rw_bind m f = (case m of None \<Rightarrow> None | Some (Inl e) \<Rightarrow> Some (Inl e) | Some (Inr x) \<Rightarrow> f x)"

lemma rw_bind_simps [simp]:
  "rw_bind None f = None" "rw_bind (Some (Inl e)) f = Some (Inl e)" "rw_bind (Some (Inr x)) f = f x"
  by (simp_all add: rw_bind_def)

section \<open>State\<close>

record Replace =
  start_anchor :: bool
  rp_re :: regex
  recipe :: string
  group_index :: "nat \<rightharpoonup> string"

type_synonym Rule = "Replace list"

record Within =
  wi_header :: "regex option"
  wi_attr :: "regex option"
  wi_tag :: "regex option"
  wi_type :: string
  wi_reqline :: bool
  wi_rule :: Rule

record Content =
  ct_type :: string
  content_re :: "regex option"
  within_list :: "Within list"

record Phase =
  m_verbose :: int
  content_list :: "Content list"

definition Phase_new :: Phase where
  "Phase_new = \<lparr>m_verbose = 0, content_list = []\<rparr>"

section \<open>Rules\<close>

text \<open>The value of a recipe: text with references to variables and escaped characters.\<close>

definition rw_throw :: "string \<Rightarrow> rw_error" where
  "rw_throw msg = RW_exception (FilterException msg)"

abbreviation apos :: string where "apos \<equiv> [CHR 0x27]"

function sub_vars_from :: "rw_vars \<Rightarrow> string \<Rightarrow> bool \<Rightarrow> string \<Rightarrow> rw_error + string" where
  "sub_vars_from vars inp esc [] = Inr []"
| "sub_vars_from vars inp esc (c # cs) =
     (if \<not> esc \<and> c = CHR 0x5C then sub_vars_from vars inp True cs
      else if \<not> esc \<and> c = CHR ''$''
      then (if cs \<noteq> [] \<and> hd cs = CHR ''{''
            then (case strchr_split (CHR ''}'') (tl cs) of
                    None \<Rightarrow> Inl (rw_throw (''Unterminated var ref in '' @ apos @ inp @ apos @ '' at '' @ show_nat (length inp)))
                  | Some (name, rest) \<Rightarrow>
                      (case sub_vars_from vars inp False rest of
                         Inl e \<Rightarrow> Inl e
                       | Inr out \<Rightarrow> Inr ((case vars name of Some v \<Rightarrow> v | None \<Rightarrow> []) @ out)))
            else Inl (rw_throw (''Malformed or trimmed var ref in '' @ apos @ inp @ apos @ '' at '' @
              show_nat (length inp - length (c # cs)))))
      else (case sub_vars_from vars inp False cs of Inl e \<Rightarrow> Inl e | Inr out \<Rightarrow> Inr (c # out)))"
  by pat_completeness auto

termination
proof (relation "measure (\<lambda>(vars, inp, esc, s). length s)", goal_cases)
  case (3 vars inp esc c cs p name rest)
  then have "length rest < length (tl cs)" using strchr_split_length by fastforce
  then show ?case by simp
qed simp_all

declare sub_vars_from.simps [simp del]

definition sub_vars :: "Replace \<Rightarrow> rw_vars \<Rightarrow> rw_error + string" where
  "sub_vars r vars = sub_vars_from vars (recipe r) False (recipe r)"

text \<open>
  The groups of a pattern are counted and their names taken out, which gives the pattern for boost. The
  loop has the rest of the pattern, the number of groups so far, whether the last character was a
  backslash, the pattern so far and the names.
\<close>

definition c_isalnum :: "char \<Rightarrow> bool" where
  "c_isalnum c \<longleftrightarrow> isAlpha c \<or> c_isdigit c"

definition group_name :: "string \<Rightarrow> string \<Rightarrow> rw_error + string \<times> string" where
  "group_name str s =
     (let name = takeWhile c_isalnum s; rest = dropWhile c_isalnum s in
      if rest = []
      then Inl (rw_throw (''Unterminated group name '' @ apos @ name @ '' in '' @ apos @ str @ apos))
      else if hd rest = CHR ''>'' then Inr (name, tl rest)
      else Inl (rw_throw (''Only alphanumeric chars allowed, found  in '' @ apos @ str @ apos @ '' at '' @
        show_nat (length str - length rest))))"

lemma group_name_length: "group_name str s = Inr (name, rest) \<Longrightarrow> length rest < length s"
proof -
  assume g: "group_name str s = Inr (name, rest)"
  then have "dropWhile c_isalnum s \<noteq> []" and r: "rest = tl (dropWhile c_isalnum s)"
    by (auto simp: group_name_def Let_def split: if_splits)
  then have "length rest < length (dropWhile c_isalnum s)" by simp
  also have "\<dots> \<le> length s" by (rule length_dropWhile_le)
  finally show ?thesis .
qed

function parse_groups_from :: "string \<Rightarrow> string \<Rightarrow> nat \<Rightarrow> bool \<Rightarrow> string \<Rightarrow> (nat \<rightharpoonup> string) \<Rightarrow> rw_error + string \<times> (nat \<rightharpoonup> string)" where
  "parse_groups_from str [] gnum esc res groups = Inr (res, groups)"
| "parse_groups_from str (c # cs) gnum esc res groups =
     (let res = res @ [c] in
      if \<not> esc \<and> c = CHR 0x5C then parse_groups_from str cs gnum True res groups
      else if \<not> esc \<and> c = CHR ''('' \<and> starts (CHR ''?'') cs
      then (if starts (CHR '':'') (tl cs)
            then parse_groups_from str (tl (tl cs)) gnum False (res @ ''?:'') groups
            else let r = (if starts (CHR ''P'') (tl cs) then tl (tl cs) else tl cs) in
              if starts (CHR ''<'') r
              then (case group_name str (tl r) of
                      Inl e \<Rightarrow> Inl e
                    | Inr (gname, rest) \<Rightarrow> parse_groups_from str rest (gnum + 1) False res (groups(gnum + 1 \<mapsto> gname)))
              else parse_groups_from str r (gnum + 1) False res groups)
      else parse_groups_from str cs (if \<not> esc \<and> c = CHR ''('' then gnum + 1 else gnum) False res groups)"
  by pat_completeness auto

termination
proof (relation "measure (\<lambda>(str, s, gnum, esc, res, groups). length s)", goal_cases)
  case (4 str c cs gnum esc res groups x xa y gname rest)
  then have "length rest < length (tl xa)" using group_name_length by metis
  moreover have "length xa \<le> length cs" using 4 by (auto simp: le_diff_conv)
  ultimately show ?case by simp
qed (auto simp: le_diff_conv less_Suc_eq_le)

declare parse_groups_from.simps [simp del]

definition parse_groups :: "boost \<Rightarrow> string \<Rightarrow> string \<Rightarrow> rw_error + Replace" where
  "parse_groups B pattern rcp =
     (case parse_groups_from pattern pattern 0 False [] Map.empty of
        Inl e \<Rightarrow> Inl e
      | Inr (res, groups) \<Rightarrow>
          if regex_valid B res
          then Inr \<lparr>start_anchor = starts (CHR ''^'') pattern, rp_re = \<lparr>re_pattern = res, re_icase = False\<rparr>,
                    recipe = rcp, group_index = groups\<rparr>
          else Inl RW_regex)"

text \<open>The leftmost match of the rules that may be used, the first of them among those at one position.\<close>

fun best_match :: "boost \<Rightarrow> bool \<Rightarrow> Rule \<Rightarrow> string \<Rightarrow> (Replace \<times> re_match) option \<Rightarrow> (Replace \<times> re_match) option" where
  "best_match B first [] s best = best"
| "best_match B first (r # rs) s best =
     (if start_anchor r \<and> \<not> first then best_match B first rs s best
      else case regex_search B (rp_re r) s of
        None \<Rightarrow> best_match B first rs s best
      | Some m \<Rightarrow>
          best_match B first rs s
            (case best of
               None \<Rightarrow> Some (r, m)
             | Some (_, bm) \<Rightarrow> if mt_pos m < mt_pos bm then Some (r, m) else best))"

fun set_groups :: "Replace \<Rightarrow> nat \<Rightarrow> string list \<Rightarrow> rw_vars \<Rightarrow> rw_vars" where
  "set_groups r i [] vars = vars"
| "set_groups r i (g # gs) vars =
     set_groups r (i + 1) gs (case group_index r i of Some n \<Rightarrow> vars(n \<mapsto> g) | None \<Rightarrow> vars)"

definition skip_match :: "boost \<Rightarrow> regex list \<Rightarrow> string \<Rightarrow> bool" where
  "skip_match B skip_list s = list_ex (\<lambda>re. regex_search B re s \<noteq> None) skip_list"

partial_function (option) rewrite_loop :: "boost \<Rightarrow> Rule \<Rightarrow> regex list \<Rightarrow> bool \<Rightarrow> bool \<Rightarrow> rw_vars \<Rightarrow> string \<Rightarrow> string
    \<Rightarrow> (rw_error + bool \<times> rw_vars \<times> string) option" where
  "rewrite_loop B rule skip_list first replaces vars s out =
     (case best_match B first rule s None of
        None \<Rightarrow> Some (Inr (replaces, vars, out @ s))
      | Some (r, m) \<Rightarrow>
          (let vars = set_groups r 1 (mt_groups m) vars;
               matched = take (mt_len m) (drop (mt_pos m) s)
           in case sub_vars r vars of
                Inl e \<Rightarrow> Some (Inl e)
              | Inr rvalue \<Rightarrow>
                  rewrite_loop B rule skip_list False True vars (drop (mt_pos m + mt_len m) s)
                    (out @ take (mt_pos m) s @
                     (if skip_match B skip_list matched then takeWhile is_c_char matched else rvalue))))"

definition test_patterns :: "boost \<Rightarrow> Rule \<Rightarrow> regex list \<Rightarrow> bool \<Rightarrow> rw_vars \<Rightarrow> string \<Rightarrow> (bool \<times> rw_vars \<times> string) rw" where
  "test_patterns B rule skip_list anchor vars txt = rewrite_loop B rule skip_list anchor False vars txt []"

section \<open>Quoted literals\<close>

text \<open>The end of a literal: its text and what follows, from the closing quote or the end of the line on.\<close>

fun literal_end :: "char \<Rightarrow> char \<Rightarrow> string \<Rightarrow> string \<times> string" where
  "literal_end m prev [] = ([], [])"
| "literal_end m prev (c # cs) =
     (if (prev \<noteq> CHR 0x5C \<and> c = m) \<or> c = CHR 0x0A then ([], c # cs)
      else (let (s, r) = literal_end m c cs in (c # s, r)))"

fun entity_end :: "string \<Rightarrow> string \<times> string" where
  "entity_end [] = ([], [])"
| "entity_end (c # cs) =
     (if take 6 (c # cs) = ''&quot;'' \<or> c = CHR 0x0A then ([], c # cs)
      else (let (s, r) = entity_end cs in (c # s, r)))"

lemma literal_end_parts: "literal_end m p s = (a, b) \<Longrightarrow> s = a @ b"
  by (induction s arbitrary: p a) (auto split: if_splits prod.splits)

lemma entity_end_parts: "entity_end s = (a, b) \<Longrightarrow> s = a @ b"
  by (induction s arbitrary: a) (auto split: if_splits prod.splits)

lemma end_shorter:
  "(a, b) = literal_end m p s \<Longrightarrow> length b \<le> length s"
  "(a, b) = entity_end (drop n s) \<Longrightarrow> length b \<le> length s"
proof -
  assume "(a, b) = literal_end m p s"
  then have "s = a @ b" using literal_end_parts by metis
  then show "length b \<le> length s" by simp
next
  assume "(a, b) = entity_end (drop n s)"
  then have "drop n s = a @ b" using entity_end_parts by metis
  then show "length b \<le> length s" by (metis append_take_drop_id append_assoc length_append le_add2)
qed

text \<open>
  The loop over the text: the rule is tried on the text of every literal that is closed or ended by the
  end of its line; comments up to the end of a line are passed over.
\<close>

function quoted_loop :: "boost \<Rightarrow> Rule \<Rightarrow> bool \<Rightarrow> regex list \<Rightarrow> bool \<Rightarrow> rw_vars \<Rightarrow> string \<Rightarrow> string \<Rightarrow> (bool \<times> rw_vars \<times> string) rw" where
  "quoted_loop B rule html skip_list rep vars [] out = Some (Inr (rep, vars, out))"
| "quoted_loop B rule html skip_list rep vars (c # cs) out =
     (if html \<and> take 6 (c # cs) = ''&quot;''
      then (let (s, r) = entity_end (drop 5 cs) in
            if r = [] then Some (Inr (rep, vars, out @ c # cs))
            else rw_bind (test_patterns B rule skip_list True vars s) (\<lambda>(b, vars, s).
              quoted_loop B rule html skip_list (rep \<or> b) vars (tl r) (out @ ''&quot;'' @ s @ [hd r])))
      else if c = CHR 0x22 \<or> c = CHR 0x27
      then (let (s, r) = literal_end c c cs in
            if r = [] then Some (Inr (rep, vars, out @ c # cs))
            else rw_bind (test_patterns B rule skip_list True vars s) (\<lambda>(b, vars, s).
              quoted_loop B rule html skip_list (rep \<or> b) vars (tl r) (out @ [c] @ s @ [hd r])))
      else if c = CHR ''/'' \<and> starts (CHR ''/'') cs
      then quoted_loop B rule html skip_list rep vars (dropWhile (\<lambda>c. c \<noteq> CHR 0x0A) cs)
             (out @ c # takeWhile (\<lambda>c. c \<noteq> CHR 0x0A) cs)
      else quoted_loop B rule html skip_list rep vars cs (out @ [c]))"
  by pat_completeness auto

termination
  by (relation "measure (\<lambda>(B, rule, html, skip_list, rep, vars, s, out). length s)")
     (auto simp: length_dropWhile_le less_Suc_eq_le le_diff_conv dest: end_shorter)

declare quoted_loop.simps [simp del]

definition embed_quoted_literal :: "boost \<Rightarrow> Rule \<Rightarrow> bool \<Rightarrow> regex list \<Rightarrow> rw_vars \<Rightarrow> string \<Rightarrow> (bool \<times> rw_vars \<times> string) rw" where
  "embed_quoted_literal B rule html_context skip_list vars content =
     quoted_loop B rule html_context skip_list False vars content []"

definition Within_exec :: "boost \<Rightarrow> Within \<Rightarrow> regex list \<Rightarrow> bool \<Rightarrow> rw_vars \<Rightarrow> string \<Rightarrow> (bool \<times> rw_vars \<times> string) rw" where
  "Within_exec B wi skip_list anchor vars txt =
     (if wi_type wi = ''quoted-literal'' then embed_quoted_literal B (wi_rule wi) True skip_list vars txt
      else test_patterns B (wi_rule wi) skip_list anchor vars txt)"

section \<open>HTML\<close>

text \<open>The events of the scanner: the output so far, the elements whose text is rewritten, and the variables.\<close>

record Event =
  ev_w :: string
  s_within :: "Within list"
  m_vars :: rw_vars

definition Event_new :: "rw_vars \<Rightarrow> Event" where
  "Event_new vars = \<lparr>ev_w = [], s_within = [], m_vars = vars\<rparr>"

definition re_matches :: "boost \<Rightarrow> regex option \<Rightarrow> string \<Rightarrow> bool" where
  "re_matches B re s = (case re of Some r \<Rightarrow> regex_match B r s | None \<Rightarrow> False)"

definition Event_openTagStart :: "boost \<Rightarrow> Content \<Rightarrow> string \<Rightarrow> Event \<Rightarrow> Event" where
  "Event_openTagStart B ct tag ev =
     (let ev = ev\<lparr>ev_w := ev_w ev @ ''<'' @ tag\<rparr> in
      case find (\<lambda>wi. re_matches B (wi_tag wi) tag \<and> re_matches B (wi_attr wi) ''#text'') (within_list ct) of
        Some wi \<Rightarrow> ev\<lparr>s_within := wi # s_within ev\<rparr>
      | None \<Rightarrow> ev)"

definition Event_leave :: "boost \<Rightarrow> string \<Rightarrow> Event \<Rightarrow> Event" where
  "Event_leave B tag ev =
     (case s_within ev of
        wi # rest \<Rightarrow> if re_matches B (wi_tag wi) tag then ev\<lparr>s_within := rest\<rparr> else ev
      | [] \<Rightarrow> ev)"

definition Event_anyTagEnd :: "boost \<Rightarrow> string \<Rightarrow> bool \<Rightarrow> Event \<Rightarrow> Event" where
  "Event_anyTagEnd B tag close_it ev =
     (if close_it then (let ev = Event_leave B tag ev in ev\<lparr>ev_w := ev_w ev @ ''/>''\<rparr>)
      else ev\<lparr>ev_w := ev_w ev @ ''>''\<rparr>)"

definition Event_attribute :: "boost \<Rightarrow> Content \<Rightarrow> regex list \<Rightarrow> string \<Rightarrow> string \<Rightarrow> (string \<times> string) option \<Rightarrow> Event \<Rightarrow> Event rw" where
  "Event_attribute B ct skip_list tag attr val ev =
     (let it = find (\<lambda>wi. (wi_tag wi = None \<or> re_matches B (wi_tag wi) tag) \<and> re_matches B (wi_attr wi) attr) (within_list ct);
          ev = ev\<lparr>ev_w := ev_w ev @ '' '' @ attr\<rparr>
      in case val of
           None \<Rightarrow> Some (Inr ev)
         | Some (v, sep) \<Rightarrow>
             (case it of
                Some wi \<Rightarrow> rw_bind (Within_exec B wi skip_list True (m_vars ev) v) (\<lambda>(b, vars, s).
                  Some (Inr (ev\<lparr>ev_w := ev_w ev @ ''='' @ sep @ s @ sep, m_vars := vars\<rparr>)))
              | None \<Rightarrow> Some (Inr (ev\<lparr>ev_w := ev_w ev @ ''='' @ sep @ v @ sep\<rparr>))))"

definition Event_closeTag :: "boost \<Rightarrow> string \<Rightarrow> Event \<Rightarrow> Event" where
  "Event_closeTag B tag ev = (let ev = Event_leave B tag ev in ev\<lparr>ev_w := ev_w ev @ ''</'' @ tag\<rparr>)"

definition Event_text :: "boost \<Rightarrow> regex list \<Rightarrow> string \<Rightarrow> Event \<Rightarrow> Event rw" where
  "Event_text B skip_list v ev =
     (case s_within ev of
        wi # _ \<Rightarrow> rw_bind (Within_exec B wi skip_list False (m_vars ev) v) (\<lambda>(b, vars, s).
          Some (Inr (ev\<lparr>ev_w := ev_w ev @ s, m_vars := vars\<rparr>)))
      | [] \<Rightarrow> Some (Inr (ev\<lparr>ev_w := ev_w ev @ v\<rparr>)))"

fun Event_handle :: "boost \<Rightarrow> Content \<Rightarrow> regex list \<Rightarrow> html_event \<Rightarrow> Event \<Rightarrow> Event rw" where
  "Event_handle B ct sl (ev_openTagStart tag) ev = Some (Inr (Event_openTagStart B ct tag ev))"
| "Event_handle B ct sl (ev_anyTagEnd tag c) ev = Some (Inr (Event_anyTagEnd B tag c ev))"
| "Event_handle B ct sl (ev_attribute tag attr val) ev = Event_attribute B ct sl tag attr val ev"
| "Event_handle B ct sl (ev_closeTag tag) ev = Some (Inr (Event_closeTag B tag ev))"
| "Event_handle B ct sl (ev_text v) ev = Event_text B sl v ev"

fun Event_run :: "boost \<Rightarrow> Content \<Rightarrow> regex list \<Rightarrow> html_event list \<Rightarrow> Event \<Rightarrow> Event rw" where
  "Event_run B ct sl [] ev = Some (Inr ev)"
| "Event_run B ct sl (e # es) ev = rw_bind (Event_handle B ct sl e ev) (Event_run B ct sl es)"

section \<open>Contents\<close>

definition Content_quoted_literal :: "boost \<Rightarrow> Content \<Rightarrow> regex list \<Rightarrow> rw_vars \<Rightarrow> string \<Rightarrow> (rw_vars \<times> string) rw" where
  "Content_quoted_literal B ct skip_list vars content =
     (case within_list ct of
        wi # _ \<Rightarrow> rw_bind (embed_quoted_literal B (wi_rule wi) False skip_list vars content)
          (\<lambda>(b, vars, s). Some (Inr (vars, s)))
      | [] \<Rightarrow> Some (Inr (vars, content)))"

text \<open>\<open>sc\<close> is the comparison without case that the scanner uses.\<close>

definition Content_parse :: "boost \<Rightarrow> (string \<Rightarrow> string \<Rightarrow> bool) \<Rightarrow> Content \<Rightarrow> regex list \<Rightarrow> rw_vars \<Rightarrow> string \<Rightarrow> (rw_vars \<times> string) rw" where
  "Content_parse B sc ct skip_list vars content =
     rw_bind
       (if ct_type ct = ''html''
        then rw_bind (Event_run B ct skip_list (fst (parse_str sc True [] content)) (Event_new vars))
          (\<lambda>ev. Some (Inr (m_vars ev, ev_w ev)))
        else Some (Inr (vars, content)))
       (\<lambda>(vars, content).
        if ct_type ct = ''quoted-literal'' then Content_quoted_literal B ct skip_list vars content
        else Some (Inr (vars, content)))"

section \<open>Phases\<close>

definition headers_content :: "Phase \<Rightarrow> Content option" where
  "headers_content ph = find (\<lambda>ct. ct_type ct = ''headers'') (content_list ph)"

fun reqline_loop :: "boost \<Rightarrow> Within list \<Rightarrow> rw_vars \<Rightarrow> string \<Rightarrow> string \<Rightarrow> (rw_vars \<times> string) rw" where
  "reqline_loop B [] vars path hpath = Some (Inr (vars, hpath))"
| "reqline_loop B (wi # ws) vars path hpath =
     (if wi_reqline wi
      then rw_bind (Within_exec B wi [] True vars path) (\<lambda>(b, vars, path).
        reqline_loop B ws vars path (if b then path else hpath))
      else reqline_loop B ws vars path hpath)"

definition is_absolute :: "string \<Rightarrow> bool" where
  "is_absolute path \<longleftrightarrow> take 7 path = ''http://'' \<or> take 8 path = ''https://''"

definition bind_proto :: "string \<Rightarrow> string" where
  "bind_proto bind_addr = (if take 4 bind_addr = ''ssl:'' then ''https'' else ''http'')"

definition rewrite_reqline :: "boost \<Rightarrow> yaz \<Rightarrow> Phase \<Rightarrow> string \<Rightarrow> rw_vars \<Rightarrow> Z_HTTP_Request \<Rightarrow> (rw_vars \<times> Z_HTTP_Request) rw" where
  "rewrite_reqline B Y ph bind_addr vars hreq =
     (case (if is_absolute (hrq_path hreq) then Some (hrq_path hreq)
            else map_option (\<lambda>host. bind_proto bind_addr @ ''://'' @ host @ hrq_path hreq)
              (z_HTTP_header_lookup Y (hrq_headers hreq) ''Host'')) of
        None \<Rightarrow> Some (Inr (vars, hreq))
      | Some path \<Rightarrow>
          (case headers_content ph of
             None \<Rightarrow> Some (Inr (vars, hreq))
           | Some ct \<Rightarrow> rw_bind (reqline_loop B (within_list ct) vars path (hrq_path hreq))
               (\<lambda>(vars, path). Some (Inr (vars, hreq\<lparr>hrq_path := path\<rparr>)))))"

text \<open>The headers with which a client tells that links are not to be rewritten; \<open>hr\<close> takes the first header of a
  name out of a list, a function of YAZ.\<close>

partial_function (option) skip_loop :: "boost \<Rightarrow> (Z_HTTP_Header list \<Rightarrow> string \<Rightarrow> (string \<times> Z_HTTP_Header list) option) \<Rightarrow> string
    \<Rightarrow> Z_HTTP_Header list \<Rightarrow> regex list \<Rightarrow> (rw_error + Z_HTTP_Header list \<times> regex list) option" where
  "skip_loop B hr url headers skip_list =
     (case hr headers ''X-Metaproxy-SkipLink'' of
        None \<Rightarrow> Some (Inr (headers, skip_list))
      | Some (hv, headers) \<Rightarrow>
          (case strchr_split (CHR '' '') hv of
             None \<Rightarrow> skip_loop B hr url headers skip_list
           | Some (page, link) \<Rightarrow>
               if \<not> regex_valid B page then Some (Inl RW_regex)
               else if regex_search B \<lparr>re_pattern = page, re_icase = False\<rparr> url \<noteq> None
               then (if regex_valid B link
                     then skip_loop B hr url headers (skip_list @ [\<lparr>re_pattern = link, re_icase = False\<rparr>])
                     else Some (Inl RW_regex))
               else skip_loop B hr url headers skip_list))"

definition read_skip_headers :: "boost \<Rightarrow> yaz \<Rightarrow> (Z_HTTP_Header list \<Rightarrow> string \<Rightarrow> (string \<times> Z_HTTP_Header list) option) \<Rightarrow> string
    \<Rightarrow> Z_HTTP_Request \<Rightarrow> (Z_HTTP_Request \<times> regex list) rw" where
  "read_skip_headers B Y hr bind_addr hreq =
     (let url = (if is_absolute (hrq_path hreq) then hrq_path hreq
                 else case z_HTTP_header_lookup Y (hrq_headers hreq) ''Host'' of
                   Some host \<Rightarrow> bind_proto bind_addr @ ''://'' @ host @ hrq_path hreq
                 | None \<Rightarrow> hrq_path hreq)
      in rw_bind (skip_loop B hr url (hrq_headers hreq) [])
           (\<lambda>(headers, skip_list). Some (Inr (hreq\<lparr>hrq_headers := headers\<rparr>, skip_list))))"

fun rewrite_header :: "boost \<Rightarrow> Within list \<Rightarrow> rw_vars \<Rightarrow> Z_HTTP_Header \<Rightarrow> (rw_vars \<times> Z_HTTP_Header) rw" where
  "rewrite_header B [] vars h = Some (Inr (vars, h))"
| "rewrite_header B (wi # ws) vars h =
     (case wi_header wi of
        None \<Rightarrow> rewrite_header B ws vars h
      | Some re \<Rightarrow>
          (case hdr_name h of
             None \<Rightarrow> Some (Inl RW_null)
           | Some n \<Rightarrow>
               if \<not> regex_match B re n then rewrite_header B ws vars h
               else (case hdr_value h of
                       None \<Rightarrow> Some (Inl RW_null)
                     | Some v \<Rightarrow> rw_bind (Within_exec B wi [] True vars v) (\<lambda>(b, vars, v).
                         rewrite_header B ws vars (if b then h\<lparr>hdr_value := Some v\<rparr> else h)))))"

fun rewrite_headers_loop :: "boost \<Rightarrow> Within list \<Rightarrow> rw_vars \<Rightarrow> Z_HTTP_Header list \<Rightarrow> (rw_vars \<times> Z_HTTP_Header list) rw" where
  "rewrite_headers_loop B ws vars [] = Some (Inr (vars, []))"
| "rewrite_headers_loop B ws vars (h # hs) =
     rw_bind (rewrite_header B ws vars h) (\<lambda>(vars, h).
     rw_bind (rewrite_headers_loop B ws vars hs) (\<lambda>(vars, hs). Some (Inr (vars, h # hs))))"

definition rewrite_headers :: "boost \<Rightarrow> Phase \<Rightarrow> rw_vars \<Rightarrow> Z_HTTP_Header list \<Rightarrow> (rw_vars \<times> Z_HTTP_Header list) rw" where
  "rewrite_headers B ph vars headers =
     (case headers_content ph of
        None \<Rightarrow> Some (Inr (vars, headers))
      | Some ct \<Rightarrow> rewrite_headers_loop B (within_list ct) vars headers)"

text \<open>The content section for a type; an expression that was never set cannot be matched with.\<close>

fun find_content :: "boost \<Rightarrow> Content list \<Rightarrow> string \<Rightarrow> rw_error + Content option" where
  "find_content B [] content_type = Inr None"
| "find_content B (ct # cts) content_type =
     (if ct_type ct = ''headers'' then find_content B cts content_type
      else case content_re ct of
        None \<Rightarrow> Inl RW_regex
      | Some re \<Rightarrow> if regex_match B re content_type then Inr (Some ct) else find_content B cts content_type)"

definition rewrite_body :: "boost \<Rightarrow> (string \<Rightarrow> string \<Rightarrow> bool) \<Rightarrow> Phase \<Rightarrow> regex list \<Rightarrow> string option \<Rightarrow> rw_vars \<Rightarrow> octets \<Rightarrow> (rw_vars \<times> octets) rw" where
  "rewrite_body B sc ph skip_list content_type vars content =
     (if length content = 0 then Some (Inr (vars, content))
      else case content_type of
        None \<Rightarrow> Some (Inr (vars, content))
      | Some t \<Rightarrow>
          (case find_content B (content_list ph) t of
             Inl e \<Rightarrow> Some (Inl e)
           | Inr None \<Rightarrow> Some (Inr (vars, content))
           | Inr (Some ct) \<Rightarrow>
               if \<not> list_all is_c_char content then Some (Inr (vars, content))
               else rw_bind (Content_parse B sc ct skip_list vars content)
                 (\<lambda>(vars, content). Some (Inr (vars, takeWhile is_c_char content)))))"

section \<open>Processing\<close>

record rw_env =
  rw_boost :: boost
  yaz_strncasecmp_eq :: "string \<Rightarrow> string \<Rightarrow> bool"
  z_HTTP_header_remove :: "Z_HTTP_Header list \<Rightarrow> string \<Rightarrow> (string \<times> Z_HTTP_Header list) option"

definition HttpRewrite_request :: "rw_env \<Rightarrow> yaz \<Rightarrow> Phase \<Rightarrow> string \<Rightarrow> Z_HTTP_Request \<Rightarrow> (rw_vars \<times> regex list \<times> Z_HTTP_Request) rw" where
  "HttpRewrite_request E Y ph bind_addr hreq =
     rw_bind (rewrite_reqline (rw_boost E) Y ph bind_addr Map.empty hreq) (\<lambda>(vars, hreq).
     rw_bind (read_skip_headers (rw_boost E) Y (z_HTTP_header_remove E) bind_addr hreq) (\<lambda>(hreq, skip_list).
     rw_bind (rewrite_headers (rw_boost E) ph vars (hrq_headers hreq)) (\<lambda>(vars, headers).
     rw_bind (rewrite_body (rw_boost E) (yaz_strncasecmp_eq E) ph skip_list (z_HTTP_header_lookup Y headers ''Content-Type'') vars (hrq_content hreq))
       (\<lambda>(vars, content). Some (Inr (vars, skip_list, hreq\<lparr>hrq_headers := headers, hrq_content := content\<rparr>))))))"

definition HttpRewrite_response :: "rw_env \<Rightarrow> yaz \<Rightarrow> Phase \<Rightarrow> regex list \<Rightarrow> rw_vars \<Rightarrow> Z_HTTP_Response \<Rightarrow> Z_HTTP_Response rw" where
  "HttpRewrite_response E Y ph skip_list vars hres =
     rw_bind (rewrite_headers (rw_boost E) ph vars (hrs_headers hres)) (\<lambda>(vars, headers).
     rw_bind (rewrite_body (rw_boost E) (yaz_strncasecmp_eq E) ph skip_list (z_HTTP_header_lookup Y headers ''Content-Type'') vars (hrs_content hres))
       (\<lambda>(vars, content). Some (Inr (hres\<lparr>hrs_headers := headers, hrs_content := content\<rparr>))))"

definition HttpRewrite_process :: "rw_env \<Rightarrow> yaz \<Rightarrow> Phase \<Rightarrow> Phase \<Rightarrow> 'w move_fn \<Rightarrow> package \<Rightarrow> 'w world_scheme \<Rightarrow> (package \<times> 'w world_scheme) rw" where
  "HttpRewrite_process E Y req_phase res_phase mv p w =
     rw_bind
       (case pkg_request p of
          Some (GDU_HTTP_Request hreq) \<Rightarrow>
            rw_bind (HttpRewrite_request E Y req_phase (Origin_get_bind_address (pkg_origin p)) hreq)
              (\<lambda>(vars, skip_list, hreq). Some (Inr (vars, skip_list, p\<lparr>pkg_request := Some (GDU_HTTP_Request hreq)\<rparr>)))
        | _ \<Rightarrow> Some (Inr (Map.empty, [], p)))
       (\<lambda>(vars, skip_list, p).
        let (p, w) = mv [] p w in
        case pkg_response p of
          Some (GDU_HTTP_Response hres) \<Rightarrow>
            rw_bind (HttpRewrite_response E Y res_phase skip_list vars hres)
              (\<lambda>hres. Some (Inr (p\<lparr>pkg_response := Some (GDU_HTTP_Response hres)\<rparr>, w)))
        | _ \<Rightarrow> Some (Inr (p, w)))"

section \<open>Configuration\<close>

definition within_regex :: "boost \<Rightarrow> string \<Rightarrow> rw_error + regex option" where
  "within_regex B v =
     (if length v = 0 then Inr None
      else if regex_valid B v then Inr (Some \<lparr>re_pattern = v, re_icase = True\<rparr>) else Inl RW_regex)"

definition no_rule :: "string \<Rightarrow> rw_error" where
  "no_rule n = rw_throw (''Reference to non-existing rule '' @ apos @ n @ apos @ '' in http_rewrite filter'')"

fun join_rules :: "(string \<rightharpoonup> Rule) \<Rightarrow> string list \<Rightarrow> rw_error + Rule" where
  "join_rules rules [] = Inr []"
| "join_rules rules (n # ns) =
     (case rules n of
        None \<Rightarrow> Inl (no_rule n)
      | Some r \<Rightarrow> (case join_rules rules ns of Inl e \<Rightarrow> Inl e | Inr rs \<Rightarrow> Inr (r @ rs)))"

definition Content_within :: "boost \<Rightarrow> (string \<rightharpoonup> Rule) \<Rightarrow> xml_node list \<Rightarrow> rw_error + Within" where
  "Content_within B rules ptr =
     (case parse_attr ptr [''header'', ''attr'', ''tag'', ''rule'', ''reqline'', ''type''] of
        Inl e \<Rightarrow> Inl (RW_exception e)
      | Inr values \<Rightarrow>
          (case within_regex B (values ! 0) of Inl e \<Rightarrow> Inl e | Inr h \<Rightarrow>
           (case within_regex B (values ! 1) of Inl e \<Rightarrow> Inl e | Inr a \<Rightarrow>
            (case within_regex B (values ! 2) of Inl e \<Rightarrow> Inl e | Inr t \<Rightarrow>
             (case join_rules rules (split_at (CHR '','') (values ! 3)) of Inl e \<Rightarrow> Inl e | Inr rule \<Rightarrow>
              if values ! 5 = [] \<or> values ! 5 = ''quoted-literal''
              then Inr \<lparr>wi_header = h, wi_attr = a, wi_tag = t, wi_type = values ! 5, wi_reqline = (values ! 4 = ''1''), wi_rule = rule\<rparr>
              else Inl (rw_throw ''within type must be quoted-literal or none in  in http_rewrite filter''))))))"

fun Content_configure :: "boost \<Rightarrow> (string \<rightharpoonup> Rule) \<Rightarrow> xml_node list \<Rightarrow> Content \<Rightarrow> rw_error + Content" where
  "Content_configure B rules [] ct = Inr ct"
| "Content_configure B rules (n # ns) ct =
     (if node_type n = XML_ELEMENT_NODE \<and> node_name n = ''within''
      then (case Content_within B rules (n # ns) of
              Inl e \<Rightarrow> Inl e
            | Inr wi \<Rightarrow> Content_configure B rules ns (ct\<lparr>within_list := within_list ct @ [wi]\<rparr>))
      else Content_configure B rules ns ct)"

fun rewrite_attrs :: "xml_attr list \<Rightarrow> string \<Rightarrow> string \<Rightarrow> rw_error + string \<times> string" where
  "rewrite_attrs [] from rcp = Inr (from, rcp)"
| "rewrite_attrs (a # ats) from rcp =
     (if attr_name a = ''from'' then rewrite_attrs ats (get_text (attr_children a)) rcp
      else if attr_name a = ''to'' then rewrite_attrs ats from (get_text (attr_children a))
      else Inl (rw_throw (''Bad attribute '' @ attr_name a @ '' in rewrite section of http_rewrite'')))"

definition bad_element :: "xml_node \<Rightarrow> rw_error" where
  "bad_element n = rw_throw (''Bad element '' @ node_name n @ '' in http_rewrite filter'')"

fun configure_rule :: "boost \<Rightarrow> xml_node list \<Rightarrow> Rule \<Rightarrow> rw_error + Rule" where
  "configure_rule B [] rule = Inr rule"
| "configure_rule B (n # ns) rule =
     (if node_type n \<noteq> XML_ELEMENT_NODE then configure_rule B ns rule
      else if node_name n \<noteq> ''rewrite'' then Inl (bad_element n)
      else (case rewrite_attrs (node_attrs n) [] [] of
              Inl e \<Rightarrow> Inl e
            | Inr (from, rcp) \<Rightarrow>
                if from = [] then configure_rule B ns rule
                else (case parse_groups B from rcp of
                        Inl e \<Rightarrow> Inl e
                      | Inr r \<Rightarrow> configure_rule B ns (rule @ [r]))))"

definition configure_content :: "boost \<Rightarrow> (string \<rightharpoonup> Rule) \<Rightarrow> xml_node list \<Rightarrow> rw_error + Content" where
  "configure_content B rules ptr =
     (case parse_attr ptr [''type'', ''mime''] of
        Inl e \<Rightarrow> Inl (RW_exception e)
      | Inr values \<Rightarrow>
          if values ! 0 = []
          then Inl (rw_throw (''Missing attribute, type for for element '' @ node_name (hd ptr) @ '' in http_rewrite filter''))
          else (case within_regex B (values ! 1) of
                  Inl e \<Rightarrow> Inl e
                | Inr re \<Rightarrow> Content_configure B rules (node_children (hd ptr)) \<lparr>ct_type = values ! 0, content_re = re, within_list = []\<rparr>))"

fun configure_sections :: "boost \<Rightarrow> xml_node list \<Rightarrow> (string \<rightharpoonup> Rule) \<Rightarrow> Phase \<Rightarrow> rw_error + Phase" where
  "configure_sections B [] rules ph = Inr ph"
| "configure_sections B (n # ns) rules ph =
     (if node_type n \<noteq> XML_ELEMENT_NODE then configure_sections B ns rules ph
      else if node_name n = ''rule''
      then (case parse_attr (n # ns) [''name''] of
              Inl e \<Rightarrow> Inl (RW_exception e)
            | Inr values \<Rightarrow>
                (case configure_rule B (node_children n) [] of
                   Inl e \<Rightarrow> Inl e
                 | Inr rule \<Rightarrow> configure_sections B ns (rules(values ! 0 \<mapsto> rule)) ph))
      else if node_name n = ''content''
      then (case configure_content B rules (n # ns) of
              Inl e \<Rightarrow> Inl e
            | Inr ct \<Rightarrow> configure_sections B ns rules (ph\<lparr>content_list := content_list ph @ [ct]\<rparr>))
      else Inl (bad_element n))"

definition configure_phase :: "boost \<Rightarrow> xml_node list \<Rightarrow> Phase \<Rightarrow> rw_error + Phase" where
  "configure_phase B ptr ph =
     (case parse_attr ptr [''verbose''] of
        Inl e \<Rightarrow> Inl (RW_exception e)
      | Inr values \<Rightarrow> configure_sections B (node_children (hd ptr)) Map.empty (ph\<lparr>m_verbose := atoi (values ! 0)\<rparr>))"

fun HttpRewrite_elements :: "boost \<Rightarrow> xml_node list \<Rightarrow> Phase \<times> Phase \<Rightarrow> rw_error + Phase \<times> Phase" where
  "HttpRewrite_elements B [] phs = Inr phs"
| "HttpRewrite_elements B (n # ns) phs =
     (if node_type n \<noteq> XML_ELEMENT_NODE then HttpRewrite_elements B ns phs
      else if node_name n = ''request''
      then (case configure_phase B (n # ns) (fst phs) of Inl e \<Rightarrow> Inl e | Inr ph \<Rightarrow> HttpRewrite_elements B ns (ph, snd phs))
      else if node_name n = ''response''
      then (case configure_phase B (n # ns) (snd phs) of Inl e \<Rightarrow> Inl e | Inr ph \<Rightarrow> HttpRewrite_elements B ns (fst phs, ph))
      else Inl (bad_element n))"

definition HttpRewrite_configure :: "boost \<Rightarrow> xml_node \<Rightarrow> Phase \<times> Phase \<Rightarrow> rw_error + Phase \<times> Phase" where
  "HttpRewrite_configure B ptr phs = HttpRewrite_elements B (node_children ptr) phs"

end
