(* ===== verification/MP_Http_Rewrite_Props.thy ===== *)
theory MP_Http_Rewrite_Props
  imports MP_Http_Rewrite
begin

text \<open>
  Properties of the http_rewrite filter: what the rules make of a text, when the loop over the matches
  ends, what is changed inside of scripts, and the syntax of recipes.
\<close>

section \<open>The leftmost match\<close>

text \<open>What is assumed of boost: a match lies within the text that is searched.\<close>

definition regex_laws :: "boost \<Rightarrow> bool" where
  "regex_laws B \<longleftrightarrow> (\<forall>re s m. regex_search B re s = Some m \<longrightarrow> mt_pos m + mt_len m \<le> length s)"

definition usable :: "bool \<Rightarrow> Rule \<Rightarrow> Replace \<Rightarrow> bool" where
  "usable first rule r \<longleftrightarrow> r \<in> set rule \<and> (first \<or> \<not> start_anchor r)"

lemma usable_simps [simp]:
  "usable first [] r = False"
  "usable first (q # rule) r \<longleftrightarrow> (r = q \<and> (first \<or> \<not> start_anchor q)) \<or> usable first rule r"
  by (auto simp: usable_def)

text \<open>The best match after one more rule.\<close>

definition better :: "boost \<Rightarrow> bool \<Rightarrow> string \<Rightarrow> Replace \<Rightarrow> (Replace \<times> re_match) option \<Rightarrow> (Replace \<times> re_match) option" where
  "better B first s q best =
     (if start_anchor q \<and> \<not> first then best
      else case regex_search B (rp_re q) s of
        None \<Rightarrow> best
      | Some k \<Rightarrow> (case best of None \<Rightarrow> Some (q, k) | Some (_, bm) \<Rightarrow> if mt_pos k < mt_pos bm then Some (q, k) else best))"

lemma best_match_Cons: "best_match B first (q # rule) s best = best_match B first rule s (better B first s q best)"
  by (simp add: better_def split: option.split)

lemma better_None: "better B first s q best = None \<longleftrightarrow>
  best = None \<and> (first \<or> \<not> start_anchor q \<longrightarrow> regex_search B (rp_re q) s = None)"
  by (auto simp: better_def split: option.splits)

lemma better_Some:
  "better B first s q best = Some (r, m) \<Longrightarrow> best = Some (r, m) \<or> (first \<or> \<not> start_anchor q) \<and> r = q \<and> regex_search B (rp_re q) s = Some m"
  by (auto simp: better_def split: if_splits option.splits)

lemma better_pos:
  "best = Some (q0, k) \<Longrightarrow> \<exists>q1 k1. better B first s q best = Some (q1, k1) \<and> mt_pos k1 \<le> mt_pos k"
  "first \<or> \<not> start_anchor q \<Longrightarrow> regex_search B (rp_re q) s = Some k \<Longrightarrow>
     \<exists>q1 k1. better B first s q best = Some (q1, k1) \<and> mt_pos k1 \<le> mt_pos k"
  by (auto simp: better_def split: option.splits)

lemma best_match_None:
  "best_match B first rule s best = None \<longleftrightarrow>
     best = None \<and> (\<forall>r. usable first rule r \<longrightarrow> regex_search B (rp_re r) s = None)"
proof (induction rule arbitrary: best)
  case (Cons q rule)
  show ?case unfolding best_match_Cons Cons.IH better_None by auto
qed simp

lemma best_match_Some:
  "best_match B first rule s best = Some (r, m) \<Longrightarrow>
     best = Some (r, m) \<or> usable first rule r \<and> regex_search B (rp_re r) s = Some m"
proof (induction rule arbitrary: best)
  case (Cons q rule)
  show ?case using Cons.IH [OF Cons.prems [unfolded best_match_Cons]] better_Some by fastforce
qed simp

lemma best_match_before:
  "best_match B first rule s best = Some (r, m) \<Longrightarrow> best = Some (q, k) \<Longrightarrow> mt_pos m \<le> mt_pos k"
proof (induction rule arbitrary: best q k)
  case (Cons q0 rule)
  obtain q1 k1 where "better B first s q0 best = Some (q1, k1)" "mt_pos k1 \<le> mt_pos k"
    using better_pos(1) [OF Cons.prems(2)] by blast
  with Cons.IH [OF Cons.prems(1) [unfolded best_match_Cons]] show ?case by (meson le_trans)
qed simp

lemma best_match_leftmost:
  "best_match B first rule s best = Some (r, m) \<Longrightarrow> usable first rule q \<Longrightarrow> regex_search B (rp_re q) s = Some k \<Longrightarrow>
     mt_pos m \<le> mt_pos k"
proof (induction rule arbitrary: best)
  case (Cons q0 rule)
  note b = Cons.prems(1) [unfolded best_match_Cons]
  show ?case
  proof (cases "usable first rule q")
    case True
    then show ?thesis using Cons.IH [OF b] Cons.prems(3) by blast
  next
    case False
    then obtain q1 k1 where "better B first s q0 best = Some (q1, k1)" "mt_pos k1 \<le> mt_pos k"
      using Cons.prems(2,3) better_pos(2) [of first q0 B s k best] by auto
    with best_match_before [OF b] show ?thesis by (meson le_trans)
  qed
qed simp

section \<open>Recipes\<close>

text \<open>Recipes as lists of characters and references, with special characters escaped.\<close>

datatype rw_item = RChar char | RVar string

fun print_rw_item :: "rw_item \<Rightarrow> string" where
  "print_rw_item (RChar c) = (if c = CHR 0x5C \<or> c = CHR ''$'' then [CHR 0x5C, c] else [c])"
| "print_rw_item (RVar n) = ''${'' @ n @ ''}''"

fun rw_item_value :: "rw_vars \<Rightarrow> rw_item \<Rightarrow> string" where
  "rw_item_value vars (RChar c) = [c]"
| "rw_item_value vars (RVar n) = (case vars n of Some v \<Rightarrow> v | None \<Rightarrow> [])"

fun rw_item_ok :: "rw_item \<Rightarrow> bool" where
  "rw_item_ok (RChar c) = True"
| "rw_item_ok (RVar n) = (CHR ''}'' \<notin> set n)"

lemma sub_vars_items:
  "list_all rw_item_ok its \<Longrightarrow>
     sub_vars_from vars inp False (concat (map print_rw_item its)) = Inr (concat (map (rw_item_value vars) its))"
proof (induction its)
  case Nil
  show ?case by (simp add: sub_vars_from.simps)
next
  case (Cons i its)
  then have IH: "sub_vars_from vars inp False (concat (map print_rw_item its)) = Inr (concat (map (rw_item_value vars) its))"
    by simp
  show ?case
  proof (cases i)
    case (RChar c)
    then show ?thesis using IH by (auto simp: sub_vars_from.simps)
  next
    case (RVar n)
    then have "strchr_split (CHR ''}'') (n @ CHR ''}'' # concat (map print_rw_item its)) = Some (n, concat (map print_rw_item its))"
      using Cons.prems by (intro strchr_split_append) simp
    then show ?thesis using IH RVar by (simp add: sub_vars_from.simps)
  qed
qed

text \<open>Whether a recipe is well formed does not depend on the values of the variables.\<close>

lemma sub_vars_from_defined:
  "sub_vars_from vars inp esc s = Inr v \<Longrightarrow> \<exists>v'. sub_vars_from vars' inp esc s = Inr v'"
proof (induction vars inp esc s arbitrary: v rule: sub_vars_from.induct)
  case (1 vars inp esc)
  show ?case by (simp add: sub_vars_from.simps)
next
  case (2 vars inp esc c cs)
  consider (esc) "\<not> esc" "c = CHR 0x5C" | (var) "\<not> esc" "c = CHR ''$''" | (other) "esc \<or> c \<noteq> CHR 0x5C \<and> c \<noteq> CHR ''$''" by auto
  then show ?case
  proof cases
    case esc
    then show ?thesis using 2 by (simp add: sub_vars_from.simps(2))
  next
    case var
    then obtain name rest v0 where "cs \<noteq> []" "hd cs = CHR ''{''" "strchr_split (CHR ''}'') (tl cs) = Some (name, rest)"
      "sub_vars_from vars inp False rest = Inr v0"
      using 2(4) by (auto simp: sub_vars_from.simps(2) split: if_splits option.splits sum.splits)
    moreover from this obtain v1 where "sub_vars_from vars' inp False rest = Inr v1"
      using 2(2) [OF _ _ _ _ refl] var by auto
    ultimately show ?thesis using var by (simp add: sub_vars_from.simps(2))
  next
    case other
    then obtain v0 where "sub_vars_from vars inp False cs = Inr v0"
      using 2(4) by (auto simp: sub_vars_from.simps(2) split: if_splits sum.splits)
    then obtain v1 where "sub_vars_from vars' inp False cs = Inr v1" using 2(3) other by auto
    then show ?thesis using other by (auto simp: sub_vars_from.simps(2))
  qed
qed

definition recipe_wf :: "Replace \<Rightarrow> bool" where
  "recipe_wf r \<longleftrightarrow> (\<exists>v. sub_vars r Map.empty = Inr v)"

lemma recipe_wf_value: "recipe_wf r \<Longrightarrow> \<exists>v. sub_vars r vars = Inr v"
  unfolding recipe_wf_def sub_vars_def using sub_vars_from_defined by blast

section \<open>What the rules make of a text\<close>

text \<open>
  A rewriting splits a text into pieces, each plain text, a match and what replaces it, and a rest. It
  is the one the rules ask for when every match is the leftmost one in what is left, of a rule that may be used
  there (an anchored one only at the start), its groups have set their variables, and it is replaced by the value
  of the recipe of its rule, or kept when it is on the list of what to skip; and the rest has no match.
\<close>

type_synonym rw_piece = "string \<times> string \<times> string"

fun pieces_text :: "rw_piece list \<Rightarrow> string \<Rightarrow> string" where
  "pieces_text [] tail = tail"
| "pieces_text ((pre, mt, out) # ps) tail = pre @ mt @ pieces_text ps tail"

fun pieces_out :: "rw_piece list \<Rightarrow> string \<Rightarrow> string" where
  "pieces_out [] tail = tail"
| "pieces_out ((pre, mt, out) # ps) tail = pre @ out @ pieces_out ps tail"

fun pieces_ok :: "boost \<Rightarrow> Rule \<Rightarrow> regex list \<Rightarrow> bool \<Rightarrow> rw_vars \<Rightarrow> rw_piece list \<Rightarrow> string \<Rightarrow> rw_vars \<Rightarrow> bool" where
  "pieces_ok B rule sl first vars [] tail vars' \<longleftrightarrow>
     vars' = vars \<and> (\<forall>r. usable first rule r \<longrightarrow> regex_search B (rp_re r) tail = None)"
| "pieces_ok B rule sl first vars ((pre, mt, out) # ps) tail vars' \<longleftrightarrow>
     (let s = pre @ mt @ pieces_text ps tail in
      mt \<noteq> [] \<and>
      (\<forall>q k. usable first rule q \<longrightarrow> regex_search B (rp_re q) s = Some k \<longrightarrow> length pre \<le> mt_pos k) \<and>
      (\<exists>r m v. usable first rule r \<and> regex_search B (rp_re r) s = Some m \<and> mt_pos m = length pre \<and> mt_len m = length mt \<and>
         sub_vars r (set_groups r 1 (mt_groups m) vars) = Inr v \<and> out = (if skip_match B sl mt then mt else v) \<and>
         pieces_ok B rule sl False (set_groups r 1 (mt_groups m) vars) ps tail vars'))"

definition never_empty :: "boost \<Rightarrow> Rule \<Rightarrow> bool" where
  "never_empty B rule \<longleftrightarrow> (\<forall>r \<in> set rule. \<forall>s m. regex_search B (rp_re r) s = Some m \<longrightarrow> mt_len m \<noteq> 0)"

lemma rewrite_loop_pieces:
  assumes "regex_laws B" and "never_empty B rule" and "list_all recipe_wf rule" and "list_all is_c_char s"
  shows "\<exists>ps tail vars'. rewrite_loop B rule sl first rep vars s out = Some (Inr (rep \<or> ps \<noteq> [], vars', out @ pieces_out ps tail)) \<and>
     s = pieces_text ps tail \<and> pieces_ok B rule sl first vars ps tail vars'"
  using assms(4)
proof (induction "length s" arbitrary: s first rep vars out rule: less_induct)
  case less
  show ?case
  proof (cases "best_match B first rule s None")
    case None
    then have "rewrite_loop B rule sl first rep vars s out = Some (Inr (rep, vars, out @ s))"
      by (simp add: rewrite_loop.simps)
    moreover have "\<forall>r. usable first rule r \<longrightarrow> regex_search B (rp_re r) s = None" using None best_match_None by blast
    ultimately show ?thesis by (intro exI [of _ "[]"] exI [of _ s] exI [of _ vars]) simp
  next
    case (Some rm)
    obtain r m where rm: "rm = (r, m)" by (cases rm)
    have r: "usable first rule r" "regex_search B (rp_re r) s = Some m"
      using best_match_Some [OF Some [unfolded rm]] by auto
    then have len: "mt_pos m + mt_len m \<le> length s" "mt_len m \<noteq> 0" and "recipe_wf r"
      using assms(1-3) by (auto simp: regex_laws_def never_empty_def usable_def list_all_iff)
    define vars1 where "vars1 = set_groups r 1 (mt_groups m) vars"
    obtain v where v: "sub_vars r vars1 = Inr v" using recipe_wf_value [OF \<open>recipe_wf r\<close>] by blast
    define pre mt s' where "pre = take (mt_pos m) s" and "mt = take (mt_len m) (drop (mt_pos m) s)" and "s' = drop (mt_pos m + mt_len m) s"
    have s: "s = pre @ mt @ s'" and lens: "length pre = mt_pos m" "length mt = mt_len m"
      using len by (simp_all add: pre_def mt_def s'_def add.commute flip: drop_drop)
    define o1 where "o1 = (if skip_match B sl mt then mt else v)"
    have tw: "takeWhile is_c_char mt = mt" using less.prems s by (auto simp: list_all_iff)
    have "rewrite_loop B rule sl first rep vars s out = rewrite_loop B rule sl False True vars1 s'
        (out @ pre @ (if skip_match B sl mt then takeWhile is_c_char mt else v))"
      by (rule trans [OF rewrite_loop.simps])
        (simp only: Some rm option.case prod.case Let_def v [unfolded vars1_def] sum.case vars1_def pre_def mt_def s'_def)
    then have step: "rewrite_loop B rule sl first rep vars s out = rewrite_loop B rule sl False True vars1 s' (out @ pre @ o1)"
      unfolding tw o1_def .
    have "length s' < length s" "list_all is_c_char s'" using len less.prems by (auto simp: s'_def list_all_iff dest: in_set_dropD)
    then obtain ps tail vars' where rest: "rewrite_loop B rule sl False True vars1 s' (out @ pre @ o1) =
        Some (Inr (True \<or> ps \<noteq> [], vars', (out @ pre @ o1) @ pieces_out ps tail))"
      "s' = pieces_text ps tail" "pieces_ok B rule sl False vars1 ps tail vars'"
      using less.hyps by blast
    have "\<forall>q k. usable first rule q \<longrightarrow> regex_search B (rp_re q) s = Some k \<longrightarrow> length pre \<le> mt_pos k"
      using best_match_leftmost [OF Some [unfolded rm]] lens by auto
    moreover have "mt \<noteq> []" using lens len by auto
    ultimately have "pieces_ok B rule sl first vars ((pre, mt, o1) # ps) tail vars'"
      using r rest(3) v lens unfolding pieces_ok.simps Let_def rest(2) [symmetric] s [symmetric] o1_def vars1_def
      by (intro conjI exI [of _ r] exI [of _ m] exI [of _ v]) simp_all
    then show ?thesis using step rest s
      by (intro exI [of _ "(pre, mt, o1) # ps"] exI [of _ tail] exI [of _ vars']) simp
  qed
qed


text \<open>A pattern that matches the empty text at the start of every text is applied there forever.\<close>

lemma rewrite_loop_diverges:
  assumes "\<not> start_anchor r" and "\<And>s. \<exists>m. regex_search B (rp_re r) s = Some m \<and> mt_pos m = 0 \<and> mt_len m = 0" and "recipe_wf r"
  shows "rewrite_loop B [r] sl first rep vars s out = None"
proof -
  have "\<not> (B = B \<and> [r] = [r])" if some: "rewrite_loop B [r] sl first rep vars s out = Some x" for x
  proof (rule rewrite_loop.raw_induct [OF _ some, where P = "\<lambda>B' rule sl first rep vars s out x. \<not> (B' = B \<and> rule = [r])"], goal_cases)
    case (1 loop B' rule sl first rep vars s out x)
    show ?case
    proof
      assume eq: "B' = B \<and> rule = [r]"
      obtain m where "regex_search B (rp_re r) s = Some m" using assms(2) by blast
      moreover obtain v where "sub_vars r (set_groups r 1 (mt_groups m) vars) = Inr v"
        using recipe_wf_value [OF assms(3)] by blast
      ultimately have "\<exists>vars s out. loop B [r] sl False True vars s out = Some x"
        using 1(2) assms(1) eq by (auto simp: Let_def)
      then show False using 1(1) by blast
    qed
  qed
  then show ?thesis by (cases "rewrite_loop B [r] sl first rep vars s out") auto
qed

theorem test_patterns_empty_match_diverges:
  assumes "\<not> start_anchor r" and "\<And>s. \<exists>m. regex_search B (rp_re r) s = Some m \<and> mt_pos m = 0 \<and> mt_len m = 0" and "recipe_wf r"
  shows "test_patterns B [r] sl anchor vars txt = None"
  unfolding test_patterns_def using assms by (rule rewrite_loop_diverges)

section \<open>Quoted literals\<close>

text \<open>
  What happens inside of a script: the text falls into parts, which are kept or are literals: an opening
  quote (the entity of a quote counts in HTML only), a text on one line, and the quote or the end of the line that
  closes it. The rule is applied to the text.
\<close>

datatype lit_part = Kept string | Literal string string string char

fun parts_in :: "lit_part list \<Rightarrow> string" where
  "parts_in [] = []"
| "parts_in (Kept s # ps) = s @ parts_in ps"
| "parts_in (Literal q a b d # ps) = q @ a @ d # parts_in ps"

fun parts_out :: "lit_part list \<Rightarrow> string" where
  "parts_out [] = []"
| "parts_out (Kept s # ps) = s @ parts_out ps"
| "parts_out (Literal q a b d # ps) = q @ b @ d # parts_out ps"

definition delimiters :: "bool \<Rightarrow> string \<Rightarrow> char \<Rightarrow> bool" where
  "delimiters html q d \<longleftrightarrow> q = [CHR 0x22] \<and> d \<in> {CHR 0x22, CHR 0x0A} \<or> q = [CHR 0x27] \<and> d \<in> {CHR 0x27, CHR 0x0A} \<or>
     html \<and> q = ''&quot;'' \<and> d \<in> {CHR ''&'', CHR 0x0A}"

fun part_ok :: "boost \<Rightarrow> Rule \<Rightarrow> regex list \<Rightarrow> bool \<Rightarrow> lit_part \<Rightarrow> bool" where
  "part_ok B rule sl html (Kept s) \<longleftrightarrow> True"
| "part_ok B rule sl html (Literal q a b d) \<longleftrightarrow> delimiters html q d \<and> CHR 0x0A \<notin> set a \<and>
     (\<exists>vars r vars'. test_patterns B rule sl True vars a = Some (Inr (r, vars', b)))"

lemma literal_end_stop: "literal_end m p s = (a, d # r) \<Longrightarrow> d = m \<or> d = CHR 0x0A"
  by (induction s arbitrary: p a) (auto split: if_splits prod.splits)

lemma entity_end_stop: "entity_end s = (a, d # r) \<Longrightarrow> d = CHR ''&'' \<or> d = CHR 0x0A"
  by (induction s arbitrary: a) (auto split: if_splits prod.splits)

lemma literal_end_line: "literal_end m p s = (a, b) \<Longrightarrow> CHR 0x0A \<notin> set a"
  by (induction s arbitrary: p a) (auto split: if_splits prod.splits)

lemma entity_end_line: "entity_end s = (a, b) \<Longrightarrow> CHR 0x0A \<notin> set a"
  by (induction s arbitrary: a) (auto split: if_splits prod.splits)

lemma rw_bind_SomeE:
  assumes "rw_bind m f = Some (Inr y)"
  obtains x where "m = Some (Inr x)" and "f x = Some (Inr y)"
  using assms by (auto simp: rw_bind_def split: option.splits sum.splits)

lemma quoted_loop_parts:
  "quoted_loop B rule html sl rep vars s out = Some (Inr (rep', vars', out')) \<Longrightarrow>
     \<exists>parts. s = parts_in parts \<and> out' = out @ parts_out parts \<and> list_all (part_ok B rule sl html) parts"
proof (induction B rule html sl rep vars s out rule: quoted_loop.induct)
  case (1 B rule html sl rep vars out)
  then show ?case by (intro exI [of _ "[]"]) (simp add: quoted_loop.simps)
next
  case (2 B rule html sl rep vars c cs out)
  have lit: ?case if split: "c # cs = q @ a @ d # r" "CHR 0x0A \<notin> set a" "delimiters html q d"
    and run: "rw_bind (test_patterns B rule sl True vars a) (\<lambda>(b, vars, t).
       quoted_loop B rule html sl (rep \<or> b) vars r (out @ q @ t @ [d])) = Some (Inr (rep', vars', out'))"
    and IH: "\<And>b v t. quoted_loop B rule html sl (rep \<or> b) v r (out @ q @ t @ [d]) = Some (Inr (rep', vars', out')) \<Longrightarrow>
       \<exists>parts. r = parts_in parts \<and> out' = (out @ q @ t @ [d]) @ parts_out parts \<and> list_all (part_ok B rule sl html) parts"
    for q a d r
  proof -
    obtain b v t where t: "test_patterns B rule sl True vars a = Some (Inr (b, v, t))"
      and "quoted_loop B rule html sl (rep \<or> b) v r (out @ q @ t @ [d]) = Some (Inr (rep', vars', out'))"
      using run by (auto elim!: rw_bind_SomeE)
    from IH [OF this(2)] obtain parts where parts: "r = parts_in parts"
      "out' = (out @ q @ t @ [d]) @ parts_out parts" "list_all (part_ok B rule sl html) parts" by blast
    then show ?thesis using split t by (intro exI [of _ "Literal q a t d # parts"]) auto
  qed
  have plain: ?case if q: "c # cs = q @ r"
    and IH: "\<exists>parts. r = parts_in parts \<and> out' = (out @ q) @ parts_out parts \<and> list_all (part_ok B rule sl html) parts"
    for q r
  proof -
    obtain parts where "r = parts_in parts" "out' = (out @ q) @ parts_out parts" "list_all (part_ok B rule sl html) parts"
      using IH by blast
    then show ?thesis using q by (intro exI [of _ "Kept q # parts"]) simp
  qed
  consider (html) "html \<and> take 6 (c # cs) = ''&quot;''" | (quote) "\<not> (html \<and> take 6 (c # cs) = ''&quot;'')" "c = CHR 0x22 \<or> c = CHR 0x27"
    | (comment) "\<not> (html \<and> take 6 (c # cs) = ''&quot;'')" "\<not> (c = CHR 0x22 \<or> c = CHR 0x27)" "c = CHR ''/'' \<and> starts (CHR ''/'') cs"
    | (other) "\<not> (html \<and> take 6 (c # cs) = ''&quot;'')" "\<not> (c = CHR 0x22 \<or> c = CHR 0x27)" "\<not> (c = CHR ''/'' \<and> starts (CHR ''/'') cs)"
    by blast
  then show ?case
  proof cases
    case html
    obtain a r where e: "entity_end (drop 5 cs) = (a, r)" by (cases "entity_end (drop 5 cs)")
    have "c # cs = ''&quot;'' @ drop 5 cs" using html append_take_drop_id [of 6 "c # cs"] by simp
    then have cs: "c # cs = ''&quot;'' @ a @ r" using entity_end_parts [OF e] by simp
    show ?thesis
    proof (cases r)
      case Nil
      then show ?thesis using 2(5) html e by (intro plain [of "c # cs" "[]"] exI [of _ "[]"]) (auto simp: quoted_loop.simps)
    next
      case (Cons d r')
      have run: "rw_bind (test_patterns B rule sl True vars a) (\<lambda>(b, vars, t).
          quoted_loop B rule html sl (rep \<or> b) vars r' (out @ ''&quot;'' @ t @ [d])) = Some (Inr (rep', vars', out'))"
        using 2(5) html e Cons by (simp only: quoted_loop.simps if_True Let_def prod.case) simp
      have "delimiters html ''&quot;'' d" using entity_end_stop e Cons html by (auto simp: delimiters_def)
      then show ?thesis using cs Cons entity_end_line [OF e] 2(1) [OF html refl e [symmetric]]
        by (intro lit [OF _ _ _ run]) auto
    qed
  next
    case quote
    obtain a r where e: "literal_end c c cs = (a, r)" by (cases "literal_end c c cs")
    have cs: "c # cs = [c] @ a @ r" using literal_end_parts [OF e] by simp
    show ?thesis
    proof (cases r)
      case Nil
      then show ?thesis using 2(5) quote e by (intro plain [of "c # cs" "[]"] exI [of _ "[]"]) (auto simp: quoted_loop.simps)
    next
      case (Cons d r')
      have run: "rw_bind (test_patterns B rule sl True vars a) (\<lambda>(b, vars, t).
          quoted_loop B rule html sl (rep \<or> b) vars r' (out @ [c] @ t @ [d])) = Some (Inr (rep', vars', out'))"
        using 2(5) quote e Cons by (simp only: quoted_loop.simps if_True if_False Let_def prod.case) simp
      have "delimiters html [c] d" using literal_end_stop e Cons quote(2) by (fastforce simp: delimiters_def)
      then show ?thesis using cs Cons literal_end_line [OF e] 2(2) [OF quote refl e [symmetric]]
        by (intro lit [OF _ _ _ run]) auto
    qed
  next
    case comment
    let ?t = "takeWhile (\<lambda>c. c \<noteq> CHR 0x0A) cs" and ?d = "dropWhile (\<lambda>c. c \<noteq> CHR 0x0A) cs"
    have "quoted_loop B rule html sl rep vars ?d (out @ c # ?t) = Some (Inr (rep', vars', out'))"
      using 2(5) comment by (simp only: quoted_loop.simps if_True if_False simp_thms)
    from 2(3) [OF comment this] show ?thesis by (intro plain [of "c # ?t" ?d]) simp_all
  next
    case other
    have "quoted_loop B rule html sl rep vars cs (out @ [c]) = Some (Inr (rep', vars', out'))"
      using 2(5) other by (simp only: quoted_loop.simps if_False)
    from 2(4) [OF other this] show ?thesis by (intro plain [of "[c]" cs]) simp_all
  qed
qed


section \<open>The filter returns\<close>

definition content_safe :: "boost \<Rightarrow> Content \<Rightarrow> bool" where
  "content_safe B ct \<longleftrightarrow> list_all (\<lambda>wi. never_empty B (wi_rule wi)) (within_list ct)"

definition phase_safe :: "boost \<Rightarrow> Phase \<Rightarrow> bool" where
  "phase_safe B ph \<longleftrightarrow> list_all (content_safe B) (content_list ph)"

text \<open>The call comes back, with a result or by throwing.\<close>

definition returns :: "'a option \<Rightarrow> bool" where
  "returns m \<longleftrightarrow> m \<noteq> None"

lemma returns_Some [simp]: "returns (Some x)"
  by (simp add: returns_def)

lemma returns_if: "(c \<Longrightarrow> returns a) \<Longrightarrow> (\<not> c \<Longrightarrow> returns b) \<Longrightarrow> returns (if c then a else b)"
  by simp

lemma rw_bind_returns:
  assumes "returns m" and "\<And>x. m = Some (Inr x) \<Longrightarrow> returns (f x)"
  shows "returns (rw_bind m f)"
  using assms by (auto simp: rw_bind_def returns_def split: option.splits sum.splits)

lemma rewrite_loop_returns:
  assumes "regex_laws B" and "never_empty B rule"
  shows "returns (rewrite_loop B rule sl first rep vars s out)"
proof (induction "length s" arbitrary: s first rep vars out rule: less_induct)
  case less
  show ?case
  proof (cases "best_match B first rule s None")
    case None
    then show ?thesis by (simp add: rewrite_loop.simps)
  next
    case (Some rm)
    obtain r m where rm: "rm = (r, m)" by (cases rm)
    have "r \<in> set rule" "regex_search B (rp_re r) s = Some m"
      using best_match_Some [OF Some [unfolded rm]] by (auto simp: usable_def)
    then have "mt_pos m + mt_len m \<le> length s" "mt_len m \<noteq> 0"
      using assms by (auto simp: regex_laws_def never_empty_def)
    then have "length (drop (mt_pos m + mt_len m) s) < length s" by simp
    from less [OF this] show ?thesis
      using Some rm by (subst rewrite_loop.simps) (simp add: Let_def split: sum.split)
  qed
qed

lemma test_patterns_returns:
  "regex_laws B \<Longrightarrow> never_empty B rule \<Longrightarrow> returns (test_patterns B rule sl first vars s)"
  unfolding test_patterns_def by (rule rewrite_loop_returns)

lemma quoted_loop_returns:
  "regex_laws B \<Longrightarrow> never_empty B rule \<Longrightarrow> returns (quoted_loop B rule html sl rep vars s out)"
proof (induction B rule html sl rep vars s out rule: quoted_loop.induct)
  case (1 B rule html sl rep vars out)
  show ?case by (simp add: quoted_loop.simps)
next
  case (2 B rule html sl rep vars c cs out)
  note tp = test_patterns_returns [OF 2(5,6)]
  obtain a r a' r' where e: "entity_end (drop 5 cs) = (a, r)" "literal_end c c cs = (a', r')"
    by (cases "entity_end (drop 5 cs)"; cases "literal_end c c cs")
  have entity: "returns (rw_bind (test_patterns B rule sl True vars a) (\<lambda>(b, vars, s).
      quoted_loop B rule html sl (rep \<or> b) vars (tl r) (out @ ''&quot;'' @ s @ [hd r])))"
    if "html \<and> take 6 (c # cs) = ''&quot;''" "r \<noteq> []"
    using 2(1) [OF that(1) refl e(1) [symmetric] that(2) 2(5,6)] by (intro rw_bind_returns tp) auto
  have quote: "returns (rw_bind (test_patterns B rule sl True vars a') (\<lambda>(b, vars, s).
      quoted_loop B rule html sl (rep \<or> b) vars (tl r') (out @ [c] @ s @ [hd r'])))"
    if "\<not> (html \<and> take 6 (c # cs) = ''&quot;'')" "c = CHR 0x22 \<or> c = CHR 0x27" "r' \<noteq> []"
    using 2(2) [OF that(1,2) refl e(2) [symmetric] that(3) 2(5,6)] by (intro rw_bind_returns tp) auto
  show ?case
    unfolding quoted_loop.simps(2) e Let_def prod.case
    by (intro returns_if; (rule returns_Some entity quote 2(3) 2(4) | assumption | rule 2(5,6))+)
qed

lemma Within_exec_returns:
  "regex_laws B \<Longrightarrow> never_empty B (wi_rule wi) \<Longrightarrow> returns (Within_exec B wi sl anchor vars s)"
  using quoted_loop_returns test_patterns_returns by (simp add: Within_exec_def embed_quoted_literal_def)

text \<open>The stack of elements holds only sections of the content.\<close>

lemma find_in_set: "find P xs = Some x \<Longrightarrow> x \<in> set xs"
  by (auto simp: find_Some_iff)

lemma Event_handle_returns:
  assumes "regex_laws B" and "content_safe B ct" and "set (s_within ev) \<subseteq> set (within_list ct)"
  shows "returns (Event_handle B ct sl e ev)"
    and "Event_handle B ct sl e ev = Some (Inr ev') \<Longrightarrow> set (s_within ev') \<subseteq> set (within_list ct)"
proof -
  have ex: "returns (Within_exec B wi sl a v s)" if "wi \<in> set (within_list ct)" for wi a v s
    using that assms(1,2) by (intro Within_exec_returns) (auto simp: content_safe_def list_all_iff)
  show "returns (Event_handle B ct sl e ev)"
  proof (cases e)
    case (ev_attribute tag attr val)
    have "returns (Within_exec B wi sl True v s)"
      if "find P (within_list ct) = Some wi" for P wi v s
      using find_in_set [OF that] by (rule ex)
    then show ?thesis unfolding ev_attribute Event_handle.simps Event_attribute_def Let_def
      by (cases val) (auto split: option.split intro!: rw_bind_returns)
  next
    case (ev_text v)
    show ?thesis unfolding ev_text Event_handle.simps Event_text_def
      using ex assms(3) by (cases "s_within ev") (auto intro!: rw_bind_returns)
  qed simp_all
  show "set (s_within ev') \<subseteq> set (within_list ct)" if "Event_handle B ct sl e ev = Some (Inr ev')"
    using that assms(3)
    by (cases e) (auto simp: Event_openTagStart_def Event_anyTagEnd_def Event_closeTag_def Event_leave_def Event_attribute_def
        Event_text_def Let_def subset_iff dest: find_in_set split: option.splits if_splits list.splits elim!: rw_bind_SomeE)
qed

lemma Event_run_returns:
  "regex_laws B \<Longrightarrow> content_safe B ct \<Longrightarrow> set (s_within ev) \<subseteq> set (within_list ct) \<Longrightarrow> returns (Event_run B ct sl es ev)"
proof (induction es arbitrary: ev)
  case (Cons e es)
  show ?case unfolding Event_run.simps
    by (rule rw_bind_returns) (use Cons Event_handle_returns in blast)+
qed simp

lemma rewrite_body_returns:
  assumes "regex_laws B" and "phase_safe B ph"
  shows "returns (rewrite_body B sc ph sl t vars content)"
proof -
  have parse: "returns (Content_parse B sc ct sl v c)" if "ct \<in> set (content_list ph)" for ct v c
  proof -
    have safe: "content_safe B ct" using that assms(2) by (auto simp: phase_safe_def list_all_iff)
    have "returns (Content_quoted_literal B ct sl v c)" for v c
      using safe assms(1) quoted_loop_returns unfolding Content_quoted_literal_def
      by (cases "within_list ct") (auto simp: content_safe_def embed_quoted_literal_def intro!: rw_bind_returns)
    moreover have "returns (Event_run B ct sl es (Event_new v))" for es v
      using Event_run_returns [OF assms(1) safe] by (simp add: Event_new_def)
    ultimately show ?thesis unfolding Content_parse_def
      by (auto intro!: rw_bind_returns)
  qed
  have "ct \<in> set cts" if "find_content B cts ty = Inr (Some ct)" for cts ty ct
    using that by (induction cts) (auto split: if_splits option.splits)
  with parse show ?thesis unfolding rewrite_body_def
    by (auto split: option.split sum.split intro!: rw_bind_returns)
qed

text \<open>What is assumed of YAZ: taking a header out of a list leaves fewer headers.\<close>

definition remove_laws :: "(Z_HTTP_Header list \<Rightarrow> string \<Rightarrow> (string \<times> Z_HTTP_Header list) option) \<Rightarrow> bool" where
  "remove_laws hr \<longleftrightarrow> (\<forall>hs n v hs'. hr hs n = Some (v, hs') \<longrightarrow> length hs' < length hs)"

lemma skip_loop_returns:
  assumes "remove_laws hr"
  shows "returns (skip_loop B hr url hs sl)"
proof (induction "length hs" arbitrary: hs sl rule: less_induct)
  case less
  show ?case
  proof (cases "hr hs ''X-Metaproxy-SkipLink''")
    case None
    then show ?thesis by (simp add: skip_loop.simps)
  next
    case (Some r)
    obtain hv hs' where r: "r = (hv, hs')" by (cases r)
    with Some assms have "length hs' < length hs" by (auto simp: remove_laws_def)
    note IH = less [OF this]
    show ?thesis using Some r IH
      by (subst skip_loop.simps) (simp split: option.split)
  qed
qed

lemma within_safe: "content_safe B ct \<Longrightarrow> list_all (\<lambda>wi. never_empty B (wi_rule wi)) (within_list ct)"
  by (simp add: content_safe_def)

lemma headers_content_safe: "phase_safe B ph \<Longrightarrow> headers_content ph = Some ct \<Longrightarrow> content_safe B ct"
  by (auto simp: phase_safe_def headers_content_def list_all_iff dest: find_in_set)

lemma reqline_loop_returns:
  "regex_laws B \<Longrightarrow> list_all (\<lambda>wi. never_empty B (wi_rule wi)) ws \<Longrightarrow> returns (reqline_loop B ws vars path hpath)"
  by (induction ws arbitrary: vars path hpath) (auto intro!: rw_bind_returns Within_exec_returns)

lemma rewrite_header_returns:
  "regex_laws B \<Longrightarrow> list_all (\<lambda>wi. never_empty B (wi_rule wi)) ws \<Longrightarrow> returns (rewrite_header B ws vars h)"
  by (induction ws arbitrary: vars h) (auto intro!: rw_bind_returns Within_exec_returns split: option.split)

lemma rewrite_headers_loop_returns:
  "regex_laws B \<Longrightarrow> list_all (\<lambda>wi. never_empty B (wi_rule wi)) ws \<Longrightarrow> returns (rewrite_headers_loop B ws vars hs)"
  by (induction hs arbitrary: vars) (auto intro!: rw_bind_returns rewrite_header_returns)

lemma rewrite_headers_returns: "regex_laws B \<Longrightarrow> phase_safe B ph \<Longrightarrow> returns (rewrite_headers B ph vars hs)"
  unfolding rewrite_headers_def
  by (auto split: option.split intro!: rewrite_headers_loop_returns within_safe headers_content_safe)

lemma rewrite_reqline_returns: "regex_laws B \<Longrightarrow> phase_safe B ph \<Longrightarrow> returns (rewrite_reqline B Y ph addr vars hreq)"
  unfolding rewrite_reqline_def
  by (auto split: option.split intro!: rw_bind_returns reqline_loop_returns within_safe headers_content_safe)

lemma read_skip_headers_returns: "remove_laws hr \<Longrightarrow> returns (read_skip_headers B Y hr addr hreq)"
  unfolding read_skip_headers_def Let_def by (auto intro!: rw_bind_returns skip_loop_returns)

lemma HttpRewrite_request_returns:
  "regex_laws (rw_boost E) \<Longrightarrow> remove_laws (z_HTTP_header_remove E) \<Longrightarrow> phase_safe (rw_boost E) ph \<Longrightarrow>
     returns (HttpRewrite_request E Y ph addr hreq)"
  unfolding HttpRewrite_request_def
  by (auto intro!: rw_bind_returns rewrite_reqline_returns read_skip_headers_returns rewrite_headers_returns rewrite_body_returns)

lemma HttpRewrite_response_returns:
  "regex_laws (rw_boost E) \<Longrightarrow> phase_safe (rw_boost E) ph \<Longrightarrow> returns (HttpRewrite_response E Y ph sl vars hres)"
  unfolding HttpRewrite_response_def
  by (auto intro!: rw_bind_returns rewrite_headers_returns rewrite_body_returns)

text \<open>
  C23. When no expression of a rule matches the empty text, a package is processed to an end, whatever the
  messages hold: with a result or by throwing.\<close>
theorem http_rewrite_terminates:
  assumes "regex_laws (rw_boost E)" and "remove_laws (z_HTTP_header_remove E)"
    and "phase_safe (rw_boost E) req_phase" and "phase_safe (rw_boost E) res_phase"
  shows "HttpRewrite_process E Y req_phase res_phase mv p w \<noteq> None"
proof -
  have "returns (HttpRewrite_process E Y req_phase res_phase mv p w)"
    unfolding HttpRewrite_process_def Let_def
    using HttpRewrite_request_returns [OF assms(1,2,3)] HttpRewrite_response_returns [OF assms(1,4)]
    by (auto intro!: rw_bind_returns split: option.split Z_GDU.split prod.split)
  then show ?thesis by (simp add: returns_def)
qed

text \<open>Packages that carry no HTTP pass unchanged.\<close>

lemma http_rewrite_passes_other:
  assumes "\<And>h. pkg_request p \<noteq> Some (GDU_HTTP_Request h)" and "mv [] p w = (p', w')" and "\<And>h. pkg_response p' \<noteq> Some (GDU_HTTP_Response h)"
  shows "HttpRewrite_process E Y req_phase res_phase mv p w = Some (Inr (p', w'))"
  using assms by (auto simp: HttpRewrite_process_def split: option.split Z_GDU.split)

text \<open>A content section without a type for the bodies makes each body of a type that no section before it takes
  end in an exception.\<close>

lemma content_without_mime:
  assumes "ct_type ct \<noteq> ''headers''" and "content_re ct = None" and "find_content B cts t = Inr None"
  shows "find_content B (cts @ ct # cts') t = Inl RW_regex"
  using assms(3)
proof (induction cts)
  case (Cons c cts)
  then show ?case by (auto split: if_splits option.splits)
qed (use assms(1,2) in simp)

section \<open>An instance\<close>

text \<open>Expressions without operators: the text of a pattern is searched for as it is. They show that what is assumed of
  boost can hold.\<close>

fun literal_search :: "string \<Rightarrow> string \<Rightarrow> re_match option" where
  "literal_search pat [] = None"
| "literal_search pat (c # s) =
     (if pat \<noteq> [] \<and> take (length pat) (c # s) = pat then Some \<lparr>mt_pos = 0, mt_len = length pat, mt_groups = []\<rparr>
      else map_option (\<lambda>m. m\<lparr>mt_pos := Suc (mt_pos m)\<rparr>) (literal_search pat s))"

definition boost_literal :: boost where
  "boost_literal = \<lparr>regex_valid = (\<lambda>p. p \<noteq> []), regex_match = (\<lambda>re s. re_pattern re = s),
     regex_search = (\<lambda>re. literal_search (re_pattern re))\<rparr>"

lemma literal_search_match:
  "literal_search pat s = Some m \<Longrightarrow> mt_pos m + mt_len m \<le> length s \<and> mt_len m \<noteq> 0"
proof (induction s arbitrary: m)
  case (Cons c s)
  show ?case
  proof (cases "pat \<noteq> [] \<and> take (length pat) (c # s) = pat")
    case True
    then have "length pat \<le> length (c # s)" by (metis length_take min.absorb_iff2)
    with True Cons.prems show ?thesis by auto
  next
    case False
    with Cons.prems obtain m' where "literal_search pat s = Some m'" "m = m'\<lparr>mt_pos := Suc (mt_pos m')\<rparr>" by auto
    with Cons.IH show ?thesis by fastforce
  qed
qed simp

lemma boost_literal_laws: "regex_laws boost_literal" "never_empty boost_literal rule"
  unfolding regex_laws_def never_empty_def boost_literal_def using literal_search_match by force+

lemma boost_literal_safe: "phase_safe boost_literal ph"
  using boost_literal_laws(2) by (simp add: phase_safe_def content_safe_def list_all_iff)

definition to_https :: Replace where
  "to_https = \<lparr>start_anchor = False, rp_re = \<lparr>re_pattern = ''http:'', re_icase = False\<rparr>, recipe = ''https:'', group_index = Map.empty\<rparr>"


lemma test_patterns_example:
  "test_patterns boost_literal [to_https] [] True Map.empty ''a http:b'' = Some (Inr (True, Map.empty, ''a https:b''))"
  by (simp add: test_patterns_def rewrite_loop.simps to_https_def boost_literal_def sub_vars_def sub_vars_from.simps skip_match_def Let_def)


fun header_remove_ref :: "Z_HTTP_Header list \<Rightarrow> string \<Rightarrow> (string \<times> Z_HTTP_Header list) option" where
  "header_remove_ref [] n = None"
| "header_remove_ref (h # hs) n =
     (case hdr_value h of
        Some v \<Rightarrow> if hdr_name h = Some n then Some (v, hs) else map_option (\<lambda>(v, hs). (v, h # hs)) (header_remove_ref hs n)
      | None \<Rightarrow> map_option (\<lambda>(v, hs). (v, h # hs)) (header_remove_ref hs n))"

lemma header_remove_ref_shorter: "header_remove_ref hs n = Some (v, hs') \<Longrightarrow> length hs' < length hs"
  by (induction hs arbitrary: hs') (auto split: option.splits if_splits)

theorem http_rewrite_terminates_witness:
  "HttpRewrite_process \<lparr>rw_boost = boost_literal, yaz_strncasecmp_eq = (=), z_HTTP_header_remove = header_remove_ref\<rparr> yaz_ref
     Phase_new (Phase_new\<lparr>content_list := [\<lparr>ct_type = ''html'', content_re = Some \<lparr>re_pattern = ''text/html'', re_icase = True\<rparr>,
       within_list = [\<lparr>wi_header = None, wi_attr = Some \<lparr>re_pattern = ''href'', re_icase = True\<rparr>, wi_tag = None, wi_type = [],
         wi_reqline = False, wi_rule = [to_https]\<rparr>]\<rparr>]\<rparr>)
     (\<lambda>_ p w. (p, w)) (Package_new \<lparr>m_id = 1, m_close = False\<rparr> Origin_new) \<lparr>m_global_id = 0\<rparr> \<noteq> None"
  by (rule http_rewrite_terminates)
     (auto simp: boost_literal_laws boost_literal_safe remove_laws_def dest: header_remove_ref_shorter)

text \<open>A look-ahead loses its question mark when the names of the groups are taken out of a pattern: the expression
  of \<open>a(?=b)c\<close> is \<open>a(=b)c\<close>.\<close>

lemma parse_groups_lookahead:
  "parse_groups_from str ''a(?=b)c'' 0 False [] Map.empty = Inr (''a(=b)c'', Map.empty)"
  by (simp add: parse_groups_from.simps Let_def)

end
