(* ===== verification/MP_Http_Rewrite1.thy ===== *)
theory MP_Http_Rewrite1
  imports MP_Http_Rewrite
begin

text \<open>
  The \<open>http_rewrite1\<close> filter (\<open>src/filter_http_rewrite1.cpp\<close>): rules for a content type replace patterns in
  the bodies of responses. A response that is missing or is not of HTTP is used as if it was one, which is \<open>None\<close>.
\<close>

section \<open>Rules\<close>

record HttpRewrite1_Rule =
  rule_content_type :: string
  rule_pattern :: string
  rule_replacement :: string
  rule_mode :: string

text \<open>Boost: whether a pattern compiles, and the replacement of an expression in a text by a format, of the first match only
  or of all of them, the format then in the extended syntax.\<close>

record boost1 =
  regex1_valid :: "string \<Rightarrow> bool"
  regex_replace :: "string \<Rightarrow> regex \<Rightarrow> string \<Rightarrow> bool \<Rightarrow> string"

fun replace_loop :: "boost1 \<Rightarrow> HttpRewrite1_Rule list \<Rightarrow> string \<Rightarrow> string \<Rightarrow> nat \<Rightarrow> rw_error + string \<times> nat" where
  "replace_loop B [] ctype body n = Inr (body, n)"
| "replace_loop B (r # rs) ctype body n =
     (if takeWhile is_c_char (rule_content_type r) = ctype
      then (if \<not> regex1_valid B (rule_pattern r) then Inl RW_regex
            else replace_loop B rs ctype
              (regex_replace B body \<lparr>re_pattern = rule_pattern r, re_icase = (CHR ''i'' \<in> set (rule_mode r))\<rparr>
                 (rule_replacement r) (CHR ''g'' \<in> set (rule_mode r))) (n + 1))
      else replace_loop B rs ctype body n)"

text \<open>A body is missing exactly when it is empty, as the decoder of YAZ leaves it.\<close>

definition rewrite_response :: "boost1 \<Rightarrow> yaz \<Rightarrow> HttpRewrite1_Rule list \<Rightarrow> Z_HTTP_Response \<Rightarrow> rw_error + Z_HTTP_Response" where
  "rewrite_response B Y rules hres =
     (case z_HTTP_header_lookup Y (hrs_headers hres) ''Content-Type'' of
        None \<Rightarrow> Inr hres
      | Some ctype \<Rightarrow>
          if hrs_content hres = [] then Inr hres
          else (case replace_loop B rules ctype (hrs_content hres) 0 of
                  Inl e \<Rightarrow> Inl e
                | Inr (body, n) \<Rightarrow> Inr (if n > 0 then hres\<lparr>hrs_content := takeWhile is_c_char body\<rparr> else hres)))"

definition HttpRewrite1_process :: "boost1 \<Rightarrow> yaz \<Rightarrow> HttpRewrite1_Rule list \<Rightarrow> 'w move_fn \<Rightarrow> package \<Rightarrow> 'w world_scheme \<Rightarrow> (package \<times> 'w world_scheme) rw" where
  "HttpRewrite1_process B Y rules mv p w =
     (case pkg_request p of
        Some (GDU_HTTP_Request hreq) \<Rightarrow>
          (let (p, w) = mv [] p w in
           case pkg_response p of
             Some (GDU_HTTP_Response hres) \<Rightarrow>
               (case rewrite_response B Y rules hres of
                  Inl e \<Rightarrow> Some (Inl e)
                | Inr hres \<Rightarrow> Some (Inr (p\<lparr>pkg_response := Some (GDU_HTTP_Response hres)\<rparr>, w)))
           | _ \<Rightarrow> None)
      | _ \<Rightarrow> Some (Inr (mv [] p w)))"

section \<open>Configuration\<close>

definition rule1_attr :: "xml_attr \<Rightarrow> HttpRewrite1_Rule \<Rightarrow> rw_error + HttpRewrite1_Rule" where
  "rule1_attr a r =
     (let v = get_text (attr_children a) in
      if attr_name a = ''pattern'' then Inr (r\<lparr>rule_pattern := v\<rparr>)
      else if attr_name a = ''replacement'' then Inr (r\<lparr>rule_replacement := v\<rparr>)
      else if attr_name a = ''mode'' then Inr (r\<lparr>rule_mode := v\<rparr>)
      else if attr_name a = ''content-type'' then Inr (r\<lparr>rule_content_type := v\<rparr>)
      else Inl (rw_throw (''Bad attribute '' @ attr_name a @ '' in replace section of http_rewrite1'')))"

fun rule1_attrs :: "xml_attr list \<Rightarrow> HttpRewrite1_Rule \<Rightarrow> rw_error + HttpRewrite1_Rule" where
  "rule1_attrs [] r = Inr r"
| "rule1_attrs (a # ats) r = (case rule1_attr a r of Inl e \<Rightarrow> Inl e | Inr r \<Rightarrow> rule1_attrs ats r)"

definition rule1_new :: HttpRewrite1_Rule where
  "rule1_new = \<lparr>rule_content_type = [], rule_pattern = [], rule_replacement = [], rule_mode = []\<rparr>"

fun HttpRewrite1_elements :: "xml_node list \<Rightarrow> HttpRewrite1_Rule list \<Rightarrow> rw_error + HttpRewrite1_Rule list" where
  "HttpRewrite1_elements [] rules = Inr rules"
| "HttpRewrite1_elements (n # ns) rules =
     (if node_type n \<noteq> XML_ELEMENT_NODE then HttpRewrite1_elements ns rules
      else if node_name n = ''replace''
      then (case rule1_attrs (node_attrs n) rule1_new of
              Inl e \<Rightarrow> Inl e
            | Inr r \<Rightarrow> HttpRewrite1_elements ns (if length (rule_pattern r) > 0 then rules @ [r] else rules))
      else Inl (rw_throw (''Bad element '' @ node_name n @ '' in http_rewrite1 filter'')))"

definition HttpRewrite1_configure :: "xml_node \<Rightarrow> HttpRewrite1_Rule list \<Rightarrow> rw_error + HttpRewrite1_Rule list" where
  "HttpRewrite1_configure ptr rules = HttpRewrite1_elements (node_children ptr) rules"

section \<open>Bodies\<close>

definition applies :: "string \<Rightarrow> HttpRewrite1_Rule \<Rightarrow> bool" where
  "applies ctype r \<longleftrightarrow> takeWhile is_c_char (rule_content_type r) = ctype"

definition apply_rule1 :: "boost1 \<Rightarrow> HttpRewrite1_Rule \<Rightarrow> string \<Rightarrow> string" where
  "apply_rule1 B r body = regex_replace B body \<lparr>re_pattern = rule_pattern r, re_icase = (CHR ''i'' \<in> set (rule_mode r))\<rparr>
     (rule_replacement r) (CHR ''g'' \<in> set (rule_mode r))"

lemma replace_loop_fold:
  "replace_loop B rules ctype body n =
     (if list_all (\<lambda>r. regex1_valid B (rule_pattern r)) (filter (applies ctype) rules)
      then Inr (fold (apply_rule1 B) (filter (applies ctype) rules) body, n + length (filter (applies ctype) rules))
      else Inl RW_regex)"
  by (induction rules arbitrary: body n) (auto simp: applies_def apply_rule1_def)

text \<open>
  A response with a body leaves the filter with the body that the rules for its content type make of
  it, one after the other, up to the first null octet; when no rule is for its type it is not changed; the filter
  throws exactly when an expression of such a rule is malformed.\<close>
theorem http_rewrite1_body:
  assumes "pkg_request p = Some (GDU_HTTP_Request hreq)" and "mv [] p w = (p', w')"
    and "pkg_response p' = Some (GDU_HTTP_Response hres)"
    and "z_HTTP_header_lookup Y (hrs_headers hres) ''Content-Type'' = Some ctype" and "hrs_content hres \<noteq> []"
  shows "HttpRewrite1_process B Y rules mv p w =
    (let rs = filter (applies ctype) rules in
     if rs = [] then Some (Inr (p', w'))
     else if list_all (\<lambda>r. regex1_valid B (rule_pattern r)) rs
     then Some (Inr (p'\<lparr>pkg_response := Some (GDU_HTTP_Response
       (hres\<lparr>hrs_content := takeWhile is_c_char (fold (apply_rule1 B) rs (hrs_content hres))\<rparr>))\<rparr>, w'))
     else Some (Inl RW_regex))"
proof (cases "filter (applies ctype) rules = []")
  case True
  have "p'\<lparr>pkg_response := Some (GDU_HTTP_Response hres)\<rparr> = p'" using assms(3) by simp
  with True assms show ?thesis by (simp add: HttpRewrite1_process_def rewrite_response_def replace_loop_fold)
next
  case False
  then show ?thesis using assms by (simp add: HttpRewrite1_process_def rewrite_response_def replace_loop_fold Let_def)
qed

text \<open>A request of HTTP without a response of HTTP is not survived.\<close>

lemma http_rewrite1_no_response:
  assumes "pkg_request p = Some (GDU_HTTP_Request hreq)" and "pkg_response (fst (mv [] p w)) = None"
  shows "HttpRewrite1_process B Y rules mv p w = None"
  using assms by (cases "mv [] p w") (simp add: HttpRewrite1_process_def)

text \<open>Rules that the configuration accepts have a pattern.\<close>

lemma HttpRewrite1_elements_patterns:
  "list_all (\<lambda>r. rule_pattern r \<noteq> []) rules \<Longrightarrow> HttpRewrite1_elements ns rules = Inr rules' \<Longrightarrow>
     list_all (\<lambda>r. rule_pattern r \<noteq> []) rules' \<and> (\<exists>rs. rules' = rules @ rs)"
proof (induction ns rules rule: HttpRewrite1_elements.induct)
  case (2 n ns rules)
  then show ?case by (fastforce split: if_splits sum.splits)
qed simp

end
