(* ===== verification/MP_Record_Transform.thy ===== *)
theory MP_Record_Transform
  imports MP_SD_Remove
begin

text \<open>
  The \<open>record_transform\<close> filter (\<open>src/filter_record_transform.cpp\<close>): the retrieval facility of YAZ tells what to ask
  a target for, and how the records that come back become what the client asked for. The facility and the
  conversions are parameters.
\<close>

section \<open>Retrieval\<close>

text \<open>A conversion gives the octets of the record or, on failure, the text of its error; \<open>rc_charset\<close> is its output
  character set.\<close>

record yaz_record_conv =
  rc_opac_record :: "Z_OPACRecord \<Rightarrow> string option + octets"
  rc_record :: "octets \<Rightarrow> string option + octets"
  rc_charset :: "string option"

record retrieval_reply =
  rr_code :: int
  rr_match_schema :: "string option"
  rr_match_syntax :: octets
  rr_conv :: "yaz_record_conv option"
  rr_backend_schema :: "string option"
  rr_backend_syntax :: "octets option"

record yaz_retrieval =
  yaz_retrieval_request :: "string option \<Rightarrow> octets option \<Rightarrow> retrieval_reply"
  yaz_retrieval_get_error :: "string option"

text \<open>
  Externals: the OPAC record one holds, one for a syntax and the octets of a record, the descriptor (a field of the
  struct that is not modelled as one), and the conversion of XML to an OPAC record in a character set.
\<close>

record yaz_external =
  external_opac :: "Z_External \<Rightarrow> Z_OPACRecord option"
  z_ext_record_oid :: "octets \<Rightarrow> octets \<Rightarrow> Z_External"
  set_descriptor :: "string \<Rightarrow> Z_External \<Rightarrow> Z_External"
  yaz_xml_to_opac :: "octets \<Rightarrow> string option \<Rightarrow> Z_OPACRecord option"

record RecordTransform =
  m_retrieval :: yaz_retrieval
  m_embed_schema :: bool

abbreviation (input) BIB1_SYSTEM_ERROR_IN_PRESENTING_RECORDS :: int where
  "BIB1_SYSTEM_ERROR_IN_PRESENTING_RECORDS \<equiv> 14"
abbreviation (input) BIB1_ELEMENT_SET_NAMES_UNSUPP :: int where "BIB1_ELEMENT_SET_NAMES_UNSUPP \<equiv> 24"
abbreviation (input) BIB1_UNSPECIFIED_ERROR :: int where "BIB1_UNSPECIFIED_ERROR \<equiv> 100"

section \<open>Conversion by usemarcon\<close>

text \<open>
  A type of conversions of the facility, with a stage or two. The library is a parameter \<open>um\<close>: the result of the
  conversion of a record by the rules of a file, or its code.
\<close>

record usemarcon =
  stage1 :: "string option"
  stage2 :: "string option"

fun usemarcon_attrs :: "xml_attr list \<Rightarrow> usemarcon \<Rightarrow> string + usemarcon" where
  "usemarcon_attrs [] u = Inr u"
| "usemarcon_attrs (a # ats) u =
     (case attr_children a of
        Xml_Text c # _ \<Rightarrow>
          if attr_name a = ''stage1'' then usemarcon_attrs ats (u\<lparr>stage1 := Some c\<rparr>)
          else if attr_name a = ''stage2'' then usemarcon_attrs ats (u\<lparr>stage2 := Some c\<rparr>)
          else Inl (''Bad attribute '' @ [CHR 0x27] @ attr_name a @ [CHR 0x27] @ ''Expected stage1 or stage2.'')
      | _ \<Rightarrow> Inl (''Bad attribute '' @ [CHR 0x27] @ attr_name a @ [CHR 0x27] @ ''Expected stage1 or stage2.''))"

text \<open>\<open>None\<close>: the element is not of this type.\<close>

definition construct_usemarcon :: "xml_node \<Rightarrow> (string + usemarcon) option" where
  "construct_usemarcon ptr =
     (if node_name ptr \<noteq> ''usemarcon'' then None else Some (usemarcon_attrs (node_attrs ptr) \<lparr>stage1 = None, stage2 = None\<rparr>))"

definition convert_usemarcon :: "(string \<Rightarrow> octets \<Rightarrow> int + octets) \<Rightarrow> usemarcon \<Rightarrow> octets \<Rightarrow> string + octets" where
  "convert_usemarcon um u rec =
     (case stage1 u of
        None \<Rightarrow> Inr rec
      | Some ini1 \<Rightarrow>
          (case um ini1 rec of
             Inl res \<Rightarrow> Inl (''usemarcon stage1 failed res='' @ show_int res)
           | Inr converted \<Rightarrow>
               (case stage2 u of
                  None \<Rightarrow> Inr converted
                | Some ini2 \<Rightarrow>
                    (case um ini2 converted of
                       Inl res \<Rightarrow> Inl (''usemarcon stage2 failed res='' @ show_int res)
                     | Inr converted \<Rightarrow> Inr converted))))"

section \<open>Configuration\<close>

text \<open>\<open>rcfg\<close> is the configuration of the facility from a node; a missing element is read through a null pointer.\<close>

fun embed_attrs :: "xml_attr list \<Rightarrow> bool \<Rightarrow> bool" where
  "embed_attrs [] b = b"
| "embed_attrs (a # ats) b =
     embed_attrs ats (if attr_name a = ''embed_schema'' then get_bool (attr_children a) False else b)"

definition RecordTransform_configure :: "(xml_node \<Rightarrow> string + yaz_retrieval) \<Rightarrow> xml_node option \<Rightarrow> bool \<Rightarrow> (mp_exception + RecordTransform) option" where
  "RecordTransform_configure rcfg ptr emb =
     (case ptr of
        None \<Rightarrow> Some (Inl (XMLError ''RecordTransform filter config: empty XML DOM''))
      | Some n \<Rightarrow>
          (case jump_to_children [n] XML_ELEMENT_NODE of
             None \<Rightarrow> None
           | Some [] \<Rightarrow> None
           | Some (r # _) \<Rightarrow>
               if node_name r \<noteq> ''retrievalinfo''
               then Some (Inl (XMLError ''missing retrievalinfo element in RecordTransform''))
               else (case rcfg r of
                       Inl e \<Rightarrow> Some (Inl (XMLError (''RecordTransform filter config: '' @ e)))
                     | Inr rt \<Rightarrow> Some (Inr \<lparr>m_retrieval = rt, m_embed_schema = embed_attrs (node_attrs r) emb\<rparr>))))"

section \<open>Conversion of a record\<close>

definition conv_failed :: "yaz \<Rightarrow> Z_NamePlusRecord \<Rightarrow> string option \<Rightarrow> Z_NamePlusRecord" where
  "conv_failed Y npr details = zget_surrogateDiagRec Y (npr_databaseName npr) BIB1_SYSTEM_ERROR_IN_PRESENTING_RECORDS details"

text \<open>The conversion of the record itself: its octets, or the text of the error.\<close>

definition conv_external :: "yaz_external \<Rightarrow> yaz_record_conv \<Rightarrow> Z_External \<Rightarrow> string option + octets" where
  "conv_external X rc r =
     (case external_opac X r of
        Some opac \<Rightarrow> rc_opac_record rc opac
      | None \<Rightarrow>
          (case r of
             External_octet _ buf \<Rightarrow> rc_record rc buf
           | _ \<Rightarrow> Inl (Some ''unsupported record type for record_conv'')))"

definition convert_npr :: "yaz \<Rightarrow> yaz_external \<Rightarrow> yaz_record_conv \<Rightarrow> octets \<Rightarrow> string option \<Rightarrow> Z_NamePlusRecord \<Rightarrow> Z_NamePlusRecord" where
  "convert_npr Y X rc match_syntax match_schema npr =
     (case npr_record npr of
        NPR_databaseRecord r \<Rightarrow>
          (case conv_external X rc r of
             Inl details \<Rightarrow> conv_failed Y npr details
           | Inr out \<Rightarrow>
               if match_syntax = recsyn_opac
               then (case yaz_xml_to_opac X out (rc_charset rc) of
                       Some opac \<Rightarrow> npr\<lparr>npr_record := NPR_databaseRecord (z_ext_record_opac Y opac)\<rparr>
                     | None \<Rightarrow> conv_failed Y npr (Some ''XML to OPAC conversion failed''))
               else (let e = z_ext_record_oid X match_syntax out in
                     npr\<lparr>npr_record := NPR_databaseRecord (case match_schema of None \<Rightarrow> e | Some s \<Rightarrow> set_descriptor X s e)\<rparr>))
      | _ \<Rightarrow> npr)"

section \<open>Processing\<close>

text \<open>The schema a search asks for: \<open>None\<close> when the element set name depends on the number of hits.\<close>

definition search_schema :: "Z_SearchRequest \<Rightarrow> string option option" where
  "search_schema sr =
     (case (srq_smallSetElementSetNames sr, srq_mediumSetElementSetNames sr) of
        (Some (ESN_generic a), Some (ESN_generic b)) \<Rightarrow> if a = b then Some (Some a) else None
      | (None, None) \<Rightarrow> if srq_largeSetLowerBound sr > 1 then Some None else None
      | _ \<Rightarrow> None)"

definition disable_piggyback :: "Z_SearchRequest \<Rightarrow> Z_SearchRequest" where
  "disable_piggyback sr = sr\<lparr>srq_smallSetUpperBound := 0, srq_largeSetLowerBound := 1, srq_mediumSetPresentNumber := 0\<rparr>"

text \<open>The diagnostic for a code of the facility; the syntax is printed through its pointer.\<close>

definition retrieval_diagnostic :: "yaz_retrieval \<Rightarrow> int \<Rightarrow> string option \<Rightarrow> octets option \<Rightarrow> (int \<times> string option) option" where
  "retrieval_diagnostic R code schema syn =
     (if code = -1 then Some (BIB1_SYSTEM_ERROR_IN_PRESENTING_RECORDS, yaz_retrieval_get_error R)
      else if code = 1 \<or> code = 3 then Some (BIB1_ELEMENT_SET_NAMES_UNSUPP, schema)
      else if code = 2 then map_option (\<lambda>s. (BIB1_RECORD_SYNTAX_UNSUPP, Some s)) syn
      else Some (BIB1_UNSPECIFIED_ERROR, Some (take 79 (''record_transform: yaz_retrieval_get_error returned '' @ show_int code))))"

definition backend_search :: "retrieval_reply \<Rightarrow> Z_SearchRequest \<Rightarrow> Z_SearchRequest" where
  "backend_search r sr =
     (let esn = map_option ESN_generic (rr_backend_schema r)
      in sr\<lparr>srq_preferredRecordSyntax := rr_backend_syntax r, srq_smallSetElementSetNames := esn, srq_mediumSetElementSetNames := esn\<rparr>)"

definition backend_present :: "retrieval_reply \<Rightarrow> Z_PresentRequest \<Rightarrow> Z_PresentRequest" where
  "backend_present r pr =
     pr\<lparr>prq_preferredRecordSyntax := rr_backend_syntax r,
        prq_recordComposition := map_option (\<lambda>s. RecordComp_simple (ESN_generic s)) (rr_backend_schema r)\<rparr>"

fun transform_apdu :: "(Z_NamePlusRecord \<Rightarrow> Z_NamePlusRecord) \<Rightarrow> Z_APDU \<Rightarrow> Z_APDU" where
  "transform_apdu f (APDU_presentResponse r) =
     (case prs_records r of
        Some (Records_DBOSD rs) \<Rightarrow>
          if prs_numberOfRecordsReturned r > 0 then APDU_presentResponse (r\<lparr>prs_records := Some (Records_DBOSD (map f rs))\<rparr>)
          else APDU_presentResponse r
      | _ \<Rightarrow> APDU_presentResponse r)"
| "transform_apdu f (APDU_searchResponse r) =
     (case srs_records r of
        Some (Records_DBOSD rs) \<Rightarrow>
          if srs_numberOfRecordsReturned r > 0 then APDU_searchResponse (r\<lparr>srs_records := Some (Records_DBOSD (map f rs))\<rparr>)
          else APDU_searchResponse r
      | _ \<Rightarrow> APDU_searchResponse r)"
| "transform_apdu f apdu = apdu"

text \<open>From the reply of the facility on: an error response, or the request for the target and its response.\<close>

definition transform_move :: "yaz \<Rightarrow> yaz_external \<Rightarrow> RecordTransform \<Rightarrow> retrieval_reply \<Rightarrow> Z_APDU \<Rightarrow> 'w move_fn \<Rightarrow> package \<Rightarrow> 'w world_scheme \<Rightarrow> package \<times> 'w world_scheme" where
  "transform_move Y X st r apdu mv p w =
     (let (p, w) = mv [] (p\<lparr>pkg_request := Some (GDU_Z3950 apdu)\<rparr>) w in
      (case (rr_conv r, pkg_response p) of
         (Some rc, Some (GDU_Z3950 res)) \<Rightarrow>
           p\<lparr>pkg_response := Some (GDU_Z3950 (transform_apdu
             (convert_npr Y X rc (rr_match_syntax r) (if m_embed_schema st then rr_match_schema r else None)) res))\<rparr>
       | _ \<Rightarrow> p, w))"

definition RecordTransform_process :: "yaz \<Rightarrow> yaz_external \<Rightarrow> RecordTransform \<Rightarrow> 'w move_fn \<Rightarrow> package \<Rightarrow> 'w world_scheme \<Rightarrow> (package \<times> 'w world_scheme) option" where
  "RecordTransform_process Y X st mv p w =
     (case pkg_request p of
        Some (GDU_Z3950 (APDU_presentRequest pr)) \<Rightarrow>
          (let schema = record_composition_to_esn (prq_recordComposition pr);
               r = yaz_retrieval_request (m_retrieval st) schema (prq_preferredRecordSyntax pr)
           in if rr_code r \<noteq> 0
              then map_option (\<lambda>(code, details). (p\<lparr>pkg_response := Some (GDU_Z3950 (APDU_presentResponse
                     (create_presentResponse Y (Some (APDU_presentRequest pr)) code details)))\<rparr>, w))
                   (retrieval_diagnostic (m_retrieval st) (rr_code r) schema (prq_preferredRecordSyntax pr))
              else Some (transform_move Y X st r (APDU_presentRequest (backend_present r pr)) mv p w))
      | Some (GDU_Z3950 (APDU_searchRequest sr)) \<Rightarrow>
          (case search_schema sr of
             None \<Rightarrow> Some (mv [] (p\<lparr>pkg_request := Some (GDU_Z3950 (APDU_searchRequest (disable_piggyback sr)))\<rparr>) w)
           | Some schema \<Rightarrow>
               (let r = yaz_retrieval_request (m_retrieval st) schema (srq_preferredRecordSyntax sr)
                in if rr_code r \<noteq> 0
                   then map_option (\<lambda>(code, details). (p\<lparr>pkg_response := Some (GDU_Z3950 (APDU_searchResponse
                          (create_searchResponse Y (Some (APDU_searchRequest sr)) code details)))\<rparr>, w))
                        (retrieval_diagnostic (m_retrieval st) (rr_code r) schema (srq_preferredRecordSyntax sr))
                   else Some (transform_move Y X st r (APDU_searchRequest (backend_search r sr)) mv p w)))
      | _ \<Rightarrow> Some (mv [] p w))"

section \<open>Properties\<close>

text \<open>A second stage without a first one converts nothing.\<close>

lemma usemarcon_second_stage_alone:
  "usemarcon_attrs [a] \<lparr>stage1 = None, stage2 = None\<rparr> = Inr u \<Longrightarrow> attr_name a = ''stage2'' \<Longrightarrow>
     stage2 u \<noteq> None \<and> convert_usemarcon um u rec = Inr rec"
  by (auto simp: convert_usemarcon_def split: list.splits xml_node.splits)

text \<open>What becomes of a record: its database stays; a database record is one in the syntax asked for or a surrogate
  diagnostic; a diagnostic is left as it is.\<close>

definition npr_converted :: "yaz \<Rightarrow> yaz_external \<Rightarrow> yaz_record_conv \<Rightarrow> octets \<Rightarrow> string option \<Rightarrow> Z_NamePlusRecord \<Rightarrow> Z_NamePlusRecord \<Rightarrow> bool" where
  "npr_converted Y X rc syn schema r r' \<longleftrightarrow>
     npr_databaseName r' = npr_databaseName r \<and>
     (case npr_record r of
        NPR_databaseRecord e \<Rightarrow>
          (\<exists>d. npr_record r' = NPR_surrogateDiagnostic d) \<and>
            (case conv_external X rc e of Inl _ \<Rightarrow> True | Inr out \<Rightarrow> syn = recsyn_opac \<and> yaz_xml_to_opac X out (rc_charset rc) = None) \<or>
          (\<exists>out. conv_external X rc e = Inr out \<and>
             (if syn = recsyn_opac
              then \<exists>opac. yaz_xml_to_opac X out (rc_charset rc) = Some opac \<and> npr_record r' = NPR_databaseRecord (z_ext_record_opac Y opac)
              else npr_record r' = NPR_databaseRecord
                (case schema of None \<Rightarrow> z_ext_record_oid X syn out | Some s \<Rightarrow> set_descriptor X s (z_ext_record_oid X syn out))))
      | _ \<Rightarrow> npr_record r' = npr_record r)"

text \<open>What is assumed of YAZ: a surrogate diagnostic is one, for the database it is given.\<close>

definition surrogate_laws :: "yaz \<Rightarrow> bool" where
  "surrogate_laws Y \<longleftrightarrow> (\<forall>db e a. npr_databaseName (zget_surrogateDiagRec Y db e a) = db \<and> is_surrogate (zget_surrogateDiagRec Y db e a))"

lemma conv_failed_surrogate:
  assumes "surrogate_laws Y"
  shows "npr_databaseName (conv_failed Y r details) = npr_databaseName r"
    and "\<exists>d. npr_record (conv_failed Y r details) = NPR_surrogateDiagnostic d"
  using assms by (simp_all add: conv_failed_def surrogate_laws_def is_surrogate_def)

lemma convert_npr_converted: "surrogate_laws Y \<Longrightarrow> npr_converted Y X rc syn schema r (convert_npr Y X rc syn schema r)"
  using conv_failed_surrogate [of Y r]
  by (auto simp: convert_npr_def npr_converted_def Let_def split: Z_NPRecord.split sum.split option.split)

lemma transform_apdu_records:
  "apdu_records (transform_apdu f apdu) = (fst (apdu_records apdu),
     if fst (apdu_records apdu) > 0 then map f (snd (apdu_records apdu)) else snd (apdu_records apdu))"
  by (cases apdu) (auto split: option.splits Z_Records.splits)

text \<open>A request with piggyback disabled returns no records, and one for the target has its schema for every number
  of hits.\<close>

lemma disable_piggyback_none: "0 \<le> hits \<Longrightarrow> fst (piggyback_sr (disable_piggyback sr) hits esn) = 0"
  by (simp add: piggyback_sr_def piggyback_def disable_piggyback_def)

lemma esn_generic_map [simp]: "esn_generic (map_option ESN_generic x) = x"
  by (cases x) simp_all

lemma backend_search_piggyback:
  "fst (piggyback_sr (backend_search r sr) hits None) = fst (piggyback_sr sr hits None)"
  "0 < fst (piggyback_sr sr hits None) \<Longrightarrow> snd (piggyback_sr (backend_search r sr) hits None) = rr_backend_schema r"
  by (auto simp: piggyback_sr_def piggyback_def backend_search_def Let_def split: if_splits option.split)

lemma search_schema_piggyback:
  "search_schema sr = Some schema \<Longrightarrow> 0 < fst (piggyback_sr sr hits None) \<Longrightarrow> snd (piggyback_sr sr hits None) = schema"
  by (auto simp: search_schema_def piggyback_sr_def piggyback_def split: if_splits option.splits Z_ElementSetNames.splits)

lemma transform_move_records:
  assumes "surrogate_laws Y" and "mv [] (p\<lparr>pkg_request := Some (GDU_Z3950 apdu)\<rparr>) w = (p', w')"
    and "pkg_response p' = Some (GDU_Z3950 res)" and "rr_conv r = Some rc" and "0 < fst (apdu_records res)"
  shows "\<exists>res'. transform_move Y X st r apdu mv p w = (p'\<lparr>pkg_response := Some (GDU_Z3950 res')\<rparr>, w') \<and>
     fst (apdu_records res') = fst (apdu_records res) \<and>
     list_all2 (npr_converted Y X rc (rr_match_syntax r) (if m_embed_schema st then rr_match_schema r else None))
       (snd (apdu_records res)) (snd (apdu_records res'))"
  using assms
  by (intro exI [of _ "transform_apdu (convert_npr Y X rc (rr_match_syntax r) (if m_embed_schema st then rr_match_schema r else None)) res"])
     (simp add: transform_move_def transform_apdu_records list_all2_map2 list.rel_refl convert_npr_converted)

text \<open>
  C25. Records of a search are never returned in a form the filter does not convert. When the element set
  name depends on the number of hits, the search goes on without any records to be returned. Otherwise
  the schema that is looked up is the one the client gets its records in for every number of hits, the target is asked
  for as many records as the client asked for, for every number of hits in the schema and the syntax that are
  converted, and every record that comes back is converted.\<close>
theorem record_transform_search:
  assumes "pkg_request p = Some (GDU_Z3950 (APDU_searchRequest sr))" and "surrogate_laws Y" and "0 \<le> hits"
  shows "case search_schema sr of
      None \<Rightarrow> \<exists>sr'. RecordTransform_process Y X st mv p w = Some (mv [] (p\<lparr>pkg_request := Some (GDU_Z3950 (APDU_searchRequest sr'))\<rparr>) w) \<and>
        srq_query sr' = srq_query sr \<and> fst (piggyback_sr sr' hits None) = 0
    | Some schema \<Rightarrow>
        (0 < fst (piggyback_sr sr hits None) \<longrightarrow> snd (piggyback_sr sr hits None) = schema) \<and>
        (let r = yaz_retrieval_request (m_retrieval st) schema (srq_preferredRecordSyntax sr) in rr_code r = 0 \<longrightarrow>
          (\<exists>sr'. srq_query sr' = srq_query sr \<and> srq_preferredRecordSyntax sr' = rr_backend_syntax r \<and>
             fst (piggyback_sr sr' hits None) = fst (piggyback_sr sr hits None) \<and>
             (0 < fst (piggyback_sr sr' hits None) \<longrightarrow> snd (piggyback_sr sr' hits None) = rr_backend_schema r) \<and>
             (\<forall>p' w' res rc. mv [] (p\<lparr>pkg_request := Some (GDU_Z3950 (APDU_searchRequest sr'))\<rparr>) w = (p', w') \<and>
                pkg_response p' = Some (GDU_Z3950 res) \<and> 0 < fst (apdu_records res) \<and> rr_conv r = Some rc \<longrightarrow>
                (\<exists>res'. RecordTransform_process Y X st mv p w = Some (p'\<lparr>pkg_response := Some (GDU_Z3950 res')\<rparr>, w') \<and>
                   fst (apdu_records res') = fst (apdu_records res) \<and>
                   list_all2 (npr_converted Y X rc (rr_match_syntax r) (if m_embed_schema st then rr_match_schema r else None))
                     (snd (apdu_records res)) (snd (apdu_records res'))))))"
proof (cases "search_schema sr")
  case None
  then show ?thesis using assms disable_piggyback_none [OF assms(3)]
    by (auto simp: RecordTransform_process_def disable_piggyback_def [of sr] intro!: exI [of _ "disable_piggyback sr"])
next
  case (Some schema)
  let ?r = "yaz_retrieval_request (m_retrieval st) schema (srq_preferredRecordSyntax sr)"
  have run: "rr_code ?r = 0 \<Longrightarrow> RecordTransform_process Y X st mv p w =
      Some (transform_move Y X st ?r (APDU_searchRequest (backend_search ?r sr)) mv p w)"
    using Some assms(1) by (simp add: RecordTransform_process_def Let_def)
  have conv: "\<exists>res'. RecordTransform_process Y X st mv p w = Some (p'\<lparr>pkg_response := Some (GDU_Z3950 res')\<rparr>, w') \<and>
      fst (apdu_records res') = fst (apdu_records res) \<and>
      list_all2 (npr_converted Y X rc (rr_match_syntax ?r) (if m_embed_schema st then rr_match_schema ?r else None))
        (snd (apdu_records res)) (snd (apdu_records res'))"
    if "rr_code ?r = 0" "mv [] (p\<lparr>pkg_request := Some (GDU_Z3950 (APDU_searchRequest (backend_search ?r sr)))\<rparr>) w = (p', w') \<and>
      pkg_response p' = Some (GDU_Z3950 res) \<and> 0 < fst (apdu_records res) \<and> rr_conv ?r = Some rc" for p' w' res rc
    unfolding run [OF that(1)] option.inject
    by (rule transform_move_records [OF assms(2)]) (use that(2) in simp_all)
  have "srq_query (backend_search ?r sr) = srq_query sr" "srq_preferredRecordSyntax (backend_search ?r sr) = rr_backend_syntax ?r"
    by (simp_all add: backend_search_def Let_def)
  then show ?thesis unfolding Some option.case Let_def
    using search_schema_piggyback [OF Some]
    by (intro conjI impI exI [of _ "backend_search ?r sr"] allI conv) (simp_all add: backend_search_piggyback)
qed

text \<open>Present requests: asked for in the schema and syntax that are converted, and converted.\<close>

theorem record_transform_present:
  assumes "pkg_request p = Some (GDU_Z3950 (APDU_presentRequest pr))" and "surrogate_laws Y"
    and r: "r = yaz_retrieval_request (m_retrieval st) (record_composition_to_esn (prq_recordComposition pr)) (prq_preferredRecordSyntax pr)"
    and "rr_code r = 0" and "rr_conv r = Some rc"
    and "mv [] (p\<lparr>pkg_request := Some (GDU_Z3950 (APDU_presentRequest (backend_present r pr)))\<rparr>) w = (p', w')"
    and "pkg_response p' = Some (GDU_Z3950 res)" and "0 < fst (apdu_records res)"
  shows "record_composition_to_esn (prq_recordComposition (backend_present r pr)) = rr_backend_schema r \<and>
    (\<exists>res'. RecordTransform_process Y X st mv p w = Some (p'\<lparr>pkg_response := Some (GDU_Z3950 res')\<rparr>, w') \<and>
     fst (apdu_records res') = fst (apdu_records res) \<and>
     list_all2 (npr_converted Y X rc (rr_match_syntax r) (if m_embed_schema st then rr_match_schema r else None))
       (snd (apdu_records res)) (snd (apdu_records res')))"
proof
  show "record_composition_to_esn (prq_recordComposition (backend_present r pr)) = rr_backend_schema r"
    by (cases "rr_backend_schema r") (simp_all add: backend_present_def record_composition_to_esn_def)
  have "RecordTransform_process Y X st mv p w = Some (transform_move Y X st r (APDU_presentRequest (backend_present r pr)) mv p w)"
    using assms(1,4) r by (simp add: RecordTransform_process_def Let_def)
  then show "\<exists>res'. RecordTransform_process Y X st mv p w = Some (p'\<lparr>pkg_response := Some (GDU_Z3950 res')\<rparr>, w') \<and>
     fst (apdu_records res') = fst (apdu_records res) \<and>
     list_all2 (npr_converted Y X rc (rr_match_syntax r) (if m_embed_schema st then rr_match_schema r else None))
       (snd (apdu_records res)) (snd (apdu_records res'))"
    using transform_move_records [where apdu = "APDU_presentRequest (backend_present r pr)" and p = p and mv = mv and w = w, OF assms(2,6,7,5,8)] by auto
qed

section \<open>An instance\<close>

lemma yaz_ref_surrogate: "surrogate_laws yaz_ref"
  by (simp add: surrogate_laws_def is_surrogate_def yaz_ref_def)

text \<open>Records in the schema \<open>F\<close> are made from those in \<open>B\<close> by turning them round.\<close>

definition reverse_conv :: yaz_record_conv where
  "reverse_conv = \<lparr>rc_opac_record = (\<lambda>_. Inl None), rc_record = (\<lambda>s. Inr (rev s)), rc_charset = None\<rparr>"

definition reverse_transform :: RecordTransform where
  "reverse_transform = \<lparr>m_retrieval = \<lparr>yaz_retrieval_request = (\<lambda>schema syn.
       if schema = Some ''F'' then \<lparr>rr_code = 0, rr_match_schema = schema, rr_match_syntax = recsyn_xml, rr_conv = Some reverse_conv,
         rr_backend_schema = Some ''B'', rr_backend_syntax = Some recsyn_usmarc\<rparr>
       else \<lparr>rr_code = 1, rr_match_schema = None, rr_match_syntax = [], rr_conv = None, rr_backend_schema = None, rr_backend_syntax = None\<rparr>),
     yaz_retrieval_get_error = None\<rparr>, m_embed_schema = False\<rparr>"

definition external_ref :: yaz_external where
  "external_ref = \<lparr>external_opac = (\<lambda>_. None), z_ext_record_oid = External_octet, set_descriptor = (\<lambda>_ e. e), yaz_xml_to_opac = (\<lambda>_ _. None)\<rparr>"

definition rt_search :: Z_SearchRequest where
  "rt_search = (zget_searchRequest yaz_ref)\<lparr>srq_largeSetLowerBound := 10, srq_mediumSetPresentNumber := 2,
     srq_smallSetElementSetNames := Some (ESN_generic ''F''), srq_mediumSetElementSetNames := Some (ESN_generic ''F'')\<rparr>"

definition rt_package :: package where
  "rt_package = (Package_new \<lparr>m_id = 1, m_close = False\<rparr> Origin_new)\<lparr>pkg_request := Some (GDU_Z3950 (APDU_searchRequest rt_search))\<rparr>"

definition rt_records :: "Z_NamePlusRecord list" where
  "rt_records = [\<lparr>npr_databaseName = None, npr_record = NPR_databaseRecord (External_octet recsyn_usmarc ''ab'')\<rparr>,
     \<lparr>npr_databaseName = None, npr_record = NPR_databaseRecord (External_octet recsyn_usmarc ''cd'')\<rparr>]"

definition rt_target :: "unit move_fn" where
  "rt_target = (\<lambda>_ p w. (p\<lparr>pkg_response := Some (GDU_Z3950 (APDU_searchResponse ((zget_searchResponse yaz_ref)\<lparr>srs_numberOfRecordsReturned := 2,
     srs_records := Some (Records_DBOSD rt_records)\<rparr>)))\<rparr>, w))"

theorem record_transform_search_witness:
  "\<exists>sr' p' res'. srq_query sr' = srq_query rt_search \<and> piggyback_sr sr' 5 None = (2, Some ''B'') \<and>
     RecordTransform_process yaz_ref external_ref reverse_transform rt_target rt_package \<lparr>m_global_id = 0\<rparr> =
       Some (p'\<lparr>pkg_response := Some (GDU_Z3950 res')\<rparr>, \<lparr>m_global_id = 0\<rparr>) \<and>
     list_all2 (npr_converted yaz_ref external_ref reverse_conv recsyn_xml None) rt_records (snd (apdu_records res'))"
proof -
  have schema: "search_schema rt_search = Some (Some ''F'')" by (simp add: search_schema_def rt_search_def yaz_ref_def)
  have pb: "piggyback_sr rt_search 5 None = (2, Some ''F'')"
    by (simp add: piggyback_sr_def piggyback_def rt_search_def yaz_ref_def)
  have "pkg_request rt_package = Some (GDU_Z3950 (APDU_searchRequest rt_search))" by (simp add: rt_package_def)
  from record_transform_search [OF this yaz_ref_surrogate, where hits = 5 and X = external_ref and st = reverse_transform
      and mv = rt_target and w = "\<lparr>m_global_id = 0\<rparr>"]
  obtain sr' where sr': "srq_query sr' = srq_query rt_search" "piggyback_sr sr' 5 None = (2, Some ''B'')"
    and all: "\<forall>p' w' res rc. rt_target [] (rt_package\<lparr>pkg_request := Some (GDU_Z3950 (APDU_searchRequest sr'))\<rparr>) \<lparr>m_global_id = 0\<rparr> = (p', w') \<and>
        pkg_response p' = Some (GDU_Z3950 res) \<and> 0 < fst (apdu_records res) \<and> Some reverse_conv = Some rc \<longrightarrow>
        (\<exists>res'. RecordTransform_process yaz_ref external_ref reverse_transform rt_target rt_package \<lparr>m_global_id = 0\<rparr> =
            Some (p'\<lparr>pkg_response := Some (GDU_Z3950 res')\<rparr>, w') \<and> fst (apdu_records res') = fst (apdu_records res) \<and>
          list_all2 (npr_converted yaz_ref external_ref rc recsyn_xml None) (snd (apdu_records res)) (snd (apdu_records res')))"
    unfolding schema by (auto simp: Let_def pb reverse_transform_def prod_eq_iff)
  let ?q = "rt_target [] (rt_package\<lparr>pkg_request := Some (GDU_Z3950 (APDU_searchRequest sr'))\<rparr>) \<lparr>m_global_id = 0\<rparr>"
  let ?res = "APDU_searchResponse ((zget_searchResponse yaz_ref)\<lparr>srs_numberOfRecordsReturned := 2, srs_records := Some (Records_DBOSD rt_records)\<rparr>)"
  have "?q = (fst ?q, \<lparr>m_global_id = 0\<rparr>)" "pkg_response (fst ?q) = Some (GDU_Z3950 ?res)" "0 < fst (apdu_records ?res)"
    "snd (apdu_records ?res) = rt_records"
    by (simp_all add: rt_target_def)
  then show ?thesis using sr' all [rule_format, of "fst ?q" "\<lparr>m_global_id = 0\<rparr>" ?res reverse_conv] by metis
qed

end
