(* ===== verification/MP_Query_Filters.thy ===== *)
theory MP_Query_Filters
  imports MP_Sru
begin

text \<open>
  Filters that change the query of a search: \<open>cql_rpn\<close> (\<open>src/filter_cql_rpn.cpp\<close>), between CQL and RPN, and
  \<open>query_rewrite\<close> (\<open>src/filter_query_rewrite.cpp\<close>), by a stylesheet and a conversion of characters. The translations
  are parameters; everything around them is modelled: which queries they are given, what becomes of their errors and
  what goes on.
\<close>

section \<open>The cql_rpn filter\<close>

text \<open>
  What is used of \<open>Yaz_cql2rpn\<close>, whose state has type \<open>'c\<close>. Reading a file or a pattern gives the new state, or
  nothing for an error; the translations give their code (not 0) with a text, or the query.
\<close>

record 'c cql2rpn =
  parse_spec_file :: "'c \<Rightarrow> string \<Rightarrow> 'c option"
  define_pattern :: "'c \<Rightarrow> string \<Rightarrow> string \<Rightarrow> 'c option"
  query_transform :: "'c \<Rightarrow> string \<Rightarrow> int \<times> string option \<times> Z_RPNStructure"
  rpn2cql_transform :: "'c \<Rightarrow> Z_RPNStructure \<Rightarrow> int \<times> string option \<times> string"
  yaz_diag_srw_to_bib1 :: "int \<Rightarrow> int"
  yaz_filepath_resolve :: "string \<Rightarrow> string option"

record 'c CQLtoRPN =
  m_cql2rpn :: 'c
  cql_reverse :: bool

abbreviation (input) BIB1_PERMANENT_SYSTEM_ERROR :: int where "BIB1_PERMANENT_SYSTEM_ERROR \<equiv> 1"

definition CQLtoRPN_attr :: "'c cql2rpn \<Rightarrow> xml_node list \<Rightarrow> xml_attr \<Rightarrow> 'c CQLtoRPN \<times> nat \<Rightarrow> mp_exception + 'c CQLtoRPN \<times> nat" where
  "CQLtoRPN_attr L ptr a x =
     (case x of (st, n) \<Rightarrow>
      if attr_name a = ''file''
      then (let fname = get_text_attr a in
            case yaz_filepath_resolve L fname of
              None \<Rightarrow> Inl (FilterException (''Could not open '' @ fname))
            | Some fullpath \<Rightarrow>
                (case parse_spec_file L (m_cql2rpn st) fullpath of
                   None \<Rightarrow> Inl (FilterException (''Bad or missing CQL to RPN configuration '' @ fname))
                 | Some c \<Rightarrow> Inr (st\<lparr>m_cql2rpn := c\<rparr>, n + 1)))
      else if attr_name a = ''key''
      then (let key = get_text_attr a; val = get_text ptr in
            case define_pattern L (m_cql2rpn st) key val of
              None \<Rightarrow> Inl (FilterException (''Bad CQL to RPN pattern: '' @ key @ ''='' @ val))
            | Some c \<Rightarrow> Inr (st\<lparr>m_cql2rpn := c\<rparr>, n + 1))
      else if attr_name a = ''reverse'' then Inr (st\<lparr>cql_reverse := get_bool (attr_children a) False\<rparr>, n)
      else Inl (FilterException (''Bad attribute '' @ attr_name a)))"

fun CQLtoRPN_attrs :: "'c cql2rpn \<Rightarrow> xml_node list \<Rightarrow> xml_attr list \<Rightarrow> 'c CQLtoRPN \<times> nat \<Rightarrow> mp_exception + 'c CQLtoRPN \<times> nat" where
  "CQLtoRPN_attrs L ptr [] x = Inr x"
| "CQLtoRPN_attrs L ptr (a # ats) x = (case CQLtoRPN_attr L ptr a x of Inl e \<Rightarrow> Inl e | Inr x \<Rightarrow> CQLtoRPN_attrs L ptr ats x)"

definition CQLtoRPN_element :: "'c cql2rpn \<Rightarrow> xml_node list \<Rightarrow> 'c CQLtoRPN \<times> nat \<Rightarrow> mp_exception + 'c CQLtoRPN \<times> nat" where
  "CQLtoRPN_element L ptr x =
     (case ptr of
        [] \<Rightarrow> Inr x
      | n # _ \<Rightarrow>
          if node_name n \<noteq> ''conversion'' then Inl (FilterException (''Bad element '' @ node_name n))
          else CQLtoRPN_attrs L ptr (node_attrs n) x)"

definition CQLtoRPN_configure :: "'c cql2rpn \<Rightarrow> xml_node \<Rightarrow> 'c CQLtoRPN \<Rightarrow> mp_exception + 'c CQLtoRPN" where
  "CQLtoRPN_configure L xmlnode st =
     (case for_elements (CQLtoRPN_element L) (node_children xmlnode) (st, 0) of
        Inl e \<Rightarrow> Inl e
      | Inr (st, n) \<Rightarrow>
          if n = 0 then Inl (FilterException ''Missing conversion configuration for filter cql_rpn'') else Inr st)"

text \<open>A query in CQL, as \<open>query_type_104\<close> carries it.\<close>

definition query_cql :: "Z_Query \<Rightarrow> string option" where
  "query_cql q = (case q of Query_other s \<Rightarrow> if take 4 s = ''104 '' then Some (drop 4 s) else None | _ \<Rightarrow> None)"

definition CQLtoRPN_search :: "yaz \<Rightarrow> 'c cql2rpn \<Rightarrow> 'c CQLtoRPN \<Rightarrow> Z_SearchRequest \<Rightarrow> Z_SearchResponse + Z_SearchRequest" where
  "CQLtoRPN_search Y L st sr =
     (if cql_reverse st
      then (case srq_query sr of
              Query_type_1 rpn \<Rightarrow>
                (case rpn2cql_transform L (m_cql2rpn st) rpn of (r, addinfo, cql) \<Rightarrow>
                 if r \<noteq> 0 then Inl (create_searchResponse Y (Some (APDU_searchRequest sr)) r addinfo)
                 else Inr (sr\<lparr>srq_query := query_type_104 cql\<rparr>))
            | _ \<Rightarrow> Inr sr)
      else (case query_cql (srq_query sr) of
              Some cql \<Rightarrow>
                (case query_transform L (m_cql2rpn st) cql of (r, addinfo, rpn) \<Rightarrow>
                 if r = -3 then Inl (create_searchResponse Y (Some (APDU_searchRequest sr)) BIB1_PERMANENT_SYSTEM_ERROR
                   (Some ''cql_rpn: missing CQL to RPN configuration''))
                 else if r \<noteq> 0 then Inl (create_searchResponse Y (Some (APDU_searchRequest sr)) (yaz_diag_srw_to_bib1 L r) addinfo)
                 else Inr (sr\<lparr>srq_query := Query_type_1 rpn\<rparr>))
            | None \<Rightarrow> Inr sr))"

definition CQLtoRPN_process :: "yaz \<Rightarrow> 'c cql2rpn \<Rightarrow> 'c CQLtoRPN \<Rightarrow> 'w move_fn \<Rightarrow> package \<Rightarrow> 'w world_scheme \<Rightarrow> package \<times> 'w world_scheme" where
  "CQLtoRPN_process Y L st mv p w =
     (case pkg_request p of
        Some (GDU_Z3950 (APDU_searchRequest sr)) \<Rightarrow>
          (case CQLtoRPN_search Y L st sr of
             Inl resp \<Rightarrow> (p\<lparr>pkg_response := Some (GDU_Z3950 (APDU_searchResponse resp))\<rparr>, w)
           | Inr sr \<Rightarrow> mv [] (p\<lparr>pkg_request := Some (GDU_Z3950 (APDU_searchRequest sr))\<rparr>) w)
      | _ \<Rightarrow> mv [] p w)"

section \<open>The query_rewrite filter\<close>

text \<open>
  The XML form of queries (\<open>'d\<close>), stylesheets (\<open>'s\<close>) and the conversion of characters (\<open>'i\<close>). \<open>yaz_xml2query\<close> gives
  a code, a text and the query; the conversion of a query may fail.
\<close>

record ('d, 's, 'i) query_env =
  yaz_query2xml :: "Z_Query \<Rightarrow> 'd option"
  xsltApplyStylesheet :: "'s \<Rightarrow> 'd \<Rightarrow> 'd option"
  yaz_xml2query :: "'d \<Rightarrow> Z_Query \<Rightarrow> int \<times> string option \<times> Z_Query"
  yaz_iconv_open :: "string \<Rightarrow> string \<Rightarrow> 'i option"
  query_charset_convert :: "'i \<Rightarrow> Z_RPNStructure \<Rightarrow> Z_RPNStructure option"
  resolve_path :: "string \<Rightarrow> string option"
  xsltParseStylesheetFile :: "string \<Rightarrow> 's option"

record 's QueryRewrite =
  m_stylesheet :: "'s option"
  charset_from :: string
  charset_to :: string

definition QueryRewrite_new :: "'s QueryRewrite" where
  "QueryRewrite_new = \<lparr>m_stylesheet = None, charset_from = ''UTF-8'', charset_to = []\<rparr>"

abbreviation (input) BIB1_MALFORMED_QUERY :: int where "BIB1_MALFORMED_QUERY \<equiv> 108"

text \<open>The stylesheet: an error code with its text, and the query.\<close>

definition rewrite_xslt :: "('d, 's, 'i) query_env \<Rightarrow> 's QueryRewrite \<Rightarrow> Z_Query \<Rightarrow> int \<times> string option \<times> Z_Query" where
  "rewrite_xslt E st q =
     (case m_stylesheet st of
        None \<Rightarrow> (0, None, q)
      | Some s \<Rightarrow>
          (case yaz_query2xml E q of
             None \<Rightarrow> (0, None, q)
           | Some doc \<Rightarrow>
               (case xsltApplyStylesheet E s doc of
                  None \<Rightarrow> (BIB1_MALFORMED_QUERY, Some ''XSLT transform failed for query'', q)
                | Some res \<Rightarrow> yaz_xml2query E res q)))"

definition rewrite_charset :: "('d, 's, 'i) query_env \<Rightarrow> 's QueryRewrite \<Rightarrow> Z_Query \<Rightarrow> int \<times> string option \<times> Z_Query" where
  "rewrite_charset E st q =
     (let ok = (0, None, q); bad = (BIB1_MALFORMED_QUERY, Some ''could not convert query to target charset'', q) in
      if length (charset_to st) = 0 \<or> length (charset_from st) = 0 then ok
      else case yaz_iconv_open E (charset_to st) (charset_from st) of
        None \<Rightarrow> ok
      | Some cd \<Rightarrow>
          (case q of
             Query_type_1 rpn \<Rightarrow> (case query_charset_convert E cd rpn of None \<Rightarrow> bad | Some rpn' \<Rightarrow> (0, None, Query_type_1 rpn'))
           | Query_type_101 rpn \<Rightarrow> (case query_charset_convert E cd rpn of None \<Rightarrow> bad | Some rpn' \<Rightarrow> (0, None, Query_type_101 rpn'))
           | _ \<Rightarrow> ok))"

definition rewrite_query :: "('d, 's, 'i) query_env \<Rightarrow> 's QueryRewrite \<Rightarrow> Z_Query \<Rightarrow> int \<times> string option \<times> Z_Query" where
  "rewrite_query E st q =
     (case rewrite_xslt E st q of (code, addinfo, q') \<Rightarrow>
      if code \<noteq> 0 then (code, addinfo, q') else rewrite_charset E st q')"

definition QueryRewrite_process :: "yaz \<Rightarrow> ('d, 's, 'i) query_env \<Rightarrow> 's QueryRewrite \<Rightarrow> 'w move_fn \<Rightarrow> package \<Rightarrow> 'w world_scheme \<Rightarrow> package \<times> 'w world_scheme" where
  "QueryRewrite_process Y E st mv p w =
     (case pkg_request p of
        Some (GDU_Z3950 (APDU_searchRequest sr)) \<Rightarrow>
          (case rewrite_query E st (srq_query sr) of (code, addinfo, q) \<Rightarrow>
           let req = APDU_searchRequest (sr\<lparr>srq_query := q\<rparr>); p = p\<lparr>pkg_request := Some (GDU_Z3950 req)\<rparr> in
           if code \<noteq> 0
           then (p\<lparr>pkg_response := Some (GDU_Z3950 (APDU_searchResponse (create_searchResponse Y (Some req) code addinfo)))\<rparr>, w)
           else mv [] p w)
      | _ \<Rightarrow> mv [] p w)"

fun xslt_attrs :: "xml_attr list \<Rightarrow> string \<Rightarrow> mp_exception + string" where
  "xslt_attrs [] fname = Inr fname"
| "xslt_attrs (a # ats) fname =
     (case check_attribute a [] ''stylesheet'' of Inl e \<Rightarrow> Inl e | Inr _ \<Rightarrow> xslt_attrs ats (get_text_attr a))"

definition configure_xslt :: "('d, 's, 'i) query_env \<Rightarrow> xml_attr list \<Rightarrow> 's QueryRewrite \<Rightarrow> mp_exception + 's QueryRewrite" where
  "configure_xslt E ats st =
     (if m_stylesheet st \<noteq> None then Inl (FilterException ''Only one xslt element allowed in query_rewrite filter'')
      else case xslt_attrs ats [] of
        Inl e \<Rightarrow> Inl e
      | Inr fname \<Rightarrow>
          if fname = []
          then Inl (FilterException (''Attribute <xslt stylesheet='' @ [CHR 0x22] @ fname @ [CHR 0x22] @ ''> needs XSLT stylesheet path content in query_rewrite filter''))
          else (case resolve_path E fname of
                  None \<Rightarrow> Inl (FilterException (''Cannot read XSLT '' @ fname))
                | Some cp \<Rightarrow>
                    (case xsltParseStylesheetFile E cp of
                       None \<Rightarrow> Inl (FilterException (''Failed to read XSLT stylesheet '' @ [CHR 0x27] @ fname @ [CHR 0x27] @ '' in query_rewrite filter''))
                     | Some s \<Rightarrow> Inr (st\<lparr>m_stylesheet := Some s\<rparr>))))"

fun charset_attrs :: "xml_attr list \<Rightarrow> 's QueryRewrite \<Rightarrow> mp_exception + 's QueryRewrite" where
  "charset_attrs [] st = Inr st"
| "charset_attrs (a # ats) st =
     (if attr_name a = ''from'' then charset_attrs ats (st\<lparr>charset_from := get_text_attr a\<rparr>)
      else if attr_name a = ''to'' then charset_attrs ats (st\<lparr>charset_to := get_text_attr a\<rparr>)
      else Inl (FilterException ''Invalid attribute inside charset inside query_rewrite filter''))"

definition QueryRewrite_element :: "('d, 's, 'i) query_env \<Rightarrow> xml_node list \<Rightarrow> 's QueryRewrite \<Rightarrow> mp_exception + 's QueryRewrite" where
  "QueryRewrite_element E ptr st =
     (case ptr of
        [] \<Rightarrow> Inr st
      | n # _ \<Rightarrow>
          if is_element_mp ptr ''xslt'' then configure_xslt E (node_attrs n) st
          else if is_element_mp ptr ''charset'' then charset_attrs (node_attrs n) st
          else Inl (FilterException (''Bad element '' @ node_name n @ '' in query_rewrite filter'')))"

definition QueryRewrite_configure :: "('d, 's, 'i) query_env \<Rightarrow> xml_node \<Rightarrow> 's QueryRewrite \<Rightarrow> mp_exception + 's QueryRewrite" where
  "QueryRewrite_configure E ptr st = for_elements (QueryRewrite_element E) (node_children ptr) st"

section \<open>Properties\<close>

lemma query_cql_104 [simp]: "query_cql (query_type_104 s) = Some s" "query_cql (Query_type_1 rpn) = None"
  by (simp_all add: query_cql_def query_type_104_def)

text \<open>A package with a search whose query is in CQL.\<close>

definition cql_search :: "package \<Rightarrow> bool" where
  "cql_search p \<longleftrightarrow> (\<exists>sr. pkg_request p = Some (GDU_Z3950 (APDU_searchRequest sr)) \<and> query_cql (srq_query sr) \<noteq> None)"

text \<open>What the rest of the chain does with searches in CQL does not matter: it is never given one.\<close>

theorem cql_rpn_no_cql_behind:
  assumes "\<not> cql_reverse st" and agree: "\<And>q w. \<not> cql_search q \<Longrightarrow> mv [] q w = mv' [] q w"
  shows "CQLtoRPN_process Y L st mv p w = CQLtoRPN_process Y L st mv' p w"
proof (cases "\<exists>sr. pkg_request p = Some (GDU_Z3950 (APDU_searchRequest sr))")
  case True
  then obtain sr where sr: "pkg_request p = Some (GDU_Z3950 (APDU_searchRequest sr))" by blast
  show ?thesis
  proof (cases "CQLtoRPN_search Y L st sr")
    case (Inr sr')
    then have "query_cql (srq_query sr') = None"
      using assms(1) by (auto simp: CQLtoRPN_search_def split: option.splits prod.splits if_splits)
    then have "\<not> cql_search (p\<lparr>pkg_request := Some (GDU_Z3950 (APDU_searchRequest sr'))\<rparr>)" by (simp add: cql_search_def)
    from agree [OF this] show ?thesis using sr Inr by (simp add: CQLtoRPN_process_def)
  qed (use sr in \<open>simp add: CQLtoRPN_process_def\<close>)
next
  case False
  then have "\<not> cql_search p" by (simp add: cql_search_def)
  from agree [OF this] show ?thesis using False
    by (auto simp: CQLtoRPN_process_def split: option.split Z_GDU.split Z_APDU.split)
qed

text \<open>Both filters change nothing of a search but its query, and answer with the reference identifier of the request.\<close>

lemma cql_rpn_keeps_request:
  "CQLtoRPN_search Y L st sr = Inr sr' \<Longrightarrow> sr'\<lparr>srq_query := q\<rparr> = sr\<lparr>srq_query := q\<rparr>"
  "CQLtoRPN_search Y L st sr = Inl resp \<Longrightarrow> srs_referenceId resp = srq_referenceId sr"
  by (auto simp: CQLtoRPN_search_def source_referenceId_def split: if_splits option.splits prod.splits Z_Query.splits)

text \<open>A configuration that is accepted has at least one conversion.\<close>

lemma CQLtoRPN_configure_converts:
  assumes "CQLtoRPN_configure L xmlnode st = Inr st'"
  shows "\<exists>c \<in> set (node_children xmlnode). node_name c = ''conversion'' \<and>
    (\<exists>a \<in> set (node_attrs c). attr_name a = ''file'' \<or> attr_name a = ''key'')"
proof -
  have attrs: "\<exists>a \<in> set ats. attr_name a = ''file'' \<or> attr_name a = ''key''"
    if "CQLtoRPN_attrs L ptr ats (s, n) = Inr (s', m)" "n < m" for ptr ats s n s' m
    using that
  proof (induction ats arbitrary: s n)
    case (Cons a ats)
    then obtain s1 n1 where "CQLtoRPN_attr L ptr a (s, n) = Inr (s1, n1)" "CQLtoRPN_attrs L ptr ats (s1, n1) = Inr (s', m)"
      by (auto split: sum.splits)
    moreover from this have "attr_name a = ''file'' \<or> attr_name a = ''key'' \<or> n1 = n"
      by (auto simp: CQLtoRPN_attr_def Let_def split: if_splits option.splits)
    ultimately show ?case using Cons by auto
  qed simp
  have "\<exists>c \<in> set ns. node_name c = ''conversion'' \<and> (\<exists>a \<in> set (node_attrs c). attr_name a = ''file'' \<or> attr_name a = ''key'')"
    if "for_elements (CQLtoRPN_element L) ns (s, n) = Inr (s', m)" "n < m" for ns s n s' m
    using that
  proof (induction ns arbitrary: s n)
    case (Cons c ns)
    show ?case
    proof (cases "node_type c = XML_ELEMENT_NODE")
      case True
      then obtain s1 n1 where step: "CQLtoRPN_element L (c # ns) (s, n) = Inr (s1, n1)"
        and rest: "for_elements (CQLtoRPN_element L) ns (s1, n1) = Inr (s', m)"
        using Cons.prems by (auto split: sum.splits)
      then have c: "node_name c = ''conversion''" "CQLtoRPN_attrs L (c # ns) (node_attrs c) (s, n) = Inr (s1, n1)"
        by (auto simp: CQLtoRPN_element_def split: if_splits)
      show ?thesis
      proof (cases "n < n1")
        case True
        with attrs [OF c(2)] c(1) show ?thesis by auto
      next
        case False
        with Cons.prems have "n1 < m" by simp
        with Cons.IH [OF rest] show ?thesis by auto
      qed
    qed (use Cons in auto)
  qed simp
  moreover obtain n where "for_elements (CQLtoRPN_element L) (node_children xmlnode) (st, 0) = Inr (st', n)" "0 < n"
    using assms by (auto simp: CQLtoRPN_configure_def split: sum.splits if_splits)
  ultimately show ?thesis by blast
qed

lemma query_rewrite_keeps_request:
  assumes "pkg_request p = Some (GDU_Z3950 (APDU_searchRequest sr))"
  shows "\<exists>q. (\<exists>code addinfo resp. code \<noteq> 0 \<and> QueryRewrite_process Y E st mv p w =
       (p\<lparr>pkg_request := Some (GDU_Z3950 (APDU_searchRequest (sr\<lparr>srq_query := q\<rparr>))),
          pkg_response := Some (GDU_Z3950 (APDU_searchResponse resp))\<rparr>, w) \<and>
       srs_referenceId resp = srq_referenceId sr \<and> srs_records resp = Some (Records_NSD (zget_DefaultDiagFormat Y code addinfo))) \<or>
     QueryRewrite_process Y E st mv p w = mv [] (p\<lparr>pkg_request := Some (GDU_Z3950 (APDU_searchRequest (sr\<lparr>srq_query := q\<rparr>)))\<rparr>) w"
proof -
  obtain code addinfo q where "rewrite_query E st (srq_query sr) = (code, addinfo, q)" by (cases "rewrite_query E st (srq_query sr)")
  note rq = this
  let ?resp = "create_searchResponse Y (Some (APDU_searchRequest (sr\<lparr>srq_query := q\<rparr>))) code addinfo"
  show ?thesis
  proof (cases "code = 0")
    case False
    then have "srs_referenceId ?resp = srq_referenceId sr" "srs_records ?resp = Some (Records_NSD (zget_DefaultDiagFormat Y code addinfo))"
      by (auto simp: create_searchResponse_def source_referenceId_def Let_def split: option.split)
    with False rq assms show ?thesis
      by (intro exI [of _ q] disjI1 exI [of _ code] exI [of _ addinfo] exI [of _ ?resp]) (simp add: QueryRewrite_process_def Let_def)
  qed (use rq assms in \<open>auto simp: QueryRewrite_process_def\<close>)
qed

text \<open>Without stylesheet and target character set queries are not changed.\<close>

lemma query_rewrite_default: "QueryRewrite_process Y E QueryRewrite_new mv p w = mv [] p w"
proof -
  have "rewrite_query E QueryRewrite_new q = (0, None, q)" for q
    by (simp add: rewrite_query_def rewrite_xslt_def rewrite_charset_def QueryRewrite_new_def)
  note id = this
  show ?thesis
  proof (cases "\<exists>sr. pkg_request p = Some (GDU_Z3950 (APDU_searchRequest sr))")
    case True
    then obtain sr where sr: "pkg_request p = Some (GDU_Z3950 (APDU_searchRequest sr))" by blast
    then have upd: "p\<lparr>pkg_request := Some (GDU_Z3950 (APDU_searchRequest sr))\<rparr> = p" by simp
    have "QueryRewrite_process Y E QueryRewrite_new mv p w = mv [] (p\<lparr>pkg_request := Some (GDU_Z3950 (APDU_searchRequest sr))\<rparr>) w"
      using sr id by (simp add: QueryRewrite_process_def)
    then show ?thesis unfolding upd .
  qed (auto simp: QueryRewrite_process_def split: option.split Z_GDU.split Z_APDU.split)
qed

end
