(* ===== verification/MP_Http_Client.thy ===== *)
theory MP_Http_Client
  imports MP_Xml MP_Yaz_Ref MP_Util
begin

text \<open>
  HTTP requests that go out: the \<open>http_client\<close> filter (\<open>src/filter_http_client.cpp\<close>), which relays the requests of
  clients, and \<open>get_searchable\<close> (\<open>src/torus.cpp\<close>), which fetches an XML document. The client of YAZ is a parameter;
  what it does to the world is its own.
\<close>

section \<open>The client of YAZ\<close>

text \<open>
  \<open>yaz_url_exec\<close> has the proxy, the number of redirects, the URI, the method, the headers and the body of the request;
  without a response there is a text that tells why.
\<close>

record 'w url_client =
  yaz_url_exec :: "string option \<Rightarrow> int \<Rightarrow> string \<Rightarrow> string \<Rightarrow> Z_HTTP_Header list \<Rightarrow> octets \<Rightarrow> 'w world_scheme
    \<Rightarrow> (string option + Z_HTTP_Response) \<times> 'w world_scheme"
  header_remove :: "Z_HTTP_Header list \<Rightarrow> string \<Rightarrow> string option \<times> Z_HTTP_Header list"
  header_set :: "Z_HTTP_Header list \<Rightarrow> string \<Rightarrow> string \<Rightarrow> Z_HTTP_Header list"

section \<open>The http_client filter\<close>

record HTTPClient =
  proxy_host :: string
  default_host :: string
  max_redirects :: int
  x_forwarded_for :: bool
  bind_host :: bool

definition HTTPClient_new :: HTTPClient where
  "HTTPClient_new = \<lparr>proxy_host = [], default_host = [], max_redirects = 0, x_forwarded_for = False, bind_host = False\<rparr>"

text \<open>The addresses a request was forwarded for so far, with that of the peer behind them.\<close>

definition forwarded_for :: "yaz \<Rightarrow> origin \<Rightarrow> Z_HTTP_Header list \<Rightarrow> string" where
  "forwarded_for Y ori headers =
     (case z_HTTP_header_lookup Y headers ''X-Forwarded-For'' of Some peer_name1 \<Rightarrow> peer_name1 @ '', '' | None \<Rightarrow> []) @
     Origin_get_address ori"

definition client_headers :: "yaz \<Rightarrow> 'w url_client \<Rightarrow> HTTPClient \<Rightarrow> origin \<Rightarrow> Z_HTTP_Header list \<Rightarrow> Z_HTTP_Header list" where
  "client_headers Y U st ori headers =
     (if x_forwarded_for st then header_set U headers ''X-Forwarded-For'' (forwarded_for Y ori headers) else headers)"

definition client_uri :: "HTTPClient \<Rightarrow> origin \<Rightarrow> string \<Rightarrow> string" where
  "client_uri st ori path =
     (let uri = (if path \<noteq> [] \<and> hd path = CHR ''/'' then (if length (default_host st) > 0 then default_host st @ path else []) else path)
      in if bind_host st then uri @ '' '' @ Origin_get_bind_address ori else uri)"

definition HTTPClient_proxy :: "yaz \<Rightarrow> 'w url_client \<Rightarrow> HTTPClient \<Rightarrow> Z_HTTP_Request \<Rightarrow> package \<Rightarrow> 'w world_scheme \<Rightarrow> package \<times> 'w world_scheme" where
  "HTTPClient_proxy Y U st hreq p w =
     (let (http_proxy, headers) = header_remove U (hrq_headers hreq) ''X-Metaproxy-Proxy'';
          http_proxy = (case http_proxy of Some x \<Rightarrow> x | None \<Rightarrow> proxy_host st);
          headers = client_headers Y U st (pkg_origin p) headers;
          hreq = hreq\<lparr>hrq_headers := headers\<rparr>;
          p = p\<lparr>pkg_request := Some (GDU_HTTP_Request hreq)\<rparr>;
          uri = client_uri st (pkg_origin p) (hrq_path hreq)
      in if length uri = 0
         then (let (ses, hres) = create_HTTP_Response_details Y (pkg_session p) hreq 404 (Some ''http_client: no target URI specified'')
               in (p\<lparr>pkg_session := ses, pkg_response := Some (GDU_HTTP_Response hres)\<rparr>, w))
         else (case yaz_url_exec U (if http_proxy \<noteq> [] then Some http_proxy else None) (max_redirects st) uri (hrq_method hreq)
                      headers (hrq_content hreq) w of
                 (Inr hres, w) \<Rightarrow>
                   (p\<lparr>pkg_session := fst (create_HTTP_Response Y (pkg_session p) hreq 200),
                      pkg_response := Some (GDU_HTTP_Response (hres\<lparr>hrs_headers := snd (header_remove U (hrs_headers hres) ''Transfer-Encoding'')\<rparr>))\<rparr>, w)
               | (Inl err, w) \<Rightarrow>
                   (let (ses, hres) = create_HTTP_Response_details Y (pkg_session p) hreq 502 err
                    in (p\<lparr>pkg_session := ses, pkg_response := Some (GDU_HTTP_Response hres)\<rparr>, w))))"

definition HTTPClient_process :: "yaz \<Rightarrow> 'w url_client \<Rightarrow> HTTPClient \<Rightarrow> 'w move_fn \<Rightarrow> package \<Rightarrow> 'w world_scheme \<Rightarrow> package \<times> 'w world_scheme" where
  "HTTPClient_process Y U st mv p w =
     (case pkg_request p of
        Some (GDU_HTTP_Request hreq) \<Rightarrow> HTTPClient_proxy Y U st hreq p w
      | _ \<Rightarrow> mv [] p w)"

fun has_sub :: "string \<Rightarrow> string \<Rightarrow> bool" where
  "has_sub pat [] = (pat = [])"
| "has_sub pat (c # s) = (take (length pat) (c # s) = pat \<or> has_sub pat s)"

definition HTTPClient_element :: "xml_node list \<Rightarrow> HTTPClient \<Rightarrow> mp_exception + HTTPClient" where
  "HTTPClient_element ptr st =
     (case ptr of
        [] \<Rightarrow> Inr st
      | n # _ \<Rightarrow>
          if node_name n = ''proxy'' then Inr (st\<lparr>proxy_host := get_text ptr\<rparr>)
          else if node_name n = ''max-redirects'' then Inr (st\<lparr>max_redirects := get_int ptr 0\<rparr>)
          else if node_name n = ''default-host''
          then (if has_sub ''://'' (get_text ptr) then Inr (st\<lparr>default_host := get_text ptr\<rparr>)
                else Inl (FilterException ''default-host is missing method (such as http://) in http_client filter''))
          else if node_name n = ''x-forwarded-for'' then Inr (st\<lparr>x_forwarded_for := get_bool ptr False\<rparr>)
          else if node_name n = ''bind_host'' then Inr (st\<lparr>bind_host := get_bool ptr False\<rparr>)
          else Inl (FilterException (''Bad element '' @ node_name n @ '' in http_client filter'')))"

definition HTTPClient_configure :: "xml_node \<Rightarrow> HTTPClient \<Rightarrow> mp_exception + HTTPClient" where
  "HTTPClient_configure ptr st = for_elements HTTPClient_element (node_children ptr) st"

section \<open>Torus\<close>

text \<open>The first occurrence of a pattern in a template is replaced by an encoded text.\<close>

fun replace_first :: "string \<Rightarrow> string \<Rightarrow> string \<Rightarrow> string" where
  "replace_first pat new [] = (if pat = [] then new else [])"
| "replace_first pat new (c # s) =
     (if take (length pat) (c # s) = pat then new @ drop (length pat) (c # s) else c # replace_first pat new s)"

definition searchable_url :: "(string \<Rightarrow> string) \<Rightarrow> string \<Rightarrow> string \<Rightarrow> string \<Rightarrow> string \<Rightarrow> string" where
  "searchable_url enc url_template db query realm =
     (let t = replace_first ''%query'' (enc query) url_template;
          t = replace_first ''%db'' (enc db) t
      in replace_first ''%realm'' (enc realm) t)"

text \<open>Result: the document and the text of the error; log lines are left out.\<close>

definition get_searchable :: "yaz \<Rightarrow> 'w url_client \<Rightarrow> (string \<Rightarrow> string) \<Rightarrow> (octets \<Rightarrow> 'd option) \<Rightarrow> string \<Rightarrow> string \<Rightarrow> string \<Rightarrow> string
    \<Rightarrow> string \<Rightarrow> string \<Rightarrow> 'w world_scheme \<Rightarrow> ('d option \<times> string) \<times> 'w world_scheme" where
  "get_searchable Y U enc xmlParseMemory url_template db query realm proxy addinfo w =
     (case yaz_url_exec U (if length proxy > 0 then Some proxy else None) 0 (searchable_url enc url_template db query realm) ''GET''
             (z_HTTP_header_add Y [] ''Accept'' ''application/xml'') [] w of
        (Inr hres, w) \<Rightarrow>
          (if hrs_code hres = 200 \<and> hrs_content hres \<noteq> []
           then (case xmlParseMemory (hrs_content hres) of
                   Some doc \<Rightarrow> ((Some doc, addinfo), w)
                 | None \<Rightarrow> ((None, ''Torus: XML parse failed''), w))
           else ((None, ''Torus: '' @ hrs_content hres), w))
      | (Inl _, w) \<Rightarrow> ((None, ''Torus: unknown error''), w))"

section \<open>Properties\<close>

lemma create_details_id: "create_HTTP_Response_details Y ses hreq c d = (ses', hres) \<Longrightarrow> m_id ses' = m_id ses"
  by (auto simp: create_HTTP_Response_details_def Session_close_def Let_def split: if_splits)

lemma create_response_id: "m_id (fst (create_HTTP_Response Y ses hreq c)) = m_id ses"
  using create_details_id [of Y ses hreq c None] by (cases "create_HTTP_Response_details Y ses hreq c None") (simp add: create_HTTP_Response_def)

text \<open>Every HTTP request is answered in its own session.\<close>

theorem http_client_answers:
  assumes "pkg_request p = Some (GDU_HTTP_Request hreq)" and "HTTPClient_process Y U st mv p w = (p', w')"
  shows "\<exists>hres. pkg_response p' = Some (GDU_HTTP_Response hres) \<and> m_id (pkg_session p') = m_id (pkg_session p)"
proof -
  have "HTTPClient_proxy Y U st hreq p w = (p', w')" using assms by (simp add: HTTPClient_process_def)
  then show ?thesis unfolding HTTPClient_proxy_def Let_def
    by (auto simp: create_response_id dest: create_details_id split: prod.splits sum.splits if_splits)
qed

text \<open>With \<open>bind_host\<close> a URI is never missing: a path without a host is asked for as a blank and the address to bind to.\<close>

lemma client_uri_bind: "bind_host st \<Longrightarrow> client_uri st ori path \<noteq> []"
  by (simp add: client_uri_def Let_def)

lemma client_uri_empty:
  "client_uri st ori path = [] \<longleftrightarrow> \<not> bind_host st \<and> (path = [] \<or> hd path = CHR ''/'' \<and> default_host st = [])"
  by (auto simp: client_uri_def Let_def)

text \<open>The addresses a request was forwarded for are kept in order through any number of proxies.\<close>

fun hops :: "yaz \<Rightarrow> 'w url_client \<Rightarrow> HTTPClient \<Rightarrow> origin list \<Rightarrow> Z_HTTP_Header list \<Rightarrow> Z_HTTP_Header list" where
  "hops Y U st [] hs = hs"
| "hops Y U st (ori # oris) hs = hops Y U st oris (client_headers Y U st ori hs)"

text \<open>What is assumed of YAZ: a header that is set is found.\<close>

definition header_laws :: "yaz \<Rightarrow> 'w url_client \<Rightarrow> bool" where
  "header_laws Y U \<longleftrightarrow> (\<forall>hs n v. z_HTTP_header_lookup Y (header_set U hs n v) n = Some v)"

lemma hops_forwarded:
  assumes "header_laws Y U" and "x_forwarded_for st"
  shows "z_HTTP_header_lookup Y hs ''X-Forwarded-For'' = Some a \<Longrightarrow>
    z_HTTP_header_lookup Y (hops Y U st oris hs) ''X-Forwarded-For'' =
      Some (a @ concat (map (\<lambda>ori. '', '' @ Origin_get_address ori) oris))"
proof (induction oris arbitrary: hs a)
  case (Cons ori oris)
  have "z_HTTP_header_lookup Y (client_headers Y U st ori hs) ''X-Forwarded-For'' = Some (a @ '', '' @ Origin_get_address ori)"
    using assms Cons.prems by (simp add: client_headers_def forwarded_for_def header_laws_def)
  from Cons.IH [OF this] show ?case by simp
qed simp

theorem forwarded_for_chain:
  assumes "header_laws Y U" and "x_forwarded_for st" and "z_HTTP_header_lookup Y hs ''X-Forwarded-For'' = None"
  shows "z_HTTP_header_lookup Y (hops Y U st (ori # oris) hs) ''X-Forwarded-For'' =
    Some (Origin_get_address ori @ concat (map (\<lambda>ori. '', '' @ Origin_get_address ori) oris))"
proof -
  have "z_HTTP_header_lookup Y (client_headers Y U st ori hs) ''X-Forwarded-For'' = Some (Origin_get_address ori)"
    using assms by (simp add: client_headers_def forwarded_for_def header_laws_def)
  from hops_forwarded [OF assms(1,2) this] show ?thesis by simp
qed

text \<open>A template with a place for the query is filled in there, when neither it nor the encoded query names one of the
  other places.\<close>

lemma replace_first_id: "\<not> has_sub pat s \<Longrightarrow> replace_first pat new s = s"
  by (induction s) auto

lemma replace_first_place:
  assumes "CHR ''%'' \<notin> set a"
  shows "replace_first (CHR ''%'' # pat) new (a @ CHR ''%'' # pat @ b) = a @ new @ b"
  using assms by (induction a) auto

lemma searchable_url_query:
  assumes "CHR ''%'' \<notin> set a" and "\<not> has_sub ''%db'' (a @ enc query @ b)" and "\<not> has_sub ''%realm'' (a @ enc query @ b)"
  shows "searchable_url enc (a @ ''%query'' @ b) db query realm = a @ enc query @ b"
  using replace_first_place [OF assms(1), of "''query''" "enc query" b] assms(2,3)
  by (simp add: searchable_url_def Let_def replace_first_id)

end
