(* ===== verification/MP_Zeerex.thy ===== *)
theory MP_Zeerex
  imports MP_Sru
begin

text \<open>
  The \<open>zeerex_explain\<close> filter (\<open>src/filter_zeerex_explain.cpp\<close>): explain requests for a database are answered from
  the configuration; everything else is passed on.
\<close>

type_synonym explain_map = "string \<rightharpoonup> xml_node option"

definition first_element :: "xml_node list \<Rightarrow> xml_node option" where
  "first_element ns = find (\<lambda>n. node_type n = XML_ELEMENT_NODE) ns"

text \<open>\<open>insert\<close> keeps the entry of a name that is known already.\<close>

definition map_insert :: "string \<Rightarrow> xml_node option \<Rightarrow> explain_map \<Rightarrow> explain_map" where
  "map_insert k v m = (if m k = None then m(k \<mapsto> v) else m)"

fun Zeerex_attrs :: "xml_node option \<Rightarrow> xml_attr list \<Rightarrow> explain_map \<Rightarrow> mp_exception + explain_map" where
  "Zeerex_attrs explainnode [] m = Inr m"
| "Zeerex_attrs explainnode (a # ats) m =
     (case check_attribute a [] ''name'' of
        Inl e \<Rightarrow> Inl e
      | Inr _ \<Rightarrow> Zeerex_attrs explainnode ats (map_insert (get_text_attr a) explainnode m))"

definition Zeerex_element :: "xml_node list \<Rightarrow> explain_map \<Rightarrow> mp_exception + explain_map" where
  "Zeerex_element ptr m =
     (case ptr of
        [] \<Rightarrow> Inr m
      | n # _ \<Rightarrow>
          (case check_element_mp ptr ''database'' of
             Inl e \<Rightarrow> Inl e
           | Inr _ \<Rightarrow> Zeerex_attrs (first_element (node_children n)) (node_attrs n) m))"

definition Zeerex_configure :: "xml_node \<Rightarrow> explain_map \<Rightarrow> mp_exception + explain_map" where
  "Zeerex_configure confignode m = for_elements Zeerex_element (node_children confignode) m"

definition explain_pdu :: "'w sru_env \<Rightarrow> SRUServerInfo \<Rightarrow> xml_node option \<Rightarrow> Z_SRW_explainRequest option \<Rightarrow> Z_SRW_diagnostic list option \<Rightarrow> Z_SRW_PDU" where
  "explain_pdu S info explainnode er_req diags =
     srw_pdu S (SRW_explain_response (build_sru_explain S info explainnode er_req
       (case diags of None \<Rightarrow> srw_explain_response S | Some d \<Rightarrow> (srw_explain_response S)\<lparr>exs_diagnostics := d\<rparr>)))"

text \<open>\<open>None\<close>: a response is built without a SOAP package, a null pointer.\<close>

definition Zeerex_process :: "'w sru_env \<Rightarrow> yaz \<Rightarrow> explain_map \<Rightarrow> 'w move_fn \<Rightarrow> package \<Rightarrow> 'w world_scheme \<Rightarrow> (package \<times> 'w world_scheme) option" where
  "Zeerex_process S Y m mv p w =
     (case pkg_request p of
        Some (GDU_HTTP_Request hreq) \<Rightarrow>
          (let info = get_sru_server_info p in
           case m (sru_database info) of
             None \<Rightarrow> Some (mv [] p w)
           | Some explainnode \<Rightarrow>
               (case decode_sru_request S p of (pdu, soap, diags, p) \<Rightarrow>
                case pdu of
                  None \<Rightarrow>
                    map_option (\<lambda>(b, p). (close_session p, w))
                      (build_sru_response S Y soap (explain_pdu S info explainnode None None) None None p)
                | Some req \<Rightarrow>
                    (case pdu_body req of
                       SRW_explain_request er_req \<Rightarrow>
                         map_option (\<lambda>(b, p). (p, w))
                           (build_sru_response S Y soap (explain_pdu S info explainnode (Some er_req) (Some diags)) None None p)
                     | _ \<Rightarrow> Some (mv [] p w))))
      | _ \<Rightarrow> Some (mv [] p w))"

section \<open>Properties\<close>

text \<open>The first entry of a database in the configuration counts.\<close>

lemma Zeerex_attrs_keeps: "Zeerex_attrs e ats m = Inr m' \<Longrightarrow> m k = Some v \<Longrightarrow> m' k = Some v"
proof (induction ats arbitrary: m)
  case (Cons a ats)
  then have "Zeerex_attrs e ats (map_insert (get_text_attr a) e m) = Inr m'" "map_insert (get_text_attr a) e m k = Some v"
    by (auto simp: map_insert_def split: sum.splits)
  with Cons.IH show ?case by blast
qed simp

lemma Zeerex_configure_first:
  assumes "Zeerex_configure ptr m = Inr m'" and "m k = Some v"
  shows "m' k = Some v"
proof -
  have "for_elements Zeerex_element ns m = Inr m' \<Longrightarrow> m k = Some v \<Longrightarrow> m' k = Some v" for ns m
  proof (induction ns arbitrary: m)
    case (Cons n ns)
    show ?case
    proof (cases "node_type n = XML_ELEMENT_NODE")
      case True
      then obtain m1 where "Zeerex_element (n # ns) m = Inr m1" "for_elements Zeerex_element ns m1 = Inr m'"
        using Cons.prems(1) by (auto split: sum.splits)
      moreover from this have "m1 k = Some v"
        using Cons.prems(2) Zeerex_attrs_keeps by (fastforce simp: Zeerex_element_def split: sum.splits)
      ultimately show ?thesis using Cons.IH by blast
    qed (use Cons in simp)
  qed simp
  then show ?thesis using assms by (simp add: Zeerex_configure_def)
qed

text \<open>
  An explain request for a database of the configuration is answered without the rest of the chain, by what is encoded for
  the node of the configuration.\<close>
theorem zeerex_explains:
  assumes "pkg_request p = Some (GDU_HTTP_Request hreq)" and "m (sru_database (get_sru_server_info p)) = Some (Some n)"
    and "decode_sru_request S p = (Some req, Some soap, diags, p)" and "pdu_body req = SRW_explain_request er_req"
  shows "\<exists>p' hres res. Zeerex_process S Y m mv p w = Some (p', w) \<and> pkg_response p' = Some (GDU_HTTP_Response hres) \<and>
    hrs_content hres = z_soap_codec_enc_xsl S soap (srw_pdu S (SRW_explain_response res)) None None \<and>
    srw_recordData (exs_record res) = xmlNodeDump S n \<and> exs_diagnostics res = diags"
proof -
  obtain ses h where h: "create_HTTP_Response Y (pkg_session p) hreq 200 = (ses, h)"
    by (cases "create_HTTP_Response Y (pkg_session p) hreq 200")
  show ?thesis using assms h
    by (auto simp: Zeerex_process_def explain_pdu_def build_sru_response_def build_sru_explain_def Let_def)
qed

text \<open>Other requests, and requests for other databases, are passed on unchanged.\<close>

lemma zeerex_passes:
  assumes "m (sru_database (get_sru_server_info p)) = None \<or> (\<forall>hreq. pkg_request p \<noteq> Some (GDU_HTTP_Request hreq))"
  shows "Zeerex_process S Y m mv p w = Some (mv [] p w)"
  using assms by (auto simp: Zeerex_process_def Let_def split: option.split Z_GDU.split)

text \<open>A request for such a database that neither decoder accepts, and for which none leaves a SOAP package, is answered
  through a null pointer.\<close>

lemma zeerex_undecodable:
  assumes "pkg_request p = Some (GDU_HTTP_Request hreq)" and "m (sru_database (get_sru_server_info p)) \<noteq> None"
    and "yaz_sru_decode S hreq = (False, None, None, [])" and "yaz_srw_decode S hreq None = (False, None, None)"
  shows "Zeerex_process S Y m mv p w = None"
  using assms by (auto simp: Zeerex_process_def decode_sru_request_def build_sru_response_def close_session_def Let_def)

end
