(* ===== verification/MP_Thread_Pool.thy ===== *)
theory MP_Thread_Pool
  imports Main "HOL-Library.Multiset"
begin

text \<open>
  The pool of worker threads (\<open>src/thread_pool_observer.cpp\<close>): messages are put into a bounded queue, handled by one of
  the threads and handed back to the thread of the event loop through a second queue.
\<close>

section \<open>State and operations\<close>

text \<open>
  \<open>pl_busy\<close> holds the messages that are being handled. A thread that neither waits nor handles a message is on its way
  to the lock of the input queue.
\<close>

record 'm pool =
  pl_input :: "'m list"
  pl_busy :: "'m list"
  pl_output :: "'m list"
  pl_stop :: bool
  pl_no_threads :: nat
  pl_min_threads :: nat
  pl_max_threads :: nat
  pl_waiting :: nat

definition queue_size_per_thread :: nat where "queue_size_per_thread = 64"

definition add_worker :: "'m pool \<Rightarrow> 'm pool" where
  "add_worker pl = pl\<lparr>pl_no_threads := pl_no_threads pl + 1\<rparr>"

definition pool_new :: "nat \<Rightarrow> nat \<Rightarrow> 'm pool" where
  "pool_new min_threads max_threads =
     (add_worker ^^ min_threads) \<lparr>pl_input = [], pl_busy = [], pl_output = [], pl_stop = False, pl_no_threads = 0,
        pl_min_threads = min_threads, pl_max_threads = max_threads, pl_waiting = 0\<rparr>"

definition pool_stop :: "'m pool \<Rightarrow> 'm pool" where
  "pool_stop pl = pl\<lparr>pl_stop := True\<rparr>"

definition get_thread_info :: "'m pool \<Rightarrow> int \<times> int" where
  "get_thread_info pl = (int (pl_no_threads pl) - int (pl_waiting pl), int (pl_no_threads pl))"

text \<open>A thread: it waits for a message, takes one, and gives back what becomes of it. \<open>None\<close>: the step is not enabled.\<close>

definition run_wait :: "'m pool \<Rightarrow> 'm pool option" where
  "run_wait pl = (if pl_waiting pl + length (pl_busy pl) < pl_no_threads pl then Some (pl\<lparr>pl_waiting := pl_waiting pl + 1\<rparr>) else None)"

definition run_take :: "'m pool \<Rightarrow> 'm pool option" where
  "run_take pl =
     (if pl_waiting pl = 0 \<or> pl_stop pl then None
      else case pl_input pl of
        [] \<Rightarrow> None
      | m # ms \<Rightarrow> Some (pl\<lparr>pl_waiting := pl_waiting pl - 1, pl_input := ms, pl_busy := pl_busy pl @ [m]\<rparr>))"

definition run_give :: "'m \<Rightarrow> 'm \<Rightarrow> 'm pool \<Rightarrow> 'm pool option" where
  "run_give m m' pl =
     (if m \<in> set (pl_busy pl) then Some (pl\<lparr>pl_busy := remove1 m (pl_busy pl), pl_output := pl_output pl @ [m']\<rparr>) else None)"

text \<open>Putting a message: a thread more when none waits, then the message as soon as there is room.\<close>

definition put_enter :: "'m pool \<Rightarrow> 'm pool" where
  "put_enter pl = (if pl_waiting pl = 0 \<and> pl_no_threads pl < pl_max_threads pl then add_worker pl else pl)"

definition put_push :: "'m \<Rightarrow> 'm pool \<Rightarrow> 'm pool option" where
  "put_push m pl =
     (if length (pl_input pl) \<ge> pl_no_threads pl * queue_size_per_thread then None else Some (pl\<lparr>pl_input := pl_input pl @ [m]\<rparr>))"

definition pool_cleanup :: "('m \<Rightarrow> bool) \<Rightarrow> 'm pool \<Rightarrow> 'm list \<times> 'm pool" where
  "pool_cleanup del pl = (filter del (pl_input pl), pl\<lparr>pl_input := filter (\<lambda>m. \<not> del m) (pl_input pl)\<rparr>)"

text \<open>The event loop takes the results one by one.\<close>

definition output_take :: "'m pool \<Rightarrow> ('m \<times> 'm pool) option" where
  "output_take pl = (case pl_output pl of [] \<Rightarrow> None | m # ms \<Rightarrow> Some (m, pl\<lparr>pl_output := ms\<rparr>))"

section \<open>Steps\<close>

text \<open>
  The steps of the pool with the messages that the event loop has put, deleted and been given back. Handling a message
  gives back that message (\<open>handle\<close> of the interface returns a message).
\<close>

datatype 'm pool_event = Put_enter | Put_push 'm | Deleted "'m list" | Result 'm | Thread

inductive pool_step :: "'m pool \<Rightarrow> 'm pool_event \<Rightarrow> 'm pool \<Rightarrow> bool" where
  wait: "run_wait pl = Some pl' \<Longrightarrow> pool_step pl Thread pl'"
| take: "run_take pl = Some pl' \<Longrightarrow> pool_step pl Thread pl'"
| give: "run_give m m pl = Some pl' \<Longrightarrow> pool_step pl Thread pl'"
| enter: "pool_step pl Put_enter (put_enter pl)"
| push: "put_push m pl = Some pl' \<Longrightarrow> pool_step pl (Put_push m) pl'"
| clean: "pool_cleanup del pl = (ms, pl') \<Longrightarrow> pool_step pl (Deleted ms) pl'"
| result: "output_take pl = Some (m, pl') \<Longrightarrow> pool_step pl (Result m) pl'"

inductive pool_run :: "'m pool \<Rightarrow> 'm pool_event list \<Rightarrow> 'm pool \<Rightarrow> bool" where
  start: "pool_run pl [] pl"
| step: "pool_run pl es pl' \<Longrightarrow> pool_step pl' e pl'' \<Longrightarrow> pool_run pl (es @ [e]) pl''"

inductive_cases pool_stepE: "pool_step pl e pl'"

fun put_of :: "'m pool_event \<Rightarrow> 'm multiset" where
  "put_of (Put_push m) = {#m#}"
| "put_of _ = {#}"

fun left_of :: "'m pool_event \<Rightarrow> 'm multiset" where
  "left_of (Deleted ms) = mset ms"
| "left_of (Result m) = {#m#}"
| "left_of _ = {#}"

definition pool_content :: "'m pool \<Rightarrow> 'm multiset" where
  "pool_content pl = mset (pl_input pl) + mset (pl_busy pl) + mset (pl_output pl)"

definition pool_ok :: "'m pool \<Rightarrow> bool" where
  "pool_ok pl \<longleftrightarrow> pl_waiting pl + length (pl_busy pl) \<le> pl_no_threads pl \<and>
     length (pl_input pl) \<le> pl_no_threads pl * queue_size_per_thread \<and>
     pl_min_threads pl \<le> pl_no_threads pl \<and> pl_no_threads pl \<le> max (pl_min_threads pl) (pl_max_threads pl)"

lemmas pool_defs = run_wait_def run_take_def run_give_def put_enter_def add_worker_def put_push_def pool_cleanup_def output_take_def

lemma length_remove1_le: "length (remove1 m xs) \<le> length xs"
  by (simp add: length_remove1)

lemma pool_step_ok: "pool_step pl e pl' \<Longrightarrow> pool_ok pl \<Longrightarrow> pool_ok pl'"
  by (erule pool_stepE)
     (auto simp: pool_defs pool_ok_def length_remove1 intro: le_trans [OF length_filter_le] split: if_splits list.splits)

lemma pool_step_content: "pool_step pl e pl' \<Longrightarrow> pool_content pl + put_of e = pool_content pl' + left_of e"
  by (erule pool_stepE)
     (auto simp: pool_defs pool_content_def multiset_partition [symmetric] split: if_splits list.splits)

lemma pool_step_threads: "pool_step pl e pl' \<Longrightarrow> pl_min_threads pl' = pl_min_threads pl \<and> pl_max_threads pl' = pl_max_threads pl"
  by (erule pool_stepE) (auto simp: pool_defs split: if_splits list.splits)

lemma pool_new_fields:
  "pool_new mn mx = \<lparr>pl_input = [], pl_busy = [], pl_output = [], pl_stop = False, pl_no_threads = mn,
     pl_min_threads = mn, pl_max_threads = mx, pl_waiting = 0\<rparr>"
proof -
  have "(add_worker ^^ n) pl = pl\<lparr>pl_no_threads := pl_no_threads pl + n\<rparr>" for n and pl :: "'a pool"
    by (induction n) (simp_all add: add_worker_def)
  then show ?thesis by (simp add: pool_new_def)
qed

section \<open>Properties\<close>

lemma pool_new_ok: "pool_ok (pool_new mn mx)"
  by (simp add: pool_new_fields pool_ok_def)

lemma pool_run_ok: "pool_run pl es pl' \<Longrightarrow> pool_ok pl \<Longrightarrow> pool_ok pl'"
  by (induction rule: pool_run.induct) (auto intro: pool_step_ok)

lemma pool_run_threads: "pool_run pl es pl' \<Longrightarrow> pl_min_threads pl' = pl_min_threads pl \<and> pl_max_threads pl' = pl_max_threads pl"
  by (induction rule: pool_run.induct) (auto dest: pool_step_threads)

lemma pool_run_content:
  "pool_run pl es pl' \<Longrightarrow> pool_content pl + sum_list (map put_of es) = pool_content pl' + sum_list (map left_of es)"
proof (induction rule: pool_run.induct)
  case (step pl es pl' e pl'')
  have "pool_content pl + sum_list (map put_of (es @ [e])) = pool_content pl' + put_of e + sum_list (map left_of es)"
    using step.IH by (simp add: ac_simps)
  also have "\<dots> = pool_content pl'' + sum_list (map left_of (es @ [e]))"
    using pool_step_content [OF step.hyps(2)] by (simp add: ac_simps)
  finally show ?case .
qed simp

text \<open>In every run the number of threads and the length of the queue stay within their bounds, and every message that was put is
  in the pool, was deleted or was given back, once.\<close>

theorem pool_bounded:
  assumes "pool_run (pool_new mn mx) es pl"
  shows "pl_no_threads pl \<le> max mn mx \<and> length (pl_input pl) \<le> max mn mx * queue_size_per_thread \<and>
    length (pl_busy pl) \<le> pl_no_threads pl \<and>
    sum_list (map put_of es) = pool_content pl + sum_list (map left_of es)"
proof -
  have ok: "pool_ok pl" using pool_run_ok [OF assms pool_new_ok] .
  have "pl_min_threads pl = mn" "pl_max_threads pl = mx" using pool_run_threads [OF assms] by (simp_all add: pool_new_fields)
  with ok have n: "pl_no_threads pl \<le> max mn mx" and "length (pl_input pl) \<le> pl_no_threads pl * queue_size_per_thread"
    "length (pl_busy pl) \<le> pl_no_threads pl" by (simp_all add: pool_ok_def)
  moreover from this have "length (pl_input pl) \<le> max mn mx * queue_size_per_thread" by (meson le_trans mult_le_mono1)
  moreover have "sum_list (map put_of es) = pool_content pl + sum_list (map left_of es)"
    using pool_run_content [OF assms] by (simp add: pool_new_fields pool_content_def)
  ultimately show ?thesis by simp
qed

text \<open>Work of the pool: steps of the threads and results that are given back.\<close>

fun is_work :: "'m pool_event \<Rightarrow> bool" where
  "is_work Thread = True"
| "is_work (Result m) = True"
| "is_work _ = False"

definition pool_work :: "'m pool \<Rightarrow> nat" where
  "pool_work pl = 4 * length (pl_input pl) + 3 * length (pl_busy pl) + length (pl_output pl) +
     (pl_no_threads pl - pl_waiting pl - length (pl_busy pl))"

lemma pool_step_work: "pool_step pl e pl' \<Longrightarrow> pool_ok pl \<Longrightarrow> is_work e \<Longrightarrow> pool_work pl' < pool_work pl"
proof (induction rule: pool_step.induct)
  case (give m pl pl')
  then have "m \<in> set (pl_busy pl)" by (simp add: run_give_def split: if_splits)
  then obtain k where "length (pl_busy pl) = Suc k" by (cases "pl_busy pl") auto
  then show ?case using give by (auto simp: run_give_def pool_work_def pool_ok_def length_remove1 split: if_splits)
qed (auto simp: pool_defs pool_work_def pool_ok_def split: if_splits list.splits)

lemma pool_step_stop: "pool_step pl e pl' \<Longrightarrow> pl_stop pl' = pl_stop pl \<and> pl_no_threads pl \<le> pl_no_threads pl'"
  by (erule pool_stepE) (auto simp: pool_defs split: if_splits list.splits)

text \<open>While a message is in the pool, a thread or the event loop has something to do with it.\<close>

lemma workI: "pool_step pl e pl' \<Longrightarrow> is_work e \<Longrightarrow> \<exists>e pl'. is_work e \<and> pool_step pl e pl'"
  by blast

lemma pool_progress:
  assumes "pool_ok pl" and "\<not> pl_stop pl" and "0 < pl_no_threads pl" and "pool_content pl \<noteq> {#}"
  shows "\<exists>e pl'. is_work e \<and> pool_step pl e pl'"
proof (cases "pl_output pl")
  case (Cons m ms)
  then have "pool_step pl (Result m) (pl\<lparr>pl_output := ms\<rparr>)" by (intro result) (simp add: output_take_def)
  from workI [OF this] show ?thesis by simp
next
  case Nil
  show ?thesis
  proof (cases "pl_busy pl")
    case (Cons m ms)
    then have "run_give m m pl = Some (pl\<lparr>pl_busy := remove1 m (pl_busy pl), pl_output := pl_output pl @ [m]\<rparr>)"
      by (simp add: run_give_def)
    from workI [OF give [OF this]] show ?thesis by simp
  next
    case busy: Nil
    then obtain m ms where input: "pl_input pl = m # ms"
      using Nil assms(4) by (cases "pl_input pl") (simp_all add: pool_content_def)
    show ?thesis
    proof (cases "pl_waiting pl = 0")
      case True
      then have "run_wait pl = Some (pl\<lparr>pl_waiting := pl_waiting pl + 1\<rparr>)" using busy assms(3) by (simp add: run_wait_def)
      from workI [OF wait [OF this]] show ?thesis by simp
    next
      case False
      then have "run_take pl \<noteq> None" using input assms(2) by (simp add: run_take_def)
      then obtain pl' where "run_take pl = Some pl'" by blast
      from workI [OF pool_step.take [OF this]] show ?thesis by simp
    qed
  qed
qed

text \<open>However threads and event loop are scheduled, a pool that is not stopped gives back all its messages, in a bounded number
  of steps.\<close>

lemma pool_run_work:
  "pool_run pl es pl' \<Longrightarrow> pool_ok pl \<Longrightarrow> list_all is_work es \<Longrightarrow> length es + pool_work pl' \<le> pool_work pl"
proof (induction rule: pool_run.induct)
  case (step pl es pl' e pl'')
  then have "pool_work pl'' < pool_work pl'" by (auto intro!: pool_step_work dest: pool_run_ok)
  with step show ?case by simp
qed simp

lemma pool_run_stop: "pool_run pl es pl' \<Longrightarrow> pl_stop pl' = pl_stop pl \<and> pl_no_threads pl \<le> pl_no_threads pl'"
  by (induction rule: pool_run.induct) (auto dest: pool_step_stop)

lemma work_left: "list_all is_work es \<Longrightarrow> sum_list (map put_of es) = {#}"
proof (induction es)
  case (Cons e es)
  then show ?case by (cases e) simp_all
qed simp

theorem pool_delivers:
  assumes "pool_run pl es pl'" and "pool_ok pl" and "\<not> pl_stop pl" and "0 < pl_no_threads pl" and "list_all is_work es"
  shows "length es \<le> pool_work pl \<and>
    ((\<forall>e pl''. is_work e \<longrightarrow> \<not> pool_step pl' e pl'') \<longrightarrow> pool_content pl' = {#} \<and> sum_list (map left_of es) = pool_content pl)"
proof (intro conjI impI)
  show "length es \<le> pool_work pl" using pool_run_work [OF assms(1,2,5)] by simp
  assume "\<forall>e pl''. is_work e \<longrightarrow> \<not> pool_step pl' e pl''"
  then show empty: "pool_content pl' = {#}"
    using pool_progress [of pl'] pool_run_ok [OF assms(1,2)] pool_run_stop [OF assms(1)] assms(3,4) by auto
  show "sum_list (map left_of es) = pool_content pl"
    using pool_run_content [OF assms(1)] work_left [OF assms(5)] empty by simp
qed

text \<open>When the event loop waits for room in the queue, a thread can make some.\<close>

lemma put_waits_for_threads:
  assumes "pool_ok pl" and "\<not> pl_stop pl" and "0 < pl_no_threads pl" and "put_push m pl = None"
  shows "\<exists>pl'. pool_step pl Thread pl'"
proof -
  obtain x xs where input: "pl_input pl = x # xs"
    using assms(3,4) by (cases "pl_input pl") (auto simp: put_push_def queue_size_per_thread_def split: if_splits)
  consider "pl_waiting pl > 0" | "pl_waiting pl = 0" "pl_busy pl = []" | y ys where "pl_busy pl = y # ys"
    by (cases "pl_busy pl") auto
  then show ?thesis
  proof cases
    case 1
    then have "run_take pl \<noteq> None" using input assms(2) by (simp add: run_take_def)
    then show ?thesis using pool_step.take by blast
  next
    case 2
    then have "run_wait pl \<noteq> None" using assms(3) by (simp add: run_wait_def)
    then show ?thesis using pool_step.wait by blast
  next
    case 3
    then have "run_give y y pl \<noteq> None" by (simp add: run_give_def)
    then obtain pl' where "run_give y y pl = Some pl'" by blast
    then show ?thesis by (blast intro: pool_step.give)
  qed
qed

end
