(* ===== verification/MP_Frontend_Net.thy ===== *)
theory MP_Frontend_Net
  imports Complex_Main MP_Thread_Pool MP_Util MP_Xml
begin

text \<open>
  The \<open>frontend_net\<close> filter (\<open>src/filter_frontend_net.cpp\<close>): connections of clients, their sessions, the
  packages that are given to the threads of \<open>MP_Thread_Pool\<close> and come back, limits and statistics. Sockets and the
  event loop are those of YAZ++: what they report are the operations below, one at a time in the thread of the event
  loop, while \<open>handle\<close> runs in the threads of the pool. A use of an object that was deleted is \<open>None\<close>.
\<close>

section \<open>Connections of a peer\<close>

type_synonym PeerStat = "(string \<times> nat) list"

fun PeerStat_bump :: "string \<Rightarrow> PeerStat \<Rightarrow> PeerStat option" where
  "PeerStat_bump peer [] = None"
| "PeerStat_bump peer ((q, n) # items) =
     (if peer = q then Some ((q, n + 1) # items) else map_option ((#) (q, n)) (PeerStat_bump peer items))"

definition PeerStat_add :: "string \<Rightarrow> PeerStat \<Rightarrow> PeerStat" where
  "PeerStat_add peer items = (case PeerStat_bump peer items of Some items' \<Rightarrow> items' | None \<Rightarrow> (peer, 1) # items)"

fun PeerStat_get :: "string \<Rightarrow> PeerStat \<Rightarrow> nat" where
  "PeerStat_get peer [] = 0"
| "PeerStat_get peer ((q, n) # items) = (if peer = q then n else PeerStat_get peer items)"

fun PeerStat_remove :: "string \<Rightarrow> PeerStat \<Rightarrow> PeerStat" where
  "PeerStat_remove peer [] = []"
| "PeerStat_remove peer ((q, n) # items) =
     (if peer = q then (if n - 1 = 0 then items else (q, n - 1) # items) else (q, n) # PeerStat_remove peer items)"

section \<open>State\<close>

record Port =
  port_port :: string
  port_route :: string
  port_cert_fname :: string
  port_max_recv_bytes :: int

record IP_Pattern =
  ip_pattern :: string
  ip_verbose :: int
  ip_value :: int

record fn_conf =
  m_no_threads :: int
  m_max_threads :: int
  m_stack_size :: int
  m_ports :: "Port list"
  m_listen_duration :: int
  session_timeout :: "IP_Pattern list"
  connect_max :: "IP_Pattern list"
  connect_total :: "IP_Pattern list"
  http_req_max :: "IP_Pattern list"
  m_msg_config :: string
  m_stat_req :: string

definition fn_conf_new :: fn_conf where
  "fn_conf_new = \<lparr>m_no_threads = 5, m_max_threads = 5, m_stack_size = 0, m_ports = [], m_listen_duration = 0, session_timeout = [],
     connect_max = [], connect_total = [], http_req_max = [], m_msg_config = [], m_stat_req = []\<rparr>"

text \<open>The statistics of response times; seconds are rational numbers.\<close>

record fn_stat =
  m_duration_freq :: "int list"
  m_duration_max :: rat
  m_duration_min :: rat
  m_duration_total :: rat

definition m_duration_lim :: "rat list" where
  "m_duration_lim = [1/1000000, 1/100000, 1/10000, 1/1000, 1/100, 1/10, 2/10, 3/10, 5/10, 1, 15/10, 2, 3, 4, 5, 6, 8, 10, 15, 20, 30, 0]"

definition fn_stat_new :: fn_stat where
  "fn_stat_new = \<lparr>m_duration_freq = replicate 22 0, m_duration_max = 0, m_duration_min = 0, m_duration_total = 0\<rparr>"

text \<open>A server (\<open>ZAssocServer\<close>) per port with the two limits of YAZ++, a child (\<open>ZAssocChild\<close>) per connection, and the
  messages of the pool (\<open>ThreadPoolPackage\<close>), each with a pointer to its child.\<close>

record 'l fn_server =
  srv_port :: Port
  srv_limit_connect :: 'l
  srv_limit_http_req :: 'l

record fn_child =
  ch_no_requests :: int
  ch_server :: nat
  ch_session :: session
  ch_origin :: origin
  ch_peer :: string
  ch_timeout :: int

record fn_msg =
  tp_child :: nat
  tp_package :: package

text \<open>\<open>fn_put\<close> is the message the event loop wants to put and waits with; \<open>fn_sent\<close> is what was sent to the clients and
  \<open>fn_closes\<close> the connections that were asked to close when all was sent.\<close>

record 'l fnet =
  fn_servers :: "'l fn_server list"
  fn_children :: "nat \<rightharpoonup> fn_child"
  fn_next :: nat
  fn_pool :: "fn_msg pool"
  fn_put :: "fn_msg option"
  fn_peers :: PeerStat
  fn_stats :: fn_stat
  fn_sent :: "(nat \<times> Z_GDU) list"
  fn_closes :: "nat list"

text \<open>\<open>LimitConnect\<close> of YAZ++, and the printing of numbers and of the memory in use.\<close>

record 'l fn_env =
  lc_cleanup :: "'l \<Rightarrow> 'l"
  lc_get_total :: "'l \<Rightarrow> string \<Rightarrow> int"
  lc_add_connect :: "'l \<Rightarrow> string \<Rightarrow> 'l"
  printf_f :: "rat \<Rightarrow> string"
  memory_info :: string

section \<open>Limits\<close>

text \<open>The first pattern that matches the peer decides.\<close>

fun within_limit :: "yaz \<Rightarrow> IP_Pattern list \<Rightarrow> string \<Rightarrow> int \<Rightarrow> bool" where
  "within_limit Y [] peer n = True"
| "within_limit Y (it # its) peer n = (if match_ip Y (ip_pattern it) peer then n < ip_value it else within_limit Y its peer n)"

fun timeout_of :: "yaz \<Rightarrow> IP_Pattern list \<Rightarrow> string \<Rightarrow> int" where
  "timeout_of Y [] peer = 300"
| "timeout_of Y (it # its) peer = (if match_ip Y (ip_pattern it) peer then ip_value it else timeout_of Y its peer)"

section \<open>Connections\<close>

definition peer_of :: "string option \<Rightarrow> string" where
  "peer_of name = (case name of None \<Rightarrow> ''unknown'' | Some n \<Rightarrow> (case strchr_split (CHR '':'') n of Some (_, r) \<Rightarrow> r | None \<Rightarrow> n))"

definition child_new :: "yaz \<Rightarrow> fn_conf \<Rightarrow> nat \<Rightarrow> Port \<Rightarrow> string \<Rightarrow> 'w world_scheme \<Rightarrow> (fn_child \<times> 'w world_scheme) option" where
  "child_new Y conf srv port peer w =
     (let (ses, w) = Session_new w
      in map_option (\<lambda>ori. (\<lparr>ch_no_requests = 0, ch_server = srv, ch_session = ses, ch_origin = ori, ch_peer = peer,
           ch_timeout = timeout_of Y (session_timeout conf) peer\<rparr>, w))
         (Origin_set_tcpip_address Origin_new (peer @ '' '' @ port_port port) (m_id ses)))"

definition upd_server :: "nat \<Rightarrow> ('l fn_server \<Rightarrow> 'l fn_server) \<Rightarrow> 'l fnet \<Rightarrow> 'l fnet" where
  "upd_server i f st = st\<lparr>fn_servers := (fn_servers st)[i := f (fn_servers st ! i)]\<rparr>"

text \<open>A client connects to the port of a server; a connection that is refused changes the limits at most.\<close>

definition FN_sessionNotify :: "yaz \<Rightarrow> 'l fn_env \<Rightarrow> fn_conf \<Rightarrow> nat \<Rightarrow> string option \<Rightarrow> 'l fnet \<Rightarrow> 'w world_scheme \<Rightarrow> ('l fnet \<times> 'w world_scheme) option" where
  "FN_sessionNotify Y E conf i name st w =
     (if i \<ge> length (fn_servers st) then None
      else let peer = peer_of name in
        if \<not> within_limit Y (connect_total conf) peer (int (PeerStat_get peer (fn_peers st))) then Some (st, w)
        else let st = upd_server i (\<lambda>s. s\<lparr>srv_limit_connect := lc_cleanup E (srv_limit_connect s)\<rparr>) st;
                 s = fn_servers st ! i in
          if \<not> within_limit Y (connect_max conf) peer (lc_get_total E (srv_limit_connect s) peer) then Some (st, w)
          else let st = upd_server i (\<lambda>s. s\<lparr>srv_limit_connect := lc_add_connect E (srv_limit_connect s) peer\<rparr>) st in
            map_option (\<lambda>(ch, w). (st\<lparr>fn_children := (fn_children st)(fn_next st \<mapsto> ch), fn_next := fn_next st + 1,
                fn_peers := PeerStat_add peer (fn_peers st)\<rparr>, w))
              (child_new Y conf i (srv_port s) peer w))"

definition child_delete :: "nat \<Rightarrow> 'l fnet \<Rightarrow> 'l fnet" where
  "child_delete c st =
     (case fn_children st c of
        None \<Rightarrow> st
      | Some ch \<Rightarrow> st\<lparr>fn_children := (fn_children st)(c := None), fn_peers := PeerStat_remove (ch_peer ch) (fn_peers st)\<rparr>)"

definition fn_send :: "nat \<Rightarrow> Z_GDU \<Rightarrow> 'l fnet \<Rightarrow> 'l fnet" where
  "fn_send c g st = st\<lparr>fn_sent := fn_sent st @ [(c, g)]\<rparr>"

section \<open>The report\<close>

definition xattr :: "string \<Rightarrow> string \<Rightarrow> string" where
  "xattr n v = '' '' @ n @ ''='' @ [CHR 0x22] @ v @ [CHR 0x22]"

fun report_freqs :: "'l fn_env \<Rightarrow> rat \<Rightarrow> rat list \<Rightarrow> int list \<Rightarrow> string" where
  "report_freqs E prev (l # ls) (n # ns) =
     (if l \<noteq> 0
      then (if n > 0 then ''    <response'' @ xattr ''duration_start'' (printf_f E prev) @ xattr ''duration_end'' (printf_f E l) @
              xattr ''frequency'' (show_int n) @ ''/>'' @ [CHR 0x0A] else []) @ report_freqs E l ls ns
      else if n > 0 then ''    <response'' @ xattr ''duration_start'' (printf_f E prev) @ xattr ''frequency'' (show_int n) @ ''/>'' @ [CHR 0x0A]
      else [])"
| "report_freqs E prev _ _ = []"

definition report_value :: "'l fn_env \<Rightarrow> string \<Rightarrow> rat \<Rightarrow> rat \<Rightarrow> string" where
  "report_value E n test v = (if test \<noteq> 0 then ''    <response'' @ xattr n (printf_f E v) @ ''/>'' @ [CHR 0x0A] else [])"

fun number_total :: "rat list \<Rightarrow> int list \<Rightarrow> int" where
  "number_total (l # ls) (n # ns) = (if l \<noteq> 0 then n + number_total ls ns else n)"
| "number_total _ _ = 0"

definition report_text :: "'l fn_env \<Rightarrow> fn_stat \<Rightarrow> int \<times> int \<Rightarrow> string" where
  "report_text E s threads =
     (let total = number_total m_duration_lim (m_duration_freq s) in
      ''<?xml'' @ xattr ''version'' ''1.0'' @ ''?>'' @ [CHR 0x0A] @ ''<frontend_net>'' @ [CHR 0x0A] @
      ''  <responses'' @ xattr ''frequency'' (show_int total) @ ''>'' @ [CHR 0x0A] @
      report_freqs E 0 m_duration_lim (m_duration_freq s) @
      report_value E ''duration_max'' (m_duration_max s) (m_duration_max s) @
      report_value E ''duration_min'' (m_duration_min s) (m_duration_min s) @
      report_value E ''duration_average'' (m_duration_total s) (m_duration_total s / of_int total) @
      ''  </responses>'' @ [CHR 0x0A] @
      '' <thread_info'' @ xattr ''busy'' (show_int (fst threads)) @ xattr ''total'' (show_int (snd threads)) @ ''/>'' @ [CHR 0x0A] @
      memory_info E @ ''</frontend_net>'' @ [CHR 0x0A])"

definition FN_report :: "yaz \<Rightarrow> 'l fn_env \<Rightarrow> fn_child \<Rightarrow> Z_HTTP_Request \<Rightarrow> 'l fnet \<Rightarrow> Z_GDU" where
  "FN_report Y E ch hreq st =
     (let (ses, hres) = create_HTTP_Response Y (ch_session ch) hreq 200
      in GDU_HTTP_Response (hres\<lparr>hrs_content := report_text E (fn_stats st) (get_thread_info (fn_pool st))\<rparr>))"

section \<open>Requests\<close>

text \<open>Putting a message starts in the event loop, which then waits for room.\<close>

definition fn_put_msg :: "fn_msg \<Rightarrow> 'l fnet \<Rightarrow> 'l fnet" where
  "fn_put_msg m st = st\<lparr>fn_pool := put_enter (fn_pool st), fn_put := Some m\<rparr>"

text \<open>The origin of the package of a request: with a header that tells for whom it is forwarded.\<close>

definition request_origin :: "yaz \<Rightarrow> fn_child \<Rightarrow> Z_GDU option \<Rightarrow> origin option" where
  "request_origin Y ch z_pdu =
     (case z_pdu of
        Some (GDU_HTTP_Request hreq) \<Rightarrow>
          (case z_HTTP_header_lookup Y (hrq_headers hreq) ''X-Forwarded-For'' of
             Some f \<Rightarrow> Origin_set_tcpip_address (ch_origin ch) f (m_id (ch_session ch))
           | None \<Rightarrow> Some (ch_origin ch))
      | _ \<Rightarrow> Some (ch_origin ch))"

definition is_stat_req :: "fn_conf \<Rightarrow> Z_HTTP_Request \<Rightarrow> bool" where
  "is_stat_req conf hreq \<longleftrightarrow> length (m_stat_req conf) > 0 \<and> hrq_path hreq = m_stat_req conf"

text \<open>The requests the child answers itself: for the report, and beyond the limit of the peer. The child is deleted then.\<close>

definition FN_recv_GDU :: "yaz \<Rightarrow> 'l fn_env \<Rightarrow> fn_conf \<Rightarrow> nat \<Rightarrow> Z_GDU option \<Rightarrow> 'l fnet \<Rightarrow> 'l fnet option" where
  "FN_recv_GDU Y E conf c z_pdu st =
     (case fn_children st c of
        None \<Rightarrow> None
      | Some ch0 \<Rightarrow>
          (let ch = ch0\<lparr>ch_no_requests := ch_no_requests ch0 + 1\<rparr>;
               st = st\<lparr>fn_children := (fn_children st)(c \<mapsto> ch)\<rparr> in
           case request_origin Y ch z_pdu of
             None \<Rightarrow> None
           | Some ori \<Rightarrow>
               (let p = (Package_new (ch_session ch) ori)\<lparr>pkg_request := z_pdu\<rparr>; m = \<lparr>tp_child = c, tp_package = p\<rparr> in
                case z_pdu of
                  Some (GDU_HTTP_Request hreq) \<Rightarrow>
                    (if is_stat_req conf hreq then Some (child_delete c (fn_send c (FN_report Y E ch hreq st) st))
                     else let peer = Origin_get_address ori; i = ch_server ch;
                              st = upd_server i (\<lambda>s. s\<lparr>srv_limit_http_req := lc_cleanup E (srv_limit_http_req s)\<rparr>) st;
                              n = lc_get_total E (srv_limit_http_req (fn_servers st ! i)) peer in
                       if \<not> within_limit Y (http_req_max conf) peer n
                       then Some (child_delete c (fn_send c (GDU_HTTP_Response (snd (create_HTTP_Response Y (ch_session ch) hreq 500))) st))
                       else Some (fn_put_msg m (upd_server i (\<lambda>s. s\<lparr>srv_limit_http_req := lc_add_connect E (srv_limit_http_req s) peer\<rparr>) st)))
                | _ \<Rightarrow> Some (fn_put_msg m st))))"

text \<open>Messages that are deleted from the queue count for their children; the comparison is by the identifier of the session.\<close>

definition TP_cleanup :: "session \<Rightarrow> fn_msg \<Rightarrow> bool" where
  "TP_cleanup ses m \<longleftrightarrow> m_id ses = m_id (pkg_session (tp_package m))"

fun uncount :: "fn_msg list \<Rightarrow> (nat \<rightharpoonup> fn_child) \<Rightarrow> (nat \<rightharpoonup> fn_child) option" where
  "uncount [] cs = Some cs"
| "uncount (m # ms) cs =
     (case cs (tp_child m) of
        None \<Rightarrow> None
      | Some ch \<Rightarrow> uncount ms (cs(tp_child m \<mapsto> ch\<lparr>ch_no_requests := ch_no_requests ch - 1\<rparr>)))"

text \<open>The connection is lost, timed out or closed: the session is closed by a package of its own, and the child is deleted
  when nothing is left to do for it.\<close>

definition FN_failNotify :: "nat \<Rightarrow> 'l fnet \<Rightarrow> 'l fnet option" where
  "FN_failNotify c st =
     (case fn_children st c of
        None \<Rightarrow> None
      | Some ch \<Rightarrow>
          if m_close (ch_session ch) then Some (if ch_no_requests ch = 0 then child_delete c st else st)
          else (let ch = ch\<lparr>ch_no_requests := ch_no_requests ch + 1, ch_session := Session_close (ch_session ch)\<rparr>;
                    m = \<lparr>tp_child = c, tp_package = Package_new (ch_session ch) (ch_origin ch)\<rparr>;
                    (dels, pl) = pool_cleanup (TP_cleanup (ch_session ch)) (fn_pool st) in
                map_option (\<lambda>cs. fn_put_msg m (st\<lparr>fn_children := cs, fn_pool := pl\<rparr>)) (uncount dels ((fn_children st)(c \<mapsto> ch)))))"

text \<open>In a thread: the package goes along the route of the port.\<close>

definition TP_handle :: "'w move_fn \<Rightarrow> 'l fnet \<Rightarrow> fn_msg \<Rightarrow> 'w world_scheme \<Rightarrow> (fn_msg \<times> 'w world_scheme) option" where
  "TP_handle mv st m w =
     (case fn_children st (tp_child m) of
        None \<Rightarrow> None
      | Some ch \<Rightarrow>
          (let (p, w) = mv (port_route (srv_port (fn_servers st ! ch_server ch))) (tp_package m) w
           in Some (m\<lparr>tp_package := p\<rparr>, w)))"

fun duration_index :: "rat list \<Rightarrow> rat \<Rightarrow> nat" where
  "duration_index [] d = 0"
| "duration_index (l # ls) d = (if l \<noteq> 0 \<and> d > l then duration_index ls d + 1 else 0)"

definition stat_add :: "rat \<Rightarrow> fn_stat \<Rightarrow> fn_stat" where
  "stat_add d s =
     (let i = duration_index m_duration_lim d in
      \<lparr>m_duration_freq = (m_duration_freq s)[i := m_duration_freq s ! i + 1],
       m_duration_max = (if m_duration_max s < d then d else m_duration_max s),
       m_duration_min = (if m_duration_min s = 0 \<or> m_duration_min s > d then d else m_duration_min s),
       m_duration_total = m_duration_total s + d\<rparr>)"

text \<open>Back in the event loop: the response is sent, or a request that nothing has answered is.\<close>

definition unhandled :: "yaz \<Rightarrow> package \<Rightarrow> Z_GDU option" where
  "unhandled Y p =
     (case pkg_request p of
        Some (GDU_Z3950 apdu) \<Rightarrow> Some (GDU_Z3950 (create_close Y (Some apdu) Z_Close_systemProblem (Some ''unhandled Z39.50 request'')))
      | Some (GDU_HTTP_Request hreq) \<Rightarrow> Some (GDU_HTTP_Response (snd (create_HTTP_Response Y (pkg_session p) hreq 500)))
      | _ \<Rightarrow> None)"

definition TP_result :: "yaz \<Rightarrow> rat \<Rightarrow> fn_msg \<Rightarrow> 'l fnet \<Rightarrow> 'l fnet option" where
  "TP_result Y duration m st =
     (let c = tp_child m; p = tp_package m in
      case fn_children st c of
        None \<Rightarrow> None
      | Some ch \<Rightarrow>
          (let ch = ch\<lparr>ch_no_requests := ch_no_requests ch - 1\<rparr>;
               st = st\<lparr>fn_children := (fn_children st)(c \<mapsto> ch)\<rparr>;
               (st, closed) = (case pkg_response p of
                   Some g \<Rightarrow> ((fn_send c g st)\<lparr>fn_stats := stat_add duration (fn_stats st)\<rparr>, is_closed p)
                 | None \<Rightarrow>
                     if is_closed p then (st, True)
                     else (case unhandled Y p of Some g \<Rightarrow> fn_send c g st | None \<Rightarrow> st, True))
           in Some (if ch_no_requests ch = 0 \<and> closed then st\<lparr>fn_closes := fn_closes st @ [c]\<rparr> else st)))"

section \<open>Configuration\<close>

definition FN_pattern :: "xml_node list \<Rightarrow> int \<Rightarrow> mp_exception + IP_Pattern" where
  "FN_pattern ptr dflt =
     (case parse_attr ptr [''ip'', ''verbose''] of
        Inl e \<Rightarrow> Inl e
      | Inr vs \<Rightarrow> Inr \<lparr>ip_pattern = vs ! 0, ip_verbose = (if length (vs ! 1) > 0 then atoi (vs ! 1) else 1), ip_value = get_int ptr dflt\<rparr>)"

definition FN_port :: "xml_node list \<Rightarrow> mp_exception + Port" where
  "FN_port ptr =
     (case parse_attr ptr [''route'', ''max_recv_bytes'', ''port'', ''cert_fname''] of
        Inl e \<Rightarrow> Inl e
      | Inr vs \<Rightarrow> Inr \<lparr>port_port = (if length (vs ! 2) > 0 then vs ! 2 else get_text ptr), port_route = vs ! 0, port_cert_fname = vs ! 3,
          port_max_recv_bytes = (if length (vs ! 1) > 0 then atoi (vs ! 1) else 0)\<rparr>)"

definition INT_MAX :: int where "INT_MAX = 2147483647"

text \<open>The configuration so far and the ports found.\<close>

definition FN_element :: "xml_node list \<Rightarrow> fn_conf \<times> Port list \<Rightarrow> mp_exception + fn_conf \<times> Port list" where
  "FN_element ptr x =
     (case (ptr, x) of
        ([], _) \<Rightarrow> Inr x
      | (n # _, (conf, ports)) \<Rightarrow>
          let t = get_text ptr; name = node_name n in
          if name = ''port'' then (case FN_port ptr of Inl e \<Rightarrow> Inl e | Inr po \<Rightarrow> Inr (conf, ports @ [po]))
          else if name = ''threads''
          then (if atoi t < 1 then Inl (FilterException (''Bad value for threads: '' @ t)) else Inr (conf\<lparr>m_no_threads := atoi t\<rparr>, ports))
          else if name = ''max-threads''
          then (if atoi t < 1 then Inl (FilterException (''Bad value for max-threads: '' @ t)) else Inr (conf\<lparr>m_max_threads := atoi t\<rparr>, ports))
          else if name = ''stack-size''
          then (if atoi t < 0 then Inl (FilterException (''Bad value for stack-size: '' @ t)) else Inr (conf\<lparr>m_stack_size := atoi t * 1024\<rparr>, ports))
          else if name = ''timeout''
          then map_sum id (\<lambda>m. (conf\<lparr>session_timeout := session_timeout conf @ [m]\<rparr>, ports)) (FN_pattern ptr 0)
          else if name = ''connect-max''
          then map_sum id (\<lambda>m. (conf\<lparr>connect_max := connect_max conf @ [m]\<rparr>, ports)) (FN_pattern ptr INT_MAX)
          else if name = ''connect-total''
          then map_sum id (\<lambda>m. (conf\<lparr>connect_total := connect_total conf @ [m]\<rparr>, ports)) (FN_pattern ptr INT_MAX)
          else if name = ''http-req-max''
          then map_sum id (\<lambda>m. (conf\<lparr>http_req_max := http_req_max conf @ [m]\<rparr>, ports)) (FN_pattern ptr INT_MAX)
          else if name = ''message'' then Inr (conf\<lparr>m_msg_config := t\<rparr>, ports)
          else if name = ''stat-req'' then Inr (conf\<lparr>m_stat_req := t\<rparr>, ports)
          else Inl (FilterException (''Bad element '' @ node_name n)))"

text \<open>\<open>server\<close> of YAZ++ binds a port; a result other than 0 is a failure. A port given by its name only has no value for
  \<open>max_recv_bytes\<close>: it is whatever the memory held.\<close>

fun bind_ports :: "(string \<Rightarrow> int) \<Rightarrow> Port list \<Rightarrow> mp_exception + unit" where
  "bind_ports server [] = Inr ()"
| "bind_ports server (po # pos) =
     (if server (port_port po) \<noteq> 0 then Inl (FilterException (''Unable to bind to address '' @ port_port po)) else bind_ports server pos)"

definition FN_set_ports :: "(string \<Rightarrow> int) \<Rightarrow> Port list \<Rightarrow> fn_conf \<Rightarrow> mp_exception + fn_conf" where
  "FN_set_ports server ports conf = map_sum id (\<lambda>_. conf\<lparr>m_ports := ports\<rparr>) (bind_ports server ports)"

definition FN_set_port_names :: "int \<Rightarrow> (string \<Rightarrow> int) \<Rightarrow> string list \<Rightarrow> fn_conf \<Rightarrow> mp_exception + fn_conf" where
  "FN_set_port_names unset server ports conf =
     FN_set_ports server (map (\<lambda>p. \<lparr>port_port = p, port_route = [], port_cert_fname = [], port_max_recv_bytes = unset\<rparr>) ports) conf"

definition FN_set_listen_duration :: "int \<Rightarrow> fn_conf \<Rightarrow> fn_conf" where
  "FN_set_listen_duration d conf = conf\<lparr>m_listen_duration := d\<rparr>"

definition FN_configure :: "(string \<Rightarrow> int) \<Rightarrow> xml_node option \<Rightarrow> bool \<Rightarrow> fn_conf \<Rightarrow> mp_exception + fn_conf" where
  "FN_configure server ptr test_only conf =
     (case ptr of
        None \<Rightarrow> Inl (FilterException ''No ports for Frontend'')
      | Some n \<Rightarrow>
          if node_children n = [] then Inl (FilterException ''No ports for Frontend'')
          else (case for_elements FN_element (node_children n) (conf, []) of
                  Inl e \<Rightarrow> Inl e
                | Inr (conf, ports) \<Rightarrow>
                    (let conf = (if length (m_msg_config conf) > 0 \<and> length (m_stat_req conf) = 0 then conf\<lparr>m_stat_req := ''/fn_stat''\<rparr> else conf)
                     in if test_only then Inr conf else FN_set_ports server ports conf)))"

text \<open>A server for each port, before the first connection.\<close>

definition fnet_new :: "'l \<Rightarrow> fn_conf \<Rightarrow> 'l fnet" where
  "fnet_new l conf =
     \<lparr>fn_servers = map (\<lambda>po. \<lparr>srv_port = po, srv_limit_connect = l, srv_limit_http_req = l\<rparr>) (m_ports conf), fn_children = Map.empty,
      fn_next = 0, fn_pool = pool_new (nat (m_no_threads conf)) (nat (m_max_threads conf)), fn_put = None, fn_peers = [],
      fn_stats = fn_stat_new, fn_sent = [], fn_closes = []\<rparr>"

section \<open>The event loop\<close>

text \<open>
  \<open>process\<close> runs the event loop of YAZ++ until it fails, a signal ends the program, only the pool observes a socket or the
  time of \<open>set_listen_duration\<close> is over. One element of the list is what one call of \<open>processEvent\<close> brings: its result,
  the signal that \<open>stop\<close> was called with meanwhile, the number of observers and whether the timer has run out; the list
  ends where nothing has happened yet.
\<close>

record loop_event =
  le_result :: int
  le_stop :: "int option"
  le_observers :: nat
  le_timeout :: bool

datatype loop_action = Shutdown_connections | Stop_listeners | Daemon_stop

datatype loop_exit = Not_listening | Loop_waits | Loop_terminated | Loop_ended

definition SIGTERM :: int where "SIGTERM = 15"

definition SIGUSR1 :: int where "SIGUSR1 = 10"

fun process_loop :: "bool \<Rightarrow> int \<Rightarrow> loop_event list \<Rightarrow> loop_action list \<times> loop_exit" where
  "process_loop tt signo [] = ([], Loop_waits)"
| "process_loop tt signo (ev # evs) =
     (if le_result ev \<le> 0 then ([], Loop_ended)
      else let signo = (case le_stop ev of Some s \<Rightarrow> s | None \<Rightarrow> signo) in
        if signo = SIGTERM then ([Shutdown_connections, Stop_listeners, Daemon_stop], Loop_terminated)
        else let (acts, signo) = (if signo = SIGUSR1 then ([Stop_listeners, Daemon_stop], 0) else ([], signo)) in
          if le_observers ev \<le> 1 then (acts, Loop_ended)
          else if tt \<and> le_timeout ev then (acts, Loop_ended)
          else (case process_loop tt signo evs of (acts', ex) \<Rightarrow> (acts @ acts', ex)))"

text \<open>The pool is stopped at the end, but not when the program is terminated. \<open>az\<close>: the ports were set.\<close>

definition FN_process :: "bool \<Rightarrow> fn_conf \<Rightarrow> loop_event list \<Rightarrow> fn_msg pool \<Rightarrow> loop_action list \<times> loop_exit \<times> fn_msg pool" where
  "FN_process az conf evs pl =
     (if \<not> az then ([], Not_listening, pl)
      else case process_loop (m_listen_duration conf \<noteq> 0) 0 evs of
        (acts, ex) \<Rightarrow> (acts, ex, if ex = Loop_ended then pool_stop pl else pl))"

section \<open>Steps\<close>

text \<open>
  The event loop and the threads. \<open>calm\<close> restricts the runs to those in which a child answers a request itself only when
  no other request of its connection is in progress.
\<close>

inductive fn_step :: "yaz \<Rightarrow> 'l fn_env \<Rightarrow> fn_conf \<Rightarrow> 'w move_fn \<Rightarrow> bool \<Rightarrow> 'l fnet \<times> 'w world_scheme \<Rightarrow> 'l fnet \<times> 'w world_scheme \<Rightarrow> bool"
  for Y E conf mv calm where
  accept: "fn_put st = None \<Longrightarrow> FN_sessionNotify Y E conf i name st w = Some (st', w') \<Longrightarrow> fn_step Y E conf mv calm (st, w) (st', w')"
| recv: "fn_put st = None \<Longrightarrow> fn_children st c = Some ch \<Longrightarrow> FN_recv_GDU Y E conf c z_pdu st = Some st' \<Longrightarrow>
    calm \<longrightarrow> fn_children st' c \<noteq> None \<or> ch_no_requests ch = 0 \<Longrightarrow> fn_step Y E conf mv calm (st, w) (st', w)"
| fail: "fn_put st = None \<Longrightarrow> FN_failNotify c st = Some st' \<Longrightarrow> fn_step Y E conf mv calm (st, w) (st', w)"
| push: "fn_put st = Some m \<Longrightarrow> put_push m (fn_pool st) = Some pl \<Longrightarrow>
    fn_step Y E conf mv calm (st, w) (st\<lparr>fn_pool := pl, fn_put := None\<rparr>, w)"
| wait: "run_wait (fn_pool st) = Some pl \<Longrightarrow> fn_step Y E conf mv calm (st, w) (st\<lparr>fn_pool := pl\<rparr>, w)"
| take: "run_take (fn_pool st) = Some pl \<Longrightarrow> fn_step Y E conf mv calm (st, w) (st\<lparr>fn_pool := pl\<rparr>, w)"
| handle: "TP_handle mv st m w = Some (m', w') \<Longrightarrow> run_give m m' (fn_pool st) = Some pl \<Longrightarrow>
    fn_step Y E conf mv calm (st, w) (st\<lparr>fn_pool := pl\<rparr>, w')"
| result: "fn_put st = None \<Longrightarrow> output_take (fn_pool st) = Some (m, pl) \<Longrightarrow>
    TP_result Y d m (st\<lparr>fn_pool := pl\<rparr>) = Some st' \<Longrightarrow> fn_step Y E conf mv calm (st, w) (st', w)"

inductive fn_reachable :: "yaz \<Rightarrow> 'l fn_env \<Rightarrow> fn_conf \<Rightarrow> 'w move_fn \<Rightarrow> bool \<Rightarrow> 'l \<Rightarrow> 'l fnet \<times> 'w world_scheme \<Rightarrow> bool"
  for Y E conf mv calm l where
  init: "fn_reachable Y E conf mv calm l (fnet_new l conf, w)"
| step: "fn_reachable Y E conf mv calm l x \<Longrightarrow> fn_step Y E conf mv calm x x' \<Longrightarrow> fn_reachable Y E conf mv calm l x'"

inductive_cases fn_stepE: "fn_step Y E conf mv calm x x'"

end
