(* ===== verification/MP_Frontend_Net_Props.thy ===== *)
theory MP_Frontend_Net_Props
  imports MP_Frontend_Net MP_Yaz_Ref
begin

text \<open>
  Properties of the frontend_net filter: connections of a peer are counted and bounded in every run, a child outlives the
  messages that point to it as long as it does not delete itself with requests in progress, and an instance
  in which it does.
\<close>

section \<open>Counting the connections of a peer\<close>

definition peers_ok :: "PeerStat \<Rightarrow> bool" where
  "peers_ok s \<longleftrightarrow> distinct (map fst s) \<and> list_all (\<lambda>x. 0 < snd x) s"

lemma peers_ok_simps [simp]:
  "peers_ok []" "peers_ok ((q, n) # s) \<longleftrightarrow> q \<notin> fst ` set s \<and> 0 < n \<and> peers_ok s"
  by (auto simp: peers_ok_def)

lemma PeerStat_get_absent: "peer \<notin> fst ` set s \<Longrightarrow> PeerStat_get peer s = 0"
  by (induction s) auto

lemma PeerStat_bump_None: "PeerStat_bump peer s = None \<longleftrightarrow> peer \<notin> fst ` set s"
proof (induction s)
  case (Cons x s)
  then show ?case by (cases x) (simp split: if_split)
qed simp

lemma PeerStat_bump_Some:
  "PeerStat_bump peer s = Some s' \<Longrightarrow> map fst s' = map fst s \<and> (peers_ok s \<longrightarrow> peers_ok s') \<and>
     PeerStat_get q s' = PeerStat_get q s + (if q = peer then 1 else 0)"
proof (induction s arbitrary: s')
  case (Cons x s)
  obtain a n where x: "x = (a, n)" by (cases x)
  show ?case
  proof (cases "peer = a")
    case True
    then show ?thesis using Cons.prems x by auto
  next
    case False
    then obtain z where z: "PeerStat_bump peer s = Some z" "s' = (a, n) # z" using Cons.prems x by auto
    have "fst ` set z = fst ` set s" using Cons.IH [OF z(1)] by (metis list.set_map)
    then show ?thesis using Cons.IH [OF z(1)] z(2) x False by simp
  qed
qed simp

lemma PeerStat_add:
  assumes "peers_ok s"
  shows "peers_ok (PeerStat_add peer s)" and "PeerStat_get q (PeerStat_add peer s) = PeerStat_get q s + (if q = peer then 1 else 0)"
proof -
  have "peers_ok (PeerStat_add peer s) \<and> PeerStat_get q (PeerStat_add peer s) = PeerStat_get q s + (if q = peer then 1 else 0)"
  proof (cases "PeerStat_bump peer s")
    case None
    then have "peer \<notin> fst ` set s" by (simp add: PeerStat_bump_None)
    with None assms PeerStat_get_absent [OF this] show ?thesis by (simp add: PeerStat_add_def)
  next
    case (Some s')
    with PeerStat_bump_Some [OF Some] assms show ?thesis by (simp add: PeerStat_add_def)
  qed
  then show "peers_ok (PeerStat_add peer s)" "PeerStat_get q (PeerStat_add peer s) = PeerStat_get q s + (if q = peer then 1 else 0)" by auto
qed

lemma PeerStat_remove_names: "fst ` set (PeerStat_remove peer s) \<subseteq> fst ` set s"
proof (induction s)
  case (Cons x s)
  then show ?case by (cases x) (simp add: subset_insertI2)
qed simp

lemma PeerStat_remove_both:
  "peers_ok s \<Longrightarrow> peers_ok (PeerStat_remove peer s) \<and> PeerStat_get q (PeerStat_remove peer s) = PeerStat_get q s - (if q = peer then 1 else 0)"
proof (induction s)
  case (Cons x s)
  obtain a n where x: "x = (a, n)" by (cases x)
  then have a: "a \<notin> fst ` set s" using Cons.prems by simp
  have "a \<notin> fst ` set (PeerStat_remove peer s)" by (rule contra_subsetD [OF PeerStat_remove_names a])
  moreover have "PeerStat_get a s = 0" by (rule PeerStat_get_absent [OF a])
  ultimately show ?case using Cons x by auto
qed simp

lemmas PeerStat_remove = PeerStat_remove_both [THEN conjunct1] PeerStat_remove_both [THEN conjunct2]

text \<open>Which child is for which peer and has which session.\<close>

definition peers_of :: "(nat \<rightharpoonup> fn_child) \<Rightarrow> nat \<rightharpoonup> string" where
  "peers_of cs c = map_option ch_peer (cs c)"

definition live :: "string \<Rightarrow> (nat \<rightharpoonup> string) \<Rightarrow> nat set" where
  "live peer ps = {c. ps c = Some peer}"

definition peer_inv :: "'l fnet \<Rightarrow> bool" where
  "peer_inv st \<longleftrightarrow> peers_ok (fn_peers st) \<and> finite (dom (fn_children st)) \<and> (\<forall>c \<in> dom (fn_children st). c < fn_next st) \<and>
     (\<forall>peer. PeerStat_get peer (fn_peers st) = card (live peer (peers_of (fn_children st))))"

lemma dom_peers_of: "dom (peers_of cs) = dom cs"
  by (auto simp: peers_of_def)

lemma live_finite: "finite (dom cs) \<Longrightarrow> finite (live peer (peers_of cs))"
  by (rule finite_subset [of _ "dom cs"]) (auto simp: live_def peers_of_def)

lemma peers_of_upd: "peers_of (cs(c \<mapsto> ch)) = (peers_of cs)(c \<mapsto> ch_peer ch)"
  by (auto simp: peers_of_def)

lemma peers_of_same: "cs c = Some ch \<Longrightarrow> ch_peer ch' = ch_peer ch \<Longrightarrow> peers_of (cs(c \<mapsto> ch')) = peers_of cs"
  by (auto simp: peers_of_def)

text \<open>An operation that keeps the peers of the children keeps the invariant.\<close>

lemma peer_inv_same:
  assumes "peer_inv st" and "peers_of (fn_children st') = peers_of (fn_children st)" and "fn_peers st' = fn_peers st" and "fn_next st' = fn_next st"
  shows "peer_inv st'"
proof -
  have "dom (fn_children st') = dom (fn_children st)" using assms(2) dom_peers_of by metis
  with assms show ?thesis by (simp add: peer_inv_def)
qed

lemma child_delete_inv:
  assumes "peer_inv st"
  shows "peer_inv (child_delete c st)"
proof (cases "fn_children st c")
  case None
  with assms show ?thesis by (simp add: child_delete_def)
next
  case (Some ch)
  let ?cs = "(fn_children st)(c := None)"
  have "live peer (peers_of ?cs) = live peer (peers_of (fn_children st)) - (if ch_peer ch = peer then {c} else {})" for peer
    using Some by (auto simp: live_def peers_of_def)
  moreover have "c \<in> live (ch_peer ch) (peers_of (fn_children st))" using Some by (simp add: live_def peers_of_def)
  moreover have "finite (live peer (peers_of (fn_children st)))" for peer using assms live_finite by (auto simp: peer_inv_def)
  ultimately have "PeerStat_get peer (PeerStat_remove (ch_peer ch) (fn_peers st)) = card (live peer (peers_of ?cs))" for peer
    using assms PeerStat_remove(2) [of "fn_peers st" peer "ch_peer ch"] by (auto simp: peer_inv_def card_Diff_singleton)
  then show ?thesis using assms Some PeerStat_remove(1) by (auto simp: child_delete_def peer_inv_def)
qed

lemma fn_upd_simps [simp]:
  "fn_children (upd_server i f st) = fn_children st" "fn_peers (upd_server i f st) = fn_peers st" "fn_next (upd_server i f st) = fn_next st"
  "fn_pool (upd_server i f st) = fn_pool st" "fn_put (upd_server i f st) = fn_put st"
  "fn_children (fn_send c g st) = fn_children st" "fn_peers (fn_send c g st) = fn_peers st" "fn_next (fn_send c g st) = fn_next st"
  "fn_pool (fn_send c g st) = fn_pool st" "fn_put (fn_send c g st) = fn_put st"
  "fn_children (fn_put_msg m st) = fn_children st" "fn_peers (fn_put_msg m st) = fn_peers st" "fn_next (fn_put_msg m st) = fn_next st"
  "fn_pool (fn_put_msg m st) = put_enter (fn_pool st)" "fn_put (fn_put_msg m st) = Some m"
  by (simp_all add: upd_server_def fn_send_def fn_put_msg_def)

lemma child_new_peer: "child_new Y conf i po peer w = Some (ch, w') \<Longrightarrow>
    ch_peer ch = peer \<and> ch_no_requests ch = 0 \<and> m_id (ch_session ch) = m_global_id w + 1 \<and> \<not> m_close (ch_session ch)"
  by (auto simp: child_new_def Session_new_def Let_def)

text \<open>A connection that is accepted is within the limit.\<close>

lemma FN_sessionNotify_cases:
  assumes "FN_sessionNotify Y E conf i name st w = Some (st', w')"
  obtains (refused) "fn_children st' = fn_children st" "fn_peers st' = fn_peers st" "fn_next st' = fn_next st" "fn_pool st' = fn_pool st" "fn_put st' = fn_put st"
  | (accepted) ch where "fn_children st' = (fn_children st)(fn_next st \<mapsto> ch)" "fn_peers st' = PeerStat_add (ch_peer ch) (fn_peers st)"
      "fn_next st' = fn_next st + 1" "fn_pool st' = fn_pool st" "fn_put st' = fn_put st" "ch_no_requests ch = 0"
      "m_id (ch_session ch) = m_global_id w + 1" "within_limit Y (connect_total conf) (ch_peer ch) (int (PeerStat_get (ch_peer ch) (fn_peers st)))"
proof -
  let ?peer = "peer_of name" and ?st1 = "upd_server i (\<lambda>s. s\<lparr>srv_limit_connect := lc_cleanup E (srv_limit_connect s)\<rparr>) st"
  let ?s = "fn_servers ?st1 ! i"
  have i: "\<not> length (fn_servers st) \<le> i" using assms by (auto simp: FN_sessionNotify_def)
  show thesis
  proof (cases "within_limit Y (connect_total conf) ?peer (int (PeerStat_get ?peer (fn_peers st))) \<and>
      within_limit Y (connect_max conf) ?peer (lc_get_total E (srv_limit_connect ?s) ?peer)")
    case False
    then have "st' = st \<or> st' = ?st1" using assms i unfolding FN_sessionNotify_def Let_def by (auto simp: if_split_eq1)
    then show thesis by (intro refused) auto
  next
    case True
    then obtain ch where ch: "child_new Y conf i (srv_port ?s) ?peer w = Some (ch, w')"
      and st': "st' = (upd_server i (\<lambda>s. s\<lparr>srv_limit_connect := lc_add_connect E (srv_limit_connect s) ?peer\<rparr>) ?st1)
        \<lparr>fn_children := (fn_children st)(fn_next st \<mapsto> ch), fn_next := fn_next st + 1, fn_peers := PeerStat_add ?peer (fn_peers st)\<rparr>"
      using assms i unfolding FN_sessionNotify_def Let_def by auto
    show thesis using child_new_peer [OF ch] st' True by (intro accepted [of ch]) simp_all
  qed
qed

lemma FN_sessionNotify_inv:
  assumes "FN_sessionNotify Y E conf i name st w = Some (st', w')" and "peer_inv st"
  shows "peer_inv st'"
  using assms(1)
proof (cases rule: FN_sessionNotify_cases)
  case refused
  then show ?thesis using peer_inv_same [OF assms(2), of st'] by simp
next
  case (accepted ch)
  have fresh: "fn_children st (fn_next st) = None" using assms(2) by (auto simp: peer_inv_def)
  have "live peer (peers_of (fn_children st')) = live peer (peers_of (fn_children st)) \<union> (if ch_peer ch = peer then {fn_next st} else {})" for peer
    using fresh accepted(1) by (auto simp: live_def peers_of_def)
  moreover have "fn_next st \<notin> live peer (peers_of (fn_children st))" "finite (live peer (peers_of (fn_children st)))" for peer
    using fresh assms(2) live_finite by (auto simp: live_def peers_of_def peer_inv_def)
  ultimately have "PeerStat_get peer (fn_peers st') = card (live peer (peers_of (fn_children st')))" for peer
    using assms(2) PeerStat_add(2) [of "fn_peers st" peer "ch_peer ch"] accepted(2) by (auto simp: peer_inv_def)
  then show ?thesis using assms(2) accepted(1-3) PeerStat_add(1) by (auto simp: peer_inv_def intro: less_SucI)
qed

text \<open>Children after messages were deleted.\<close>

definition ids_of :: "(nat \<rightharpoonup> fn_child) \<Rightarrow> nat \<rightharpoonup> 64 word" where
  "ids_of cs c = map_option (\<lambda>ch. m_id (ch_session ch)) (cs c)"

definition requests_of :: "(nat \<rightharpoonup> fn_child) \<Rightarrow> nat \<rightharpoonup> int" where
  "requests_of cs c = map_option ch_no_requests (cs c)"

definition msgs_for :: "nat \<Rightarrow> fn_msg multiset \<Rightarrow> int" where
  "msgs_for c M = int (size (filter_mset (\<lambda>m. tp_child m = c) M))"

lemma msgs_for_simps [simp]:
  "msgs_for c {#} = 0" "msgs_for c (M + N) = msgs_for c M + msgs_for c N"
  "msgs_for c (add_mset m M) = (if tp_child m = c then 1 else 0) + msgs_for c M"
  by (simp_all add: msgs_for_def)

lemma uncount_Some:
  "uncount ms cs = Some cs' \<Longrightarrow> peers_of cs' = peers_of cs \<and> ids_of cs' = ids_of cs \<and>
     (\<forall>c. requests_of cs' c = map_option (\<lambda>n. n - msgs_for c (mset ms)) (requests_of cs c))"
proof (induction ms arbitrary: cs)
  case (Cons m ms)
  then obtain ch where ch: "cs (tp_child m) = Some ch" by (auto split: option.splits)
  define cs1 where "cs1 = cs(tp_child m \<mapsto> ch\<lparr>ch_no_requests := ch_no_requests ch - 1\<rparr>)"
  have "uncount ms cs1 = Some cs'" using Cons.prems ch by (simp add: cs1_def)
  note IH = Cons.IH [OF this]
  have same: "peers_of cs1 = peers_of cs" "ids_of cs1 = ids_of cs" using ch by (auto simp: peers_of_def ids_of_def cs1_def)
  have "requests_of cs1 c = map_option (\<lambda>n. n - (if tp_child m = c then 1 else 0)) (requests_of cs c)" for c
    using ch by (auto simp: requests_of_def cs1_def option.map_ident)
  then have "requests_of cs' c = map_option (\<lambda>n. n - msgs_for c (mset (m # ms))) (requests_of cs c)" for c
    using IH by (cases "requests_of cs c") (simp_all add: algebra_simps)
  with IH same show ?case by simp
qed (simp add: option.map_ident)

lemma uncount_defined: "\<forall>m \<in> set ms. cs (tp_child m) \<noteq> None \<Longrightarrow> \<exists>cs'. uncount ms cs = Some cs'"
proof (induction ms arbitrary: cs)
  case (Cons m ms)
  then obtain ch where "cs (tp_child m) = Some ch" by auto
  moreover have "\<exists>cs'. uncount ms (cs(tp_child m \<mapsto> ch\<lparr>ch_no_requests := ch_no_requests ch - 1\<rparr>)) = Some cs'"
    using Cons by auto
  ultimately show ?case by simp
qed simp

section \<open>What the operations change\<close>

text \<open>The messages on their way: in the pool, or about to be put.\<close>

definition fn_msgs :: "'l fnet \<Rightarrow> fn_msg multiset" where
  "fn_msgs st = pool_content (fn_pool st) + (case fn_put st of None \<Rightarrow> {#} | Some m \<Rightarrow> {#m#})"

lemma put_enter_pool [simp]:
  "pool_content (put_enter pl) = pool_content pl" "pl_input (put_enter pl) = pl_input pl"
  "pl_busy (put_enter pl) = pl_busy pl" "pl_output (put_enter pl) = pl_output pl"
  by (simp_all add: put_enter_def add_worker_def pool_content_def)

lemma child_delete_simps [simp]:
  "fn_pool (child_delete c st) = fn_pool st" "fn_put (child_delete c st) = fn_put st" "fn_next (child_delete c st) = fn_next st"
  "fn_children (child_delete c st) = (fn_children st)(c := None)"
  by (auto simp: child_delete_def split: option.split)

text \<open>A request is given to the threads, or its child is deleted.\<close>

lemma FN_recv_cases:
  assumes "FN_recv_GDU Y E conf c z_pdu st = Some st'" and "fn_put st = None"
  obtains (put) ch m where "fn_children st c = Some ch" "fn_children st' = (fn_children st)(c \<mapsto> ch\<lparr>ch_no_requests := ch_no_requests ch + 1\<rparr>)"
      "fn_peers st' = fn_peers st" "fn_next st' = fn_next st" "fn_pool st' = put_enter (fn_pool st)" "fn_put st' = Some m" "tp_child m = c"
      "pkg_session (tp_package m) = ch_session ch"
  | (deleted) ch st1 where "fn_children st c = Some ch" "st' = child_delete c st1" "fn_peers st1 = fn_peers st" "fn_next st1 = fn_next st"
      "fn_children st1 = (fn_children st)(c \<mapsto> ch\<lparr>ch_no_requests := ch_no_requests ch + 1\<rparr>)" "fn_pool st1 = fn_pool st" "fn_put st1 = None"
proof -
  obtain ch where ch: "fn_children st c = Some ch" using assms(1) by (auto simp: FN_recv_GDU_def split: option.splits)
  let ?ch = "ch\<lparr>ch_no_requests := ch_no_requests ch + 1\<rparr>"
  let ?st = "st\<lparr>fn_children := (fn_children st)(c \<mapsto> ?ch)\<rparr>"
  obtain ori where ori: "request_origin Y ?ch z_pdu = Some ori" using assms(1) ch by (auto simp: FN_recv_GDU_def Let_def split: option.splits)
  let ?m = "\<lparr>tp_child = c, tp_package = (Package_new (ch_session ch) ori)\<lparr>pkg_request := z_pdu\<rparr>\<rparr>"
  have ses: "pkg_session (tp_package ?m) = ch_session ch" by (simp add: Package_new_def)
  let ?st2 = "upd_server (ch_server ch) (\<lambda>s. s\<lparr>srv_limit_http_req := lc_cleanup E (srv_limit_http_req s)\<rparr>) ?st"
  have "(\<exists>f. st' = fn_put_msg ?m (upd_server (ch_server ch) f ?st2)) \<or>
      st' = fn_put_msg ?m ?st \<or> (\<exists>g. st' = child_delete c (fn_send c g ?st)) \<or>
      (\<exists>g. st' = child_delete c (fn_send c g ?st2))"
    using assms(1) ch ori unfolding FN_recv_GDU_def Let_def
    by (auto split: option.splits Z_GDU.splits if_splits)
  then show thesis
  proof (elim disjE exE)
    fix g assume "st' = child_delete c (fn_send c g ?st)"
    with ch assms(2) show thesis by (intro deleted [of ch "fn_send c g ?st"]) simp_all
  next
    fix g assume "st' = child_delete c (fn_send c g ?st2)"
    with ch assms(2) show thesis by (intro deleted [of ch "fn_send c g ?st2"]) simp_all
  qed (use ch ses in \<open>auto intro!: put [of ch ?m]\<close>)
qed

lemma FN_fail_cases:
  assumes "FN_failNotify c st = Some st'" and "fn_put st = None"
  obtains (ignored) "st' = st"
  | (deleted) ch where "fn_children st c = Some ch" "ch_no_requests ch = 0" "st' = child_delete c st"
  | (closing) ch ch' cs m where "fn_children st c = Some ch" "ch_no_requests ch' = ch_no_requests ch + 1" "ch_peer ch' = ch_peer ch"
      "m_id (ch_session ch') = m_id (ch_session ch)" "fn_children st' = cs"
      "uncount (filter (TP_cleanup (ch_session ch')) (pl_input (fn_pool st))) ((fn_children st)(c \<mapsto> ch')) = Some cs"
      "fn_peers st' = fn_peers st" "fn_next st' = fn_next st" "fn_put st' = Some m" "tp_child m = c" "pkg_session (tp_package m) = ch_session ch'"
      "fn_pool st' = put_enter ((fn_pool st)\<lparr>pl_input := filter (\<lambda>x. \<not> TP_cleanup (ch_session ch') x) (pl_input (fn_pool st))\<rparr>)"
proof -
  obtain ch where ch: "fn_children st c = Some ch" using assms(1) by (auto simp: FN_failNotify_def split: option.splits)
  show thesis
  proof (cases "m_close (ch_session ch)")
    case True
    with assms(1) ch have "st' = (if ch_no_requests ch = 0 then child_delete c st else st)" by (simp add: FN_failNotify_def)
    with ch ignored deleted show thesis by (auto split: if_splits)
  next
    case False
    let ?ch = "ch\<lparr>ch_no_requests := ch_no_requests ch + 1, ch_session := Session_close (ch_session ch)\<rparr>"
    let ?m = "\<lparr>tp_child = c, tp_package = Package_new (ch_session ?ch) (ch_origin ?ch)\<rparr>"
    from False assms(1) ch obtain cs where
      cs: "uncount (filter (TP_cleanup (ch_session ?ch)) (pl_input (fn_pool st))) ((fn_children st)(c \<mapsto> ?ch)) = Some cs"
      and st': "st' = fn_put_msg ?m (st\<lparr>fn_children := cs,
        fn_pool := (fn_pool st)\<lparr>pl_input := filter (\<lambda>x. \<not> TP_cleanup (ch_session ?ch) x) (pl_input (fn_pool st))\<rparr>\<rparr>)"
      by (auto simp: FN_failNotify_def pool_cleanup_def Let_def)
    show thesis using ch cs st'
      by (intro closing [of ch ?ch cs ?m]) (simp_all add: Session_close_def Package_new_def)
  qed
qed

lemma TP_result_cases:
  assumes "TP_result Y d m st = Some st'"
  obtains ch where "fn_children st (tp_child m) = Some ch"
    "fn_children st' = (fn_children st)(tp_child m \<mapsto> ch\<lparr>ch_no_requests := ch_no_requests ch - 1\<rparr>)"
    "fn_peers st' = fn_peers st" "fn_next st' = fn_next st" "fn_pool st' = fn_pool st" "fn_put st' = fn_put st"
proof -
  obtain ch where ch: "fn_children st (tp_child m) = Some ch" using assms by (auto simp: TP_result_def Let_def split: option.splits)
  show thesis using assms ch unfolding TP_result_def Let_def
    by (intro that [of ch]) (auto split: option.splits if_splits)
qed

section \<open>Connections are bounded\<close>

lemma fn_step_peer_inv:
  assumes "fn_step Y E conf mv calm x x'" and "peer_inv (fst x)"
  shows "peer_inv (fst x')"
  using assms
proof (induction rule: fn_step.induct)
  case (accept st w i name st' w')
  then show ?case using FN_sessionNotify_inv [OF accept(2)] by simp
next
  case (recv st c ch z_pdu st' w)
  note inv = recv(5) [unfolded fst_conv]
  from recv(3,1) show ?case
  proof (cases rule: FN_recv_cases)
    case (put ch m)
    then show ?thesis using peer_inv_same [OF inv, of st'] peers_of_same [where cs = "fn_children st" and c = c, OF put(1)] by simp
  next
    case (deleted ch st1)
    then have "peer_inv st1" using peer_inv_same [OF inv, of st1] peers_of_same [where cs = "fn_children st" and c = c, OF deleted(1)] by simp
    then show ?thesis using child_delete_inv deleted(2) by simp
  qed
next
  case (fail st c st' w)
  note inv = fail(3) [unfolded fst_conv]
  from fail(2,1) show ?case
  proof (cases rule: FN_fail_cases)
    case (closing ch ch' cs m)
    have "peers_of cs = peers_of (fn_children st)"
      using uncount_Some [OF closing(6)] peers_of_same [where cs = "fn_children st" and c = c, OF closing(1,3)] by simp
    then show ?thesis using peer_inv_same [OF inv, of st'] closing by simp
  qed (use inv child_delete_inv in simp_all)
next
  case (result st m pl d st' w)
  then have inv: "peer_inv (st\<lparr>fn_pool := pl\<rparr>)" by (simp add: peer_inv_def)
  from result(3) obtain ch where "fn_children st (tp_child m) = Some ch"
    "fn_children st' = (fn_children st)(tp_child m \<mapsto> ch\<lparr>ch_no_requests := ch_no_requests ch - 1\<rparr>)"
    "fn_peers st' = fn_peers st" "fn_next st' = fn_next st" by (auto elim!: TP_result_cases)
  then show ?case using peer_inv_same [OF inv, of st'] peers_of_same [of "fn_children st" "tp_child m" ch] by simp
qed (simp_all add: peer_inv_def)

lemma fnet_new_peer_inv: "peer_inv (fnet_new l conf)"
  by (simp add: fnet_new_def peer_inv_def live_def peers_of_def)

lemma fn_reachable_peer_inv: "fn_reachable Y E conf mv calm l x \<Longrightarrow> peer_inv (fst x)"
  by (induction rule: fn_reachable.induct) (auto simp: fnet_new_peer_inv dest: fn_step_peer_inv)

text \<open>The limit for a peer: the value of the first pattern that matches it.\<close>

fun limit_of :: "yaz \<Rightarrow> IP_Pattern list \<Rightarrow> string \<Rightarrow> int option" where
  "limit_of Y [] peer = None"
| "limit_of Y (it # its) peer = (if match_ip Y (ip_pattern it) peer then Some (ip_value it) else limit_of Y its peer)"

lemma within_limit_of: "within_limit Y its peer n \<longleftrightarrow> (case limit_of Y its peer of None \<Rightarrow> True | Some v \<Rightarrow> n < v)"
  by (induction its) auto

definition connections :: "string \<Rightarrow> 'l fnet \<Rightarrow> nat" where
  "connections peer st = card {c. \<exists>ch. fn_children st c = Some ch \<and> ch_peer ch = peer}"

lemma connections_get: "peer_inv st \<Longrightarrow> connections peer st = PeerStat_get peer (fn_peers st)"
  by (simp add: peer_inv_def connections_def live_def peers_of_def)

lemma fn_step_peers:
  assumes "fn_step Y E conf mv calm x x'" and "peer_inv (fst x)"
  shows "PeerStat_get peer (fn_peers (fst x')) \<le> PeerStat_get peer (fn_peers (fst x)) \<or>
    within_limit Y (connect_total conf) peer (int (PeerStat_get peer (fn_peers (fst x)))) \<and>
    PeerStat_get peer (fn_peers (fst x')) = PeerStat_get peer (fn_peers (fst x)) + 1"
  using assms
proof (induction rule: fn_step.induct)
  case (accept st w i name st' w')
  then have ok: "peers_ok (fn_peers st)" by (simp add: peer_inv_def)
  from accept(2) show ?case
    by (cases rule: FN_sessionNotify_cases) (auto simp: PeerStat_add(2) [OF ok])
next
  case (recv st c ch z_pdu st' w)
  then have ok: "peers_ok (fn_peers st)" by (simp add: peer_inv_def)
  from recv(3,1) show ?case
    by (cases rule: FN_recv_cases) (auto simp: child_delete_def PeerStat_remove(2) [OF ok])
next
  case (fail st c st' w)
  then have ok: "peers_ok (fn_peers st)" by (simp add: peer_inv_def)
  from fail(2,1) show ?case
    by (cases rule: FN_fail_cases) (auto simp: child_delete_def PeerStat_remove(2) [OF ok])
next
  case (result st m pl d st' w)
  then show ?case by (auto elim!: TP_result_cases)
qed simp_all

text \<open>
  C13. In every run, whatever clients send and in whatever order connections come and go, the connections of a peer are as many
  as the statistics say and not more than the limit of \<open>connect-total\<close> for the peer allows.\<close>
theorem frontend_connections_bounded:
  assumes "fn_reachable Y E conf mv calm l (st, w)"
  shows "connections peer st = PeerStat_get peer (fn_peers st) \<and>
    (\<forall>v. limit_of Y (connect_total conf) peer = Some v \<longrightarrow> int (connections peer st) \<le> max v 0)"
proof -
  have "int (PeerStat_get peer (fn_peers (fst x))) \<le> max v 0"
    if "fn_reachable Y E conf mv calm l x" "limit_of Y (connect_total conf) peer = Some v" for x v
    using that
  proof (induction rule: fn_reachable.induct)
    case (init w)
    then show ?case by (simp add: fnet_new_def)
  next
    case (step x x')
    show ?case using fn_step_peers [OF step(2) fn_reachable_peer_inv [OF step(1)], of peer] step(3,4)
      by (auto simp: within_limit_of)
  qed
  with assms show ?thesis using connections_get [OF fn_reachable_peer_inv [OF assms, unfolded fst_conv]] by fastforce
qed

section \<open>Children and messages\<close>

text \<open>The counter of a child is the number of messages that point to it; none points to a child that was deleted.\<close>

definition ref_inv :: "'l fnet \<Rightarrow> bool" where
  "ref_inv st \<longleftrightarrow> (\<forall>c. msgs_for c (fn_msgs st) = (case requests_of (fn_children st) c of None \<Rightarrow> 0 | Some n \<Rightarrow> n))"

lemma requests_of_upd: "requests_of (cs(c := x)) d = (if d = c then map_option ch_no_requests x else requests_of cs d)"
  by (simp add: requests_of_def)

lemma msgs_for_member: "m \<in># M \<Longrightarrow> 0 < msgs_for (tp_child m) M"
  by (auto simp: msgs_for_def nonempty_has_size [symmetric])

lemma msgs_for_nonneg: "0 \<le> msgs_for c M"
  by (simp add: msgs_for_def)

lemma ref_inv_live: "ref_inv st \<Longrightarrow> m \<in># fn_msgs st \<Longrightarrow> fn_children st (tp_child m) \<noteq> None"
  using msgs_for_member [of m "fn_msgs st"] by (cases "fn_children st (tp_child m)") (auto simp: ref_inv_def requests_of_def)

lemma ref_inv_count: "ref_inv st \<Longrightarrow> fn_children st c = Some ch \<Longrightarrow> ch_no_requests ch = msgs_for c (fn_msgs st)"
  by (simp add: ref_inv_def requests_of_def)

lemma ref_inv_same:
  assumes "ref_inv st" and "fn_children st' = fn_children st" and "\<And>c. msgs_for c (fn_msgs st') = msgs_for c (fn_msgs st)"
  shows "ref_inv st'"
  using assms by (simp add: ref_inv_def)

lemma ref_inv_put:
  assumes "ref_inv st" and "requests_of (fn_children st') = (requests_of (fn_children st))(c \<mapsto> n + 1)" and "requests_of (fn_children st) c = Some n"
    and "fn_msgs st' = add_mset m (fn_msgs st)" and "tp_child m = c"
  shows "ref_inv st'"
  using assms by (auto simp: ref_inv_def)

lemma ref_inv_delete:
  assumes "ref_inv st" and "fn_children st c = Some ch" and "ch_no_requests ch = 0" and "fn_children st' = (fn_children st)(c := None)"
    and "fn_msgs st' = fn_msgs st"
  shows "ref_inv st'"
  using assms by (auto simp: ref_inv_def requests_of_def)

lemma fn_msgs_put: "fn_put st = None \<Longrightarrow> fn_put st' = Some m \<Longrightarrow> fn_pool st' = put_enter (fn_pool st) \<Longrightarrow> fn_msgs st' = add_mset m (fn_msgs st)"
  by (simp add: fn_msgs_def)

text \<open>A connection that is lost: its messages in the queue are deleted and count no more, and one message is put.\<close>

lemma fail_closing_ref_inv:
  assumes "ref_inv st" and "fn_put st = None" and "fn_children st c = Some ch" and "ch_no_requests ch' = ch_no_requests ch + 1"
    and "uncount (filter P (pl_input (fn_pool st))) ((fn_children st)(c \<mapsto> ch')) = Some (fn_children st')"
    and "fn_put st' = Some m" and "tp_child m = c"
    and "fn_pool st' = put_enter ((fn_pool st)\<lparr>pl_input := filter (\<lambda>x. \<not> P x) (pl_input (fn_pool st))\<rparr>)"
  shows "ref_inv st'"
proof -
  let ?D = "mset (filter P (pl_input (fn_pool st)))"
  have split: "fn_msgs st = ?D + (fn_msgs st' - {#m#})"
    using assms(2,6,8) arg_cong [OF multiset_partition [of "mset (pl_input (fn_pool st))" P],
      of "\<lambda>M. M + (mset (pl_busy (fn_pool st)) + mset (pl_output (fn_pool st)))"]
    by (simp add: fn_msgs_def pool_content_def ac_simps del: multiset_partition)
  have m: "fn_msgs st' = add_mset m (fn_msgs st' - {#m#})" using assms(6) by (simp add: fn_msgs_def)
  have "msgs_for d (fn_msgs st) = msgs_for d ?D + msgs_for d (fn_msgs st' - {#m#})" for d
    using arg_cong [OF split, of "msgs_for d"] by simp
  moreover have "msgs_for d (fn_msgs st') = (if d = c then 1 else 0) + msgs_for d (fn_msgs st' - {#m#})" for d
    using arg_cong [OF m, of "msgs_for d"] assms(7) by auto
  ultimately have new: "msgs_for d (fn_msgs st') = msgs_for d (fn_msgs st) - msgs_for d ?D + (if d = c then 1 else 0)"
    and le: "msgs_for d ?D \<le> msgs_for d (fn_msgs st)" for d
    using msgs_for_nonneg [of d "fn_msgs st' - {#m#}"] by simp_all
  have old: "msgs_for d (fn_msgs st) = (case requests_of (fn_children st) d of None \<Rightarrow> 0 | Some n \<Rightarrow> n)" for d
    using assms(1) by (simp add: ref_inv_def)
  have req: "requests_of (fn_children st') d = map_option (\<lambda>n. n - msgs_for d ?D) (requests_of ((fn_children st)(c \<mapsto> ch')) d)" for d
    using uncount_Some [OF assms(5)] by simp
  have "msgs_for d (fn_msgs st') = (case requests_of (fn_children st') d of None \<Rightarrow> 0 | Some n \<Rightarrow> n)" for d
  proof (cases "d = c")
    case True
    then show ?thesis using new [of d] old [of d] req [of d] assms(3,4) by (auto simp: requests_of_def)
  next
    case False
    show ?thesis
    proof (cases "requests_of (fn_children st) d")
      case None
      then have "msgs_for d ?D = 0" using le [of d] old [of d] msgs_for_nonneg [of d ?D] by simp
      with None False show ?thesis using new [of d] old [of d] req [of d] by (simp add: requests_of_upd)
    next
      case (Some n)
      with False show ?thesis using new [of d] old [of d] req [of d] by (simp add: requests_of_upd)
    qed
  qed
  then show ?thesis by (simp add: ref_inv_def)
qed

lemma run_pool_msgs:
  "run_wait pl = Some pl' \<Longrightarrow> pool_content pl' = pool_content pl" "run_take pl = Some pl' \<Longrightarrow> pool_content pl' = pool_content pl"
  "put_push m pl = Some pl' \<Longrightarrow> pool_content pl' = add_mset m (pool_content pl)"
  "run_give m m' pl = Some pl' \<Longrightarrow> m \<in># pool_content pl \<and> pool_content pl' = add_mset m' (pool_content pl - {#m#})"
  "output_take pl = Some (m, pl') \<Longrightarrow> pool_content pl = add_mset m (pool_content pl')"
  by (auto simp: pool_defs pool_content_def split: if_splits list.splits)

lemma fn_step_ref_inv:
  assumes "fn_step Y E conf mv True x x'" and "peer_inv (fst x)" and "ref_inv (fst x)"
  shows "ref_inv (fst x')"
  using assms
proof (induction rule: fn_step.induct)
  case (accept st w i name st' w')
  note inv = accept(3,4) [unfolded fst_conv]
  from accept(2) show ?case
  proof (cases rule: FN_sessionNotify_cases)
    case refused
    then show ?thesis using ref_inv_same [OF inv(2), of st'] by (simp add: fn_msgs_def)
  next
    case (accepted ch)
    have "fn_children st (fn_next st) = None" using inv(1) by (auto simp: peer_inv_def)
    then have "requests_of (fn_children st) (fn_next st) = None" by (simp add: requests_of_def)
    then show ?thesis using inv(2) accepted by (auto simp: ref_inv_def requests_of_upd fn_msgs_def)
  qed
next
  case (recv st c ch0 z_pdu st' w)
  note inv = recv(6) [unfolded fst_conv]
  from recv(3,1) show ?case
  proof (cases rule: FN_recv_cases)
    case (put ch m)
    have "requests_of (fn_children st') = (requests_of (fn_children st))(c \<mapsto> ch_no_requests ch + 1)"
      using put(2) by (auto simp: requests_of_def)
    then show ?thesis using ref_inv_put [OF inv _ _ fn_msgs_put [OF recv(1) put(6,5)] put(7)] put(1) by (simp add: requests_of_def)
  next
    case (deleted ch st1)
    then have "ch_no_requests ch = 0" using recv(2,4) by simp
    moreover have "fn_msgs st' = fn_msgs st" using deleted recv(1) by (simp add: fn_msgs_def)
    moreover have "fn_children st' = (fn_children st)(c := None)" using deleted(2,5) by simp
    ultimately show ?thesis using ref_inv_delete [OF inv deleted(1)] by simp
  qed
next
  case (fail st c st' w)
  note inv = fail(4) [unfolded fst_conv]
  from fail(2,1) show ?case
  proof (cases rule: FN_fail_cases)
    case ignored
    then show ?thesis using inv by simp
  next
    case (deleted ch)
    then show ?thesis using ref_inv_delete [OF inv deleted(1,2), of st'] by (simp add: fn_msgs_def)
  next
    case (closing ch ch' cs m)
    then show ?thesis using fail_closing_ref_inv [OF inv fail(1) closing(1,2), of _ st' m] by simp
  qed
next
  case (handle st m w m' w' pl)
  then have "tp_child m' = tp_child m" by (auto simp: TP_handle_def split: option.splits prod.splits)
  moreover obtain M where "pool_content (fn_pool st) = add_mset m M" "pool_content pl = add_mset m' M"
    using run_pool_msgs(4) [OF handle(2)] by (metis insert_DiffM)
  ultimately have "msgs_for c (fn_msgs (st\<lparr>fn_pool := pl\<rparr>)) = msgs_for c (fn_msgs st)" for c by (simp add: fn_msgs_def)
  then show ?case unfolding fst_conv by (intro ref_inv_same [OF handle(4) [unfolded fst_conv]]) simp_all
next
  case (result st m pl d st' w)
  note inv = result(5) [unfolded fst_conv]
  from result(3) obtain ch where ch: "fn_children st (tp_child m) = Some ch"
    "fn_children st' = (fn_children st)(tp_child m \<mapsto> ch\<lparr>ch_no_requests := ch_no_requests ch - 1\<rparr>)" "fn_pool st' = pl" "fn_put st' = fn_put st"
    by (auto elim!: TP_result_cases)
  have "fn_msgs st = add_mset m (fn_msgs st')" using run_pool_msgs(5) [OF result(2)] ch(3,4) by (simp add: fn_msgs_def)
  then have cnt: "msgs_for c (fn_msgs st) = (if tp_child m = c then 1 else 0) + msgs_for c (fn_msgs st')" for c by simp
  have req: "requests_of (fn_children st) (tp_child m) = Some (ch_no_requests ch)"
    "requests_of (fn_children st') c = (if c = tp_child m then Some (ch_no_requests ch - 1) else requests_of (fn_children st) c)" for c
    using ch(1,2) by (simp_all add: requests_of_def)
  have "msgs_for c (fn_msgs st') = (case requests_of (fn_children st') c of None \<Rightarrow> 0 | Some n \<Rightarrow> n)" for c
    using cnt [of c] inv req by (cases "c = tp_child m") (auto simp: ref_inv_def)
  then show ?case by (simp add: ref_inv_def)
qed (auto simp: ref_inv_def fn_msgs_def run_pool_msgs)

lemma fnet_new_ref_inv: "ref_inv (fnet_new l conf)"
  by (simp add: fnet_new_def ref_inv_def requests_of_def fn_msgs_def pool_content_def pool_new_fields)

lemma fn_reachable_ref_inv: "fn_reachable Y E conf mv True l x \<Longrightarrow> ref_inv (fst x)"
  by (induction rule: fn_reachable.induct) (auto simp: fnet_new_ref_inv dest: fn_step_ref_inv fn_reachable_peer_inv)

text \<open>
  C12. As long as no connection answers a request itself while others of its requests are in progress, no child is used after
  it was deleted: its counter is the number of messages that point to it, no message points to a child that was
  deleted, and every package can be handled, its result be taken and every loss of a connection be dealt with.\<close>
theorem frontend_no_dangling:
  assumes "fn_reachable Y E conf mv True l (st, w)"
  shows "(\<forall>c ch. fn_children st c = Some ch \<longrightarrow> ch_no_requests ch = msgs_for c (fn_msgs st)) \<and>
    (\<forall>m. m \<in># fn_msgs st \<longrightarrow> fn_children st (tp_child m) \<noteq> None \<and> TP_handle mv st m w \<noteq> None) \<and>
    (\<forall>m pl d. output_take (fn_pool st) = Some (m, pl) \<longrightarrow> TP_result Y d m (st\<lparr>fn_pool := pl\<rparr>) \<noteq> None) \<and>
    (\<forall>c. fn_children st c \<noteq> None \<longrightarrow> FN_failNotify c st \<noteq> None)"
proof (intro conjI allI impI)
  note inv = fn_reachable_ref_inv [OF assms, unfolded fst_conv]
  fix c ch m pl d
  show "fn_children st c = Some ch \<Longrightarrow> ch_no_requests ch = msgs_for c (fn_msgs st)" by (rule ref_inv_count [OF inv])
  assume m: "m \<in># fn_msgs st"
  show live: "fn_children st (tp_child m) \<noteq> None" by (rule ref_inv_live [OF inv m])
  then show "TP_handle mv st m w \<noteq> None" by (auto simp: TP_handle_def split: prod.split)
next
  note inv = fn_reachable_ref_inv [OF assms, unfolded fst_conv]
  fix m pl d assume "output_take (fn_pool st) = Some (m, pl)"
  then have "m \<in># fn_msgs st" using run_pool_msgs(5) by (fastforce simp: fn_msgs_def)
  then obtain ch where "fn_children st (tp_child m) = Some ch" using ref_inv_live [OF inv] by blast
  then show "TP_result Y d m (st\<lparr>fn_pool := pl\<rparr>) \<noteq> None" by (simp add: TP_result_def Let_def split: prod.split)
next
  note inv = fn_reachable_ref_inv [OF assms, unfolded fst_conv]
  fix c assume "fn_children st c \<noteq> None"
  then obtain ch where ch: "fn_children st c = Some ch" by blast
  have "\<exists>cs'. uncount (filter P (pl_input (fn_pool st))) ((fn_children st)(c \<mapsto> ch')) = Some cs'" for P ch'
    using ref_inv_live [OF inv] by (intro uncount_defined) (auto simp: fn_msgs_def pool_content_def)
  then show "FN_failNotify c st \<noteq> None" using ch by (auto simp: FN_failNotify_def pool_cleanup_def Let_def)
qed

section \<open>Statistics\<close>

text \<open>Every response time falls into one of the 22 classes, so that the report counts each response once.\<close>

lemma duration_index_bound: "ls \<noteq> [] \<Longrightarrow> last ls = 0 \<Longrightarrow> duration_index ls d < length ls"
  by (induction ls) (auto split: if_splits)

lemma number_total_bump:
  "length ls = length ns \<Longrightarrow> ls \<noteq> [] \<Longrightarrow> last ls = 0 \<Longrightarrow> number_total ls (ns[duration_index ls d := ns ! duration_index ls d + 1]) = number_total ls ns + 1"
  by (induction ls ns rule: list_induct2) (auto split: if_splits)

lemma stat_add_counts:
  assumes "length (m_duration_freq s) = 22"
  shows "length (m_duration_freq (stat_add d s)) = 22"
    and "number_total m_duration_lim (m_duration_freq (stat_add d s)) = number_total m_duration_lim (m_duration_freq s) + 1"
    and "d \<le> m_duration_max (stat_add d s)"
proof -
  have len: "length m_duration_lim = length (m_duration_freq s)" using assms by (simp add: m_duration_lim_def)
  have "m_duration_lim \<noteq> []" "last m_duration_lim = 0" by (simp_all add: m_duration_lim_def)
  from number_total_bump [OF len this, of d]
  show "number_total m_duration_lim (m_duration_freq (stat_add d s)) = number_total m_duration_lim (m_duration_freq s) + 1"
    by (simp add: stat_add_def Let_def)
qed (use assms in \<open>simp_all add: stat_add_def Let_def\<close>)

section \<open>Signals and ports\<close>

text \<open>\<open>SIGUSR1\<close> ends nothing: the listeners are stopped once, and the loop goes on as long as connections are left.\<close>

lemma process_loop_usr1:
  assumes "0 < le_result ev" and "le_stop ev = Some SIGUSR1" and "1 < le_observers ev" and "\<not> (tt \<and> le_timeout ev)"
  shows "process_loop tt signo (ev # evs) = (let (acts, ex) = process_loop tt 0 evs in (Stop_listeners # Daemon_stop # acts, ex))"
  using assms by (auto simp: SIGTERM_def SIGUSR1_def split: prod.split)

text \<open>Connections are shut down by \<open>SIGTERM\<close> only, and that ends the loop.\<close>

lemma process_loop_shutdown:
  "Shutdown_connections \<in> set (fst (process_loop tt signo evs)) \<longleftrightarrow> snd (process_loop tt signo evs) = Loop_terminated"
  by (induction tt signo evs rule: process_loop.induct) (auto simp: Let_def split: prod.splits option.splits)

text \<open>An accepted configuration has bound all of its ports.\<close>

lemma bind_ports_ok: "bind_ports server ps = Inr () \<longleftrightarrow> (\<forall>po \<in> set ps. server (port_port po) = 0)"
  by (induction ps) auto

lemma FN_set_ports_Inr: "FN_set_ports server ports conf = Inr conf' \<Longrightarrow> bind_ports server ports = Inr () \<and> conf' = conf\<lparr>m_ports := ports\<rparr>"
  by (cases "bind_ports server ports") (auto simp: FN_set_ports_def)

lemma FN_configure_bound:
  assumes "FN_configure server ptr False conf = Inr conf'"
  shows "\<forall>po \<in> set (m_ports conf'). server (port_port po) = 0"
  using assms by (auto simp: FN_configure_def Let_def bind_ports_ok dest!: FN_set_ports_Inr split: option.splits if_splits sum.splits)

section \<open>A run\<close>

text \<open>One port, one connection for a peer, and \<open>/stat\<close> for the report.\<close>

definition fn_conf1 :: fn_conf where
  "fn_conf1 = fn_conf_new\<lparr>m_ports := [\<lparr>port_port = ''@:9000'', port_route = ''start'', port_cert_fname = [], port_max_recv_bytes = 0\<rparr>],
     connect_total := [\<lparr>ip_pattern = ''*'', ip_verbose = 1, ip_value = 1\<rparr>], m_stat_req := ''/stat''\<rparr>"

definition fn_env1 :: "unit fn_env" where
  "fn_env1 = \<lparr>lc_cleanup = id, lc_get_total = (\<lambda>_ _. 0), lc_add_connect = (\<lambda>l _. l), printf_f = (\<lambda>_. ''0''), memory_info = []\<rparr>"

definition fn_origin1 :: origin where
  "fn_origin1 = \<lparr>m_address = ''ann @:9000'', m_origin_id = 1, m_max_sockets = 0, m_custom_session = []\<rparr>"

definition fn_child1 :: "int \<Rightarrow> fn_child" where
  "fn_child1 n = \<lparr>ch_no_requests = n, ch_server = 0, ch_session = \<lparr>m_id = 1, m_close = False\<rparr>, ch_origin = fn_origin1, ch_peer = ''ann'', ch_timeout = 300\<rparr>"

definition fn_get1 :: "string \<Rightarrow> Z_GDU option" where
  "fn_get1 path = Some (GDU_HTTP_Request \<lparr>hrq_method = ''GET'', hrq_version = ''1.1'', hrq_path = path, hrq_headers = [], hrq_content = []\<rparr>)"

definition fn_msg1 :: fn_msg where
  "fn_msg1 = \<lparr>tp_child = 0, tp_package = (Package_new \<lparr>m_id = 1, m_close = False\<rparr> fn_origin1)\<lparr>pkg_request := fn_get1 ''/x''\<rparr>\<rparr>"

definition fn_accepted :: "unit fnet" where
  "fn_accepted = (fnet_new () fn_conf1)\<lparr>fn_children := [0 \<mapsto> fn_child1 0], fn_next := 1, fn_peers := [(''ann'', 1)]\<rparr>"

definition fn_received :: "unit fnet" where
  "fn_received = fn_put_msg fn_msg1 (fn_accepted\<lparr>fn_children := [0 \<mapsto> fn_child1 1]\<rparr>)"

definition fn_queued :: "unit fnet" where
  "fn_queued = fn_received\<lparr>fn_pool := (fn_pool fn_received)\<lparr>pl_input := [fn_msg1]\<rparr>, fn_put := None\<rparr>"

lemmas fn_run1 = fn_conf1_def fn_env1_def fn_origin1_def fn_child1_def fn_get1_def fn_msg1_def fnet_new_def fn_conf_new_def pool_new_fields

lemma run_accepted: "FN_sessionNotify yaz_ref fn_env1 fn_conf1 0 (Some ''tcp:ann'') (fnet_new () fn_conf1) \<lparr>m_global_id = 0\<rparr> = Some (fn_accepted, \<lparr>m_global_id = 1\<rparr>)"
  by (simp add: FN_sessionNotify_def fn_accepted_def fn_run1 peer_of_def strchr_split_def match_ip_def yaz_ref_def upd_server_def child_new_def
      Session_new_def Origin_set_tcpip_address_def Origin_new_def PeerStat_add_def Let_def)

lemma run_received: "FN_recv_GDU yaz_ref fn_env1 fn_conf1 0 (fn_get1 ''/x'') fn_accepted = Some fn_received"
  by (simp add: FN_recv_GDU_def fn_received_def fn_accepted_def fn_run1 request_origin_def yaz_ref_def header_lookup_ref_def is_stat_req_def upd_server_def fn_put_msg_def Let_def)

lemma run_queued: "put_push fn_msg1 (fn_pool fn_received) = Some ((fn_pool fn_received)\<lparr>pl_input := [fn_msg1]\<rparr>)"
  by (simp add: put_push_def fn_received_def fn_accepted_def fn_put_msg_def put_enter_def add_worker_def queue_size_per_thread_def fnet_new_def fn_conf1_def
      fn_conf_new_def pool_new_fields)

lemma reach_accepted: "fn_reachable yaz_ref fn_env1 fn_conf1 mv calm () (fn_accepted, \<lparr>m_global_id = 1\<rparr>)"
  by (rule fn_reachable.step [OF fn_reachable.init fn_step.accept [OF _ run_accepted]]) (simp add: fnet_new_def)

lemma reach_received: "fn_reachable yaz_ref fn_env1 fn_conf1 mv calm () (fn_received, \<lparr>m_global_id = 1\<rparr>)"
  by (rule fn_reachable.step [OF reach_accepted fn_step.recv [OF _ _ run_received]])
    (simp_all add: fn_accepted_def fn_received_def fn_put_msg_def fnet_new_def)

lemma reach_queued: "fn_reachable yaz_ref fn_env1 fn_conf1 mv calm () (fn_queued, \<lparr>m_global_id = 1\<rparr>)"
  unfolding fn_queued_def
  by (rule fn_reachable.step [OF reach_received fn_step.push [OF _ run_queued]]) (simp add: fn_received_def fn_put_msg_def)

text \<open>The case that \<open>calm\<close> excludes: a request for the report comes while another request of the connection is in progress.
  The child is deleted, and the thread that takes the other request uses it.\<close>

lemma frontend_dangling:
  "\<exists>st. fn_reachable yaz_ref fn_env1 fn_conf1 mv False () (st, \<lparr>m_global_id = 1\<rparr>) \<and> fn_msg1 \<in># fn_msgs st \<and> TP_handle mv st fn_msg1 w = None"
proof -
  obtain g where g: "FN_recv_GDU yaz_ref fn_env1 fn_conf1 0 (fn_get1 ''/stat'') fn_queued =
      Some (child_delete 0 (fn_send 0 g (fn_queued\<lparr>fn_children := [0 \<mapsto> fn_child1 2]\<rparr>)))"
    by (simp add: FN_recv_GDU_def fn_queued_def fn_received_def fn_accepted_def fn_run1 request_origin_def yaz_ref_def header_lookup_ref_def is_stat_req_def fn_put_msg_def Let_def)
  let ?st = "child_delete 0 (fn_send 0 g (fn_queued\<lparr>fn_children := [0 \<mapsto> fn_child1 2]\<rparr>))"
  have q: "fn_put fn_queued = None" "fn_children fn_queued 0 = Some (fn_child1 1)" "fn_msg1 \<in># fn_msgs fn_queued"
    by (simp_all add: fn_queued_def fn_received_def fn_accepted_def fn_put_msg_def fn_msgs_def pool_content_def)
  have "fn_reachable yaz_ref fn_env1 fn_conf1 mv False () (?st, \<lparr>m_global_id = 1\<rparr>)"
    by (rule fn_reachable.step [OF reach_queued fn_step.recv [OF q(1,2) g]]) simp
  moreover have "fn_msgs ?st = fn_msgs fn_queued" by (simp add: fn_msgs_def)
  moreover have "TP_handle mv ?st fn_msg1 w = None" by (simp add: TP_handle_def fn_msg1_def)
  ultimately show ?thesis using q(3) by metis
qed

text \<open>The hypotheses hold: a connection is accepted, and a request of it is to be put.\<close>

theorem frontend_connections_bounded_witness:
  "connections ''ann'' fn_accepted = 1 \<and> limit_of yaz_ref (connect_total fn_conf1) ''ann'' = Some 1 \<and> int (connections ''ann'' fn_accepted) \<le> max 1 0"
proof -
  have "limit_of yaz_ref (connect_total fn_conf1) ''ann'' = Some 1"
    by (simp add: fn_conf1_def match_ip_def yaz_ref_def)
  moreover have "PeerStat_get ''ann'' (fn_peers fn_accepted) = 1" by (simp add: fn_accepted_def)
  ultimately show ?thesis using frontend_connections_bounded [OF reach_accepted, where peer = "''ann''"] by simp
qed

theorem frontend_no_dangling_witness:
  "msgs_for 0 (fn_msgs fn_received) = 1 \<and> TP_handle (\<lambda>r p w. (p, w)) fn_received fn_msg1 \<lparr>m_global_id = 1\<rparr> \<noteq> None \<and> FN_failNotify 0 fn_received \<noteq> None"
proof -
  have "fn_children fn_received 0 = Some (fn_child1 1)" "fn_msg1 \<in># fn_msgs fn_received" "ch_no_requests (fn_child1 1) = 1"
    by (simp_all add: fn_received_def fn_put_msg_def fn_msgs_def fn_child1_def)
  with frontend_no_dangling [OF reach_received, where mv = "\<lambda>r p w. (p, w)"] show ?thesis by (metis option.distinct(1))
qed

end
