(* ===== verification/Spec2Isabelle.thy ===== *)
theory Spec2Isabelle
  imports MP_Util_Props MP_Html_Parser MP_Limit MP_Present_Chunk MP_Load_Balance MP_Virt_Db MP_Multi_Search
    MP_Shared_Process MP_Auth_Simple MP_Sort MP_Flexml MP_SD_Remove MP_Z3950_Client_Props MP_Sru_Props
    MP_Http_File MP_Log MP_Bounce MP_Url_Recipe
    MP_Http_Rewrite_Props MP_Http_Rewrite1 MP_Record_Transform MP_Query_Filters MP_Http_Client MP_Zeerex
    MP_Frontend_Net_Props
begin

text \<open>
  Metaproxy, a proxy for Z39.50, SRU and HTTP, is a set of filters. A package (a request, the
  session it belongs to, its origin and later a response) travels along a route, a list of filters;
  each filter may answer the package itself, change it, move it on, create packages of its own
  and keep state of its own for every session.

  \<^bold>\<open>How the model is built.\<close> A filter is a function on its own state, the package and the world
  (the state all filters share: the counter of session identifiers, extensible by what later
  filters keep). Moving a package on is a continuation \<open>mv\<close> of type \<open>move_fn\<close>: everything behind the
  current position of the route, so that theorems hold for every rest of the chain. The C structs
  and functions of the YAZ toolkit that the sources call are no part of this repository: data is
  modelled field by field as far as the code looks at it, and functions are the fields of the
  parameter record \<open>yaz\<close>. What is assumed of them is stated as named hypotheses (\<open>oi_laws\<close>), and
  \<open>MP_Yaz_Ref\<close> gives a concrete value that meets them for the instances. Objects that
  are shared by pointer and change (the backends of the multi and the session_shared filter) live in a store, and pointers are
  indices. Exceptions are values of a sum
  type. What has no defined result in C++ (a null pointer, the wrong member of a
  union, an index outside of an array) is \<open>None\<close> or an error value. Integers that the code stores at a
  fixed width keep it: session identifiers are 64-bit words, the statistics of the load balancer 32-bit words,
  and the narrowing of an \<open>Odr_int\<close> to \<open>int\<close> is \<open>to_int32\<close>.

  \<^bold>\<open>Theories.\<close>
  \<^item> \<open>MP_Prelude\<close>: integers of C++, splitting of strings, facts on lists.
  \<^item> \<open>MP_Protocol\<close>: APDUs, HTTP messages and the parameter record \<open>yaz\<close>.
  \<^item> \<open>MP_Core\<close>: \<open>include/metaproxy/session.hpp\<close>, \<open>src/origin.cpp\<close>, \<open>src/package.cpp\<close>,
    \<open>src/router_chain.cpp\<close>. Session identifiers are different up to the wrap-around of the counter; a forwarded
    address does not change the address of the peer; a package meets the filters in order (locale
    \<open>route_position\<close>, interpreted on the positions of the chain).
  \<^item> \<open>MP_Xml\<close>: \<open>src/xmlutil.cpp\<close>, which every \<open>configure\<close> uses.
  \<^item> \<open>MP_Util\<close>, \<open>MP_Yaz_Ref\<close>, \<open>MP_Util_Props\<close>: \<open>src/util.cpp\<close>. Virtual hosts in the other information of an
    APDU, target URLs, comparison, the piggyback rule, responses with the reference identifier of
    their request.
  \<^item> \<open>MP_Html_Parser\<close>: \<open>src/html_parser.cpp\<close>, a scanner that turns a document into events.
  \<^item> \<open>MP_Limit\<close>: \<open>src/filter_limit.cpp\<close>. Statistics of sessions in every interleaving, the limits on
    record retrieval and the delay.
  \<^item> \<open>MP_Present_Chunk\<close>: \<open>src/filter_present_chunk.cpp\<close>. The loop over the chunks is a
    \<open>partial_function\<close>: that it ends with all the records is proved for targets that make progress,
    that it does not end for a target that answers with no records.
  \<^item> \<open>MP_Load_Balance\<close>: \<open>src/filter_load_balance.cpp\<close>. Choice of the cheapest target, the loop over
    failing targets (it ends since each round removes a target), statistics.
  \<^item> \<open>MP_Frontends\<close>: the contract of the table of frontends that several filters keep, one per session
    and used by one package at a time (locale \<open>frontend_pool\<close>); it is interpreted on the
    tables of the virt_db, the multi, the session_shared, the sort and the sru_z3950 filter.
  \<^item> \<open>MP_Virt_Db\<close>: \<open>src/filter_virt_db.cpp\<close>. Virtual databases are mapped to targets; result sets of
    the client live on backend sessions. The invariant that every result set lives on a backend
    of its frontend is kept by every request.
  \<^item> \<open>MP_Multi_Merge\<close>, \<open>MP_Multi_Scan\<close>, \<open>MP_Multi\<close>, \<open>MP_Multi_Present\<close>, \<open>MP_Multi_Search\<close>:
    \<open>src/filter_multi.cpp\<close>. One client session is
    served by several backend sessions. The merge orders are specified as sequences (\<open>rr_sequence\<close>,
    \<open>serve_sequence\<close>) and the code returns windows of them (locale of merge orders, interpreted on both); scan
    responses are merged in sorted order; a search answers with the sum of the counts, and a search or present request from end to end
    returns the records of the merged sequence, in whatever order the threads run.
  \<^item> \<open>MP_Shared\<close>: \<open>src/filter_session_shared.cpp\<close>. Clients with the same init key share a class of backend
    sessions, and searches that agree share result sets on them. \<open>MP_Shared_Props\<close>: who shares a
    class (the order of keys is an interpretation of \<open>linorder\<close>), references to result sets, expiry, the
    number of sessions. \<open>MP_Shared_Target\<close>: the contract of the targets (\<open>SS_target\<close>: what a
    session holds under a name, counts and records) and the invariant \<open>SS_sync\<close> that ties the result sets
    of a class to the sets the targets hold; every operation keeps it. \<open>MP_Shared_Process\<close>: every package
    keeps the state consistent, and clients get the counts and records of their own queries, whoever
    made the search. The counter of sessions must not wrap during a request (\<open>SS_room\<close>): a request moves
    at most 14 packages or sessions.

  \<^item> \<open>MP_Auth_Simple\<close>: \<open>src/filter_auth_simple.cpp\<close>. User and target registers are read line by line; a
    session belongs to a user only by the credentials of one of its own init requests, and only
    admitted databases and targets are passed on.
  \<^item> \<open>MP_Sort\<close>: \<open>src/filter_sort.cpp\<close>. The first records of a result set are fetched, sorted by a score and
    served from the sorted list (locale \<open>list_sort_order\<close>: the contract of \<open>std::list::sort\<close>, interpreted
    on the order of the scores).
  \<^item> \<open>MP_Flexml\<close>: \<open>src/router_flexml.cpp\<close> and \<open>src/factory_filter.cpp\<close>. The router built from a configuration
    file: accepted configurations refer to existing filters and routes only, and a package meets the
    filters of its route in order (\<open>route_position\<close>, interpreted on its positions).

  \<^item> \<open>MP_Backend_Test\<close>: \<open>src/filter_backend_test.cpp\<close>, a server with a result set of its own. It is what
    \<open>present_chunk\<close> assumes of a target (\<open>serves\<close>), so that the two together are one chain in which chunking
    changes no record. \<open>MP_SD_Remove\<close>: \<open>src/filter_sd_remove.cpp\<close>, surrogate diagnostics as text records.
  \<^item> \<open>MP_Z3950_Client\<close>, \<open>MP_Z3950_Client_Props\<close>: \<open>src/filter_z3950_client.cpp\<close>. The association with a target and
    what its socket reports; \<open>zc_step\<close> is the step relation of the packages that get, use and release
    associations. In every reachable state an association is used by one package and deleted only
    when none refers to it, and the number of connections is bounded; a request is answered within the
    time limit.

  \<^item> \<open>MP_Sru\<close>, \<open>MP_Sru_Props\<close>: \<open>src/sru_util.cpp\<close> and \<open>src/filter_sru_to_z3950.cpp\<close>. An HTTP request becomes an
    Init, a Search, Present requests and a Close on the rest of the chain. The loop of Present requests is
    a \<open>partial_function\<close>; over a target that \<open>serves\<close> its result set it ends with the records asked for,
    and a search is followed from end to end over the test backend. Its table of clients is an
    interpretation of \<open>frontend_pool\<close>.

  \<^item> \<open>MP_Files\<close>: \<open>src/plainfile.cpp\<close> and the input stream that the readers of text files use.
    \<open>MP_Http_File\<close>: \<open>src/filter_http_file.cpp\<close>. Paths of HTTP requests are mapped to files; what is read lies
    below the document roots (\<open>below\<close>, by lexical resolution of file names), and a file of MIME types is
    read back as it was written.

  \<^item> \<open>MP_Gdu_Text\<close>: \<open>src/gduutil.cpp\<close>, the printed form of packages; it tells the kind of a package.
    \<open>MP_Log\<close>: \<open>src/filter_log.cpp\<close>. What is written is a list of events in the world, to which the
    filters behind may append too; the filter changes no package, and a line carries the user of its own
    session. \<open>MP_Bounce\<close>: \<open>src/filter_bounce.cpp\<close>, which answers every request and closes the session.
  \<^item> \<open>MP_Url_Recipe\<close>: \<open>src/url_recipe.cpp\<close>. Recipes are specified as lists of characters and fields with a printed
    form; the code replaces each field by its value.

  \<^item> \<open>MP_Http_Rewrite\<close>, \<open>MP_Http_Rewrite_Props\<close>: \<open>src/filter_http_rewrite.cpp\<close>. Rules rewrite request lines, headers
    and bodies; HTML goes through the events of the scanner. A rewriting is specified by the pieces it
    splits a text into (\<open>pieces_ok\<close>), scripts by their literals (\<open>part_ok\<close>). The loops over matches and over
    headers are \<open>partial_function\<close>s: they end when no expression matches the empty text (\<open>never_empty\<close>), and one
    that does is applied forever. Boost is a parameter with the law \<open>regex_laws\<close>; \<open>boost_literal\<close> meets it.
    \<open>MP_Http_Rewrite1\<close>: \<open>src/filter_http_rewrite1.cpp\<close>, an older filter for bodies of responses.
  \<^item> Filters around other libraries, which are parameters; what they are asked for and what becomes of their
    results is modelled. \<open>MP_Record_Transform\<close>: \<open>src/filter_record_transform.cpp\<close>, conversion of records; a search is
    never answered with records that are not converted (by \<open>piggyback_sr\<close> of \<open>MP_Util\<close>, for every number of
    hits). \<open>MP_Query_Filters\<close>: \<open>src/filter_cql_rpn.cpp\<close> and \<open>src/filter_query_rewrite.cpp\<close>. \<open>MP_Http_Client\<close>:
    \<open>src/filter_http_client.cpp\<close> and \<open>src/torus.cpp\<close>. \<open>MP_Zeerex\<close>: \<open>src/filter_zeerex_explain.cpp\<close>.
  \<^item> \<open>MP_Thread_Pool\<close>: \<open>src/thread_pool_observer.cpp\<close>, the bounded queue of the worker threads; no message is lost or
    made up in any interleaving, and a full queue always moves on. \<open>MP_Frontend_Net\<close>, \<open>MP_Frontend_Net_Props\<close>:
    \<open>src/filter_frontend_net.cpp\<close>, where packages come from. Connections, the messages of the pool that point to them,
    limits and statistics are one state; the event loop and the threads are an inductive step relation (\<open>fn_step\<close>).
    The connections of a peer are counted and bounded in every run. A connection outlives the messages that point to it in
    the runs in which it does not delete itself while requests are in progress; \<open>frontend_dangling\<close> is a run in which it
    does.

  \<^bold>\<open>Bounds.\<close> No definition takes fuel. Loops that end for a reason of their own have a measure;
  loops that need not end are \<open>partial_function (option)\<close>, with theorems that say when they return.

  \<^bold>\<open>Not modelled.\<close> Messages of single filters to the log of YAZ, sleeping, sockets, threads other than the interleavings named
  above, and what is mostly calls to other libraries and to the operating system: the zoom filter (the ZOOM client and
  libxslt), cgi (processes and pipes), pipes and the main program.
\<close>

end
